(* ===== verification/Py_Prelude.thy ===== *)
theory Py_Prelude
  imports
    Complex_Main
    "HOL-Library.AList"
    "HOL-Library.Char_ord"
    "HOL-Library.List_Lexorder"
begin

text \<open>
  Shared vocabulary of the development: Python dictionaries as association lists in
  insertion order, the dynamically typed values that flow through plans, snapshots and
  event payloads, exceptions as values, and the few string operations the code uses.

  Text is the list of its UTF-8 bytes; \<open>strip\<close> removes ASCII white space. Python's
  floating point numbers are rationals (rounding is not modelled). A call of \<open>time()\<close>
  is a read of a clock, a function from the number of the read to the value it returns.
\<close>

named_theorems dict_simps "lookups in updated dictionaries"

section \<open>Dictionaries\<close>

type_synonym 'v dict = "(string \<times> 'v) list"
type_synonym pyfloat = rat
type_synonym clock = "nat \<Rightarrow> pyfloat"

abbreviation dget :: "('k \<times> 'v) list \<Rightarrow> 'k \<Rightarrow> 'v option" where
  "dget d k \<equiv> map_of d k"

abbreviation dset :: "('k \<times> 'v) list \<Rightarrow> 'k \<Rightarrow> 'v \<Rightarrow> ('k \<times> 'v) list" where
  "dset d k v \<equiv> AList.update k v d"

abbreviation dpop :: "('k \<times> 'v) list \<Rightarrow> 'k \<Rightarrow> ('k \<times> 'v) list" where
  "dpop d k \<equiv> AList.delete k d"

abbreviation dkeys :: "('k \<times> 'v) list \<Rightarrow> 'k list" where
  "dkeys d \<equiv> map fst d"

definition dget_or :: "('k \<times> 'v) list \<Rightarrow> 'k \<Rightarrow> 'v \<Rightarrow> 'v" where
  "dget_or d k v = (case dget d k of None \<Rightarrow> v | Some w \<Rightarrow> w)"

definition dsetdefault :: "('k \<times> 'v) list \<Rightarrow> 'k \<Rightarrow> 'v \<Rightarrow> ('k \<times> 'v) list" where
  "dsetdefault d k v = (case dget d k of None \<Rightarrow> dset d k v | Some _ \<Rightarrow> d)"

text \<open>\<open>{k: v for k, v in items}\<close>: a later item with the same key overwrites in place.\<close>

definition dict_of :: "('k \<times> 'v) list \<Rightarrow> ('k \<times> 'v) list" where
  "dict_of items = fold (\<lambda>(k, v) d. dset d k v) items []"

lemma dget_dset [simp, dict_simps]: "dget (dset d k v) k' = (if k' = k then Some v else dget d k')"
  by (simp add: update_conv')

lemma dget_dpop [simp, dict_simps]: "dget (dpop d k) k' = (if k' = k then None else dget d k')"
  by (simp add: AList.delete_conv')

lemma dget_dsetdefault [simp, dict_simps]:
  "dget (dsetdefault d k v) k' =
    (if k' = k then Some (case dget d k of None \<Rightarrow> v | Some w \<Rightarrow> w) else dget d k')"
  by (auto simp: dsetdefault_def split: option.splits)

lemma dget_or_dset [simp, dict_simps]: "dget_or (dset d k v) k' w = (if k' = k then v else dget_or d k' w)"
  by (simp add: dget_or_def)

lemma dget_or_dpop [simp, dict_simps]: "dget_or (dpop d k) k' w = (if k' = k then w else dget_or d k' w)"
  by (simp add: dget_or_def)

lemma dkeys_dset [dict_simps]: "set (dkeys (dset d k v)) = insert k (set (dkeys d))"
  by (simp add: update_keys insert_absorb)

lemma distinct_dset: "distinct (dkeys d) \<Longrightarrow> distinct (dkeys (dset d k v))"
  by (rule distinct_update)

lemma dkeys_dset_in [dict_simps]: "k \<in> set (dkeys d) \<Longrightarrow> dkeys (dset d k v) = dkeys d"
  by (simp add: update_keys)

lemma dget_None_iff: "dget d k = None \<longleftrightarrow> k \<notin> set (dkeys d)"
  by (simp add: map_of_eq_None_iff)

lemma dget_Some_iff: "(\<exists>v. dget d k = Some v) \<longleftrightarrow> k \<in> set (dkeys d)"
  using dget_None_iff [of d k] by (metis not_None_eq)

lemma dget_in_keys: "dget d k = Some v \<Longrightarrow> k \<in> fst ` set d"
  by (drule map_of_SomeD) (auto intro: rev_image_eqI)

lemma in_keys_dget: "k \<in> fst ` set d \<Longrightarrow> \<exists>v. dget d k = Some v"
  using dget_Some_iff [of d k] by simp

lemma dset_same_append: "k \<notin> set (dkeys d) \<Longrightarrow> dset d k v = d @ [(k, v)]"
  by (induction d) auto

lemma dict_of_fold_distinct:
  "distinct (dkeys (acc @ items)) \<Longrightarrow> fold (\<lambda>(k, v) d. dset d k v) items acc = acc @ items"
proof (induction items arbitrary: acc)
  case Nil
  then show ?case by simp
next
  case (Cons kv items)
  obtain k v where kv: "kv = (k, v)" by (cases kv)
  with Cons.prems have "dset acc k v = acc @ [(k, v)]" by (intro dset_same_append) auto
  with Cons.IH [of "acc @ [(k, v)]"] Cons.prems kv show ?case by simp
qed

text \<open>A dictionary read item by item into a fresh one is the same dictionary.\<close>

lemma dict_of_distinct [dict_simps]: "distinct (dkeys d) \<Longrightarrow> dict_of d = d"
  unfolding dict_of_def using dict_of_fold_distinct [of "[]" d] by simp

lemma map_of_map_values:
  "dget (map (\<lambda>(k, v). (k, f v)) d) k = map_option f (dget d k)"
  by (induction d) auto

section \<open>Python values\<close>

datatype pyval =
    PNone
  | PBool bool
  | PInt int
  | PFloat pyfloat
  | PStr string
  | PList "pyval list"
  | PDict "(string \<times> pyval) list"

text \<open>\<open>bool(v)\<close>\<close>

fun truthy :: "pyval \<Rightarrow> bool" where
  "truthy PNone = False"
| "truthy (PBool b) = b"
| "truthy (PInt i) = (i \<noteq> 0)"
| "truthy (PFloat q) = (q \<noteq> 0)"
| "truthy (PStr s) = (s \<noteq> [])"
| "truthy (PList xs) = (xs \<noteq> [])"
| "truthy (PDict d) = (d \<noteq> [])"

text \<open>\<open>d.get(k)\<close> with the default \<open>None\<close> as a value.\<close>

definition pget :: "pyval dict \<Rightarrow> string \<Rightarrow> pyval" where
  "pget d k = dget_or d k PNone"

definition is_dict :: "pyval \<Rightarrow> bool" where
  "is_dict v = (case v of PDict _ \<Rightarrow> True | _ \<Rightarrow> False)"

lemma pget_dset [simp]: "pget (dset d k v) k' = (if k' = k then v else pget d k')"
  by (simp add: pget_def dget_or_def)

section \<open>Strings\<close>

fun nat_str :: "nat \<Rightarrow> string" where
  "nat_str n = (if n < 10 then [char_of (48 + n)] else nat_str (n div 10) @ [char_of (48 + n mod 10)])"

declare nat_str.simps [simp del]

definition int_str :: "int \<Rightarrow> string" where
  "int_str i = (if i < 0 then CHR ''-'' # nat_str (nat (- i)) else nat_str (nat i))"

text \<open>
  \<open>str(v)\<close>. The text of a float or of a container is the interpreter's \<open>repr\<close>, which is
  left as the argument \<open>rp\<close>.
\<close>

definition py_str :: "(pyval \<Rightarrow> string) \<Rightarrow> pyval \<Rightarrow> string" where
  "py_str rp v = (case v of
      PNone \<Rightarrow> ''None''
    | PBool b \<Rightarrow> (if b then ''True'' else ''False'')
    | PInt i \<Rightarrow> int_str i
    | PStr s \<Rightarrow> s
    | _ \<Rightarrow> rp v)"

definition is_space :: "char \<Rightarrow> bool" where
  "is_space c = (let n = (of_char c :: nat) in (9 \<le> n \<and> n \<le> 13) \<or> (28 \<le> n \<and> n \<le> 32))"

definition strip :: "string \<Rightarrow> string" where
  "strip s = rev (dropWhile is_space (rev (dropWhile is_space s)))"

definition newline :: string where
  "newline = [CHR 0x0A]"

fun join :: "string \<Rightarrow> string list \<Rightarrow> string" where
  "join sep [] = []"
| "join sep [x] = x"
| "join sep (x # y # xs) = x @ sep @ join sep (y # xs)"

text \<open>ASCII \<open>lower\<close>, \<open>in\<close> and \<open>startswith\<close> on text.\<close>

definition lower_char :: "char \<Rightarrow> char" where
  "lower_char c = (let n = (of_char c :: nat) in if 65 \<le> n \<and> n \<le> 90 then char_of (n + 32) else c)"

definition lower :: "string \<Rightarrow> string" where
  "lower s = map lower_char s"

fun contains :: "string \<Rightarrow> string \<Rightarrow> bool" where
  "contains p [] = (p = [])"
| "contains p (x # xs) = (take (length p) (x # xs) = p \<or> contains p xs)"

definition contains_any :: "string list \<Rightarrow> string \<Rightarrow> bool" where
  "contains_any ps s = list_ex (\<lambda>p. contains p s) ps"

definition starts_with :: "string \<Rightarrow> string \<Rightarrow> bool" where
  "starts_with p s = (take (length p) s = p)"

text \<open>The first n characters of a text kept as its UTF-8 bytes.\<close>

fun take_chars :: "nat \<Rightarrow> string \<Rightarrow> string" where
  "take_chars n [] = []"
| "take_chars n (c # cs) =
    (if (of_char c :: nat) div 64 = 2 then c # take_chars n cs
     else if n = 0 then [] else c # take_chars (n - 1) cs)"

definition char_length :: "string \<Rightarrow> nat" where
  "char_length s = length (filter (\<lambda>c. (of_char c :: nat) div 64 \<noteq> 2) s)"

lemma char_length_simps [simp]:
  "char_length [] = 0" "char_length (s @ t) = char_length s + char_length t"
  "char_length (c # s) = (if (of_char c :: nat) div 64 = 2 then 0 else 1) + char_length s"
  by (simp_all add: char_length_def)

lemma char_length_take: "char_length (take_chars n s) \<le> n"
  by (induction n s rule: take_chars.induct) auto

lemma nat_str_nonempty [simp]: "nat_str n \<noteq> []"
  by (subst nat_str.simps) simp

lemma int_str_nonempty [simp]: "int_str i \<noteq> []"
  by (simp add: int_str_def)

lemma strip_Nil [simp]: "strip [] = []"
  by (simp add: strip_def)

lemma strip_strip [simp]: "strip (strip s) = strip s"
proof -
  let ?d = "dropWhile is_space"
  have tail: "?d (rev (?d (rev (?d s)))) = rev (?d (rev (?d s)))"
  proof (cases "?d (rev (?d s))")
    case Nil
    show ?thesis unfolding Nil by simp
  next
    case (Cons x xs)
    obtain ys where ys: "rev (?d s) = ys @ ?d (rev (?d s))"
      by (metis takeWhile_dropWhile_id)
    then have "?d s = rev (?d (rev (?d s))) @ rev ys" by (metis rev_append rev_rev_ident)
    moreover have "rev (?d (rev (?d s))) \<noteq> []" using Cons by simp
    ultimately have "hd (rev (?d (rev (?d s)))) = hd (?d s)" by (metis hd_append2)
    moreover have "?d s \<noteq> []"
      using Cons by (metis dropWhile.simps(1) list.distinct(1) rev.simps(1))
    ultimately have "\<not> is_space (hd (rev (?d (rev (?d s)))))" using hd_dropWhile by metis
    then show ?thesis by (metis dropWhile_eq_self_iff)
  qed
  then show ?thesis by (simp add: strip_def)
qed

section \<open>Exceptions\<close>

text \<open>
  The exception classes the modelled code raises or catches. The application classes keep
  their place in Python's hierarchy: \<open>A2PlanExecutionError\<close>, \<open>SkillInvocationError\<close>,
  \<open>CircuitBreakerOpenError\<close>, \<open>ToolBlockedError\<close> and \<open>SkillPolicyDenied\<close> are runtime errors, \<open>A2PlanValidationError\<close> is a value error.
  \<open>AppError\<close> names an application class that is neither.
\<close>

datatype exn_kind =
    RuntimeError
  | TimeoutError
  | ConnectionError
  | ValueError
  | TypeError
  | KeyError
  | A2PlanExecutionError
  | A2PlanValidationError
  | SkillInvocationError
  | CircuitBreakerOpenError
  | ToolBlockedError
  | SkillPolicyDenied
  | AppError string
  | OtherError

datatype exn = Exn (exn_kind: exn_kind) (exn_text: string)

text \<open>\<open>isinstance(e, (RuntimeError, TimeoutError, ConnectionError))\<close>\<close>

definition is_runtime_kind :: "exn_kind \<Rightarrow> bool" where
  "is_runtime_kind k =
    (k \<in> {RuntimeError, A2PlanExecutionError, SkillInvocationError, CircuitBreakerOpenError,
       ToolBlockedError, SkillPolicyDenied})"

definition is_value_kind :: "exn_kind \<Rightarrow> bool" where
  "is_value_kind k = (k \<in> {ValueError, A2PlanValidationError})"

section \<open>Lists\<close>

text \<open>\<open>[item for item in xs if item != x]\<close>\<close>

definition drop_item :: "'a \<Rightarrow> 'a list \<Rightarrow> 'a list" where
  "drop_item x xs = filter (\<lambda>y. y \<noteq> x) xs"

text \<open>\<open>if x not in xs: xs.append(x)\<close>\<close>

definition append_new :: "'a \<Rightarrow> 'a list \<Rightarrow> 'a list" where
  "append_new x xs = (if x \<in> set xs then xs else xs @ [x])"

text \<open>\<open>list(dict.fromkeys(xs))\<close>\<close>

definition dedup :: "string list \<Rightarrow> string list" where
  "dedup xs = fold append_new xs []"

lemma set_append_new [simp]: "set (append_new x xs) = insert x (set xs)"
  by (auto simp: append_new_def)

lemma distinct_append_new [simp]: "distinct (append_new x xs) = distinct xs"
  by (simp add: append_new_def)

lemma fold_append_new: "set (fold append_new xs ys) = set xs \<union> set ys" "distinct (fold append_new xs ys) = distinct ys"
  by (induction xs arbitrary: ys) auto

lemma dedup_simps [simp]: "set (dedup xs) = set xs" "distinct (dedup xs)"
  by (simp_all add: dedup_def fold_append_new)

lemma set_drop_item [simp]: "set (drop_item x xs) = set xs - {x}"
  by (auto simp: drop_item_def)

lemma distinct_drop_item [simp]: "distinct xs \<Longrightarrow> distinct (drop_item x xs)"
  by (simp add: drop_item_def)

end
