(* ===== verification/Plan_Context.thy ===== *)
theory Plan_Context
  imports Py_Prelude
begin

text \<open>
  The data of a plan: \<open>StepStatus\<close>, \<open>PlanStatus\<close>, \<open>PlanStep\<close> and \<open>TaskContext\<close> of
  \<open>core/plan_orchestrator.py\<close> with the context's own methods.

  \<open>TaskContext\<close> is an extensible record, so that the same operations act on the bare
  context and on the worlds of later theories that extend it. Its last field
  \<open>clock_reads\<close> has no counterpart in the class: it counts the calls of \<open>time()\<close>, so that
  each call can return a different value. The methods that read the clock take it as their
  first argument.
\<close>

section \<open>Statuses\<close>

datatype step_status =
    PENDING | READY | RUNNING | DONE | FAILED | SKIPPED | DEGRADED | BLOCKED | CANCELLED

datatype plan_status =
    Plan_PENDING | Plan_RUNNING | Plan_PAUSED | Plan_DONE | Plan_FAILED | Plan_CANCELLED

definition FINAL_STEP_STATUSES :: "step_status set" where
  "FINAL_STEP_STATUSES = {DONE, FAILED, SKIPPED, DEGRADED, CANCELLED}"

definition DEPENDENCY_SATISFIED_STATUSES :: "step_status set" where
  "DEPENDENCY_SATISFIED_STATUSES = {DONE, SKIPPED, DEGRADED}"

definition DEPENDENCY_FAILED_STATUSES :: "step_status set" where
  "DEPENDENCY_FAILED_STATUSES = {FAILED, BLOCKED, CANCELLED}"

definition FINAL_PLAN_STATUSES :: "plan_status set" where
  "FINAL_PLAN_STATUSES = {Plan_DONE, Plan_FAILED, Plan_CANCELLED}"

lemmas status_sets =
  FINAL_STEP_STATUSES_def DEPENDENCY_SATISFIED_STATUSES_def
  DEPENDENCY_FAILED_STATUSES_def FINAL_PLAN_STATUSES_def

section \<open>Steps and contexts\<close>

datatype subagent_role = Implementer | Reviewer

record plan_step =
  step_id :: string
  skill_id :: string
  result_key :: string
  depends_on :: "string list"
  condition_key :: "string option"
  retry_max :: int
  retry_backoff_s :: pyfloat
  degrade_value :: pyval
  require_consent :: bool
  idempotency_key :: "string option"
  step_payload :: "pyval dict"
  fail_fast :: bool
  step_title :: string
  step_description :: string
  expected_output :: string
  verification :: string
  completion_criteria :: string
  step_stage :: "string option"
  estimated_minutes :: int
  step_files :: "string list"
  subagent_type :: "subagent_role option"

record task_context =
  plan_id :: string
  snapshot_version :: int
  status :: plan_status
  steps :: "plan_step dict"
  step_status :: "step_status dict"
  step_results :: "pyval dict"
  step_errors :: "string dict"
  step_attempts :: "int dict"
  processed_steps :: "string list"
  published_step_events :: "string list"
  trace_id :: string
  context_vars :: "pyval dict"
  ctx_error :: "string option"
  paused_reason :: "string option"
  paused_step_id :: "string option"
  plan_status :: "string option"
  started_at :: "pyfloat option"
  updated_at :: "pyfloat option"
  completed_at :: "pyfloat option"
  step_started_at :: "pyfloat dict"
  step_completed_at :: "pyfloat dict"
  step_consent_requests :: "pyval dict dict"
  step_route_decisions :: "pyval dict dict"
  feedback_overrides :: "string dict"
  quality_retry_counts :: "int dict"
  dependency_satisfied_set :: "string set"
  clock_reads :: nat

text \<open>The status the engine reads for a step, \<open>PENDING\<close> when the dictionary has none.\<close>

definition status_of :: "('a task_context_scheme) \<Rightarrow> string \<Rightarrow> step_status" where
  "status_of c sid = dget_or (step_status c) sid PENDING"

section \<open>Methods of TaskContext\<close>

definition rebuild_dependency_satisfied_set ::
  "'a task_context_scheme \<Rightarrow> 'a task_context_scheme" where
  "rebuild_dependency_satisfied_set c = c\<lparr>dependency_satisfied_set :=
     {sid \<in> set (processed_steps c).
        case dget (step_status c) sid of
          None \<Rightarrow> False | Some s \<Rightarrow> s \<in> DEPENDENCY_SATISFIED_STATUSES}\<rparr>"

text \<open>
  The dataclass constructor followed by \<open>__post_init__\<close>, with every field but \<open>plan_id\<close>,
  \<open>steps\<close>, \<open>step_status\<close> and the generated \<open>trace_id\<close> at its default.
\<close>

definition new_context :: "string \<Rightarrow> string \<Rightarrow> plan_step dict \<Rightarrow> step_status dict \<Rightarrow> task_context" where
  "new_context pid tid sm stm = rebuild_dependency_satisfied_set
     \<lparr>plan_id = pid, snapshot_version = 2, status = Plan_PENDING, steps = sm,
      step_status = stm, step_results = [], step_errors = [], step_attempts = [],
      processed_steps = [], published_step_events = [], trace_id = tid, context_vars = [],
      ctx_error = None, paused_reason = None, paused_step_id = None, plan_status = None,
      started_at = None, updated_at = None, completed_at = None, step_started_at = [],
      step_completed_at = [], step_consent_requests = [], step_route_decisions = [],
      feedback_overrides = [], quality_retry_counts = [], dependency_satisfied_set = {},
      clock_reads = 0\<rparr>"

definition progress :: "'a task_context_scheme \<Rightarrow> pyfloat" where
  "progress c = (if steps c = [] then 1
     else of_nat (length (filter (\<lambda>sid. case dget (step_status c) sid of
              None \<Rightarrow> False | Some s \<Rightarrow> s \<in> FINAL_STEP_STATUSES) (dkeys (steps c))))
          / of_nat (length (steps c)))"

definition mark_dependency_satisfied ::
  "string \<Rightarrow> 'a task_context_scheme \<Rightarrow> 'a task_context_scheme" where
  "mark_dependency_satisfied sid c = c\<lparr>
     processed_steps := append_new sid (processed_steps c),
     dependency_satisfied_set := insert sid (dependency_satisfied_set c)\<rparr>"

definition mark_processed :: "string \<Rightarrow> 'a task_context_scheme \<Rightarrow> 'a task_context_scheme" where
  "mark_processed sid c = c\<lparr>processed_steps := append_new sid (processed_steps c)\<rparr>"

definition get_ready_steps :: "'a task_context_scheme \<Rightarrow> plan_step list" where
  "get_ready_steps c = filter
     (\<lambda>st. status_of c (step_id st) \<in> {PENDING, READY} \<and>
           list_all (\<lambda>d. d \<in> dependency_satisfied_set c) (depends_on st))
     (map snd (steps c))"

definition is_terminal :: "'a task_context_scheme \<Rightarrow> bool" where
  "is_terminal c = (status c \<in> FINAL_PLAN_STATUSES)"

definition dependency_failed :: "'a task_context_scheme \<Rightarrow> plan_step \<Rightarrow> string list" where
  "dependency_failed c st = filter
     (\<lambda>d. case dget (step_status c) d of
        None \<Rightarrow> False | Some s \<Rightarrow> s \<in> DEPENDENCY_FAILED_STATUSES) (depends_on st)"

definition touch :: "clock \<Rightarrow> 'a task_context_scheme \<Rightarrow> 'a task_context_scheme" where
  "touch clk c = c\<lparr>updated_at := Some (clk (clock_reads c)), clock_reads := Suc (clock_reads c)\<rparr>"

definition mark_started :: "clock \<Rightarrow> 'a task_context_scheme \<Rightarrow> 'a task_context_scheme" where
  "mark_started clk c = (let now = clk (clock_reads c) in
     c\<lparr>started_at := (case started_at c of None \<Rightarrow> Some now | Some t \<Rightarrow> Some t),
       updated_at := Some now, clock_reads := Suc (clock_reads c)\<rparr>)"

definition mark_terminal :: "clock \<Rightarrow> 'a task_context_scheme \<Rightarrow> 'a task_context_scheme" where
  "mark_terminal clk c = (let now = clk (clock_reads c) in
     c\<lparr>completed_at := (case completed_at c of None \<Rightarrow> Some now | Some t \<Rightarrow> Some t),
       updated_at := Some now, clock_reads := Suc (clock_reads c)\<rparr>)"

text \<open>\<open>setdefault\<close> evaluates its default, so these two read the clock twice.\<close>

definition mark_step_started ::
  "clock \<Rightarrow> string \<Rightarrow> 'a task_context_scheme \<Rightarrow> 'a task_context_scheme" where
  "mark_step_started clk sid c = touch clk
     (c\<lparr>step_started_at := dsetdefault (step_started_at c) sid (clk (clock_reads c)),
        clock_reads := Suc (clock_reads c)\<rparr>)"

definition mark_step_completed ::
  "clock \<Rightarrow> string \<Rightarrow> 'a task_context_scheme \<Rightarrow> 'a task_context_scheme" where
  "mark_step_completed clk sid c = touch clk
     (c\<lparr>step_completed_at := dsetdefault (step_completed_at c) sid (clk (clock_reads c)),
        clock_reads := Suc (clock_reads c)\<rparr>)"

definition get_step_result :: "string \<Rightarrow> 'a task_context_scheme \<Rightarrow> pyval" where
  "get_step_result sid c = (case dget (steps c) sid of
     None \<Rightarrow> PNone | Some st \<Rightarrow> pget (step_results c) (result_key st))"

definition set_step_result ::
  "clock \<Rightarrow> string \<Rightarrow> pyval \<Rightarrow> 'a task_context_scheme \<Rightarrow> exn + 'a task_context_scheme" where
  "set_step_result clk sid v c = (case dget (steps c) sid of
     None \<Rightarrow> Inl (Exn KeyError (''unknown step_id: '' @ sid))
   | Some st \<Rightarrow> Inr (touch clk
       (c\<lparr>step_results := dset (step_results c) (result_key st) v,
          context_vars := dset (context_vars c) (result_key st) v\<rparr>)))"

definition get_context_var :: "string \<Rightarrow> 'a task_context_scheme \<Rightarrow> pyval" where
  "get_context_var k c = pget (context_vars c) k"

definition set_context_var ::
  "clock \<Rightarrow> string \<Rightarrow> pyval \<Rightarrow> 'a task_context_scheme \<Rightarrow> 'a task_context_scheme" where
  "set_context_var clk k v c = touch clk (c\<lparr>context_vars := dset (context_vars c) k v\<rparr>)"

text \<open>A request or decision kept per step, with the old single entry as a fallback.\<close>

definition get_step_consent_request ::
  "string \<Rightarrow> 'a task_context_scheme \<Rightarrow> pyval dict option" where
  "get_step_consent_request sid c = (case dget (step_consent_requests c) sid of
     Some d \<Rightarrow> Some d
   | None \<Rightarrow> (case pget (context_vars c) ''consent_request'' of
       PDict d \<Rightarrow> Some d | _ \<Rightarrow> None))"

definition set_step_consent_request ::
  "clock \<Rightarrow> string \<Rightarrow> pyval dict \<Rightarrow> 'a task_context_scheme \<Rightarrow> 'a task_context_scheme" where
  "set_step_consent_request clk sid d c = touch clk
     (c\<lparr>step_consent_requests := dset (step_consent_requests c) sid d,
        context_vars := dset (context_vars c) ''consent_request'' (PDict d)\<rparr>)"

definition get_step_route_decision ::
  "string \<Rightarrow> 'a task_context_scheme \<Rightarrow> pyval dict option" where
  "get_step_route_decision sid c = (case dget (step_route_decisions c) sid of
     Some d \<Rightarrow> Some d
   | None \<Rightarrow> (case pget (context_vars c) ''route_decision'' of
       PDict d \<Rightarrow> Some d | _ \<Rightarrow> None))"

definition set_step_route_decision ::
  "clock \<Rightarrow> string \<Rightarrow> pyval dict \<Rightarrow> 'a task_context_scheme \<Rightarrow> 'a task_context_scheme" where
  "set_step_route_decision clk sid d c = touch clk
     (c\<lparr>step_route_decisions := dset (step_route_decisions c) sid d,
        context_vars := dset (context_vars c) ''route_decision'' (PDict d)\<rparr>)"

end
