(* ===== verification/Plan_Frame.thy ===== *)
theory Plan_Frame
  imports Plan_Context
begin

text \<open>
  Frame facts: which fields of the context each method leaves alone, as simplification
  rules, and what the methods that write the status tables make of them.
\<close>

lemma touch_frame [simp]:
  "plan_id (touch clk c) = plan_id c"
  "snapshot_version (touch clk c) = snapshot_version c"
  "status (touch clk c) = status c"
  "steps (touch clk c) = steps c"
  "step_status (touch clk c) = step_status c"
  "step_results (touch clk c) = step_results c"
  "step_errors (touch clk c) = step_errors c"
  "step_attempts (touch clk c) = step_attempts c"
  "processed_steps (touch clk c) = processed_steps c"
  "published_step_events (touch clk c) = published_step_events c"
  "trace_id (touch clk c) = trace_id c"
  "context_vars (touch clk c) = context_vars c"
  "ctx_error (touch clk c) = ctx_error c"
  "paused_reason (touch clk c) = paused_reason c"
  "paused_step_id (touch clk c) = paused_step_id c"
  "plan_status (touch clk c) = plan_status c"
  "started_at (touch clk c) = started_at c"
  "completed_at (touch clk c) = completed_at c"
  "step_started_at (touch clk c) = step_started_at c"
  "step_completed_at (touch clk c) = step_completed_at c"
  "step_consent_requests (touch clk c) = step_consent_requests c"
  "step_route_decisions (touch clk c) = step_route_decisions c"
  "feedback_overrides (touch clk c) = feedback_overrides c"
  "quality_retry_counts (touch clk c) = quality_retry_counts c"
  "dependency_satisfied_set (touch clk c) = dependency_satisfied_set c"
  "task_context.more (touch clk c) = task_context.more c"
  by (simp_all add: touch_def)

lemma mark_started_frame [simp]:
  "plan_id (mark_started clk c) = plan_id c"
  "snapshot_version (mark_started clk c) = snapshot_version c"
  "status (mark_started clk c) = status c"
  "steps (mark_started clk c) = steps c"
  "step_status (mark_started clk c) = step_status c"
  "step_results (mark_started clk c) = step_results c"
  "step_errors (mark_started clk c) = step_errors c"
  "step_attempts (mark_started clk c) = step_attempts c"
  "processed_steps (mark_started clk c) = processed_steps c"
  "published_step_events (mark_started clk c) = published_step_events c"
  "trace_id (mark_started clk c) = trace_id c"
  "context_vars (mark_started clk c) = context_vars c"
  "ctx_error (mark_started clk c) = ctx_error c"
  "paused_reason (mark_started clk c) = paused_reason c"
  "paused_step_id (mark_started clk c) = paused_step_id c"
  "plan_status (mark_started clk c) = plan_status c"
  "completed_at (mark_started clk c) = completed_at c"
  "step_started_at (mark_started clk c) = step_started_at c"
  "step_completed_at (mark_started clk c) = step_completed_at c"
  "step_consent_requests (mark_started clk c) = step_consent_requests c"
  "step_route_decisions (mark_started clk c) = step_route_decisions c"
  "feedback_overrides (mark_started clk c) = feedback_overrides c"
  "quality_retry_counts (mark_started clk c) = quality_retry_counts c"
  "dependency_satisfied_set (mark_started clk c) = dependency_satisfied_set c"
  "task_context.more (mark_started clk c) = task_context.more c"
  by (simp_all add: mark_started_def Let_def)

lemma mark_terminal_frame [simp]:
  "plan_id (mark_terminal clk c) = plan_id c"
  "snapshot_version (mark_terminal clk c) = snapshot_version c"
  "status (mark_terminal clk c) = status c"
  "steps (mark_terminal clk c) = steps c"
  "step_status (mark_terminal clk c) = step_status c"
  "step_results (mark_terminal clk c) = step_results c"
  "step_errors (mark_terminal clk c) = step_errors c"
  "step_attempts (mark_terminal clk c) = step_attempts c"
  "processed_steps (mark_terminal clk c) = processed_steps c"
  "published_step_events (mark_terminal clk c) = published_step_events c"
  "trace_id (mark_terminal clk c) = trace_id c"
  "context_vars (mark_terminal clk c) = context_vars c"
  "ctx_error (mark_terminal clk c) = ctx_error c"
  "paused_reason (mark_terminal clk c) = paused_reason c"
  "paused_step_id (mark_terminal clk c) = paused_step_id c"
  "plan_status (mark_terminal clk c) = plan_status c"
  "started_at (mark_terminal clk c) = started_at c"
  "step_started_at (mark_terminal clk c) = step_started_at c"
  "step_completed_at (mark_terminal clk c) = step_completed_at c"
  "step_consent_requests (mark_terminal clk c) = step_consent_requests c"
  "step_route_decisions (mark_terminal clk c) = step_route_decisions c"
  "feedback_overrides (mark_terminal clk c) = feedback_overrides c"
  "quality_retry_counts (mark_terminal clk c) = quality_retry_counts c"
  "dependency_satisfied_set (mark_terminal clk c) = dependency_satisfied_set c"
  "task_context.more (mark_terminal clk c) = task_context.more c"
  by (simp_all add: mark_terminal_def Let_def)

lemma mark_step_started_frame [simp]:
  "plan_id (mark_step_started clk sid c) = plan_id c"
  "snapshot_version (mark_step_started clk sid c) = snapshot_version c"
  "status (mark_step_started clk sid c) = status c"
  "steps (mark_step_started clk sid c) = steps c"
  "step_status (mark_step_started clk sid c) = step_status c"
  "step_results (mark_step_started clk sid c) = step_results c"
  "step_errors (mark_step_started clk sid c) = step_errors c"
  "step_attempts (mark_step_started clk sid c) = step_attempts c"
  "processed_steps (mark_step_started clk sid c) = processed_steps c"
  "published_step_events (mark_step_started clk sid c) = published_step_events c"
  "trace_id (mark_step_started clk sid c) = trace_id c"
  "context_vars (mark_step_started clk sid c) = context_vars c"
  "ctx_error (mark_step_started clk sid c) = ctx_error c"
  "paused_reason (mark_step_started clk sid c) = paused_reason c"
  "paused_step_id (mark_step_started clk sid c) = paused_step_id c"
  "plan_status (mark_step_started clk sid c) = plan_status c"
  "started_at (mark_step_started clk sid c) = started_at c"
  "completed_at (mark_step_started clk sid c) = completed_at c"
  "step_completed_at (mark_step_started clk sid c) = step_completed_at c"
  "step_consent_requests (mark_step_started clk sid c) = step_consent_requests c"
  "step_route_decisions (mark_step_started clk sid c) = step_route_decisions c"
  "feedback_overrides (mark_step_started clk sid c) = feedback_overrides c"
  "quality_retry_counts (mark_step_started clk sid c) = quality_retry_counts c"
  "dependency_satisfied_set (mark_step_started clk sid c) = dependency_satisfied_set c"
  "task_context.more (mark_step_started clk sid c) = task_context.more c"
  by (simp_all add: mark_step_started_def touch_def)

lemma mark_step_completed_frame [simp]:
  "plan_id (mark_step_completed clk sid c) = plan_id c"
  "snapshot_version (mark_step_completed clk sid c) = snapshot_version c"
  "status (mark_step_completed clk sid c) = status c"
  "steps (mark_step_completed clk sid c) = steps c"
  "step_status (mark_step_completed clk sid c) = step_status c"
  "step_results (mark_step_completed clk sid c) = step_results c"
  "step_errors (mark_step_completed clk sid c) = step_errors c"
  "step_attempts (mark_step_completed clk sid c) = step_attempts c"
  "processed_steps (mark_step_completed clk sid c) = processed_steps c"
  "published_step_events (mark_step_completed clk sid c) = published_step_events c"
  "trace_id (mark_step_completed clk sid c) = trace_id c"
  "context_vars (mark_step_completed clk sid c) = context_vars c"
  "ctx_error (mark_step_completed clk sid c) = ctx_error c"
  "paused_reason (mark_step_completed clk sid c) = paused_reason c"
  "paused_step_id (mark_step_completed clk sid c) = paused_step_id c"
  "plan_status (mark_step_completed clk sid c) = plan_status c"
  "started_at (mark_step_completed clk sid c) = started_at c"
  "completed_at (mark_step_completed clk sid c) = completed_at c"
  "step_started_at (mark_step_completed clk sid c) = step_started_at c"
  "step_consent_requests (mark_step_completed clk sid c) = step_consent_requests c"
  "step_route_decisions (mark_step_completed clk sid c) = step_route_decisions c"
  "feedback_overrides (mark_step_completed clk sid c) = feedback_overrides c"
  "quality_retry_counts (mark_step_completed clk sid c) = quality_retry_counts c"
  "dependency_satisfied_set (mark_step_completed clk sid c) = dependency_satisfied_set c"
  "task_context.more (mark_step_completed clk sid c) = task_context.more c"
  by (simp_all add: mark_step_completed_def touch_def)

lemma mark_processed_frame [simp]:
  "plan_id (mark_processed sid c) = plan_id c"
  "snapshot_version (mark_processed sid c) = snapshot_version c"
  "status (mark_processed sid c) = status c"
  "steps (mark_processed sid c) = steps c"
  "step_status (mark_processed sid c) = step_status c"
  "step_results (mark_processed sid c) = step_results c"
  "step_errors (mark_processed sid c) = step_errors c"
  "step_attempts (mark_processed sid c) = step_attempts c"
  "published_step_events (mark_processed sid c) = published_step_events c"
  "trace_id (mark_processed sid c) = trace_id c"
  "context_vars (mark_processed sid c) = context_vars c"
  "ctx_error (mark_processed sid c) = ctx_error c"
  "paused_reason (mark_processed sid c) = paused_reason c"
  "paused_step_id (mark_processed sid c) = paused_step_id c"
  "plan_status (mark_processed sid c) = plan_status c"
  "started_at (mark_processed sid c) = started_at c"
  "updated_at (mark_processed sid c) = updated_at c"
  "completed_at (mark_processed sid c) = completed_at c"
  "step_started_at (mark_processed sid c) = step_started_at c"
  "step_completed_at (mark_processed sid c) = step_completed_at c"
  "step_consent_requests (mark_processed sid c) = step_consent_requests c"
  "step_route_decisions (mark_processed sid c) = step_route_decisions c"
  "feedback_overrides (mark_processed sid c) = feedback_overrides c"
  "quality_retry_counts (mark_processed sid c) = quality_retry_counts c"
  "dependency_satisfied_set (mark_processed sid c) = dependency_satisfied_set c"
  "clock_reads (mark_processed sid c) = clock_reads c"
  "task_context.more (mark_processed sid c) = task_context.more c"
  by (simp_all add: mark_processed_def)

lemma mark_dependency_satisfied_frame [simp]:
  "plan_id (mark_dependency_satisfied sid c) = plan_id c"
  "snapshot_version (mark_dependency_satisfied sid c) = snapshot_version c"
  "status (mark_dependency_satisfied sid c) = status c"
  "steps (mark_dependency_satisfied sid c) = steps c"
  "step_status (mark_dependency_satisfied sid c) = step_status c"
  "step_results (mark_dependency_satisfied sid c) = step_results c"
  "step_errors (mark_dependency_satisfied sid c) = step_errors c"
  "step_attempts (mark_dependency_satisfied sid c) = step_attempts c"
  "published_step_events (mark_dependency_satisfied sid c) = published_step_events c"
  "trace_id (mark_dependency_satisfied sid c) = trace_id c"
  "context_vars (mark_dependency_satisfied sid c) = context_vars c"
  "ctx_error (mark_dependency_satisfied sid c) = ctx_error c"
  "paused_reason (mark_dependency_satisfied sid c) = paused_reason c"
  "paused_step_id (mark_dependency_satisfied sid c) = paused_step_id c"
  "plan_status (mark_dependency_satisfied sid c) = plan_status c"
  "started_at (mark_dependency_satisfied sid c) = started_at c"
  "updated_at (mark_dependency_satisfied sid c) = updated_at c"
  "completed_at (mark_dependency_satisfied sid c) = completed_at c"
  "step_started_at (mark_dependency_satisfied sid c) = step_started_at c"
  "step_completed_at (mark_dependency_satisfied sid c) = step_completed_at c"
  "step_consent_requests (mark_dependency_satisfied sid c) = step_consent_requests c"
  "step_route_decisions (mark_dependency_satisfied sid c) = step_route_decisions c"
  "feedback_overrides (mark_dependency_satisfied sid c) = feedback_overrides c"
  "quality_retry_counts (mark_dependency_satisfied sid c) = quality_retry_counts c"
  "clock_reads (mark_dependency_satisfied sid c) = clock_reads c"
  "task_context.more (mark_dependency_satisfied sid c) = task_context.more c"
  by (simp_all add: mark_dependency_satisfied_def)

lemma rebuild_dependency_satisfied_set_frame [simp]:
  "plan_id (rebuild_dependency_satisfied_set c) = plan_id c"
  "snapshot_version (rebuild_dependency_satisfied_set c) = snapshot_version c"
  "status (rebuild_dependency_satisfied_set c) = status c"
  "steps (rebuild_dependency_satisfied_set c) = steps c"
  "step_status (rebuild_dependency_satisfied_set c) = step_status c"
  "step_results (rebuild_dependency_satisfied_set c) = step_results c"
  "step_errors (rebuild_dependency_satisfied_set c) = step_errors c"
  "step_attempts (rebuild_dependency_satisfied_set c) = step_attempts c"
  "processed_steps (rebuild_dependency_satisfied_set c) = processed_steps c"
  "published_step_events (rebuild_dependency_satisfied_set c) = published_step_events c"
  "trace_id (rebuild_dependency_satisfied_set c) = trace_id c"
  "context_vars (rebuild_dependency_satisfied_set c) = context_vars c"
  "ctx_error (rebuild_dependency_satisfied_set c) = ctx_error c"
  "paused_reason (rebuild_dependency_satisfied_set c) = paused_reason c"
  "paused_step_id (rebuild_dependency_satisfied_set c) = paused_step_id c"
  "plan_status (rebuild_dependency_satisfied_set c) = plan_status c"
  "started_at (rebuild_dependency_satisfied_set c) = started_at c"
  "updated_at (rebuild_dependency_satisfied_set c) = updated_at c"
  "completed_at (rebuild_dependency_satisfied_set c) = completed_at c"
  "step_started_at (rebuild_dependency_satisfied_set c) = step_started_at c"
  "step_completed_at (rebuild_dependency_satisfied_set c) = step_completed_at c"
  "step_consent_requests (rebuild_dependency_satisfied_set c) = step_consent_requests c"
  "step_route_decisions (rebuild_dependency_satisfied_set c) = step_route_decisions c"
  "feedback_overrides (rebuild_dependency_satisfied_set c) = feedback_overrides c"
  "quality_retry_counts (rebuild_dependency_satisfied_set c) = quality_retry_counts c"
  "clock_reads (rebuild_dependency_satisfied_set c) = clock_reads c"
  "task_context.more (rebuild_dependency_satisfied_set c) = task_context.more c"
  by (simp_all add: rebuild_dependency_satisfied_set_def)

lemma set_context_var_frame [simp]:
  "plan_id (set_context_var clk k v c) = plan_id c"
  "snapshot_version (set_context_var clk k v c) = snapshot_version c"
  "status (set_context_var clk k v c) = status c"
  "steps (set_context_var clk k v c) = steps c"
  "step_status (set_context_var clk k v c) = step_status c"
  "step_results (set_context_var clk k v c) = step_results c"
  "step_errors (set_context_var clk k v c) = step_errors c"
  "step_attempts (set_context_var clk k v c) = step_attempts c"
  "processed_steps (set_context_var clk k v c) = processed_steps c"
  "published_step_events (set_context_var clk k v c) = published_step_events c"
  "trace_id (set_context_var clk k v c) = trace_id c"
  "ctx_error (set_context_var clk k v c) = ctx_error c"
  "paused_reason (set_context_var clk k v c) = paused_reason c"
  "paused_step_id (set_context_var clk k v c) = paused_step_id c"
  "plan_status (set_context_var clk k v c) = plan_status c"
  "started_at (set_context_var clk k v c) = started_at c"
  "completed_at (set_context_var clk k v c) = completed_at c"
  "step_started_at (set_context_var clk k v c) = step_started_at c"
  "step_completed_at (set_context_var clk k v c) = step_completed_at c"
  "step_consent_requests (set_context_var clk k v c) = step_consent_requests c"
  "step_route_decisions (set_context_var clk k v c) = step_route_decisions c"
  "feedback_overrides (set_context_var clk k v c) = feedback_overrides c"
  "quality_retry_counts (set_context_var clk k v c) = quality_retry_counts c"
  "dependency_satisfied_set (set_context_var clk k v c) = dependency_satisfied_set c"
  "task_context.more (set_context_var clk k v c) = task_context.more c"
  by (simp_all add: set_context_var_def touch_def)

lemma set_step_consent_request_frame [simp]:
  "plan_id (set_step_consent_request clk sid d c) = plan_id c"
  "snapshot_version (set_step_consent_request clk sid d c) = snapshot_version c"
  "status (set_step_consent_request clk sid d c) = status c"
  "steps (set_step_consent_request clk sid d c) = steps c"
  "step_status (set_step_consent_request clk sid d c) = step_status c"
  "step_results (set_step_consent_request clk sid d c) = step_results c"
  "step_errors (set_step_consent_request clk sid d c) = step_errors c"
  "step_attempts (set_step_consent_request clk sid d c) = step_attempts c"
  "processed_steps (set_step_consent_request clk sid d c) = processed_steps c"
  "published_step_events (set_step_consent_request clk sid d c) = published_step_events c"
  "trace_id (set_step_consent_request clk sid d c) = trace_id c"
  "ctx_error (set_step_consent_request clk sid d c) = ctx_error c"
  "paused_reason (set_step_consent_request clk sid d c) = paused_reason c"
  "paused_step_id (set_step_consent_request clk sid d c) = paused_step_id c"
  "plan_status (set_step_consent_request clk sid d c) = plan_status c"
  "started_at (set_step_consent_request clk sid d c) = started_at c"
  "completed_at (set_step_consent_request clk sid d c) = completed_at c"
  "step_started_at (set_step_consent_request clk sid d c) = step_started_at c"
  "step_completed_at (set_step_consent_request clk sid d c) = step_completed_at c"
  "step_route_decisions (set_step_consent_request clk sid d c) = step_route_decisions c"
  "feedback_overrides (set_step_consent_request clk sid d c) = feedback_overrides c"
  "quality_retry_counts (set_step_consent_request clk sid d c) = quality_retry_counts c"
  "dependency_satisfied_set (set_step_consent_request clk sid d c) = dependency_satisfied_set c"
  "task_context.more (set_step_consent_request clk sid d c) = task_context.more c"
  by (simp_all add: set_step_consent_request_def touch_def)

lemma set_step_route_decision_frame [simp]:
  "plan_id (set_step_route_decision clk sid d c) = plan_id c"
  "snapshot_version (set_step_route_decision clk sid d c) = snapshot_version c"
  "status (set_step_route_decision clk sid d c) = status c"
  "steps (set_step_route_decision clk sid d c) = steps c"
  "step_status (set_step_route_decision clk sid d c) = step_status c"
  "step_results (set_step_route_decision clk sid d c) = step_results c"
  "step_errors (set_step_route_decision clk sid d c) = step_errors c"
  "step_attempts (set_step_route_decision clk sid d c) = step_attempts c"
  "processed_steps (set_step_route_decision clk sid d c) = processed_steps c"
  "published_step_events (set_step_route_decision clk sid d c) = published_step_events c"
  "trace_id (set_step_route_decision clk sid d c) = trace_id c"
  "ctx_error (set_step_route_decision clk sid d c) = ctx_error c"
  "paused_reason (set_step_route_decision clk sid d c) = paused_reason c"
  "paused_step_id (set_step_route_decision clk sid d c) = paused_step_id c"
  "plan_status (set_step_route_decision clk sid d c) = plan_status c"
  "started_at (set_step_route_decision clk sid d c) = started_at c"
  "completed_at (set_step_route_decision clk sid d c) = completed_at c"
  "step_started_at (set_step_route_decision clk sid d c) = step_started_at c"
  "step_completed_at (set_step_route_decision clk sid d c) = step_completed_at c"
  "step_consent_requests (set_step_route_decision clk sid d c) = step_consent_requests c"
  "feedback_overrides (set_step_route_decision clk sid d c) = feedback_overrides c"
  "quality_retry_counts (set_step_route_decision clk sid d c) = quality_retry_counts c"
  "dependency_satisfied_set (set_step_route_decision clk sid d c) = dependency_satisfied_set c"
  "task_context.more (set_step_route_decision clk sid d c) = task_context.more c"
  by (simp_all add: set_step_route_decision_def touch_def)

lemma processed_writes [simp]:
  "processed_steps (mark_processed sid c) = append_new sid (processed_steps c)"
  "processed_steps (mark_dependency_satisfied sid c) = append_new sid (processed_steps c)"
  "dependency_satisfied_set (mark_dependency_satisfied sid c) = insert sid (dependency_satisfied_set c)"
  by (simp_all add: mark_processed_def mark_dependency_satisfied_def)

lemma context_var_writes [simp]:
  "context_vars (set_context_var clk k v c) = dset (context_vars c) k v"
  "context_vars (set_step_consent_request clk sid d c) = dset (context_vars c) ''consent_request'' (PDict d)"
  "context_vars (set_step_route_decision clk sid d c) = dset (context_vars c) ''route_decision'' (PDict d)"
  "step_consent_requests (set_step_consent_request clk sid d c) = dset (step_consent_requests c) sid d"
  "step_route_decisions (set_step_route_decision clk sid d c) = dset (step_route_decisions c) sid d"
  by (simp_all add: set_context_var_def set_step_consent_request_def set_step_route_decision_def)

lemma completed_at_marked [simp]: "\<exists>t. completed_at (mark_terminal clk c) = Some t"
  by (simp add: mark_terminal_def Let_def split: option.splits)

text \<open>Reading a status depends on the status table only.\<close>

lemma status_of_frame [simp]:
  "status_of (touch clk c) j = status_of c j"
  "status_of (mark_started clk c) j = status_of c j"
  "status_of (mark_terminal clk c) j = status_of c j"
  "status_of (mark_step_started clk sid c) j = status_of c j"
  "status_of (mark_step_completed clk sid c) j = status_of c j"
  "status_of (mark_processed sid c) j = status_of c j"
  "status_of (mark_dependency_satisfied sid c) j = status_of c j"
  "status_of (rebuild_dependency_satisfied_set c) j = status_of c j"
  "status_of (set_context_var clk k v c) j = status_of c j"
  "status_of (set_step_consent_request clk sid d c) j = status_of c j"
  "status_of (set_step_route_decision clk sid d c) j = status_of c j"
  by (simp_all add: status_of_def)

lemma status_of_update [simp]: "status_of (c\<lparr>step_status := m\<rparr>) k = dget_or m k PENDING"
  by (simp add: status_of_def)

lemma status_of_cong: "step_status c' = step_status c \<Longrightarrow> status_of c' k = status_of c k"
  by (simp add: status_of_def)

lemma dget_or_status: "dget_or (step_status c) k PENDING = status_of c k"
  by (simp add: status_of_def)

text \<open>
  A dictionary of steps keyed by the steps' own identifiers, as \<open>create_plan\<close>, \<open>start\<close> and
  the snapshot reader build it.
\<close>

definition keyed :: "plan_step dict \<Rightarrow> bool" where
  "keyed sm = (distinct (dkeys sm) \<and> list_all (\<lambda>(k, st). step_id st = k) sm)"

lemma keyed_step: "keyed sm \<Longrightarrow> st \<in> set (map snd sm) \<Longrightarrow> dget sm (step_id st) = Some st"
  by (fastforce simp: keyed_def list_all_iff)

lemma keyed_dget: "keyed sm \<Longrightarrow> dget sm k = Some st \<Longrightarrow> step_id st = k"
  by (fastforce simp: keyed_def list_all_iff dest: map_of_SomeD)

lemma get_ready_steps_ready:
  assumes "st \<in> set (get_ready_steps c)"
  shows "st \<in> set (map snd (steps c))" and "status_of c (step_id st) \<in> {PENDING, READY}"
    and "set (depends_on st) \<subseteq> dependency_satisfied_set c"
  using assms by (auto simp: get_ready_steps_def list_all_iff)

end
