(* ===== verification/Dag_Validate.thy ===== *)
theory Dag_Validate
  imports Plan_Frame
begin

text \<open>
  \<open>PlanDAGEngine.validate_dag\<close> of \<open>core/plan_dag_engine.py\<close>: the depth-first search with
  its \<open>visiting\<close> and \<open>visited\<close> sets, the three errors it raises, and its correctness: it
  accepts exactly the step dictionaries whose dependencies all exist and form no cycle.

  The inner function mutates the two sets. \<open>visiting\<close> is back to its old value when a call
  returns, so it is an argument only; \<open>visited\<close> is returned. Python's recursion limit is
  not modelled.
\<close>

datatype dag_error = CycleAt string | MissingStep string | MissingDependency string string

function
  visit :: "plan_step dict \<Rightarrow> string set \<Rightarrow> string set \<Rightarrow> string \<Rightarrow> dag_error + string set" and
  visit_deps :: "plan_step dict \<Rightarrow> string set \<Rightarrow> string set \<Rightarrow> string \<Rightarrow> string list
    \<Rightarrow> dag_error + string set"
where
  "visit sm visiting visited sid =
     (if sid \<in> visited then Inr visited
      else if sid \<in> visiting then Inl (CycleAt sid)
      else (case dget sm sid of
          None \<Rightarrow> Inl (MissingStep sid)
        | Some st \<Rightarrow> (case visit_deps sm (insert sid visiting) visited sid (depends_on st) of
              Inl e \<Rightarrow> Inl e
            | Inr visited' \<Rightarrow> Inr (insert sid visited'))))"
| "visit_deps sm visiting visited sid [] = Inr visited"
| "visit_deps sm visiting visited sid (dep # deps) =
     (if dget sm dep = None then Inl (MissingDependency sid dep)
      else (case visit sm visiting visited dep of
          Inl e \<Rightarrow> Inl e
        | Inr visited' \<Rightarrow> visit_deps sm visiting visited' sid deps))"
  by pat_completeness auto

text \<open>Each nested call puts one more step of the finite dictionary into \<open>visiting\<close>.\<close>

lemma unvisiting_decreases:
  "dget sm sid = Some st \<Longrightarrow> sid \<notin> P \<Longrightarrow>
    card (fst ` set sm - insert sid P) < card (fst ` set sm - P)"
  by (rule psubset_card_mono) (auto dest: dget_in_keys)

termination visit
  by (relation "measures
        [\<lambda>x. case x of Inl (sm, P, V, k) \<Rightarrow> card (set (dkeys sm) - P)
           | Inr (sm, P, V, k, ds) \<Rightarrow> card (set (dkeys sm) - P),
         \<lambda>x. case x of Inl (sm, P, V, k) \<Rightarrow> 0 | Inr (sm, P, V, k, ds) \<Rightarrow> Suc (length ds)]")
    (simp_all add: unvisiting_decreases)

declare visit.simps [simp del]

fun validate_loop :: "plan_step dict \<Rightarrow> string set \<Rightarrow> string list \<Rightarrow> dag_error + unit" where
  "validate_loop sm visited [] = Inr ()"
| "validate_loop sm visited (sid # sids) = (case visit sm {} visited sid of
       Inl e \<Rightarrow> Inl e
     | Inr visited' \<Rightarrow> validate_loop sm visited' sids)"

definition validate_dag :: "plan_step dict \<Rightarrow> dag_error + unit" where
  "validate_dag sm = validate_loop sm {} (dkeys sm)"

section \<open>The specification\<close>

definition dep_edges :: "plan_step dict \<Rightarrow> (string \<times> string) set" where
  "dep_edges sm = {(k, d). \<exists>st. dget sm k = Some st \<and> d \<in> set (depends_on st)}"

definition deps_present :: "plan_step dict \<Rightarrow> bool" where
  "deps_present sm = (dep_edges sm \<subseteq> UNIV \<times> set (dkeys sm))"

text \<open>What the search has established of the steps it has left.\<close>

definition settled :: "plan_step dict \<Rightarrow> string set \<Rightarrow> bool" where
  "settled sm V = (V \<subseteq> set (dkeys sm) \<and> dep_edges sm `` V \<subseteq> V \<and> (\<forall>k \<in> V. (k, k) \<notin> (dep_edges sm)\<^sup>+))"

lemma settled_empty [simp]: "settled sm {}"
  by (simp add: settled_def)

lemma dep_edgesI: "dget sm k = Some st \<Longrightarrow> d \<in> set (depends_on st) \<Longrightarrow> (k, d) \<in> dep_edges sm"
  by (auto simp: dep_edges_def)

lemma dep_edges_from: "dget sm k = Some st \<Longrightarrow> dep_edges sm `` {k} = set (depends_on st)"
  by (auto simp: dep_edges_def)

lemma closed_trancl: "(x, y) \<in> E\<^sup>+ \<Longrightarrow> E `` V \<subseteq> V \<Longrightarrow> x \<in> V \<Longrightarrow> y \<in> V"
  by (induction rule: trancl_induct) auto

lemma closed_Image: "(x, y) \<in> E \<Longrightarrow> E `` V \<subseteq> V \<Longrightarrow> x \<in> V \<Longrightarrow> y \<in> V"
  by auto

lemma settled_insert:
  assumes "settled sm V" and "dget sm k = Some st" and "set (depends_on st) \<subseteq> V" and "k \<notin> V"
  shows "settled sm (insert k V)"
proof -
  have closed: "dep_edges sm `` V \<subseteq> V" and acyc: "\<forall>k \<in> V. (k, k) \<notin> (dep_edges sm)\<^sup>+"
    and keys: "V \<subseteq> set (dkeys sm)"
    using assms(1) by (auto simp: settled_def)
  have "(k, k) \<notin> (dep_edges sm)\<^sup>+"
  proof
    assume "(k, k) \<in> (dep_edges sm)\<^sup>+"
    then obtain d where "(k, d) \<in> dep_edges sm" and "d = k \<or> (d, k) \<in> (dep_edges sm)\<^sup>+"
      using tranclD [of k k "dep_edges sm"] by (auto simp: rtrancl_eq_or_trancl)
    moreover from this assms(2,3) have "d \<in> V"
      using dep_edges_from [OF assms(2)] by auto
    ultimately show False
      using assms(4) closed_trancl [OF _ closed] by blast
  qed
  moreover have "k \<in> set (dkeys sm)"
    using assms(2) dget_Some_iff by metis
  moreover have "dep_edges sm `` insert k V \<subseteq> insert k V"
    using closed assms(2,3) by (auto simp: dep_edges_def)
  ultimately show ?thesis
    using acyc keys by (simp add: settled_def)
qed

section \<open>Soundness\<close>

text \<open>A call adds no step that is being visited, so a step is still outside \<open>visited\<close> when
  its own dependencies are done.\<close>

lemma visit_sound:
  "visit sm P V k = Inr V' \<Longrightarrow> settled sm V \<Longrightarrow>
     settled sm V' \<and> V \<subseteq> V' \<and> k \<in> V' \<and> V' \<inter> P = V \<inter> P"
  "visit_deps sm P V k ds = Inr V' \<Longrightarrow> settled sm V \<Longrightarrow>
     settled sm V' \<and> V \<subseteq> V' \<and> set ds \<subseteq> V' \<and> V' \<inter> P = V \<inter> P"
proof (induction sm P V k and sm P V k ds arbitrary: V' and V' rule: visit_visit_deps.induct)
  case (1 sm P V k)
  show ?case
  proof (cases "k \<in> V")
    case True
    with "1.prems" show ?thesis by (simp add: visit.simps)
  next
    case False
    with "1.prems"(1) obtain st V1 where st: "dget sm k = Some st" and nP: "k \<notin> P"
      and V1: "visit_deps sm (insert k P) V k (depends_on st) = Inr V1" and V': "V' = insert k V1"
      by (auto simp: visit.simps split: if_splits option.splits sum.splits)
    from "1.IH" [OF False nP st V1 "1.prems"(2)]
    have V1': "settled sm V1" "V \<subseteq> V1" "set (depends_on st) \<subseteq> V1" "V1 \<inter> insert k P = V \<inter> insert k P"
      by auto
    with False have "k \<notin> V1" by auto
    with settled_insert [OF V1'(1) st V1'(3)] V' V1' nP show ?thesis by auto
  qed
next
  case (3 sm P V k d ds)
  from "3.prems"(1) obtain V1 where dN: "dget sm d \<noteq> None" and V1: "visit sm P V d = Inr V1"
    and rest: "visit_deps sm P V1 k ds = Inr V'"
    by (simp split: if_splits sum.splits)
  from "3.IH"(1) [OF dN V1 "3.prems"(2)] have V1': "settled sm V1" "V \<subseteq> V1" "d \<in> V1" "V1 \<inter> P = V \<inter> P"
    by auto
  from "3.IH"(2) [OF dN V1 rest V1'(1)] V1' show ?case by auto
qed auto

lemma validate_loop_sound:
  "validate_loop sm V ks = Inr () \<Longrightarrow> settled sm V \<Longrightarrow> \<exists>V'. settled sm V' \<and> V \<union> set ks \<subseteq> V'"
proof (induction ks arbitrary: V)
  case Nil
  then show ?case by auto
next
  case (Cons k ks)
  from Cons.prems(1) obtain V1 where "visit sm {} V k = Inr V1"
    and loop: "validate_loop sm V1 ks = Inr ()"
    by (auto split: sum.splits)
  from visit_sound(1) [OF this(1) Cons.prems(2)] have V1: "settled sm V1" "V \<subseteq> V1" "k \<in> V1" by auto
  from Cons.IH [OF loop V1(1)] V1 show ?case by fastforce
qed

section \<open>Completeness\<close>

lemma visit_complete:
  "deps_present sm \<Longrightarrow> acyclic (dep_edges sm) \<Longrightarrow> k \<in> set (dkeys sm) \<Longrightarrow>
     \<forall>p \<in> P. (p, k) \<in> (dep_edges sm)\<^sup>+ \<Longrightarrow> \<exists>V'. visit sm P V k = Inr V'"
  "deps_present sm \<Longrightarrow> acyclic (dep_edges sm) \<Longrightarrow>
     set ds \<subseteq> set (dkeys sm) \<Longrightarrow>
     \<forall>p \<in> P. \<forall>d \<in> set ds. (p, d) \<in> (dep_edges sm)\<^sup>+ \<Longrightarrow> \<exists>V'. visit_deps sm P V k ds = Inr V'"
proof (induction sm P V k and sm P V k ds rule: visit_visit_deps.induct)
  case (1 sm P V k)
  show ?case
  proof (cases "k \<in> V")
    case True
    then show ?thesis by (simp add: visit.simps)
  next
    case False
    from "1.prems"(3) obtain st where st: "dget sm k = Some st"
      using dget_Some_iff by metis
    have nP: "k \<notin> P"
      using "1.prems"(2,4) by (auto simp: acyclic_def)
    have "set (depends_on st) \<subseteq> set (dkeys sm)"
      using "1.prems"(1) st by (auto simp: deps_present_def dep_edges_def)
    moreover have "\<forall>p \<in> insert k P. \<forall>d \<in> set (depends_on st). (p, d) \<in> (dep_edges sm)\<^sup>+"
      using "1.prems"(4) dep_edgesI [OF st] by (auto intro: trancl_into_trancl)
    ultimately show ?thesis
      using "1.IH" [OF False nP st "1.prems"(1,2)] False nP st by (auto simp: visit.simps)
  qed
next
  case (3 sm P V k d ds)
  have d: "d \<in> set (dkeys sm)" and nN: "dget sm d \<noteq> None"
    using "3.prems"(3) dget_Some_iff [of sm d] by auto
  then obtain V1 where V1: "visit sm P V d = Inr V1"
    using "3.IH"(1) [OF nN "3.prems"(1,2) d] "3.prems"(4) by auto
  with "3.IH"(2) [OF nN V1 "3.prems"(1,2)] "3.prems"(3,4) nN show ?case by auto
qed auto

lemma validate_loop_complete:
  "deps_present sm \<Longrightarrow> acyclic (dep_edges sm) \<Longrightarrow> set ks \<subseteq> set (dkeys sm) \<Longrightarrow>
     validate_loop sm V ks = Inr ()"
proof (induction ks arbitrary: V)
  case (Cons k ks)
  with visit_complete(1) [OF Cons.prems(1,2), of k "{}" V] show ?case by auto
qed simp

text \<open>The engine accepts exactly the graphs it means to accept.\<close>

lemma validate_dag_iff: "validate_dag sm = Inr () \<longleftrightarrow> deps_present sm \<and> acyclic (dep_edges sm)"
proof
  assume "validate_dag sm = Inr ()"
  then obtain V where V: "settled sm V" "set (dkeys sm) \<subseteq> V"
    using validate_loop_sound [of sm "{}" "dkeys sm"] by (auto simp: validate_dag_def)
  then have eq: "V = set (dkeys sm)" by (auto simp: settled_def)
  have dom: "k \<in> set (dkeys sm)" if "(k, d) \<in> dep_edges sm" for k d
    using that dget_Some_iff by (fastforce simp: dep_edges_def)
  have "deps_present sm"
    using V dom eq by (fastforce simp: settled_def deps_present_def)
  moreover have "acyclic (dep_edges sm)"
    unfolding acyclic_def
  proof
    fix k
    show "(k, k) \<notin> (dep_edges sm)\<^sup>+"
      using V eq dom by (metis settled_def tranclD)
  qed
  ultimately show "deps_present sm \<and> acyclic (dep_edges sm)" by blast
next
  assume "deps_present sm \<and> acyclic (dep_edges sm)"
  then show "validate_dag sm = Inr ()"
    using validate_loop_complete [of sm "dkeys sm"] by (simp add: validate_dag_def)
qed

end
