(* ===== verification/Dag_Propagate.thy ===== *)
theory Dag_Propagate
  imports Dag_Validate
begin

text \<open>
  \<open>propagate_failure\<close> and \<open>propagate_unblock\<close> of \<open>core/plan_dag_engine.py\<close>: a breadth-first
  walk over the successors of a step that blocks, or unblocks, the steps it meets.
\<close>

section \<open>The successor table\<close>

definition add_successor :: "string \<Rightarrow> string \<Rightarrow> string list dict \<Rightarrow> string list dict" where
  "add_successor dep sid succs = dset succs dep (dget_or succs dep [] @ [sid])"

definition build_successors :: "'a task_context_scheme \<Rightarrow> string list dict" where
  "build_successors c = fold
     (\<lambda>(sid, st) succs. fold (\<lambda>dep succs. add_successor dep sid succs) (depends_on st) succs)
     (steps c) (map (\<lambda>sid. (sid, [])) (dkeys (steps c)))"

definition succs_of :: "string list dict \<Rightarrow> string \<Rightarrow> string list" where
  "succs_of succs sid = dget_or succs sid []"

section \<open>Blocking\<close>

text \<open>The body of the loop of \<open>propagate_failure\<close> for a step not visited before.\<close>

definition block_step ::
  "clock \<Rightarrow> string \<Rightarrow> string list \<times> 'a task_context_scheme \<Rightarrow> string list \<times> 'a task_context_scheme" where
  "block_step clk sid r = (case r of (blocked, c) \<Rightarrow>
     if status_of c sid \<in> {PENDING, READY}
     then (blocked @ [sid], mark_processed sid (mark_step_completed clk sid
            (c\<lparr>step_status := dset (step_status c) sid BLOCKED\<rparr>)))
     else (blocked, c))"

text \<open>\<open>propagate_unblock\<close> restores a blocked step none of whose dependencies failed.\<close>

definition has_failed_dependency :: "'a task_context_scheme \<Rightarrow> string \<Rightarrow> bool" where
  "has_failed_dependency c sid = (case dget (steps c) sid of
     None \<Rightarrow> False
   | Some st \<Rightarrow> list_ex (\<lambda>d. status_of c d \<in> DEPENDENCY_FAILED_STATUSES) (depends_on st))"

definition unblock_step ::
  "string \<Rightarrow> string list \<times> 'a task_context_scheme \<Rightarrow> string list \<times> 'a task_context_scheme" where
  "unblock_step sid r = (case r of (unblocked, c) \<Rightarrow>
     if dget (step_status c) sid = Some BLOCKED \<and> \<not> has_failed_dependency c sid
     then (unblocked @ [sid],
           c\<lparr>step_status := dset (step_status c) sid PENDING,
             step_completed_at := dpop (step_completed_at c) sid,
             processed_steps := drop_item sid (processed_steps c),
             published_step_events := drop_item sid (published_step_events c)\<rparr>)
     else (unblocked, c))"

section \<open>The walk\<close>

text \<open>
  Both functions run the same loop over \<open>queue\<close> and \<open>visited\<close> with their own body; the
  order of queue extension and body is immaterial, since the body does not change the table.
\<close>

function walk :: "(string \<Rightarrow> 's \<Rightarrow> 's) \<Rightarrow> string list dict \<Rightarrow> string set \<Rightarrow> string list \<Rightarrow> 's \<Rightarrow> 's" where
  "walk body succs visited [] r = r"
| "walk body succs visited (sid # queue) r =
     (if sid \<in> visited then walk body succs visited queue r
      else walk body succs (insert sid visited) (queue @ succs_of succs sid) (body sid r))"
  by pat_completeness auto

text \<open>A step without an entry adds no successors, one with an entry leaves the finite rest.\<close>

lemma walk_measure:
  assumes "sid \<notin> visited"
  shows "card (set (dkeys succs) - insert sid visited) < card (set (dkeys succs) - visited)
    \<or> set (dkeys succs) - insert sid visited = set (dkeys succs) - visited \<and> succs_of succs sid = []"
proof (cases "sid \<in> set (dkeys succs)")
  case True
  with assms have "set (dkeys succs) - insert sid visited \<subset> set (dkeys succs) - visited" by auto
  then show ?thesis by (intro disjI1 psubset_card_mono) simp_all
next
  case False
  then have "dget succs sid = None" by (simp add: dget_None_iff)
  with False show ?thesis by (auto simp: succs_of_def dget_or_def)
qed

termination walk
proof (relation "measures [\<lambda>(body, succs, visited, queue, r). card (set (dkeys succs) - visited),
                           \<lambda>(body, succs, visited, queue, r). length queue]", goal_cases)
  case 1
  show ?case by simp
next
  case (2 body succs visited sid queue r)
  then show ?case by simp
next
  case (3 body succs visited sid queue r)
  with walk_measure [of sid visited succs] show ?case by auto
qed

definition propagate_failure ::
  "clock \<Rightarrow> string \<Rightarrow> 'a task_context_scheme \<Rightarrow> string list \<times> 'a task_context_scheme" where
  "propagate_failure clk failed_sid c =
     (let succs = build_successors c;
          (blocked, c') = walk (block_step clk) succs {} (succs_of succs failed_sid) ([], c)
      in (blocked, if blocked = [] then c' else touch clk c'))"

definition propagate_unblock ::
  "clock \<Rightarrow> string \<Rightarrow> 'a task_context_scheme \<Rightarrow> string list \<times> 'a task_context_scheme" where
  "propagate_unblock clk completed_sid c =
     (let succs = build_successors c;
          (unblocked, c') = walk unblock_step succs {} (succs_of succs completed_sid) ([], c)
      in (unblocked, if unblocked = [] then c' else touch clk c'))"


section \<open>The order of the walk\<close>

definition walk_order :: "string list dict \<Rightarrow> string set \<Rightarrow> string list \<Rightarrow> string list" where
  "walk_order succs visited queue = walk (\<lambda>sid acc. acc @ [sid]) succs visited queue []"

lemma walk_acc:
  "walk (\<lambda>sid acc. acc @ [sid]) succs V q (xs @ ys) = xs @ walk (\<lambda>sid acc. acc @ [sid]) succs V q ys"
  by (induction "\<lambda>sid (acc :: string list). acc @ [sid]" succs V q ys rule: walk.induct) simp_all

lemma walk_order_simps [simp]:
  "walk_order succs V [] = []"
  "walk_order succs V (sid # q) = (if sid \<in> V then walk_order succs V q
     else sid # walk_order succs (insert sid V) (q @ succs_of succs sid))"
  using walk_acc [of succs "insert sid V" "q @ succs_of succs sid" "[sid]" "[]"]
  by (simp_all add: walk_order_def)

lemma walk_fold: "walk body succs V q r = fold body (walk_order succs V q) r"
  by (induction body succs V q r rule: walk.induct) simp_all

lemma walk_order_distinct: "distinct (walk_order succs V q) \<and> set (walk_order succs V q) \<inter> V = {}"
  by (induction "\<lambda>sid (acc :: string list). acc @ [sid]" succs V q "acc :: string list"
      rule: walk.induct) auto

definition succ_rel :: "string list dict \<Rightarrow> (string \<times> string) set" where
  "succ_rel succs = {(x, y). y \<in> set (succs_of succs x)}"

lemma walk_order_sound:
  "y \<in> set (walk_order succs V q) \<Longrightarrow> \<exists>x \<in> set q. (x, y) \<in> (succ_rel succs)\<^sup>*"
proof (induction "\<lambda>sid (acc :: string list). acc @ [sid]" succs V q "acc :: string list"
    rule: walk.induct)
  case (2 succs V sid q acc)
  show ?case
  proof (cases "sid \<in> V")
    case True
    with 2 show ?thesis by auto
  next
    case False
    with "2.prems" have "y = sid \<or> y \<in> set (walk_order succs (insert sid V) (q @ succs_of succs sid))"
      by simp
    with "2.hyps"(2) [OF False] show ?thesis
      by (auto simp: succ_rel_def intro: converse_rtrancl_into_rtrancl)
  qed
qed simp

lemma walk_order_complete:
  "succ_rel succs `` V \<subseteq> V \<union> set q \<Longrightarrow>
     set q \<subseteq> V \<union> set (walk_order succs V q) \<and>
     succ_rel succs `` (V \<union> set (walk_order succs V q)) \<subseteq> V \<union> set (walk_order succs V q)"
proof (induction "\<lambda>sid (acc :: string list). acc @ [sid]" succs V q "acc :: string list"
    rule: walk.induct)
  case (2 succs V sid q acc)
  show ?case
  proof (cases "sid \<in> V")
    case True
    with 2 show ?thesis by auto
  next
    case False
    have "succ_rel succs `` insert sid V \<subseteq> insert sid V \<union> set (q @ succs_of succs sid)"
      using "2.prems" by (auto simp: succ_rel_def)
    from "2.hyps"(2) [OF False this] False show ?thesis by auto
  qed
qed simp

text \<open>Starting afresh, the walk meets the steps reachable from its queue, each once.\<close>

lemma walk_order_reachable:
  "set (walk_order succs {} (succs_of succs s)) = {y. (s, y) \<in> (succ_rel succs)\<^sup>+}"
proof (intro equalityI subsetI)
  fix y
  assume "y \<in> set (walk_order succs {} (succs_of succs s))"
  then obtain x where "(s, x) \<in> succ_rel succs" "(x, y) \<in> (succ_rel succs)\<^sup>*"
    by (auto dest: walk_order_sound simp: succ_rel_def)
  then show "y \<in> {y. (s, y) \<in> (succ_rel succs)\<^sup>+}"
    by (simp add: rtrancl_into_trancl2)
next
  fix y
  assume "y \<in> {y. (s, y) \<in> (succ_rel succs)\<^sup>+}"
  then have "(s, y) \<in> (succ_rel succs)\<^sup>+" by simp
  then obtain x where x: "(s, x) \<in> succ_rel succs" "(x, y) \<in> (succ_rel succs)\<^sup>*"
    by (meson tranclD)
  let ?W = "set (walk_order succs {} (succs_of succs s))"
  have "set (succs_of succs s) \<subseteq> ?W" and closed: "succ_rel succs `` ?W \<subseteq> ?W"
    using walk_order_complete [of succs "{}" "succs_of succs s"] by auto
  with x(1) have "x \<in> ?W" by (auto simp: succ_rel_def)
  with x(2) show "y \<in> ?W"
    by (induction rule: rtrancl_induct) (use closed in auto)
qed

section \<open>The successor table is the converse of the dependencies\<close>

lemma succs_of_add [simp]:
  "set (succs_of (add_successor dep sid succs) x)
    = (if x = dep then insert sid (set (succs_of succs x)) else set (succs_of succs x))"
  by (simp add: succs_of_def add_successor_def)

lemma succs_of_fold_deps:
  "set (succs_of (fold (\<lambda>dep succs. add_successor dep sid succs) deps succs) x)
    = set (succs_of succs x) \<union> (if x \<in> set deps then {sid} else {})"
  by (induction deps arbitrary: succs) auto

lemma succs_of_fold_steps:
  "set (succs_of (fold (\<lambda>(sid, st) succs. fold (\<lambda>dep succs. add_successor dep sid succs)
       (depends_on st) succs) sm succs) x)
    = set (succs_of succs x) \<union> {k. \<exists>st. (k, st) \<in> set sm \<and> x \<in> set (depends_on st)}"
proof (induction sm arbitrary: succs)
  case (Cons p sm)
  obtain k st where p: "p = (k, st)" by (cases p)
  show ?case by (simp add: p Cons.IH succs_of_fold_deps) blast
qed simp

lemma succs_of_initial: "succs_of (map (\<lambda>sid. (sid, [])) ks) x = []"
  by (induction ks) (simp_all add: succs_of_def dget_or_def)

lemma succs_of_build:
  "set (succs_of (build_successors c) x) = {k. \<exists>st. (k, st) \<in> set (steps c) \<and> x \<in> set (depends_on st)}"
  unfolding build_successors_def succs_of_fold_steps succs_of_initial by simp

text \<open>The steps that depend on \<open>sid\<close>, directly or through others.\<close>

definition downstream :: "'a task_context_scheme \<Rightarrow> string \<Rightarrow> string set" where
  "downstream c sid = {k. (k, sid) \<in> (dep_edges (steps c))\<^sup>+}"

lemma succ_rel_build:
  "distinct (dkeys (steps c)) \<Longrightarrow> succ_rel (build_successors c) = (dep_edges (steps c))\<inverse>"
  unfolding succ_rel_def succs_of_build dep_edges_def converse_unfold
  by (simp add: map_of_eq_Some_iff)

lemma walk_order_downstream:
  assumes "distinct (dkeys (steps c))"
  shows "set (walk_order (build_successors c) {} (succs_of (build_successors c) sid)) = downstream c sid"
  by (simp add: walk_order_reachable succ_rel_build [OF assms] downstream_def trancl_converse)

section \<open>Failure reaches exactly the waiting steps downstream\<close>

definition blockable :: "'a task_context_scheme \<Rightarrow> string \<Rightarrow> bool" where
  "blockable c k = (status_of c k \<in> {PENDING, READY})"

lemma block_step_status:
  "status_of (snd (block_step clk s (b, c))) k = (if k = s \<and> blockable c s then BLOCKED else status_of c k)"
  "fst (block_step clk s (b, c)) = (if blockable c s then b @ [s] else b)"
  "steps (snd (block_step clk s (b, c))) = steps c"
  by (simp_all add: block_step_def blockable_def dget_or_status)

lemma fold_block_step:
  "distinct xs \<Longrightarrow>
     (\<forall>k. status_of (snd (fold (block_step clk) xs (b, c))) k
        = (if k \<in> set xs \<and> blockable c k then BLOCKED else status_of c k))
     \<and> fst (fold (block_step clk) xs (b, c)) = b @ filter (blockable c) xs
     \<and> steps (snd (fold (block_step clk) xs (b, c))) = steps c"
proof (induction xs arbitrary: b c)
  case (Cons x xs)
  obtain b1 c1 where r: "block_step clk x (b, c) = (b1, c1)" by (cases "block_step clk x (b, c)")
  note one = block_step_status [of clk x b c, unfolded r fst_conv snd_conv]
  have blk: "blockable c1 k \<longleftrightarrow> k \<noteq> x \<and> blockable c k" for k
    by (auto simp: blockable_def one(1))
  have "filter (\<lambda>k. k \<noteq> x \<and> blockable c k) xs = filter (blockable c) xs"
    using Cons.prems by (intro filter_cong) auto
  with Cons.IH [of b1 c1] Cons.prems show ?case
    by (auto simp: r one(2,3) one(1) blk)
qed simp

lemma propagate_failure_fold:
  "propagate_failure clk s c =
     (let (blocked, c') = fold (block_step clk)
            (walk_order (build_successors c) {} (succs_of (build_successors c) s)) ([], c)
      in (blocked, if blocked = [] then c' else touch clk c'))"
  by (simp add: propagate_failure_def walk_fold Let_def)

lemma propagate_failure_effect:
  assumes "distinct (dkeys (steps c))"
  shows "status_of (snd (propagate_failure clk s c)) k
      = (if k \<in> downstream c s \<and> blockable c k then BLOCKED else status_of c k)"
    and "set (fst (propagate_failure clk s c)) = {k \<in> downstream c s. blockable c k}"
    and "distinct (fst (propagate_failure clk s c))"
    and "steps (snd (propagate_failure clk s c)) = steps c"
proof -
  let ?xs = "walk_order (build_successors c) {} (succs_of (build_successors c) s)"
  obtain b c' where r: "fold (block_step clk) ?xs ([], c) = (b, c')" by fastforce
  have pf: "propagate_failure clk s c = (b, if b = [] then c' else touch clk c')"
    by (simp add: propagate_failure_fold r)
  have d: "distinct ?xs" using walk_order_distinct by blast
  note eff = fold_block_step [OF d, of clk "[]" c, unfolded r fst_conv snd_conv]
  show "status_of (snd (propagate_failure clk s c)) k
      = (if k \<in> downstream c s \<and> blockable c k then BLOCKED else status_of c k)"
    using eff walk_order_downstream [OF assms, of s] by (simp add: pf)
  show "set (fst (propagate_failure clk s c)) = {k \<in> downstream c s. blockable c k}"
    using eff walk_order_downstream [OF assms, of s] by (auto simp: pf)
  show "distinct (fst (propagate_failure clk s c))"
    using eff d by (simp add: pf)
  show "steps (snd (propagate_failure clk s c)) = steps c"
    using eff by (simp add: pf)
qed

section \<open>Recovery restores only steps without a failed dependency\<close>

lemma has_failed_dependency_mono:
  assumes "steps c' = steps c"
    and "\<And>d. status_of c' d \<in> DEPENDENCY_FAILED_STATUSES \<Longrightarrow> status_of c d \<in> DEPENDENCY_FAILED_STATUSES"
    and "has_failed_dependency c' k"
  shows "has_failed_dependency c k"
  using assms by (auto simp: has_failed_dependency_def list_ex_iff split: option.splits)

text \<open>What holds after any prefix of the walk, relative to the context it started from.\<close>

definition unblocked_so_far :: "'a task_context_scheme \<Rightarrow> string list \<times> 'a task_context_scheme \<Rightarrow> bool" where
  "unblocked_so_far c r = (case r of (u, c') \<Rightarrow>
     steps c' = steps c \<and>
     (\<forall>k. status_of c' k = (if k \<in> set u then PENDING else status_of c k)) \<and>
     list_all (\<lambda>k. status_of c k = BLOCKED \<and> \<not> has_failed_dependency c' k) u)"

lemma unblock_step_so_far:
  assumes "unblocked_so_far c (u, c1)"
  shows "unblocked_so_far c (unblock_step k (u, c1))"
    and "set (fst (unblock_step k (u, c1))) \<subseteq> insert k (set u)"
proof -
  let ?r = "unblock_step k (u, c1)"
  show "set (fst ?r) \<subseteq> insert k (set u)" by (auto simp: unblock_step_def)
  show "unblocked_so_far c ?r"
  proof (cases "dget (step_status c1) k = Some BLOCKED \<and> \<not> has_failed_dependency c1 k")
    case True
    obtain c2 where r: "?r = (u @ [k], c2)" using True by (simp add: unblock_step_def)
    have st: "status_of c2 j = (if j = k then PENDING else status_of c1 j)" for j
      using True r by (auto simp: unblock_step_def status_of_def)
    have steps2: "steps c2 = steps c1" using True r by (auto simp: unblock_step_def)
    have fail: "status_of c1 d \<in> DEPENDENCY_FAILED_STATUSES"
      if "status_of c2 d \<in> DEPENDENCY_FAILED_STATUSES" for d
      using that st [of d] by (auto simp: DEPENDENCY_FAILED_STATUSES_def split: if_splits)
    have mono: "\<not> has_failed_dependency c1 j \<Longrightarrow> \<not> has_failed_dependency c2 j" for j
      using has_failed_dependency_mono [OF steps2 fail] by blast
    have "status_of c1 k = BLOCKED" using True by (simp add: status_of_def dget_or_def)
    then have "k \<notin> set u" and "status_of c k = BLOCKED"
      using assms by (auto simp: unblocked_so_far_def split: if_splits)
    then show ?thesis
      using assms st steps2 mono True by (simp add: r unblocked_so_far_def list_all_iff)
  next
    case False
    with assms show ?thesis by (auto simp: unblock_step_def)
  qed
qed

lemma fold_unblock_step:
  "unblocked_so_far c r \<Longrightarrow>
     unblocked_so_far c (fold unblock_step xs r) \<and> set (fst (fold unblock_step xs r)) \<subseteq> set (fst r) \<union> set xs"
proof (induction xs arbitrary: r)
  case (Cons x xs)
  obtain u c1 where r: "r = (u, c1)" by (cases r)
  with unblock_step_so_far [of c u c1 x] Cons.IH [of "unblock_step x r"] Cons.prems
  show ?case by fastforce
qed simp

lemma propagate_unblock_effect:
  fixes c :: "'a task_context_scheme" and clk s
  assumes "distinct (dkeys (steps c))"
  defines "u \<equiv> fst (propagate_unblock clk s c)" and "c' \<equiv> snd (propagate_unblock clk s c)"
  shows "status_of c' k = (if k \<in> set u then PENDING else status_of c k)"
    and "set u \<subseteq> downstream c s"
    and "k \<in> set u \<Longrightarrow> status_of c k = BLOCKED \<and> \<not> has_failed_dependency c' k"
    and "steps c' = steps c"
proof -
  let ?xs = "walk_order (build_successors c) {} (succs_of (build_successors c) s)"
  obtain v d where r: "fold unblock_step ?xs ([], c) = (v, d)" by fastforce
  have pu: "propagate_unblock clk s c = (v, if v = [] then d else touch clk d)"
    by (simp add: propagate_unblock_def walk_fold Let_def r)
  have "unblocked_so_far c ([], c)" by (simp add: unblocked_so_far_def)
  from fold_unblock_step [OF this, of ?xs, unfolded r]
  have inv: "unblocked_so_far c (v, d)" and sub: "set v \<subseteq> set ?xs" by auto
  have hfd: "has_failed_dependency c' k = has_failed_dependency d k" for k
    by (simp add: c'_def pu has_failed_dependency_def split: option.split)
  show "status_of c' k = (if k \<in> set u then PENDING else status_of c k)"
    using inv by (simp add: u_def c'_def pu unblocked_so_far_def)
  show "set u \<subseteq> downstream c s"
    using sub walk_order_downstream [OF assms(1), of s] by (simp add: u_def pu)
  show "steps c' = steps c"
    using inv by (simp add: c'_def pu unblocked_so_far_def)
  show "k \<in> set u \<Longrightarrow> status_of c k = BLOCKED \<and> \<not> has_failed_dependency c' k"
    using inv by (simp add: u_def pu hfd unblocked_so_far_def list_all_iff)
qed

end
