(* ===== verification/Dag_Engine.thy ===== *)
theory Dag_Engine
  imports Dag_Propagate
begin

text \<open>
  The execution loop of \<open>PlanDAGEngine\<close> (\<open>core/plan_dag_engine.py\<close>): \<open>execute_with_retry\<close>,
  one iteration of \<open>run_until_blocked\<close>, and the loop with fuel.

  The step executor is a function from the step and the current context to a result or an
  exception and the context it leaves behind: the closures the orchestrator passes in mutate
  the context they hold. An executor that answers differently on a retry sees a different
  context, since every attempt is counted and reads the clock. \<open>sleep_fn\<close> has no effect on
  the context.

  \<open>step_enum\<close>, \<open>_enum_for_value\<close> and \<open>_status_value\<close> translate between a status and its
  string; with statuses as a datatype they are the identity. The string fallback of
  \<open>_step_enum\<close> for a context whose \<open>step_status\<close> is empty is not modelled.
\<close>

type_synonym 's executor = "plan_step \<Rightarrow> 's \<Rightarrow> (exn + pyval) \<times> 's"

definition is_retryable :: "exn \<Rightarrow> bool" where
  "is_retryable e = (is_runtime_kind (exn_kind e) \<or> exn_kind e \<in> {TimeoutError, ConnectionError})"

text \<open>One attempt: count it, mark the step running, call the executor.\<close>

definition start_attempt ::
  "clock \<Rightarrow> plan_step \<Rightarrow> int \<Rightarrow> 'a task_context_scheme \<Rightarrow> 'a task_context_scheme" where
  "start_attempt clk st attempts c = mark_step_started clk (step_id st)
     (c\<lparr>step_attempts := dset (step_attempts c) (step_id st) attempts,
        step_status := dset (step_status c) (step_id st) RUNNING\<rparr>)"

function retry_loop ::
  "clock \<Rightarrow> 'a task_context_scheme executor \<Rightarrow> plan_step \<Rightarrow> int \<Rightarrow> 'a task_context_scheme
    \<Rightarrow> (exn + pyval) \<times> 'a task_context_scheme" where
  "retry_loop clk exec st attempts c =
     (if attempts \<le> retry_max st
      then (case exec st (start_attempt clk st (attempts + 1) c) of
          (Inr v, c') \<Rightarrow> (Inr v, c')
        | (Inl e, c') \<Rightarrow>
            if attempts + 1 \<ge> retry_max st \<or> \<not> is_retryable e then (Inl e, c')
            else retry_loop clk exec st (attempts + 1) c')
      else (Inl (Exn RuntimeError ''unreachable retry state''), c))"
  by pat_completeness simp_all
termination
  by (relation "measure (\<lambda>(clk, exec, st, attempts, c). nat (retry_max st + 1 - attempts))") simp_all

declare retry_loop.simps [simp del]

definition execute_with_retry ::
  "clock \<Rightarrow> 'a task_context_scheme executor \<Rightarrow> plan_step \<Rightarrow> 'a task_context_scheme
    \<Rightarrow> (exn + pyval) \<times> 'a task_context_scheme" where
  "execute_with_retry clk exec st c = retry_loop clk exec st 0 c"

definition check_condition :: "plan_step \<Rightarrow> pyval dict \<Rightarrow> bool" where
  "check_condition st vars = (case condition_key st of
     None \<Rightarrow> True
   | Some k \<Rightarrow> k = [] \<or> truthy (pget vars k))"

definition resolve_ready_steps :: "'a task_context_scheme \<Rightarrow> plan_step list" where
  "resolve_ready_steps c = get_ready_steps c"

definition all_steps_final :: "'a task_context_scheme \<Rightarrow> bool" where
  "all_steps_final c = list_all
     (\<lambda>sid. case dget (step_status c) sid of None \<Rightarrow> False | Some s \<Rightarrow> s \<in> FINAL_STEP_STATUSES)
     (dkeys (steps c))"

definition all_dependencies_failed :: "'a task_context_scheme \<Rightarrow> bool" where
  "all_dependencies_failed c =
     (let pending = filter (\<lambda>(sid, st). case dget (step_status c) sid of
            None \<Rightarrow> True | Some s \<Rightarrow> s \<notin> FINAL_STEP_STATUSES) (steps c)
      in pending \<noteq> [] \<and> list_all (\<lambda>(sid, st). dependency_failed c st \<noteq> []) pending)"

definition collect_first_failed_deps :: "'a task_context_scheme \<Rightarrow> string list" where
  "collect_first_failed_deps c = take 3 (sort (remdups (map fst
     (filter (\<lambda>(sid, s). s \<in> DEPENDENCY_FAILED_STATUSES) (step_status c)))))"

definition mark_completed :: "string \<Rightarrow> 'a task_context_scheme \<Rightarrow> 'a task_context_scheme" where
  "mark_completed sid c = (case dget (step_status c) sid of
     Some s \<Rightarrow> if s \<in> DEPENDENCY_SATISFIED_STATUSES then mark_dependency_satisfied sid c
               else mark_processed sid c
   | None \<Rightarrow> mark_processed sid c)"

text \<open>What an iteration of the loop does next: leave it, possibly by an exception, or go on.\<close>

datatype 's iteration = Leave "exn + 's" | Again nat 's

text \<open>No step is ready: the plan is done, has failed upstream, or waits.\<close>

definition conclude :: "clock \<Rightarrow> 'a task_context_scheme \<Rightarrow> 'a task_context_scheme" where
  "conclude clk c =
     (if all_steps_final c then mark_terminal clk (c\<lparr>status := Plan_DONE\<rparr>)
      else if all_dependencies_failed c then
        (let c1 = c\<lparr>status := Plan_FAILED,
               ctx_error := Some (''upstream dependencies failed: ''
                 @ join '', '' (collect_first_failed_deps c))\<rparr>
         in mark_terminal clk
              (fold (\<lambda>(sid, s) c. if s \<in> DEPENDENCY_FAILED_STATUSES
                       then snd (propagate_failure clk sid c) else c) (step_status c1) c1))
      else touch clk (c\<lparr>status := Plan_PAUSED, paused_reason := Some ''waiting_dependencies''\<rparr>))"

text \<open>After a step was executed: stop when \<open>max_steps\<close> is used up.\<close>

definition budget_spent :: "nat option \<Rightarrow> nat \<Rightarrow> bool" where
  "budget_spent max_steps executed = (case max_steps of None \<Rightarrow> False | Some m \<Rightarrow> m \<le> executed)"

definition after_completion ::
  "clock \<Rightarrow> nat option \<Rightarrow> nat \<Rightarrow> 'a task_context_scheme \<Rightarrow> 'a task_context_scheme iteration" where
  "after_completion clk max_steps executed c =
     (if budget_spent max_steps executed
      then Leave (Inr (if all_steps_final c then mark_terminal clk (c\<lparr>status := Plan_DONE\<rparr>) else c))
      else Again executed c)"

definition finish_with_result ::
  "clock \<Rightarrow> nat option \<Rightarrow> nat \<Rightarrow> string \<Rightarrow> step_status \<Rightarrow> string option \<Rightarrow> pyval
    \<Rightarrow> 'a task_context_scheme \<Rightarrow> 'a task_context_scheme iteration" where
  "finish_with_result clk max_steps executed sid s err v c =
     (case set_step_result clk sid v (c\<lparr>step_status := dset (step_status c) sid s\<rparr>) of
        Inl e \<Rightarrow> Leave (Inl e)
      | Inr c1 \<Rightarrow>
          (let c2 = (case err of None \<Rightarrow> c1
                     | Some t \<Rightarrow> c1\<lparr>step_errors := dset (step_errors c1) sid t\<rparr>)
           in after_completion clk max_steps executed
                (mark_completed sid (mark_step_completed clk sid c2))))"

definition finish_failed ::
  "clock \<Rightarrow> nat option \<Rightarrow> nat \<Rightarrow> plan_step \<Rightarrow> exn \<Rightarrow> 'a task_context_scheme
    \<Rightarrow> 'a task_context_scheme iteration" where
  "finish_failed clk max_steps executed st e c =
     (let sid = step_id st;
          c1 = c\<lparr>step_status := dset (step_status c) sid FAILED,
                 step_errors := dset (step_errors c) sid (exn_text e)\<rparr>;
          c2 = mark_processed sid (mark_step_completed clk sid c1)
      in if fail_fast st
         then Leave (Inr (mark_terminal clk (c2\<lparr>status := Plan_FAILED,
                ctx_error := Some (exn_text e), paused_step_id := Some sid\<rparr>)))
         else if budget_spent max_steps executed then Leave (Inr c2)
         else Again executed c2)"

definition execute_ready ::
  "clock \<Rightarrow> 'a task_context_scheme executor \<Rightarrow> nat option \<Rightarrow> nat \<Rightarrow> plan_step
    \<Rightarrow> 'a task_context_scheme \<Rightarrow> 'a task_context_scheme iteration" where
  "execute_ready clk exec max_steps executed st c =
     (case execute_with_retry clk exec st c of
        (Inl e, c') \<Rightarrow>
          if degrade_value st \<noteq> PNone
          then finish_with_result clk max_steps (Suc executed) (step_id st) DEGRADED
                 (Some (exn_text e)) (degrade_value st) c'
          else finish_failed clk max_steps (Suc executed) st e c'
      | (Inr v, c') \<Rightarrow>
          finish_with_result clk max_steps (Suc executed) (step_id st) DONE None v c')"

definition run_iteration ::
  "clock \<Rightarrow> 'a task_context_scheme executor \<Rightarrow> nat option \<Rightarrow> nat \<Rightarrow> 'a task_context_scheme
    \<Rightarrow> 'a task_context_scheme iteration" where
  "run_iteration clk exec max_steps executed c =
     (case resolve_ready_steps c of
        [] \<Rightarrow> Leave (Inr (conclude clk c))
      | st # _ \<Rightarrow>
          if require_consent st \<and> dget (step_status c) (step_id st) \<noteq> Some READY
          then Leave (Inr (touch clk (c\<lparr>status := Plan_PAUSED,
                 paused_reason := Some ''waiting_consent'', paused_step_id := Some (step_id st),
                 step_status := dset (step_status c) (step_id st) BLOCKED\<rparr>)))
          else if \<not> check_condition st (context_vars c)
          then Again executed (mark_completed (step_id st) (mark_step_completed clk (step_id st)
                 (c\<lparr>step_status := dset (step_status c) (step_id st) SKIPPED\<rparr>)))
          else execute_ready clk exec max_steps executed st c)"

text \<open>\<open>while True\<close>, with fuel; \<open>None\<close> is a loop that has not stopped yet.\<close>

fun run_loop ::
  "nat \<Rightarrow> clock \<Rightarrow> 'a task_context_scheme executor \<Rightarrow> nat option \<Rightarrow> nat \<Rightarrow> 'a task_context_scheme
    \<Rightarrow> (exn + 'a task_context_scheme) option" where
  "run_loop 0 clk exec max_steps executed c = None"
| "run_loop (Suc fuel) clk exec max_steps executed c =
     (case run_iteration clk exec max_steps executed c of
        Leave r \<Rightarrow> Some r
      | Again executed' c' \<Rightarrow> run_loop fuel clk exec max_steps executed' c')"

definition begin_run :: "clock \<Rightarrow> 'a task_context_scheme \<Rightarrow> 'a task_context_scheme" where
  "begin_run clk c = (mark_started clk
     ((rebuild_dependency_satisfied_set c)\<lparr>status := Plan_RUNNING\<rparr>))
       \<lparr>paused_reason := None, paused_step_id := None\<rparr>"

definition run_until_blocked ::
  "nat \<Rightarrow> clock \<Rightarrow> 'a task_context_scheme executor \<Rightarrow> nat option \<Rightarrow> 'a task_context_scheme
    \<Rightarrow> (exn + 'a task_context_scheme) option" where
  "run_until_blocked fuel clk exec max_steps c =
     (if is_terminal c then Some (Inr c)
      else run_loop fuel clk exec max_steps 0 (begin_run clk c))"

end
