(* ===== verification/Plan_Samples.thy ===== *)
theory Plan_Samples
  imports Dag_Engine
begin

text \<open>
  Small concrete plans and executors on which the witnesses of the plan components apply
  their theorems. Nothing here models code of the repository.
\<close>

definition sample_step :: "string \<Rightarrow> string list \<Rightarrow> plan_step" where
  "sample_step sid deps = \<lparr>step_id = sid, skill_id = ''writer'', result_key = ''r_'' @ sid,
     depends_on = deps, condition_key = None, retry_max = 0, retry_backoff_s = 0,
     degrade_value = PNone, require_consent = False, idempotency_key = None, step_payload = [],
     fail_fast = True, step_title = [], step_description = [], expected_output = [],
     verification = [], completion_criteria = [], step_stage = None, estimated_minutes = 0,
     step_files = [], subagent_type = None\<rparr>"

definition sample_plan :: "plan_step list \<Rightarrow> plan_step dict" where
  "sample_plan ss = map (\<lambda>st. (step_id st, st)) ss"

definition sample_context :: "plan_step list \<Rightarrow> step_status dict \<Rightarrow> task_context" where
  "sample_context ss stm = new_context ''plan'' ''trace'' (sample_plan ss) stm"

definition tick :: clock where
  "tick n = of_nat n"

definition echo_executor :: "'a task_context_scheme executor" where
  "echo_executor st c = (Inr (PStr (step_id st)), c)"

definition broken_executor :: "'a task_context_scheme executor" where
  "broken_executor st c = (Inl (Exn TimeoutError ''no answer''), c)"

text \<open>A chain of two steps, and a step with two dependencies.\<close>

definition chain_context :: task_context where
  "chain_context = sample_context [sample_step ''a'' [], sample_step ''b'' [''a'']]
     [(''a'', PENDING), (''b'', PENDING)]"

text \<open>\<open>a\<close> failed; \<open>d\<close> depends on it directly and through \<open>b\<close> and \<open>e\<close>.\<close>

definition diamond_steps :: "plan_step list" where
  "diamond_steps = [sample_step ''a'' [], sample_step ''b'' [''a''], sample_step ''e'' [''b''],
     sample_step ''d'' [''a'', ''e'']]"

definition diamond_context :: "step_status \<Rightarrow> step_status \<Rightarrow> task_context" where
  "diamond_context s t = sample_context diamond_steps
     [(''a'', s), (''b'', t), (''e'', t), (''d'', t)]"

lemmas sample_defs = sample_step_def sample_plan_def sample_context_def new_context_def
  rebuild_dependency_satisfied_set_def chain_context_def diamond_steps_def diamond_context_def

lemma chain_keyed: "keyed (steps chain_context)"
  by (simp add: keyed_def sample_defs)

lemma diamond_distinct: "distinct (dkeys (steps (diamond_context s t)))"
  by (simp add: sample_defs)

end
