(* ===== verification/Dag_Run.thy ===== *)
theory Dag_Run
  imports Dag_Engine Plan_Samples
begin

text \<open>
  The contract between the engine and the step executor it is given, as a locale, and what
  the engine promises any executor that keeps it: how often a step is attempted, that the
  loop stops, that a step runs only when its dependencies are satisfied and its consent has
  been given, and what the status of the plan means when the loop is left.
\<close>

section \<open>The contract\<close>

text \<open>
  An executor may write results, variables, feedback and pause markers into the context, but
  leaves the plan, the status of the steps and the bookkeeping of dependencies to the engine.
\<close>

locale step_executor =
  fixes exec :: "'a task_context_scheme executor"
  assumes exec_steps: "steps (snd (exec st c)) = steps c"
    and exec_step_status: "step_status (snd (exec st c)) = step_status c"
    and exec_step_attempts: "step_attempts (snd (exec st c)) = step_attempts c"
    and exec_processed: "processed_steps (snd (exec st c)) = processed_steps c"
    and exec_satisfied: "dependency_satisfied_set (snd (exec st c)) = dependency_satisfied_set c"
    and exec_status: "status (snd (exec st c)) = status c"

lemma start_attempt_frame [simp]:
  "steps (start_attempt clk st n c) = steps c"
  "step_status (start_attempt clk st n c) = dset (step_status c) (step_id st) RUNNING"
  "step_attempts (start_attempt clk st n c) = dset (step_attempts c) (step_id st) n"
  "processed_steps (start_attempt clk st n c) = processed_steps c"
  "dependency_satisfied_set (start_attempt clk st n c) = dependency_satisfied_set c"
  "status (start_attempt clk st n c) = status c"
  by (simp_all add: start_attempt_def)

section \<open>Retries\<close>

context step_executor
begin

lemmas exec_frame = exec_steps exec_step_status exec_step_attempts exec_processed exec_satisfied
  exec_status

text \<open>
  The attempts of a step: at least one, at most \<open>max 1 retry_max\<close>; the outcome is the outcome of
  the last call of the executor, and an error is returned early only if it is not retryable.
\<close>

lemma retry_loop_result:
  assumes "0 \<le> a" and "a \<le> retry_max st" and "a = 0 \<or> a < retry_max st"
  shows "\<exists>n d. a < n \<and> n \<le> max 1 (retry_max st)
      \<and> retry_loop clk exec st a c = exec st d
      \<and> steps d = steps c \<and> step_status d = dset (step_status c) (step_id st) RUNNING
      \<and> step_attempts d = dset (step_attempts c) (step_id st) n
      \<and> processed_steps d = processed_steps c
      \<and> dependency_satisfied_set d = dependency_satisfied_set c \<and> status d = status c
      \<and> (\<forall>e. fst (exec st d) = Inl e \<longrightarrow> n = max 1 (retry_max st) \<or> \<not> is_retryable e)"
  using assms
proof (induction "nat (retry_max st + 1 - a)" arbitrary: a c rule: less_induct)
  case less
  let ?d = "start_attempt clk st (a + 1) c"
  obtain r c' where ex: "exec st ?d = (r, c')" by (cases "exec st ?d")
  have eq: "retry_loop clk exec st a c = (case r of
      Inr v \<Rightarrow> (Inr v, c')
    | Inl e \<Rightarrow> if a + 1 \<ge> retry_max st \<or> \<not> is_retryable e then (Inl e, c')
              else retry_loop clk exec st (a + 1) c')"
    using less.prems(2) ex by (simp add: retry_loop.simps [of clk exec st a c] split: sum.split)
  show ?case
  proof (cases "\<exists>e. r = Inl e \<and> a + 1 < retry_max st \<and> is_retryable e")
    case True
    then have again: "retry_loop clk exec st a c = retry_loop clk exec st (a + 1) c'"
      by (auto simp: eq)
    have frame: "steps c' = steps c" "step_status c' = dset (step_status c) (step_id st) RUNNING"
      "step_attempts c' = dset (step_attempts c) (step_id st) (a + 1)"
      "processed_steps c' = processed_steps c"
      "dependency_satisfied_set c' = dependency_satisfied_set c" "status c' = status c"
      using exec_frame [of st ?d] by (simp_all add: ex)
    have "nat (retry_max st + 1 - (a + 1)) < nat (retry_max st + 1 - a)"
      using less.prems(2) by simp
    from less.hyps [OF this, of c'] less.prems True
    obtain n d where "a + 1 < n" "n \<le> max 1 (retry_max st)"
      "retry_loop clk exec st (a + 1) c' = exec st d" "steps d = steps c'"
      "step_status d = dset (step_status c') (step_id st) RUNNING"
      "step_attempts d = dset (step_attempts c') (step_id st) n"
      "processed_steps d = processed_steps c'"
      "dependency_satisfied_set d = dependency_satisfied_set c'" "status d = status c'"
      "\<forall>e. fst (exec st d) = Inl e \<longrightarrow> n = max 1 (retry_max st) \<or> \<not> is_retryable e"
      by auto
    then show ?thesis
      by (intro exI [of _ n] exI [of _ d]) (simp add: again frame)
  next
    case False
    then have stop: "retry_loop clk exec st a c = exec st ?d"
      by (auto simp: eq ex split: sum.split)
    have last: "\<forall>e. fst (exec st ?d) = Inl e \<longrightarrow> a + 1 = max 1 (retry_max st) \<or> \<not> is_retryable e"
    proof (intro allI impI)
      fix e
      assume "fst (exec st ?d) = Inl e"
      with False have "a + 1 \<ge> retry_max st \<or> \<not> is_retryable e" by (fastforce simp: ex)
      with less.prems show "a + 1 = max 1 (retry_max st) \<or> \<not> is_retryable e" by linarith
    qed
    have "a < a + 1" and "a + 1 \<le> max 1 (retry_max st)" using less.prems by linarith+
    with last show ?thesis
      by (intro exI [of _ "a + 1"] exI [of _ ?d]) (simp add: stop)
  qed
qed

lemma execute_with_retry_result:
  assumes "0 \<le> retry_max st"
  shows "\<exists>n d. 0 < n \<and> n \<le> max 1 (retry_max st)
      \<and> execute_with_retry clk exec st c = exec st d
      \<and> steps d = steps c \<and> step_status d = dset (step_status c) (step_id st) RUNNING
      \<and> step_attempts d = dset (step_attempts c) (step_id st) n
      \<and> processed_steps d = processed_steps c
      \<and> dependency_satisfied_set d = dependency_satisfied_set c \<and> status d = status c
      \<and> (\<forall>e. fst (exec st d) = Inl e \<longrightarrow> n = max 1 (retry_max st) \<or> \<not> is_retryable e)"
  unfolding execute_with_retry_def by (rule retry_loop_result) (use assms in simp_all)

text \<open>A negative \<open>retry_max\<close> never calls the executor.\<close>

lemma execute_with_retry_negative:
  "retry_max st < 0 \<Longrightarrow>
     execute_with_retry clk exec st c = (Inl (Exn RuntimeError ''unreachable retry state''), c)"
  by (simp add: execute_with_retry_def retry_loop.simps)

text \<open>What the attempts leave of the tables the loop reads.\<close>

lemma execute_with_retry_frame:
  assumes "execute_with_retry clk exec st c = (r, c')"
  shows "steps c' = steps c" and "processed_steps c' = processed_steps c"
    and "dependency_satisfied_set c' = dependency_satisfied_set c" and "status c' = status c"
    and "k \<noteq> step_id st \<Longrightarrow> status_of c' k = status_of c k"
proof -
  have "steps c' = steps c \<and> processed_steps c' = processed_steps c
    \<and> dependency_satisfied_set c' = dependency_satisfied_set c \<and> status c' = status c
    \<and> (k \<noteq> step_id st \<longrightarrow> status_of c' k = status_of c k)"
  proof (cases "0 \<le> retry_max st")
    case True
    from execute_with_retry_result [OF this, of clk c] assms obtain d where
      d: "exec st d = (r, c')" "steps d = steps c"
        "step_status d = dset (step_status c) (step_id st) RUNNING"
        "processed_steps d = processed_steps c"
        "dependency_satisfied_set d = dependency_satisfied_set c" "status d = status c"
      by auto
    with exec_frame [of st d] show ?thesis by (simp add: status_of_def)
  next
    case False
    with assms show ?thesis by (simp add: execute_with_retry_negative)
  qed
  then show "steps c' = steps c" and "processed_steps c' = processed_steps c"
    and "dependency_satisfied_set c' = dependency_satisfied_set c" and "status c' = status c"
    and "k \<noteq> step_id st \<Longrightarrow> status_of c' k = status_of c k"
    by simp_all
qed

end

section \<open>One iteration\<close>

text \<open>How a finished step changes what the loop reads: its own status, and whether it counts as
  a satisfied dependency.\<close>

definition settles :: "string \<Rightarrow> step_status \<Rightarrow> 'a task_context_scheme \<Rightarrow> 'a task_context_scheme \<Rightarrow> bool" where
  "settles sid s c c' = (steps c' = steps c
     \<and> (\<forall>k. status_of c' k = (if k = sid then s else status_of c k))
     \<and> dependency_satisfied_set c' =
         (if s \<in> DEPENDENCY_SATISFIED_STATUSES then insert sid (dependency_satisfied_set c)
          else dependency_satisfied_set c))"

lemma mark_completed_frame [simp]:
  "steps (mark_completed sid c) = steps c"
  "step_status (mark_completed sid c) = step_status c"
  "status (mark_completed sid c) = status c"
  "status_of (mark_completed sid c) k = status_of c k"
  by (simp_all add: mark_completed_def split: option.split)

lemma mark_completed_satisfied:
  "dget (step_status c) sid = Some s \<Longrightarrow>
     dependency_satisfied_set (mark_completed sid c)
       = (if s \<in> DEPENDENCY_SATISFIED_STATUSES then insert sid (dependency_satisfied_set c)
          else dependency_satisfied_set c)"
  by (simp add: mark_completed_def)

lemma finish_with_result_effect:
  assumes fin: "finish_with_result clk m n sid s err v c = it"
    and key: "dget (steps c) sid \<noteq> None"
  shows "\<exists>c'. settles sid s c c' \<and> status c' = status c \<and>
     it = after_completion clk m n c'"
proof -
  from key obtain st where st: "dget (steps c) sid = Some st" by auto
  define c1 where "c1 = touch clk (c\<lparr>step_status := dset (step_status c) sid s,
    step_results := dset (step_results c) (result_key st) v,
    context_vars := dset (context_vars c) (result_key st) v\<rparr>)"
  define c2 where "c2 = (case err of None \<Rightarrow> c1
    | Some t \<Rightarrow> c1\<lparr>step_errors := dset (step_errors c1) sid t\<rparr>)"
  define c' where "c' = mark_completed sid (mark_step_completed clk sid c2)"
  have it: "it = after_completion clk m n c'"
    unfolding fin [symmetric] finish_with_result_def set_step_result_def c'_def c2_def c1_def
    by (simp add: st Let_def)
  have c2: "steps c2 = steps c" "step_status c2 = dset (step_status c) sid s"
    "dependency_satisfied_set c2 = dependency_satisfied_set c" "status c2 = status c"
    by (simp_all add: c2_def c1_def split: option.split)
  have "settles sid s c c'"
    using c2 mark_completed_satisfied [of "mark_step_completed clk sid c2" sid s]
    by (simp add: settles_def c'_def status_of_def)
  moreover have "status c' = status c" using c2 by (simp add: c'_def)
  ultimately show ?thesis using it by blast
qed

lemma after_completion_cases:
  "after_completion clk m n c = Again n' c' \<Longrightarrow> c' = c \<and> n' = n"
  "after_completion clk m n c = Leave r \<Longrightarrow> budget_spent m n \<and>
     (r = Inr c \<or> all_steps_final c \<and> r = Inr (mark_terminal clk (c\<lparr>status := Plan_DONE\<rparr>)))"
  by (auto simp: after_completion_def split: if_splits)

lemma finish_failed_effect:
  "\<exists>c'. settles (step_id st) FAILED c c' \<and> status c' = status c \<and>
     dget (step_errors c') (step_id st) = Some (exn_text e) \<and>
     finish_failed clk m n st e c =
       (if fail_fast st then Leave (Inr (mark_terminal clk (c'\<lparr>status := Plan_FAILED,
            ctx_error := Some (exn_text e), paused_step_id := Some (step_id st)\<rparr>)))
        else if budget_spent m n then Leave (Inr c') else Again n c')"
proof -
  let ?c' = "mark_processed (step_id st) (mark_step_completed clk (step_id st)
     (c\<lparr>step_status := dset (step_status c) (step_id st) FAILED,
        step_errors := dset (step_errors c) (step_id st) (exn_text e)\<rparr>))"
  have "settles (step_id st) FAILED c ?c'"
    by (simp add: settles_def status_of_def DEPENDENCY_SATISFIED_STATUSES_def)
  moreover have "status ?c' = status c" and "dget (step_errors ?c') (step_id st) = Some (exn_text e)"
    by simp_all
  ultimately show ?thesis
    by (intro exI [of _ ?c']) (simp add: finish_failed_def Let_def)
qed

lemma skip_effect:
  "settles (step_id st) SKIPPED c (mark_completed (step_id st) (mark_step_completed clk (step_id st)
     (c\<lparr>step_status := dset (step_status c) (step_id st) SKIPPED\<rparr>)))"
  by (simp add: settles_def status_of_def mark_completed_satisfied)

text \<open>Settling after the attempts is settling before them.\<close>

lemma settles_after_attempts:
  assumes "settles sid s c1 c2" and "steps c1 = steps c"
    and "dependency_satisfied_set c1 = dependency_satisfied_set c"
    and "\<And>k. k \<noteq> sid \<Longrightarrow> status_of c1 k = status_of c k"
  shows "settles sid s c c2"
  using assms by (simp add: settles_def)

context step_executor
begin

text \<open>
  Executing a ready step ends in one of three statuses. The loop goes on, or it is left with
  the step settled and the plan's status unchanged, done, or failed.
\<close>

lemma execute_ready_effect:
  assumes key: "dget (steps c) (step_id st) \<noteq> None"
    and it: "execute_ready clk exec m n st c = it"
  shows "\<exists>s c'. s \<in> {DONE, DEGRADED, FAILED} \<and> settles (step_id st) s c c' \<and> status c' = status c \<and>
      (it = Again (Suc n) c'
       \<or> budget_spent m (Suc n) \<and> it = Leave (Inr c')
       \<or> all_steps_final c' \<and> it = Leave (Inr (mark_terminal clk (c'\<lparr>status := Plan_DONE\<rparr>)))
       \<or> s = FAILED \<and> fail_fast st \<and> (\<exists>e. it = Leave (Inr (mark_terminal clk (c'\<lparr>status := Plan_FAILED,
            ctx_error := Some e, paused_step_id := Some (step_id st)\<rparr>)))))"
proof -
  obtain r c1 where ex: "execute_with_retry clk exec st c = (r, c1)"
    by (cases "execute_with_retry clk exec st c")
  note fr = execute_with_retry_frame [OF ex]
  have key1: "dget (steps c1) (step_id st) \<noteq> None" using key fr(1) by simp
  have via: "settles (step_id st) s c c2" if "settles (step_id st) s c1 c2" for s c2
    using settles_after_attempts [OF that fr(1,3,5)] .
  have done_case: ?thesis
    if s: "s \<in> {DONE, DEGRADED}" and itf: "it = finish_with_result clk m (Suc n) (step_id st) s err v c1" for s err v
  proof -
    obtain c2 where c2: "settles (step_id st) s c1 c2" "status c2 = status c1"
      and it2: "it = after_completion clk m (Suc n) c2"
      using finish_with_result_effect [OF itf [symmetric] key1] by blast
    have "s \<in> {DONE, DEGRADED, FAILED}" "status c2 = status c" using s c2 fr(4) by auto
    moreover have "it = Again (Suc n) c2 \<or> budget_spent m (Suc n) \<and> it = Leave (Inr c2)
       \<or> all_steps_final c2 \<and> it = Leave (Inr (mark_terminal clk (c2\<lparr>status := Plan_DONE\<rparr>)))"
      by (simp add: it2 after_completion_def)
    ultimately show ?thesis using via [OF c2(1)] by (intro exI [of _ s] exI [of _ c2]) blast
  qed
  show ?thesis
  proof (cases r)
    case (Inr v)
    with it ex done_case [of DONE None v] show ?thesis by (simp add: execute_ready_def)
  next
    case (Inl e)
    show ?thesis
    proof (cases "degrade_value st = PNone")
      case False
      with Inl it ex done_case [of DEGRADED "Some (exn_text e)" "degrade_value st"] show ?thesis
        by (simp add: execute_ready_def)
    next
      case True
      obtain c2 where c2: "settles (step_id st) FAILED c1 c2" "status c2 = status c1"
        and ff: "finish_failed clk m (Suc n) st e c1 =
          (if fail_fast st then Leave (Inr (mark_terminal clk (c2\<lparr>status := Plan_FAILED,
               ctx_error := Some (exn_text e), paused_step_id := Some (step_id st)\<rparr>)))
           else if budget_spent m (Suc n) then Leave (Inr c2) else Again (Suc n) c2)"
        using finish_failed_effect [of st c1 e clk m "Suc n"] by blast
      have "it = finish_failed clk m (Suc n) st e c1"
        using it ex Inl True by (simp add: execute_ready_def)
      with ff have "it = Again (Suc n) c2 \<or> budget_spent m (Suc n) \<and> it = Leave (Inr c2)
          \<or> fail_fast st \<and> (\<exists>e. it = Leave (Inr (mark_terminal clk (c2\<lparr>status := Plan_FAILED,
               ctx_error := Some e, paused_step_id := Some (step_id st)\<rparr>))))"
        by auto
      then show ?thesis
        using via [OF c2(1)] c2(2) fr(4) by (intro exI [of _ FAILED] exI [of _ c2]) auto
    qed
  qed
qed

text \<open>Going on means that one ready step has reached a final status.\<close>

lemma run_iteration_again:
  assumes "keyed (steps c)" and "run_iteration clk exec m n c = Again n' c'"
  shows "\<exists>st s. st \<in> set (get_ready_steps c) \<and> s \<in> {SKIPPED, DONE, DEGRADED, FAILED}
      \<and> settles (step_id st) s c c' \<and> status c' = status c"
proof -
  obtain st rest where rdy: "get_ready_steps c = st # rest"
    using assms(2) by (auto simp: run_iteration_def resolve_ready_steps_def split: list.splits)
  then have st: "st \<in> set (get_ready_steps c)" by simp
  then have key: "dget (steps c) (step_id st) \<noteq> None"
    using keyed_step [OF assms(1) get_ready_steps_ready(1)] by simp
  show ?thesis
  proof (cases "check_condition st (context_vars c)")
    case False
    with assms(2) rdy have "c' = mark_completed (step_id st) (mark_step_completed clk (step_id st)
       (c\<lparr>step_status := dset (step_status c) (step_id st) SKIPPED\<rparr>))"
      by (simp add: run_iteration_def resolve_ready_steps_def split: if_splits)
    with st skip_effect [of st c clk] show ?thesis
      by (intro exI [of _ st] exI [of _ SKIPPED]) simp
  next
    case True
    with assms(2) rdy have "execute_ready clk exec m n st c = Again n' c'"
      by (simp add: run_iteration_def resolve_ready_steps_def split: if_splits)
    from execute_ready_effect [OF key this] st show ?thesis by blast
  qed
qed

text \<open>The ways out of the loop; none of them is an exception.\<close>

definition consent_pause :: "clock \<Rightarrow> plan_step \<Rightarrow> 'a task_context_scheme \<Rightarrow> 'a task_context_scheme" where
  "consent_pause clk st c = touch clk (c\<lparr>status := Plan_PAUSED,
     paused_reason := Some ''waiting_consent'', paused_step_id := Some (step_id st),
     step_status := dset (step_status c) (step_id st) BLOCKED\<rparr>)"

lemma run_iteration_leave:
  assumes "keyed (steps c)" and "run_iteration clk exec m n c = Leave r"
  shows "\<exists>c'. r = Inr c' \<and>
     (get_ready_steps c = [] \<and> c' = conclude clk c
      \<or> (\<exists>st \<in> set (get_ready_steps c). require_consent st \<and> c' = consent_pause clk st c)
      \<or> (\<exists>st \<in> set (get_ready_steps c). \<exists>s d. settles (step_id st) s c d \<and> status d = status c \<and>
          (budget_spent m (Suc n) \<and> c' = d
           \<or> all_steps_final d \<and> c' = mark_terminal clk (d\<lparr>status := Plan_DONE\<rparr>)
           \<or> s = FAILED \<and> fail_fast st \<and> (\<exists>e. c' = mark_terminal clk (d\<lparr>status := Plan_FAILED,
               ctx_error := Some e, paused_step_id := Some (step_id st)\<rparr>)))))"
proof (cases "get_ready_steps c")
  case Nil
  with assms(2) show ?thesis by (simp add: run_iteration_def resolve_ready_steps_def)
next
  case (Cons st rest)
  then have st: "st \<in> set (get_ready_steps c)" by simp
  then have key: "dget (steps c) (step_id st) \<noteq> None"
    using keyed_step [OF assms(1) get_ready_steps_ready(1)] by simp
  show ?thesis
  proof (cases "require_consent st \<and> dget (step_status c) (step_id st) \<noteq> Some READY")
    case True
    with assms(2) Cons have "r = Inr (consent_pause clk st c)"
      by (simp add: run_iteration_def resolve_ready_steps_def consent_pause_def)
    with st True show ?thesis by blast
  next
    case False
    with assms(2) Cons have "execute_ready clk exec m n st c = Leave r"
      by (simp add: run_iteration_def resolve_ready_steps_def split: if_splits)
    from execute_ready_effect [OF key this] st show ?thesis by (simp only: iteration.distinct iteration.inject) blast
  qed
qed

end

section \<open>Termination\<close>

text \<open>The steps the loop may still pick.\<close>

definition waiting :: "'a task_context_scheme \<Rightarrow> string set" where
  "waiting c = {k \<in> set (dkeys (steps c)). blockable c k}"

lemma settles_waiting:
  assumes "settles (step_id st) s c c'" and "st \<in> set (get_ready_steps c)" and "keyed (steps c)"
    and "s \<in> {SKIPPED, DONE, DEGRADED, FAILED}"
  shows "card (waiting c') < card (waiting c)"
proof -
  have "step_id st \<in> set (dkeys (steps c))"
    using keyed_step [OF assms(3) get_ready_steps_ready(1) [OF assms(2)]] dget_in_keys by force
  then have "step_id st \<in> waiting c"
    using get_ready_steps_ready(2) [OF assms(2)] by (simp add: waiting_def blockable_def)
  moreover have "waiting c' = waiting c - {step_id st}"
    using assms(1,4) by (auto simp: waiting_def blockable_def settles_def)
  moreover have "finite (waiting c)" by (simp add: waiting_def)
  ultimately show ?thesis using card_Diff1_less by metis
qed

lemma waiting_bound: "card (waiting c) \<le> length (steps c)"
proof -
  have "card (waiting c) \<le> card (set (dkeys (steps c)))"
    by (rule card_mono) (auto simp: waiting_def)
  also have "\<dots> \<le> length (dkeys (steps c))" by (rule card_length)
  finally show ?thesis by simp
qed

context step_executor
begin

lemma run_loop_returns:
  "keyed (steps c) \<Longrightarrow> card (waiting c) < fuel \<Longrightarrow> \<exists>c'. run_loop fuel clk exec m n c = Some (Inr c')"
proof (induction fuel arbitrary: n c)
  case (Suc fuel)
  show ?case
  proof (cases "run_iteration clk exec m n c")
    case (Leave r)
    with run_iteration_leave [OF Suc.prems(1) Leave] show ?thesis by fastforce
  next
    case (Again n' c')
    from run_iteration_again [OF Suc.prems(1) Again] obtain st s where
      "st \<in> set (get_ready_steps c)" "s \<in> {SKIPPED, DONE, DEGRADED, FAILED}"
      and sc: "settles (step_id st) s c c'" by blast
    with settles_waiting [OF sc _ Suc.prems(1)] Suc.prems(2) have "card (waiting c') < fuel" by simp
    moreover have "keyed (steps c')" using sc Suc.prems(1) by (simp add: settles_def)
    ultimately show ?thesis using Suc.IH [of c' n'] Again by simp
  qed
qed simp

end

lemma begin_run_frame [simp]:
  "steps (begin_run clk c) = steps c" "step_status (begin_run clk c) = step_status c"
  "status (begin_run clk c) = Plan_RUNNING" "status_of (begin_run clk c) k = status_of c k"
  "context_vars (begin_run clk c) = context_vars c"
  by (simp_all add: begin_run_def rebuild_dependency_satisfied_set_def status_of_def)

section \<open>Only ready steps are executed\<close>

text \<open>
  What the loop keeps of the context \<open>c0\<close> it began with: the plan, that what counts as a
  satisfied dependency is one, and that no step becomes ready for execution with consent.
\<close>

definition tracked :: "'a task_context_scheme \<Rightarrow> 'a task_context_scheme \<Rightarrow> bool" where
  "tracked c0 c = (steps c = steps c0
     \<and> (\<forall>k \<in> dependency_satisfied_set c. status_of c k \<in> DEPENDENCY_SATISFIED_STATUSES)
     \<and> (\<forall>k. status_of c k = READY \<longrightarrow> status_of c0 k = READY))"

lemma tracked_begin_run: "tracked c (begin_run clk c)"
  by (auto simp: tracked_def begin_run_def rebuild_dependency_satisfied_set_def status_of_def
      dget_or_def split: option.splits)

lemma settles_tracked:
  assumes "tracked c0 c" and "settles (step_id st) s c c'" and "st \<in> set (get_ready_steps c)"
    and "s \<noteq> READY"
  shows "tracked c0 c'"
proof -
  have "status_of c (step_id st) \<notin> DEPENDENCY_SATISFIED_STATUSES"
    using get_ready_steps_ready(2) [OF assms(3)] by (auto simp: DEPENDENCY_SATISFIED_STATUSES_def)
  then have "step_id st \<notin> dependency_satisfied_set c"
    using assms(1) by (auto simp: tracked_def)
  with assms(1,2,4) show ?thesis
    by (auto simp: tracked_def settles_def split: if_splits)
qed

text \<open>
  The situation of a call of the executor in a run that began with \<open>c0\<close>: the step belongs to
  the plan and is running, its dependencies are satisfied, and a step that needs consent had
  been made ready before the run.
\<close>

definition may_execute :: "'a task_context_scheme \<Rightarrow> plan_step \<Rightarrow> 'a task_context_scheme \<Rightarrow> bool" where
  "may_execute c0 st d = (st \<in> set (map snd (steps c0)) \<and> steps d = steps c0
     \<and> status_of d (step_id st) = RUNNING
     \<and> list_all (\<lambda>k. status_of d k \<in> DEPENDENCY_SATISFIED_STATUSES) (depends_on st)
     \<and> (require_consent st \<longrightarrow> status_of c0 (step_id st) = READY))"

text \<open>At each attempt of a ready step that is the situation.\<close>

lemma attempt_may_execute:
  assumes tr: "tracked c0 c" and st: "st \<in> set (get_ready_steps c)"
    and consent: "require_consent st \<longrightarrow> status_of c (step_id st) = READY"
    and d: "steps d = steps c" "step_status d = dset (step_status c) (step_id st) RUNNING"
  shows "may_execute c0 st d"
proof -
  have sd: "status_of d k = (if k = step_id st then RUNNING else status_of c k)" for k
    using d(2) by (simp add: status_of_def)
  have sat: "status_of c k \<in> DEPENDENCY_SATISFIED_STATUSES" if "k \<in> set (depends_on st)" for k
    using that get_ready_steps_ready(3) [OF st] tr by (auto simp: tracked_def)
  have "step_id st \<notin> set (depends_on st)"
    using sat [of "step_id st"] get_ready_steps_ready(2) [OF st]
    by (auto simp: DEPENDENCY_SATISFIED_STATUSES_def)
  with sat sd have "list_all (\<lambda>k. status_of d k \<in> DEPENDENCY_SATISFIED_STATUSES) (depends_on st)"
    by (auto simp: list_all_iff)
  with sd tr d(1) consent get_ready_steps_ready(1) [OF st] show ?thesis
    by (simp add: may_execute_def tracked_def)
qed

context step_executor
begin

text \<open>Two executors that agree on those situations cannot be told apart by the engine.\<close>

lemma retry_loop_agree:
  assumes agree: "\<And>d. steps d = steps c \<Longrightarrow>
      step_status d = dset (step_status c) (step_id st) RUNNING \<Longrightarrow> exec st d = exec2 st d"
  shows "steps b = steps c \<Longrightarrow> step_status b = step_status c
      \<or> step_status b = dset (step_status c) (step_id st) RUNNING \<Longrightarrow>
    retry_loop clk exec st a b = retry_loop clk exec2 st a b"
proof (induction "nat (retry_max st + 1 - a)" arbitrary: a b rule: less_induct)
  case less
  let ?d = "start_attempt clk st (a + 1) b"
  have d: "steps ?d = steps c" "step_status ?d = dset (step_status c) (step_id st) RUNNING"
    using less.prems by auto
  then have same: "exec2 st ?d = exec st ?d" using agree by simp
  obtain r b' where ex: "exec st ?d = (r, b')" by (cases "exec st ?d")
  have b': "steps b' = steps c" "step_status b' = dset (step_status c) (step_id st) RUNNING"
    using exec_frame [of st ?d] d by (simp_all add: ex)
  have IH: "a \<le> retry_max st \<Longrightarrow> retry_loop clk exec st (a + 1) b' = retry_loop clk exec2 st (a + 1) b'"
    using less.hyps [of "a + 1" b'] b' by simp
  show ?case
    using IH by (simp add: retry_loop.simps [of clk exec st a b] retry_loop.simps [of clk exec2 st a b]
        same ex split: sum.split)
qed

lemma run_iteration_agree:
  assumes tr: "tracked c0 c" and agree: "\<And>st d. may_execute c0 st d \<Longrightarrow> exec st d = exec2 st d"
  shows "run_iteration clk exec m n c = run_iteration clk exec2 m n c"
proof (cases "get_ready_steps c")
  case Nil
  then show ?thesis by (simp add: run_iteration_def resolve_ready_steps_def)
next
  case (Cons st rest)
  then have st: "st \<in> set (get_ready_steps c)" by simp
  show ?thesis
  proof (cases "require_consent st \<and> dget (step_status c) (step_id st) \<noteq> Some READY")
    case True
    with Cons show ?thesis by (simp add: run_iteration_def resolve_ready_steps_def)
  next
    case False
    then have consent: "require_consent st \<longrightarrow> status_of c (step_id st) = READY"
      by (simp add: status_of_def dget_or_def)
    have "execute_with_retry clk exec st c = execute_with_retry clk exec2 st c"
      unfolding execute_with_retry_def
      by (rule retry_loop_agree [where c = c])
        (use agree attempt_may_execute [OF tr st consent] in blast)+
    with Cons show ?thesis
      by (simp add: run_iteration_def resolve_ready_steps_def execute_ready_def)
  qed
qed

lemma run_loop_agree:
  assumes agree: "\<And>st d. may_execute c0 st d \<Longrightarrow> exec st d = exec2 st d" and "keyed (steps c0)"
  shows "tracked c0 c \<Longrightarrow> run_loop fuel clk exec m n c = run_loop fuel clk exec2 m n c"
proof (induction fuel arbitrary: n c)
  case (Suc fuel)
  show ?case
  proof (cases "run_iteration clk exec m n c")
    case (Leave r)
    moreover have "run_iteration clk exec2 m n c = Leave r"
      using run_iteration_agree [OF Suc.prems agree, of clk m n] Leave by simp
    ultimately show ?thesis by simp
  next
    case (Again n' c')
    have key: "keyed (steps c)" using Suc.prems assms(2) by (simp add: tracked_def)
    from run_iteration_again [OF key Again] obtain st s where
      st: "st \<in> set (get_ready_steps c)" "s \<in> {SKIPPED, DONE, DEGRADED, FAILED}"
      and sc: "settles (step_id st) s c c'" by blast
    have "tracked c0 c'" using settles_tracked [OF Suc.prems sc st(1)] st(2) by auto
    moreover have "run_iteration clk exec2 m n c = Again n' c'"
      using run_iteration_agree [OF Suc.prems agree, of clk m n] Again by simp
    ultimately show ?thesis using Suc.IH [of c' n'] Again by simp
  qed
qed simp

end

section \<open>What the status of the plan means\<close>

lemma all_steps_final_frame [simp]:
  "all_steps_final (touch clk c) = all_steps_final c"
  "all_steps_final (mark_terminal clk c) = all_steps_final c"
  "all_steps_final (c\<lparr>status := x\<rparr>) = all_steps_final c"
  by (simp_all add: all_steps_final_def)

lemma block_step_frame:
  "status (snd (block_step clk k r)) = status (snd r)"
  "steps (snd (block_step clk k r)) = steps (snd r)"
  "ctx_error (snd (block_step clk k r)) = ctx_error (snd r)"
  by (simp_all add: block_step_def case_prod_beta)

lemma fold_block_frame:
  "status (snd (fold (block_step clk) xs r)) = status (snd r)
   \<and> steps (snd (fold (block_step clk) xs r)) = steps (snd r)
   \<and> ctx_error (snd (fold (block_step clk) xs r)) = ctx_error (snd r)"
  by (induction xs arbitrary: r) (simp_all add: block_step_frame)

lemma propagate_failure_frame [simp]:
  "status (snd (propagate_failure clk k c)) = status c"
  "steps (snd (propagate_failure clk k c)) = steps c"
  "ctx_error (snd (propagate_failure clk k c)) = ctx_error c"
  using fold_block_frame [of clk _ "([], c)"]
  by (simp_all add: propagate_failure_fold Let_def case_prod_beta)

lemma fold_failures_frame:
  "status (fold (\<lambda>(sid, s) c. if s \<in> DEPENDENCY_FAILED_STATUSES
      then snd (propagate_failure clk sid c) else c) xs c) = status c
   \<and> steps (fold (\<lambda>(sid, s) c. if s \<in> DEPENDENCY_FAILED_STATUSES
      then snd (propagate_failure clk sid c) else c) xs c) = steps c"
  by (induction xs arbitrary: c) (simp_all add: case_prod_beta)

lemma conclude_status:
  "status (conclude clk c) = (if all_steps_final c then Plan_DONE
     else if all_dependencies_failed c then Plan_FAILED else Plan_PAUSED)"
  by (simp add: conclude_def Let_def fold_failures_frame)

text \<open>How a run ends, by the status it leaves the plan in.\<close>

definition run_ended :: "nat option \<Rightarrow> 'a task_context_scheme \<Rightarrow> bool" where
  "run_ended m c = (case status c of
      Plan_DONE \<Rightarrow> all_steps_final c \<and> completed_at c \<noteq> None
    | Plan_FAILED \<Rightarrow> completed_at c \<noteq> None \<and> ctx_error c \<noteq> None
    | Plan_PAUSED \<Rightarrow>
        paused_reason c = Some ''waiting_dependencies'' \<and> \<not> all_steps_final c \<and> get_ready_steps c = []
        \<or> paused_reason c = Some ''waiting_consent'' \<and>
          (\<exists>st \<in> set (map snd (steps c)). require_consent st \<and> paused_step_id c = Some (step_id st)
             \<and> status_of c (step_id st) = BLOCKED)
    | Plan_RUNNING \<Rightarrow> m \<noteq> None
    | _ \<Rightarrow> False)"

lemma conclude_ended: "get_ready_steps c = [] \<Longrightarrow> run_ended m (conclude clk c)"
proof -
  assume none: "get_ready_steps c = []"
  consider "all_steps_final c" | "\<not> all_steps_final c" "all_dependencies_failed c"
    | "\<not> all_steps_final c" "\<not> all_dependencies_failed c" by blast
  then show ?thesis
  proof cases
    case 1
    then show ?thesis by (simp add: run_ended_def conclude_def)
  next
    case 2
    have err: "ctx_error (fold (\<lambda>(sid, s) c. if s \<in> DEPENDENCY_FAILED_STATUSES
      then snd (propagate_failure clk sid c) else c) xs d) = ctx_error d" for xs d
      by (induction xs arbitrary: d) (simp_all add: case_prod_beta)
    from 2 show ?thesis
      by (simp add: run_ended_def conclude_status) (simp add: conclude_def Let_def err)
  next
    case 3
    with none show ?thesis
      by (simp add: run_ended_def conclude_def get_ready_steps_def all_steps_final_def status_of_def)
  qed
qed

context step_executor
begin

lemma run_iteration_ended:
  assumes "keyed (steps c)" and "status c = Plan_RUNNING"
    and "run_iteration clk exec m n c = Leave (Inr c')"
  shows "run_ended m c'"
  using run_iteration_leave [OF assms(1,3)]
proof (elim exE conjE disjE bexE)
  fix d
  assume "Inr c' = Inr d" "get_ready_steps c = []" "d = conclude clk c"
  then show ?thesis by (simp add: conclude_ended)
next
  fix d st
  assume "Inr c' = Inr d" "st \<in> set (get_ready_steps c)" "require_consent st"
    "d = consent_pause clk st c"
  then show ?thesis
    using get_ready_steps_ready(1) [of st c]
    by (auto simp: run_ended_def consent_pause_def status_of_def)
next
  fix d st s e
  assume "Inr c' = Inr d" "status e = status c" "budget_spent m (Suc n)" "d = e"
  with assms(2) show ?thesis
    by (simp add: run_ended_def budget_spent_def split: option.splits)
next
  fix d st s e
  assume "Inr c' = Inr d" "all_steps_final e" "d = mark_terminal clk (e\<lparr>status := Plan_DONE\<rparr>)"
  then show ?thesis by (simp add: run_ended_def)
next
  fix d st s e x
  assume "Inr c' = Inr d" "d = mark_terminal clk (e\<lparr>status := Plan_FAILED, ctx_error := Some x,
    paused_step_id := Some (step_id st)\<rparr>)"
  then show ?thesis by (simp add: run_ended_def)
qed

lemma run_loop_ended:
  "keyed (steps c) \<Longrightarrow> status c = Plan_RUNNING \<Longrightarrow>
     run_loop fuel clk exec m n c = Some (Inr c') \<Longrightarrow> run_ended m c'"
proof (induction fuel arbitrary: n c)
  case (Suc fuel)
  show ?case
  proof (cases "run_iteration clk exec m n c")
    case (Leave r)
    with Suc.prems(3) have "run_iteration clk exec m n c = Leave (Inr c')" by simp
    with run_iteration_ended [OF Suc.prems(1,2)] show ?thesis by blast
  next
    case (Again n' c1)
    from run_iteration_again [OF Suc.prems(1) Again] Suc.prems(1,2)
    have "keyed (steps c1)" "status c1 = Plan_RUNNING" by (auto simp: settles_def)
    with Suc.IH Suc.prems(3) Again show ?thesis by simp
  qed
qed simp

end

section \<open>Properties\<close>

lemma echo_is_executor: "step_executor echo_executor"
  by unfold_locales (simp_all add: echo_executor_def)

lemma broken_is_executor: "step_executor broken_executor"
  by unfold_locales (simp_all add: broken_executor_def)

lemma run_until_blocked_total:
  assumes "step_executor exec" and "keyed (steps c)" and "length (steps c) < fuel"
  shows "\<exists>c'. run_until_blocked fuel clk exec m c = Some (Inr c')"
proof -
  have "card (waiting (begin_run clk c)) < fuel"
    using waiting_bound [of "begin_run clk c"] assms(3) by simp
  then show ?thesis
    using step_executor.run_loop_returns [OF assms(1), of "begin_run clk c" fuel clk m 0] assms(2)
    by (simp add: run_until_blocked_def)
qed


text \<open>C1. With an executor that keeps its contract, the execution loop returns a context, for any
  plan keyed by its step identifiers; one iteration per step, and one to conclude, are enough
  fuel, and no exception leaves the loop.\<close>

theorem run_until_blocked_returns:
  assumes "step_executor exec" and "keyed (steps c)" and "length (steps c) < fuel"
  shows "\<exists>c'. run_until_blocked fuel clk exec m c = Some (Inr c')"
  by (rule run_until_blocked_total [OF assms])

theorem run_until_blocked_returns_witness:
  "\<exists>c'. run_until_blocked 3 tick echo_executor None chain_context = Some (Inr c')"
  by (rule run_until_blocked_returns [OF echo_is_executor chain_keyed])
    (simp add: sample_defs)

text \<open>C2. A run depends on the executor only where it may be called: two executors that agree on
  steps of the plan that are running, whose dependencies are satisfied and which, if they need
  consent, had been made ready before the run, give the same run. So no other step is ever
  executed, and a step that waits for consent is not.\<close>

theorem run_executes_only_permitted:
  assumes "step_executor exec" and "keyed (steps c)"
    and "\<And>st d. may_execute c st d \<Longrightarrow> exec st d = exec2 st d"
  shows "run_until_blocked fuel clk exec m c = run_until_blocked fuel clk exec2 m c"
  using step_executor.run_loop_agree [OF assms(1,3,2) tracked_begin_run]
  by (simp add: run_until_blocked_def)

text \<open>An executor that refuses to run \<open>b\<close> before \<open>a\<close> is done, which therefore never happens.\<close>

definition wary_executor :: "task_context executor" where
  "wary_executor st c =
     (if step_id st = ''b'' \<and> status_of c ''a'' \<notin> DEPENDENCY_SATISFIED_STATUSES
      then (Inl (Exn RuntimeError ''too early''), c) else echo_executor st c)"

lemma chain_b_after_a:
  "may_execute chain_context st d \<Longrightarrow> step_id st = ''b'' \<Longrightarrow>
     status_of d ''a'' \<in> DEPENDENCY_SATISFIED_STATUSES"
  by (auto simp: may_execute_def sample_defs)

theorem run_executes_only_permitted_witness:
  "run_until_blocked 3 tick echo_executor None chain_context
     = run_until_blocked 3 tick wary_executor None chain_context"
  by (rule run_executes_only_permitted [OF echo_is_executor chain_keyed])
    (metis chain_b_after_a wary_executor_def)

text \<open>C3. Whatever the executor does within its contract, a run that is left normally leaves the plan
  in a state its status describes: done only with all steps final, failed only with an error
  recorded, paused for dependencies only with no step ready, paused for consent only with that
  step blocked, and running only if a budget of steps was given.\<close>

theorem run_until_blocked_status:
  assumes "step_executor exec" and "keyed (steps c)" and "\<not> is_terminal c"
    and "run_until_blocked fuel clk exec m c = Some (Inr c')"
  shows "run_ended m c'"
  using step_executor.run_loop_ended [OF assms(1), of "begin_run clk c"] assms(2-4)
  by (simp add: run_until_blocked_def)

theorem run_until_blocked_status_witness:
  "\<exists>c'. run_until_blocked 3 tick echo_executor None chain_context = Some (Inr c') \<and> run_ended None c'"
proof -
  obtain c' where run: "run_until_blocked 3 tick echo_executor None chain_context = Some (Inr c')"
    using run_until_blocked_total [OF echo_is_executor chain_keyed, of 3 tick None]
    by (auto simp: sample_defs)
  have "\<not> is_terminal chain_context" by code_simp
  with run show ?thesis using run_until_blocked_status [OF echo_is_executor chain_keyed] by blast
qed

text \<open>A step is attempted at least once and at most \<open>max 1 retry_max\<close> times; the outcome of the
  retries is the outcome of the last attempt, and if that is an error, then the attempts were
  used up or the error is not retryable.\<close>

theorem execute_with_retry_bounded:
  assumes "step_executor exec" and "0 \<le> retry_max st"
  shows "\<exists>n d. 0 < n \<and> n \<le> max 1 (retry_max st)
      \<and> execute_with_retry clk exec st c = exec st d
      \<and> step_attempts d = dset (step_attempts c) (step_id st) n
      \<and> (\<forall>e. fst (exec st d) = Inl e \<longrightarrow> n = max 1 (retry_max st) \<or> \<not> is_retryable e)"
  using step_executor.execute_with_retry_result [OF assms, of clk c] by blast

theorem execute_with_retry_bounded_witness:
  "\<exists>n d. 0 < n \<and> n \<le> 3
      \<and> execute_with_retry tick broken_executor (sample_step ''a'' []\<lparr>retry_max := 3\<rparr>) chain_context
        = broken_executor (sample_step ''a'' []\<lparr>retry_max := 3\<rparr>) d
      \<and> step_attempts d = dset (step_attempts chain_context) ''a'' n"
  using execute_with_retry_bounded [OF broken_is_executor, of "sample_step ''a'' []\<lparr>retry_max := 3\<rparr>"
      tick chain_context]
  by (auto simp: sample_step_def)

text \<open>A \<open>retry_max\<close> of one allows no second attempt: it is the total number of attempts.\<close>

theorem retry_max_one_never_retries:
  "retry_max st = 1 \<Longrightarrow>
     execute_with_retry clk exec st c = exec st (start_attempt clk st 1 c)"
  by (simp add: execute_with_retry_def retry_loop.simps split: prod.split sum.split)

theorem retry_max_one_never_retries_witness:
  "execute_with_retry tick broken_executor (sample_step ''a'' []\<lparr>retry_max := 1\<rparr>) chain_context
     = (Inl (Exn TimeoutError ''no answer''),
        start_attempt tick (sample_step ''a'' []\<lparr>retry_max := 1\<rparr>) 1 chain_context)"
  by (subst retry_max_one_never_retries) (simp_all add: broken_executor_def)

text \<open>C4. The validation of a plan accepts exactly the plans whose dependencies all exist and are
  free of cycles.\<close>

theorem validate_dag_correct:
  "validate_dag sm = Inr () \<longleftrightarrow> deps_present sm \<and> acyclic (dep_edges sm)"
  by (rule validate_dag_iff)

text \<open>C5. The failure of a step blocks exactly the pending and ready steps downstream of it, reports
  exactly those, each once, and changes no other status.\<close>

theorem propagate_failure_exact:
  assumes "distinct (dkeys (steps c))"
  shows "status_of (snd (propagate_failure clk s c)) k
      = (if k \<in> downstream c s \<and> status_of c k \<in> {PENDING, READY} then BLOCKED else status_of c k)
    \<and> set (fst (propagate_failure clk s c)) = {k \<in> downstream c s. status_of c k \<in> {PENDING, READY}}
    \<and> distinct (fst (propagate_failure clk s c))"
  using propagate_failure_effect [OF assms, of clk s] by (simp add: blockable_def)

theorem propagate_failure_exact_witness:
  "distinct (fst (propagate_failure tick ''a'' (diamond_context FAILED PENDING)))"
  using propagate_failure_exact [OF diamond_distinct] by blast

text \<open>The recovery of a step returns to pending only steps that are downstream of it, were blocked
  and have no failed dependency left, and changes no other status.\<close>

theorem propagate_unblock_sound:
  assumes "distinct (dkeys (steps c))"
  shows "status_of (snd (propagate_unblock clk s c)) k
      = (if k \<in> set (fst (propagate_unblock clk s c)) then PENDING else status_of c k)
    \<and> (k \<in> set (fst (propagate_unblock clk s c)) \<longrightarrow>
         k \<in> downstream c s \<and> status_of c k = BLOCKED
         \<and> \<not> has_failed_dependency (snd (propagate_unblock clk s c)) k)"
  using propagate_unblock_effect(1,3) [OF assms, where clk = clk and s = s and k = k]
    propagate_unblock_effect(2) [OF assms, where clk = clk and s = s] by blast

theorem propagate_unblock_sound_witness:
  "status_of (snd (propagate_unblock tick ''a'' (diamond_context DONE BLOCKED))) ''b'' \<in> {PENDING, BLOCKED}"
  using propagate_unblock_sound [OF diamond_distinct, where s1 = DONE and t1 = BLOCKED and s = "''a''" and clk = tick and k = "''b''"]
  by (auto simp: status_of_def sample_defs dget_or_def)

text \<open>Recovery is not complete: with \<open>a\<close> recovered, \<open>d\<close> stays blocked because it is visited before its
  dependency \<open>e\<close> is restored, although afterwards no dependency of it is failed or blocked.\<close>

theorem propagate_unblock_incomplete:
  "status_of (snd (propagate_unblock tick ''a'' (diamond_context DONE BLOCKED))) ''d'' = BLOCKED
   \<and> \<not> has_failed_dependency (snd (propagate_unblock tick ''a'' (diamond_context DONE BLOCKED))) ''d''"
  by code_simp

end
