(* ===== verification/Py_Values.thy ===== *)
theory Py_Values
  imports Py_Prelude
begin

text \<open>
  Conversions of dynamically typed values: \<open>int\<close>, \<open>float\<close>, \<open>dict\<close>, \<open>list\<close> and iteration,
  with the exceptions they raise, and sequencing of computations that may raise.

  Texts that Python's \<open>float\<close> reads as an infinity or as not-a-number are rejected, since a
  rational cannot hold them. Text is taken as ASCII where it is iterated.
\<close>

section \<open>Computations that may raise\<close>

definition and_then :: "'e + 'a \<Rightarrow> ('a \<Rightarrow> 'e + 'b) \<Rightarrow> 'e + 'b" where
  "and_then r f = (case r of Inl e \<Rightarrow> Inl e | Inr x \<Rightarrow> f x)"

text \<open>A comprehension whose body may raise: the first exception stops it.\<close>

fun traverse :: "('a \<Rightarrow> 'e + 'b) \<Rightarrow> 'a list \<Rightarrow> 'e + 'b list" where
  "traverse f [] = Inr []"
| "traverse f (x # xs) = and_then (f x) (\<lambda>y. and_then (traverse f xs) (\<lambda>ys. Inr (y # ys)))"

lemma and_then_simps [simp]:
  "and_then (Inl e) f = Inl e" "and_then (Inr x) f = f x"
  by (simp_all add: and_then_def)

lemma and_then_Inr_iff: "and_then r f = Inr y \<longleftrightarrow> (\<exists>x. r = Inr x \<and> f x = Inr y)"
  by (cases r) simp_all

lemma traverse_Inr [simp]: "(\<And>x. x \<in> set xs \<Longrightarrow> f x = Inr (g x)) \<Longrightarrow> traverse f xs = Inr (map g xs)"
  by (induction xs) simp_all

lemma traverse_map: "traverse f (map g xs) = traverse (\<lambda>x. f (g x)) xs"
  by (induction xs) simp_all

lemma traverse_const [simp]: "traverse Inr xs = Inr xs"
  by (induction xs) simp_all

lemma length_traverse: "traverse f xs = Inr ys \<Longrightarrow> length ys = length xs"
  by (induction xs arbitrary: ys) (auto simp: and_then_Inr_iff)

lemma traverse_member: "traverse f xs = Inr ys \<Longrightarrow> x \<in> set xs \<Longrightarrow> \<exists>y \<in> set ys. f x = Inr y"
  by (induction xs arbitrary: ys) (auto simp: and_then_Inr_iff)

lemma traverse_from: "traverse f xs = Inr ys \<Longrightarrow> y \<in> set ys \<Longrightarrow> \<exists>x \<in> set xs. f x = Inr y"
  by (induction xs arbitrary: ys) (auto simp: and_then_Inr_iff)

text \<open>The next operation on the state, unless the one before raised.\<close>

definition try_then :: "('e + 'a) \<times> 's \<Rightarrow> ('a \<Rightarrow> 's \<Rightarrow> ('e + 'b) \<times> 's) \<Rightarrow> ('e + 'b) \<times> 's" where
  "try_then r f = (case r of (Inl e, s) \<Rightarrow> (Inl e, s) | (Inr x, s) \<Rightarrow> f x s)"

lemma try_then_simps [simp]: "try_then (Inl e, s) f = (Inl e, s)" "try_then (Inr x, s) f = f x s"
  by (simp_all add: try_then_def)

lemma try_then_Inr: "try_then r f = (Inr y, s) \<longleftrightarrow> (\<exists>x t. r = (Inr x, t) \<and> f x t = (Inr y, s))"
  by (cases r; cases "fst r") auto

section \<open>Numbers as text\<close>

definition digit_value :: "char \<Rightarrow> nat option" where
  "digit_value c = (let n = of_char c in if 48 \<le> n \<and> n \<le> 57 then Some (n - 48) else None)"

definition is_digit :: "char \<Rightarrow> bool" where
  "is_digit c = (digit_value c \<noteq> None)"

text \<open>\<open>s.isdigit()\<close>\<close>

definition isdigit :: "string \<Rightarrow> bool" where
  "isdigit s = (s \<noteq> [] \<and> list_all is_digit s)"

text \<open>Digits with single underscores between them.\<close>

fun read_digits :: "nat \<Rightarrow> string \<Rightarrow> nat option" where
  "read_digits acc [] = Some acc"
| "read_digits acc (c # cs) = (case digit_value c of
     Some d \<Rightarrow> read_digits (10 * acc + d) cs
   | None \<Rightarrow> if c = CHR ''_'' \<and> cs \<noteq> [] \<and> is_digit (hd cs) then read_digits acc cs else None)"

definition parse_nat :: "string \<Rightarrow> nat option" where
  "parse_nat s = (if s \<noteq> [] \<and> is_digit (hd s) then read_digits 0 s else None)"

definition signed :: "(string \<Rightarrow> 'n option) \<Rightarrow> ('n \<Rightarrow> 'n) \<Rightarrow> string \<Rightarrow> 'n option" where
  "signed f neg s = (case s of
     [] \<Rightarrow> f s
   | c # cs \<Rightarrow> if c = CHR ''-'' then map_option neg (f cs)
              else if c = CHR ''+'' then f cs else f s)"

definition parse_int :: "string \<Rightarrow> int option" where
  "parse_int s = signed (\<lambda>t. map_option int (parse_nat t)) uminus (strip s)"

definition pow10 :: "int \<Rightarrow> pyfloat" where
  "pow10 e = (if 0 \<le> e then 10 ^ nat e else 1 / 10 ^ nat (- e))"

text \<open>A mantissa: digits, a point, digits, one of the two groups present.\<close>

definition parse_mantissa :: "string \<Rightarrow> pyfloat option" where
  "parse_mantissa s =
     (let whole = takeWhile (\<lambda>c. c \<noteq> CHR ''.'') s; point = dropWhile (\<lambda>c. c \<noteq> CHR ''.'') s;
          frac = tl point; group = (\<lambda>t. if t = [] then Some 0 else parse_nat t)
      in if whole = [] \<and> frac = [] then None
         else (case (group whole, group frac) of
             (Some w, Some f) \<Rightarrow>
               Some (of_nat w + of_nat f * pow10 (- int (length (filter is_digit frac))))
           | _ \<Rightarrow> None))"

definition parse_decimal :: "string \<Rightarrow> pyfloat option" where
  "parse_decimal s =
     (let mant = takeWhile (\<lambda>c. c \<noteq> CHR ''e'' \<and> c \<noteq> CHR ''E'') s;
          rest = dropWhile (\<lambda>c. c \<noteq> CHR ''e'' \<and> c \<noteq> CHR ''E'') s
      in (case parse_mantissa mant of
          None \<Rightarrow> None
        | Some m \<Rightarrow> if rest = [] then Some m
            else map_option (\<lambda>e. m * pow10 e)
                   (signed (\<lambda>t. map_option int (parse_nat t)) uminus (tl rest))))"

definition parse_float :: "string \<Rightarrow> pyfloat option" where
  "parse_float s = signed parse_decimal uminus (strip s)"

section \<open>Conversions\<close>

definition trunc :: "pyfloat \<Rightarrow> int" where
  "trunc q = (if q < 0 then - \<lfloor>- q\<rfloor> else \<lfloor>q\<rfloor>)"

definition py_int :: "pyval \<Rightarrow> exn + int" where
  "py_int v = (case v of
      PInt i \<Rightarrow> Inr i
    | PBool b \<Rightarrow> Inr (if b then 1 else 0)
    | PFloat q \<Rightarrow> Inr (trunc q)
    | PStr s \<Rightarrow> (case parse_int s of
          Some i \<Rightarrow> Inr i
        | None \<Rightarrow> Inl (Exn ValueError ''invalid literal for int()''))
    | _ \<Rightarrow> Inl (Exn TypeError ''int() argument''))"

definition py_float :: "pyval \<Rightarrow> exn + pyfloat" where
  "py_float v = (case v of
      PInt i \<Rightarrow> Inr (of_int i)
    | PBool b \<Rightarrow> Inr (if b then 1 else 0)
    | PFloat q \<Rightarrow> Inr q
    | PStr s \<Rightarrow> (case parse_float s of
          Some q \<Rightarrow> Inr q
        | None \<Rightarrow> Inl (Exn ValueError ''could not convert string to float''))
    | _ \<Rightarrow> Inl (Exn TypeError ''float() argument''))"

text \<open>Iteration over a value.\<close>

definition py_iter :: "pyval \<Rightarrow> exn + pyval list" where
  "py_iter v = (case v of
      PList xs \<Rightarrow> Inr xs
    | PStr s \<Rightarrow> Inr (map (\<lambda>c. PStr [c]) s)
    | PDict d \<Rightarrow> Inr (map (\<lambda>(k, _). PStr k) d)
    | _ \<Rightarrow> Inl (Exn TypeError ''object is not iterable''))"

text \<open>
  \<open>dict(v)\<close>. A list of pairs is a dictionary for Python as well; here only the empty list and
  the empty text are.
\<close>

definition py_dict :: "pyval \<Rightarrow> exn + pyval dict" where
  "py_dict v = (case v of
      PDict d \<Rightarrow> Inr d
    | PList xs \<Rightarrow> if xs = [] then Inr [] else Inl (Exn TypeError ''cannot convert to a dictionary'')
    | PStr s \<Rightarrow> if s = [] then Inr [] else Inl (Exn ValueError ''cannot convert to a dictionary'')
    | _ \<Rightarrow> Inl (Exn TypeError ''object is not iterable''))"

lemma py_conversions [simp]:
  "py_int (PInt i) = Inr i" "py_float (PFloat q) = Inr q" "py_iter (PList xs) = Inr xs"
  "py_dict (PDict d) = Inr d"
  by (simp_all add: py_int_def py_float_def py_iter_def py_dict_def)

section \<open>Reading back a printed number\<close>

lemma digit_value_char: "n < 10 \<Longrightarrow> digit_value (char_of (48 + n)) = Some n"
  by (simp add: digit_value_def of_char_of)

lemma is_digitI: "digit_value c = Some d \<Longrightarrow> is_digit c"
  by (simp add: is_digit_def)

lemma read_digits_append:
  "list_all is_digit xs \<Longrightarrow> read_digits acc xs = Some n \<Longrightarrow> read_digits acc (xs @ ys) = read_digits n ys"
  by (induction acc xs arbitrary: n rule: read_digits.induct) (auto simp: is_digit_def split: option.splits)

lemma read_nat_str: "list_all is_digit (nat_str n) \<and> read_digits 0 (nat_str n) = Some n"
proof (induction n rule: nat_str.induct)
  case (1 n)
  have last: "n mod 10 < 10" by simp
  show ?case
  proof (cases "n < 10")
    case True
    then show ?thesis
      by (simp add: nat_str.simps [of n] digit_value_char is_digit_def)
  next
    case False
    with 1 have IH: "list_all is_digit (nat_str (n div 10))"
      "read_digits 0 (nat_str (n div 10)) = Some (n div 10)" by simp_all
    have c: "digit_value (char_of (48 + n mod 10)) = Some (n mod 10)"
      using digit_value_char [OF last] by simp
    have "read_digits 0 (nat_str n) = read_digits (n div 10) [char_of (48 + n mod 10)]"
      using False read_digits_append [OF IH] by (simp add: nat_str.simps [of n])
    also have "\<dots> = Some n" using c by simp
    finally show ?thesis
      using False IH(1) is_digitI [OF c] by (simp add: nat_str.simps [of n])
  qed
qed

lemma parse_nat_str [simp]: "parse_nat (nat_str n) = Some n"
proof -
  have "is_digit (hd (nat_str n))"
    using read_nat_str [of n] by (cases "nat_str n") simp_all
  then show ?thesis using read_nat_str [of n] by (simp add: parse_nat_def)
qed

lemma digit_not_space: "is_digit c \<Longrightarrow> \<not> is_space c"
  by (auto simp: is_digit_def digit_value_def is_space_def Let_def split: if_splits)

lemma strip_id: "s \<noteq> [] \<Longrightarrow> \<not> is_space (hd s) \<Longrightarrow> \<not> is_space (last s) \<Longrightarrow> strip s = s"
  unfolding strip_def
  by (cases s) (simp_all add: hd_rev [symmetric] dropWhile_eq_self_iff)

lemma nat_str_ends: "is_digit (hd (nat_str n))" "is_digit (last (nat_str n))"
  using read_nat_str [of n] by (auto simp: list_all_iff)

lemma parse_int_str [simp]: "parse_int (int_str i) = Some i"
proof -
  have minus: "\<not> is_space (CHR ''-'')" "\<not> is_digit (CHR ''-'')" "\<not> is_digit (CHR ''+'')"
    by (simp_all add: is_space_def is_digit_def digit_value_def)
  have "strip (int_str i) = int_str i"
    by (rule strip_id) (auto simp: int_str_def minus nat_str_ends digit_not_space)
  moreover have "signed (\<lambda>t. map_option int (parse_nat t)) uminus (int_str i) = Some i"
  proof (cases "i < 0")
    case True
    then show ?thesis by (simp add: int_str_def signed_def)
  next
    case False
    moreover have "hd (nat_str (nat i)) \<noteq> CHR ''-''" "hd (nat_str (nat i)) \<noteq> CHR ''+''"
      using nat_str_ends(1) [of "nat i"] minus by auto
    moreover obtain c cs where s: "nat_str (nat i) = c # cs"
      using nat_str_nonempty by (cases "nat_str (nat i)") auto
    moreover have "parse_nat (c # cs) = Some (nat i)" using parse_nat_str [of "nat i"] s by simp
    ultimately show ?thesis by (simp add: int_str_def signed_def)
  qed
  ultimately show ?thesis by (simp add: parse_int_def)
qed

end
