(* ===== verification/Plan_Snapshot.thy ===== *)
theory Plan_Snapshot
  imports Plan_Samples Py_Values
begin

text \<open>
  Snapshots of a plan (\<open>core/plan_snapshot.py\<close>): a context written as a dictionary of plain
  values, and read back.

  A snapshot is a dynamically typed value, the context a typed record. Where the source stores
  a value without converting it, a value of another type than the class declares would make an
  ill-typed context; those snapshots are rejected here with \<open>OtherError\<close>. Every conversion
  and every exception of the source is a branch of its own. \<open>uuid4()\<close> is the argument
  \<open>fresh\<close>, and \<open>rp\<close> the interpreter's \<open>repr\<close>.
\<close>

section \<open>Statuses and roles as text\<close>

fun step_status_text :: "step_status \<Rightarrow> string" where
  "step_status_text PENDING = ''pending''"
| "step_status_text READY = ''ready''"
| "step_status_text RUNNING = ''running''"
| "step_status_text DONE = ''done''"
| "step_status_text FAILED = ''failed''"
| "step_status_text SKIPPED = ''skipped''"
| "step_status_text DEGRADED = ''degraded''"
| "step_status_text BLOCKED = ''blocked''"
| "step_status_text CANCELLED = ''cancelled''"

fun plan_status_text :: "plan_status \<Rightarrow> string" where
  "plan_status_text Plan_PENDING = ''pending''"
| "plan_status_text Plan_RUNNING = ''running''"
| "plan_status_text Plan_PAUSED = ''paused''"
| "plan_status_text Plan_DONE = ''done''"
| "plan_status_text Plan_FAILED = ''failed''"
| "plan_status_text Plan_CANCELLED = ''cancelled''"

text \<open>\<open>StepStatus(text)\<close> and \<open>PlanStatus(text)\<close>\<close>

definition step_status_of_text :: "string \<Rightarrow> exn + step_status" where
  "step_status_of_text t = (case find (\<lambda>s. step_status_text s = t)
      [PENDING, READY, RUNNING, DONE, FAILED, SKIPPED, DEGRADED, BLOCKED, CANCELLED] of
     Some s \<Rightarrow> Inr s | None \<Rightarrow> Inl (Exn ValueError (t @ '' is not a valid StepStatus'')))"

definition plan_status_of_text :: "string \<Rightarrow> exn + plan_status" where
  "plan_status_of_text t = (case find (\<lambda>s. plan_status_text s = t)
      [Plan_PENDING, Plan_RUNNING, Plan_PAUSED, Plan_DONE, Plan_FAILED, Plan_CANCELLED] of
     Some s \<Rightarrow> Inr s | None \<Rightarrow> Inl (Exn ValueError (t @ '' is not a valid PlanStatus'')))"

fun role_text :: "subagent_role \<Rightarrow> string" where
  "role_text Implementer = ''implementer''"
| "role_text Reviewer = ''reviewer''"

definition normalize_subagent_role :: "(pyval \<Rightarrow> string) \<Rightarrow> pyval \<Rightarrow> subagent_role option" where
  "normalize_subagent_role rp v =
     (if v = PNone then None
      else let t = strip (py_str rp v)
        in if t = ''implementer'' then Some Implementer
           else if t = ''reviewer'' then Some Reviewer else None)"

definition safe_non_negative_int :: "pyval \<Rightarrow> int" where
  "safe_non_negative_int v = (case py_int (if truthy v then v else PInt 0) of
     Inr i \<Rightarrow> max 0 i | Inl _ \<Rightarrow> 0)"

definition optional_float :: "pyval \<Rightarrow> pyfloat option" where
  "optional_float v = (if v = PNone then None else case py_float v of Inr q \<Rightarrow> Some q | Inl _ \<Rightarrow> None)"

definition float_dict :: "pyval \<Rightarrow> pyfloat dict" where
  "float_dict v = (case v of
      PDict d \<Rightarrow> dict_of (List.map_filter (\<lambda>(k, x). map_option (Pair k) (optional_float x)) d)
    | _ \<Rightarrow> [])"

definition dict_of_dict :: "pyval \<Rightarrow> pyval dict dict" where
  "dict_of_dict v = (case v of
      PDict d \<Rightarrow> dict_of (List.map_filter (\<lambda>(k, x). case x of PDict y \<Rightarrow> Some (k, y) | _ \<Rightarrow> None) d)
    | _ \<Rightarrow> [])"

text \<open>The dependencies of a raw step: a single text, or numbers and texts.\<close>

definition dependency_name :: "(pyval \<Rightarrow> string) \<Rightarrow> pyval \<Rightarrow> string option" where
  "dependency_name rp dep = (case dep of
      PInt _ \<Rightarrow> Some (''step_'' @ py_str rp dep)
    | PBool _ \<Rightarrow> Some (''step_'' @ py_str rp dep)
    | _ \<Rightarrow> (let t = strip (py_str rp dep) in
        if t = [] then None else Some (if isdigit t then ''step_'' @ t else t)))"

definition normalize_raw_dependencies ::
  "(pyval \<Rightarrow> string) \<Rightarrow> pyval dict \<Rightarrow> exn + string list" where
  "normalize_raw_dependencies rp raw =
     (let v = dget_or raw ''depends_on'' (dget_or raw ''deps'' (PList []));
          deps = if truthy v then v else PList []
      in and_then (case deps of PStr t \<Rightarrow> Inr [PStr t] | _ \<Rightarrow> py_iter deps)
           (\<lambda>xs. Inr (List.map_filter (dependency_name rp) xs)))"

section \<open>Values of a declared type\<close>

definition ill_typed :: "string \<Rightarrow> exn" where
  "ill_typed what = Exn OtherError (''ill-typed '' @ what)"

definition as_str :: "pyval \<Rightarrow> exn + string" where
  "as_str v = (case v of PStr s \<Rightarrow> Inr s | _ \<Rightarrow> Inl (ill_typed ''text''))"

definition as_opt_str :: "pyval \<Rightarrow> exn + string option" where
  "as_opt_str v = (case v of PNone \<Rightarrow> Inr None | PStr s \<Rightarrow> Inr (Some s) | _ \<Rightarrow> Inl (ill_typed ''text''))"

definition as_int :: "pyval \<Rightarrow> exn + int" where
  "as_int v = (case v of PInt i \<Rightarrow> Inr i | _ \<Rightarrow> Inl (ill_typed ''integer''))"

definition as_float :: "pyval \<Rightarrow> exn + pyfloat" where
  "as_float v = (case v of PFloat q \<Rightarrow> Inr q | PInt i \<Rightarrow> Inr (of_int i) | _ \<Rightarrow> Inl (ill_typed ''number''))"

definition as_bool :: "pyval \<Rightarrow> exn + bool" where
  "as_bool v = (case v of PBool b \<Rightarrow> Inr b | _ \<Rightarrow> Inl (ill_typed ''flag''))"

definition as_dict :: "pyval \<Rightarrow> exn + pyval dict" where
  "as_dict v = (case v of PDict d \<Rightarrow> Inr d | _ \<Rightarrow> Inl (ill_typed ''dictionary''))"

definition as_strs :: "pyval \<Rightarrow> exn + string list" where
  "as_strs v = (case v of PList xs \<Rightarrow> traverse as_str xs | _ \<Rightarrow> Inl (ill_typed ''texts''))"

definition as_role :: "pyval \<Rightarrow> exn + subagent_role option" where
  "as_role v = (case v of
      PNone \<Rightarrow> Inr None
    | PStr s \<Rightarrow> if s = ''implementer'' then Inr (Some Implementer)
        else if s = ''reviewer'' then Inr (Some Reviewer) else Inl (ill_typed ''role'')
    | _ \<Rightarrow> Inl (ill_typed ''role''))"

lemmas as_defs = as_str_def as_opt_str_def as_int_def as_float_def as_bool_def as_dict_def
  as_strs_def as_role_def

definition opt_str :: "string option \<Rightarrow> pyval" where
  "opt_str x = (case x of None \<Rightarrow> PNone | Some s \<Rightarrow> PStr s)"

definition opt_float :: "pyfloat option \<Rightarrow> pyval" where
  "opt_float x = (case x of None \<Rightarrow> PNone | Some q \<Rightarrow> PFloat q)"

section \<open>Steps\<close>

definition step_to_dict :: "plan_step \<Rightarrow> pyval dict" where
  "step_to_dict st =
    [(''step_id'', PStr (step_id st)),
     (''skill_id'', PStr (skill_id st)),
     (''result_key'', PStr (result_key st)),
     (''depends_on'', PList (map PStr (depends_on st))),
     (''condition_key'', opt_str (condition_key st)),
     (''retry_max'', PInt (retry_max st)),
     (''retry_backoff_s'', PFloat (retry_backoff_s st)),
     (''degrade_value'', degrade_value st),
     (''require_consent'', PBool (require_consent st)),
     (''idempotency_key'', opt_str (idempotency_key st)),
     (''payload'', PDict (step_payload st)),
     (''fail_fast'', PBool (fail_fast st)),
     (''title'', PStr (step_title st)),
     (''description'', PStr (step_description st)),
     (''expected_output'', PStr (expected_output st)),
     (''verification'', PStr (verification st)),
     (''completion_criteria'', PStr (completion_criteria st)),
     (''stage'', opt_str (step_stage st)),
     (''estimated_minutes'', PInt (estimated_minutes st)),
     (''files'', PList (map PStr (step_files st))),
     (''subagent_type'', opt_str (map_option role_text (subagent_type st)))]"

definition step_fields :: "string list" where
  "step_fields = [''step_id'', ''skill_id'', ''result_key'', ''depends_on'', ''condition_key'',
     ''retry_max'', ''retry_backoff_s'', ''degrade_value'', ''require_consent'',
     ''idempotency_key'', ''payload'', ''fail_fast'', ''title'', ''description'',
     ''expected_output'', ''verification'', ''completion_criteria'', ''stage'',
     ''estimated_minutes'', ''files'', ''subagent_type'']"

text \<open>\<open>PlanStep(**kwargs)\<close>: unknown and missing arguments are type errors.\<close>

definition new_step :: "pyval dict \<Rightarrow> exn + plan_step" where
  "new_step kw =
    (if \<not> list_all (\<lambda>k. k \<in> set step_fields) (dkeys kw)
     then Inl (Exn TypeError ''unexpected keyword argument'')
     else if \<not> list_all (\<lambda>k. k \<in> set (dkeys kw)) [''step_id'', ''skill_id'', ''result_key'']
     then Inl (Exn TypeError ''missing required argument'')
     else
      and_then (as_str (pget kw ''step_id'')) (\<lambda>sid.
      and_then (as_str (pget kw ''skill_id'')) (\<lambda>skill.
      and_then (as_str (pget kw ''result_key'')) (\<lambda>rk.
      and_then (as_strs (dget_or kw ''depends_on'' (PList []))) (\<lambda>deps.
      and_then (as_opt_str (pget kw ''condition_key'')) (\<lambda>cond.
      and_then (as_int (dget_or kw ''retry_max'' (PInt 0))) (\<lambda>rmax.
      and_then (as_float (dget_or kw ''retry_backoff_s'' (PFloat 0))) (\<lambda>backoff.
      and_then (as_bool (dget_or kw ''require_consent'' (PBool False))) (\<lambda>consent.
      and_then (as_opt_str (pget kw ''idempotency_key'')) (\<lambda>idem.
      and_then (as_dict (dget_or kw ''payload'' (PDict []))) (\<lambda>pl.
      and_then (as_bool (dget_or kw ''fail_fast'' (PBool True))) (\<lambda>ff.
      and_then (as_str (dget_or kw ''title'' (PStr []))) (\<lambda>ttl.
      and_then (as_str (dget_or kw ''description'' (PStr []))) (\<lambda>desc.
      and_then (as_str (dget_or kw ''expected_output'' (PStr []))) (\<lambda>expc.
      and_then (as_str (dget_or kw ''verification'' (PStr []))) (\<lambda>ver.
      and_then (as_str (dget_or kw ''completion_criteria'' (PStr []))) (\<lambda>crit.
      and_then (as_opt_str (pget kw ''stage'')) (\<lambda>stg.
      and_then (as_int (dget_or kw ''estimated_minutes'' (PInt 0))) (\<lambda>mins.
      and_then (as_strs (dget_or kw ''files'' (PList []))) (\<lambda>fs.
      and_then (as_role (pget kw ''subagent_type'')) (\<lambda>role.
        Inr \<lparr>step_id = sid, skill_id = skill, result_key = rk, depends_on = deps,
          condition_key = cond, retry_max = rmax, retry_backoff_s = backoff,
          degrade_value = pget kw ''degrade_value'', require_consent = consent,
          idempotency_key = idem, step_payload = pl, fail_fast = ff, step_title = ttl,
          step_description = desc, expected_output = expc, verification = ver,
          completion_criteria = crit, step_stage = stg, estimated_minutes = mins,
          step_files = fs, subagent_type = role\<rparr>)))))))))))))))))))))"

text \<open>\<open>v or ()\<close>\<close>

definition or_empty :: "pyval \<Rightarrow> pyval" where
  "or_empty v = (if truthy v then v else PList [])"

definition step_from_dict :: "(pyval \<Rightarrow> string) \<Rightarrow> pyval dict \<Rightarrow> exn + plan_step" where
  "step_from_dict rp p =
     and_then (py_iter (or_empty (dget_or p ''depends_on'' (PList [])))) (\<lambda>deps.
       let p1 = dset p ''depends_on'' (PList deps) in
     and_then (py_iter (or_empty (dget_or p1 ''files'' (PList [])))) (\<lambda>fs.
       let p2 = dset p1 ''files'' (PList (map (\<lambda>x. PStr (py_str rp x)) fs));
           p3 = dset p2 ''subagent_type''
             (opt_str (map_option role_text (normalize_subagent_role rp (pget p2 ''subagent_type''))));
           p4 = (case dget p3 ''condition_expr'' of
               Some v \<Rightarrow> if dget p3 ''condition_key'' = None
                 then dset (dpop p3 ''condition_expr'') ''condition_key'' v else p3
             | None \<Rightarrow> p3)
       in new_step (dpop p4 ''timeout_s'')))"

section \<open>Contexts\<close>

definition serialize :: "'a task_context_scheme \<Rightarrow> pyval dict" where
  "serialize c =
    [(''snapshot_version'', PInt (snapshot_version c)),
     (''plan_id'', PStr (plan_id c)),
     (''status'', PStr (plan_status_text (status c))),
     (''steps'', PDict (map (\<lambda>(k, st). (k, PDict (step_to_dict st))) (steps c))),
     (''step_status'', PDict (map (\<lambda>(k, s). (k, PStr (step_status_text s))) (step_status c))),
     (''step_results'', PDict (step_results c)),
     (''step_errors'', PDict (map (\<lambda>(k, s). (k, PStr s)) (step_errors c))),
     (''step_attempts'', PDict (map (\<lambda>(k, n). (k, PInt n)) (step_attempts c))),
     (''processed_steps'', PList (map PStr (processed_steps c))),
     (''published_step_events'', PList (map PStr (published_step_events c))),
     (''trace_id'', PStr (trace_id c)),
     (''context_vars'', PDict (context_vars c)),
     (''error'', opt_str (ctx_error c)),
     (''paused_reason'', opt_str (paused_reason c)),
     (''paused_step_id'', opt_str (paused_step_id c)),
     (''plan_status'', opt_str (task_context.plan_status c)),
     (''started_at'', opt_float (started_at c)),
     (''updated_at'', opt_float (updated_at c)),
     (''completed_at'', opt_float (completed_at c)),
     (''step_started_at'', PDict (map (\<lambda>(k, q). (k, PFloat q)) (step_started_at c))),
     (''step_completed_at'', PDict (map (\<lambda>(k, q). (k, PFloat q)) (step_completed_at c))),
     (''step_consent_requests'', PDict (map (\<lambda>(k, d). (k, PDict d)) (step_consent_requests c))),
     (''step_route_decisions'', PDict (map (\<lambda>(k, d). (k, PDict d)) (step_route_decisions c))),
     (''feedback_overrides'', PDict (map (\<lambda>(k, s). (k, PStr s)) (feedback_overrides c))),
     (''quality_retry_counts'', PDict (map (\<lambda>(k, n). (k, PInt n)) (quality_retry_counts c))),
     (''progress'', PFloat (progress c))]"

text \<open>\<open>{str(k): f(v) for k, v in dict(payload.get(key, {})).items()}\<close>\<close>

definition dict_field :: "(pyval \<Rightarrow> exn + 'b) \<Rightarrow> pyval dict \<Rightarrow> string \<Rightarrow> exn + 'b dict" where
  "dict_field f p key =
     and_then (py_dict (dget_or p key (PDict []))) (\<lambda>d.
     and_then (traverse (\<lambda>(k, v). and_then (f v) (\<lambda>y. Inr (k, y))) d) (\<lambda>items.
       Inr (dict_of items)))"

definition str_list_field :: "(pyval \<Rightarrow> string) \<Rightarrow> pyval \<Rightarrow> exn + string list" where
  "str_list_field rp v = and_then (py_iter v) (\<lambda>xs. Inr (map (py_str rp) xs))"

text \<open>The context class with its fields, then \<open>__post_init__\<close>.\<close>

definition deserialize :: "(pyval \<Rightarrow> string) \<Rightarrow> string \<Rightarrow> pyval dict \<Rightarrow> exn + task_context" where
  "deserialize rp fresh p =
     and_then (py_int (dget_or p ''snapshot_version'' (PInt 1))) (\<lambda>ver.
     and_then (dict_field (\<lambda>v. and_then (py_dict v) (step_from_dict rp)) p ''steps'') (\<lambda>sts.
     and_then (dict_field (\<lambda>v. step_status_of_text (py_str rp v)) p ''step_status'') (\<lambda>stat.
     and_then (py_iter (dget_or p ''processed_steps'' (dget_or p ''completed_steps'' (PList [])))) (\<lambda>procd.
     (case dget p ''plan_id'' of
        None \<Rightarrow> Inl (Exn KeyError ''plan_id'')
      | Some pid \<Rightarrow>
     and_then (plan_status_of_text (py_str rp (dget_or p ''status'' (PStr ''pending'')))) (\<lambda>pstat.
     and_then (py_dict (dget_or p ''step_results'' (PDict []))) (\<lambda>results.
     and_then (dict_field as_str p ''step_errors'') (\<lambda>errs.
     and_then (dict_field py_int p ''step_attempts'') (\<lambda>attempts.
     and_then (str_list_field rp (dget_or p ''published_step_events'' (PList []))) (\<lambda>published.
     and_then (py_dict (dget_or p ''context_vars'' (PDict []))) (\<lambda>vars.
     and_then (as_opt_str (pget p ''error'')) (\<lambda>err.
     and_then (as_opt_str (pget p ''paused_reason'')) (\<lambda>reason.
     and_then (as_opt_str (pget p ''paused_step_id'')) (\<lambda>pstep.
     and_then (as_opt_str (pget p ''plan_status'')) (\<lambda>pst.
     and_then (dict_field (\<lambda>v. Inr (py_str rp v)) p ''feedback_overrides'') (\<lambda>feedback.
     and_then (dict_field (\<lambda>v. Inr (safe_non_negative_int v)) p ''quality_retry_counts'') (\<lambda>quality.
       Inr (rebuild_dependency_satisfied_set
        \<lparr>plan_id = py_str rp pid, snapshot_version = max 2 ver, status = pstat, steps = sts,
         step_status = stat, step_results = results, step_errors = errs,
         step_attempts = attempts, processed_steps = map (py_str rp) procd,
         published_step_events = published,
         trace_id = (if truthy (pget p ''trace_id'') then py_str rp (pget p ''trace_id'') else fresh),
         context_vars = vars, ctx_error = err, paused_reason = reason, paused_step_id = pstep,
         plan_status = pst, started_at = optional_float (pget p ''started_at''),
         updated_at = optional_float (pget p ''updated_at''),
         completed_at = optional_float (pget p ''completed_at''),
         step_started_at = float_dict (pget p ''step_started_at''),
         step_completed_at = float_dict (pget p ''step_completed_at''),
         step_consent_requests = dict_of_dict (pget p ''step_consent_requests''),
         step_route_decisions = dict_of_dict (pget p ''step_route_decisions''),
         feedback_overrides = feedback, quality_retry_counts = quality,
         dependency_satisfied_set = {}, clock_reads = 0\<rparr>))))))))))))))))))"

section \<open>Reading a snapshot back\<close>

lemma step_status_of_text [simp]: "step_status_of_text (step_status_text s) = Inr s"
  by (cases s) (simp_all add: step_status_of_text_def)

lemma plan_status_of_text [simp]: "plan_status_of_text (plan_status_text s) = Inr s"
  by (cases s) (simp_all add: plan_status_of_text_def)

lemma py_str_PStr [simp]: "py_str rp (PStr s) = s"
  by (simp add: py_str_def)

lemma as_values [simp]:
  "as_str (PStr s) = Inr s" "as_opt_str (opt_str x) = Inr x" "as_int (PInt i) = Inr i"
  "as_float (PFloat q) = Inr q" "as_bool (PBool b) = Inr b" "as_dict (PDict d) = Inr d"
  "as_strs (PList (map PStr xs)) = Inr xs"
  by (simp_all add: as_defs opt_str_def traverse_map split: option.split)

lemma as_role_text [simp]: "as_role (opt_str (map_option role_text r)) = Inr r"
proof (cases r)
  case (Some x)
  then show ?thesis by (cases x) (simp_all add: as_role_def opt_str_def)
qed (simp add: as_role_def opt_str_def)

lemma normalize_role_text [simp]:
  "normalize_subagent_role rp (opt_str (map_option role_text r)) = r"
proof (cases r)
  case (Some x)
  then show ?thesis
    by (cases x) (simp_all add: normalize_subagent_role_def opt_str_def strip_def is_space_def)
qed (simp add: normalize_subagent_role_def opt_str_def)

lemma or_empty_list [simp]: "or_empty (PList xs) = PList xs"
  by (simp add: or_empty_def)

lemma step_to_dict_lookup [simp]:
  "dget (step_to_dict st) ''step_id'' = Some (PStr (step_id st))"
  "dget (step_to_dict st) ''skill_id'' = Some (PStr (skill_id st))"
  "dget (step_to_dict st) ''result_key'' = Some (PStr (result_key st))"
  "dget (step_to_dict st) ''depends_on'' = Some (PList (map PStr (depends_on st)))"
  "dget (step_to_dict st) ''condition_key'' = Some (opt_str (condition_key st))"
  "dget (step_to_dict st) ''retry_max'' = Some (PInt (retry_max st))"
  "dget (step_to_dict st) ''retry_backoff_s'' = Some (PFloat (retry_backoff_s st))"
  "dget (step_to_dict st) ''degrade_value'' = Some (degrade_value st)"
  "dget (step_to_dict st) ''require_consent'' = Some (PBool (require_consent st))"
  "dget (step_to_dict st) ''idempotency_key'' = Some (opt_str (idempotency_key st))"
  "dget (step_to_dict st) ''payload'' = Some (PDict (step_payload st))"
  "dget (step_to_dict st) ''fail_fast'' = Some (PBool (fail_fast st))"
  "dget (step_to_dict st) ''title'' = Some (PStr (step_title st))"
  "dget (step_to_dict st) ''description'' = Some (PStr (step_description st))"
  "dget (step_to_dict st) ''expected_output'' = Some (PStr (expected_output st))"
  "dget (step_to_dict st) ''verification'' = Some (PStr (verification st))"
  "dget (step_to_dict st) ''completion_criteria'' = Some (PStr (completion_criteria st))"
  "dget (step_to_dict st) ''stage'' = Some (opt_str (step_stage st))"
  "dget (step_to_dict st) ''estimated_minutes'' = Some (PInt (estimated_minutes st))"
  "dget (step_to_dict st) ''files'' = Some (PList (map PStr (step_files st)))"
  "dget (step_to_dict st) ''subagent_type'' = Some (opt_str (map_option role_text (subagent_type st)))"
  "dget (step_to_dict st) ''condition_expr'' = None"
  "dget (step_to_dict st) ''timeout_s'' = None"
  by (simp_all add: step_to_dict_def)

lemma step_to_dict_keys [simp]: "dkeys (step_to_dict st) = step_fields"
  by (simp add: step_to_dict_def step_fields_def)

lemma dset_same: "dget d k = Some v \<Longrightarrow> dset d k v = d"
  by (induction d) auto

lemma dpop_absent: "dget d k = None \<Longrightarrow> dpop d k = d"
  by (simp add: dget_None_iff delete_id)

lemma new_step_to_dict: "new_step (step_to_dict st) = Inr st"
proof -
  have "list_all (\<lambda>k. k \<in> set step_fields) step_fields" by (simp add: list_all_iff)
  moreover have "list_all (\<lambda>k. k \<in> set step_fields) [''step_id'', ''skill_id'', ''result_key'']"
    by (simp add: step_fields_def)
  ultimately show ?thesis by (simp add: new_step_def dget_or_def pget_def)
qed

lemma step_roundtrip [simp]: "step_from_dict rp (step_to_dict st) = Inr st"
  by (simp add: step_from_dict_def dget_or_def pget_def dset_same dpop_absent comp_def
      new_step_to_dict)

lemma serialize_lookup [simp]:
  "dget (serialize c) ''snapshot_version'' = Some (PInt (snapshot_version c))"
  "dget (serialize c) ''plan_id'' = Some (PStr (plan_id c))"
  "dget (serialize c) ''status'' = Some (PStr (plan_status_text (status c)))"
  "dget (serialize c) ''steps'' = Some (PDict (map (\<lambda>(k, st). (k, PDict (step_to_dict st))) (steps c)))"
  "dget (serialize c) ''step_status'' = Some (PDict (map (\<lambda>(k, s). (k, PStr (step_status_text s))) (step_status c)))"
  "dget (serialize c) ''step_results'' = Some (PDict (step_results c))"
  "dget (serialize c) ''step_errors'' = Some (PDict (map (\<lambda>(k, s). (k, PStr s)) (step_errors c)))"
  "dget (serialize c) ''step_attempts'' = Some (PDict (map (\<lambda>(k, n). (k, PInt n)) (step_attempts c)))"
  "dget (serialize c) ''processed_steps'' = Some (PList (map PStr (processed_steps c)))"
  "dget (serialize c) ''published_step_events'' = Some (PList (map PStr (published_step_events c)))"
  "dget (serialize c) ''trace_id'' = Some (PStr (trace_id c))"
  "dget (serialize c) ''context_vars'' = Some (PDict (context_vars c))"
  "dget (serialize c) ''error'' = Some (opt_str (ctx_error c))"
  "dget (serialize c) ''paused_reason'' = Some (opt_str (paused_reason c))"
  "dget (serialize c) ''paused_step_id'' = Some (opt_str (paused_step_id c))"
  "dget (serialize c) ''plan_status'' = Some (opt_str (task_context.plan_status c))"
  "dget (serialize c) ''started_at'' = Some (opt_float (started_at c))"
  "dget (serialize c) ''updated_at'' = Some (opt_float (updated_at c))"
  "dget (serialize c) ''completed_at'' = Some (opt_float (completed_at c))"
  "dget (serialize c) ''step_started_at'' = Some (PDict (map (\<lambda>(k, q). (k, PFloat q)) (step_started_at c)))"
  "dget (serialize c) ''step_completed_at'' = Some (PDict (map (\<lambda>(k, q). (k, PFloat q)) (step_completed_at c)))"
  "dget (serialize c) ''step_consent_requests'' = Some (PDict (map (\<lambda>(k, d). (k, PDict d)) (step_consent_requests c)))"
  "dget (serialize c) ''step_route_decisions'' = Some (PDict (map (\<lambda>(k, d). (k, PDict d)) (step_route_decisions c)))"
  "dget (serialize c) ''feedback_overrides'' = Some (PDict (map (\<lambda>(k, s). (k, PStr s)) (feedback_overrides c)))"
  "dget (serialize c) ''quality_retry_counts'' = Some (PDict (map (\<lambda>(k, n). (k, PInt n)) (quality_retry_counts c)))"
  "dget (serialize c) ''progress'' = Some (PFloat (progress c))"
  by (simp_all add: serialize_def)

lemma dict_field_map:
  assumes "dget p key = Some (PDict (map (\<lambda>(k, x). (k, g x)) d))" and "distinct (dkeys d)"
    and "\<And>k x. (k, x) \<in> set d \<Longrightarrow> f (g x) = Inr x"
  shows "dict_field f p key = Inr d"
proof -
  have "traverse (\<lambda>(k, v). and_then (f v) (\<lambda>y. Inr (k, y))) (map (\<lambda>(k, x). (k, g x)) d) = Inr d"
    unfolding traverse_map
    by (subst traverse_Inr [where g = "\<lambda>kx. kx"]) (auto simp: assms(3))
  with assms(1,2) show ?thesis by (simp add: dict_field_def dget_or_def dict_of_distinct)
qed

lemma map_filter_some: "(\<And>x. x \<in> set xs \<Longrightarrow> f x = Some (g x)) \<Longrightarrow> List.map_filter f xs = map g xs"
  by (induction xs) (simp_all add: List.map_filter_simps)

lemma map_filter_map: "List.map_filter f (map g xs) = List.map_filter (\<lambda>x. f (g x)) xs"
  by (simp add: List.map_filter_def filter_map comp_def)

lemma optional_float_opt [simp]: "optional_float (opt_float x) = x" "optional_float (PFloat q) = Some q"
  by (simp_all add: optional_float_def opt_float_def split: option.split)

lemma float_dict_map [simp]:
  "distinct (dkeys d) \<Longrightarrow> float_dict (PDict (map (\<lambda>(k, q). (k, PFloat q)) d)) = d"
  by (simp add: float_dict_def optional_float_def case_prod_beta comp_def map_filter_map
      map_filter_some [where g = "\<lambda>x. x"] dict_of_distinct)

lemma dict_of_dict_map [simp]:
  "distinct (dkeys d) \<Longrightarrow> dict_of_dict (PDict (map (\<lambda>(k, q). (k, PDict q)) d)) = d"
  by (simp add: dict_of_dict_def case_prod_beta comp_def map_filter_map
      map_filter_some [where g = "\<lambda>x. x"] dict_of_distinct)

lemma safe_non_negative_PInt: "0 \<le> n \<Longrightarrow> safe_non_negative_int (PInt n) = n"
  by (simp add: safe_non_negative_int_def)

text \<open>
  What a context satisfies that was built by the code: dictionaries have each key once, the
  snapshot version is a current one, there is a trace identifier, and counts are not negative.
\<close>

definition snapshot_ok :: "'a task_context_scheme \<Rightarrow> bool" where
  "snapshot_ok c = (2 \<le> snapshot_version c \<and> trace_id c \<noteq> []
     \<and> distinct (dkeys (steps c)) \<and> distinct (dkeys (step_status c))
     \<and> distinct (dkeys (step_errors c)) \<and> distinct (dkeys (step_attempts c))
     \<and> distinct (dkeys (step_started_at c)) \<and> distinct (dkeys (step_completed_at c))
     \<and> distinct (dkeys (step_consent_requests c)) \<and> distinct (dkeys (step_route_decisions c))
     \<and> distinct (dkeys (feedback_overrides c)) \<and> distinct (dkeys (quality_retry_counts c))
     \<and> list_all (\<lambda>(k, n). 0 \<le> n) (quality_retry_counts c))"

lemma str_list_field_PStr [simp]: "str_list_field rp (PList (map PStr xs)) = Inr xs"
  by (simp add: str_list_field_def comp_def)

lemma opt_str_text [simp]: "truthy (PStr s) = (s \<noteq> [])" by simp

lemma snapshot_fields:
  assumes "snapshot_ok c"
  shows "dict_field (\<lambda>v. and_then (py_dict v) (step_from_dict rp)) (serialize c) ''steps'' = Inr (steps c)"
    and "dict_field (\<lambda>v. step_status_of_text (py_str rp v)) (serialize c) ''step_status'' = Inr (step_status c)"
    and "dict_field as_str (serialize c) ''step_errors'' = Inr (step_errors c)"
    and "dict_field py_int (serialize c) ''step_attempts'' = Inr (step_attempts c)"
    and "dict_field (\<lambda>v. Inr (py_str rp v)) (serialize c) ''feedback_overrides'' = Inr (feedback_overrides c)"
    and "dict_field (\<lambda>v. Inr (safe_non_negative_int v)) (serialize c) ''quality_retry_counts''
           = Inr (quality_retry_counts c)"
  using assms
  by (auto simp: snapshot_ok_def list_all_iff safe_non_negative_PInt intro!: dict_field_map)

lemma deserialize_serialize:
  assumes "snapshot_ok c"
  shows "deserialize rp fresh (serialize c)
    = Inr (rebuild_dependency_satisfied_set (task_context.truncate c\<lparr>clock_reads := 0\<rparr>))"
  using assms snapshot_fields(1,2,5) [OF assms, where rp = rp] snapshot_fields(3,4,6) [OF assms]
  by (simp add: deserialize_def snapshot_ok_def dget_or_def pget_def comp_def
      rebuild_dependency_satisfied_set_def task_context.truncate_def image_image)

section \<open>Properties\<close>

text \<open>C6. A context that was saved as a snapshot is read back unchanged in every field; only the
  derived set of satisfied dependencies is computed anew.\<close>

theorem snapshot_roundtrip:
  assumes "snapshot_ok c"
  shows "deserialize rp fresh (serialize c)
    = Inr (rebuild_dependency_satisfied_set (task_context.truncate c\<lparr>clock_reads := 0\<rparr>))"
  by (rule deserialize_serialize [OF assms])

theorem snapshot_roundtrip_witness:
  "deserialize (\<lambda>_. []) ''fresh'' (serialize chain_context)
    = Inr (rebuild_dependency_satisfied_set (task_context.truncate chain_context\<lparr>clock_reads := 0\<rparr>))"
  by (rule snapshot_roundtrip) (simp add: snapshot_ok_def sample_defs)

end
