(* ===== verification/Skill_Stages.thy ===== *)
theory Skill_Stages
  imports Py_Values "HOL-Library.Product_Lexorder"
begin

text \<open>
  The stages of a skill: the table of \<open>SkillExecutionTracker\<close>
  (\<open>core/skill_execution_tracker.py\<close>), the gate over it (\<open>core/hard_gate.py\<close>) and the tool that
  combines them (\<open>shell/tool_registry/skill_advance_stage.py\<close>).

  The SQL table is the list of its rows in the order of insertion; every statement of the
  source runs under one lock and one transaction, so an operation is one step. The results of
  \<open>uuid4()\<close> and \<open>time()\<close> are arguments, and so are the installed skill descriptions, which
  the source reads from files. The text of a \<open>ToolBlockedError\<close> is the gate's reason.
\<close>

section \<open>The tracker\<close>

datatype stage_status = Executing | Completed | Failed

fun stage_status_text :: "stage_status \<Rightarrow> string" where
  "stage_status_text Executing = ''executing''"
| "stage_status_text Completed = ''completed''"
| "stage_status_text Failed = ''failed''"

record stage_row =
  exec_id :: string
  row_session :: string
  row_skill :: string
  row_stage :: string
  row_status :: stage_status
  row_evidence :: "string option"
  row_started :: pyfloat
  row_completed :: "pyfloat option"

definition row_is :: "string \<Rightarrow> string \<Rightarrow> string \<Rightarrow> stage_row \<Rightarrow> bool" where
  "row_is s k g r = (row_session r = s \<and> row_skill r = k \<and> row_stage r = g)"

definition validate_identity :: "string \<Rightarrow> string \<Rightarrow> string \<Rightarrow> exn + unit" where
  "validate_identity s k g = (if s = [] \<or> k = [] \<or> g = []
     then Inl (Exn ValueError ''session_id, skill_name and stage must be non-empty'') else Inr ())"

definition start_stage ::
  "string \<Rightarrow> pyfloat \<Rightarrow> string \<Rightarrow> string \<Rightarrow> string \<Rightarrow> stage_row list
    \<Rightarrow> (exn + pyval dict) \<times> stage_row list" where
  "start_stage uid now s k g t = (case validate_identity s k g of
     Inl e \<Rightarrow> (Inl e, t)
   | Inr _ \<Rightarrow> (case find (row_is s k g) t of
       Some r \<Rightarrow>
         (if row_status r = Completed
          then (Inr [(''ok'', PBool False), (''error'', PStr ''stage_already_completed''),
                     (''execution_id'', PStr (exec_id r))], t)
          else (Inr [(''ok'', PBool True), (''execution_id'', PStr (exec_id r)),
                     (''status'', PStr (stage_status_text (row_status r)))], t))
     | None \<Rightarrow>
         (Inr [(''ok'', PBool True), (''execution_id'', PStr uid), (''status'', PStr ''executing'')],
          t @ [\<lparr>exec_id = uid, row_session = s, row_skill = k, row_stage = g,
                row_status = Executing, row_evidence = None, row_started = now,
                row_completed = None\<rparr>])))"

text \<open>The \<open>UPDATE\<close> of \<open>_finish_stage\<close> changes the executing rows of the stage; it succeeds if it
  changed exactly one.\<close>

definition finish_row :: "pyfloat \<Rightarrow> stage_status \<Rightarrow> string option \<Rightarrow> stage_row \<Rightarrow> stage_row" where
  "finish_row now st ev r = r\<lparr>row_status := st, row_evidence := ev, row_completed := Some now\<rparr>"

definition executing_row :: "string \<Rightarrow> string \<Rightarrow> string \<Rightarrow> stage_row \<Rightarrow> bool" where
  "executing_row s k g r = (row_is s k g r \<and> row_status r = Executing)"

definition finish_stage ::
  "pyfloat \<Rightarrow> string \<Rightarrow> string \<Rightarrow> string \<Rightarrow> stage_status \<Rightarrow> string option \<Rightarrow> stage_row list
    \<Rightarrow> (exn + pyval dict) \<times> stage_row list" where
  "finish_stage now s k g st ev t = (case validate_identity s k g of
     Inl e \<Rightarrow> (Inl e, t)
   | Inr _ \<Rightarrow>
      (if st = Executing
       then (Inl (Exn ValueError (''invalid skill execution status: '' @ stage_status_text st)), t)
       else
        (let t' = map (\<lambda>r. if executing_row s k g r then finish_row now st ev r else r) t
         in if length (filter (executing_row s k g) t) \<noteq> 1
            then (Inr [(''ok'', PBool False), (''error'', PStr ''stage_not_executing''),
                       (''stage'', PStr g)], t')
            else (Inr [(''ok'', PBool True), (''stage'', PStr g),
                       (''status'', PStr (stage_status_text st))], t'))))"

definition complete_stage ::
  "pyfloat \<Rightarrow> string \<Rightarrow> string \<Rightarrow> string \<Rightarrow> string option \<Rightarrow> stage_row list
    \<Rightarrow> (exn + pyval dict) \<times> stage_row list" where
  "complete_stage now s k g ev t = finish_stage now s k g Completed ev t"

definition fail_stage ::
  "pyfloat \<Rightarrow> string \<Rightarrow> string \<Rightarrow> string \<Rightarrow> string option \<Rightarrow> stage_row list
    \<Rightarrow> (exn + pyval dict) \<times> stage_row list" where
  "fail_stage now s k g ev t = finish_stage now s k g Failed ev t"

definition check_prerequisite :: "stage_row list \<Rightarrow> string \<Rightarrow> string \<Rightarrow> string \<Rightarrow> bool" where
  "check_prerequisite t s k g = (case find (row_is s k g) t of
     None \<Rightarrow> False | Some r \<Rightarrow> row_status r = Completed)"

definition get_progress :: "string \<Rightarrow> string \<Rightarrow> stage_row list \<Rightarrow> pyval dict list" where
  "get_progress s k t = map
     (\<lambda>r. [(''stage'', PStr (row_stage r)), (''status'', PStr (stage_status_text (row_status r))),
           (''evidence'', case row_evidence r of None \<Rightarrow> PNone | Some e \<Rightarrow> PStr e),
           (''started_at'', PFloat (row_started r)),
           (''completed_at'', case row_completed r of None \<Rightarrow> PNone | Some q \<Rightarrow> PFloat q)])
     (sort_key (\<lambda>r. (row_started r, row_stage r))
        (filter (\<lambda>r. row_session r = s \<and> row_skill r = k) t))"

section \<open>The gate\<close>

record gate_result =
  allowed :: bool
  missing :: "string list"
  reason :: string

text \<open>\<open>HardGate.check\<close>, over the \<open>check_prerequisite\<close> of its tracker.\<close>

definition hard_gate_check ::
  "(string \<Rightarrow> string \<Rightarrow> string \<Rightarrow> bool) \<Rightarrow> string \<Rightarrow> string \<Rightarrow> string \<Rightarrow> string list \<Rightarrow> gate_result" where
  "hard_gate_check check s k requested stages =
     (if stages = [] then \<lparr>allowed = True, missing = [], reason = ''no_stage_sequence''\<rparr>
      else if requested \<notin> set stages
      then \<lparr>allowed = False, missing = [], reason = ''unknown_stage''\<rparr>
      else (let earlier = takeWhile (\<lambda>g. g \<noteq> requested) stages
        in if earlier = [] then \<lparr>allowed = True, missing = [], reason = ''first_stage''\<rparr>
           else (let absent = filter (\<lambda>g. \<not> check s k g) earlier
             in if absent \<noteq> []
                then \<lparr>allowed = False, missing = absent, reason = ''prerequisite_not_completed''\<rparr>
                else \<lparr>allowed = True, missing = [], reason = ''all_prerequisites_met''\<rparr>)))"

section \<open>The tool\<close>

datatype stage_action = Start_action | Complete_action | Fail_action | Other_action string

definition run_action ::
  "(string \<times> string list) list \<Rightarrow> string \<Rightarrow> pyfloat \<Rightarrow> stage_action \<Rightarrow> string \<Rightarrow> string \<Rightarrow> string
    \<Rightarrow> string option \<Rightarrow> stage_row list \<Rightarrow> (exn + pyval dict) \<times> stage_row list" where
  "run_action skills uid now action k g s ev t =
     (case dget skills k of
        None \<Rightarrow> (Inl (Exn ValueError (''unknown skill: '' @ k)), t)
      | Some stages \<Rightarrow> (case action of
          Start_action \<Rightarrow>
            (let gate = hard_gate_check (check_prerequisite t) s k g stages
             in if \<not> allowed gate then (Inl (Exn ToolBlockedError (reason gate)), t)
                else start_stage uid now s k g t)
        | Complete_action \<Rightarrow>
            (if strip (case ev of None \<Rightarrow> [] | Some e \<Rightarrow> e) = []
             then (Inl (Exn ValueError ''evidence is required when completing a stage''), t)
             else complete_stage now s k g ev t)
        | Fail_action \<Rightarrow> fail_stage now s k g ev t
        | Other_action a \<Rightarrow>
            (Inl (Exn ValueError (''unsupported skill stage action: '' @ a)), t)))"

definition execute_action ::
  "(string \<times> string list) list \<Rightarrow> string \<Rightarrow> pyfloat \<Rightarrow> stage_action \<Rightarrow> string \<Rightarrow> string \<Rightarrow> string
    \<Rightarrow> string option \<Rightarrow> stage_row list \<Rightarrow> (exn + pyval dict) \<times> stage_row list" where
  "execute_action skills uid now action k g s ev t =
     (case run_action skills uid now action k g s ev t of
        (Inl e, t') \<Rightarrow> (Inl e, t')
      | (Inr r, t') \<Rightarrow> if truthy (pget r ''ok'') then (Inr r, t')
          else (Inl (Exn ValueError (case pget r ''error'' of
                 PStr m \<Rightarrow> m | _ \<Rightarrow> ''skill stage transition failed'')), t'))"

section \<open>The state of a stage\<close>

text \<open>The table as a map from session, skill and stage to a status: what the operations promise.\<close>

definition stage_of :: "stage_row list \<Rightarrow> string \<Rightarrow> string \<Rightarrow> string \<Rightarrow> stage_status option" where
  "stage_of t s k g = map_option row_status (find (row_is s k g) t)"

text \<open>The \<open>UNIQUE\<close> constraint of the table.\<close>

definition row_key :: "stage_row \<Rightarrow> string \<times> string \<times> string" where
  "row_key r = (row_session r, row_skill r, row_stage r)"

definition unique_rows :: "stage_row list \<Rightarrow> bool" where
  "unique_rows t = distinct (map row_key t)"

definition settle_row :: "string \<Rightarrow> string \<Rightarrow> string \<Rightarrow> pyfloat \<Rightarrow> stage_status \<Rightarrow> string option
    \<Rightarrow> stage_row \<Rightarrow> stage_row" where
  "settle_row s k g now st ev r = (if executing_row s k g r then finish_row now st ev r else r)"

lemma settle_row_key [simp]: "row_key (settle_row s k g now st ev r) = row_key r"
  by (simp add: settle_row_def finish_row_def row_key_def)

lemma row_is_key: "row_is s k g r \<longleftrightarrow> row_key r = (s, k, g)"
  by (auto simp: row_is_def row_key_def)

lemma settle_row_is [simp]: "row_is s' k' g' (settle_row s k g now st ev r) = row_is s' k' g' r"
  by (simp add: row_is_key)

lemma settle_row_status:
  "row_status (settle_row s k g now st ev r) = (if executing_row s k g r then st else row_status r)"
  by (simp add: settle_row_def finish_row_def)

lemma find_map: "(\<And>x. P (f x) = P x) \<Longrightarrow> find P (map f xs) = map_option f (find P xs)"
  by (induction xs) simp_all

lemma check_prerequisite_iff: "check_prerequisite t s k g \<longleftrightarrow> stage_of t s k g = Some Completed"
  by (simp add: check_prerequisite_def stage_of_def split: option.split)

lemma stage_of_append [simp]:
  "stage_of (t @ [r]) s k g = (case stage_of t s k g of
     Some st \<Rightarrow> Some st | None \<Rightarrow> if row_is s k g r then Some (row_status r) else None)"
  by (induction t) (simp_all add: stage_of_def)

lemma stage_of_settle:
  "stage_of (map (settle_row s k g now st ev) t) s' k' g' =
     (if (s', k', g') = (s, k, g) \<and> stage_of t s k g = Some Executing then Some st
      else stage_of t s' k' g')"
proof (cases "find (row_is s' k' g') t")
  case None
  then show ?thesis by (auto simp: stage_of_def find_map)
next
  case (Some r)
  then have "row_key r = (s', k', g')" by (auto simp: find_Some_iff row_is_key)
  with Some show ?thesis
    by (auto simp: stage_of_def find_map settle_row_status executing_row_def row_is_key)
qed

lemma start_stage_cases:
  obtains (invalid) e where "validate_identity s k g = Inl e" "start_stage uid now s k g t = (Inl e, t)"
  | (present) st r where "stage_of t s k g = Some st" "start_stage uid now s k g t = (Inr r, t)"
  | (new) r row where "stage_of t s k g = None" "row_is s k g row" "row_status row = Executing"
      "start_stage uid now s k g t = (Inr r, t @ [row])" "validate_identity s k g = Inr ()"
proof (cases "validate_identity s k g")
  case (Inl e)
  then show ?thesis by (rule invalid) (simp add: start_stage_def Inl)
next
  case (Inr u)
  show ?thesis
  proof (cases "find (row_is s k g) t")
    case None
    with Inr show ?thesis by (intro new) (simp_all add: start_stage_def stage_of_def row_is_def)
  next
    case (Some r)
    show ?thesis
    proof (cases "row_status r = Completed")
      case True
      with Some Inr show ?thesis by (intro present) (simp_all add: start_stage_def stage_of_def)
    next
      case False
      with Some Inr show ?thesis by (intro present) (simp_all add: start_stage_def stage_of_def)
    qed
  qed
qed

lemma stage_of_start:
  "stage_of (snd (start_stage uid now s k g t)) s' k' g' =
     (if (s', k', g') = (s, k, g) \<and> stage_of t s k g = None \<and> validate_identity s k g = Inr ()
      then Some Executing else stage_of t s' k' g')"
proof (rule start_stage_cases [of s k g uid now t])
  fix r row
  assume *: "stage_of t s k g = None" "row_is s k g row" "row_status row = Executing"
    "start_stage uid now s k g t = (Inr r, t @ [row])" "validate_identity s k g = Inr ()"
  then show ?thesis by (auto simp: row_is_def split: option.split)
qed auto

lemma finish_stage_table:
  "snd (finish_stage now s k g st ev t) =
     (if validate_identity s k g = Inr () \<and> st \<noteq> Executing then map (settle_row s k g now st ev) t else t)"
  by (auto simp: finish_stage_def settle_row_def [abs_def] Let_def split: sum.split)

lemma stage_of_finish:
  "stage_of (snd (finish_stage now s k g st ev t)) s' k' g' =
     (if (s', k', g') = (s, k, g) \<and> stage_of t s k g = Some Executing
         \<and> validate_identity s k g = Inr () \<and> st \<noteq> Executing
      then Some st else stage_of t s' k' g')"
  by (auto simp: finish_stage_table stage_of_settle)

section \<open>The contract of a tracker\<close>

text \<open>Started stages have all stages before them completed.\<close>

definition in_order ::
  "(string \<times> string list) list \<Rightarrow> (string \<Rightarrow> string \<Rightarrow> string \<Rightarrow> stage_status option) \<Rightarrow> bool" where
  "in_order skills st = (\<forall>s k g stages. dget skills k = Some stages \<longrightarrow> st s k g \<noteq> None \<longrightarrow>
     list_all (\<lambda>p. st s k p = Some Completed) (takeWhile (\<lambda>x. x \<noteq> g) stages))"

lemma gate_allowed:
  "allowed (hard_gate_check check s k g stages) \<Longrightarrow> list_all (check s k) (takeWhile (\<lambda>x. x \<noteq> g) stages)"
  by (auto simp: hard_gate_check_def Let_def list_all_iff filter_empty_conv split: if_splits)

lemma gate_missing:
  "missing (hard_gate_check check s k g stages) =
     (if g \<in> set stages then filter (\<lambda>p. \<not> check s k p) (takeWhile (\<lambda>x. x \<noteq> g) stages) else [])"
  by (simp add: hard_gate_check_def Let_def)

lemma gate_refuses:
  "g \<in> set stages \<Longrightarrow> p \<in> set (takeWhile (\<lambda>x. x \<noteq> g) stages) \<Longrightarrow> \<not> check s k p \<Longrightarrow>
     \<not> allowed (hard_gate_check check s k g stages)
     \<and> reason (hard_gate_check check s k g stages) = ''prerequisite_not_completed''"
  by (auto simp: hard_gate_check_def Let_def filter_empty_conv)

text \<open>
  What the gate and the tool rely on in a tracker \<open>'w\<close>: each operation moves the stage it is
  called for along \<open>None\<close>, \<open>Executing\<close>, settled, and no other stage.
\<close>

locale stage_tracker =
  fixes stage :: "'w \<Rightarrow> string \<Rightarrow> string \<Rightarrow> string \<Rightarrow> stage_status option"
    and check :: "'w \<Rightarrow> string \<Rightarrow> string \<Rightarrow> string \<Rightarrow> bool"
    and start :: "string \<Rightarrow> pyfloat \<Rightarrow> string \<Rightarrow> string \<Rightarrow> string \<Rightarrow> 'w \<Rightarrow> 'r \<times> 'w"
    and finish :: "pyfloat \<Rightarrow> string \<Rightarrow> string \<Rightarrow> string \<Rightarrow> stage_status \<Rightarrow> string option \<Rightarrow> 'w \<Rightarrow> 'r \<times> 'w"
  assumes check_stage: "check w s k g \<longleftrightarrow> stage w s k g = Some Completed"
    and stage_start: "stage (snd (start uid now s k g w)) s' k' g' =
      (if (s', k', g') = (s, k, g) \<and> stage w s k g = None \<and> validate_identity s k g = Inr ()
       then Some Executing else stage w s' k' g')"
    and stage_finish: "stage (snd (finish now s k g st ev w)) s' k' g' =
      (if (s', k', g') = (s, k, g) \<and> stage w s k g = Some Executing
          \<and> validate_identity s k g = Inr () \<and> st \<noteq> Executing
       then Some st else stage w s' k' g')"
begin

lemma start_keeps_settled:
  "stage w s k g = Some st \<Longrightarrow> stage (snd (start uid now s' k' g' w)) s k g = Some st"
  by (auto simp: stage_start)

lemma finish_keeps_settled:
  "stage w s k g = Some st \<Longrightarrow> st \<noteq> Executing \<Longrightarrow>
     stage (snd (finish now s' k' g' st' ev w)) s k g = Some st"
  by (auto simp: stage_finish)

lemma start_in_order:
  assumes "in_order skills (stage w)" and "dget skills k = Some stages"
    and "allowed (hard_gate_check (check w) s k g stages)"
  shows "in_order skills (stage (snd (start uid now s k g w)))"
proof (unfold in_order_def, intro allI impI)
  fix s' k' g' stages'
  assume k': "dget skills k' = Some stages'" and st: "stage (snd (start uid now s k g w)) s' k' g' \<noteq> None"
  have "list_all (\<lambda>p. stage w s' k' p = Some Completed) (takeWhile (\<lambda>x. x \<noteq> g') stages')"
  proof (cases "stage w s' k' g' = None")
    case True
    with st have "(s', k', g') = (s, k, g)" by (auto simp: stage_start split: if_splits)
    then show ?thesis
      using gate_allowed [OF assms(3)] k' assms(2) by (auto simp: check_stage list_all_iff)
  next
    case False
    with assms(1) k' show ?thesis by (simp add: in_order_def)
  qed
  then show "list_all (\<lambda>p. stage (snd (start uid now s k g w)) s' k' p = Some Completed)
      (takeWhile (\<lambda>x. x \<noteq> g') stages')"
    by (auto simp: list_all_iff intro: start_keeps_settled)
qed

lemma finish_in_order:
  assumes "in_order skills (stage w)"
  shows "in_order skills (stage (snd (finish now s k g st ev w)))"
proof (unfold in_order_def, intro allI impI)
  fix s' k' g' stages'
  assume k': "dget skills k' = Some stages'" and some: "stage (snd (finish now s k g st ev w)) s' k' g' \<noteq> None"
  have "stage w s' k' g' \<noteq> None" using some by (auto simp: stage_finish split: if_splits)
  with assms k' have "list_all (\<lambda>p. stage w s' k' p = Some Completed) (takeWhile (\<lambda>x. x \<noteq> g') stages')"
    by (simp add: in_order_def)
  then show "list_all (\<lambda>p. stage (snd (finish now s k g st ev w)) s' k' p = Some Completed)
      (takeWhile (\<lambda>x. x \<noteq> g') stages')"
    by (auto simp: list_all_iff intro: finish_keeps_settled)
qed

end

interpretation tracker: stage_tracker stage_of check_prerequisite start_stage finish_stage
  by unfold_locales (rule check_prerequisite_iff, rule stage_of_start, rule stage_of_finish)

section \<open>Runs of the tool\<close>

lemma execute_action_table:
  "snd (execute_action skills uid now a k g s ev t) = snd (run_action skills uid now a k g s ev t)"
  by (simp add: execute_action_def split: prod.split sum.split)

lemma run_action_cases:
  obtains (same) "snd (run_action skills uid now a k g s ev t) = t"
  | (started) stages where "dget skills k = Some stages"
      "allowed (hard_gate_check (check_prerequisite t) s k g stages)"
      "snd (run_action skills uid now a k g s ev t) = snd (start_stage uid now s k g t)"
  | (finished) st where "st \<noteq> Executing"
      "snd (run_action skills uid now a k g s ev t) = snd (finish_stage now s k g st ev t)"
proof (cases "dget skills k")
  case None
  then show ?thesis by (intro same) (simp add: run_action_def)
next
  case k: (Some stages)
  show ?thesis
  proof (cases a)
    case Start_action
    show ?thesis
    proof (cases "allowed (hard_gate_check (check_prerequisite t) s k g stages)")
      case True
      with k Start_action show ?thesis by (intro started) (simp_all add: run_action_def Let_def)
    next
      case False
      with k Start_action show ?thesis by (intro same) (simp add: run_action_def Let_def)
    qed
  next
    case Complete_action
    show ?thesis
    proof (cases "strip (case ev of None \<Rightarrow> [] | Some e \<Rightarrow> e) = []")
      case True
      with k Complete_action show ?thesis by (intro same) (simp add: run_action_def)
    next
      case False
      with k Complete_action show ?thesis
        by (intro finished [of Completed]) (simp_all add: run_action_def complete_stage_def)
    qed
  next
    case Fail_action
    with k show ?thesis by (intro finished [of Failed]) (simp_all add: run_action_def fail_stage_def)
  next
    case (Other_action b)
    with k show ?thesis by (intro same) (simp add: run_action_def)
  qed
qed

text \<open>Any number of calls of the tool, in any order, with any arguments.\<close>

inductive tool_run :: "(string \<times> string list) list \<Rightarrow> stage_row list \<Rightarrow> stage_row list \<Rightarrow> bool"
  for skills where
  idle: "tool_run skills t t"
| call: "tool_run skills t t' \<Longrightarrow> tool_run skills t (snd (execute_action skills uid now a k g s ev t'))"

lemma execute_in_order:
  assumes "in_order skills (stage_of t)"
  shows "in_order skills (stage_of (snd (execute_action skills uid now a k g s ev t)))"
  unfolding execute_action_table
  by (rule run_action_cases [of skills uid now a k g s ev t])
    (simp_all add: assms tracker.start_in_order tracker.finish_in_order)

lemma execute_keeps_settled:
  assumes "stage_of t s k g = Some st" and "st \<noteq> Executing"
  shows "stage_of (snd (execute_action skills uid now a k' g' s' ev t)) s k g = Some st"
  unfolding execute_action_table
  by (rule run_action_cases [of skills uid now a k' g' s' ev t])
    (simp_all add: assms tracker.start_keeps_settled tracker.finish_keeps_settled)

lemma tool_run_settled:
  "tool_run skills t t' \<Longrightarrow> st \<noteq> Executing \<Longrightarrow> stage_of t s k g = Some st \<Longrightarrow> stage_of t' s k g = Some st"
  by (induction rule: tool_run.induct) (simp_all add: execute_keeps_settled)

lemma in_order_initial: "in_order skills (stage_of [])"
  by (simp add: in_order_def stage_of_def)

section \<open>Properties\<close>

definition sample_skills :: "(string \<times> string list) list" where
  "sample_skills = [(''novel'', [''plan'', ''draft''])]"

definition plan_started :: "stage_row list" where
  "plan_started = snd (execute_action sample_skills ''u1'' 1 Start_action ''novel'' ''plan'' ''s'' None [])"

definition plan_failed :: "stage_row list" where
  "plan_failed = snd (execute_action sample_skills ''u2'' 2 Fail_action ''novel'' ''plan'' ''s'' None plan_started)"

text \<open>C7. However the tool is called, a stage of a skill that was ever started has all the stages
  before it completed.\<close>

theorem stages_run_in_order:
  assumes "tool_run skills [] t"
  shows "in_order skills (stage_of t)"
  using assms by (induction "[] :: stage_row list" t rule: tool_run.induct)
    (simp_all add: in_order_initial execute_in_order)

theorem stages_run_in_order_witness:
  "in_order sample_skills (stage_of plan_failed)"
  unfolding plan_failed_def plan_started_def
  by (rule stages_run_in_order) (intro tool_run.intros)

text \<open>A stage that failed can never be completed, so from then on the tool refuses for ever to start
  any stage behind it, in that session.\<close>

theorem failed_stage_blocks_forever:
  assumes "tool_run skills t t'" and "stage_of t s k p = Some Failed"
    and "dget skills k = Some stages" and "g \<in> set stages" and "p \<in> set (takeWhile (\<lambda>x. x \<noteq> g) stages)"
  shows "execute_action skills uid now Start_action k g s ev t'
    = (Inl (Exn ToolBlockedError ''prerequisite_not_completed''), t')"
proof -
  have "\<not> check_prerequisite t' s k p"
    using tool_run_settled [OF assms(1) _ assms(2)] by (simp add: check_prerequisite_iff)
  from gate_refuses [where check = "check_prerequisite t'", OF assms(4,5) this] assms(3)
  show ?thesis by (simp add: execute_action_def run_action_def)
qed

theorem failed_stage_blocks_forever_witness:
  "execute_action sample_skills ''u3'' 3 Start_action ''novel'' ''draft'' ''s'' None plan_failed
    = (Inl (Exn ToolBlockedError ''prerequisite_not_completed''), plan_failed)"
proof (rule failed_stage_blocks_forever [where p = "''plan''" and stages = "[''plan'', ''draft'']"])
  show "tool_run sample_skills plan_failed plan_failed" by (rule tool_run.idle)
  show "stage_of plan_failed ''s'' ''novel'' ''plan'' = Some Failed" by code_simp
qed (simp_all add: sample_skills_def)

end
