(* ===== verification/Skill_Breaker.thy ===== *)
theory Skill_Breaker
  imports Py_Values
begin

text \<open>
  The circuit breaker of \<open>SkillInvoker\<close> (\<open>shell/skill_manager/invoker.py\<close>), its \<open>invoke\<close>, and
  the adapter through which the plan orchestrator may call it (\<open>SkillManagerInvokerAdapter\<close> of
  \<open>core/plan_orchestrator.py\<close>).

  The record holds the three dictionaries of the breaker and its two limits. \<open>now\<close> is what
  \<open>time()\<close> returns; an operation that reads the clock more than once takes a clock, indexed by
  the number of the read. Starting and stopping the process of a skill and the HTTP exchange are
  outside: \<open>invoke\<close> is given whether the process is known and alive and the parsed response or
  the text of the error.
\<close>

record breaker =
  failure_counts :: "int dict"
  circuit_open :: "pyfloat dict"
  half_open_probe :: "bool dict"
  cooldown_s :: pyfloat
  cooldown_max_s :: pyfloat

definition new_breaker :: breaker where
  "new_breaker = \<lparr>failure_counts = [], circuit_open = [], half_open_probe = [],
     cooldown_s = 300, cooldown_max_s = 3600\<rparr>"

definition record_failure :: "pyfloat \<Rightarrow> string \<Rightarrow> breaker \<Rightarrow> breaker" where
  "record_failure now name b =
     (let n = dget_or (failure_counts b) name 0 + 1;
          b1 = b\<lparr>failure_counts := dset (failure_counts b) name n\<rparr>
      in if n \<ge> 3
         then b1\<lparr>circuit_open := dset (circuit_open b1) name now,
                 half_open_probe := dpop (half_open_probe b1) name\<rparr>
         else b1)"

definition circuit_cooldown_seconds :: "string \<Rightarrow> breaker \<Rightarrow> pyfloat" where
  "circuit_cooldown_seconds name b =
     (let n = max 3 (dget_or (failure_counts b) name 3)
      in min (cooldown_s b * 2 ^ nat (n - 3)) (cooldown_max_s b))"

text \<open>\<open>bool(self._circuit_open.get(name))\<close>: a time stamp of zero counts as closed.\<close>

definition is_circuit_open :: "string \<Rightarrow> breaker \<Rightarrow> bool" where
  "is_circuit_open name b = (case dget (circuit_open b) name of None \<Rightarrow> False | Some t \<Rightarrow> t \<noteq> 0)"

definition should_probe_half_open :: "pyfloat \<Rightarrow> string \<Rightarrow> breaker \<Rightarrow> bool \<times> breaker" where
  "should_probe_half_open now name b = (case dget (circuit_open b) name of
     None \<Rightarrow> (False, b)
   | Some opened_at \<Rightarrow>
      (if now - opened_at < circuit_cooldown_seconds name b then (False, b)
       else if dget_or (half_open_probe b) name False then (False, b)
       else (True, b\<lparr>half_open_probe := dset (half_open_probe b) name True\<rparr>)))"

definition allow_half_open_probe :: "pyfloat \<Rightarrow> string \<Rightarrow> breaker \<Rightarrow> bool \<times> breaker" where
  "allow_half_open_probe now name b = should_probe_half_open now name b"

definition breaker_open_error :: "string \<Rightarrow> exn" where
  "breaker_open_error name = Exn CircuitBreakerOpenError (''circuit open: '' @ name)"

definition ensure_circuit_closed :: "pyfloat \<Rightarrow> string \<Rightarrow> breaker \<Rightarrow> (exn + unit) \<times> breaker" where
  "ensure_circuit_closed now name b =
     (if \<not> is_circuit_open name b then (Inr (), b)
      else (case allow_half_open_probe now name b of
          (True, b') \<Rightarrow> (Inr (), b')
        | (False, b') \<Rightarrow> (Inl (breaker_open_error name), b')))"

definition record_success :: "string \<Rightarrow> breaker \<Rightarrow> breaker" where
  "record_success name b = b\<lparr>failure_counts := dpop (failure_counts b) name,
     circuit_open := dpop (circuit_open b) name,
     half_open_probe := dpop (half_open_probe b) name\<rparr>"

definition record_probe_result :: "pyfloat \<Rightarrow> string \<Rightarrow> bool \<Rightarrow> breaker \<Rightarrow> breaker" where
  "record_probe_result now name success b =
     (if success then record_success name b
      else (let b' = record_failure now name b
        in b'\<lparr>circuit_open := dset (circuit_open b') name now\<rparr>))"

definition clear_half_open_probe :: "string \<Rightarrow> breaker \<Rightarrow> breaker" where
  "clear_half_open_probe name b = b\<lparr>half_open_probe := dpop (half_open_probe b) name\<rparr>"

text \<open>
  \<open>SkillInvoker.invoke\<close>. \<open>alive\<close> is \<open>None\<close> for a skill without a process, otherwise whether the
  process still runs.
\<close>

definition skill_invoke ::
  "clock \<Rightarrow> string \<Rightarrow> bool option \<Rightarrow> string + pyval \<Rightarrow> breaker \<Rightarrow> (exn + pyval) \<times> breaker" where
  "skill_invoke clk name alive answer b = (case alive of
     None \<Rightarrow> (Inl (Exn SkillInvocationError (name @ '' is not running'')), b)
   | Some running \<Rightarrow> (case ensure_circuit_closed (clk 0) name b of
       (Inl e, b1) \<Rightarrow> (Inl e, b1)
     | (Inr _, b1) \<Rightarrow>
        (if \<not> running
         then (Inl (Exn SkillInvocationError (name @ '' has exited'')), record_failure (clk 1) name b1)
         else (case answer of
             Inl msg \<Rightarrow> (Inl (Exn SkillInvocationError msg), record_failure (clk 1) name b1)
           | Inr v \<Rightarrow> (Inr v, record_success name b1)))))"

text \<open>
  The adapter: it checks the circuit itself, calls the invoker, and records the outcome again.
  A \<open>TypeError\<close> of the call makes it call once more without the key; \<open>call\<close> and \<open>call2\<close> are
  the two calls.
\<close>

definition adapter_invoke ::
  "clock \<Rightarrow> string \<Rightarrow> (breaker \<Rightarrow> (exn + pyval) \<times> breaker) \<Rightarrow> (breaker \<Rightarrow> (exn + pyval) \<times> breaker)
    \<Rightarrow> breaker \<Rightarrow> (exn + pyval) \<times> breaker" where
  "adapter_invoke clk name call call2 b = (case ensure_circuit_closed (clk 0) name b of
     (Inl e, b1) \<Rightarrow> (Inl e, b1)
   | (Inr _, b1) \<Rightarrow>
      (case (case call b1 of
             (Inl e, b2) \<Rightarrow> if exn_kind e = TypeError then call2 b2 else (Inl e, b2)
           | (Inr v, b2) \<Rightarrow> (Inr v, b2)) of
         (Inl e, b3) \<Rightarrow> (Inl e, record_failure (clk 1) name b3)
       | (Inr v, b3) \<Rightarrow> (Inr v, record_success name b3)))"

section \<open>Invariants of the breaker\<close>

text \<open>A clock that never shows zero, as the time since the epoch does.\<close>

definition positive_clock :: "clock \<Rightarrow> bool" where
  "positive_clock clk = (\<forall>n. 0 < clk n)"

text \<open>An entry of an open circuit is a real time, reached after three failures.\<close>

definition breaker_ok :: "breaker \<Rightarrow> bool" where
  "breaker_ok b = (\<forall>name t. dget (circuit_open b) name = Some t \<longrightarrow>
     t \<noteq> 0 \<and> 3 \<le> dget_or (failure_counts b) name 0)"

lemma breaker_ok_new: "breaker_ok new_breaker"
  by (simp add: breaker_ok_def new_breaker_def)

lemma breaker_ok_failure:
  assumes "breaker_ok b" and "0 < now"
  shows "breaker_ok (record_failure now name b)"
proof (unfold breaker_ok_def, intro allI impI)
  fix k t
  assume "dget (circuit_open (record_failure now name b)) k = Some t"
  then have "(k = name \<and> t = now \<and> 2 \<le> dget_or (failure_counts b) name 0)
      \<or> dget (circuit_open b) k = Some t"
    by (auto simp: record_failure_def Let_def split: if_splits)
  then show "t \<noteq> 0 \<and> 3 \<le> dget_or (failure_counts (record_failure now name b)) k 0"
    using assms by (fastforce simp: breaker_ok_def record_failure_def Let_def)
qed

lemma breaker_ok_success: "breaker_ok b \<Longrightarrow> breaker_ok (record_success name b)"
  by (auto simp: breaker_ok_def record_success_def split: if_splits)

lemma ensure_circuit_cases:
  obtains (closed) "\<not> is_circuit_open name b" "ensure_circuit_closed now name b = (Inr (), b)"
  | (probe) t where "dget (circuit_open b) name = Some t" "t \<noteq> 0"
      "circuit_cooldown_seconds name b \<le> now - t" "\<not> dget_or (half_open_probe b) name False"
      "ensure_circuit_closed now name b
        = (Inr (), b\<lparr>half_open_probe := dset (half_open_probe b) name True\<rparr>)"
  | (refused) t where "dget (circuit_open b) name = Some t" "t \<noteq> 0"
      "now - t < circuit_cooldown_seconds name b \<or> dget_or (half_open_probe b) name False"
      "ensure_circuit_closed now name b = (Inl (breaker_open_error name), b)"
proof (cases "is_circuit_open name b")
  case False
  then show ?thesis by (intro closed) (simp_all add: ensure_circuit_closed_def)
next
  case True
  then obtain t where t: "dget (circuit_open b) name = Some t" "t \<noteq> 0"
    by (auto simp: is_circuit_open_def split: option.splits)
  show ?thesis
  proof (cases "now - t < circuit_cooldown_seconds name b \<or> dget_or (half_open_probe b) name False")
    case no: True
    with t True show ?thesis
      by (intro refused [OF t])
        (auto simp: ensure_circuit_closed_def allow_half_open_probe_def should_probe_half_open_def)
  next
    case False
    with t True show ?thesis
      by (intro probe [OF t])
        (auto simp: ensure_circuit_closed_def allow_half_open_probe_def should_probe_half_open_def)
  qed
qed

lemma cooldown_bounds:
  assumes "0 < cooldown_s b" and "cooldown_s b \<le> cooldown_max_s b"
  shows "cooldown_s b \<le> circuit_cooldown_seconds name b"
    and "circuit_cooldown_seconds name b \<le> cooldown_max_s b"
proof -
  have "cooldown_s b * 1 \<le> cooldown_s b * 2 ^ n" for n :: nat
    using assms(1) by (intro mult_left_mono) simp_all
  with assms(2) show "cooldown_s b \<le> circuit_cooldown_seconds name b"
    by (simp add: circuit_cooldown_seconds_def Let_def)
  show "circuit_cooldown_seconds name b \<le> cooldown_max_s b"
    by (simp add: circuit_cooldown_seconds_def Let_def)
qed

section \<open>Properties\<close>

lemma failure_keeps_open:
  assumes "is_circuit_open name b" and "0 < now"
  shows "is_circuit_open name (record_failure now name b)"
  using assms by (auto simp: is_circuit_open_def record_failure_def Let_def)

text \<open>C8. A skill called directly recovers: once the cooldown of its open circuit is over and no probe is
  under way, one successful answer closes the circuit and clears its failures.\<close>

theorem direct_invoke_recovers:
  assumes "dget (circuit_open b) name = Some t" and "circuit_cooldown_seconds name b \<le> clk 0 - t"
    and "\<not> dget_or (half_open_probe b) name False"
  shows "fst (skill_invoke clk name (Some True) (Inr v) b) = Inr v
    \<and> \<not> is_circuit_open name (snd (skill_invoke clk name (Some True) (Inr v) b))
    \<and> dget (failure_counts (snd (skill_invoke clk name (Some True) (Inr v) b))) name = None"
  using assms
  by (simp add: skill_invoke_def ensure_circuit_closed_def allow_half_open_probe_def
      should_probe_half_open_def record_success_def is_circuit_open_def)

definition tripped :: breaker where
  "tripped = record_failure 12 ''w'' (record_failure 11 ''w'' (record_failure 10 ''w'' new_breaker))"

theorem direct_invoke_recovers_witness:
  "fst (skill_invoke (\<lambda>n. 1000 + of_nat n) ''w'' (Some True) (Inr PNone) tripped) = Inr PNone"
  by (rule conjunct1, rule direct_invoke_recovers [where t = 12])
    (simp_all add: tripped_def record_failure_def new_breaker_def circuit_cooldown_seconds_def
      dget_or_def Let_def)

inductive breaker_run :: "breaker \<Rightarrow> bool" where
  fresh: "breaker_run new_breaker"
| invoke: "breaker_run b \<Longrightarrow> positive_clock clk \<Longrightarrow> breaker_run (snd (skill_invoke clk name alive answer b))"

lemma skill_invoke_ok:
  assumes "breaker_ok b" and "positive_clock clk"
  shows "breaker_ok (snd (skill_invoke clk name alive answer b))"
proof -
  have probe: "breaker_ok (b\<lparr>half_open_probe := d\<rparr>)" for d
    using assms(1) by (simp add: breaker_ok_def)
  have now: "0 < clk n" for n using assms(2) by (simp add: positive_clock_def)
  show ?thesis
    by (rule ensure_circuit_cases [of name b "clk 0"])
      (simp_all add: skill_invoke_def assms(1) probe breaker_ok_failure breaker_ok_success now
        split: option.split sum.split)
qed

lemma skill_invoke_limits:
  "cooldown_s (snd (skill_invoke clk name alive answer b)) = cooldown_s b
   \<and> cooldown_max_s (snd (skill_invoke clk name alive answer b)) = cooldown_max_s b"
  by (rule ensure_circuit_cases [of name b "clk 0"])
    (simp_all add: skill_invoke_def record_failure_def record_success_def Let_def
      split: option.split sum.split)

text \<open>Starting from a new breaker, however skills are called and whatever they answer, a circuit is
  open only after three failures of the skill with no success since, and the cooldown before the
  next probe is between the configured minimum and maximum.\<close>

theorem open_circuit_sound:
  assumes "breaker_run b"
  shows "(is_circuit_open name b \<longrightarrow> 3 \<le> dget_or (failure_counts b) name 0)
    \<and> 300 \<le> circuit_cooldown_seconds name b \<and> circuit_cooldown_seconds name b \<le> 3600"
proof -
  have "breaker_ok b \<and> cooldown_s b = 300 \<and> cooldown_max_s b = 3600"
    using assms
    by induction (simp_all add: breaker_ok_new skill_invoke_ok skill_invoke_limits,
        simp add: new_breaker_def)
  then show ?thesis
    using cooldown_bounds [of b name]
    by (auto simp: breaker_ok_def is_circuit_open_def split: option.splits)
qed

theorem open_circuit_sound_witness:
  "circuit_cooldown_seconds ''w'' (snd (skill_invoke (\<lambda>n. 10) ''w'' (Some False) (Inr PNone) new_breaker)) \<le> 3600"
  using open_circuit_sound [OF breaker_run.invoke [OF breaker_run.fresh]]
  by (simp add: positive_clock_def)

text \<open>C9. Through the adapter an open circuit never closes again: whatever time passes, whether or not
  the skill is running and whatever it would answer, the call is refused and the circuit stays
  open, because the adapter's own check consumes the probe that the invoker then asks for.\<close>

theorem adapter_never_recovers:
  assumes "is_circuit_open name b" and "\<And>n. 0 < clk n" and "\<And>n. 0 < clk' n"
  shows "(\<exists>e. fst (adapter_invoke clk name (skill_invoke clk' name alive answer) call2 b) = Inl e)
    \<and> is_circuit_open name (snd (adapter_invoke clk name (skill_invoke clk' name alive answer) call2 b))"
proof (rule ensure_circuit_cases [of name b "clk 0"])
  fix t
  let ?b = "b\<lparr>half_open_probe := dset (half_open_probe b) name True\<rparr>"
  assume t: "dget (circuit_open b) name = Some t" "t \<noteq> 0"
    and ok: "ensure_circuit_closed (clk 0) name b = (Inr (), ?b)"
  have open_b: "is_circuit_open name ?b" using t by (simp add: is_circuit_open_def)
  have refused: "ensure_circuit_closed now name ?b = (Inl (breaker_open_error name), ?b)" for now
    using t by (simp add: ensure_circuit_closed_def allow_half_open_probe_def
        should_probe_half_open_def is_circuit_open_def)
  have "\<exists>e. skill_invoke clk' name alive answer ?b = (Inl e, ?b) \<and> exn_kind e \<noteq> TypeError"
    by (simp add: skill_invoke_def refused breaker_open_error_def split: option.split)
  then show ?thesis
    using failure_keeps_open [OF open_b assms(2)] by (auto simp: adapter_invoke_def ok)
next
  fix t
  assume t: "dget (circuit_open b) name = Some t" "t \<noteq> 0"
    and no: "ensure_circuit_closed (clk 0) name b = (Inl (breaker_open_error name), b)"
  then show ?thesis using assms(1) by (simp add: adapter_invoke_def)
qed (use assms(1) in simp)

theorem adapter_never_recovers_witness:
  "is_circuit_open ''w'' (snd (adapter_invoke (\<lambda>n. 9999) ''w''
     (skill_invoke (\<lambda>n. 9999) ''w'' (Some True) (Inr PNone)) (\<lambda>b. (Inr PNone, b)) tripped))"
  by (rule conjunct2, rule adapter_never_recovers)
    (simp_all add: tripped_def record_failure_def new_breaker_def is_circuit_open_def
      dget_or_def Let_def)

end
