(* ===== verification/Plugin_Config.thy ===== *)
theory Plugin_Config
  imports Py_Values
begin

text \<open>
  The declarative plugin configuration (\<open>core/lifecycle/config.py\<close>): strict parsing of a value
  read from YAML, and writing it back. Reading and parsing the file are outside. A
  \<open>PluginConfigError\<close> is a \<open>ValueError\<close>.
\<close>

record plugin_entry =
  plugin_id :: string
  plugin_module :: string
  plugin_enabled :: bool
  plugin_requires :: "string list"
  plugin_optional :: "string list"
  plugin_config :: "pyval dict"
  plugin_version :: string

record plugins_config =
  schema_version :: int
  plugins :: "plugin_entry list"

definition config_error :: "string \<Rightarrow> exn" where
  "config_error msg = Exn ValueError msg"

definition nonempty_text :: "pyval \<Rightarrow> bool" where
  "nonempty_text v = (case v of PStr s \<Rightarrow> strip s \<noteq> [] | _ \<Rightarrow> False)"

definition text_of :: "pyval \<Rightarrow> string" where
  "text_of v = (case v of PStr s \<Rightarrow> strip s | _ \<Rightarrow> [])"

definition string_tuple :: "pyval \<Rightarrow> string \<Rightarrow> exn + string list" where
  "string_tuple v field = (case v of
     PList xs \<Rightarrow> if list_all nonempty_text xs then Inr (map text_of xs)
       else Inl (config_error (field @ '' must be a list of strings''))
   | _ \<Rightarrow> Inl (config_error (field @ '' must be a list of strings'')))"

definition mapping_value :: "pyval \<Rightarrow> string \<Rightarrow> exn + pyval dict" where
  "mapping_value v msg = (case v of PDict d \<Rightarrow> Inr d | _ \<Rightarrow> Inl (config_error msg))"

definition list_value :: "pyval \<Rightarrow> string \<Rightarrow> exn + pyval list" where
  "list_value v msg = (case v of PList xs \<Rightarrow> Inr xs | _ \<Rightarrow> Inl (config_error msg))"

definition entry_fields :: "string list" where
  "entry_fields = [''id'', ''module'', ''enabled'', ''requires'', ''optional_requires'', ''config'', ''version'']"

definition entry_from_mapping :: "(pyval \<Rightarrow> string) \<Rightarrow> pyval \<Rightarrow> exn + plugin_entry" where
  "entry_from_mapping rp raw = (case raw of
     PDict d \<Rightarrow>
      (if \<not> list_all (\<lambda>k. k \<in> set entry_fields) (dkeys d)
       then Inl (config_error ''unknown plugin fields'')
       else if \<not> nonempty_text (pget d ''id'')
       then Inl (config_error ''plugin id must be a non-empty string'')
       else if \<not> nonempty_text (pget d ''module'')
       then Inl (config_error ''module must be a non-empty string'')
       else
        and_then (string_tuple (dget_or d ''requires'' (PList [])) ''requires'') (\<lambda>req.
        and_then (string_tuple (dget_or d ''optional_requires'' (PList [])) ''optional_requires'') (\<lambda>opt.
        and_then (mapping_value (dget_or d ''config'' (PDict [])) ''config must be a mapping'') (\<lambda>cfg.
          Inr \<lparr>plugin_id = text_of (pget d ''id''),
               plugin_module = text_of (pget d ''module''),
               plugin_enabled = truthy (dget_or d ''enabled'' (PBool True)),
               plugin_requires = req, plugin_optional = opt, plugin_config = cfg,
               plugin_version = py_str rp (dget_or d ''version'' (PStr ''1.0.0''))\<rparr>))))
   | _ \<Rightarrow> Inl (config_error ''plugin entry must be a mapping''))"

text \<open>\<open>isinstance(v, int)\<close> holds for a truth value as well.\<close>

definition positive_version :: "pyval \<Rightarrow> int option" where
  "positive_version v = (case v of
     PInt i \<Rightarrow> if i < 1 then None else Some i
   | PBool b \<Rightarrow> if b then Some 1 else None
   | _ \<Rightarrow> None)"

definition config_from_mapping :: "(pyval \<Rightarrow> string) \<Rightarrow> pyval \<Rightarrow> exn + plugins_config" where
  "config_from_mapping rp raw = (case raw of
     PDict d \<Rightarrow>
      (if \<not> list_all (\<lambda>k. k \<in> {''schema_version'', ''plugins''}) (dkeys d)
       then Inl (config_error ''unknown config fields'')
       else (case positive_version (pget d ''schema_version'') of
          None \<Rightarrow> Inl (config_error ''schema_version must be a positive integer'')
        | Some ver \<Rightarrow>
            and_then (list_value (pget d ''plugins'') ''plugins must be a list'') (\<lambda>xs.
            and_then (traverse (entry_from_mapping rp) xs) (\<lambda>parsed.
              if distinct (map plugin_id parsed)
              then Inr \<lparr>schema_version = ver, plugins = parsed\<rparr>
              else Inl (config_error ''plugin ids must be unique'')))))
   | _ \<Rightarrow> Inl (config_error ''plugins config must be a mapping''))"

definition entry_as_dict :: "plugin_entry \<Rightarrow> pyval" where
  "entry_as_dict e = PDict
     [(''id'', PStr (plugin_id e)), (''module'', PStr (plugin_module e)),
      (''enabled'', PBool (plugin_enabled e)),
      (''requires'', PList (map PStr (plugin_requires e))),
      (''optional_requires'', PList (map PStr (plugin_optional e))),
      (''config'', PDict (plugin_config e)), (''version'', PStr (plugin_version e))]"

definition config_as_dict :: "plugins_config \<Rightarrow> pyval" where
  "config_as_dict c = PDict
     [(''schema_version'', PInt (schema_version c)),
      (''plugins'', PList (map entry_as_dict (plugins c)))]"

section \<open>What parsing guarantees\<close>

definition trimmed :: "string \<Rightarrow> bool" where
  "trimmed s = (s \<noteq> [] \<and> strip s = s)"

definition entry_valid :: "plugin_entry \<Rightarrow> bool" where
  "entry_valid e = (trimmed (plugin_id e) \<and> trimmed (plugin_module e)
     \<and> list_all trimmed (plugin_requires e) \<and> list_all trimmed (plugin_optional e))"

definition config_valid :: "plugins_config \<Rightarrow> bool" where
  "config_valid c = (1 \<le> schema_version c \<and> list_all entry_valid (plugins c)
     \<and> distinct (map plugin_id (plugins c)))"

lemma text_of_trimmed: "nonempty_text v \<Longrightarrow> trimmed (text_of v)"
  by (cases v) (simp_all add: nonempty_text_def text_of_def trimmed_def)

lemma trimmed_text: "trimmed s \<Longrightarrow> nonempty_text (PStr s) \<and> text_of (PStr s) = s"
  by (simp add: trimmed_def nonempty_text_def text_of_def)

lemma string_tuple_valid: "string_tuple v f = Inr xs \<Longrightarrow> list_all trimmed xs"
  by (cases v) (auto simp: string_tuple_def list_all_iff text_of_trimmed split: if_splits)

lemma string_tuple_trimmed: "list_all trimmed xs \<Longrightarrow> string_tuple (PList (map PStr xs)) f = Inr xs"
  by (auto simp: string_tuple_def list_all_iff trimmed_text intro!: map_idI)

lemma entry_from_mapping_valid: "entry_from_mapping rp raw = Inr e \<Longrightarrow> entry_valid e"
  by (auto simp: entry_from_mapping_def entry_valid_def and_then_Inr_iff text_of_trimmed
      dest: string_tuple_valid split: pyval.split_asm if_split_asm)

lemma traverse_all:
  "traverse f xs = Inr ys \<Longrightarrow> (\<And>x y. f x = Inr y \<Longrightarrow> P y) \<Longrightarrow> list_all P ys"
  by (induction xs arbitrary: ys) (auto simp: and_then_Inr_iff)

lemma config_from_mapping_valid: "config_from_mapping rp raw = Inr c \<Longrightarrow> config_valid c"
  by (auto simp: config_from_mapping_def config_valid_def and_then_Inr_iff positive_version_def
      dest!: traverse_all [where P = entry_valid, OF _ entry_from_mapping_valid]
      split: pyval.split_asm if_split_asm option.split_asm)

lemma entry_roundtrip:
  assumes "entry_valid e"
  shows "entry_from_mapping rp (entry_as_dict e) = Inr e"
  using assms
  by (simp add: entry_from_mapping_def entry_as_dict_def entry_fields_def entry_valid_def pget_def
      dget_or_def trimmed_text string_tuple_trimmed py_str_def mapping_value_def)

text \<open>A plugin configuration that is accepted has trimmed, non-empty names and unique plugin
  identifiers, and written back as a dictionary it is accepted again, unchanged.\<close>

theorem plugin_config_roundtrip:
  assumes "config_from_mapping rp raw = Inr c"
  shows "config_valid c \<and> config_from_mapping rp (config_as_dict c) = Inr c"
proof -
  have valid: "config_valid c" by (rule config_from_mapping_valid [OF assms])
  then have "traverse (entry_from_mapping rp) (map entry_as_dict (plugins c)) = Inr (plugins c)"
    by (simp add: traverse_map config_valid_def list_all_iff entry_roundtrip)
  with valid show ?thesis
    by (simp add: config_from_mapping_def config_as_dict_def pget_def dget_or_def
        positive_version_def config_valid_def list_value_def)
qed

definition sample_raw :: pyval where
  "sample_raw = PDict [(''schema_version'', PInt 1),
     (''plugins'', PList [PDict [(''id'', PStr '' log ''), (''module'', PStr ''m'')]])]"

theorem plugin_config_roundtrip_witness:
  "config_valid \<lparr>schema_version = 1, plugins = [\<lparr>plugin_id = ''log'', plugin_module = ''m'',
     plugin_enabled = True, plugin_requires = [], plugin_optional = [], plugin_config = [],
     plugin_version = ''1.0.0''\<rparr>]\<rparr>"
  by (rule conjunct1, rule plugin_config_roundtrip [where rp = "\<lambda>_. []" and raw = sample_raw]) code_simp

end
