(* ===== verification/Plugin_Topo.thy ===== *)
theory Plugin_Topo
  imports Plugin_Config "HOL-Library.Multiset"
begin

text \<open>
  The load order of plugins: \<open>topological_sort\<close> of \<open>core/lifecycle/topo.py\<close>, Kahn's algorithm
  over the \<open>requires\<close> of the enabled entries, and its correctness.

  \<open>MissingDependencyError\<close> and \<open>CircularDependencyError\<close> are value errors. The subscripts
  \<open>edges[...]\<close>, \<open>in_degree[...]\<close> and \<open>id_map[...]\<close> of the loop always find their key, since
  only identifiers of entries enter the queue; the model reads a missing one as empty.
\<close>

section \<open>The algorithm\<close>

datatype topo_error = Missing_dependency string string | Circular_dependency "string list"

definition enabled_entries :: "plugin_entry list \<Rightarrow> plugin_entry list" where
  "enabled_entries ps = filter plugin_enabled ps"

definition id_map :: "plugin_entry list \<Rightarrow> plugin_entry dict" where
  "id_map es = dict_of (map (\<lambda>e. (plugin_id e, e)) es)"

text \<open>One requirement of the plugin \<open>pid\<close>: an edge and a count.\<close>

definition add_edge ::
  "string \<Rightarrow> string \<Rightarrow> string list dict \<times> int dict \<Rightarrow> string list dict \<times> int dict" where
  "add_edge pid required g = (case g of (edges, deg) \<Rightarrow>
     (dset edges required (dget_or edges required [] @ [pid]),
      dset deg pid (dget_or deg pid 0 + 1)))"

fun add_requires ::
  "plugin_entry dict \<Rightarrow> string \<Rightarrow> string list \<Rightarrow> string list dict \<times> int dict
    \<Rightarrow> topo_error + string list dict \<times> int dict" where
  "add_requires ids pid [] g = Inr g"
| "add_requires ids pid (r # rs) g =
     (if dget ids r = None then Inl (Missing_dependency pid r)
      else add_requires ids pid rs (add_edge pid r g))"

fun build_graph ::
  "plugin_entry dict \<Rightarrow> plugin_entry list \<Rightarrow> string list dict \<times> int dict
    \<Rightarrow> topo_error + string list dict \<times> int dict" where
  "build_graph ids [] g = Inr g"
| "build_graph ids (e # es) g =
     and_then (add_requires ids (plugin_id e) (plugin_requires e) g) (build_graph ids es)"

text \<open>Removing a plugin lowers the count of its dependents; one that reaches zero is queued.\<close>

fun relax :: "string list \<Rightarrow> int dict \<times> string list \<Rightarrow> int dict \<times> string list" where
  "relax [] g = g"
| "relax (d # ds) (deg, queue) =
     (let n = dget_or deg d 0 - 1
      in relax ds (dset deg d n, if n = 0 then queue @ [d] else queue))"

definition open_count :: "int dict \<Rightarrow> nat" where
  "open_count deg = card {x. 0 < dget_or deg x 0}"

lemma finite_open: "finite {x. 0 < dget_or (deg :: int dict) x 0}"
proof (rule finite_subset [OF _ finite_dom_map_of [of deg]], rule subsetI)
  fix x
  assume "x \<in> {x. 0 < dget_or deg x 0}"
  then show "x \<in> dom (map_of deg)" by (cases "dget deg x") (simp_all add: dget_or_def domIff)
qed

lemma open_count_drop:
  assumes "dget_or deg d 0 = 1"
  shows "open_count (dset deg d 0) < open_count deg"
proof -
  have "{x. 0 < dget_or (dset deg d 0) x 0} = {x. 0 < dget_or deg x 0} - {d}"
    by (simp add: set_eq_iff)
  with card_Diff1_less [OF finite_open, of d deg] assms show ?thesis by (simp add: open_count_def)
qed

lemma open_count_mono:
  assumes "n \<le> dget_or deg d 0"
  shows "open_count (dset deg d n) \<le> open_count deg"
  unfolding open_count_def
proof (rule card_mono [OF finite_open], rule subsetI)
  fix x
  assume "x \<in> {x. 0 < dget_or (dset deg d n) x 0}"
  with assms show "x \<in> {x. 0 < dget_or deg x 0}" by (simp split: if_split_asm)
qed

lemma relax_measure:
  "relax ds (deg, queue) = (deg', queue') \<Longrightarrow>
     open_count deg' + length queue' \<le> open_count deg + length queue"
proof (induction ds arbitrary: deg queue)
  case (Cons d ds)
  let ?n = "dget_or deg d 0 - 1"
  from Cons.IH [OF Cons.prems [simplified Let_def, simplified]]
  have "open_count deg' + length queue'
    \<le> open_count (dset deg d ?n) + length (if ?n = 0 then queue @ [d] else queue)" by simp
  also have "\<dots> \<le> open_count deg + length queue"
  proof (cases "?n = 0")
    case True
    then have "dget_or deg d 0 = 1" by simp
    from open_count_drop [OF this] True show ?thesis by simp
  next
    case False
    then show ?thesis using open_count_mono [of ?n deg d] by simp
  qed
  finally show ?case .
qed simp

text \<open>The loop over the queue.\<close>

function kahn ::
  "plugin_entry dict \<Rightarrow> string list dict \<Rightarrow> int dict \<Rightarrow> string list \<Rightarrow> plugin_entry list
    \<Rightarrow> int dict \<times> plugin_entry list" where
  "kahn ids edges deg [] result = (deg, result)"
| "kahn ids edges deg (pid # queue) result =
     (case relax (dget_or edges pid []) (deg, queue) of (deg', queue') \<Rightarrow>
        kahn ids edges deg' queue'
          (case dget ids pid of Some e \<Rightarrow> result @ [e] | None \<Rightarrow> result))"
  by pat_completeness auto

termination kahn
proof (relation "measure (\<lambda>(ids, edges, deg, queue, result). open_count deg + length queue)", goal_cases)
  case 1
  show ?case by simp
next
  case (2 ids edges deg pid queue result deg' queue')
  then have "open_count deg' + length queue' \<le> open_count deg + length queue"
    using relax_measure [of "dget_or edges pid []" deg queue] by simp
  then show ?case by simp
qed

definition topological_sort :: "plugin_entry list \<Rightarrow> topo_error + plugin_entry list" where
  "topological_sort ps =
     (let entries = enabled_entries ps;
          ids = id_map entries;
          deg0 = dict_of (map (\<lambda>e. (plugin_id e, 0)) entries);
          edges0 = dict_of (map (\<lambda>e. (plugin_id e, [])) entries)
      in and_then (build_graph ids entries (edges0, deg0)) (\<lambda>(edges, deg).
           let queue = filter (\<lambda>pid. dget_or deg pid 0 = 0) (map plugin_id entries)
           in (case kahn ids edges deg queue [] of (deg', result) \<Rightarrow>
             if length result \<noteq> length entries
             then Inl (Circular_dependency (map fst (filter (\<lambda>(k, n). n \<noteq> 0) deg')))
             else Inr result)))"

section \<open>Building the graph\<close>

definition add_entry ::
  "plugin_entry \<Rightarrow> string list dict \<times> int dict \<Rightarrow> string list dict \<times> int dict" where
  "add_entry e = fold (add_edge (plugin_id e)) (plugin_requires e)"

definition requires_met :: "plugin_entry dict \<Rightarrow> plugin_entry \<Rightarrow> bool" where
  "requires_met ids e = list_all (\<lambda>r. dget ids r \<noteq> None) (plugin_requires e)"

lemma add_requires_eq:
  "if list_all (\<lambda>r. dget ids r \<noteq> None) rs
   then add_requires ids pid rs g = Inr (fold (add_edge pid) rs g)
   else \<exists>r \<in> set rs. dget ids r = None \<and> add_requires ids pid rs g = Inl (Missing_dependency pid r)"
  by (induction rs arbitrary: g) (auto split: if_splits)

lemma build_graph_eq:
  "if list_all (requires_met ids) es then build_graph ids es g = Inr (fold add_entry es g)
   else \<exists>e \<in> set es. \<exists>r \<in> set (plugin_requires e). dget ids r = None
          \<and> build_graph ids es g = Inl (Missing_dependency (plugin_id e) r)"
proof (induction es arbitrary: g)
  case (Cons e es)
  show ?case
  proof (cases "requires_met ids e")
    case True
    then have "add_requires ids (plugin_id e) (plugin_requires e) g = Inr (add_entry e g)"
      using add_requires_eq [of ids "plugin_requires e" "plugin_id e" g]
      by (simp add: requires_met_def add_entry_def)
    with True Cons.IH [of "add_entry e g"] show ?thesis by (auto split: if_splits)
  next
    case False
    then show ?thesis
      using add_requires_eq [of ids "plugin_requires e" "plugin_id e" g]
      by (auto simp: requires_met_def)
  qed
qed simp

lemma fold_add_edge:
  "dget_or (fst (fold (add_edge pid) rs g)) r [] = dget_or (fst g) r [] @ replicate (count_list rs r) pid
   \<and> dget_or (snd (fold (add_edge pid) rs g)) x 0
     = dget_or (snd g) x 0 + (if x = pid then int (length rs) else 0)"
proof (induction rs arbitrary: g)
  case (Cons a rs)
  show ?case
    using Cons.IH [of "add_edge pid a g"]
    by (cases g) (auto simp: add_edge_def replicate_app_Cons_same)
qed simp

text \<open>How often the plugin \<open>x\<close> of \<open>es\<close> requires \<open>r\<close>, and how many requirements it has.\<close>

definition need :: "plugin_entry list \<Rightarrow> string \<Rightarrow> string list" where
  "need es x = concat (map plugin_requires (filter (\<lambda>e. plugin_id e = x) es))"

lemma count_list_replicate [simp]: "count_list (replicate n x) y = (if x = y then n else 0)"
  by (cases "x = y"; induction n) simp_all

lemma fold_add_entry:
  "count_list (dget_or (fst (fold add_entry es g)) r []) x
     = count_list (dget_or (fst g) r []) x + count_list (need es x) r
   \<and> dget_or (snd (fold add_entry es g)) x 0 = dget_or (snd g) x 0 + int (length (need es x))"
proof (induction es arbitrary: g)
  case Nil
  then show ?case by (simp add: need_def)
next
  case (Cons e es)
  have "count_list (dget_or (fst (add_entry e g)) r []) x = count_list (dget_or (fst g) r []) x
      + (if plugin_id e = x then count_list (plugin_requires e) r else 0)"
    "dget_or (snd (add_entry e g)) x 0 = dget_or (snd g) x 0
      + (if x = plugin_id e then int (length (plugin_requires e)) else 0)"
    using fold_add_edge [of "plugin_id e" "plugin_requires e" g r x] by (simp_all add: add_entry_def)
  with Cons.IH [of "add_entry e g"] show ?case by (auto simp: need_def)
qed

section \<open>The loop\<close>

lemma relax_effect:
  assumes "\<And>x. x \<in> set ds \<Longrightarrow> int (count_list ds x) \<le> dget_or deg x 0"
  shows "\<exists>new. snd (relax ds (deg, queue)) = queue @ new \<and> distinct new
      \<and> set new = {x \<in> set ds. dget_or deg x 0 = int (count_list ds x)}
      \<and> (\<forall>x. dget_or (fst (relax ds (deg, queue))) x 0 = dget_or deg x 0 - int (count_list ds x))"
  using assms
proof (induction ds arbitrary: deg queue)
  case (Cons d ds)
  let ?n = "dget_or deg d 0 - 1"
  let ?deg = "dset deg d ?n"
  let ?q = "if ?n = 0 then queue @ [d] else queue"
  have le: "int (count_list ds x) \<le> dget_or ?deg x 0" if "x \<in> set ds" for x
    using Cons.prems [of x] that by (auto split: if_splits)
  have step: "relax (d # ds) (deg, queue) = relax ds (?deg, ?q)" by (simp add: Let_def)
  from Cons.IH [OF le, of ?q] obtain new where new:
    "snd (relax ds (?deg, ?q)) = ?q @ new" "distinct new"
    "set new = {x \<in> set ds. dget_or ?deg x 0 = int (count_list ds x)}"
    "\<forall>x. dget_or (fst (relax ds (?deg, ?q))) x 0 = dget_or ?deg x 0 - int (count_list ds x)"
    by blast
  have d: "int (count_list ds d) \<le> ?n" using Cons.prems [of d] by simp
  have deg: "dget_or (fst (relax (d # ds) (deg, queue))) x 0
      = dget_or deg x 0 - int (count_list (d # ds) x)" for x
    unfolding step using new(4) by simp
  have off: "x \<in> set new \<longleftrightarrow> x \<in> set ds \<and> dget_or deg x 0 = int (count_list (d # ds) x)" if "x \<noteq> d" for x
    using that by (simp add: new(3))
  show ?case
  proof (cases "?n = 0")
    case True
    with d have out: "d \<notin> set ds" by (simp add: count_list_0_iff)
    then have "d \<notin> set new" by (simp add: new(3))
    moreover have "set (d # new) = {x \<in> set (d # ds). dget_or deg x 0 = int (count_list (d # ds) x)}"
    proof (rule set_eqI)
      fix x
      show "x \<in> set (d # new) \<longleftrightarrow> x \<in> {x \<in> set (d # ds). dget_or deg x 0 = int (count_list (d # ds) x)}"
        using off [of x] out True by (cases "x = d") (simp_all add: count_list_0_iff)
    qed
    moreover have "snd (relax (d # ds) (deg, queue)) = queue @ d # new"
      unfolding step using new(1) True by simp
    ultimately show ?thesis using new(2) deg by (intro exI [of _ "d # new"]) simp
  next
    case False
    have "set new = {x \<in> set (d # ds). dget_or deg x 0 = int (count_list (d # ds) x)}"
    proof (rule set_eqI)
      fix x
      show "x \<in> set new \<longleftrightarrow> x \<in> {x \<in> set (d # ds). dget_or deg x 0 = int (count_list (d # ds) x)}"
      proof (cases "x = d")
        case True
        have "d \<in> set ds" if "?n = int (count_list ds d)" using that False by (auto simp: count_list_0_iff)
        then show ?thesis using True by (auto simp: new(3))
      qed (simp add: off)
    qed
    moreover have "snd (relax (d # ds) (deg, queue)) = queue @ new"
      unfolding step using new(1) False by simp
    ultimately show ?thesis using new(2) deg by (intro exI [of _ new]) simp
  qed
qed simp

lemma filter_count:
  "p \<notin> D \<Longrightarrow> length (filter (\<lambda>r. r \<notin> insert p D) xs) + count_list xs p = length (filter (\<lambda>r. r \<notin> D) xs)"
  by (induction xs) auto

text \<open>Everything a plugin requires is loaded before it.\<close>

definition ordered_by :: "(string \<Rightarrow> string list) \<Rightarrow> string list \<Rightarrow> bool" where
  "ordered_by R xs = (\<forall>i < length xs. set (R (xs ! i)) \<subseteq> set (take i xs))"

lemma ordered_by_snoc:
  "ordered_by R xs \<Longrightarrow> set (R x) \<subseteq> set xs \<Longrightarrow> ordered_by R (xs @ [x])"
  by (auto simp: ordered_by_def nth_append less_Suc_eq)

definition kahn_inv ::
  "string set \<Rightarrow> (string \<Rightarrow> string list) \<Rightarrow> int dict \<Rightarrow> string list \<Rightarrow> string list \<Rightarrow> bool" where
  "kahn_inv I R deg queue xs = (distinct (xs @ queue)
     \<and> set (xs @ queue) = {x \<in> I. dget_or deg x 0 = 0}
     \<and> (\<forall>x \<in> I. dget_or deg x 0 = int (length (filter (\<lambda>r. r \<notin> set xs) (R x))))
     \<and> ordered_by R xs)"

definition edges_ok :: "string set \<Rightarrow> (string \<Rightarrow> string list) \<Rightarrow> string list dict \<Rightarrow> bool" where
  "edges_ok I R edges = (\<forall>p. set (dget_or edges p []) \<subseteq> I
     \<and> (\<forall>x \<in> I. count_list (dget_or edges p []) x = count_list (R x) p))"

lemma kahn_step:
  assumes inv: "kahn_inv I R deg (p # queue) xs" and edges: "edges_ok I R edges"
  shows "kahn_inv I R (fst (relax (dget_or edges p []) (deg, queue)))
    (snd (relax (dget_or edges p []) (deg, queue))) (xs @ [p])"
proof -
  let ?ds = "dget_or edges p []"
  let ?r = "relax ?ds (deg, queue)"
  have p: "p \<in> I" "p \<notin> set xs" "dget_or deg p 0 = 0" "p \<notin> set queue"
    using inv by (auto simp: kahn_inv_def)
  have deg: "dget_or deg x 0 = int (length (filter (\<lambda>r. r \<notin> set xs) (R x)))" if "x \<in> I" for x
    using inv that by (simp add: kahn_inv_def)
  have cnt: "count_list ?ds x = count_list (R x) p" if "x \<in> I" for x
    using edges that by (simp add: edges_ok_def)
  have I: "set ?ds \<subseteq> I" using edges by (simp add: edges_ok_def)
  have split: "length (filter (\<lambda>r. r \<notin> insert p (set xs)) (R x)) + count_list (R x) p
      = length (filter (\<lambda>r. r \<notin> set xs) (R x))" for x
    by (rule filter_count [OF p(2)])
  have le: "int (count_list ?ds x) \<le> dget_or deg x 0" if "x \<in> set ?ds" for x
    using that I split [of x] by (auto simp: deg cnt)
  obtain new where new: "snd ?r = queue @ new" "distinct new"
    "set new = {x \<in> set ?ds. dget_or deg x 0 = int (count_list ?ds x)}"
    "\<And>x. dget_or (fst ?r) x 0 = dget_or deg x 0 - int (count_list ?ds x)"
    using relax_effect [OF le, of queue] by blast
  have deg': "dget_or (fst ?r) x 0 = int (length (filter (\<lambda>r. r \<notin> set (xs @ [p])) (R x)))"
    if "x \<in> I" for x
    using split [of x] by (simp add: new(4) deg [OF that] cnt [OF that])
  have fresh: "set new \<inter> set (xs @ p # queue) = {}"
  proof -
    have "0 < dget_or deg x 0" if "x \<in> set new" for x
      using that by (auto simp: new(3)) (metis count_list_0_iff not_gr_zero)
    moreover have "dget_or deg x 0 = 0" if "x \<in> set (xs @ p # queue)" for x
      using inv that by (auto simp: kahn_inv_def)
    ultimately show ?thesis by fastforce
  qed
  have zero: "set (xs @ [p] @ queue @ new) = {x \<in> I. dget_or (fst ?r) x 0 = 0}"
  proof (rule set_eqI)
    fix x
    have "x \<in> set (xs @ p # queue) \<longleftrightarrow> x \<in> I \<and> dget_or deg x 0 = 0"
      using inv by (auto simp: kahn_inv_def)
    moreover have "x \<in> set new \<longleftrightarrow> x \<in> I \<and> x \<in> set ?ds \<and> dget_or deg x 0 = int (count_list ?ds x)"
      using I by (auto simp: new(3))
    moreover have "dget_or deg x 0 = 0 \<and> x \<in> I \<Longrightarrow> count_list ?ds x = 0"
      using split [of x] by (auto simp: deg cnt)
    moreover have "x \<notin> set ?ds \<Longrightarrow> count_list ?ds x = 0" by (simp add: count_list_0_iff)
    ultimately show "x \<in> set (xs @ [p] @ queue @ new) \<longleftrightarrow> x \<in> {x \<in> I. dget_or (fst ?r) x 0 = 0}"
      by (auto simp: new(4))
  qed
  have "set (R p) \<subseteq> set xs"
    using deg [OF p(1)] p(3) by (auto simp: filter_empty_conv)
  then have "ordered_by R (xs @ [p])" using inv by (simp add: kahn_inv_def ordered_by_snoc)
  moreover have "distinct (xs @ [p] @ queue @ new)"
    using inv fresh new(2) by (auto simp: kahn_inv_def)
  ultimately show ?thesis using zero deg' by (simp add: kahn_inv_def new(1))
qed

lemma kahn_correct:
  "edges_ok I R edges \<Longrightarrow> (\<And>x. x \<in> I \<Longrightarrow> \<exists>e. dget ids x = Some e \<and> plugin_id e = x \<and> e \<in> E) \<Longrightarrow>
   kahn_inv I R deg queue (map plugin_id result) \<Longrightarrow> set result \<subseteq> E \<Longrightarrow>
    kahn_inv I R (fst (kahn ids edges deg queue result)) [] (map plugin_id (snd (kahn ids edges deg queue result)))
    \<and> set (snd (kahn ids edges deg queue result)) \<subseteq> E"
proof (induction ids edges deg queue result rule: kahn.induct)
  case (2 ids edges deg pid queue result)
  let ?r = "relax (dget_or edges pid []) (deg, queue)"
  obtain deg' queue' where r: "?r = (deg', queue')" by fastforce
  have "pid \<in> I" using "2.prems"(3) by (auto simp: kahn_inv_def)
  with "2.prems"(2) obtain e where e: "dget ids pid = Some e" "plugin_id e = pid" "e \<in> E" by blast
  have inv: "kahn_inv I R deg' queue' (map plugin_id (result @ [e]))"
    using kahn_step [OF "2.prems"(3,1)] by (simp add: r e(2))
  show ?case
    using "2.IH" [OF r [symmetric], unfolded e, simplified] "2.prems" inv e r by simp
qed simp

section \<open>Correctness\<close>

text \<open>The specification: the enabled plugins, their requirements among themselves, and load orders.\<close>

definition enabled_ids :: "plugin_entry list \<Rightarrow> string set" where
  "enabled_ids ps = plugin_id ` set (enabled_entries ps)"

definition requires_present :: "plugin_entry list \<Rightarrow> bool" where
  "requires_present ps = (\<forall>e \<in> set (enabled_entries ps). set (plugin_requires e) \<subseteq> enabled_ids ps)"

definition requires_edges :: "plugin_entry list \<Rightarrow> (string \<times> string) set" where
  "requires_edges ps = {(plugin_id e, r) | e r. e \<in> set (enabled_entries ps) \<and> r \<in> set (plugin_requires e)}"

definition load_order :: "plugin_entry list \<Rightarrow> bool" where
  "load_order es = (\<forall>i < length es. set (plugin_requires (es ! i)) \<subseteq> plugin_id ` set (take i es))"

lemma id_map_distinct:
  "distinct (map plugin_id es) \<Longrightarrow> id_map es = map (\<lambda>e. (plugin_id e, e)) es"
  by (simp add: id_map_def dict_of_distinct comp_def)

lemma id_map_lookup:
  assumes "distinct (map plugin_id es)"
  shows "dget (id_map es) k = None \<longleftrightarrow> k \<notin> plugin_id ` set es"
    and "e \<in> set es \<Longrightarrow> dget (id_map es) (plugin_id e) = Some e"
proof -
  have keys: "dkeys (id_map es) = map plugin_id es"
    by (simp add: id_map_distinct [OF assms] comp_def)
  then show "dget (id_map es) k = None \<longleftrightarrow> k \<notin> plugin_id ` set es"
    by (simp add: dget_None_iff)
  show "e \<in> set es \<Longrightarrow> dget (id_map es) (plugin_id e) = Some e"
    using assms keys by (intro map_of_is_SomeI) (auto simp: id_map_distinct comp_def)
qed

lemma need_entry:
  assumes "distinct (map plugin_id es)" and "e \<in> set es"
  shows "need es (plugin_id e) = plugin_requires e"
  using assms
proof (induction es)
  case (Cons a es)
  have none: "filter (\<lambda>b. plugin_id b = plugin_id a) es = []"
    using Cons.prems(1) by (auto simp: filter_empty_conv rev_image_eqI)
  show ?case
  proof (cases "e = a")
    case True
    then show ?thesis by (simp add: need_def none)
  next
    case False
    then have "e \<in> set es" "plugin_id a \<noteq> plugin_id e"
      using Cons.prems by (auto simp: rev_image_eqI)
    with Cons show ?thesis by (simp add: need_def)
  qed
qed simp

lemma need_outside: "x \<notin> plugin_id ` set es \<Longrightarrow> need es x = []"
  by (auto simp: need_def filter_empty_conv)

lemma dget_or_const: "dget_or (map (\<lambda>e. (f e, c)) es) k c = c"
  by (induction es) (simp_all add: dget_or_def)

lemma built_graph:
  assumes "distinct (map plugin_id es)" and "g = fold add_entry es
      (dict_of (map (\<lambda>e. (plugin_id e, [])) es), dict_of (map (\<lambda>e. (plugin_id e, 0)) es))"
  shows "dget_or (snd g) x 0 = int (length (need es x))"
    and "edges_ok (plugin_id ` set es) (need es) (fst g)"
proof -
  have init: "dict_of (map (\<lambda>e. (plugin_id e, c)) es) = map (\<lambda>e. (plugin_id e, c)) es" for c :: 'c
    using assms(1) by (simp add: dict_of_distinct comp_def)
  show "dget_or (snd g) x 0 = int (length (need es x))"
    by (simp add: assms(2) fold_add_entry init dget_or_const)
  have count: "count_list (dget_or (fst g) p []) x = count_list (need es x) p" for p x
    by (simp add: assms(2) fold_add_entry init dget_or_const)
  show "edges_ok (plugin_id ` set es) (need es) (fst g)"
  proof -
    have "x \<in> plugin_id ` set es" if "x \<in> set (dget_or (fst g) p [])" for p x
      using that count [of p x] need_outside [of x es] by (metis count_list.simps(1) count_list_0_iff)
    with count show ?thesis by (auto simp: edges_ok_def)
  qed
qed

text \<open>An endless chain inside a finite set is a cycle.\<close>

lemma endless_cycle:
  assumes "finite S" and "S \<noteq> {}" and "\<And>x. x \<in> S \<Longrightarrow> \<exists>y \<in> S. (x, y) \<in> E"
  shows "\<not> acyclic E"
proof
  assume "acyclic E"
  then have "acyclic (E \<inter> S \<times> S)" by (rule acyclic_subset) blast
  moreover have "finite (E \<inter> S \<times> S)" using assms(1) by simp
  ultimately have "wf ((E \<inter> S \<times> S)\<inverse>)" by (rule finite_acyclic_wf_converse [rotated])
  then obtain z where "z \<in> S" "\<And>y. (y, z) \<in> (E \<inter> S \<times> S)\<inverse> \<Longrightarrow> y \<notin> S"
    using assms(2) by (metis ex_in_conv wfE_min)
  with assms(3) [of z] show False by blast
qed

text \<open>A load order of all plugins excludes cycles.\<close>

lemma load_order_acyclic:
  assumes "load_order es" and "distinct (map plugin_id es)" and "set es = set (enabled_entries ps)"
  shows "acyclic (requires_edges ps)"
proof -
  define pos where "pos x = (LEAST i. i < length es \<and> plugin_id (es ! i) = x)" for x
  have pos: "pos (plugin_id (es ! i)) = i" if "i < length es" for i
    unfolding pos_def
  proof (rule Least_equality)
    fix j
    assume "j < length es \<and> plugin_id (es ! j) = plugin_id (es ! i)"
    with that assms(2) show "i \<le> j" by (simp add: distinct_conv_nth) (metis nat_le_linear order_refl)
  qed (use that in simp)
  have "(requires_edges ps)\<inverse> \<subseteq> measure pos"
  proof (clarsimp simp: requires_edges_def)
    fix e r
    assume "e \<in> set (enabled_entries ps)" and r: "r \<in> set (plugin_requires e)"
    then have "e \<in> set es" using assms(3) by simp
    then obtain i where i: "i < length es" "es ! i = e" by (metis in_set_conv_nth)
    with assms(1) r have "r \<in> plugin_id ` set (take i es)" by (auto simp: load_order_def)
    then obtain j where "j < i" "plugin_id (es ! j) = r"
      using i by (auto simp: in_set_conv_nth)
    with pos [of j] pos [of i] i show "pos r < pos (plugin_id e)" by auto
  qed
  then show ?thesis using wf_acyclic [OF wf_subset [OF wf_measure]] by (metis acyclic_converse)
qed

lemma topological_sort_met:
  assumes dist: "distinct (map plugin_id (enabled_entries ps))" and met: "requires_present ps"
  shows "if acyclic (requires_edges ps)
    then \<exists>es. topological_sort ps = Inr es \<and> mset es = mset (enabled_entries ps) \<and> load_order es
    else \<exists>xs. topological_sort ps = Inl (Circular_dependency xs)"
proof -
  let ?es = "enabled_entries ps"
  let ?I = "plugin_id ` set ?es"
  define g where "g = fold add_entry ?es
      (dict_of (map (\<lambda>e. (plugin_id e, [])) ?es), dict_of (map (\<lambda>e. (plugin_id e, 0)) ?es))"
  have "list_all (requires_met (id_map ?es)) ?es"
    using met by (auto simp: list_all_iff requires_met_def requires_present_def enabled_ids_def
        id_map_lookup(1) [OF dist])
  then have built: "build_graph (id_map ?es) ?es (dict_of (map (\<lambda>e. (plugin_id e, [])) ?es),
      dict_of (map (\<lambda>e. (plugin_id e, 0)) ?es)) = Inr g"
    using build_graph_eq [of "id_map ?es" ?es] by (simp add: g_def)
  note deg = built_graph(1) [OF dist g_def] and edges = built_graph(2) [OF dist g_def]
  define queue where "queue = filter (\<lambda>k. dget_or (snd g) k 0 = 0) (map plugin_id ?es)"
  obtain deg' res where k: "kahn (id_map ?es) (fst g) (snd g) queue [] = (deg', res)" by fastforce
  have start: "kahn_inv ?I (need ?es) (snd g) queue (map plugin_id [])"
    using dist by (auto simp: kahn_inv_def queue_def deg ordered_by_def)
  have ids: "\<exists>e. dget (id_map ?es) x = Some e \<and> plugin_id e = x \<and> e \<in> set ?es" if "x \<in> ?I" for x
    using that id_map_lookup(2) [OF dist] by blast
  have inv: "kahn_inv ?I (need ?es) deg' [] (map plugin_id res)" and sub: "set res \<subseteq> set ?es"
    using kahn_correct [OF edges ids start, simplified k] by simp_all
  have dres: "distinct (map plugin_id res)" using inv by (simp add: kahn_inv_def)
  have order: "load_order res"
  proof (unfold load_order_def, intro allI impI)
    fix i
    assume i: "i < length res"
    with sub have "res ! i \<in> set ?es" by auto
    then have "need ?es (plugin_id (res ! i)) = plugin_requires (res ! i)" by (rule need_entry [OF dist])
    with inv i show "set (plugin_requires (res ! i)) \<subseteq> plugin_id ` set (take i res)"
      by (auto simp: kahn_inv_def ordered_by_def take_map image_subset_iff subset_iff)
  qed
  have sort: "topological_sort ps = (if length res \<noteq> length ?es
      then Inl (Circular_dependency (map fst (filter (\<lambda>(k, n). n \<noteq> 0) deg'))) else Inr res)"
    using built k by (simp add: topological_sort_def Let_def queue_def case_prod_beta)
  show ?thesis
  proof (cases "length res = length ?es")
    case True
    have "distinct res" "distinct ?es" using dres dist by (simp_all add: distinct_map)
    with True sub have "mset res = mset ?es"
      by (metis card_subset_eq distinct_card finite_set set_eq_iff_mset_eq_distinct)
    moreover have "acyclic (requires_edges ps)"
      by (rule load_order_acyclic [OF order dres]) (metis calculation set_mset_mset)
    ultimately show ?thesis using order True by (simp add: sort)
  next
    case False
    let ?S = "?I - set (map plugin_id res)"
    have "?S \<noteq> {}"
    proof
      assume "?S = {}"
      then have "plugin_id ` set res = ?I" using sub by auto
      then have "card (plugin_id ` set res) = card ?I" by simp
      then show False using False dres dist
        by (metis distinct_card length_map list.set_map)
    qed
    moreover have "\<exists>y \<in> ?S. (x, y) \<in> requires_edges ps" if x: "x \<in> ?S" for x
    proof -
      from x obtain e where e: "e \<in> set ?es" "plugin_id e = x" by auto
      have "dget_or deg' x 0 \<noteq> 0" using inv x by (auto simp: kahn_inv_def)
      then have "filter (\<lambda>r. r \<notin> set (map plugin_id res)) (need ?es x) \<noteq> []"
        using inv x by (auto simp: kahn_inv_def)
      then obtain r where r: "r \<in> set (need ?es x)" "r \<notin> set (map plugin_id res)"
        by (auto simp: filter_empty_conv)
      then have req: "r \<in> set (plugin_requires e)" using need_entry [OF dist e(1)] e(2) by simp
      then have "r \<in> ?S" using r(2) e(1) met by (auto simp: requires_present_def enabled_ids_def)
      moreover have "(x, r) \<in> requires_edges ps" using req e by (auto simp: requires_edges_def)
      ultimately show ?thesis by blast
    qed
    ultimately have "\<not> acyclic (requires_edges ps)" by (intro endless_cycle [of ?S]) simp_all
    with False show ?thesis by (simp add: sort)
  qed
qed

lemma topological_sort_unmet:
  assumes dist: "distinct (map plugin_id (enabled_entries ps))" and "\<not> requires_present ps"
  shows "\<exists>e \<in> set (enabled_entries ps). \<exists>r \<in> set (plugin_requires e).
    r \<notin> enabled_ids ps \<and> topological_sort ps = Inl (Missing_dependency (plugin_id e) r)"
proof -
  let ?es = "enabled_entries ps"
  have "\<not> list_all (requires_met (id_map ?es)) ?es"
    using assms(2) by (auto simp: list_all_iff requires_met_def requires_present_def enabled_ids_def
        id_map_lookup(1) [OF dist])
  with build_graph_eq [of "id_map ?es" ?es "(dict_of (map (\<lambda>e. (plugin_id e, [])) ?es),
      dict_of (map (\<lambda>e. (plugin_id e, 0)) ?es))"]
  show ?thesis
    by (auto simp: topological_sort_def Let_def enabled_ids_def id_map_lookup(1) [OF dist])
qed

section \<open>Properties\<close>

text \<open>C10. For plugins with distinct identifiers the sort succeeds exactly when every requirement is
  enabled and there is no cycle, and then it returns all enabled plugins, each once, with
  everything a plugin requires before it.\<close>

theorem topological_sort_correct:
  assumes "distinct (map plugin_id (enabled_entries ps))"
  shows "((\<exists>es. topological_sort ps = Inr es) \<longleftrightarrow> requires_present ps \<and> acyclic (requires_edges ps))
    \<and> (\<forall>es. topological_sort ps = Inr es \<longrightarrow> mset es = mset (enabled_entries ps) \<and> load_order es)"
  using topological_sort_met [OF assms] topological_sort_unmet [OF assms]
  by (cases "requires_present ps"; cases "acyclic (requires_edges ps)") auto

definition sample_plugin :: "string \<Rightarrow> string list \<Rightarrow> plugin_entry" where
  "sample_plugin pid req = \<lparr>plugin_id = pid, plugin_module = ''m'', plugin_enabled = True,
     plugin_requires = req, plugin_optional = [], plugin_config = [], plugin_version = ''1.0.0''\<rparr>"

theorem topological_sort_correct_witness:
  "load_order [sample_plugin ''b'' [], sample_plugin ''a'' [''b'']]"
proof -
  let ?ps = "[sample_plugin ''a'' [''b''], sample_plugin ''b'' []]"
  have "distinct (map plugin_id (enabled_entries ?ps))" by code_simp
  moreover have "topological_sort ?ps = Inr [sample_plugin ''b'' [], sample_plugin ''a'' [''b'']]"
    by code_simp
  ultimately show ?thesis using topological_sort_correct by blast
qed

text \<open>The order ignores \<open>optional_requires\<close>: an optional service that is enabled, with no cycle in
  sight, may be placed after the plugin that would use it.\<close>

theorem optional_service_loaded_late:
  "topological_sort [(sample_plugin ''a'' [])\<lparr>plugin_optional := [''b'']\<rparr>, sample_plugin ''b'' []]
    = Inr [(sample_plugin ''a'' [])\<lparr>plugin_optional := [''b'']\<rparr>, sample_plugin ''b'' []]"
  by code_simp

end
