(* ===== verification/Plugin_Fiber.thy ===== *)
theory Plugin_Fiber
  imports Plugin_Topo
begin

text \<open>
  Plugin resources and lifecycles: \<open>EffectScope\<close> (\<open>core/lifecycle/effect_scope.py\<close>),
  \<open>PluginFiber\<close> (\<open>core/lifecycle/fiber.py\<close>) and \<open>PluginLoader\<close> (\<open>core/lifecycle/loader.py\<close>).

  A disposer is a name \<open>'d\<close>, and \<open>rd\<close> runs it on the world \<open>'w\<close> of the plugins; that it may
  raise has no effect on the scope, which logs and goes on. Disposers do not touch the scope they
  are registered in. An awaited disposer is one step; \<open>stop = Some n\<close> says that the time-out of
  \<open>unload\<close> struck while the \<open>n\<close>-th disposer was awaited, which cancels the disposal there.
  Events appended to the event stream are collected in a list.
\<close>

section \<open>Scopes\<close>

record 'd scope =
  scope_name :: string
  disposers :: "'d list"
  is_disposed :: bool

definition new_scope :: "string \<Rightarrow> 'd scope" where
  "new_scope name = \<lparr>scope_name = name, disposers = [], is_disposed = False\<rparr>"

text \<open>The last \<open>n\<close> registered disposers, the newest first.\<close>

definition run_disposers :: "('d \<Rightarrow> 'w \<Rightarrow> 'w) \<Rightarrow> 'd list \<Rightarrow> 'w \<Rightarrow> 'w" where
  "run_disposers rd ds w = fold rd (rev ds) w"

definition ensure_open :: "'d scope \<Rightarrow> exn + unit" where
  "ensure_open sc = (if is_disposed sc then Inl (Exn RuntimeError ''EffectScope already disposed'') else Inr ())"

text \<open>\<open>setup\<close> returns its disposer, none, or an exception, which rolls the scope back.\<close>

definition scope_add ::
  "('d \<Rightarrow> 'w \<Rightarrow> 'w) \<Rightarrow> ('w \<Rightarrow> (exn + 'd option) \<times> 'w) \<Rightarrow> 'd scope \<Rightarrow> 'w
    \<Rightarrow> (exn + unit) \<times> 'd scope \<times> 'w" where
  "scope_add rd setup sc w = (case ensure_open sc of
     Inl e \<Rightarrow> (Inl e, sc, w)
   | Inr _ \<Rightarrow> (case setup w of
       (Inl e, w') \<Rightarrow> (Inl e, sc\<lparr>disposers := []\<rparr>, run_disposers rd (disposers sc) w')
     | (Inr None, w') \<Rightarrow> (Inr (), sc, w')
     | (Inr (Some d), w') \<Rightarrow> (Inr (), sc\<lparr>disposers := disposers sc @ [d]\<rparr>, w')))"

definition add_disposer :: "'d \<Rightarrow> 'd scope \<Rightarrow> (exn + unit) \<times> 'd scope" where
  "add_disposer d sc = (case ensure_open sc of
     Inl e \<Rightarrow> (Inl e, sc)
   | Inr _ \<Rightarrow> (Inr (), sc\<lparr>disposers := disposers sc @ [d]\<rparr>))"

definition dispose ::
  "('d \<Rightarrow> 'w \<Rightarrow> 'w) \<Rightarrow> nat option \<Rightarrow> 'd scope \<Rightarrow> 'w \<Rightarrow> 'd scope \<times> 'w" where
  "dispose rd stop sc w =
     (if is_disposed sc then (sc, w)
      else (let ds = disposers sc; keep = (case stop of None \<Rightarrow> 0 | Some n \<Rightarrow> length ds - n)
        in (sc\<lparr>is_disposed := True, disposers := take keep ds\<rparr>, run_disposers rd (drop keep ds) w)))"

section \<open>Fibers\<close>

datatype lifecycle_state = Pending | Loading | Active | Failed | Unloading | Disposed

record ('s, 'd, 'w) plugin_definition =
  def_id :: string
  factory :: "pyval dict \<Rightarrow> 's dict \<Rightarrow> 'w \<Rightarrow> (exn + 's) \<times> 'd list \<times> 'w"
  config_schema :: "(pyval dict \<Rightarrow> exn + pyval dict) option"
  def_requires :: "string list"
  def_optional :: "string list"
  def_version :: string

record ('s, 'd, 'w) fiber =
  fiber_def :: "('s, 'd, 'w) plugin_definition"
  fiber_state :: lifecycle_state
  fiber_effect :: "'d scope option"
  fiber_error :: "exn option"
  fiber_service :: "'s option"
  service_snapshot :: "'s dict"

type_synonym event = "string \<times> pyval dict"

definition new_fiber :: "('s, 'd, 'w) plugin_definition \<Rightarrow> ('s, 'd, 'w) fiber" where
  "new_fiber pd = \<lparr>fiber_def = pd, fiber_state = Pending, fiber_effect = None, fiber_error = None,
     fiber_service = None, service_snapshot = []\<rparr>"

definition is_active :: "('s, 'd, 'w) fiber \<Rightarrow> bool" where
  "is_active f = (fiber_state f = Active)"

definition validate_config ::
  "('s, 'd, 'w) plugin_definition \<Rightarrow> pyval dict \<Rightarrow> exn + pyval dict" where
  "validate_config pd cfg = (case config_schema pd of None \<Rightarrow> Inr cfg | Some check \<Rightarrow> check cfg)"

text \<open>The services a plugin sees: those it requires and optionally requires, as far as available.\<close>

definition snapshot_services :: "('s, 'd, 'w) plugin_definition \<Rightarrow> 's dict \<Rightarrow> 's dict" where
  "snapshot_services pd available = dict_of (List.map_filter
     (\<lambda>k. map_option (Pair k) (dget available k)) (def_requires pd @ def_optional pd))"

definition failed_load ::
  "('d \<Rightarrow> 'w \<Rightarrow> 'w) \<Rightarrow> exn \<Rightarrow> ('s, 'd, 'w) fiber \<Rightarrow> 'w
    \<Rightarrow> (exn + 's) \<times> ('s, 'd, 'w) fiber \<times> 'w \<times> event list" where
  "failed_load rd e f w =
     (let ev = (''plugin/failed'', [(''plugin_id'', PStr (def_id (fiber_def f))), (''error'', PStr (exn_text e))]);
          f1 = f\<lparr>fiber_error := Some e, fiber_state := Failed\<rparr>
      in (case fiber_effect f of
            None \<Rightarrow> (Inl e, f1, w, [ev])
          | Some sc \<Rightarrow> (case dispose rd None sc w of (sc', w') \<Rightarrow>
              (Inl e, f1\<lparr>fiber_effect := Some sc'\<rparr>, w', [ev]))))"

text \<open>
  The factory registers disposers in a fresh scope and returns a service or raises; its
  registrations are the middle component of its result.
\<close>

definition load ::
  "('d \<Rightarrow> 'w \<Rightarrow> 'w) \<Rightarrow> pyval dict \<Rightarrow> 's dict \<Rightarrow> ('s, 'd, 'w) fiber \<Rightarrow> 'w
    \<Rightarrow> (exn + 's) \<times> ('s, 'd, 'w) fiber \<times> 'w \<times> event list" where
  "load rd cfg available f w =
     (if fiber_state f \<noteq> Pending \<and> fiber_state f \<noteq> Failed
      then (Inl (Exn RuntimeError ''Cannot load fiber''), f, w, [])
      else
       (let pd = fiber_def f; f1 = f\<lparr>fiber_state := Loading, fiber_error := None\<rparr>
        in (case filter (\<lambda>k. dget available k = None) (def_requires pd) of
              m # _ \<Rightarrow> failed_load rd (Exn RuntimeError (''Missing required service: '' @ m)) f1 w
            | [] \<Rightarrow> (case validate_config pd cfg of
                Inl e \<Rightarrow> failed_load rd e f1 w
              | Inr checked \<Rightarrow>
                  (let services = snapshot_services pd available
                   in (case factory pd checked services w of (r, regs, w') \<Rightarrow>
                     (let f2 = f1\<lparr>service_snapshot := services,
                            fiber_effect := Some ((new_scope (def_id pd))\<lparr>disposers := regs\<rparr>)\<rparr>
                      in (case r of
                           Inl e \<Rightarrow> failed_load rd e f2 w'
                         | Inr s \<Rightarrow> (Inr s, f2\<lparr>fiber_service := Some s, fiber_state := Active\<rparr>, w',
                             [(''plugin/loaded'', [(''plugin_id'', PStr (def_id pd)),
                               (''version'', PStr (def_version pd))])])))))))))"

text \<open>Unloading a fiber without child fibers, which only tests create.\<close>

definition unload ::
  "('d \<Rightarrow> 'w \<Rightarrow> 'w) \<Rightarrow> nat option \<Rightarrow> ('s, 'd, 'w) fiber \<Rightarrow> 'w
    \<Rightarrow> (exn + unit) \<times> ('s, 'd, 'w) fiber \<times> 'w \<times> event list" where
  "unload rd stop f w =
     (if fiber_state f = Disposed then (Inr (), f, w, [])
      else if fiber_state f \<noteq> Active then (Inl (Exn RuntimeError ''Cannot unload fiber''), f, w, [])
      else
       (let pid = [(''plugin_id'', PStr (def_id (fiber_def f)))];
            evs = [(''plugin/unloading'', pid), (''plugin/disposed'', pid)];
            f1 = f\<lparr>service_snapshot := [], fiber_service := None, fiber_state := Disposed\<rparr>
        in (case fiber_effect f of
              None \<Rightarrow> (Inr (), f1, w, evs)
            | Some sc \<Rightarrow> (case dispose rd stop sc w of (sc', w') \<Rightarrow>
                (Inr (), f1\<lparr>fiber_effect := Some sc'\<rparr>, w', evs)))))"

section \<open>The loader\<close>

record ('s, 'd, 'w) loader =
  loader_plugins :: "plugin_entry list"
  fibers :: "('s, 'd, 'w) fiber dict"
  services :: "'s dict"
  loader_events :: "event list"

text \<open>
  \<open>_definition\<close> imports the module of the entry: \<open>imp\<close> gives its factory, or the exception of
  the import, or of a module without \<open>create_plugin\<close>.
\<close>

definition definition_of ::
  "(string \<Rightarrow> exn + (pyval dict \<Rightarrow> 's dict \<Rightarrow> 'w \<Rightarrow> (exn + 's) \<times> 'd list \<times> 'w)) \<Rightarrow> plugin_entry
    \<Rightarrow> exn + ('s, 'd, 'w) plugin_definition" where
  "definition_of imp e = and_then (imp (plugin_module e)) (\<lambda>fac.
     Inr \<lparr>def_id = plugin_id e, factory = fac, config_schema = None,
       def_requires = plugin_requires e, def_optional = plugin_optional e,
       def_version = plugin_version e\<rparr>)"

text \<open>Storing the fiber and, if it loaded, its service; and whether a fiber is active.\<close>

definition store_loaded ::
  "string \<Rightarrow> exn + 's \<Rightarrow> ('s, 'd, 'w) fiber \<Rightarrow> event list \<Rightarrow> ('s, 'd, 'w) loader \<Rightarrow> ('s, 'd, 'w) loader" where
  "store_loaded k r f evs l = l\<lparr>fibers := dset (fibers l) k f,
     services := (case r of Inl _ \<Rightarrow> services l | Inr s \<Rightarrow> dset (services l) k s),
     loader_events := loader_events l @ evs\<rparr>"

definition active_fiber :: "('s, 'd, 'w) loader \<Rightarrow> string \<Rightarrow> bool" where
  "active_fiber l k = (case dget (fibers l) k of None \<Rightarrow> False | Some f \<Rightarrow> is_active f)"

text \<open>The body of the loop of \<open>load_all\<close>: the exception of a load is logged, that of an import is not caught.\<close>

fun load_entries ::
  "('d \<Rightarrow> 'w \<Rightarrow> 'w) \<Rightarrow> (string \<Rightarrow> exn + (pyval dict \<Rightarrow> 's dict \<Rightarrow> 'w \<Rightarrow> (exn + 's) \<times> 'd list \<times> 'w))
    \<Rightarrow> plugin_entry list \<Rightarrow> ('s, 'd, 'w) loader \<Rightarrow> 'w \<Rightarrow> (exn + unit) \<times> ('s, 'd, 'w) loader \<times> 'w" where
  "load_entries rd imp [] l w = (Inr (), l, w)"
| "load_entries rd imp (e # es) l w =
     (if active_fiber l (plugin_id e)
      then load_entries rd imp es l w
      else (case definition_of imp e of
          Inl x \<Rightarrow> (Inl x, l, w)
        | Inr pd \<Rightarrow> (case load rd (plugin_config e) (services l) (new_fiber pd) w of
            (r, f, w', evs) \<Rightarrow>
              load_entries rd imp es (store_loaded (plugin_id e) r f evs l) w')))"

definition topo_exn :: "topo_error \<Rightarrow> exn" where
  "topo_exn e = (case e of
     Missing_dependency p r \<Rightarrow> Exn ValueError (p @ '' requires '' @ r @ '' which is not enabled'')
   | Circular_dependency xs \<Rightarrow> Exn ValueError (''Circular dependency detected: '' @ join '', '' xs))"

definition load_all ::
  "('d \<Rightarrow> 'w \<Rightarrow> 'w) \<Rightarrow> (string \<Rightarrow> exn + (pyval dict \<Rightarrow> 's dict \<Rightarrow> 'w \<Rightarrow> (exn + 's) \<times> 'd list \<times> 'w))
    \<Rightarrow> ('s, 'd, 'w) loader \<Rightarrow> 'w \<Rightarrow> (exn + unit) \<times> ('s, 'd, 'w) loader \<times> 'w" where
  "load_all rd imp l w = (case topological_sort (loader_plugins l) of
     Inl e \<Rightarrow> (Inl (topo_exn e), l, w)
   | Inr es \<Rightarrow> load_entries rd imp es l w)"

text \<open>\<open>unload_all\<close>; \<open>stop\<close> gives the time-out, if any, per plugin.\<close>

fun unload_entries ::
  "('d \<Rightarrow> 'w \<Rightarrow> 'w) \<Rightarrow> (string \<Rightarrow> nat option) \<Rightarrow> plugin_entry list \<Rightarrow> ('s, 'd, 'w) loader \<Rightarrow> 'w
    \<Rightarrow> ('s, 'd, 'w) loader \<times> 'w" where
  "unload_entries rd stop [] l w = (l, w)"
| "unload_entries rd stop (e # es) l w = (case dget (fibers l) (plugin_id e) of
     None \<Rightarrow> unload_entries rd stop es l w
   | Some f \<Rightarrow>
      (if fiber_state f \<noteq> Active then unload_entries rd stop es l w
       else (case unload rd (stop (plugin_id e)) f w of (_, f', w', evs) \<Rightarrow>
         unload_entries rd stop es
           (l\<lparr>fibers := dset (fibers l) (plugin_id e) f', services := dpop (services l) (plugin_id e),
              loader_events := loader_events l @ evs\<rparr>) w')))"

definition unload_all ::
  "('d \<Rightarrow> 'w \<Rightarrow> 'w) \<Rightarrow> (string \<Rightarrow> nat option) \<Rightarrow> ('s, 'd, 'w) loader \<Rightarrow> 'w
    \<Rightarrow> exn + ('s, 'd, 'w) loader \<times> 'w" where
  "unload_all rd stop l w = (case topological_sort (loader_plugins l) of
     Inl e \<Rightarrow> Inl (topo_exn e)
   | Inr es \<Rightarrow> Inr (unload_entries rd stop (rev es) l w))"

definition reload ::
  "('d \<Rightarrow> 'w \<Rightarrow> 'w) \<Rightarrow> (string \<Rightarrow> exn + (pyval dict \<Rightarrow> 's dict \<Rightarrow> 'w \<Rightarrow> (exn + 's) \<times> 'd list \<times> 'w))
    \<Rightarrow> nat option \<Rightarrow> string \<Rightarrow> ('s, 'd, 'w) loader \<Rightarrow> 'w \<Rightarrow> (exn + unit) \<times> ('s, 'd, 'w) loader \<times> 'w" where
  "reload rd imp stop pid l w = (case find (\<lambda>e. plugin_id e = pid) (loader_plugins l) of
     None \<Rightarrow> (Inl (Exn KeyError pid), l, w)
   | Some e \<Rightarrow>
      (if \<not> plugin_enabled e then (Inl (Exn KeyError pid), l, w)
       else
        (let (l1, w1) = (case dget (fibers l) pid of
               None \<Rightarrow> (l, w)
             | Some f \<Rightarrow> if \<not> is_active f then (l, w)
                 else (case unload rd stop f w of (_, f', w', evs) \<Rightarrow>
                   (l\<lparr>fibers := dset (fibers l) pid f', services := dpop (services l) pid,
                      loader_events := loader_events l @ evs\<rparr>, w')))
         in (case definition_of imp e of
              Inl x \<Rightarrow> (Inl x, l1, w1)
            | Inr pd \<Rightarrow> (case load rd (plugin_config e) (services l1) (new_fiber pd) w1 of
                (r, f, w2, evs) \<Rightarrow>
                  (case r of Inl x \<Rightarrow> Inl x | Inr _ \<Rightarrow> Inr (),
                   store_loaded pid r f evs l1, w2))))))"

section \<open>Fibers hold and release their resources\<close>

definition quiet :: "'d scope \<Rightarrow> bool" where
  "quiet sc = (is_disposed sc \<and> disposers sc = [])"

definition fiber_ok :: "('s, 'd, 'w) fiber \<Rightarrow> bool" where
  "fiber_ok f = (fiber_state f \<in> {Pending, Active, Failed, Disposed}
     \<and> (case fiber_effect f of None \<Rightarrow> fiber_state f \<noteq> Active
        | Some sc \<Rightarrow> if fiber_state f = Active then \<not> is_disposed sc else quiet sc)
     \<and> (fiber_state f = Active \<longrightarrow> fiber_service f \<noteq> None))"

lemma dispose_quiet [simp]: "quiet sc \<Longrightarrow> dispose rd stop sc w = (sc, w)"
  by (simp add: quiet_def dispose_def)

lemma dispose_makes_quiet [simp]: "\<not> is_disposed sc \<Longrightarrow> quiet (fst (dispose rd None sc w))"
  by (simp add: quiet_def dispose_def)

lemma dispose_runs_all:
  "\<not> is_disposed sc \<Longrightarrow> snd (dispose rd None sc w) = fold rd (rev (disposers sc)) w"
  by (simp add: dispose_def run_disposers_def)

lemma failed_load_simps [simp]:
  "fst (failed_load rd e f w) = Inl e"
  "fiber_state (fst (snd (failed_load rd e f w))) = Failed"
  "fiber_def (fst (snd (failed_load rd e f w))) = fiber_def f"
  "fiber_error (fst (snd (failed_load rd e f w))) = Some e"
  by (simp_all add: failed_load_def Let_def case_prod_beta split: option.split)

lemma failed_load_effect:
  "fiber_effect (fst (snd (failed_load rd e f w)))
     = map_option (\<lambda>sc. fst (dispose rd None sc w)) (fiber_effect f)"
  "fst (snd (snd (failed_load rd e f w)))
     = (case fiber_effect f of None \<Rightarrow> w | Some sc \<Rightarrow> snd (dispose rd None sc w))"
  by (simp_all add: failed_load_def Let_def case_prod_beta split: option.split)

definition loadable :: "('s, 'd, 'w) fiber \<Rightarrow> 's dict \<Rightarrow> bool" where
  "loadable f available = ((fiber_state f = Pending \<or> fiber_state f = Failed)
     \<and> list_all (\<lambda>k. dget available k \<noteq> None) (def_requires (fiber_def f)))"

text \<open>The three ways a load ends.\<close>

lemma load_cases:
  obtains (refused) "fiber_state f \<noteq> Pending" "fiber_state f \<noteq> Failed"
      "load rd cfg available f w = (Inl (Exn RuntimeError ''Cannot load fiber''), f, w, [])"
  | (early) e where "fiber_state f = Pending \<or> fiber_state f = Failed"
      "loadable f available \<Longrightarrow> validate_config (fiber_def f) cfg = Inl e"
      "load rd cfg available f w
        = failed_load rd e (f\<lparr>fiber_state := Loading, fiber_error := None\<rparr>) w"
  | (late) checked e regs w' f2 where "loadable f available"
      "validate_config (fiber_def f) cfg = Inr checked"
      "factory (fiber_def f) checked (snapshot_services (fiber_def f) available) w = (Inl e, regs, w')"
      "fiber_effect f2 = Some ((new_scope (def_id (fiber_def f)))\<lparr>disposers := regs\<rparr>)"
      "fiber_def f2 = fiber_def f" "load rd cfg available f w = failed_load rd e f2 w'"
  | (active) checked s regs w' f2 evs where "loadable f available"
      "validate_config (fiber_def f) cfg = Inr checked"
      "factory (fiber_def f) checked (snapshot_services (fiber_def f) available) w = (Inr s, regs, w')"
      "fiber_effect f2 = Some ((new_scope (def_id (fiber_def f)))\<lparr>disposers := regs\<rparr>)"
      "fiber_def f2 = fiber_def f" "fiber_state f2 = Active" "fiber_service f2 = Some s"
      "load rd cfg available f w = (Inr s, f2, w', evs)"
proof (cases "fiber_state f \<noteq> Pending \<and> fiber_state f \<noteq> Failed")
  case True
  then show ?thesis by (intro refused) (simp_all add: load_def)
next
  case st: False
  show ?thesis
  proof (cases "filter (\<lambda>k. dget available k = None) (def_requires (fiber_def f))")
    case (Cons m ms)
    then have "\<not> loadable f available"
      by (auto simp: loadable_def list_all_iff)
    with st Cons show ?thesis by (intro early) (auto simp: load_def Let_def)
  next
    case Nil
    then have lo: "loadable f available" using st by (auto simp: loadable_def list_all_iff filter_empty_conv)
    show ?thesis
    proof (cases "validate_config (fiber_def f) cfg")
      case (Inl e)
      with st Nil show ?thesis by (intro early [of e]) (auto simp: load_def Let_def)
    next
      case (Inr checked)
      obtain r regs w' where fac:
        "factory (fiber_def f) checked (snapshot_services (fiber_def f) available) w = (r, regs, w')"
        by (cases "factory (fiber_def f) checked (snapshot_services (fiber_def f) available) w") auto
      let ?f2 = "f\<lparr>fiber_state := Loading, fiber_error := None,
        service_snapshot := snapshot_services (fiber_def f) available,
        fiber_effect := Some ((new_scope (def_id (fiber_def f)))\<lparr>disposers := regs\<rparr>)\<rparr>"
      show ?thesis
      proof (cases r)
        case e: (Inl e)
        show ?thesis
          by (rule late [OF lo Inr fac [unfolded e], of ?f2])
            (use st Nil Inr fac e in \<open>auto simp: load_def Let_def\<close>)
      next
        case s: (Inr s)
        show ?thesis
          by (rule active [OF lo Inr fac [unfolded s], of "?f2\<lparr>fiber_service := Some s, fiber_state := Active\<rparr>"])
            (use st Nil Inr fac s in \<open>auto simp: load_def Let_def\<close>)
      qed
    qed
  qed
qed

lemma load_fiber_ok: "fiber_ok f \<Longrightarrow> fiber_ok (fst (snd (load rd cfg available f w)))"
  by (rule load_cases [of f rd cfg available w])
    (auto simp: fiber_ok_def failed_load_effect new_scope_def split: option.splits)

lemma load_def_same: "fiber_def (fst (snd (load rd cfg available f w))) = fiber_def f"
  by (rule load_cases [of f rd cfg available w]) simp_all

lemma load_result:
  "fst (load rd cfg available f w) = Inr s \<Longrightarrow>
     is_active (fst (snd (load rd cfg available f w))) \<and> loadable f available"
  by (rule load_cases [of f rd cfg available w]) (simp_all add: is_active_def)

lemma load_error:
  "fiber_state f = Pending \<Longrightarrow> fst (load rd cfg available f w) = Inl e \<Longrightarrow>
     fiber_state (fst (snd (load rd cfg available f w))) = Failed"
  by (rule load_cases [of f rd cfg available w]) simp_all

lemma unload_effect:
  assumes "fiber_state f = Active"
  shows "fst (unload rd stop f w) = Inr ()"
    and "fiber_state (fst (snd (unload rd stop f w))) = Disposed"
    and "fiber_def (fst (snd (unload rd stop f w))) = fiber_def f"
  using assms by (simp_all add: unload_def Let_def case_prod_beta split: option.split)

section \<open>The loader keeps services and fibers in step\<close>

text \<open>
  A service is offered exactly for the active fibers, and whatever an active fiber requires is
  offered.
\<close>

definition loader_ok :: "('s, 'd, 'w) loader \<Rightarrow> bool" where
  "loader_ok l = (\<forall>k. dget (services l) k \<noteq> None \<longleftrightarrow> active_fiber l k)"

definition requires_offered :: "('s, 'd, 'w) loader \<Rightarrow> bool" where
  "requires_offered l = (\<forall>k f. dget (fibers l) k = Some f \<longrightarrow> is_active f \<longrightarrow>
     list_all (\<lambda>r. dget (services l) r \<noteq> None) (def_requires (fiber_def f)))"

lemma store_loaded_simps [simp]:
  "active_fiber (store_loaded k r f evs l) x = (if x = k then is_active f else active_fiber l x)"
  "dget (fibers (store_loaded k r f evs l)) x = (if x = k then Some f else dget (fibers l) x)"
  "dget (services (store_loaded k (Inl e) f evs l)) x = dget (services l) x"
  "dget (services (store_loaded k (Inr s) f evs l)) x = (if x = k then Some s else dget (services l) x)"
  by (simp_all add: active_fiber_def store_loaded_def)

lemma store_loaded_ok:
  assumes "loader_ok l" and "requires_offered l" and "\<not> active_fiber l k"
    and "\<And>s. r = Inr s \<Longrightarrow> is_active f
      \<and> list_all (\<lambda>x. dget (services l) x \<noteq> None) (def_requires (fiber_def f))"
    and "\<And>e. r = Inl e \<Longrightarrow> \<not> is_active f"
  shows "loader_ok (store_loaded k r f evs l) \<and> requires_offered (store_loaded k r f evs l)
    \<and> (\<forall>x. dget (services l) x \<noteq> None \<longrightarrow> dget (services (store_loaded k r f evs l)) x \<noteq> None)"
proof (cases r)
  case (Inl e)
  with assms(5) have "\<not> is_active f" by simp
  with assms(1,2,3) Inl show ?thesis by (auto simp: loader_ok_def requires_offered_def)
next
  case (Inr s)
  with assms(4) have f: "is_active f"
    "list_all (\<lambda>x. dget (services l) x \<noteq> None) (def_requires (fiber_def f))" by simp_all
  with assms(1,2) Inr show ?thesis
    by (fastforce simp: loader_ok_def requires_offered_def list_all_iff)
qed

lemma load_store_ok:
  assumes "loader_ok l" and "requires_offered l" and "\<not> active_fiber l k"
    and "load rd cfg (services l) (new_fiber pd) w = (r, f, w', evs)"
  shows "loader_ok (store_loaded k r f evs l) \<and> requires_offered (store_loaded k r f evs l)
    \<and> (\<forall>x. dget (services l) x \<noteq> None \<longrightarrow> dget (services (store_loaded k r f evs l)) x \<noteq> None)"
proof (rule store_loaded_ok [OF assms(1-3)])
  show "is_active f \<and> list_all (\<lambda>x. dget (services l) x \<noteq> None) (def_requires (fiber_def f))"
    if "r = Inr s" for s
    using load_result [of rd cfg "services l" "new_fiber pd" w s]
      load_def_same [of rd cfg "services l" "new_fiber pd" w] that assms(4)
    by (simp add: loadable_def new_fiber_def)
  show "\<not> is_active f" if "r = Inl e" for e
    using load_error [of "new_fiber pd" rd cfg "services l" w e] that assms(4)
    by (simp add: new_fiber_def is_active_def)
qed

text \<open>A fiber of the loader is settled: it is active or has failed.\<close>

definition settled_fiber :: "('s, 'd, 'w) loader \<Rightarrow> string \<Rightarrow> bool" where
  "settled_fiber l k = (case dget (fibers l) k of None \<Rightarrow> False
     | Some f \<Rightarrow> fiber_state f = Active \<or> fiber_state f = Failed)"

lemma load_entries_ok:
  assumes "loader_ok l" and "requires_offered l" and "\<And>m. \<exists>fac. imp m = Inr fac"
  shows "fst (load_entries rd imp es l w) = Inr ()
    \<and> loader_ok (fst (snd (load_entries rd imp es l w)))
    \<and> requires_offered (fst (snd (load_entries rd imp es l w)))
    \<and> (\<forall>k. k \<in> plugin_id ` set es \<or> settled_fiber l k \<longrightarrow>
         settled_fiber (fst (snd (load_entries rd imp es l w))) k)"
  using assms(1,2)
proof (induction es arbitrary: l w)
  case (Cons e es)
  show ?case
  proof (cases "active_fiber l (plugin_id e)")
    case True
    then have "settled_fiber l (plugin_id e)"
      by (auto simp: active_fiber_def settled_fiber_def is_active_def split: option.splits)
    with Cons.IH [OF Cons.prems, of w] True show ?thesis by (simp only: load_entries.simps) auto
  next
    case False
    obtain fac where "imp (plugin_module e) = Inr fac" using assms(3) by blast
    then obtain pd where pd: "definition_of imp e = Inr pd" by (simp add: definition_of_def)
    obtain r f w' evs where ld: "load rd (plugin_config e) (services l) (new_fiber pd) w = (r, f, w', evs)"
      by (metis prod_cases4)
    let ?l = "store_loaded (plugin_id e) r f evs l"
    have step: "load_entries rd imp (e # es) l w = load_entries rd imp es ?l w'"
      using False pd ld by (simp only: load_entries.simps) simp
    have "fiber_state f = Active \<or> fiber_state f = Failed"
      using load_result [of rd "plugin_config e" "services l" "new_fiber pd" w]
        load_error [of "new_fiber pd" rd "plugin_config e" "services l" w] ld
      by (cases r) (auto simp: is_active_def new_fiber_def)
    then have here: "settled_fiber ?l k" if "k = plugin_id e \<or> settled_fiber l k" for k
      using that by (auto simp: settled_fiber_def store_loaded_def)
    from load_store_ok [OF Cons.prems False ld] have ok: "loader_ok ?l" "requires_offered ?l" by simp_all
    from Cons.IH [OF ok, of w'] show ?thesis using here by (auto simp: step simp del: load_entries.simps)
  qed
qed simp

lemma fiber_ok_new: "fiber_ok (new_fiber pd)"
  by (simp add: fiber_ok_def new_fiber_def)

text \<open>With factories that never raise, plugins in load order all become active.\<close>

lemma load_entries_all_active:
  assumes "\<And>m. \<exists>fac. imp m = Inr fac \<and> (\<forall>cfg svcs w. \<exists>s regs w'. fac cfg svcs w = (Inr s, regs, w'))"
  shows "loader_ok l \<Longrightarrow> (\<And>i. i < length es \<Longrightarrow>
      set (plugin_requires (es ! i)) \<subseteq> plugin_id ` set (take i es) \<union> {k. active_fiber l k}) \<Longrightarrow>
    \<forall>k. k \<in> plugin_id ` set es \<or> active_fiber l k \<longrightarrow>
      active_fiber (fst (snd (load_entries rd imp es l w))) k"
proof (induction es arbitrary: l w)
  case (Cons e es)
  have req: "set (plugin_requires e) \<subseteq> {k. active_fiber l k}"
    using Cons.prems(2) [of 0] by simp
  have rest: "set (plugin_requires (es ! i)) \<subseteq> plugin_id ` set (take i es) \<union> insert (plugin_id e) {k. active_fiber l k}"
    if "i < length es" for i
    using Cons.prems(2) [of "Suc i"] that by auto
  show ?case
  proof (cases "active_fiber l (plugin_id e)")
    case True
    then have "insert (plugin_id e) {k. active_fiber l k} = {k. active_fiber l k}" by blast
    with Cons.IH [OF Cons.prems(1), of w] rest True show ?thesis
      by (simp only: load_entries.simps) auto
  next
    case False
    from assms obtain fac where fac: "imp (plugin_module e) = Inr fac"
      "\<forall>cfg svcs w. \<exists>s regs w'. fac cfg svcs w = (Inr s, regs, w')" by metis
    then obtain pd where pd: "definition_of imp e = Inr pd" "factory pd = fac" "config_schema pd = None"
      "def_requires pd = plugin_requires e" by (simp add: definition_of_def)
    have lo: "loadable (new_fiber pd) (services l)"
      using req Cons.prems(1) pd(4) by (auto simp: loadable_def new_fiber_def list_all_iff loader_ok_def)
    have nf: "fiber_def (new_fiber pd) = pd" "fiber_state (new_fiber pd) = Pending"
      by (simp_all add: new_fiber_def)
    obtain s f w' evs where ld:
      "load rd (plugin_config e) (services l) (new_fiber pd) w = (Inr s, f, w', evs)" "is_active f"
    proof (rule load_cases [of "new_fiber pd" rd "plugin_config e" "services l" w])
      fix checked x regs w' f2
      assume "factory (fiber_def (new_fiber pd)) checked
          (snapshot_services (fiber_def (new_fiber pd)) (services l)) w = (Inl x, regs, w')"
      with fac(2) pd(2) show thesis unfolding nf by (metis Inl_Inr_False prod.inject)
    qed (use lo nf pd(3) that in \<open>simp_all add: validate_config_def is_active_def\<close>)
    let ?l = "store_loaded (plugin_id e) (Inr s) f evs l"
    have step: "load_entries rd imp (e # es) l w = load_entries rd imp es ?l w'"
      using False pd(1) ld(1) by (simp only: load_entries.simps) simp
    have act: "active_fiber ?l k \<longleftrightarrow> k = plugin_id e \<or> active_fiber l k" for k
      using ld(2) by simp
    have ok: "loader_ok ?l" using Cons.prems(1) ld(2) by (simp add: loader_ok_def)
    have "{k. active_fiber ?l k} = insert (plugin_id e) {k. active_fiber l k}"
      using ld(2) by (auto split: if_splits)
    with rest have "set (plugin_requires (es ! i)) \<subseteq> plugin_id ` set (take i es) \<union> {k. active_fiber ?l k}"
      if "i < length es" for i using that by simp
    from Cons.IH [OF ok this, of w'] show ?thesis
      unfolding step act by auto
  qed
qed simp

section \<open>Unloading everything\<close>

lemma unload_entries_effect:
  "active_fiber (fst (unload_entries rd stop es l w)) k \<longleftrightarrow> active_fiber l k \<and> k \<notin> plugin_id ` set es"
  "loader_ok l \<Longrightarrow> loader_ok (fst (unload_entries rd stop es l w))"
proof (induction es arbitrary: l w)
  case Nil
  {
    case 1
    show ?case by simp
  next
    case 2
    then show ?case by simp
  }
next
  case (Cons e es)
  {
    case 1
    show ?case
    proof (cases "active_fiber l (plugin_id e)")
      case False
      then have "unload_entries rd stop (e # es) l w = unload_entries rd stop es l w"
        by (auto simp: active_fiber_def is_active_def split: option.splits)
      with Cons.IH(1) False show ?thesis by auto
    next
      case True
      then obtain f where f: "dget (fibers l) (plugin_id e) = Some f" "fiber_state f = Active"
        by (auto simp: active_fiber_def is_active_def split: option.splits)
      with unload_effect(2) [OF f(2), of rd "stop (plugin_id e)" w] Cons.IH(1) show ?thesis
        by (auto simp: case_prod_beta active_fiber_def is_active_def)
    qed
  next
    case 2
    show ?case
    proof (cases "active_fiber l (plugin_id e)")
      case False
      then have "unload_entries rd stop (e # es) l w = unload_entries rd stop es l w"
        by (auto simp: active_fiber_def is_active_def split: option.splits)
      with Cons.IH(2) [OF 2] show ?thesis by simp
    next
      case True
      then obtain f where f: "dget (fibers l) (plugin_id e) = Some f" "fiber_state f = Active"
        by (auto simp: active_fiber_def is_active_def split: option.splits)
      obtain f' w' evs where un: "unload rd (stop (plugin_id e)) f w = (Inr (), f', w', evs)"
        "fiber_state f' = Disposed"
        using unload_effect(1,2) [OF f(2), of rd "stop (plugin_id e)" w] by (metis prod.collapse)
      let ?l = "l\<lparr>fibers := dset (fibers l) (plugin_id e) f', services := dpop (services l) (plugin_id e),
              loader_events := loader_events l @ evs\<rparr>"
      have "loader_ok ?l"
        using 2 un(2) by (simp add: loader_ok_def active_fiber_def is_active_def)
      from Cons.IH(2) [OF this, of w'] un(1) f show ?thesis by simp
    qed
  }
qed

lemma dget_all_None:
  assumes "\<And>k. dget d k = None"
  shows "d = []"
proof (cases d)
  case (Cons kv r)
  with assms [of "fst kv"] show ?thesis by simp
qed simp

section \<open>Properties\<close>

text \<open>A plugin whose factory raises leaves nothing behind: the fiber is failed and everything the
  factory had registered is released, the newest first.\<close>

theorem failed_factory_releases:
  assumes "loadable f available" and "validate_config (fiber_def f) cfg = Inr checked"
    and "factory (fiber_def f) checked (snapshot_services (fiber_def f) available) w = (Inl e, regs, w')"
  shows "fst (load rd cfg available f w) = Inl e
    \<and> fiber_state (fst (snd (load rd cfg available f w))) = Failed
    \<and> (\<exists>sc. fiber_effect (fst (snd (load rd cfg available f w))) = Some sc \<and> quiet sc)
    \<and> fst (snd (snd (load rd cfg available f w))) = fold rd (rev regs) w'"
  by (rule load_cases [of f rd cfg available w])
    (use assms in \<open>simp_all add: loadable_def failed_load_effect new_scope_def dispose_def quiet_def run_disposers_def\<close>)

definition sample_definition :: "(string, string, string list) plugin_definition" where
  "sample_definition = \<lparr>def_id = ''p'',
     factory = (\<lambda>cfg svcs w. (Inl (Exn ValueError ''boom''), [''port'', ''file''], w)),
     config_schema = None, def_requires = [], def_optional = [], def_version = ''1''\<rparr>"

theorem failed_factory_releases_witness:
  "fst (snd (snd (load (\<lambda>d w. w @ [d]) [] [] (new_fiber sample_definition) []))) = [''file'', ''port'']"
proof -
  have "fst (snd (snd (load (\<lambda>d w. w @ [d]) [] [] (new_fiber sample_definition) [])))
      = fold (\<lambda>d w. w @ [d]) (rev [''port'', ''file'']) []"
    by (rule conjunct2 [OF conjunct2 [OF conjunct2 [OF failed_factory_releases
            [where e = "Exn ValueError ''boom''" and checked = "[]" and w' = "[]"]]]])
      (simp_all add: loadable_def new_fiber_def sample_definition_def validate_config_def)
  then show ?thesis by simp
qed

text \<open>C11. If every plugin module can be imported and its factory never raises, then loading a plan of
  plugins that has a load order makes every enabled plugin active, with all it requires on offer.\<close>

theorem load_all_activates:
  assumes "distinct (map plugin_id (enabled_entries (loader_plugins l)))"
    and "requires_present (loader_plugins l)" and "acyclic (requires_edges (loader_plugins l))"
    and "loader_ok l" and "requires_offered l"
    and "\<And>m. \<exists>fac. imp m = Inr fac \<and> (\<forall>cfg svcs w. \<exists>s regs w'. fac cfg svcs w = (Inr s, regs, w'))"
  shows "fst (load_all rd imp l w) = Inr ()
    \<and> (\<forall>k \<in> enabled_ids (loader_plugins l). active_fiber (fst (snd (load_all rd imp l w))) k)
    \<and> requires_offered (fst (snd (load_all rd imp l w)))"
proof -
  obtain es where es: "topological_sort (loader_plugins l) = Inr es"
    "mset es = mset (enabled_entries (loader_plugins l))" "load_order es"
    using topological_sort_met [OF assms(1,2)] assms(3) by auto
  have imp: "\<exists>fac. imp m = Inr fac" for m using assms(6) by blast
  have "plugin_id ` set es = enabled_ids (loader_plugins l)"
    using es(2) by (metis enabled_ids_def set_mset_mset)
  moreover have "\<forall>k. k \<in> plugin_id ` set es \<or> active_fiber l k \<longrightarrow>
      active_fiber (fst (snd (load_entries rd imp es l w))) k"
    by (rule load_entries_all_active [OF assms(6,4)]) (use es(3) in \<open>auto simp: load_order_def\<close>)
  ultimately show ?thesis
    using load_entries_ok [OF assms(4,5) imp, where rd = rd and es = es and w = w] by (auto simp: load_all_def es(1))
qed

definition sample_loader :: "plugin_entry list \<Rightarrow> (string, string, string list) loader" where
  "sample_loader ps = \<lparr>loader_plugins = ps, fibers = [], services = [], loader_events = []\<rparr>"

definition sample_import :: "string \<Rightarrow> exn + (pyval dict \<Rightarrow> string dict \<Rightarrow> string list
    \<Rightarrow> (exn + string) \<times> string list \<times> string list)" where
  "sample_import m = (if m = ''gone'' then Inl (Exn OtherError ''No module named gone'')
     else Inr (\<lambda>cfg svcs w. (Inr m, [], w)))"

theorem load_all_activates_witness:
  "active_fiber (fst (snd (load_all (\<lambda>d w. w) (\<lambda>m. Inr (\<lambda>cfg svcs w. (Inr m, [], w)))
     (sample_loader [sample_plugin ''a'' []]) []))) ''a''"
proof -
  let ?l = "sample_loader [sample_plugin ''a'' []]"
  have "requires_edges (loader_plugins ?l) = {}"
    by (simp add: requires_edges_def sample_loader_def sample_plugin_def enabled_entries_def)
  then have "acyclic (requires_edges (loader_plugins ?l))" by (simp add: wf_acyclic)
  moreover have "requires_present (loader_plugins ?l)" "distinct (map plugin_id (enabled_entries (loader_plugins ?l)))"
    by (simp_all add: requires_present_def sample_loader_def sample_plugin_def enabled_entries_def)
  moreover have "loader_ok ?l" "requires_offered ?l"
    by (simp_all add: loader_ok_def requires_offered_def active_fiber_def sample_loader_def)
  moreover have "''a'' \<in> enabled_ids (loader_plugins ?l)"
    by (simp add: enabled_ids_def sample_loader_def sample_plugin_def enabled_entries_def)
  ultimately show ?thesis
    using load_all_activates [of ?l "\<lambda>m. Inr (\<lambda>cfg svcs w. (Inr m, [], w))" "\<lambda>d w. w" "[]"] by blast
qed

text \<open>A module that cannot be imported stops the whole load: a plugin that depends on nothing is not
  loaded because the plugin listed before it is missing.\<close>

theorem import_error_stops_independent:
  "let l = sample_loader [(sample_plugin ''a'' [])\<lparr>plugin_module := ''gone''\<rparr>, sample_plugin ''b'' []];
       r = load_all (\<lambda>d w. w) sample_import l []
   in fst r = Inl (Exn OtherError ''No module named gone'') \<and> fibers (fst (snd r)) = []"
  by code_simp

text \<open>A disposal that runs into the time-out of \<open>unload\<close> leaks: the fiber counts as disposed, the
  older disposers were not run, and no later disposal or unload runs them.\<close>

theorem timeout_leaks_disposers:
  assumes "fiber_state f = Active" and "fiber_effect f = Some sc" and "\<not> is_disposed sc"
    and "n < length (disposers sc)" and "unload rd (Some n) f w = (r, f', w', evs)"
  shows "fiber_state f' = Disposed \<and> w' = fold rd (rev (drop (length (disposers sc) - n) (disposers sc))) w
    \<and> (\<exists>sc'. fiber_effect f' = Some sc' \<and> disposers sc' \<noteq> []
         \<and> disposers sc' = take (length (disposers sc) - n) (disposers sc)
         \<and> (\<forall>stop u. dispose rd stop sc' u = (sc', u)))
    \<and> (\<forall>stop u. unload rd stop f' u = (Inr (), f', u, []))"
  using assms by (auto simp: unload_def dispose_def run_disposers_def Let_def)

theorem timeout_leaks_disposers_witness:
  "\<exists>f'. unload (\<lambda>d w. w @ [d]) (Some 1)
       ((new_fiber sample_definition)\<lparr>fiber_state := Active,
          fiber_effect := Some ((new_scope ''p'')\<lparr>disposers := [''port'', ''file'']\<rparr>)\<rparr>) []
     = (Inr (), f', [''file''], [(''plugin/unloading'', [(''plugin_id'', PStr ''p'')]),
          (''plugin/disposed'', [(''plugin_id'', PStr ''p'')])])
     \<and> fiber_state f' = Disposed"
proof -
  let ?f = "(new_fiber sample_definition)\<lparr>fiber_state := Active,
          fiber_effect := Some ((new_scope ''p'')\<lparr>disposers := [''port'', ''file'']\<rparr>)\<rparr>"
  obtain r f' w' evs where un: "unload (\<lambda>d w. w @ [d]) (Some 1) ?f [] = (r, f', w', evs)"
    by (metis prod_cases4)
  from timeout_leaks_disposers [OF _ _ _ _ un, of "(new_scope ''p'')\<lparr>disposers := [''port'', ''file'']\<rparr>"]
  have "fiber_state f' = Disposed" by (simp add: new_scope_def)
  moreover have "r = Inr () \<and> w' = [''file''] \<and> evs = [(''plugin/unloading'', [(''plugin_id'', PStr ''p'')]),
          (''plugin/disposed'', [(''plugin_id'', PStr ''p'')])]"
    using un by (simp add: unload_def dispose_def run_disposers_def new_scope_def new_fiber_def
        sample_definition_def Let_def)
  ultimately show ?thesis using un by blast
qed

text \<open>After \<open>unload_all\<close> no enabled plugin is active and, if all active fibers were enabled plugins, no
  service is on offer, whatever time-outs struck.\<close>

theorem unload_all_clears:
  assumes "unload_all rd stop l w = Inr (l', w')" and "loader_ok l"
    and "distinct (map plugin_id (enabled_entries (loader_plugins l)))"
    and "\<And>k. active_fiber l k \<Longrightarrow> k \<in> enabled_ids (loader_plugins l)"
  shows "(\<forall>k. \<not> active_fiber l' k) \<and> services l' = []"
proof -
  obtain es where es: "topological_sort (loader_plugins l) = Inr es"
    "(l', w') = unload_entries rd stop (rev es) l w"
    using assms(1) by (auto simp: unload_all_def split: sum.splits)
  have "mset es = mset (enabled_entries (loader_plugins l))"
    using topological_sort_met [OF assms(3)] topological_sort_unmet [OF assms(3)] es(1)
    by (cases "requires_present (loader_plugins l)") (auto split: if_splits)
  then have ids: "plugin_id ` set (rev es) = enabled_ids (loader_plugins l)"
    by (metis enabled_ids_def set_mset_mset set_rev)
  have l': "l' = fst (unload_entries rd stop (rev es) l w)" using es(2) by (metis fst_conv)
  have none: "\<not> active_fiber l' k" for k
    using unload_entries_effect(1) [of rd stop "rev es" l w k] assms(4) [of k] ids by (auto simp: l')
  moreover have "loader_ok l'" using unload_entries_effect(2) [OF assms(2)] by (simp add: l')
  ultimately have "dget (services l') k = None" for k by (simp add: loader_ok_def)
  then have "services l' = []" by (rule dget_all_None)
  with none show ?thesis by blast
qed

definition loaded_sample :: "(string, string, string list) loader" where
  "loaded_sample = store_loaded ''a'' (Inr ''service'')
     ((new_fiber sample_definition)\<lparr>fiber_state := Active\<rparr>) [] (sample_loader [sample_plugin ''a'' []])"

theorem unload_all_clears_witness:
  "case unload_all (\<lambda>d w. w) (\<lambda>k. None) loaded_sample [] of
     Inr (l', w') \<Rightarrow> services l' = [] | Inl e \<Rightarrow> False"
proof -
  have ps: "loader_plugins loaded_sample = [sample_plugin ''a'' []]"
    by (simp add: loaded_sample_def store_loaded_def sample_loader_def)
  have "topological_sort [sample_plugin ''a'' []] = Inr [sample_plugin ''a'' []]" by code_simp
  moreover obtain l' w' where "unload_entries (\<lambda>d w. w) (\<lambda>k. None) (rev [sample_plugin ''a'' []])
      loaded_sample [] = (l', w')"
    by (rule prod.exhaust)
  ultimately have un: "unload_all (\<lambda>d w. w) (\<lambda>k. None) loaded_sample [] = Inr (l', w')"
    by (simp only: unload_all_def ps sum.case)
  have act: "active_fiber loaded_sample k \<longleftrightarrow> k = ''a''" for k
    by (simp add: loaded_sample_def is_active_def) (simp add: active_fiber_def sample_loader_def)
  have "loader_ok loaded_sample"
    by (simp add: loader_ok_def act) (simp add: loaded_sample_def sample_loader_def)
  from unload_all_clears [OF un this] have "services l' = []"
    by (simp add: ps act) (simp add: enabled_entries_def enabled_ids_def sample_plugin_def)
  with un show ?thesis by simp
qed

end
