(* ===== verification/State_Manager.thy ===== *)
theory State_Manager
  imports Py_Values
begin

text \<open>
  The state manager (\<open>core/state_manager.py\<close>): a table of versioned records per domain and key
  in SQLite, an in-memory cache in front of it, an audit log, and subscribers.

  The tables are lists of rows. A value is stored as JSON with sorted keys; \<open>json_norm\<close> is the
  value that text is read back as. A subscriber is a name, and \<open>react\<close> says whether the callback
  raises for a pair of records; a callback does not write state itself. \<open>reads\<close> counts the calls
  of \<open>time()\<close>. The locks make single statements atomic and do not appear otherwise.
\<close>

section \<open>Records\<close>

record state_record =
  rec_domain :: string
  rec_key :: string
  rec_value :: pyval
  rec_updated_at :: pyfloat
  rec_version :: int

record audit_record =
  audit_domain :: string
  audit_key :: string
  audit_actor :: string
  audit_operation :: string
  audit_old :: "pyval option"
  audit_new :: "pyval option"
  audit_version :: int
  audit_time :: pyfloat

record event_error =
  err_domain :: string
  err_key :: string
  err_callback :: string
  err_text :: string
  err_time :: pyfloat

type_synonym state_key = "string \<times> string"

record state_manager =
  state_store :: "(state_key \<times> pyval \<times> pyfloat \<times> int) list"
  state_audit_log :: "audit_record list"
  cache :: "(state_key \<times> state_record) list"
  subscribers :: "(state_key \<times> string list) list"
  event_errors :: "event_error list"
  notified :: "(string \<times> state_record \<times> state_record option) list"
  reads :: nat

type_synonym reaction = "string \<Rightarrow> state_record \<Rightarrow> state_record option \<Rightarrow> exn option"

text \<open>\<open>json.loads(json.dumps(v, sort_keys=True))\<close>\<close>

function json_norm :: "pyval \<Rightarrow> pyval" where
  "json_norm (PList xs) = PList (map json_norm xs)"
| "json_norm (PDict d) = PDict (sort_key fst (map (\<lambda>kv. (fst kv, json_norm (snd kv))) d))"
| "json_norm PNone = PNone"
| "json_norm (PBool b) = PBool b"
| "json_norm (PInt i) = PInt i"
| "json_norm (PFloat q) = PFloat q"
| "json_norm (PStr s) = PStr s"
  by pat_completeness auto

lemma pyval_list_size: "x \<in> set xs \<Longrightarrow> size x < Suc (size_list size xs)"
  by (induction xs) auto

lemma pyval_dict_size: "(k, v) \<in> set d \<Longrightarrow> size v < Suc (size_list (size_prod (\<lambda>x. 0) size) d)"
  by (induction d) auto

termination json_norm
  by (relation "measure size") (auto simp: pyval_list_size pyval_dict_size)

section \<open>Access checks\<close>

definition allowed_domains :: "string list" where
  "allowed_domains = [''session'', ''task'', ''system'']"

definition access_error :: "string \<Rightarrow> exn" where
  "access_error op = Exn (AppError ''StateAccessError'') (op @ '' denied'')"

definition validate_domain :: "string \<Rightarrow> string \<Rightarrow> exn + unit" where
  "validate_domain dm op = (if dm \<in> set allowed_domains then Inr () else Inl (access_error op))"

text \<open>Each domain allows the role of its own name; no role, or an empty one, stands for it.\<close>

definition validate_role :: "string \<Rightarrow> string option \<Rightarrow> string \<Rightarrow> exn + unit" where
  "validate_role dm role op =
     (let r = strip (case role of None \<Rightarrow> dm | Some x \<Rightarrow> if x = [] then dm else x)
      in if r = dm then Inr () else Inl (access_error op))"

definition check_access :: "string \<Rightarrow> string option \<Rightarrow> string \<Rightarrow> exn + unit" where
  "check_access dm role op = and_then (validate_domain dm op) (\<lambda>_. validate_role dm role op)"

definition actor_name :: "string \<Rightarrow> string option \<Rightarrow> string option \<Rightarrow> string" where
  "actor_name dm role actor =
     (case actor of Some (c # cs) \<Rightarrow> c # cs
      | _ \<Rightarrow> (case role of Some (c # cs) \<Rightarrow> c # cs | _ \<Rightarrow> dm))"

section \<open>Start, cache and audit\<close>

definition warm_cache :: "(state_key \<times> pyval \<times> pyfloat \<times> int) list \<Rightarrow> (state_key \<times> state_record) list" where
  "warm_cache rows = dict_of (map (\<lambda>(k, v, t, n). (k, \<lparr>rec_domain = fst k, rec_key = snd k, rec_value = v,
     rec_updated_at = t, rec_version = n\<rparr>)) rows)"

text \<open>The constructor on the tables it finds.\<close>

definition open_manager ::
  "(state_key \<times> pyval \<times> pyfloat \<times> int) list \<Rightarrow> audit_record list \<Rightarrow> state_manager" where
  "open_manager rows audit = \<lparr>state_store = rows, state_audit_log = audit, cache = warm_cache rows,
     subscribers = [], event_errors = [], notified = [], reads = 0\<rparr>"

definition record_audit ::
  "string \<Rightarrow> string \<Rightarrow> string \<Rightarrow> string \<Rightarrow> pyval \<Rightarrow> pyval \<Rightarrow> int \<Rightarrow> pyfloat \<Rightarrow> state_manager
    \<Rightarrow> state_manager" where
  "record_audit dm k actor op old new ver t s = s\<lparr>state_audit_log := state_audit_log s @
     [\<lparr>audit_domain = dm, audit_key = k, audit_actor = actor, audit_operation = op,
       audit_old = (if old = PNone then None else Some (json_norm old)),
       audit_new = (if new = PNone then None else Some (json_norm new)),
       audit_version = ver, audit_time = t\<rparr>]\<rparr>"

section \<open>Subscribers\<close>

definition sub_key :: "string \<Rightarrow> string" where
  "sub_key k = (if strip k = [] then ''*'' else strip k)"

definition subscribe ::
  "string \<Rightarrow> string \<Rightarrow> string \<Rightarrow> string option \<Rightarrow> state_manager \<Rightarrow> (exn + unit) \<times> state_manager" where
  "subscribe dm k cb role s = (case check_access dm role ''subscribe'' of
     Inl e \<Rightarrow> (Inl e, s)
   | Inr _ \<Rightarrow> (Inr (), s\<lparr>subscribers := dset (subscribers s) (dm, sub_key k)
       (dget_or (subscribers s) (dm, sub_key k) [] @ [cb])\<rparr>))"

definition unsubscribe ::
  "string \<Rightarrow> string \<Rightarrow> string \<Rightarrow> string option \<Rightarrow> state_manager \<Rightarrow> (exn + bool) \<times> state_manager" where
  "unsubscribe dm k cb role s = (case check_access dm role ''unsubscribe'' of
     Inl e \<Rightarrow> (Inl e, s)
   | Inr _ \<Rightarrow>
      (let cbs = dget_or (subscribers s) (dm, sub_key k) []
       in if cb \<notin> set cbs then (Inr False, s)
          else if remove1 cb cbs = []
          then (Inr True, s\<lparr>subscribers := dpop (subscribers s) (dm, sub_key k)\<rparr>)
          else (Inr True, s\<lparr>subscribers := dset (subscribers s) (dm, sub_key k) (remove1 cb cbs)\<rparr>)))"

definition record_event_error ::
  "clock \<Rightarrow> string \<Rightarrow> string \<Rightarrow> string \<Rightarrow> exn \<Rightarrow> state_manager \<Rightarrow> state_manager" where
  "record_event_error clk dm k cb e s = s\<lparr>event_errors := event_errors s @
     [\<lparr>err_domain = dm, err_key = k, err_callback = cb, err_text = exn_text e,
       err_time = clk (reads s)\<rparr>], reads := Suc (reads s)\<rparr>"

definition call_subscriber ::
  "clock \<Rightarrow> reaction \<Rightarrow> state_record \<Rightarrow> state_record option \<Rightarrow> string \<Rightarrow> state_manager \<Rightarrow> state_manager" where
  "call_subscriber clk react new old cb s =
     (let s1 = s\<lparr>notified := notified s @ [(cb, new, old)]\<rparr>
      in (case react cb new old of
            None \<Rightarrow> s1
          | Some e \<Rightarrow> record_event_error clk (rec_domain new) (rec_key new) cb e s1))"

definition callbacks_for :: "state_record \<Rightarrow> state_manager \<Rightarrow> string list" where
  "callbacks_for r s = dget_or (subscribers s) (rec_domain r, rec_key r) []
     @ dget_or (subscribers s) (rec_domain r, ''*'') []"

definition notify ::
  "clock \<Rightarrow> reaction \<Rightarrow> state_record \<Rightarrow> state_record option \<Rightarrow> state_manager \<Rightarrow> state_manager" where
  "notify clk react new old s = fold (call_subscriber clk react new old) (callbacks_for new s) s"

section \<open>Reading and writing\<close>

definition get_record ::
  "string \<Rightarrow> string \<Rightarrow> string option \<Rightarrow> state_manager \<Rightarrow> (exn + state_record option) \<times> state_manager" where
  "get_record dm k role s = (case check_access dm role ''get_record'' of
     Inl e \<Rightarrow> (Inl e, s)
   | Inr _ \<Rightarrow> (case dget (cache s) (dm, k) of
       Some r \<Rightarrow> (Inr (Some r), s)
     | None \<Rightarrow> (case dget (state_store s) (dm, k) of
         None \<Rightarrow> (Inr None, s)
       | Some (v, t, n) \<Rightarrow>
          (let r = \<lparr>rec_domain = dm, rec_key = k, rec_value = v, rec_updated_at = t, rec_version = n\<rparr>
           in (Inr (Some r), s\<lparr>cache := dset (cache s) (dm, k) r\<rparr>)))))"

definition get ::
  "string \<Rightarrow> string \<Rightarrow> pyval \<Rightarrow> string option \<Rightarrow> state_manager \<Rightarrow> (exn + pyval) \<times> state_manager" where
  "get dm k dflt role s = (case check_access dm role ''get'' of
     Inl e \<Rightarrow> (Inl e, s)
   | Inr _ \<Rightarrow> (case dget (cache s) (dm, k) of
       Some r \<Rightarrow> (Inr (rec_value r), s)
     | None \<Rightarrow> (case dget (state_store s) (dm, k) of
         None \<Rightarrow> (Inr dflt, s)
       | Some (v, t, n) \<Rightarrow> (Inr v, s\<lparr>cache := dset (cache s) (dm, k)
           \<lparr>rec_domain = dm, rec_key = k, rec_value = v, rec_updated_at = t, rec_version = n\<rparr>\<rparr>))))"

definition set_state ::
  "clock \<Rightarrow> reaction \<Rightarrow> string \<Rightarrow> string \<Rightarrow> pyval \<Rightarrow> string option \<Rightarrow> string option \<Rightarrow> state_manager
    \<Rightarrow> (exn + state_record) \<times> state_manager" where
  "set_state clk react dm k v role actor s = (case check_access dm role ''set'' of
     Inl e \<Rightarrow> (Inl e, s)
   | Inr _ \<Rightarrow>
      (let now = clk (reads s);
           old = dget (cache s) (dm, k);
           ver = (case old of None \<Rightarrow> 1 | Some r \<Rightarrow> rec_version r + 1);
           r = \<lparr>rec_domain = dm, rec_key = k, rec_value = v, rec_updated_at = now, rec_version = ver\<rparr>;
           s1 = s\<lparr>reads := Suc (reads s),
                  state_store := dset (state_store s) (dm, k) (json_norm v, now, ver),
                  cache := dset (cache s) (dm, k) r\<rparr>;
           s2 = record_audit dm k (actor_name dm role actor) ''set''
                  (case old of None \<Rightarrow> PNone | Some o' \<Rightarrow> rec_value o') v ver now s1
       in (Inr r, notify clk react r old s2)))"

definition version_conflict :: "int \<Rightarrow> int \<Rightarrow> exn" where
  "version_conflict expected actual = Exn (AppError ''StateVersionConflictError'')
     (''expected='' @ int_str expected @ '' actual='' @ int_str actual)"

text \<open>\<open>set_if_version\<close> compares first and writes then; no lock spans the two.\<close>

definition version_check ::
  "string \<Rightarrow> string \<Rightarrow> int \<Rightarrow> string option \<Rightarrow> state_manager \<Rightarrow> (exn + unit) \<times> state_manager" where
  "version_check dm k expected role s = (case check_access dm role ''set_if_version'' of
     Inl e \<Rightarrow> (Inl e, s)
   | Inr _ \<Rightarrow> (case get_record dm k role s of
       (Inl e, s1) \<Rightarrow> (Inl e, s1)
     | (Inr cur, s1) \<Rightarrow>
        (let actual = (case cur of None \<Rightarrow> 0 | Some r \<Rightarrow> rec_version r)
         in (if actual \<noteq> expected then Inl (version_conflict expected actual) else Inr (), s1))))"

definition set_if_version ::
  "clock \<Rightarrow> reaction \<Rightarrow> string \<Rightarrow> string \<Rightarrow> pyval \<Rightarrow> int \<Rightarrow> string option \<Rightarrow> string option \<Rightarrow> state_manager
    \<Rightarrow> (exn + state_record) \<times> state_manager" where
  "set_if_version clk react dm k v expected role actor s = (case version_check dm k expected role s of
     (Inl e, s1) \<Rightarrow> (Inl e, s1)
   | (Inr _, s1) \<Rightarrow> set_state clk react dm k v role actor s1)"

fun retry_write ::
  "nat \<Rightarrow> clock \<Rightarrow> reaction \<Rightarrow> string \<Rightarrow> string \<Rightarrow> pyval \<Rightarrow> string option \<Rightarrow> string option \<Rightarrow> exn
    \<Rightarrow> state_manager \<Rightarrow> (exn + state_record) \<times> state_manager" where
  "retry_write 0 clk react dm k v role actor err s = (Inl err, s)"
| "retry_write (Suc n) clk react dm k v role actor err s = (case get_record dm k role s of
     (Inl e, s1) \<Rightarrow> (Inl e, s1)
   | (Inr cur, s1) \<Rightarrow>
      (case set_if_version clk react dm k v (case cur of None \<Rightarrow> 0 | Some r \<Rightarrow> rec_version r) role actor s1 of
         (Inr r, s2) \<Rightarrow> (Inr r, s2)
       | (Inl e, s2) \<Rightarrow>
          if exn_kind e = AppError ''StateVersionConflictError''
          then retry_write n clk react dm k v role actor e s2 else (Inl e, s2)))"

text \<open>The assertion after the loop cannot fail, since the loop runs at least once.\<close>

definition set_with_retry ::
  "clock \<Rightarrow> reaction \<Rightarrow> string \<Rightarrow> string \<Rightarrow> pyval \<Rightarrow> int \<Rightarrow> string option \<Rightarrow> string option \<Rightarrow> state_manager
    \<Rightarrow> (exn + state_record) \<times> state_manager" where
  "set_with_retry clk react dm k v max_retries role actor s =
     (case check_access dm role ''set_with_retry'' of
        Inl e \<Rightarrow> (Inl e, s)
      | Inr _ \<Rightarrow> retry_write (nat (max 0 max_retries) + 1) clk react dm k v role actor
          (Exn OtherError ''assertion'') s)"

definition delete_state ::
  "clock \<Rightarrow> reaction \<Rightarrow> string \<Rightarrow> string \<Rightarrow> string option \<Rightarrow> string option \<Rightarrow> state_manager
    \<Rightarrow> (exn + unit) \<times> state_manager" where
  "delete_state clk react dm k role actor s = (case check_access dm role ''delete'' of
     Inl e \<Rightarrow> (Inl e, s)
   | Inr _ \<Rightarrow>
      (let now = clk (reads s);
           old = dget (cache s) (dm, k);
           s1 = s\<lparr>reads := Suc (reads s), state_store := dpop (state_store s) (dm, k),
                  cache := dpop (cache s) (dm, k)\<rparr>
       in (case old of
            None \<Rightarrow> (Inr (), s1)
          | Some o' \<Rightarrow>
             (let s2 = record_audit dm k (actor_name dm role actor) ''delete'' (rec_value o') PNone
                    (rec_version o' + 1) now s1;
                  r = \<lparr>rec_domain = dm, rec_key = k, rec_value = PNone, rec_updated_at = now,
                       rec_version = rec_version o' + 1\<rparr>
              in (Inr (), notify clk react r old s2)))))"

section \<open>Events\<close>

fun split_on :: "char \<Rightarrow> string \<Rightarrow> string list" where
  "split_on c [] = [[]]"
| "split_on c (x # xs) = (if x = c then [] # split_on c xs
     else (case split_on c xs of [] \<Rightarrow> [[x]] | y # ys \<Rightarrow> (x # y) # ys))"

definition is_lower :: "char \<Rightarrow> bool" where
  "is_lower c = (let n = (of_char c :: nat) in 97 \<le> n \<and> n \<le> 122)"

definition event_segment :: "string \<Rightarrow> bool" where
  "event_segment s = list_all (\<lambda>w. w \<noteq> [] \<and> list_all is_lower w) (split_on (CHR ''_'') s)"

text \<open>
  \<open>EVENT_NAME_PATTERN.match\<close>: at least two segments of lower-case words. The \<open>$\<close> of the pattern
  also matches before one trailing line feed.
\<close>

definition event_name_ok :: "string \<Rightarrow> bool" where
  "event_name_ok name =
     (let n = (if name \<noteq> [] \<and> last name = CHR 0x0A then butlast name else name);
          segs = split_on (CHR ''.'') n
      in 2 \<le> length segs \<and> list_all event_segment segs)"

definition format_error :: "string \<Rightarrow> exn" where
  "format_error why = Exn (AppError ''StateEventFormatError'') why"

definition event_key :: "string \<Rightarrow> string" where
  "event_key name = ''event:'' @ name"

text \<open>The payload, once the version was converted and the clock was read.\<close>

definition event_payload ::
  "(pyval \<Rightarrow> string) \<Rightarrow> pyfloat \<Rightarrow> string \<Rightarrow> string \<Rightarrow> pyval dict \<Rightarrow> string option \<Rightarrow> int \<Rightarrow> exn + pyval dict" where
  "event_payload rp now dm name data source ver =
     (let trace = strip (py_str rp (dget_or data ''trace_id'' (PStr [])));
          given = strip (py_str rp (dget_or data ''source'' (PStr [])));
          src = strip (case source of Some (c # cs) \<Rightarrow> c # cs
                       | _ \<Rightarrow> if given \<noteq> [] then given else dm)
      in and_then (py_int (dget_or data ''timestamp'' (PFloat (now * 1000)))) (\<lambda>ts.
         and_then (py_dict (dget_or data ''data'' (PDict []))) (\<lambda>body.
           if trace = [] then Inl (format_error ''missing trace_id'')
           else if src = [] then Inl (format_error ''missing source'')
           else if ver < 0 then Inl (format_error ''invalid version'')
           else Inr [(''event_name'', PStr name), (''trace_id'', PStr trace),
                  (''source'', PStr src), (''version'', PInt ver), (''timestamp'', PInt ts),
                  (''data'', PDict body)])))"

definition store_event ::
  "clock \<Rightarrow> reaction \<Rightarrow> string \<Rightarrow> string \<Rightarrow> pyval dict \<Rightarrow> state_manager \<Rightarrow> (exn + pyval dict) \<times> state_manager" where
  "store_event clk react dm k payload s = (case get_record dm k None s of
     (Inl e, s1) \<Rightarrow> (Inl e, s1)
   | (Inr cur, s1) \<Rightarrow>
      (let cur_ver = (case cur of None \<Rightarrow> 0 | Some r \<Rightarrow> rec_version r)
       in (case set_state clk react dm k (PDict payload) None None s1 of
         (Inl e, s2) \<Rightarrow> (Inl e, s2)
       | (Inr r, s2) \<Rightarrow>
           if rec_version r \<le> cur_ver
           then (Inl (version_conflict (cur_ver + 1) (rec_version r)), s2)
           else (Inr payload, s2))))"

definition publish_event ::
  "(pyval \<Rightarrow> string) \<Rightarrow> clock \<Rightarrow> reaction \<Rightarrow> string \<Rightarrow> string \<Rightarrow> pyval dict \<Rightarrow> string option \<Rightarrow> state_manager
    \<Rightarrow> (exn + pyval dict) \<times> state_manager" where
  "publish_event rp clk react dm name data source s =
     (if dm \<notin> set allowed_domains then (Inl (access_error ''publish_event''), s)
      else if \<not> event_name_ok name
      then (Inl (format_error ''event name must match domain.event_type''), s)
      else (case py_int (dget_or data ''version'' (PInt 0)) of
          Inl e \<Rightarrow> (Inl e, s)
        | Inr ver \<Rightarrow>
            (case event_payload rp (clk (reads s)) dm name data source ver of
               Inl e \<Rightarrow> (Inl e, s\<lparr>reads := Suc (reads s)\<rparr>)
             | Inr payload \<Rightarrow> store_event clk react dm (event_key name) payload (s\<lparr>reads := Suc (reads s)\<rparr>))))"

section \<open>The accessors of a domain\<close>

definition get_session_state ::
  "string \<Rightarrow> pyval \<Rightarrow> string option \<Rightarrow> state_manager \<Rightarrow> (exn + pyval) \<times> state_manager" where
  "get_session_state k dflt role s = get ''session'' k dflt role s"

definition set_session_state ::
  "clock \<Rightarrow> reaction \<Rightarrow> string \<Rightarrow> pyval \<Rightarrow> string option \<Rightarrow> string option \<Rightarrow> state_manager
    \<Rightarrow> (exn + state_record) \<times> state_manager" where
  "set_session_state clk react k v role actor s = set_state clk react ''session'' k v role actor s"

definition get_task_state ::
  "string \<Rightarrow> pyval \<Rightarrow> string option \<Rightarrow> state_manager \<Rightarrow> (exn + pyval) \<times> state_manager" where
  "get_task_state k dflt role s = get ''task'' k dflt role s"

definition set_task_state ::
  "clock \<Rightarrow> reaction \<Rightarrow> string \<Rightarrow> pyval \<Rightarrow> string option \<Rightarrow> string option \<Rightarrow> state_manager
    \<Rightarrow> (exn + state_record) \<times> state_manager" where
  "set_task_state clk react k v role actor s = set_state clk react ''task'' k v role actor s"

definition set_route_state ::
  "clock \<Rightarrow> reaction \<Rightarrow> string \<Rightarrow> pyval dict \<Rightarrow> string option \<Rightarrow> state_manager
    \<Rightarrow> (exn + state_record) \<times> state_manager" where
  "set_route_state clk react pid v actor s =
     set_task_state clk react (''plan.'' @ pid @ ''.route_decision'') (PDict v) None actor s"

definition get_route_state ::
  "string \<Rightarrow> pyval \<Rightarrow> state_manager \<Rightarrow> (exn + pyval) \<times> state_manager" where
  "get_route_state pid dflt s = get_task_state (''plan.'' @ pid @ ''.route_decision'') dflt None s"

definition get_system_state ::
  "string \<Rightarrow> pyval \<Rightarrow> string option \<Rightarrow> state_manager \<Rightarrow> (exn + pyval) \<times> state_manager" where
  "get_system_state k dflt role s = get ''system'' k dflt role s"

definition set_system_state ::
  "clock \<Rightarrow> reaction \<Rightarrow> string \<Rightarrow> pyval \<Rightarrow> string option \<Rightarrow> string option \<Rightarrow> state_manager
    \<Rightarrow> (exn + state_record) \<times> state_manager" where
  "set_system_state clk react k v role actor s = set_state clk react ''system'' k v role actor s"

definition trigger_idle_think ::
  "clock \<Rightarrow> reaction \<Rightarrow> string option \<Rightarrow> string option \<Rightarrow> state_manager
    \<Rightarrow> (exn + state_record) \<times> state_manager" where
  "trigger_idle_think clk react role actor s =
     set_system_state clk react ''idle_think_requested'' (PBool True) role actor s"

section \<open>What notification and access checks leave alone\<close>

lemma call_subscriber_frame [simp]:
  "state_store (call_subscriber clk react new old cb s) = state_store s"
  "state_audit_log (call_subscriber clk react new old cb s) = state_audit_log s"
  "cache (call_subscriber clk react new old cb s) = cache s"
  "subscribers (call_subscriber clk react new old cb s) = subscribers s"
  by (simp_all add: call_subscriber_def record_event_error_def Let_def split: option.split)

lemma notify_frame [simp]:
  "state_store (notify clk react new old s) = state_store s"
  "state_audit_log (notify clk react new old s) = state_audit_log s"
  "cache (notify clk react new old s) = cache s"
  "subscribers (notify clk react new old s) = subscribers s"
proof -
  have "state_store (fold (call_subscriber clk react new old) cbs s) = state_store s
    \<and> state_audit_log (fold (call_subscriber clk react new old) cbs s) = state_audit_log s
    \<and> cache (fold (call_subscriber clk react new old) cbs s) = cache s
    \<and> subscribers (fold (call_subscriber clk react new old) cbs s) = subscribers s" for cbs
    by (induction cbs arbitrary: s) simp_all
  then show "state_store (notify clk react new old s) = state_store s"
    "state_audit_log (notify clk react new old s) = state_audit_log s"
    "cache (notify clk react new old s) = cache s"
    "subscribers (notify clk react new old s) = subscribers s"
    by (simp_all add: notify_def)
qed

lemma record_audit_frame [simp]:
  "state_store (record_audit dm k a op old new ver t s) = state_store s"
  "cache (record_audit dm k a op old new ver t s) = cache s"
  "subscribers (record_audit dm k a op old new ver t s) = subscribers s"
  by (simp_all add: record_audit_def)

lemma check_access_any_op: "check_access dm role op = Inr () \<Longrightarrow> check_access dm role op2 = Inr ()"
  by (simp add: check_access_def validate_domain_def validate_role_def Let_def split: if_splits)

section \<open>Cache, store and audit log agree\<close>

text \<open>What the audit log says a key holds: replaying sets and deletions.\<close>

definition replay_entry ::
  "audit_record \<Rightarrow> (state_key \<Rightarrow> (pyval \<times> pyfloat \<times> int) option) \<Rightarrow> state_key \<Rightarrow> (pyval \<times> pyfloat \<times> int) option" where
  "replay_entry a m = m((audit_domain a, audit_key a) :=
     (if audit_operation a = ''delete'' then None
      else Some (case audit_new a of None \<Rightarrow> PNone | Some v \<Rightarrow> v, audit_time a, audit_version a)))"

definition replay :: "audit_record list \<Rightarrow> state_key \<Rightarrow> (pyval \<times> pyfloat \<times> int) option" where
  "replay xs = fold replay_entry xs (\<lambda>_. None)"

definition stored :: "state_record \<Rightarrow> pyval \<times> pyfloat \<times> int" where
  "stored r = (json_norm (rec_value r), rec_updated_at r, rec_version r)"

definition coherent :: "state_manager \<Rightarrow> bool" where
  "coherent s = (\<forall>k. dget (state_store s) k = map_option stored (dget (cache s) k))"

definition records_named :: "state_manager \<Rightarrow> bool" where
  "records_named s = (\<forall>k r. dget (cache s) k = Some r \<longrightarrow> (rec_domain r, rec_key r) = k \<and> 1 \<le> rec_version r)"

definition manager_ok :: "state_manager \<Rightarrow> bool" where
  "manager_ok s = (coherent s \<and> records_named s \<and> distinct (dkeys (state_store s)) \<and> replay (state_audit_log s) = dget (state_store s))"

lemma replay_append: "replay (xs @ [a]) = replay_entry a (replay xs)"
  by (simp add: replay_def)

lemma audit_value: "(case (if v = PNone then None else Some (json_norm v)) of None \<Rightarrow> PNone | Some x \<Rightarrow> x) = json_norm v"
  by simp

lemma replay_record_audit:
  "replay (state_audit_log (record_audit dm k a op old new ver t s)) = (replay (state_audit_log s))((dm, k) :=
     (if op = ''delete'' then None else Some (json_norm new, t, ver)))"
  by (simp add: record_audit_def replay_append replay_entry_def fun_eq_iff)

lemma get_record_effect:
  assumes "manager_ok s"
  shows "snd (get_record dm k role s) = s"
    and "check_access dm role op = Inr () \<Longrightarrow> fst (get_record dm k role s) = Inr (dget (cache s) (dm, k))"
proof -
  have "dget (state_store s) (dm, k) = None" if "dget (cache s) (dm, k) = None"
    using assms that by (simp add: manager_ok_def coherent_def)
  then show "snd (get_record dm k role s) = s"
    and "check_access dm role op = Inr () \<Longrightarrow> fst (get_record dm k role s) = Inr (dget (cache s) (dm, k))"
    using check_access_any_op [of dm role op "''get_record''"]
    by (auto simp: get_record_def split: option.splits sum.splits)
qed

lemma get_effect:
  assumes "manager_ok s"
  shows "snd (get dm k d role s) = s"
    and "check_access dm role op = Inr () \<Longrightarrow> fst (get dm k d role s) =
       Inr (case dget (cache s) (dm, k) of None \<Rightarrow> d | Some r \<Rightarrow> rec_value r)"
proof -
  have "dget (state_store s) (dm, k) = None" if "dget (cache s) (dm, k) = None"
    using assms that by (simp add: manager_ok_def coherent_def)
  then show "snd (get dm k d role s) = s"
    and "check_access dm role op = Inr () \<Longrightarrow> fst (get dm k d role s) =
       Inr (case dget (cache s) (dm, k) of None \<Rightarrow> d | Some r \<Rightarrow> rec_value r)"
    using check_access_any_op [of dm role op "''get''"]
    by (auto simp: get_def split: option.splits sum.splits)
qed

text \<open>The record a write makes.\<close>

definition version_of :: "state_manager \<Rightarrow> state_key \<Rightarrow> int" where
  "version_of s k = (case dget (cache s) k of None \<Rightarrow> 0 | Some r \<Rightarrow> rec_version r)"

definition value_of :: "state_manager \<Rightarrow> state_key \<Rightarrow> pyval option" where
  "value_of s k = map_option rec_value (dget (cache s) k)"

definition written :: "clock \<Rightarrow> string \<Rightarrow> string \<Rightarrow> pyval \<Rightarrow> state_manager \<Rightarrow> state_record" where
  "written clk dm k v s = \<lparr>rec_domain = dm, rec_key = k, rec_value = v, rec_updated_at = clk (reads s),
     rec_version = version_of s (dm, k) + 1\<rparr>"

lemma set_state_effect:
  assumes "check_access dm role op = Inr ()"
  shows "fst (set_state clk react dm k v role actor s) = Inr (written clk dm k v s)"
    and "cache (snd (set_state clk react dm k v role actor s)) = dset (cache s) (dm, k) (written clk dm k v s)"
    and "state_store (snd (set_state clk react dm k v role actor s))
       = dset (state_store s) (dm, k) (stored (written clk dm k v s))"
    and "replay (state_audit_log (snd (set_state clk react dm k v role actor s)))
       = (replay (state_audit_log s))((dm, k) := Some (stored (written clk dm k v s)))"
  using check_access_any_op [OF assms, of "''set''"]
  by (simp_all add: set_state_def Let_def written_def version_of_def stored_def replay_record_audit
      split: option.split)

lemma set_state_denied:
  "check_access dm role ''set'' = Inl e \<Longrightarrow> set_state clk react dm k v role actor s = (Inl e, s)"
  by (simp add: set_state_def)

lemma set_state_ok:
  assumes "manager_ok s"
  shows "manager_ok (snd (set_state clk react dm k v role actor s))"
proof (cases "check_access dm role ''set''")
  case (Inl e)
  with assms show ?thesis by (simp add: set_state_denied)
next
  case (Inr u)
  then have acc: "check_access dm role ''set'' = Inr ()" by simp
  have "0 \<le> version_of s (dm, k)"
    using assms unfolding manager_ok_def records_named_def version_of_def
    by (cases "dget (cache s) (dm, k)") fastforce+
  with assms show ?thesis
    by (auto simp: manager_ok_def coherent_def records_named_def set_state_effect [OF acc] fun_eq_iff distinct_dset)
      (simp_all add: written_def)
qed

lemma delete_state_effect:
  assumes "check_access dm role op = Inr ()"
  shows "fst (delete_state clk react dm k role actor s) = Inr ()"
    and "cache (snd (delete_state clk react dm k role actor s)) = dpop (cache s) (dm, k)"
    and "state_store (snd (delete_state clk react dm k role actor s)) = dpop (state_store s) (dm, k)"
    and "replay (state_audit_log (snd (delete_state clk react dm k role actor s)))
       = (if dget (cache s) (dm, k) = None then replay (state_audit_log s)
          else (replay (state_audit_log s))((dm, k) := None))"
  using check_access_any_op [OF assms, of "''delete''"]
  by (simp_all add: delete_state_def Let_def replay_record_audit split: option.split)

lemma delete_state_ok:
  assumes "manager_ok s"
  shows "manager_ok (snd (delete_state clk react dm k role actor s))"
proof (cases "check_access dm role ''delete''")
  case (Inl e)
  with assms show ?thesis by (simp add: delete_state_def)
next
  case (Inr u)
  then have acc: "check_access dm role ''delete'' = Inr ()" by simp
  from assms show ?thesis
    by (auto simp: manager_ok_def coherent_def records_named_def delete_state_effect [OF acc] fun_eq_iff distinct_delete)
qed

lemma version_check_effect:
  assumes "manager_ok s"
  shows "version_check dm k e role s =
     (case check_access dm role ''set_if_version'' of
        Inl x \<Rightarrow> (Inl x, s)
      | Inr _ \<Rightarrow> (if version_of s (dm, k) \<noteq> e then Inl (version_conflict e (version_of s (dm, k))) else Inr (), s))"
proof (cases "check_access dm role ''set_if_version''")
  case (Inl x)
  then show ?thesis by (simp add: version_check_def)
next
  case (Inr u)
  then have acc: "check_access dm role ''set_if_version'' = Inr ()" by simp
  have "get_record dm k role s = (Inr (dget (cache s) (dm, k)), s)"
    using get_record_effect(1) [OF assms, of dm k role] get_record_effect(2) [OF assms acc, of k]
    by (metis prod.collapse)
  then show ?thesis by (simp add: version_check_def acc version_of_def Let_def)
qed

lemma set_if_version_effect:
  assumes "manager_ok s"
  shows "set_if_version clk react dm k v e role actor s =
     (case check_access dm role ''set_if_version'' of
        Inl x \<Rightarrow> (Inl x, s)
      | Inr _ \<Rightarrow> if version_of s (dm, k) \<noteq> e then (Inl (version_conflict e (version_of s (dm, k))), s)
                else set_state clk react dm k v role actor s)"
  by (simp add: set_if_version_def version_check_effect [OF assms] split: sum.split)

lemma set_if_version_ok: "manager_ok s \<Longrightarrow> manager_ok (snd (set_if_version clk react dm k v e role actor s))"
  by (simp add: set_if_version_effect set_state_ok split: sum.split)

text \<open>Without an interfering writer the first try succeeds.\<close>

lemma set_with_retry_effect:
  assumes "manager_ok s"
  shows "set_with_retry clk react dm k v n role actor s =
     (case check_access dm role ''set_with_retry'' of
        Inl x \<Rightarrow> (Inl x, s) | Inr _ \<Rightarrow> set_state clk react dm k v role actor s)"
proof (cases "check_access dm role ''set_with_retry''")
  case (Inl x)
  then show ?thesis by (simp add: set_with_retry_def)
next
  case (Inr u)
  then have acc: "check_access dm role ''set_with_retry'' = Inr ()" by simp
  have "get_record dm k role s = (Inr (dget (cache s) (dm, k)), s)"
    using get_record_effect(1) [OF assms, of dm k role] get_record_effect(2) [OF assms acc, of k]
    by (metis prod.collapse)
  moreover have "set_if_version clk react dm k v (version_of s (dm, k)) role actor s
      = set_state clk react dm k v role actor s"
    using check_access_any_op [OF acc, of "''set_if_version''"] by (simp add: set_if_version_effect [OF assms])
  moreover have "fst (set_state clk react dm k v role actor s) = Inr (written clk dm k v s)"
    by (rule set_state_effect(1) [OF acc])
  ultimately show ?thesis
    by (cases "set_state clk react dm k v role actor s") (simp add: set_with_retry_def acc version_of_def)
qed

lemma manager_ok_reads [simp]: "manager_ok (s\<lparr>reads := n\<rparr>) = manager_ok s"
  by (simp add: manager_ok_def coherent_def records_named_def)

lemma manager_ok_subscribers [simp]: "manager_ok (s\<lparr>subscribers := x\<rparr>) = manager_ok s"
  by (simp add: manager_ok_def coherent_def records_named_def)

lemma check_access_none: "dm \<in> set allowed_domains \<Longrightarrow> check_access dm None op = Inr ()"
  by (auto simp: check_access_def validate_domain_def validate_role_def allowed_domains_def
      strip_def is_space_def)

text \<open>Publishing is a write of the event's record, if the event is well formed.\<close>

lemma store_event_effect:
  assumes "manager_ok s" and "dm \<in> set allowed_domains"
  shows "store_event clk react dm k payload s
    = (Inr payload, snd (set_state clk react dm k (PDict payload) None None s))"
proof -
  note acc = check_access_none [OF assms(2)]
  have "get_record dm k None s = (Inr (dget (cache s) (dm, k)), s)"
    using get_record_effect(1) [OF assms(1), of dm k None] get_record_effect(2) [OF assms(1) acc, of k]
    by (metis prod.collapse)
  moreover have "fst (set_state clk react dm k (PDict payload) None None s) = Inr (written clk dm k (PDict payload) s)"
    by (rule set_state_effect(1) [OF acc])
  moreover have "rec_version (written clk dm k (PDict payload) s)
      = (case dget (cache s) (dm, k) of None \<Rightarrow> 0 | Some r \<Rightarrow> rec_version r) + 1"
    by (simp add: written_def version_of_def)
  ultimately show ?thesis
    by (cases "set_state clk react dm k (PDict payload) None None s") (simp add: store_event_def Let_def)
qed

lemma publish_event_ok:
  assumes "manager_ok s"
  shows "manager_ok (snd (publish_event rp clk react dm name data source s))"
proof -
  have "manager_ok (s\<lparr>reads := n\<rparr>)" for n using assms by simp
  then have "dm \<in> set allowed_domains \<Longrightarrow> manager_ok (snd (store_event clk react dm k payload (s\<lparr>reads := n\<rparr>)))"
    for k payload n
    by (simp add: store_event_effect set_state_ok)
  with assms show ?thesis by (simp add: publish_event_def split: sum.split)
qed

text \<open>All a process can do with its manager, from empty tables.\<close>

inductive manager_run :: "state_manager \<Rightarrow> bool" where
  created: "manager_run (open_manager [] [])"
| set_op: "manager_run s \<Longrightarrow> manager_run (snd (set_state clk react dm k v role actor s))"
| cas_op: "manager_run s \<Longrightarrow> manager_run (snd (set_if_version clk react dm k v e role actor s))"
| retry_op: "manager_run s \<Longrightarrow> manager_run (snd (set_with_retry clk react dm k v n role actor s))"
| delete_op: "manager_run s \<Longrightarrow> manager_run (snd (delete_state clk react dm k role actor s))"
| publish_op: "manager_run s \<Longrightarrow> manager_run (snd (publish_event rp clk react dm name data src s))"
| get_op: "manager_run s \<Longrightarrow> manager_run (snd (get dm k d role s))"
| record_op: "manager_run s \<Longrightarrow> manager_run (snd (get_record dm k role s))"
| subscribe_op: "manager_run s \<Longrightarrow> manager_run (snd (subscribe dm k cb role s))"
| unsubscribe_op: "manager_run s \<Longrightarrow> manager_run (snd (unsubscribe dm k cb role s))"

lemma manager_run_ok: "manager_run s \<Longrightarrow> manager_ok s"
proof (induction rule: manager_run.induct)
  case created
  show ?case
    by (simp add: manager_ok_def coherent_def records_named_def open_manager_def warm_cache_def
        dict_of_def replay_def fun_eq_iff)
next
  case (retry_op s clk react dm k v n role actor)
  then show ?case by (simp add: set_with_retry_effect set_state_ok split: sum.split)
next
  case (subscribe_op s dm k cb role)
  then show ?case by (simp add: subscribe_def split: sum.split)
next
  case (unsubscribe_op s dm k cb role)
  then show ?case by (simp add: unsubscribe_def Let_def split: sum.split)
qed (simp_all add: set_state_ok set_if_version_ok delete_state_ok publish_event_ok get_effect
    get_record_effect)

section \<open>The contract of a versioned store\<close>

text \<open>
  What optimistic writers rely on: a version that starts at zero and grows with each write of the
  key, and a removal that forgets both value and version.
\<close>

locale versioned_store =
  fixes valid :: "'k \<Rightarrow> bool"
    and inv :: "'s \<Rightarrow> bool"
    and ver :: "'s \<Rightarrow> 'k \<Rightarrow> int"
    and val :: "'s \<Rightarrow> 'k \<Rightarrow> pyval option"
    and put :: "'k \<Rightarrow> pyval \<Rightarrow> 's \<Rightarrow> 's"
    and drop :: "'k \<Rightarrow> 's \<Rightarrow> 's"
    and cas :: "'k \<Rightarrow> pyval \<Rightarrow> int \<Rightarrow> 's \<Rightarrow> (exn + state_record) \<times> 's"
  assumes ver_put: "valid k \<Longrightarrow> ver (put k v s) k' = (if k' = k then ver s k + 1 else ver s k')"
    and val_put: "valid k \<Longrightarrow> val (put k v s) k' = (if k' = k then Some v else val s k')"
    and ver_drop: "valid k \<Longrightarrow> ver (drop k s) k' = (if k' = k then 0 else ver s k')"
    and val_drop: "valid k \<Longrightarrow> val (drop k s) k' = (if k' = k then None else val s k')"
    and inv_put: "inv s \<Longrightarrow> inv (put k v s)"
    and inv_drop: "inv s \<Longrightarrow> inv (drop k s)"
    and cas_hit: "inv s \<Longrightarrow> valid k \<Longrightarrow> ver s k = e \<Longrightarrow> snd (cas k v e s) = put k v s \<and> (\<exists>r. fst (cas k v e s) = Inr r)"
    and cas_miss: "inv s \<Longrightarrow> valid k \<Longrightarrow> ver s k \<noteq> e \<Longrightarrow> snd (cas k v e s) = s \<and> (\<exists>x. fst (cas k v e s) = Inl x)"
begin

text \<open>Of two writers that read the same version and write one after the other, the second is refused.\<close>

lemma second_writer_refused:
  assumes "inv s" and "valid k"
  shows "\<exists>x. fst (cas k w (ver s k) (snd (cas k v (ver s k) s))) = Inl x"
    and "val (snd (cas k w (ver s k) (snd (cas k v (ver s k) s)))) k = Some v"
proof -
  have hit: "snd (cas k v (ver s k) s) = put k v s" using cas_hit [OF assms refl] by blast
  have "ver (put k v s) k \<noteq> ver s k" by (simp add: ver_put assms)
  from cas_miss [OF inv_put [OF assms(1)] assms(2) this]
  show "\<exists>x. fst (cas k w (ver s k) (snd (cas k v (ver s k) s))) = Inl x"
    and "val (snd (cas k w (ver s k) (snd (cas k v (ver s k) s)))) k = Some v"
    by (simp_all add: hit val_put assms)
qed

text \<open>A removal in between brings the old version back: the stale writer is not noticed.\<close>

lemma stale_writer_accepted:
  assumes "inv s" and "valid k" and "ver s k = 1"
  shows "\<exists>r. fst (cas k w 1 (put k v (drop k s))) = Inr r"
    and "val (snd (cas k w 1 (put k v (drop k s)))) k = Some w"
proof -
  have "ver (put k v (drop k s)) k = 1" by (simp add: ver_put ver_drop assms)
  from cas_hit [OF inv_put [OF inv_drop [OF assms(1)]] assms(2) this]
  show "\<exists>r. fst (cas k w 1 (put k v (drop k s))) = Inr r"
    and "val (snd (cas k w 1 (put k v (drop k s)))) k = Some w"
    by (simp_all add: val_put assms)
qed

end

definition put_state :: "clock \<Rightarrow> reaction \<Rightarrow> state_key \<Rightarrow> pyval \<Rightarrow> state_manager \<Rightarrow> state_manager" where
  "put_state clk react k v s = snd (set_state clk react (fst k) (snd k) v None None s)"

definition drop_state :: "clock \<Rightarrow> reaction \<Rightarrow> state_key \<Rightarrow> state_manager \<Rightarrow> state_manager" where
  "drop_state clk react k s = snd (delete_state clk react (fst k) (snd k) None None s)"

interpretation state: versioned_store "\<lambda>k. fst k \<in> set allowed_domains" manager_ok version_of value_of
  "put_state clk react" "drop_state clk react"
  "\<lambda>k v e. set_if_version clk react (fst k) (snd k) v e None None" for clk react
proof unfold_locales
  fix k :: state_key and v e s k'
  show "manager_ok s \<Longrightarrow> manager_ok (put_state clk react k v s)" by (simp add: put_state_def set_state_ok)
  show "manager_ok s \<Longrightarrow> manager_ok (drop_state clk react k s)" by (simp add: drop_state_def delete_state_ok)
  assume "fst k \<in> set allowed_domains"
  note acc = check_access_none [OF this]
  show "version_of (put_state clk react k v s) k' = (if k' = k then version_of s k + 1 else version_of s k')"
    by (simp add: version_of_def put_state_def set_state_effect(2) [OF acc])
      (simp add: written_def version_of_def)
  show "value_of (put_state clk react k v s) k' = (if k' = k then Some v else value_of s k')"
    by (simp add: value_of_def put_state_def set_state_effect(2) [OF acc]) (simp add: written_def)
  show "version_of (drop_state clk react k s) k' = (if k' = k then 0 else version_of s k')"
    by (simp add: version_of_def drop_state_def delete_state_effect(2) [OF acc])
  show "value_of (drop_state clk react k s) k' = (if k' = k then None else value_of s k')"
    by (simp add: value_of_def drop_state_def delete_state_effect(2) [OF acc])
  assume ok: "manager_ok s"
  show "version_of s k = e \<Longrightarrow> snd (set_if_version clk react (fst k) (snd k) v e None None s) = put_state clk react k v s
      \<and> (\<exists>r. fst (set_if_version clk react (fst k) (snd k) v e None None s) = Inr r)"
    using set_state_effect(1) [OF acc]
    by (simp add: set_if_version_effect [OF ok] acc put_state_def)
  show "version_of s k \<noteq> e \<Longrightarrow> snd (set_if_version clk react (fst k) (snd k) v e None None s) = s
      \<and> (\<exists>x. fst (set_if_version clk react (fst k) (snd k) v e None None s) = Inl x)"
    by (simp add: set_if_version_effect [OF ok] acc)
qed

section \<open>Restart\<close>

lemma sort_by_key_again: "sort_key fst (map f (sort_key fst xs)) = map f (sort_key fst xs)"
  if "\<And>x. fst (f x) = fst x"
  by (rule sort_key_id_if_sorted) (simp add: comp_def that)

lemma json_norm_idem [simp]: "json_norm (json_norm v) = json_norm v"
proof (induction v rule: json_norm.induct)
  case (2 d)
  have "map (\<lambda>kv. (fst kv, json_norm (snd kv))) (sort_key fst (map (\<lambda>kv. (fst kv, json_norm (snd kv))) d))
      = sort_key fst (map (\<lambda>kv. (fst kv, json_norm (snd kv))) d)"
    by (rule map_idI) (use 2 in force)
  then show ?case by (simp add: sort_key_id_if_sorted)
qed simp_all

lemma warm_cache_lookup:
  assumes "distinct (dkeys rows)"
  shows "dget (warm_cache rows) k = map_option (\<lambda>(v, t, n). \<lparr>rec_domain = fst k, rec_key = snd k,
    rec_value = v, rec_updated_at = t, rec_version = n\<rparr>) (dget rows k)"
proof -
  let ?f = "\<lambda>(k, v, t, n). (k, \<lparr>rec_domain = fst k, rec_key = snd k, rec_value = v,
     rec_updated_at = t, rec_version = n\<rparr>)"
  have "dkeys (map ?f rows) = dkeys rows" by (simp add: comp_def case_prod_beta)
  with assms have "distinct (dkeys (map ?f rows))" by (simp only:)
  then have "warm_cache rows = map ?f rows" unfolding warm_cache_def by (rule dict_of_distinct)
  moreover have "dget (map ?f rows) k = map_option (\<lambda>(v, t, n). \<lparr>rec_domain = fst k, rec_key = snd k,
    rec_value = v, rec_updated_at = t, rec_version = n\<rparr>) (dget rows k)"
    by (induction rows) auto
  ultimately show ?thesis by simp
qed

section \<open>Properties\<close>


definition quiet_subscribers :: reaction where
  "quiet_subscribers cb new old = None"

definition one_record :: state_manager where
  "one_record = snd (set_state (\<lambda>n. of_nat n) quiet_subscribers ''task'' ''a'' (PInt 7) None None
     (open_manager [] []))"

lemma one_record_run: "manager_run one_record"
  unfolding one_record_def by (intro manager_run.intros)


text \<open>After a restart on the same tables every key has the version it had and the value it had, as
  JSON gives it back.\<close>

theorem restart_keeps_records:
  assumes "manager_run s"
  defines "s' \<equiv> open_manager (state_store s) (state_audit_log s)"
  shows "version_of s' k = version_of s k \<and> value_of s' k = map_option json_norm (value_of s k)"
proof -
  have ok: "coherent s" "distinct (dkeys (state_store s))"
    using manager_run_ok [OF assms(1)] by (simp_all add: manager_ok_def)
  then have "dget (cache s') k = map_option (\<lambda>(v, t, n). \<lparr>rec_domain = fst k, rec_key = snd k,
      rec_value = v, rec_updated_at = t, rec_version = n\<rparr>) (map_option stored (dget (cache s) k))"
    by (cases k) (simp add: s'_def open_manager_def warm_cache_lookup coherent_def)
  then show ?thesis
    by (simp add: version_of_def value_of_def stored_def split: option.split)
qed

theorem restart_keeps_records_witness:
  "value_of (open_manager (state_store one_record) (state_audit_log one_record)) (''task'', ''a'')
     = map_option json_norm (value_of one_record (''task'', ''a''))"
  using restart_keeps_records [OF one_record_run] by blast

text \<open>\<open>set_if_version\<close> writes exactly if the expected version is the current one (zero for a key that
  does not exist); otherwise it reports a conflict and changes nothing. Of two writers with the
  same expectation that run one after the other, the second is refused.\<close>

theorem set_if_version_compares:
  assumes "manager_run s" and "dm \<in> set allowed_domains"
  shows "set_if_version clk react dm k v e None actor s =
      (if version_of s (dm, k) = e then set_state clk react dm k v None actor s
       else (Inl (version_conflict e (version_of s (dm, k))), s))
    \<and> (\<exists>x. fst (set_if_version clk react dm k w (version_of s (dm, k)) None None
         (snd (set_if_version clk react dm k v (version_of s (dm, k)) None None s))) = Inl x)"
  using state.second_writer_refused(1) [of s "(dm, k)" clk react w v] manager_run_ok [OF assms(1)]
    assms(2) check_access_none [OF assms(2)]
  by (simp add: set_if_version_effect)

theorem set_if_version_compares_witness:
  "set_if_version (\<lambda>n. 5) quiet_subscribers ''task'' ''a'' PNone 0 None None one_record
     = (Inl (version_conflict 0 1), one_record)"
proof -
  have "version_of one_record (''task'', ''a'') = 1" by code_simp
  then show ?thesis
    using set_if_version_compares [OF one_record_run, of "''task''" "\<lambda>n. 5" quiet_subscribers "''a''" PNone 0 None]
    by (simp add: allowed_domains_def)
qed

text \<open>Two threads in \<open>set_if_version\<close>, step by step: a comparison, and the write after it.\<close>

datatype writer_step = Compare nat | Write nat

fun run_writers ::
  "clock \<Rightarrow> reaction \<Rightarrow> string \<Rightarrow> string \<Rightarrow> int \<Rightarrow> (nat \<Rightarrow> pyval) \<Rightarrow> writer_step list \<Rightarrow> nat list
    \<Rightarrow> state_manager \<Rightarrow> nat list \<times> state_manager" where
  "run_writers clk react dm k e vals [] passed s = (passed, s)"
| "run_writers clk react dm k e vals (Compare i # steps) passed s = (case version_check dm k e None s of
     (Inl x, s') \<Rightarrow> run_writers clk react dm k e vals steps passed s'
   | (Inr _, s') \<Rightarrow> run_writers clk react dm k e vals steps (passed @ [i]) s')"
| "run_writers clk react dm k e vals (Write i # steps) passed s =
     (if i \<in> set passed
      then run_writers clk react dm k e vals steps passed (snd (set_state clk react dm k (vals i) None None s))
      else run_writers clk react dm k e vals steps passed s)"

text \<open>The comparison and the write of \<open>set_if_version\<close> are not one step: if two threads compare
  before either writes, both writes are accepted and the first one is lost.\<close>

theorem set_if_version_race:
  assumes "manager_run s" and "dm \<in> set allowed_domains" and "version_of s (dm, k) = e"
  shows "let r = run_writers clk react dm k e vals [Compare 0, Compare 1, Write 0, Write 1] [] s
    in fst r = [0, 1] \<and> value_of (snd r) (dm, k) = Some (vals 1) \<and> version_of (snd r) (dm, k) = e + 2"
proof -
  have ok: "manager_ok s" by (rule manager_run_ok [OF assms(1)])
  have pass: "version_check dm k e None s = (Inr (), s)"
    using assms(3) by (simp add: version_check_effect [OF ok] check_access_none [OF assms(2)])
  have "snd (set_state clk react dm k v None None t) = put_state clk react (dm, k) v t" for v t
    by (simp add: put_state_def)
  then show ?thesis
    using state.ver_put [of "(dm, k)" clk react] state.val_put [of "(dm, k)" clk react] assms(2,3)
    by (simp add: pass Let_def)
qed

theorem set_if_version_race_witness:
  "fst (run_writers (\<lambda>n. 5) quiet_subscribers ''task'' ''a'' 1 (\<lambda>i. PInt (int i))
     [Compare 0, Compare 1, Write 0, Write 1] [] one_record) = [0, 1]"
proof -
  have "version_of one_record (''task'', ''a'') = 1" by code_simp
  then show ?thesis
    using set_if_version_race [OF one_record_run, of "''task''" "''a''" 1] by (simp add: Let_def allowed_domains_def)
qed

text \<open>The version of a key starts again at one after a deletion, although the audit log goes on
  counting: a writer holding version one of the deleted record overwrites the new one unnoticed.\<close>

theorem stale_version_after_delete:
  assumes "manager_run s" and "dm \<in> set allowed_domains" and "version_of s (dm, k) = 1"
  shows "\<exists>r. fst (set_if_version clk react dm k w 1 None None
      (snd (set_state clk react dm k v None None (snd (delete_state clk react dm k None None s))))) = Inr r"
  using state.stale_writer_accepted(1) [of s "(dm, k)" clk react w v] manager_run_ok [OF assms(1)] assms(2,3)
  by (simp add: put_state_def drop_state_def)

theorem stale_version_after_delete_witness:
  "\<exists>r. fst (set_if_version (\<lambda>n. 5) quiet_subscribers ''task'' ''a'' (PInt 9) 1 None None
      (snd (set_state (\<lambda>n. 5) quiet_subscribers ''task'' ''a'' (PInt 8) None None
        (snd (delete_state (\<lambda>n. 5) quiet_subscribers ''task'' ''a'' None None one_record))))) = Inr r"
proof -
  have "version_of one_record (''task'', ''a'') = 1" by code_simp
  then show ?thesis
    by (intro stale_version_after_delete [OF one_record_run]) (simp_all add: allowed_domains_def)
qed

end
