(* ===== verification/Plan_World.thy ===== *)
theory Plan_World
  imports Plan_Snapshot Skill_Stages
begin

text \<open>
  The world in which a plan runs (\<open>core/plan_orchestrator.py\<close>): the context of the plan extended
  by what the orchestrator and the gateway keep and change beside it, and the parts of the
  system they are handed as arguments.

  \<open>stage_rows\<close> is the table of the skill tracker and of the hard gate over it, \<open>snapshots\<close> the
  store of plan snapshots, \<open>own_skill\<close> and \<open>own_stages\<close> the two skill fields of the orchestrator,
  \<open>journal\<close> what it did to the outside: saving, publishing, and reporting to the sample library.
  \<open>draws\<close> numbers the calls of \<open>uuid4()\<close> and of the collaborators; a collaborator may answer
  differently in every call, so its call number is its last argument.
\<close>

section \<open>Collaborators\<close>

record consent_request =
  cr_plan_id :: string
  cr_step_id :: string
  cr_skill_id :: string
  cr_operation :: string
  cr_purpose_type :: string
  cr_risk_level :: string
  cr_impact_scope :: string
  cr_source :: string
  cr_metadata :: "pyval dict"

record spawn_request =
  sp_parent_session :: string
  sp_role :: subagent_role
  sp_task :: string
  sp_files :: "string list"
  sp_privacy :: string
  sp_plan_id :: string
  sp_step_id :: string

text \<open>
  \<open>env_invoker\<close> is the skill invoker, \<open>env_routed\<close> the routed invoker, \<open>env_subagents\<close> spawning and
  running a sub-agent, \<open>env_adapter\<close> the consent adapter with the identifier the consent gateway
  has recorded, \<open>env_callback\<close> the older consent callback, \<open>env_pending\<close> the lookup of a decision
  (decided, allowed), \<open>env_outcome\<close> and \<open>env_verify\<close> the sample library, whose exceptions are
  logged. The gate and the tracker are there or not.
\<close>

type_synonym invoker = "string \<Rightarrow> pyval dict \<Rightarrow> string option \<Rightarrow> nat \<Rightarrow> exn + pyval"

record routed_invoker =
  local_invoker :: invoker
  cloud_invoker :: "invoker option"
  echo_invoker :: "invoker option"

record plan_env =
  env_clock :: clock
  env_uuid :: "nat \<Rightarrow> string"
  env_repr :: "pyval \<Rightarrow> string"
  env_invoker :: "invoker option"
  env_routed :: "routed_invoker option"
  env_subagents :: "(spawn_request \<Rightarrow> nat \<Rightarrow> exn + pyval dict) option"
  env_gate :: bool
  env_tracker :: bool
  env_adapter :: "(consent_request \<Rightarrow> nat \<Rightarrow> exn + (bool \<times> string option)) option"
  env_callback :: "(string \<Rightarrow> string \<Rightarrow> nat \<Rightarrow> exn + bool) option"
  env_pending :: "string \<Rightarrow> (bool \<times> bool) option"
  env_fallback :: bool
  env_samples :: bool
  env_privacy :: string

section \<open>The world\<close>

datatype journal_entry =
    Saved string
  | Published string "string option"
  | SampleOutcome string bool
  | SampleVerified string

record plan_world = task_context +
  stage_rows :: "stage_row list"
  snapshots :: "pyval dict dict"
  own_skill :: "string option"
  own_stages :: "string list"
  journal :: "journal_entry list"
  draws :: nat

end
