(* ===== verification/Plan_Gateway.thy ===== *)
theory Plan_Gateway
  imports Plan_World
begin

text \<open>
  \<open>PlanGateway\<close> (\<open>core/plan_gateway.py\<close>) with the schema of \<open>core/plan_evidence_schema.py\<close>: the
  check of a step's result against its stage, the feedback for a retry, the hard gate, the pause
  for consent and its decision, and the verdict on a plan.

  The result of a step is a plain value, so the attributes \<open>evidence\<close>, \<open>output\<close> and \<open>content\<close> of
  other objects do not occur. Chinese key words and feedback are written as their UTF-8 bytes.
  \<open>lower\<close> changes ASCII letters. The enumeration constructors \<open>_step_enum\<close> and \<open>_context_status\<close>
  are the identity on the datatypes; a context without step statuses, for which \<open>_step_enum\<close>
  returns a string, does not reach them.
\<close>

section \<open>Stage evidence\<close>

definition STAGE_EVIDENCE_SCHEMA :: "string list dict" where
  "STAGE_EVIDENCE_SCHEMA =
    [(''planning'', [''modules'', ''data_flow'']),
     (''tdd'', [''test_command'', ''test_result'']),
     (''implementation'', [''files_changed'', ''summary'']),
     (''review'', [''approved'', ''issues'']),
     (''verification'', [''command'', ''exit_code'', ''output_summary''])]"

definition evidence_field_has_value :: "string \<Rightarrow> string \<Rightarrow> pyval \<Rightarrow> bool" where
  "evidence_field_has_value stage field v =
     (if stage = ''review'' \<and> field = ''issues'' \<and> (case v of PList _ \<Rightarrow> True | _ \<Rightarrow> False) then True
      else (case v of
          PNone \<Rightarrow> False
        | PStr s \<Rightarrow> strip s \<noteq> []
        | PList xs \<Rightarrow> xs \<noteq> []
        | PDict d \<Rightarrow> d \<noteq> []
        | _ \<Rightarrow> True))"

definition extract_structured_evidence :: "pyval \<Rightarrow> pyval dict option" where
  "extract_structured_evidence result = (case result of
     PDict d \<Rightarrow> (case pget d ''evidence'' of PDict e \<Rightarrow> Some e | _ \<Rightarrow> None)
   | _ \<Rightarrow> None)"

definition field_issues :: "string \<Rightarrow> pyval dict \<Rightarrow> string \<Rightarrow> string list" where
  "field_issues stage evidence field = (case dget evidence field of
     None \<Rightarrow> [''evidence_missing_field:'' @ stage @ '':'' @ field]
   | Some v \<Rightarrow> if evidence_field_has_value stage field v then []
       else [''evidence_empty_field:'' @ stage @ '':'' @ field])"

definition verify_structured_evidence :: "string \<Rightarrow> pyval dict \<Rightarrow> string list" where
  "verify_structured_evidence stage evidence =
     concat (map (field_issues stage evidence) (dget_or STAGE_EVIDENCE_SCHEMA stage []))
     @ (if stage = ''review'' \<and> pget evidence ''approved'' = PBool False
        then [''review_stage_not_approved''] else [])"

definition extract_text :: "(pyval \<Rightarrow> string) \<Rightarrow> pyval \<Rightarrow> string" where
  "extract_text rp result = (case result of
     PNone \<Rightarrow> []
   | PStr s \<Rightarrow> s
   | PDict d \<Rightarrow>
      (let out = (if truthy (pget d ''output'') then pget d ''output'' else pget d ''content'')
       in if truthy out then py_str rp out else py_str rp result)
   | _ \<Rightarrow> py_str rp result)"

text \<open>The key words of the heuristic checks: module, data flow, risk, test strategy; test; pass,
  verify.\<close>

definition planning_keywords :: "string list" where
  "planning_keywords = [''module'',
     [CHR 0xE6, CHR 0xA8, CHR 0xA1, CHR 0xE5, CHR 0x9D, CHR 0x97],
     [CHR 0xE6, CHR 0x95, CHR 0xB0, CHR 0xE6, CHR 0x8D, CHR 0xAE, CHR 0xE6, CHR 0xB5, CHR 0x81],
     ''data flow'',
     [CHR 0xE9, CHR 0xA3, CHR 0x8E, CHR 0xE9, CHR 0x99, CHR 0xA9],
     ''risk'',
     [CHR 0xE6, CHR 0xB5, CHR 0x8B, CHR 0xE8, CHR 0xAF, CHR 0x95, CHR 0xE7, CHR 0xAD, CHR 0x96, CHR 0xE7, CHR 0x95, CHR 0xA5],
     ''test'']"

definition tdd_keywords :: "string list" where
  "tdd_keywords = [''test'',
     [CHR 0xE6, CHR 0xB5, CHR 0x8B, CHR 0xE8, CHR 0xAF, CHR 0x95],
     ''assert'',
     ''expect'',
     ''pass'',
     ''passed'',
     ''fail'',
     ''failed'']"

definition implementation_indicators :: "string list" where
  "implementation_indicators = [[CHR 0x60, CHR 0x60, CHR 0x60],
     ''def '',
     ''class '',
     ''import '',
     ''function'',
     ''.py'',
     ''.js'',
     ''.ts'']"

definition verification_keywords :: "string list" where
  "verification_keywords = [''pass'',
     ''passed'',
     ''ok'',
     ''success'',
     [CHR 0xE9, CHR 0x80, CHR 0x9A, CHR 0xE8, CHR 0xBF, CHR 0x87],
     [CHR 0xE9, CHR 0xAA, CHR 0x8C, CHR 0xE8, CHR 0xAF, CHR 0x81],
     ''result'',
     ''output'',
     ''exit'']"

definition verify_planning_output :: "(pyval \<Rightarrow> string) \<Rightarrow> pyval \<Rightarrow> bool" where
  "verify_planning_output rp result = contains_any planning_keywords (lower (extract_text rp result))"

definition verify_tdd_output :: "(pyval \<Rightarrow> string) \<Rightarrow> pyval \<Rightarrow> bool" where
  "verify_tdd_output rp result = contains_any tdd_keywords (lower (extract_text rp result))"

definition verify_implementation_output :: "(pyval \<Rightarrow> string) \<Rightarrow> pyval \<Rightarrow> bool" where
  "verify_implementation_output rp result = contains_any implementation_indicators (extract_text rp result)"

definition approved_false :: "string list" where
  "approved_false = [[CHR 0x22] @ ''approved'' @ [CHR 0x22] @ '': false'',
     [CHR 0x22] @ ''approved'' @ [CHR 0x22] @ '':false'']"

definition verify_review_output :: "(pyval \<Rightarrow> string) \<Rightarrow> pyval \<Rightarrow> bool" where
  "verify_review_output rp result = (case result of
     PDict d \<Rightarrow> pget d ''approved'' \<noteq> PBool False
   | _ \<Rightarrow> extract_text rp result \<noteq> [] \<and> \<not> contains_any approved_false (lower (extract_text rp result)))"

definition verify_verification_output :: "(pyval \<Rightarrow> string) \<Rightarrow> pyval \<Rightarrow> bool" where
  "verify_verification_output rp result =
     contains_any verification_keywords (lower (extract_text rp result))"

text \<open>No key word is contained in an empty text, so the guards for one are not repeated.\<close>

definition verify_heuristic :: "(pyval \<Rightarrow> string) \<Rightarrow> string \<Rightarrow> pyval \<Rightarrow> string list" where
  "verify_heuristic rp stage result =
     (if extract_text rp result = [] then [stage @ ''_stage_empty_output'']
      else if stage = ''planning'' then
        (if verify_planning_output rp result then [] else [''planning_stage_missing_module_description''])
      else if stage = ''tdd'' then
        (if verify_tdd_output rp result then [] else [''tdd_stage_missing_test_evidence''])
      else if stage = ''implementation'' then
        (if verify_implementation_output rp result then [] else [''implementation_stage_no_code_change''])
      else if stage = ''review'' then
        (if verify_review_output rp result then [] else [''review_stage_not_approved''])
      else if stage = ''verification'' \<and> \<not> verify_verification_output rp result
      then [''verification_stage_no_test_output''] else [])"

definition verify_evidence :: "(pyval \<Rightarrow> string) \<Rightarrow> plan_step \<Rightarrow> pyval \<Rightarrow> exn + string" where
  "verify_evidence rp st result =
     (let fallback = (if verification st \<noteq> [] then verification st else expected_output st);
          rest = (if strip fallback \<noteq> [] then Inr fallback
                  else Inl (Exn A2PlanValidationError ''evidence_missing''))
      in (case result of
          PDict d \<Rightarrow>
           (let raw = (if truthy (pget d ''evidence'') then pget d ''evidence''
                  else if truthy (pget d ''verification'') then pget d ''verification''
                  else pget d ''result'')
            in if truthy raw \<and> strip (py_str rp raw) \<noteq> [] then Inr (py_str rp raw)
               else if d \<noteq> [] then Inr (py_str rp result) else rest)
        | PNone \<Rightarrow> rest
        | _ \<Rightarrow> if strip (py_str rp result) \<noteq> [] then Inr (py_str rp result) else rest))"

definition verify_post_execution :: "(pyval \<Rightarrow> string) \<Rightarrow> plan_step \<Rightarrow> pyval \<Rightarrow> string list" where
  "verify_post_execution rp st result =
     (case verify_evidence rp st result of Inl _ \<Rightarrow> [''evidence_missing''] | Inr _ \<Rightarrow> [])
     @ (case step_stage st of
          None \<Rightarrow> []
        | Some stage \<Rightarrow>
            if stage = [] then []
            else (case extract_structured_evidence result of
                Some e \<Rightarrow> verify_structured_evidence stage e
              | None \<Rightarrow> verify_heuristic rp stage result))"

section \<open>Feedback\<close>

text \<open>\<open>issue.split(':', 2)\<close> unpacked into three parts.\<close>

definition two_parts :: "string \<Rightarrow> exn + string \<times> string" where
  "two_parts s =
     (let r = dropWhile (\<lambda>c. c \<noteq> CHR '':'') s; r2 = dropWhile (\<lambda>c. c \<noteq> CHR '':'') (tl r)
      in if r = [] \<or> r2 = [] then Inl (Exn ValueError ''not enough values to unpack'')
         else Inr (takeWhile (\<lambda>c. c \<noteq> CHR '':'') (tl r), tl r2))"

text \<open>The fixed parts of the feedback: a missing field, an empty field, required in this stage; the
  current stage; its fields, their use; the introduction and the request.\<close>

definition fb_missing :: string where
  "fb_missing =
     ''- '' @ [CHR 0xE7, CHR 0xBC, CHR 0xBA, CHR 0xE5, CHR 0xB0, CHR 0x91] @ '' evidence '' @
     [CHR 0xE5, CHR 0xAD, CHR 0x97, CHR 0xE6, CHR 0xAE, CHR 0xB5] @ '': ''"

definition fb_empty :: string where
  "fb_empty =
     ''- evidence '' @ [CHR 0xE5, CHR 0xAD, CHR 0x97, CHR 0xE6, CHR 0xAE, CHR 0xB5, CHR 0xE4,
     CHR 0xB8, CHR 0xBA, CHR 0xE7, CHR 0xA9, CHR 0xBA] @ '': ''"

definition fb_open :: string where
  "fb_open =
     [CHR 0xEF, CHR 0xBC, CHR 0x88]"

definition fb_required :: string where
  "fb_required =
     '' '' @ [CHR 0xE9, CHR 0x98, CHR 0xB6, CHR 0xE6, CHR 0xAE, CHR 0xB5, CHR 0xE5, CHR 0xBF,
     CHR 0x85, CHR 0xE5, CHR 0xA1, CHR 0xAB, CHR 0xEF, CHR 0xBC, CHR 0x89]"

definition fb_current :: string where
  "fb_current =
     [CHR 0xE5, CHR 0xBD, CHR 0x93, CHR 0xE5, CHR 0x89, CHR 0x8D]"

definition fb_fields :: string where
  "fb_fields =
     '' '' @ [CHR 0xE9, CHR 0x98, CHR 0xB6, CHR 0xE6, CHR 0xAE, CHR 0xB5, CHR 0xE9, CHR 0x9C,
     CHR 0x80, CHR 0xE8, CHR 0xA6, CHR 0x81, CHR 0xE6, CHR 0x8F, CHR 0x90, CHR 0xE4, CHR 0xBE,
     CHR 0x9B, CHR 0xE4, CHR 0xBB, CHR 0xA5, CHR 0xE4, CHR 0xB8, CHR 0x8B] @ '' evidence '' @
     [CHR 0xE5, CHR 0xAD, CHR 0x97, CHR 0xE6, CHR 0xAE, CHR 0xB5, CHR 0xEF, CHR 0xBC, CHR 0x9A,
     CHR 0x0A]"

definition fb_use :: string where
  "fb_use =
     [CHR 0x0A, CHR 0xE8, CHR 0xAF, CHR 0xB7, CHR 0xE5, CHR 0x9C, CHR 0xA8, CHR 0xE4, CHR 0xBA,
     CHR 0xA7, CHR 0xE5, CHR 0x87, CHR 0xBA, CHR 0xE7, CHR 0x9A, CHR 0x84] @ '' evidence '' @
     [CHR 0xE5, CHR 0xAD, CHR 0x97, CHR 0xE6, CHR 0xAE, CHR 0xB5, CHR 0xE4, CHR 0xB8, CHR 0xAD,
     CHR 0xE6, CHR 0x8F, CHR 0x90, CHR 0xE4, CHR 0xBE, CHR 0x9B, CHR 0xE8, CHR 0xBF, CHR 0x99,
     CHR 0xE4, CHR 0xBA, CHR 0x9B, CHR 0xE4, CHR 0xBF, CHR 0xA1, CHR 0xE6, CHR 0x81, CHR 0xAF,
     CHR 0xE3, CHR 0x80, CHR 0x82]"

definition fb_intro :: string where
  "fb_intro =
     [CHR 0xE4, CHR 0xB8, CHR 0x8A, CHR 0xE4, CHR 0xB8, CHR 0x80, CHR 0xE6, CHR 0xAC, CHR 0xA1,
     CHR 0xE4, CHR 0xBA, CHR 0xA7, CHR 0xE5, CHR 0x87, CHR 0xBA, CHR 0xE6, CHR 0x9C, CHR 0xAA,
     CHR 0xE9, CHR 0x80, CHR 0x9A, CHR 0xE8, CHR 0xBF, CHR 0x87, CHR 0xE5, CHR 0x90, CHR 0x8E,
     CHR 0xE7, CHR 0xBD, CHR 0xAE, CHR 0xE6, CHR 0xA0, CHR 0xA1, CHR 0xE9, CHR 0xAA, CHR 0x8C,
     CHR 0xEF, CHR 0xBC, CHR 0x8C, CHR 0xE4, CHR 0xBB, CHR 0xA5, CHR 0xE4, CHR 0xB8, CHR 0x8B,
     CHR 0xE6, CHR 0x98, CHR 0xAF, CHR 0xE5, CHR 0x85, CHR 0xB7, CHR 0xE4, CHR 0xBD, CHR 0x93,
     CHR 0xE9, CHR 0x97, CHR 0xAE, CHR 0xE9, CHR 0xA2, CHR 0x98, CHR 0xEF, CHR 0xBC, CHR 0x9A,
     CHR 0x0A]"

definition fb_again :: string where
  "fb_again =
     [CHR 0xE8, CHR 0xAF, CHR 0xB7, CHR 0xE9, CHR 0x92, CHR 0x88, CHR 0xE5, CHR 0xAF, CHR 0xB9,
     CHR 0xE4, CHR 0xBB, CHR 0xA5, CHR 0xE4, CHR 0xB8, CHR 0x8A, CHR 0xE9, CHR 0x97, CHR 0xAE,
     CHR 0xE9, CHR 0xA2, CHR 0x98, CHR 0xE9, CHR 0x87, CHR 0x8D, CHR 0xE6, CHR 0x96, CHR 0xB0,
     CHR 0xE7, CHR 0x94, CHR 0x9F, CHR 0xE6, CHR 0x88, CHR 0x90, CHR 0xEF, CHR 0xBC, CHR 0x8C,
     CHR 0xE7, CHR 0xA1, CHR 0xAE, CHR 0xE4, CHR 0xBF, CHR 0x9D, CHR 0xE4, CHR 0xBA, CHR 0xA7,
     CHR 0xE5, CHR 0x87, CHR 0xBA, CHR 0xE7, CHR 0xAC, CHR 0xA6, CHR 0xE5, CHR 0x90, CHR 0x88]
     @ '' ''"

definition fb_complete :: string where
  "fb_complete =
     '' '' @ [CHR 0xE9, CHR 0x98, CHR 0xB6, CHR 0xE6, CHR 0xAE, CHR 0xB5, CHR 0xE7, CHR 0x9A,
     CHR 0x84, CHR 0xE8, CHR 0xA7, CHR 0x84, CHR 0xE8, CHR 0x8C, CHR 0x83, CHR 0xEF, CHR 0xBC,
     CHR 0x8C, CHR 0xE5, CHR 0xB9, CHR 0xB6, CHR 0xE6, CHR 0x8F, CHR 0x90, CHR 0xE4, CHR 0xBE,
     CHR 0x9B, CHR 0xE5, CHR 0xAE, CHR 0x8C, CHR 0xE6, CHR 0x95, CHR 0xB4] @ '' evidence'' @
     [CHR 0xE3, CHR 0x80, CHR 0x82]"

definition format_feedback_issue :: "string \<Rightarrow> exn + string" where
  "format_feedback_issue issue =
     (if starts_with ''evidence_missing_field:'' issue
      then and_then (two_parts issue) (\<lambda>(stage, field).
        Inr (fb_missing @ field @ fb_open @ stage @ fb_required))
      else if starts_with ''evidence_empty_field:'' issue
      then and_then (two_parts issue) (\<lambda>(stage, field).
        Inr (fb_empty @ field @ fb_open @ stage @ fb_required))
      else Inr (''- '' @ issue))"

definition build_retry_feedback :: "plan_step \<Rightarrow> string list \<Rightarrow> exn + string" where
  "build_retry_feedback st issues =
     (let stage = (case step_stage st of None \<Rightarrow> [] | Some g \<Rightarrow> g);
          stage_label = (if stage = [] then fb_current else stage);
          required = dget_or STAGE_EVIDENCE_SCHEMA stage [];
          hint = (if required = [] then []
            else newline @ newline @ stage_label @ fb_fields
              @ join newline (map (\<lambda>f. ''  - '' @ f) required) @ fb_use)
      in and_then (traverse format_feedback_issue issues) (\<lambda>lines.
         Inr (fb_intro @ join newline lines @ newline @ newline @ fb_again @ stage_label
              @ fb_complete @ hint)))"

section \<open>Names\<close>

text \<open>The first truthy value of \<open>a or b or c\<close>, as text.\<close>

definition var_text :: "plan_env \<Rightarrow> pyval dict \<Rightarrow> string \<Rightarrow> string \<Rightarrow> string" where
  "var_text env vars k fallback =
     (if truthy (pget vars k) then py_str (env_repr env) (pget vars k) else fallback)"

definition session_id :: "plan_env \<Rightarrow> 'a task_context_scheme \<Rightarrow> string" where
  "session_id env c =
     (let t = strip (var_text env (context_vars c) ''session_id''
                (if plan_id c = [] then ''default'' else plan_id c))
      in if t = [] then ''default'' else t)"

definition skill_name :: "plan_env \<Rightarrow> 'a task_context_scheme \<Rightarrow> string option \<Rightarrow> string option" where
  "skill_name env c fallback =
     (let t = strip (var_text env (context_vars c) ''skill_name'' (case fallback of None \<Rightarrow> [] | Some n \<Rightarrow> n))
      in if t = [] then None else Some t)"

definition skill_stages :: "plan_env \<Rightarrow> 'a task_context_scheme \<Rightarrow> string list \<Rightarrow> string list" where
  "skill_stages env c fallback = (case pget (context_vars c) ''skill_stages'' of
     PList xs \<Rightarrow> filter (\<lambda>s. strip s \<noteq> []) (map (py_str (env_repr env)) xs)
   | _ \<Rightarrow> filter (\<lambda>s. strip s \<noteq> []) fallback)"

section \<open>The hard gate\<close>

definition gate_block :: "plan_env \<Rightarrow> plan_step \<Rightarrow> string \<Rightarrow> string \<Rightarrow> gate_result
    \<Rightarrow> 'a plan_world_scheme \<Rightarrow> 'a plan_world_scheme" where
  "gate_block env st name stage gate w =
     (let why = (if reason gate = [] then ''hard_gate_blocked'' else reason gate)
      in touch (env_clock env) (w\<lparr>
          step_status := dset (step_status w) (step_id st) BLOCKED,
          paused_reason := Some ''hard_gate_blocked'',
          paused_step_id := Some (step_id st),
          ctx_error := Some why,
          context_vars := dset (context_vars w) ''hard_gate'' (PDict
            [(''skill_name'', PStr name), (''stage'', PStr stage),
             (''missing_stages'', PList (map PStr (missing gate))), (''reason'', PStr why)]),
          status := Plan_PAUSED\<rparr>))"

definition check_hard_gate ::
  "plan_env \<Rightarrow> string option \<Rightarrow> string list \<Rightarrow> 'a plan_world_scheme \<Rightarrow> bool \<times> 'a plan_world_scheme" where
  "check_hard_gate env name stages w =
     (if \<not> env_gate env then (False, w)
      else (case get_ready_steps w of
          [] \<Rightarrow> (False, w)
        | st # _ \<Rightarrow> (case step_stage st of
            None \<Rightarrow> (False, w)
          | Some stage \<Rightarrow>
              if stage = [] then (False, w)
              else (case skill_name env w name of
                  None \<Rightarrow> (False, w)
                | Some k \<Rightarrow>
                   (let gate = hard_gate_check (check_prerequisite (stage_rows w)) (session_id env w) k
                          stage (skill_stages env w stages)
                    in if allowed gate then (False, w) else (True, gate_block env st k stage gate w))))))"

section \<open>Stage tracking\<close>

definition stage_to_track :: "plan_env \<Rightarrow> string option \<Rightarrow> plan_step \<Rightarrow> (string \<times> string) option" where
  "stage_to_track env name st = (case (name, step_stage st) of
     (Some k, Some g) \<Rightarrow> if env_tracker env \<and> k \<noteq> [] \<and> g \<noteq> [] then Some (k, g) else None
   | _ \<Rightarrow> None)"

definition start_tracked_stage ::
  "plan_env \<Rightarrow> string \<Rightarrow> string option \<Rightarrow> plan_step \<Rightarrow> 'a plan_world_scheme \<Rightarrow> (exn + unit) \<times> 'a plan_world_scheme" where
  "start_tracked_stage env sid name st w = (case stage_to_track env name st of
     None \<Rightarrow> (Inr (), w)
   | Some (k, g) \<Rightarrow>
      (case start_stage (env_uuid env (draws w)) (env_clock env (clock_reads w)) sid k g (stage_rows w) of
         (r, t) \<Rightarrow> (and_then r (\<lambda>_. Inr ()), w\<lparr>stage_rows := t, draws := Suc (draws w),
            clock_reads := Suc (clock_reads w)\<rparr>)))"

definition complete_tracked_stage ::
  "plan_env \<Rightarrow> string \<Rightarrow> string option \<Rightarrow> plan_step \<Rightarrow> pyval \<Rightarrow> 'a plan_world_scheme
    \<Rightarrow> (exn + unit) \<times> 'a plan_world_scheme" where
  "complete_tracked_stage env sid name st result w = (case stage_to_track env name st of
     None \<Rightarrow> (Inr (), w)
   | Some (k, g) \<Rightarrow> (case verify_evidence (env_repr env) st result of
       Inl e \<Rightarrow> (Inl e, w)
     | Inr evidence \<Rightarrow>
        (case complete_stage (env_clock env (clock_reads w)) sid k g (Some evidence) (stage_rows w) of
           (r, t) \<Rightarrow> (and_then r (\<lambda>_. Inr ()), w\<lparr>stage_rows := t, clock_reads := Suc (clock_reads w)\<rparr>))))"

definition fail_tracked_stage ::
  "plan_env \<Rightarrow> string \<Rightarrow> string option \<Rightarrow> plan_step \<Rightarrow> string \<Rightarrow> 'a plan_world_scheme
    \<Rightarrow> (exn + unit) \<times> 'a plan_world_scheme" where
  "fail_tracked_stage env sid name st why w = (case stage_to_track env name st of
     None \<Rightarrow> (Inr (), w)
   | Some (k, g) \<Rightarrow>
      (case fail_stage (env_clock env (clock_reads w)) sid k g (Some why) (stage_rows w) of
         (r, t) \<Rightarrow> (and_then r (\<lambda>_. Inr ()), w\<lparr>stage_rows := t, clock_reads := Suc (clock_reads w)\<rparr>)))"

section \<open>Consent\<close>

definition build_consent_request :: "'a task_context_scheme \<Rightarrow> plan_step \<Rightarrow> consent_request" where
  "build_consent_request c st = \<lparr>cr_plan_id = plan_id c, cr_step_id = step_id st, cr_skill_id = skill_id st,
     cr_operation = ''execute_step'',
     cr_purpose_type = (if require_consent st then ''plugin_high_risk_skill'' else ''skill_invoke''),
     cr_risk_level = (if require_consent st then ''high'' else ''medium''),
     cr_impact_scope = ''plan_step'', cr_source = ''plan_orchestrator'',
     cr_metadata = [(''result_key'', PStr (result_key st)),
       (''depends_on'', PList (map PStr (depends_on st))), (''retry_max'', PInt (retry_max st))]\<rparr>"

text \<open>\<open>dataclasses.asdict\<close>\<close>

definition consent_dict :: "consent_request \<Rightarrow> pyval dict" where
  "consent_dict q = [(''plan_id'', PStr (cr_plan_id q)), (''step_id'', PStr (cr_step_id q)),
     (''skill_id'', PStr (cr_skill_id q)), (''operation'', PStr (cr_operation q)),
     (''purpose_type'', PStr (cr_purpose_type q)), (''risk_level'', PStr (cr_risk_level q)),
     (''impact_scope'', PStr (cr_impact_scope q)), (''source'', PStr (cr_source q)),
     (''metadata'', PDict (cr_metadata q))]"

text \<open>Asking for an approval: the answer is kept in the context; an adapter also leaves the
  identifier of the request, or none.\<close>

definition ask_consent ::
  "plan_env \<Rightarrow> consent_request \<Rightarrow> pyval dict \<Rightarrow> 'a plan_world_scheme
    \<Rightarrow> (exn + pyval dict) \<times> 'a plan_world_scheme" where
  "ask_consent env q payload w =
     (let w1 = w\<lparr>draws := Suc (draws w)\<rparr>;
          answer = (\<lambda>b. w1\<lparr>context_vars := dset (context_vars w1) ''consent_requested'' (PBool b)\<rparr>)
      in (case env_adapter env of
          Some request \<Rightarrow> (case request q (draws w) of
              Inl e \<Rightarrow> (Inl e, w1)
            | Inr (b, rid) \<Rightarrow> (Inr (dset payload ''request_id''
                  (case rid of None \<Rightarrow> PNone | Some i \<Rightarrow> PStr i)), answer b))
        | None \<Rightarrow> (case env_callback env of
            Some cb \<Rightarrow> (case cb (cr_plan_id q) (cr_step_id q) (draws w) of
                Inl e \<Rightarrow> (Inl e, w1) | Inr b \<Rightarrow> (Inr payload, answer b))
          | None \<Rightarrow> (Inr payload, w1))))"

definition finish_consent_pause ::
  "plan_env \<Rightarrow> string \<Rightarrow> pyval dict \<Rightarrow> 'a plan_world_scheme \<Rightarrow> 'a plan_world_scheme" where
  "finish_consent_pause env sid payload w =
     (let w1 = set_step_consent_request (env_clock env) sid payload w
      in touch (env_clock env)
           (w1\<lparr>context_vars := dsetdefault (context_vars w1) ''requires_consent'' (PBool True)\<rparr>))"

definition prepare_consent_pause ::
  "plan_env \<Rightarrow> 'a plan_world_scheme \<Rightarrow> (exn + bool) \<times> 'a plan_world_scheme" where
  "prepare_consent_pause env w = (case paused_step_id w of
     None \<Rightarrow> (Inr False, w)
   | Some sid \<Rightarrow>
      if sid = [] then (Inr False, w)
      else
       (let w1 = w\<lparr>status := Plan_PAUSED, paused_reason := Some ''waiting_consent''\<rparr>
        in (case (get_step_consent_request sid w1, dget (steps w1) sid) of
            (None, None) \<Rightarrow> (Inl (Exn KeyError sid), w1)
          | (given, st) \<Rightarrow>
             (let payload = (case given of Some p \<Rightarrow> p | None \<Rightarrow> consent_dict (build_consent_request w1 (the st)));
                  w2 = (case get_step_route_decision sid w1 of
                      Some d \<Rightarrow> set_step_route_decision (env_clock env) sid d w1 | None \<Rightarrow> w1)
              in if truthy (pget payload ''request_id'')
                 then (Inr True, finish_consent_pause env sid payload w2)
                 else (case st of
                     None \<Rightarrow> (Inl (Exn KeyError sid), w2)
                   | Some s \<Rightarrow> (case ask_consent env (build_consent_request w2 s) payload w2 of
                       (Inl e, w3) \<Rightarrow> (Inl e, w3)
                     | (Inr p, w3) \<Rightarrow> (Inr True, finish_consent_pause env sid
                         (dsetdefault p ''request_id'' (PStr (env_uuid env (draws w3))))
                         (w3\<lparr>draws := Suc (draws w3)\<rparr>))))))))"

definition consent_error :: "string \<Rightarrow> exn" where
  "consent_error msg = Exn A2PlanValidationError msg"

definition apply_consent_decision ::
  "plan_env \<Rightarrow> string \<Rightarrow> 'a plan_world_scheme \<Rightarrow> exn + 'a plan_world_scheme" where
  "apply_consent_decision env rid w = (case paused_step_id w of
     None \<Rightarrow> Inl (consent_error ''plan is not waiting for consent'')
   | Some sid \<Rightarrow>
      if paused_reason w \<noteq> Some ''waiting_consent''
      then Inl (consent_error ''plan is not waiting for consent'')
      else
       (let payload = (case get_step_consent_request sid w of None \<Rightarrow> [] | Some p \<Rightarrow> p)
        in if var_text env payload ''request_id'' [] \<noteq> rid
           then Inl (consent_error ''consent request does not match paused plan'')
           else (case env_pending env rid of
               Some (True, True) \<Rightarrow> Inr (touch (env_clock env) (w\<lparr>
                   step_status := dset (step_status w) sid READY,
                   paused_reason := None, paused_step_id := None, status := Plan_RUNNING,
                   context_vars := dset (context_vars w) ''requires_consent'' (PBool False)\<rparr>))
             | Some (True, False) \<Rightarrow>
                 Inr (mark_terminal (env_clock env)
                   ((mark_processed sid (mark_step_completed (env_clock env) sid
                      (w\<lparr>step_status := dset (step_status w) sid CANCELLED\<rparr>)))\<lparr>status := Plan_CANCELLED\<rparr>))
             | _ \<Rightarrow> Inl (consent_error ''consent request has not been decided''))))"

section \<open>The verdict\<close>

definition evaluate_plan_status :: "'a task_context_scheme \<Rightarrow> string" where
  "evaluate_plan_status c =
     (let sts = map snd (step_status c)
      in if sts \<noteq> [] \<and> list_all (\<lambda>s. s = DONE) sts then ''completed''
         else if BLOCKED \<in> set sts then ''blocked''
         else if FAILED \<in> set sts then ''failed''
         else if list_ex (\<lambda>s. s \<in> {PENDING, READY, RUNNING}) sts then ''in_progress''
         else ''unknown'')"

end
