(* ===== verification/Plan_Routing.thy ===== *)
theory Plan_Routing
  imports Plan_World
begin

text \<open>
  Where a step is sent: \<open>FallbackController\<close> (\<open>core/fallback_controller.py\<close>), \<open>RoutedPlanInvoker\<close>
  (\<open>shell/routed_plan_invoker.py\<close>) and \<open>PlanSubagentDispatch\<close> (\<open>core/plan_subagent_dispatch.py\<close>).

  The three back ends of the routed invoker are arguments; \<open>echo_backend\<close> is the one the source
  defines. A routing mode is its text. The scheduler of sub-agents is an argument that spawns
  and runs one, and whose result is the dictionary of its dataclass.
\<close>

section \<open>Sequences\<close>

text \<open>\<open>xs[i]\<close>, with negative indices from the end.\<close>

definition py_index :: "'v list \<Rightarrow> int \<Rightarrow> exn + 'v" where
  "py_index xs i =
     (let n = int (length xs) in
      if 0 \<le> i \<and> i < n then Inr (xs ! nat i)
      else if - n \<le> i \<and> i < 0 then Inr (xs ! nat (n + i))
      else Inl (Exn (AppError ''IndexError'') ''list index out of range''))"

text \<open>\<open>list(vars.get(k) or [])\<close> and \<open>int(vars.get(k, 0) or 0)\<close>\<close>

definition var_list :: "pyval dict \<Rightarrow> string \<Rightarrow> exn + pyval list" where
  "var_list vars k = py_iter (or_empty (pget vars k))"

definition var_int :: "pyval dict \<Rightarrow> string \<Rightarrow> exn + int" where
  "var_int vars k = (if truthy (pget vars k) then py_int (pget vars k) else Inr 0)"

section \<open>Fallback\<close>

definition initialize_fallback ::
  "string list \<Rightarrow> string option \<Rightarrow> 'a task_context_scheme \<Rightarrow> 'a task_context_scheme" where
  "initialize_fallback chain mode c =
     (let v1 = dset (dset (context_vars c) ''fallback_chain'' (PList (map PStr chain))) ''fallback_index'' (PInt 0);
          v2 = (case mode of
              Some m \<Rightarrow> dset v1 ''route_mode'' (PStr m)
            | None \<Rightarrow> (case chain of [] \<Rightarrow> v1 | m # _ \<Rightarrow> dset v1 ''route_mode'' (PStr m)))
      in c\<lparr>context_vars := dsetdefault v2 ''fallback_history'' (PList [])\<rparr>)"

definition can_advance :: "'a task_context_scheme \<Rightarrow> exn + bool" where
  "can_advance c =
     and_then (var_list (context_vars c) ''fallback_chain'') (\<lambda>chain.
     and_then (var_int (context_vars c) ''fallback_index'') (\<lambda>i.
       Inr (chain \<noteq> [] \<and> i + 1 < int (length chain))))"

definition fallback_entry :: "pyval \<Rightarrow> pyval \<Rightarrow> string \<Rightarrow> string option \<Rightarrow> string option \<Rightarrow> pyval" where
  "fallback_entry from_mode to_mode why sid err = PDict
     [(''from'', from_mode), (''to'', to_mode), (''reason'', PStr why), (''step_id'', opt_str sid),
      (''error'', opt_str err)]"

text \<open>The step goes back to pending, but stays marked as processed.\<close>

definition reopen_step :: "string option \<Rightarrow> 'a task_context_scheme \<Rightarrow> 'a task_context_scheme" where
  "reopen_step sid c = (case sid of
     None \<Rightarrow> c
   | Some k \<Rightarrow> if dget (step_status c) k = None then c
       else c\<lparr>step_status := dset (step_status c) k PENDING, step_errors := dpop (step_errors c) k,
              processed_steps := append_new k (processed_steps c)\<rparr>)"

definition advance_fallback ::
  "string \<Rightarrow> string option \<Rightarrow> string option \<Rightarrow> 'a task_context_scheme \<Rightarrow> exn + (bool \<times> 'a task_context_scheme)" where
  "advance_fallback why sid err c =
     and_then (can_advance c) (\<lambda>ok. if \<not> ok then Inr (False, c) else
     and_then (var_list (context_vars c) ''fallback_chain'') (\<lambda>chain.
     and_then (var_int (context_vars c) ''fallback_index'') (\<lambda>i.
     and_then (py_index chain i) (\<lambda>cur.
     and_then (py_index chain (i + 1)) (\<lambda>nxt.
     and_then (var_list (context_vars c) ''fallback_history'') (\<lambda>hist.
       let v1 = dset (context_vars c) ''fallback_history'' (PList (hist @ [fallback_entry cur nxt why sid err]));
           v2 = dset v1 ''fallback_index'' (PInt (i + 1));
           v3 = dset v2 ''route_mode'' nxt;
           v4 = dset v3 ''route_reason'' (PStr why)
       in Inr (True, reopen_step sid (c\<lparr>context_vars := v4\<rparr>))))))))"

section \<open>The routed invoker\<close>

definition signals_key :: string where
  "signals_key = ''_persona_turn_signals''"

definition echo_backend :: invoker where
  "echo_backend skill payload idem n = Inr (PDict [(''skill_id'', PStr skill),
     (''idempotency_key'', opt_str idem), (''echo'', PDict payload)])"

datatype backend = Local | Cloud | Echo

text \<open>\<open>str(v or 'local')\<close>\<close>

definition mode_text :: "(pyval \<Rightarrow> string) \<Rightarrow> pyval \<Rightarrow> string" where
  "mode_text rp v = (if truthy v then py_str rp v else ''local'')"

definition choose_backend :: "(pyval \<Rightarrow> string) \<Rightarrow> routed_invoker \<Rightarrow> pyval dict \<Rightarrow> backend" where
  "choose_backend rp r payload =
     (let mode = mode_text rp (pget payload ''_route_mode'')
      in if mode = ''cloud'' \<and> cloud_invoker r \<noteq> None then Cloud
         else if mode = ''echo'' \<and> echo_invoker r \<noteq> None then Echo else Local)"

definition routed_invoke :: "(pyval \<Rightarrow> string) \<Rightarrow> routed_invoker \<Rightarrow> invoker" where
  "routed_invoke rp r skill payload idem n = (case choose_backend rp r payload of
     Cloud \<Rightarrow> the (cloud_invoker r) skill payload idem n
   | Echo \<Rightarrow> the (echo_invoker r) skill payload idem n
   | Local \<Rightarrow> local_invoker r skill payload idem n)"

definition step_route_mode ::
  "(pyval \<Rightarrow> string) \<Rightarrow> string option \<Rightarrow> pyval dict \<Rightarrow> 'a task_context_scheme \<Rightarrow> string" where
  "step_route_mode rp given decision c = (case given of
     Some (m # ms) \<Rightarrow> m # ms
   | _ \<Rightarrow> if truthy (pget decision ''mode'') then py_str rp (pget decision ''mode'')
          else mode_text rp (pget (context_vars c) ''route_mode''))"

definition copy_signals :: "string \<Rightarrow> pyval dict \<Rightarrow> pyval dict \<Rightarrow> pyval dict" where
  "copy_signals mode vars payload = (case pget vars signals_key of
     PDict d \<Rightarrow> if mode = ''local'' then dset payload signals_key (PDict d) else payload
   | _ \<Rightarrow> payload)"

definition base_payload ::
  "(pyval \<Rightarrow> string) \<Rightarrow> plan_step \<Rightarrow> string \<Rightarrow> pyval list \<Rightarrow> int \<Rightarrow> 'a task_context_scheme \<Rightarrow> pyval dict" where
  "base_payload rp st mode chain i c =
     (let p1 = dset (dset (dset (dset (step_payload st) ''_route_mode'' (PStr mode))
            ''_fallback_chain'' (PList chain)) ''_fallback_index'' (PInt i))
            ''_step_results'' (PDict (step_results c));
          p2 = (case step_stage st of
             None \<Rightarrow> p1 | Some g \<Rightarrow> if g = [] then p1 else dsetdefault p1 ''stage'' (PStr g));
          fb = pget (context_vars c) ''_quality_retry_feedback''
      in if truthy fb then dset p2 ''_quality_retry_feedback'' (PStr (py_str rp fb)) else p2)"

definition decision_of :: "plan_step \<Rightarrow> 'a task_context_scheme \<Rightarrow> pyval dict" where
  "decision_of st c = (case get_step_route_decision (step_id st) c of None \<Rightarrow> [] | Some d \<Rightarrow> d)"

definition routed_payload ::
  "(pyval \<Rightarrow> string) \<Rightarrow> plan_step \<Rightarrow> string option \<Rightarrow> 'a task_context_scheme \<Rightarrow> exn + pyval dict" where
  "routed_payload rp st given c =
     (let mode = step_route_mode rp given (decision_of st c) c
      in and_then (case pget (decision_of st c) ''fallback_chain'' of
            PList xs \<Rightarrow> Inr xs | _ \<Rightarrow> var_list (context_vars c) ''fallback_chain'') (\<lambda>chain.
         and_then (var_int (context_vars c) ''fallback_index'') (\<lambda>i.
           Inr (copy_signals mode (context_vars c) (base_payload rp st mode chain i c)))))"

definition invoke_step ::
  "(pyval \<Rightarrow> string) \<Rightarrow> routed_invoker \<Rightarrow> plan_step \<Rightarrow> 'a task_context_scheme \<Rightarrow> nat \<Rightarrow> exn + pyval" where
  "invoke_step rp r st c n = and_then (routed_payload rp st None c) (\<lambda>p.
     routed_invoke rp r (skill_id st) p (idempotency_key st) n)"

section \<open>Sub-agents\<close>

definition spawn_arguments :: "'a task_context_scheme \<Rightarrow> plan_step \<Rightarrow> subagent_role \<Rightarrow> string \<Rightarrow> string \<Rightarrow> spawn_request" where
  "spawn_arguments c st role session privacy = \<lparr>sp_parent_session = session, sp_role = role,
     sp_task = (if step_description st \<noteq> [] then step_description st else step_title st),
     sp_files = step_files st, sp_privacy = privacy, sp_plan_id = plan_id c, sp_step_id = step_id st\<rparr>"

definition build_result_payload :: "pyval dict \<Rightarrow> plan_step \<Rightarrow> pyval dict" where
  "build_result_payload result st =
     dset result ''subagent_role'' (opt_str (map_option role_text (subagent_type st)))"

definition dispatch_subagent ::
  "(spawn_request \<Rightarrow> nat \<Rightarrow> exn + pyval dict) option \<Rightarrow> 'a task_context_scheme \<Rightarrow> plan_step \<Rightarrow> string \<Rightarrow> string
    \<Rightarrow> nat \<Rightarrow> exn + pyval" where
  "dispatch_subagent sched c st session privacy n = (case sched of
     None \<Rightarrow> Inl (Exn A2PlanExecutionError ''subagent_scheduler is required'')
   | Some run \<Rightarrow> (case subagent_type st of
       None \<Rightarrow> Inl (Exn A2PlanExecutionError ''step.subagent_type is required'')
     | Some role \<Rightarrow> and_then (run (spawn_arguments c st role session privacy) n) (\<lambda>result.
         Inr (PDict (build_result_payload result st)))))"

definition handle_subagent_error :: "clock \<Rightarrow> plan_step \<Rightarrow> exn \<Rightarrow> 'a task_context_scheme \<Rightarrow> 'a task_context_scheme" where
  "handle_subagent_error clk st e c =
     touch clk (c\<lparr>step_errors := dset (step_errors c) (step_id st) (exn_text e)\<rparr>)"

section \<open>Where the signals of a turn go\<close>

lemma mode_text_str [simp]: "mode_text rp (PStr m) = (if m = [] then ''local'' else m)"
  by (simp add: mode_text_def py_str_def)

lemma signals_key_distinct [simp]:
  "''_route_mode'' \<noteq> signals_key" "''_fallback_chain'' \<noteq> signals_key" "''_fallback_index'' \<noteq> signals_key"
  "''_step_results'' \<noteq> signals_key" "''stage'' \<noteq> signals_key" "''_quality_retry_feedback'' \<noteq> signals_key"
  by (simp_all add: signals_key_def)

lemma base_payload_entries:
  "dget (base_payload rp st mode chain i c) ''_route_mode'' = Some (PStr mode)"
  "dget (base_payload rp st mode chain i c) signals_key = dget (step_payload st) signals_key"
  by (simp_all add: base_payload_def Let_def signals_key_distinct [symmetric] split: option.split)

lemma copy_signals_cases:
  "copy_signals mode vars p = p \<or> mode = ''local'' \<and> (\<exists>d. copy_signals mode vars p = dset p signals_key d)"
  by (simp add: copy_signals_def split: pyval.split) blast

lemma routed_payload_form:
  assumes "routed_payload rp st given c = Inr p"
  obtains mode chain i where "mode = step_route_mode rp given (decision_of st c) c"
    "p = copy_signals mode (context_vars c) (base_payload rp st mode chain i c)"
  using assms unfolding routed_payload_def Let_def and_then_Inr_iff by blast

section \<open>Properties\<close>

text \<open>The persona signals of a turn never leave the machine: a payload that the routed invoker
  hands to the cloud or echo back end carries none, unless the plan itself put them there.\<close>

theorem signals_stay_local:
  assumes "routed_payload rp st given c = Inr p" and "choose_backend rp r p \<noteq> Local"
  shows "dget p signals_key = dget (step_payload st) signals_key"
proof -
  obtain mode chain i where p: "p = copy_signals mode (context_vars c) (base_payload rp st mode chain i c)"
    using routed_payload_form [OF assms(1)] by metis
  have mode: "pget p ''_route_mode'' = PStr mode"
    using copy_signals_cases [of mode "context_vars c" "base_payload rp st mode chain i c"] p
      base_payload_entries(1) [of rp st mode chain i c]
    by (auto simp: pget_def dget_or_def)
  with assms(2) have "mode \<noteq> ''local''"
    by (auto simp: choose_backend_def Let_def split: if_splits)
  with copy_signals_cases [of mode "context_vars c" "base_payload rp st mode chain i c"] p
  have "p = base_payload rp st mode chain i c" by auto
  then show ?thesis by (simp add: base_payload_entries)
qed

theorem signals_stay_local_witness:
  "\<exists>p. dget p ''_route_mode'' = Some (PStr ''cloud'') \<and> dget p signals_key = None"
proof -
  let ?c = "sample_context [sample_step ''a'' []] []
    \<lparr>context_vars := [(''route_mode'', PStr ''cloud''), (signals_key, PDict [(''emotion_label'', PStr ''sad'')])]\<rparr>"
  let ?r = "\<lparr>local_invoker = echo_backend, cloud_invoker = Some echo_backend, echo_invoker = None\<rparr>"
  let ?p = "[(''_route_mode'', PStr ''cloud''), (''_fallback_chain'', PList []),
    (''_fallback_index'', PInt 0), (''_step_results'', PDict [])]"
  have h: "routed_payload (\<lambda>_. []) (sample_step ''a'' []) None ?c = Inr ?p"
    "choose_backend (\<lambda>_. []) ?r ?p \<noteq> Local"
    by code_simp+
  have "dget (step_payload (sample_step ''a'' [])) signals_key = None" by code_simp
  with signals_stay_local [OF h] show ?thesis by (intro exI [of _ ?p]) simp
qed

end
