(* ===== verification/Plan_Orchestrator.thy ===== *)
theory Plan_Orchestrator
  imports Plan_Gateway Plan_Routing
begin

text \<open>
  \<open>PlanOrchestrator\<close> (\<open>core/plan_orchestrator.py\<close>): starting, resuming, pausing, cancelling and
  retrying plans, one step at a time or to the end, with the gateway, the engine, the fallback
  controller and the store.

  An operation takes the world and returns it changed, with an exception or a result. Saving
  writes the snapshot of the context into the store and the journal; publishing writes the
  journal. The operations on a plan by its identifier load the snapshot into the world. The
  engine's loop is given fuel; \<open>None\<close> is a loop that has not stopped. The legacy argument
  \<open>invoke_skill\<close> is not given, and templates and decomposition are outside.
\<close>

section \<open>Store and events\<close>

definition save :: "string \<Rightarrow> 'a plan_world_scheme \<Rightarrow> 'a plan_world_scheme" where
  "save pid w = w\<lparr>snapshots := dset (snapshots w) pid (serialize w), journal := journal w @ [Saved pid]\<rparr>"

definition publish :: "string \<Rightarrow> string option \<Rightarrow> 'a plan_world_scheme \<Rightarrow> 'a plan_world_scheme" where
  "publish name sid w = w\<lparr>journal := journal w @ [Published name sid]\<rparr>"

definition put_context :: "task_context \<Rightarrow> 'a plan_world_scheme \<Rightarrow> 'a plan_world_scheme" where
  "put_context c w = task_context.extend c (task_context.more w)"

text \<open>\<open>self._store.load\<close>: the context becomes the one of the world, which keeps counting the reads
  of the clock.\<close>

definition load_plan ::
  "plan_env \<Rightarrow> string \<Rightarrow> 'a plan_world_scheme \<Rightarrow> (exn + bool) \<times> 'a plan_world_scheme" where
  "load_plan env pid w = (case dget (snapshots w) pid of
     None \<Rightarrow> (Inr False, w)
   | Some d \<Rightarrow> (case deserialize (env_repr env) (env_uuid env (draws w)) d of
       Inl e \<Rightarrow> (Inl e, w\<lparr>draws := Suc (draws w)\<rparr>)
     | Inr c \<Rightarrow> (Inr True, put_context (c\<lparr>clock_reads := clock_reads w\<rparr>) (w\<lparr>draws := Suc (draws w)\<rparr>))))"

definition load_context ::
  "plan_env \<Rightarrow> string \<Rightarrow> 'a plan_world_scheme \<Rightarrow> (exn + bool) \<times> 'a plan_world_scheme" where
  "load_context env pid w = load_plan env pid w"

definition save_context :: "plan_env \<Rightarrow> 'a plan_world_scheme \<Rightarrow> 'a plan_world_scheme" where
  "save_context env w = (let w1 = touch (env_clock env) w in save (plan_id w1) w1)"

section \<open>The sample library\<close>

definition sample_ids_of :: "plan_env \<Rightarrow> pyval dict \<Rightarrow> string list" where
  "sample_ids_of env d = (case pget d ''sample_ids'' of
     PList xs \<Rightarrow> dedup (filter (\<lambda>s. strip s \<noteq> []) (map (py_str (env_repr env)) xs)) | _ \<Rightarrow> [])"

definition all_green :: "'a task_context_scheme \<Rightarrow> bool" where
  "all_green c = (status c = Plan_DONE \<and> step_status c \<noteq> [] \<and> list_all (\<lambda>(k, s). s = DONE) (step_status c)
     \<and> list_all (\<lambda>(k, n). n \<le> 0) (quality_retry_counts c))"

definition report_outcome :: "plan_env \<Rightarrow> pyval dict \<Rightarrow> 'a plan_world_scheme \<Rightarrow> 'a plan_world_scheme" where
  "report_outcome env d w =
     (let candidate = strip (var_text env d ''candidate_sample_id'' []);
          ids = dedup (sample_ids_of env d @ (if candidate = [] then [] else [candidate]))
      in w\<lparr>journal := journal w @ map (\<lambda>i. SampleOutcome i (all_green w)) ids
            @ (if all_green w \<and> candidate \<noteq> [] then [SampleVerified candidate] else [])\<rparr>)"

definition apply_sample_terminal_feedback ::
  "plan_env \<Rightarrow> 'a plan_world_scheme \<Rightarrow> bool \<times> 'a plan_world_scheme" where
  "apply_sample_terminal_feedback env w =
     (if \<not> env_samples env \<or> \<not> is_terminal w then (False, w)
      else if pget (context_vars w) ''_sample_feedback_applied'' = PBool True then (False, w)
      else if task_context.plan_status w = Some ''blocked'' then (False, w)
      else (let w1 = w\<lparr>context_vars := dset (context_vars w) ''_sample_feedback_applied'' (PBool True)\<rparr>
        in (True, if status w1 = Plan_CANCELLED then w1
            else (case pget (context_vars w1) ''decomposition'' of
                PDict d \<Rightarrow> report_outcome env d w1 | _ \<Rightarrow> w1))))"

section \<open>Executing a step\<close>

definition external_call :: "(nat \<Rightarrow> exn + 'r) \<Rightarrow> 'a plan_world_scheme \<Rightarrow> (exn + 'r) \<times> 'a plan_world_scheme" where
  "external_call f w = (f (draws w), w\<lparr>draws := Suc (draws w)\<rparr>)"

text \<open>The payload for the plain skill invoker.\<close>

definition routing_entries :: "pyval dict \<Rightarrow> pyval dict \<Rightarrow> exn + pyval dict" where
  "routing_entries vars p0 =
     (let p1 = (if pget vars ''route_mode'' \<noteq> PNone then dset p0 ''_route_mode'' (pget vars ''route_mode'') else p0)
      in and_then (if pget vars ''fallback_chain'' \<noteq> PNone
           then and_then (var_list vars ''fallback_chain'') (\<lambda>xs. Inr (dset p1 ''_fallback_chain'' (PList xs)))
           else Inr p1) (\<lambda>p2.
         if pget vars ''fallback_index'' \<noteq> PNone
         then and_then (var_int vars ''fallback_index'') (\<lambda>i. Inr (dset p2 ''_fallback_index'' (PInt i)))
         else Inr p2))"

definition call_invoker ::
  "plan_env \<Rightarrow> plan_step \<Rightarrow> (pyval dict \<Rightarrow> pyval dict) \<Rightarrow> 'a plan_world_scheme \<Rightarrow> (exn + pyval) \<times> 'a plan_world_scheme" where
  "call_invoker env st extra w = (case env_invoker env of
     None \<Rightarrow> (Inl (Exn A2PlanExecutionError ''skill_invoker is required''), w)
   | Some call \<Rightarrow> (case routing_entries (context_vars w) (step_payload st) of
       Inl e \<Rightarrow> (Inl e, w)
     | Inr p \<Rightarrow> external_call (call (skill_id st) (extra p) (idempotency_key st)) w))"

text \<open>The executor that \<open>_run\<close> hands to the engine.\<close>

definition run_executor :: "plan_env \<Rightarrow> 'a plan_world_scheme executor" where
  "run_executor env st w = (case env_routed env of
     Some r \<Rightarrow> external_call (invoke_step (env_repr env) r st w) w
   | None \<Rightarrow> call_invoker env st (\<lambda>p. p) w)"

definition drop_var :: "string \<Rightarrow> 'a plan_world_scheme \<Rightarrow> 'a plan_world_scheme" where
  "drop_var k w = w\<lparr>context_vars := dpop (context_vars w) k\<rparr>"

definition put_var :: "string \<Rightarrow> pyval \<Rightarrow> 'a plan_world_scheme \<Rightarrow> 'a plan_world_scheme" where
  "put_var k v w = w\<lparr>context_vars := dset (context_vars w) k v\<rparr>"

definition retry_extras :: "plan_env \<Rightarrow> pyval dict \<Rightarrow> string \<Rightarrow> pyval dict \<Rightarrow> pyval dict" where
  "retry_extras env vars feedback p =
     (let p1 = (if feedback = [] then p else dset p ''_quality_retry_feedback'' (PStr feedback))
      in copy_signals (mode_text (env_repr env) (pget vars ''route_mode'')) vars p1)"

definition privacy_of :: "plan_env \<Rightarrow> pyval dict \<Rightarrow> string" where
  "privacy_of env vars = var_text env vars ''privacy_mode''
     (if env_privacy env = [] then ''local_only'' else env_privacy env)"

definition execute_step_raw :: "plan_env \<Rightarrow> 'a plan_world_scheme executor" where
  "execute_step_raw env st w =
     (let feedback = dget_or (feedback_overrides w) (step_id st) []
      in if subagent_type st \<noteq> None \<and> env_subagents env \<noteq> None
         then external_call (dispatch_subagent (env_subagents env) w st (session_id env w)
                (privacy_of env (context_vars w))) w
         else (case env_routed env of
             Some r \<Rightarrow>
              (let w1 = (if feedback = [] then w else put_var ''_quality_retry_feedback'' (PStr feedback) w)
               in (case external_call (invoke_step (env_repr env) r st w1) w1 of
                     (res, w2) \<Rightarrow> (res, drop_var ''_quality_retry_feedback'' w2)))
           | None \<Rightarrow> call_invoker env st (retry_extras env (context_vars w) feedback) w))"

text \<open>The check after a step, and at most one more attempt with feedback.\<close>

definition post_issues :: "plan_env \<Rightarrow> plan_step \<Rightarrow> pyval \<Rightarrow> string list" where
  "post_issues env st result = (case step_stage st of
     None \<Rightarrow> [] | Some g \<Rightarrow> if g = [] then [] else verify_post_execution (env_repr env) st result)"

definition reject_step :: "plan_env \<Rightarrow> plan_step \<Rightarrow> string list \<Rightarrow> 'a plan_world_scheme \<Rightarrow> (exn + pyval) \<times> 'a plan_world_scheme" where
  "reject_step env st issues w = (Inl (Exn A2PlanValidationError (join ''; '' issues)),
     touch (env_clock env) (w\<lparr>paused_reason := Some ''post_verification_failed'',
       paused_step_id := Some (step_id st)\<rparr>))"

definition retry_event :: "plan_step \<Rightarrow> string list \<Rightarrow> pyval" where
  "retry_event st issues = PDict [(''event'', PStr ''step_retry''), (''step_id'', PStr (step_id st)),
     (''issues'', PList (map PStr issues))]"

definition note_retry :: "plan_env \<Rightarrow> plan_step \<Rightarrow> string list \<Rightarrow> string \<Rightarrow> 'a plan_world_scheme \<Rightarrow> 'a plan_world_scheme" where
  "note_retry env st issues feedback w =
     (let w1 = w\<lparr>feedback_overrides := dset (feedback_overrides w) (step_id st) feedback,
            context_vars := dsetdefault (context_vars w) ''quality_retry_events'' (PList [])\<rparr>;
          w2 = (case pget (context_vars w1) ''quality_retry_events'' of
              PList xs \<Rightarrow> put_var ''quality_retry_events'' (PList (xs @ [retry_event st issues])) w1
            | _ \<Rightarrow> w1);
          w3 = publish ''task.quality_retry_taken'' (Some (step_id st)) (touch (env_clock env) w2)
      in save (plan_id w3) w3)"

definition retry_signals :: pyval where
  "retry_signals = PDict [(''emotion_label'', PNone), (''emotion_confidence'', PNone),
     (''audit_events'', PList [PStr ''audit/quality_retry_taken''])]"

definition drop_feedback :: "plan_step \<Rightarrow> 'a plan_world_scheme \<Rightarrow> 'a plan_world_scheme" where
  "drop_feedback st w = w\<lparr>feedback_overrides := dpop (feedback_overrides w) (step_id st)\<rparr>"

definition quality_retry :: "plan_env \<Rightarrow> string list \<Rightarrow> 'a plan_world_scheme executor" where
  "quality_retry env issues st w =
     (let w1 = w\<lparr>quality_retry_counts := dset (quality_retry_counts w) (step_id st)
            (dget_or (quality_retry_counts w) (step_id st) 0 + 1)\<rparr>
      in (case build_retry_feedback st issues of
          Inl e \<Rightarrow> (Inl e, w1)
        | Inr feedback \<Rightarrow>
           (case execute_step_raw env st (put_var signals_key retry_signals (note_retry env st issues feedback w1)) of
              (res, w2) \<Rightarrow>
               (let w3 = drop_var signals_key w2 in (case res of
                  Inl e \<Rightarrow> (Inl e, w3)
                | Inr v \<Rightarrow> if post_issues env st v \<noteq> [] then reject_step env st (post_issues env st v) w3
                    else (Inr v, touch (env_clock env) (drop_feedback st w3)))))))"

definition execute_step_with_quality_retry :: "plan_env \<Rightarrow> 'a plan_world_scheme executor" where
  "execute_step_with_quality_retry env st w = (case execute_step_raw env st w of
     (Inl e, w1) \<Rightarrow> (Inl e, w1)
   | (Inr v, w1) \<Rightarrow>
      (let issues = post_issues env st v
       in if issues = [] then (Inr v, drop_feedback st w1)
          else if 1 \<le> dget_or (quality_retry_counts w1) (step_id st) 0 then reject_step env st issues w1
          else quality_retry env issues st w1))"

text \<open>The executor that \<open>execute_next\<close> hands to the engine: it tracks the stage around the step.\<close>

definition is_tracked_error :: "exn \<Rightarrow> bool" where
  "is_tracked_error e = (is_runtime_kind (exn_kind e) \<or> is_value_kind (exn_kind e)
     \<or> exn_kind e \<in> {KeyError, TimeoutError, ConnectionError})"

definition step_failed :: "plan_env \<Rightarrow> string \<Rightarrow> string option \<Rightarrow> plan_step \<Rightarrow> exn
    \<Rightarrow> 'a plan_world_scheme \<Rightarrow> (exn + pyval) \<times> 'a plan_world_scheme" where
  "step_failed env sid name st e w =
     (if \<not> is_tracked_error e then (Inl e, w)
      else (let w1 = (if subagent_type st \<noteq> None then handle_subagent_error (env_clock env) st e w else w)
        in (case fail_tracked_stage env sid name st (exn_text e) w1 of
              (Inl e', w2) \<Rightarrow> (Inl e', w2) | (Inr _, w2) \<Rightarrow> (Inl e, w2))))"

definition tracked_executor :: "plan_env \<Rightarrow> 'a plan_world_scheme executor" where
  "tracked_executor env st w =
     (let sid = session_id env w; name = skill_name env w (own_skill w)
      in (case start_tracked_stage env sid name st w of
          (Inl e, w1) \<Rightarrow> (Inl e, w1)
        | (Inr _, w1) \<Rightarrow> (case execute_step_with_quality_retry env st w1 of
            (Inl e, w2) \<Rightarrow> step_failed env sid name st e w2
          | (Inr v, w2) \<Rightarrow> (case complete_tracked_stage env sid name st v w2 of
              (Inl e, w3) \<Rightarrow> (Inl e, w3) | (Inr _, w3) \<Rightarrow> (Inr v, w3)))))"

end
