(* ===== verification/Plan_Operations.thy ===== *)
theory Plan_Operations
  imports Plan_Orchestrator Dag_Validate
begin

text \<open>
  The operations of \<open>PlanOrchestrator\<close> (\<open>core/plan_orchestrator.py\<close>) on whole plans: creating,
  starting, resuming, pausing, cancelling, retrying, deciding consent, running to the end and
  executing the next step; with the status of the plan and the events that follow from it.

  Every operation returns an exception or the unit and the world. \<open>None\<close> is a loop of the engine
  or of the fallback that the fuel did not let stop. The decomposer's last result is an argument
  of the operations that attach it.
\<close>

section \<open>Status and events\<close>

definition is_green_status :: "step_status \<Rightarrow> bool" where
  "is_green_status s = (s \<in> {PENDING, READY, RUNNING})"

definition finalize_plan_status ::
  "plan_env \<Rightarrow> 'a plan_world_scheme \<Rightarrow> string option \<times> 'a plan_world_scheme" where
  "finalize_plan_status env w =
     (if task_context.plan_status w \<in> {Some ''completed'', Some ''failed'', Some ''blocked''} then (None, w)
      else if status w = Plan_PAUSED \<and> paused_reason w \<in> {Some ''waiting_consent'', Some ''hard_gate_blocked''}
      then (None, w)
      else if list_ex is_green_status (map snd (step_status w)) then (None, w)
      else (let v = evaluate_plan_status w
        in if v \<notin> {''completed'', ''failed'', ''blocked''} then (None, w)
           else if v = ''blocked'' \<and> \<not> list_ex (\<lambda>s. s \<in> {FAILED, CANCELLED}) (map snd (step_status w))
           then (None, w)
           else (Some v, mark_terminal (env_clock env) (w\<lparr>plan_status := Some v,
                   status := (if v = ''completed'' then Plan_DONE else Plan_FAILED)\<rparr>))))"

definition step_event :: "step_status \<Rightarrow> string option" where
  "step_event s = (case s of DONE \<Rightarrow> Some ''task.step_completed'' | FAILED \<Rightarrow> Some ''task.step_failed''
     | DEGRADED \<Rightarrow> Some ''task.step_degraded'' | BLOCKED \<Rightarrow> Some ''task.step_blocked'' | _ \<Rightarrow> None)"

text \<open>The loop over the processed steps: the events so far and the steps already announced.\<close>

definition collect_step ::
  "step_status dict \<Rightarrow> string \<Rightarrow> (string \<times> string option) list \<times> string list
    \<Rightarrow> (string \<times> string option) list \<times> string list" where
  "collect_step stm sid acc = (case acc of (evs, pub) \<Rightarrow>
     if sid \<in> set pub then (evs, pub)
     else (case dget stm sid of
         None \<Rightarrow> (evs, pub)
       | Some s \<Rightarrow> (case step_event s of
           None \<Rightarrow> (evs, pub) | Some name \<Rightarrow> (evs @ [(name, Some sid)], pub @ [sid]))))"

definition collect_step_events ::
  "plan_env \<Rightarrow> 'a plan_world_scheme \<Rightarrow> (string \<times> string option) list \<times> 'a plan_world_scheme" where
  "collect_step_events env w =
     (let extra = (case pget (context_vars w) ''_step_unblocked_events'' of
            PList xs \<Rightarrow> map (\<lambda>v. (''task.step_unblocked'', Some (py_str (env_repr env) v))) xs | _ \<Rightarrow> []);
          (evs, pub) = fold (collect_step (step_status w)) (processed_steps w) ([], published_step_events w)
      in (evs @ extra, w\<lparr>published_step_events := pub,
            context_vars := dpop (context_vars w) ''_step_unblocked_events''\<rparr>))"

definition collect_plan_events :: "'a task_context_scheme \<Rightarrow> (string \<times> string option) list" where
  "collect_plan_events c =
     (if task_context.plan_status c = Some ''completed'' then [(''task.plan_completed'', None)]
      else if task_context.plan_status c = Some ''blocked'' then [(''task.plan_blocked'', paused_step_id c)]
      else if task_context.plan_status c = Some ''failed'' then [(''task.plan_failed'', None)]
      else if status c = Plan_PAUSED \<and> paused_reason c = Some ''waiting_consent''
      then [(''task.plan_paused'', paused_step_id c)]
      else if status c = Plan_DONE then [(''task.plan_completed'', None)] else [])"

definition publish_all :: "(string \<times> string option) list \<Rightarrow> 'a plan_world_scheme \<Rightarrow> 'a plan_world_scheme" where
  "publish_all evs w = fold (\<lambda>(name, sid). publish name sid) evs w"

definition unblock_done ::
  "plan_env \<Rightarrow> step_status dict \<Rightarrow> string \<times> step_status \<Rightarrow> 'a plan_world_scheme \<Rightarrow> 'a plan_world_scheme" where
  "unblock_done env previous item w =
     (if snd item \<noteq> DONE \<or> dget previous (fst item) = Some DONE then w
      else (case propagate_unblock (env_clock env) (fst item) w of
          (ids, w1) \<Rightarrow> (case pget (context_vars w1) ''_step_unblocked_events'' of
              PList xs \<Rightarrow> put_var ''_step_unblocked_events'' (PList (xs @ map PStr ids)) w1 | _ \<Rightarrow> w1)))"

definition propagate_unblock_events ::
  "plan_env \<Rightarrow> step_status dict \<Rightarrow> 'a plan_world_scheme \<Rightarrow> 'a plan_world_scheme" where
  "propagate_unblock_events env previous w =
     fold (unblock_done env previous) (step_status w)
       (w\<lparr>context_vars := dsetdefault (context_vars w) ''_step_unblocked_events'' (PList [])\<rparr>)"

section \<open>Creating and starting\<close>

record decomposition =
  dec_source :: "string option"
  dec_samples :: "string list"
  dec_candidate :: "string option"

text \<open>\<open>_attach_decomposition_metadata\<close>; binding the candidate in the library is outside.\<close>

definition attach_decomposition :: "decomposition \<Rightarrow> 'a plan_world_scheme \<Rightarrow> 'a plan_world_scheme" where
  "attach_decomposition d w =
     (if dec_source d = None \<and> dec_samples d = [] \<and> dec_candidate d = None then w
      else put_var ''decomposition'' (PDict [(''source'', opt_str (dec_source d)),
        (''sample_ids'', PList (map PStr (dec_samples d))),
        (''candidate_sample_id'', opt_str (dec_candidate d))]) w)"

text \<open>\<open>{step.step_id: step for step in steps}\<close> and the pending statuses.\<close>

definition step_map_of :: "plan_step list \<Rightarrow> plan_step dict" where
  "step_map_of sts = dict_of (map (\<lambda>st. (step_id st, st)) sts)"

definition fresh_plan ::
  "plan_env \<Rightarrow> decomposition \<Rightarrow> string \<Rightarrow> plan_step list \<Rightarrow> 'a plan_world_scheme \<Rightarrow> 'a plan_world_scheme" where
  "fresh_plan env dec pid sts w =
     (let c = new_context pid (env_uuid env (draws w)) (step_map_of sts)
            (dict_of (map (\<lambda>st. (step_id st, PENDING)) sts));
          w1 = put_context (c\<lparr>clock_reads := clock_reads w\<rparr>) (w\<lparr>draws := Suc (draws w)\<rparr>)
      in touch (env_clock env) (attach_decomposition dec w1))"

definition create_plan ::
  "plan_env \<Rightarrow> decomposition \<Rightarrow> string \<Rightarrow> plan_step list \<Rightarrow> 'a plan_world_scheme
    \<Rightarrow> dag_error + 'a plan_world_scheme" where
  "create_plan env dec pid sts w = and_then (validate_dag (step_map_of sts)) (\<lambda>_.
     Inr (publish ''task.plan_created'' None (save pid (fresh_plan env dec pid sts w))))"

section \<open>Running\<close>

text \<open>The end of \<open>_run\<close> and \<open>execute_next\<close>: save first, then publish.\<close>

definition save_and_publish ::
  "(string \<times> string option) list \<Rightarrow> bool \<Rightarrow> 'a plan_world_scheme \<Rightarrow> 'a plan_world_scheme" where
  "save_and_publish evs prepared w =
     (let w1 = publish_all evs (save (plan_id w) w)
      in if prepared then publish ''task.consent_request'' (paused_step_id w1) w1 else w1)"

definition first_failed :: "'a task_context_scheme \<Rightarrow> string option" where
  "first_failed c = map_option fst (find (\<lambda>(k, s). s = FAILED) (step_status c))"

text \<open>\<open>context.paused_step_id or next(..., None)\<close>\<close>

definition failed_step_of :: "'a task_context_scheme \<Rightarrow> string option" where
  "failed_step_of c = (case paused_step_id c of Some (x # xs) \<Rightarrow> Some (x # xs) | _ \<Rightarrow> first_failed c)"

definition failure_reason :: "'a task_context_scheme \<Rightarrow> string" where
  "failure_reason c = (case ctx_error c of Some (x # xs) \<Rightarrow> x # xs | _ \<Rightarrow> ''step_failed'')"

definition wants_fallback :: "plan_env \<Rightarrow> 'a plan_world_scheme \<Rightarrow> bool" where
  "wants_fallback env w =
     (status w = Plan_FAILED \<and> truthy (pget (context_vars w) ''fallback_chain'') \<and> env_fallback env)"

definition reopen_plan :: "plan_env \<Rightarrow> 'a plan_world_scheme \<Rightarrow> 'a plan_world_scheme" where
  "reopen_plan env w =
     (let w1 = touch (env_clock env) (w\<lparr>status := Plan_RUNNING, ctx_error := None, completed_at := None\<rparr>)
      in save (plan_id w1) w1)"

text \<open>The part of \<open>_run\<close> after the engine and the fallback.\<close>

definition consent_waiting :: "'a task_context_scheme \<Rightarrow> bool" where
  "consent_waiting c = (status c = Plan_PAUSED \<and> paused_reason c = Some ''waiting_consent'')"

definition finish_run ::
  "plan_env \<Rightarrow> 'a plan_world_scheme \<Rightarrow> (exn + unit) \<times> 'a plan_world_scheme" where
  "finish_run env w =
     (case finalize_plan_status env w of (v, w1) \<Rightarrow>
      let w2 = (if v = None \<and> status w1 = Plan_FAILED
            then touch (env_clock env) (w1\<lparr>status := Plan_RUNNING, completed_at := None\<rparr>) else w1)
      in (case collect_step_events env w2 of (evs, w3) \<Rightarrow>
         let plan_evs = collect_plan_events w3;
             w4 = (if consent_waiting w3 \<and> paused_step_id w3 \<notin> {None, Some []}
               then touch (env_clock env) (w3\<lparr>context_vars :=
                      dsetdefault (context_vars w3) ''requires_consent'' (PBool True)\<rparr>) else w3)
         in (case (if consent_waiting w4 then prepare_consent_pause env w4 else (Inr False, w4)) of
               (Inl e, w5) \<Rightarrow> (Inl e, w5)
             | (Inr prepared, w5) \<Rightarrow> (Inr (), save_and_publish (evs @ plan_evs) prepared
                 (snd (apply_sample_terminal_feedback env w5))))))"

definition begin_route :: "plan_env \<Rightarrow> 'a plan_world_scheme \<Rightarrow> exn + 'a plan_world_scheme" where
  "begin_route env w = and_then (var_list (context_vars w) ''fallback_chain'') (\<lambda>chain.
     case chain of
       [] \<Rightarrow> Inr w
     | m # _ \<Rightarrow> Inr (if dget (context_vars w) ''route_mode'' = None
         then touch (env_clock env) (put_var ''fallback_index'' (PInt 0) (put_var ''route_mode'' m w))
         else w))"

fun run_plan ::
  "nat \<Rightarrow> nat \<Rightarrow> plan_env \<Rightarrow> 'a plan_world_scheme \<Rightarrow> ((exn + unit) \<times> 'a plan_world_scheme) option" where
  "run_plan 0 fuel env w = None"
| "run_plan (Suc n) fuel env w =
     (if steps w = [] then
        (let w1 = mark_terminal (env_clock env) (mark_started (env_clock env) (w\<lparr>status := Plan_DONE\<rparr>));
             w2 = snd (apply_sample_terminal_feedback env w1)
         in Some (Inr (), save (plan_id w2) w2))
      else (case begin_route env w of
          Inl e \<Rightarrow> Some (Inl e, w)
        | Inr w1 \<Rightarrow> (case run_until_blocked fuel (env_clock env) (run_executor env) None w1 of
            None \<Rightarrow> None
          | Some (Inl e) \<Rightarrow> Some (Inl e, w1)
          | Some (Inr w2) \<Rightarrow>
              if wants_fallback env w2
              then (case advance_fallback (failure_reason w2) (failed_step_of w2) (ctx_error w2) w2 of
                  Inl e \<Rightarrow> Some (Inl e, w2)
                | Inr (True, w3) \<Rightarrow> run_plan n fuel env (reopen_plan env w3)
                | Inr (False, w3) \<Rightarrow> Some (finish_run env w3))
              else Some (finish_run env w2))))"

definition start_plan ::
  "nat \<Rightarrow> nat \<Rightarrow> plan_env \<Rightarrow> decomposition \<Rightarrow> string \<Rightarrow> plan_step list \<Rightarrow> 'a plan_world_scheme
    \<Rightarrow> dag_error + ((exn + unit) \<times> 'a plan_world_scheme) option" where
  "start_plan n fuel env dec pid sts w = and_then (validate_dag (step_map_of sts)) (\<lambda>_.
     Inr (run_plan n fuel env
       (publish ''task.plan_started'' None (save pid (fresh_plan env dec pid sts w)))))"

section \<open>Resuming, pausing, cancelling\<close>

definition plan_error :: "string \<Rightarrow> exn" where
  "plan_error msg = Exn A2PlanValidationError msg"

definition cancel_step :: "plan_env \<Rightarrow> string \<Rightarrow> 'a plan_world_scheme \<Rightarrow> 'a plan_world_scheme" where
  "cancel_step env sid w = mark_processed sid (mark_step_completed (env_clock env) sid
     (w\<lparr>step_status := dset (step_status w) sid CANCELLED\<rparr>))"

definition renew_consent :: "plan_env \<Rightarrow> string \<Rightarrow> 'a plan_world_scheme \<Rightarrow> 'a plan_world_scheme" where
  "renew_consent env sid w = (case get_step_consent_request sid w of
     None \<Rightarrow> w | Some p \<Rightarrow> set_step_consent_request (env_clock env) sid p w)"

text \<open>Resuming a plan that waits for consent: granted, refused, or neither.\<close>

definition resume_consent ::
  "plan_env \<Rightarrow> string \<Rightarrow> bool option \<Rightarrow> 'a plan_world_scheme \<Rightarrow> bool \<times> 'a plan_world_scheme" where
  "resume_consent env pid granted w =
     (if \<not> consent_waiting w then (False, w)
      else (case paused_step_id w of
          None \<Rightarrow> (False, w)
        | Some sid \<Rightarrow>
           (let w1 = renew_consent env sid w in (case granted of
              None \<Rightarrow> (False, w1)
            | Some True \<Rightarrow> (False, touch (env_clock env) (w1\<lparr>
                 step_status := dset (step_status w1) sid READY, paused_reason := None,
                 paused_step_id := None\<rparr>))
            | Some False \<Rightarrow>
               (let w2 = mark_terminal (env_clock env) ((cancel_step env sid w1)\<lparr>status := Plan_CANCELLED\<rparr>);
                    w3 = snd (apply_sample_terminal_feedback env w2)
                in (True, publish ''task.plan_cancelled'' (Some sid) (save pid w3)))))))"

definition resume_plan ::
  "nat \<Rightarrow> nat \<Rightarrow> plan_env \<Rightarrow> string \<Rightarrow> bool option \<Rightarrow> 'a plan_world_scheme
    \<Rightarrow> ((exn + unit) \<times> 'a plan_world_scheme) option" where
  "resume_plan n fuel env pid granted w = (case load_plan env pid w of
     (Inl e, w1) \<Rightarrow> Some (Inl e, w1)
   | (Inr found, w1) \<Rightarrow>
      if \<not> found \<or> is_terminal w1 then Some (Inl (plan_error ''plan cannot be resumed''), w1)
      else (case resume_consent env pid granted w1 of
          (True, w2) \<Rightarrow> Some (Inr (), w2)
        | (False, w2) \<Rightarrow> run_plan n fuel env
            (publish ''task.plan_resumed'' None (save pid (touch (env_clock env) w2)))))"

definition pause_plan ::
  "plan_env \<Rightarrow> string \<Rightarrow> string \<Rightarrow> 'a plan_world_scheme \<Rightarrow> (exn + bool) \<times> 'a plan_world_scheme" where
  "pause_plan env pid why w = (case load_context env pid w of
     (Inl e, w1) \<Rightarrow> (Inl e, w1)
   | (Inr found, w1) \<Rightarrow>
      if \<not> found then (Inr False, w1)
      else if is_terminal w1 then (Inr True, w1)
      else (Inr True, publish ''task.plan_paused'' None (save pid (touch (env_clock env)
             (w1\<lparr>status := Plan_PAUSED, paused_reason := Some why, paused_step_id := None\<rparr>)))))"

definition cancel_open_step ::
  "plan_env \<Rightarrow> string \<times> step_status \<Rightarrow> 'a plan_world_scheme \<Rightarrow> 'a plan_world_scheme" where
  "cancel_open_step env item w = (if snd item \<in> FINAL_STEP_STATUSES then w else cancel_step env (fst item) w)"

definition cancel_plan ::
  "plan_env \<Rightarrow> string \<Rightarrow> 'a plan_world_scheme \<Rightarrow> (exn + unit) \<times> 'a plan_world_scheme" where
  "cancel_plan env pid w = (case load_plan env pid w of
     (Inl e, w1) \<Rightarrow> (Inl e, w1)
   | (Inr found, w1) \<Rightarrow>
      if \<not> found then (Inl (plan_error ''plan not found''), w1)
      else
       (let w2 = fold (cancel_open_step env) (step_status w1) (w1\<lparr>status := Plan_CANCELLED\<rparr>);
            w3 = snd (apply_sample_terminal_feedback env (mark_terminal (env_clock env) w2))
        in (Inr (), publish ''task.plan_cancelled'' None (save pid w3))))"

definition decide_consent ::
  "plan_env \<Rightarrow> string \<Rightarrow> 'a plan_world_scheme \<Rightarrow> (exn + unit) \<times> 'a plan_world_scheme" where
  "decide_consent env rid w = (case apply_consent_decision env rid w of
     Inl e \<Rightarrow> (Inl e, w) | Inr w1 \<Rightarrow> (Inr (), save (plan_id w1) w1))"

section \<open>Retrying a failed step\<close>

definition forget_step :: "plan_step \<Rightarrow> string \<Rightarrow> 'a plan_world_scheme \<Rightarrow> 'a plan_world_scheme" where
  "forget_step st sid w = w\<lparr>
     step_status := dset (step_status w) sid PENDING,
     step_errors := dpop (step_errors w) sid,
     step_attempts := dpop (step_attempts w) sid,
     step_results := dpop (step_results w) (result_key st),
     context_vars := dpop (context_vars w) (result_key st),
     quality_retry_counts := dpop (quality_retry_counts w) sid,
     step_started_at := dpop (step_started_at w) sid,
     step_completed_at := dpop (step_completed_at w) sid,
     processed_steps := drop_item sid (processed_steps w),
     published_step_events := drop_item sid (published_step_events w)\<rparr>"

definition clear_pause :: "string \<Rightarrow> 'a plan_world_scheme \<Rightarrow> 'a plan_world_scheme" where
  "clear_pause sid w =
     (if paused_step_id w = Some sid then w\<lparr>paused_reason := None, paused_step_id := None\<rparr> else w)"

definition give_feedback :: "string \<Rightarrow> string option \<Rightarrow> 'a plan_world_scheme \<Rightarrow> 'a plan_world_scheme" where
  "give_feedback sid fb w = (case fb of
     Some (x # xs) \<Rightarrow> w\<lparr>feedback_overrides := dset (feedback_overrides w) sid (x # xs)\<rparr>
   | _ \<Rightarrow> w\<lparr>feedback_overrides := dpop (feedback_overrides w) sid\<rparr>)"

definition retry_failed_step ::
  "plan_env \<Rightarrow> string \<Rightarrow> string \<Rightarrow> string option \<Rightarrow> 'a plan_world_scheme \<Rightarrow> (exn + unit) \<times> 'a plan_world_scheme" where
  "retry_failed_step env pid sid fb w = (case load_plan env pid w of
     (Inl e, w1) \<Rightarrow> (Inl e, w1)
   | (Inr found, w1) \<Rightarrow>
      if \<not> found then (Inl (plan_error ''plan not found''), w1)
      else (case dget (steps w1) sid of
          None \<Rightarrow> (Inl (plan_error ''step not found''), w1)
        | Some st \<Rightarrow>
            if dget (step_status w1) sid \<noteq> Some FAILED then (Inl (plan_error ''step is not FAILED''), w1)
            else
             (let w2 = give_feedback sid fb (clear_pause sid (forget_step st sid w1));
                  w3 = touch (env_clock env) (w2\<lparr>status := Plan_RUNNING, ctx_error := None,
                         completed_at := None, plan_status := None\<rparr>)
              in (Inr (), publish ''task.step_retry'' (Some sid) (save pid w3)))))"

section \<open>The next step\<close>

definition ensure_plan_skill_context :: "plan_env \<Rightarrow> 'a plan_world_scheme \<Rightarrow> 'a plan_world_scheme" where
  "ensure_plan_skill_context env w =
     (if own_skill w \<notin> {None, Some []} \<and> own_stages w \<noteq> []
      then w\<lparr>context_vars := dsetdefault (dsetdefault (context_vars w) ''skill_name'' (PStr (the (own_skill w))))
             ''skill_stages'' (PList (map PStr (own_stages w)))\<rparr>
      else (case pget (context_vars w) ''skill_stages'' of
          PList xs \<Rightarrow> if truthy (pget (context_vars w) ''skill_name'')
            then w\<lparr>own_skill := Some (py_str (env_repr env) (pget (context_vars w) ''skill_name'')),
                   own_stages := filter (\<lambda>s. strip s \<noteq> []) (map (py_str (env_repr env)) xs)\<rparr> else w
        | _ \<Rightarrow> w))"

text \<open>The \<open>while\<close> over the fallback chain.\<close>

fun fallback_loop ::
  "nat \<Rightarrow> nat \<Rightarrow> plan_env \<Rightarrow> 'a plan_world_scheme \<Rightarrow> ((exn + unit) \<times> 'a plan_world_scheme) option" where
  "fallback_loop 0 fuel env w = None"
| "fallback_loop (Suc n) fuel env w =
     (if \<not> wants_fallback env w \<or> failed_step_of w = None then Some (Inr (), w)
      else (case advance_fallback (failure_reason w) (failed_step_of w) (ctx_error w) w of
          Inl e \<Rightarrow> Some (Inl e, w)
        | Inr (False, w1) \<Rightarrow> Some (Inr (), w1)
        | Inr (True, w1) \<Rightarrow>
           (let w2 = reopen_plan env w1
            in (case run_until_blocked fuel (env_clock env) (tracked_executor env) (Some 1) w2 of
                None \<Rightarrow> None
              | Some (Inl e) \<Rightarrow> Some (Inl e, w2)
              | Some (Inr w3) \<Rightarrow> fallback_loop n fuel env w3))))"

definition propagate_failed ::
  "plan_env \<Rightarrow> string \<times> step_status \<Rightarrow> 'a plan_world_scheme \<Rightarrow> 'a plan_world_scheme" where
  "propagate_failed env item w =
     (if snd item = FAILED then snd (propagate_failure (env_clock env) (fst item) w) else w)"

definition finish_step ::
  "plan_env \<Rightarrow> step_status dict \<Rightarrow> 'a plan_world_scheme \<Rightarrow> (exn + unit) \<times> 'a plan_world_scheme" where
  "finish_step env previous w =
     (let w1 = fold (propagate_failed env) (step_status w) w;
          w2 = propagate_unblock_events env previous w1;
          w3 = snd (apply_sample_terminal_feedback env (snd (finalize_plan_status env w2)))
      in (case (if paused_reason w3 = Some ''waiting_consent'' \<and> paused_step_id w3 \<notin> {None, Some []}
            then prepare_consent_pause env w3 else (Inr False, w3)) of
          (Inl e, w4) \<Rightarrow> (Inl e, w4)
        | (Inr prepared, w4) \<Rightarrow> (case collect_step_events env w4 of (evs, w5) \<Rightarrow>
            (Inr (), save_and_publish (evs @ collect_plan_events w5) prepared w5))))"

text \<open>The early exits of \<open>execute_next\<close>; a report to the sample library is saved.\<close>

definition report_and_save :: "plan_env \<Rightarrow> 'a plan_world_scheme \<Rightarrow> 'a plan_world_scheme" where
  "report_and_save env w = (case apply_sample_terminal_feedback env w of
     (True, w1) \<Rightarrow> save (plan_id w1) w1 | (False, w1) \<Rightarrow> w1)"

definition has_verdict :: "'a task_context_scheme \<Rightarrow> bool" where
  "has_verdict c = (task_context.plan_status c \<in> {Some ''completed'', Some ''failed'', Some ''blocked''})"

text \<open>Left: done for this call. Right: go on with this world.\<close>

definition before_step :: "plan_env \<Rightarrow> 'a plan_world_scheme \<Rightarrow> 'a plan_world_scheme + 'a plan_world_scheme" where
  "before_step env w =
     (if has_verdict w \<or> status w \<in> {Plan_DONE, Plan_CANCELLED} then Inl (report_and_save env w)
      else if status w = Plan_FAILED \<and> fst (finalize_plan_status env w) \<noteq> None
      then (let w1 = snd (apply_sample_terminal_feedback env (snd (finalize_plan_status env w)))
            in Inl (save (plan_id w1) w1))
      else
       (let w1 = (if status w = Plan_FAILED
              then touch (env_clock env) (w\<lparr>status := Plan_RUNNING, completed_at := None\<rparr>) else w)
        in if status w1 = Plan_PAUSED \<and> paused_reason w1 = Some ''hard_gate_blocked'' then Inl w1
           else
            (let w2 = ensure_plan_skill_context env w1
             in (case check_hard_gate env (own_skill w2) (own_stages w2) w2 of
                 (True, w3) \<Rightarrow> Inl (publish ''task.plan_blocked'' (paused_step_id w3) (save (plan_id w3) w3))
               | (False, w3) \<Rightarrow> Inr w3))))"

definition execute_next ::
  "nat \<Rightarrow> nat \<Rightarrow> plan_env \<Rightarrow> 'a plan_world_scheme \<Rightarrow> ((exn + unit) \<times> 'a plan_world_scheme) option" where
  "execute_next n fuel env w = (case before_step env w of
     Inl w1 \<Rightarrow> Some (Inr (), w1)
   | Inr w1 \<Rightarrow> (case run_until_blocked fuel (env_clock env) (tracked_executor env) (Some 1) w1 of
       None \<Rightarrow> None
     | Some (Inl e) \<Rightarrow> Some (Inl e, w1)
     | Some (Inr w2) \<Rightarrow> (case fallback_loop n fuel env w2 of
         None \<Rightarrow> None
       | Some (Inl e, w3) \<Rightarrow> Some (Inl e, w3)
       | Some (Inr _, w3) \<Rightarrow> Some (finish_step env (step_status w1) w3))))"

end
