(* ===== verification/Plan_Guarantees.thy ===== *)
theory Plan_Guarantees
  imports Plan_Operations Dag_Run
begin

text \<open>
  What the orchestrator guarantees: its executors keep the engine's contract, running a plan
  returns, the store always holds the plan that is in memory, and the guards of consent and of
  the hard gate, with the runs in which the gate or a retry fails.
\<close>

section \<open>The executors keep the contract of the engine\<close>

text \<open>Two worlds with the same plan and the same bookkeeping of the engine.\<close>

definition same_plan :: "'a task_context_scheme \<Rightarrow> 'b task_context_scheme \<Rightarrow> bool" where
  "same_plan c c' = (steps c' = steps c \<and> step_status c' = step_status c \<and> step_attempts c' = step_attempts c
     \<and> processed_steps c' = processed_steps c
     \<and> dependency_satisfied_set c' = dependency_satisfied_set c \<and> status c' = status c)"

lemma same_plan_refl [simp]: "same_plan w w"
  by (simp add: same_plan_def)

lemma same_plan_trans [trans]: "same_plan a b \<Longrightarrow> same_plan b c \<Longrightarrow> same_plan a c"
  by (simp add: same_plan_def)

lemma same_plan_steps [simp]:
  "same_plan w (put_var k v w')= same_plan w w'" "same_plan w (drop_var k w') = same_plan w w'"
  "same_plan w (touch clk w') = same_plan w w'" "same_plan w (drop_feedback st w') = same_plan w w'"
  "same_plan w (publish nm s w') = same_plan w w'" "same_plan w (save p w') = same_plan w w'"
  "same_plan w (w'\<lparr>draws := n\<rparr>) = same_plan w w'"
  "same_plan w (handle_subagent_error clk st e w') = same_plan w w'"
  "same_plan w (note_retry env st iss fb w') = same_plan w w'"
  by (simp_all add: same_plan_def put_var_def drop_var_def drop_feedback_def publish_def save_def
      handle_subagent_error_def note_retry_def Let_def split: pyval.split)

lemma external_call_same [simp]: "same_plan w (snd (external_call f w')) = same_plan w w'"
  by (simp add: external_call_def same_plan_def)

lemma call_invoker_same: "same_plan w (snd (call_invoker env st f w))"
  by (simp add: call_invoker_def split: option.split sum.split)

lemma run_executor_same: "same_plan w (snd (run_executor env st w))"
  by (simp add: run_executor_def call_invoker_same split: option.split)

lemma execute_step_raw_same: "same_plan w (snd (execute_step_raw env st w))"
  by (simp add: execute_step_raw_def call_invoker_same Let_def external_call_def split: option.split)

lemma reject_step_same [simp]: "same_plan w (snd (reject_step env st iss w')) = same_plan w w'"
  by (simp add: reject_step_def same_plan_def)

lemma quality_retry_same: "same_plan w (snd (quality_retry env issues st w))"
proof -
  let ?w1 = "w\<lparr>quality_retry_counts := dset (quality_retry_counts w) (step_id st)
            (dget_or (quality_retry_counts w) (step_id st) 0 + 1)\<rparr>"
  have w1: "same_plan w ?w1" by (simp add: same_plan_def)
  show ?thesis
  proof (cases "build_retry_feedback st issues")
    case (Inl e)
    with w1 show ?thesis by (simp add: quality_retry_def Let_def)
  next
    case (Inr fb)
    let ?w2 = "put_var signals_key retry_signals (note_retry env st issues fb ?w1)"
    obtain r w3 where ex: "execute_step_raw env st ?w2 = (r, w3)" by fastforce
    have "same_plan w ?w2" using w1 by simp
    with execute_step_raw_same [of ?w2 env st] ex have "same_plan w w3"
      using same_plan_trans by fastforce
    with Inr ex show ?thesis by (cases r) (simp_all add: quality_retry_def Let_def)
  qed
qed

lemma quality_same: "same_plan w (snd (execute_step_with_quality_retry env st w))"
proof -
  obtain r w1 where ex: "execute_step_raw env st w = (r, w1)" by fastforce
  with execute_step_raw_same [of w env st] have s: "same_plan w w1" by simp
  from same_plan_trans [OF s quality_retry_same [of w1 env _ st]]
  have "same_plan w (snd (quality_retry env iss st w1))" for iss .
  with ex s show ?thesis
    by (cases r) (simp_all add: execute_step_with_quality_retry_def Let_def)
qed

lemma tracking_same:
  "same_plan w (snd (start_tracked_stage env sid name st w))"
  "same_plan w (snd (complete_tracked_stage env sid name st v w))"
  "same_plan w (snd (fail_tracked_stage env sid name st why w))"
  by (simp_all add: start_tracked_stage_def complete_tracked_stage_def fail_tracked_stage_def same_plan_def
      split: option.split prod.split sum.split)

lemma step_failed_same: "same_plan w (snd (step_failed env sid name st e w))"
proof -
  let ?w1 = "if subagent_type st \<noteq> None then handle_subagent_error (env_clock env) st e w else w"
  obtain r w2 where f: "fail_tracked_stage env sid name st (exn_text e) ?w1 = (r, w2)" by fastforce
  have "same_plan w ?w1" by simp
  with tracking_same(3) [of ?w1 env sid name st "exn_text e"] f have "same_plan w w2"
    using same_plan_trans by fastforce
  with f show ?thesis by (cases r) (simp_all add: step_failed_def Let_def)
qed

lemma tracked_executor_same: "same_plan w (snd (tracked_executor env st w))"
proof -
  let ?sid = "session_id env w" and ?name = "skill_name env w (own_skill w)"
  obtain r1 w1 where s: "start_tracked_stage env ?sid ?name st w = (r1, w1)" by fastforce
  obtain r2 w2 where x: "execute_step_with_quality_retry env st w1 = (r2, w2)" by fastforce
  have w1: "same_plan w w1" using tracking_same(1) [of w env ?sid ?name st] s by simp
  have w2: "same_plan w w2" using same_plan_trans [OF w1] quality_same [of w1 env st] x by fastforce
  have c: "same_plan w (snd (complete_tracked_stage env ?sid ?name st v w2))" for v
    using same_plan_trans [OF w2 tracking_same(2)] .
  have f: "same_plan w (snd (step_failed env ?sid ?name st e w2))" for e
    using same_plan_trans [OF w2 step_failed_same] .
  show ?thesis
  proof (cases r1)
    case (Inl e)
    with s w1 show ?thesis by (simp add: tracked_executor_def Let_def)
  next
    case r1: (Inr u)
    show ?thesis
    proof (cases r2)
      case (Inl e)
      with r1 s x f show ?thesis by (simp add: tracked_executor_def Let_def)
    next
      case (Inr v)
      obtain r3 w3 where "complete_tracked_stage env ?sid ?name st v w2 = (r3, w3)" by fastforce
      with Inr r1 s x c [of v] show ?thesis by (cases r3) (simp_all add: tracked_executor_def Let_def)
    qed
  qed
qed

interpretation run_exec: step_executor "run_executor env" for env
  by unfold_locales (use run_executor_same in \<open>auto simp: same_plan_def\<close>)

interpretation tracked_exec: step_executor "tracked_executor env" for env
  by unfold_locales (use tracked_executor_same in \<open>auto simp: same_plan_def\<close>)

section \<open>What the engine leaves alone\<close>

text \<open>The engine writes no field beside the context, and no variable but the result keys of steps.\<close>

definition result_keys :: "'a task_context_scheme \<Rightarrow> string set" where
  "result_keys c = result_key ` set (map snd (steps c))"

definition untouched :: "'a task_context_scheme \<Rightarrow> 'a task_context_scheme \<Rightarrow> bool" where
  "untouched c c' = (task_context.more c' = task_context.more c \<and> steps c' = steps c \<and> plan_id c' = plan_id c
     \<and> (\<forall>k. k \<notin> result_keys c \<longrightarrow> dget (context_vars c') k = dget (context_vars c) k))"

lemma untouched_refl [simp]: "untouched c c"
  by (simp add: untouched_def)

lemma untouched_trans: "untouched a b \<Longrightarrow> untouched b c \<Longrightarrow> untouched a c"
  by (simp add: untouched_def result_keys_def)

lemma untouched_marks [simp]:
  "untouched c (touch clk c') = untouched c c'"
  "untouched c (mark_terminal clk c') = untouched c c'"
  "untouched c (mark_started clk c') = untouched c c'"
  "untouched c (mark_step_started clk sid c') = untouched c c'"
  "untouched c (mark_step_completed clk sid c') = untouched c c'"
  "untouched c (mark_processed sid c') = untouched c c'"
  "untouched c (mark_dependency_satisfied sid c') = untouched c c'"
  "untouched c (c'\<lparr>status := a1\<rparr>) = untouched c c'"
  "untouched c (c'\<lparr>step_status := a2\<rparr>) = untouched c c'"
  "untouched c (c'\<lparr>ctx_error := a3\<rparr>) = untouched c c'"
  "untouched c (c'\<lparr>paused_reason := a4\<rparr>) = untouched c c'"
  "untouched c (c'\<lparr>paused_step_id := a4\<rparr>) = untouched c c'"
  "untouched c (c'\<lparr>step_attempts := a5\<rparr>) = untouched c c'"
  "untouched c (c'\<lparr>step_errors := a6\<rparr>) = untouched c c'"
  "untouched c (c'\<lparr>step_completed_at := a7\<rparr>) = untouched c c'"
  "untouched c (c'\<lparr>processed_steps := a8\<rparr>) = untouched c c'"
  "untouched c (c'\<lparr>published_step_events := a8\<rparr>) = untouched c c'"
  "untouched c (rebuild_dependency_satisfied_set c') = untouched c c'"
  by (simp_all add: untouched_def)

lemma untouched_mark_completed [simp]: "untouched c (mark_completed sid c') = untouched c c'"
  by (simp add: mark_completed_def split: option.split)

lemma untouched_begin_run: "untouched c (begin_run clk c)"
  by (simp add: begin_run_def)

lemma untouched_start_attempt: "untouched c (start_attempt clk st n c)"
  by (simp add: start_attempt_def)

lemma walk_keeps:
  "(\<And>sid acc. P acc \<Longrightarrow> P (body sid acc)) \<Longrightarrow> P acc \<Longrightarrow> P (walk body succs seen todo acc)"
  by (induction body succs seen todo acc rule: walk.induct) simp_all

lemma propagate_failure_untouched: "untouched c (snd (propagate_failure clk sid c))"
proof -
  have "untouched c (snd acc) \<Longrightarrow> untouched c (snd (block_step clk k acc))" for k acc
    by (auto simp: block_step_def split: prod.split option.split)
  from walk_keeps [where P = "\<lambda>acc. untouched c (snd acc)" and body = "block_step clk", OF this]
  have "untouched c (snd (walk (block_step clk) (build_successors c) {}
      (succs_of (build_successors c) sid) ([], c)))" by simp
  then show ?thesis by (auto simp: propagate_failure_def Let_def split: prod.split)
qed

lemma propagate_unblock_untouched: "untouched c (snd (propagate_unblock clk sid c))"
proof -
  have "untouched c (snd acc) \<Longrightarrow> untouched c (snd (unblock_step k acc))" for k acc
    by (auto simp: unblock_step_def Let_def split: prod.split option.split)
  from walk_keeps [where P = "\<lambda>acc. untouched c (snd acc)" and body = unblock_step, OF this]
  have "untouched c (snd (walk unblock_step (build_successors c) {}
      (succs_of (build_successors c) sid) ([], c)))" by simp
  then show ?thesis by (auto simp: propagate_unblock_def Let_def split: prod.split)
qed

lemma fold_untouched: "(\<And>x c. untouched c (f x c)) \<Longrightarrow> untouched c (fold f xs c)"
  by (induction xs arbitrary: c) (auto intro: untouched_trans)

lemma conclude_untouched: "untouched c (conclude clk c)"
proof -
  have "untouched d ((\<lambda>(sid, s) c. if s \<in> DEPENDENCY_FAILED_STATUSES
      then snd (propagate_failure clk sid c) else c) x d)" for x and d :: "'a task_context_scheme"
    by (cases x) (simp add: propagate_failure_untouched)
  then have f: "untouched d (fold (\<lambda>(sid, s) c. if s \<in> DEPENDENCY_FAILED_STATUSES
      then snd (propagate_failure clk sid c) else c) xs d)" for xs and d :: "'a task_context_scheme"
    by (rule fold_untouched)
  have "untouched c (fold (\<lambda>(sid, s) c. if s \<in> DEPENDENCY_FAILED_STATUSES
      then snd (propagate_failure clk sid c) else c) xs (c\<lparr>status := a, ctx_error := e\<rparr>))" for xs a e
    by (rule untouched_trans [OF _ f]) simp
  then show ?thesis by (simp add: conclude_def Let_def)
qed

lemma set_step_result_untouched:
  assumes "set_step_result clk sid v c = Inr c'"
  shows "untouched c c'"
proof -
  from assms obtain st where st: "dget (steps c) sid = Some st"
    and c': "c' = touch clk (c\<lparr>step_results := dset (step_results c) (result_key st) v,
          context_vars := dset (context_vars c) (result_key st) v\<rparr>)"
    by (auto simp: set_step_result_def split: option.splits)
  from map_of_SomeD [OF st] have "result_key st \<in> result_keys c"
    by (force simp: result_keys_def)
  then show ?thesis by (auto simp: c' untouched_def)
qed

text \<open>What an executor and such changes keep, a run keeps.\<close>

definition kept_by_engine :: "('a task_context_scheme \<Rightarrow> bool) \<Rightarrow> 'a task_context_scheme executor \<Rightarrow> bool" where
  "kept_by_engine Q exec = ((\<forall>c c'. untouched c c' \<longrightarrow> Q c \<longrightarrow> Q c') \<and> (\<forall>st c. Q c \<longrightarrow> Q (snd (exec st c))))"

lemma kept_untouched: "kept_by_engine Q exec \<Longrightarrow> untouched c c' \<Longrightarrow> Q c \<Longrightarrow> Q c'"
  by (auto simp: kept_by_engine_def)

lemma kept_exec: "kept_by_engine Q exec \<Longrightarrow> Q c \<Longrightarrow> Q (snd (exec st c))"
  by (simp add: kept_by_engine_def)

lemma retry_loop_keeps: "kept_by_engine Q exec \<Longrightarrow> Q c \<Longrightarrow> Q (snd (retry_loop clk exec st n c))"
proof (induction clk exec st n c rule: retry_loop.induct)
  case (1 clk exec st n c)
  obtain r c' where ex: "exec st (start_attempt clk st (n + 1) c) = (r, c')" by fastforce
  have "Q (start_attempt clk st (n + 1) c)"
    using kept_untouched [OF 1(2) untouched_start_attempt 1(3)] .
  from kept_exec [OF 1(2) this, of st] ex have q: "Q c'" by simp
  show ?case
  proof (cases r)
    case (Inl e)
    with 1 ex q show ?thesis by (simp add: retry_loop.simps [of clk exec st n c])
  next
    case (Inr v)
    with 1(3) ex q show ?thesis by (simp add: retry_loop.simps [of clk exec st n c])
  qed
qed

lemma finish_with_result_keeps:
  assumes "kept_by_engine Q exec" "Q c" "finish_with_result clk m n sid s err v c = it"
  shows "(\<forall>k d. it = Again k d \<longrightarrow> Q d) \<and> (\<forall>d. it = Leave (Inr d) \<longrightarrow> Q d)"
proof (cases "set_step_result clk sid v (c\<lparr>step_status := dset (step_status c) sid s\<rparr>)")
  case (Inl e)
  with assms(3) show ?thesis by (auto simp: finish_with_result_def)
next
  case (Inr c1)
  define c2 where "c2 = mark_completed sid (mark_step_completed clk sid
    (case err of None \<Rightarrow> c1 | Some t \<Rightarrow> c1\<lparr>step_errors := dset (step_errors c1) sid t\<rparr>))"
  have "untouched c c1"
    using untouched_trans [OF _ set_step_result_untouched [OF Inr], of c] by simp
  then have "untouched c c2" by (simp add: c2_def split: option.split)
  then have "Q c2" "Q (mark_terminal clk (c2\<lparr>status := Plan_DONE\<rparr>))"
    using kept_untouched [OF assms(1) _ assms(2)] by simp_all
  moreover have "it = after_completion clk m n c2"
    using assms(3) Inr by (simp add: finish_with_result_def c2_def Let_def)
  ultimately show ?thesis by (simp add: after_completion_def)
qed

lemma finish_failed_keeps:
  assumes "kept_by_engine Q exec" "Q c" "finish_failed clk m n st e c = it"
  shows "(\<forall>k d. it = Again k d \<longrightarrow> Q d) \<and> (\<forall>d. it = Leave (Inr d) \<longrightarrow> Q d)"
proof -
  have "Q d" if "untouched c d" for d using kept_untouched [OF assms(1) that assms(2)] .
  then show ?thesis using assms(3) by (auto simp: finish_failed_def Let_def split: if_splits)
qed

lemma run_iteration_keeps:
  assumes k: "kept_by_engine Q exec" and q: "Q c" and it: "run_iteration clk exec m n c = it"
  shows "(\<forall>k d. it = Again k d \<longrightarrow> Q d) \<and> (\<forall>d. it = Leave (Inr d) \<longrightarrow> Q d)"
proof (cases "get_ready_steps c")
  case Nil
  with it kept_untouched [OF k conclude_untouched q] show ?thesis
    by (auto simp: run_iteration_def resolve_ready_steps_def)
next
  case (Cons st rest)
  obtain r c1 where ex: "execute_with_retry clk exec st c = (r, c1)" by fastforce
  with retry_loop_keeps [OF k q, of clk st 0] have q1: "Q c1" by (simp add: execute_with_retry_def)
  have u: "Q d" if "untouched c d" for d using kept_untouched [OF k that q] .
  have "(\<forall>k d. execute_ready clk exec m n st c = Again k d \<longrightarrow> Q d)
    \<and> (\<forall>d. execute_ready clk exec m n st c = Leave (Inr d) \<longrightarrow> Q d)"
  proof (cases r)
    case (Inl e)
    with ex finish_with_result_keeps [OF k q1] finish_failed_keeps [OF k q1] show ?thesis
      by (simp add: execute_ready_def)
  next
    case (Inr v)
    with ex finish_with_result_keeps [OF k q1] show ?thesis by (simp add: execute_ready_def)
  qed
  with it Cons u show ?thesis
    by (auto simp: run_iteration_def resolve_ready_steps_def split: if_splits)
qed

lemma run_loop_keeps:
  "kept_by_engine Q exec \<Longrightarrow> Q c \<Longrightarrow> run_loop fuel clk exec m n c = Some (Inr d) \<Longrightarrow> Q d"
proof (induction fuel arbitrary: n c)
  case (Suc fuel)
  note keeps = run_iteration_keeps [OF Suc.prems(1,2) refl, of clk m n]
  show ?case
  proof (cases "run_iteration clk exec m n c")
    case (Leave r)
    with Suc.prems(3) keeps show ?thesis by simp
  next
    case (Again n' c')
    with Suc keeps show ?thesis by simp
  qed
qed simp

lemma run_until_blocked_keeps:
  "kept_by_engine Q exec \<Longrightarrow> Q c \<Longrightarrow> run_until_blocked fuel clk exec m c = Some (Inr d) \<Longrightarrow> Q d"
  using run_loop_keeps [of Q exec "begin_run clk c" fuel clk m 0 d]
    kept_untouched [of Q exec, OF _ untouched_begin_run]
  by (auto simp: run_until_blocked_def split: if_splits)

section \<open>A failed stage stays failed\<close>

lemma world_of_more:
  assumes "task_context.more w' = task_context.more (w :: 'a plan_world_scheme)"
  shows "stage_rows w' = stage_rows w" "snapshots w' = snapshots w" "journal w' = journal w"
    "own_skill w' = own_skill w" "own_stages w' = own_stages w"
  using assms by (cases w; cases w'; simp)+

lemma stage_rows_steps [simp]:
  "stage_rows (put_var k v w) = stage_rows w" "stage_rows (drop_var k w) = stage_rows w"
  "stage_rows (touch clk w) = stage_rows w" "stage_rows (drop_feedback st w) = stage_rows w"
  "stage_rows (publish nm x w) = stage_rows w" "stage_rows (save p w) = stage_rows w"
  "stage_rows (handle_subagent_error clk st e w) = stage_rows w"
  "stage_rows (note_retry env st iss fb w) = stage_rows w"
  "stage_rows (snd (external_call f w)) = stage_rows w"
  "stage_rows (snd (reject_step env st iss w)) = stage_rows w"
  by (simp_all add: put_var_def drop_var_def drop_feedback_def publish_def save_def touch_def
      handle_subagent_error_def note_retry_def external_call_def reject_step_def Let_def split: pyval.split)

lemma stage_rows_executors:
  "stage_rows (snd (call_invoker env st f w)) = stage_rows w"
  "stage_rows (snd (execute_step_raw env st w)) = stage_rows w"
  by (simp_all add: call_invoker_def execute_step_raw_def Let_def external_call_def
      split: option.split sum.split)

lemma stage_rows_quality: "stage_rows (snd (quality_retry env iss st w)) = stage_rows w"
proof (cases "build_retry_feedback st iss")
  case (Inl e)
  then show ?thesis by (simp add: quality_retry_def Let_def)
next
  case (Inr fb)
  let ?w1 = "w\<lparr>quality_retry_counts := dset (quality_retry_counts w) (step_id st)
            (dget_or (quality_retry_counts w) (step_id st) 0 + 1)\<rparr>"
  obtain r w3 where ex: "execute_step_raw env st
      (put_var signals_key retry_signals (note_retry env st iss fb ?w1)) = (r, w3)" by fastforce
  with stage_rows_executors(2) [of env st "put_var signals_key retry_signals (note_retry env st iss fb ?w1)"]
  have "stage_rows w3 = stage_rows w" by simp
  with Inr ex show ?thesis by (cases r) (simp_all add: quality_retry_def Let_def)
qed

lemma stage_rows_step: "stage_rows (snd (execute_step_with_quality_retry env st w)) = stage_rows w"
proof -
  obtain r w1 where ex: "execute_step_raw env st w = (r, w1)" by fastforce
  with stage_rows_executors(2) [of env st w] have "stage_rows w1 = stage_rows w" by simp
  with ex show ?thesis
    by (cases r) (simp_all add: execute_step_with_quality_retry_def Let_def stage_rows_quality)
qed

definition stage_failed :: "string \<Rightarrow> string \<Rightarrow> string \<Rightarrow> 'a plan_world_scheme \<Rightarrow> bool" where
  "stage_failed sid k g w = (stage_of (stage_rows w) sid k g = Some Failed)"

lemma stage_failed_tracking:
  assumes "stage_failed sid k g w"
  shows "stage_failed sid k g (snd (start_tracked_stage env sid' name st w))"
    and "stage_failed sid k g (snd (complete_tracked_stage env sid' name st v w))"
    and "stage_failed sid k g (snd (fail_tracked_stage env sid' name st why w))"
  using assms stage_of_start stage_of_finish
  by (auto simp: stage_failed_def start_tracked_stage_def complete_tracked_stage_def fail_tracked_stage_def
      complete_stage_def fail_stage_def split: option.split prod.split sum.split)
    (metis option.inject option.simps(3) snd_conv stage_status.distinct)+

lemma stage_failed_executor:
  assumes f: "stage_failed sid k g w"
  shows "stage_failed sid k g (snd (tracked_executor env st w))"
proof -
  let ?sid = "session_id env w" and ?name = "skill_name env w (own_skill w)"
  obtain r1 w1 where s: "start_tracked_stage env ?sid ?name st w = (r1, w1)" by fastforce
  obtain r2 w2 where x: "execute_step_with_quality_retry env st w1 = (r2, w2)" by fastforce
  from stage_failed_tracking(1) [OF f, of env ?sid ?name st] s have w1: "stage_failed sid k g w1" by simp
  with stage_rows_step [of env st w1] x have w2: "stage_failed sid k g w2" by (simp add: stage_failed_def)
  have err: "stage_failed sid k g (snd (step_failed env ?sid ?name st e w2))" for e
  proof -
    let ?w = "if subagent_type st \<noteq> None then handle_subagent_error (env_clock env) st e w2 else w2"
    obtain r w3 where "fail_tracked_stage env ?sid ?name st (exn_text e) ?w = (r, w3)" by fastforce
    moreover from w2 have "stage_failed sid k g ?w" by (simp add: stage_failed_def)
    ultimately have "stage_failed sid k g w3"
      "fail_tracked_stage env ?sid ?name st (exn_text e) ?w = (r, w3)"
      using stage_failed_tracking(3) [of sid k g ?w env ?sid ?name st "exn_text e"] by simp_all
    with w2 show ?thesis by (cases r) (simp_all add: step_failed_def Let_def)
  qed
  show ?thesis
  proof (cases r1)
    case (Inl e)
    with s w1 show ?thesis by (simp add: tracked_executor_def Let_def)
  next
    case r1: (Inr u)
    show ?thesis
    proof (cases r2)
      case (Inl e)
      with r1 s x err show ?thesis by (simp add: tracked_executor_def Let_def)
    next
      case (Inr v)
      obtain r3 w3 where "complete_tracked_stage env ?sid ?name st v w2 = (r3, w3)" by fastforce
      with Inr r1 s x stage_failed_tracking(2) [OF w2, of env ?sid ?name st v] show ?thesis
        by (cases r3) (simp_all add: tracked_executor_def Let_def)
    qed
  qed
qed

lemma stage_failed_kept: "kept_by_engine (stage_failed sid k g) (tracked_executor env)"
  unfolding kept_by_engine_def
proof (intro conjI allI impI)
  fix c c' :: "'a plan_world_scheme"
  assume "untouched c c'" "stage_failed sid k g c"
  then show "stage_failed sid k g c'"
    using world_of_more(1) [of c' c] by (simp add: untouched_def stage_failed_def)
qed (rule stage_failed_executor)

text \<open>So does a whole call of the engine, whatever the skills answer.\<close>

lemma stage_failed_run:
  "stage_failed sid k g w \<Longrightarrow>
     run_until_blocked fuel clk (tracked_executor env) m w = Some (Inr w') \<Longrightarrow> stage_failed sid k g w'"
  by (rule run_until_blocked_keeps [OF stage_failed_kept])

text \<open>A ready step of a later stage is then stopped at the gate.\<close>

lemma failed_stage_gate:
  assumes "stage_failed (session_id env w) k p w" and "env_gate env"
    and "get_ready_steps w = st # rest" and "step_stage st = Some g" and "g \<noteq> []"
    and "skill_name env w name = Some k"
    and "p \<in> set (takeWhile (\<lambda>x. x \<noteq> g) (skill_stages env w stages))" and "g \<in> set (skill_stages env w stages)"
  shows "fst (check_hard_gate env name stages w)
    \<and> paused_reason (snd (check_hard_gate env name stages w)) = Some ''hard_gate_blocked''"
proof -
  have "\<not> check_prerequisite (stage_rows w) (session_id env w) k p"
    using assms(1) by (simp add: check_prerequisite_iff stage_failed_def)
  from gate_refuses [where check = "check_prerequisite (stage_rows w)", OF assms(8, 7) this]
  show ?thesis using assms(2-6) by (simp add: check_hard_gate_def Let_def gate_block_def)
qed

section \<open>The store holds what is in memory\<close>

lemma serialize_frame [simp]:
  "serialize (publish nm x w) = serialize w" "serialize (save p w) = serialize w"
  by (simp_all add: serialize_def progress_def publish_def save_def)

definition store_current :: "'a plan_world_scheme \<Rightarrow> bool" where
  "store_current w = (dget (snapshots w) (plan_id w) = Some (serialize w))"

lemma current_save [simp]: "store_current (save (plan_id w) w)"
  by (simp add: store_current_def) (simp add: save_def)

lemma current_publish [simp]: "store_current (publish nm x w) = store_current w"
  by (simp add: store_current_def) (simp add: publish_def)

lemma current_publish_all: "store_current (publish_all evs w) = store_current w"
  by (induction evs arbitrary: w) (auto simp: publish_all_def split: prod.split)

lemma current_save_and_publish: "store_current (save_and_publish evs b w)"
  by (simp add: save_and_publish_def Let_def current_publish_all)

lemma finish_step_current: "finish_step env prev w = (Inr u, w') \<Longrightarrow> store_current w'"
  by (auto simp: finish_step_def Let_def current_save_and_publish split: sum.splits prod.splits if_splits)

lemma finish_run_current: "finish_run env w = (Inr u, w') \<Longrightarrow> store_current w'"
  by (auto simp: finish_run_def Let_def current_save_and_publish split: sum.splits prod.splits)

lemma feedback_unchanged: "apply_sample_terminal_feedback env w = (False, w1) \<Longrightarrow> w1 = w"
  by (auto simp: apply_sample_terminal_feedback_def Let_def split: if_splits)

lemma report_and_save_current: "report_and_save env w = w \<or> store_current (report_and_save env w)"
  by (auto simp: report_and_save_def dest: feedback_unchanged split: prod.split bool.split)

lemma before_step_current: "before_step env w = Inl w' \<Longrightarrow> w' = w \<or> store_current w'"
  using report_and_save_current [of env w]
  by (auto simp: before_step_def Let_def split: if_splits prod.splits bool.splits)

lemma execute_next_cases:
  assumes "execute_next n fuel env w = Some (Inr (), w')"
  shows "w' = w \<or> store_current w'"
proof (cases "before_step env w")
  case (Inl w1)
  with assms before_step_current show ?thesis by (simp add: execute_next_def)
next
  case (Inr w1)
  with assms show ?thesis
    by (auto simp: execute_next_def intro: finish_step_current split: option.splits sum.splits prod.splits)
qed

text \<open>What is stored can be read back into the same plan.\<close>

lemma serialize_rebuild [simp]:
  "serialize (rebuild_dependency_satisfied_set c) = serialize c"
  "serialize (task_context.truncate c) = serialize c"
  "serialize (c\<lparr>clock_reads := n\<rparr>) = serialize c"
  by (simp_all add: serialize_def progress_def rebuild_dependency_satisfied_set_def task_context.truncate_def)

lemma serialize_put_context [simp]: "serialize (put_context c w) = serialize c"
  by (simp add: serialize_def progress_def put_context_def task_context.extend_def)

lemma reload_same_plan:
  assumes "store_current w" and "snapshot_ok w"
  shows "fst (load_plan env (plan_id w) w) = Inr True \<and> serialize (snd (load_plan env (plan_id w) w)) = serialize w"
  using assms deserialize_serialize [OF assms(2)]
  by (simp add: load_plan_def store_current_def)

section \<open>Cancelling\<close>

lemma cancel_step_status: "step_status (cancel_step env k w) = dset (step_status w) k CANCELLED"
  by (simp add: cancel_step_def)

lemma cancel_open_step_status:
  "dget (step_status (cancel_open_step env (j, s) w)) k =
     (if k = j \<and> s \<notin> FINAL_STEP_STATUSES then Some CANCELLED else dget (step_status w) k)"
  by (simp add: cancel_open_step_def cancel_step_status)

lemma cancel_fold_status:
  "dget (step_status (fold (cancel_open_step env) items w)) k =
     (if \<exists>s. (k, s) \<in> set items \<and> s \<notin> FINAL_STEP_STATUSES then Some CANCELLED else dget (step_status w) k)"
proof (induction items arbitrary: w)
  case (Cons item items)
  obtain j s where item: "item = (j, s)" by (cases item)
  show ?case
    by (auto simp: Cons.IH item cancel_open_step_status)
qed simp

lemma cancel_fold_final:
  assumes "dget (step_status (fold (cancel_open_step env) (step_status c) w)) k = Some s"
    and "step_status w = step_status c"
  shows "s \<in> FINAL_STEP_STATUSES"
proof (cases "\<exists>s. (k, s) \<in> set (step_status c) \<and> s \<notin> FINAL_STEP_STATUSES")
  case True
  with assms cancel_fold_status [of env "step_status c" w k] show ?thesis
    by (simp add: FINAL_STEP_STATUSES_def)
next
  case False
  with assms cancel_fold_status [of env "step_status c" w k] have "dget (step_status c) k = Some s" by simp
  with False map_of_SomeD [of "step_status c" k s] show ?thesis by blast
qed

lemma cancel_fold_frame:
  "status (fold (cancel_open_step env) items w) = status w"
  "plan_id (fold (cancel_open_step env) items w) = plan_id w"
  by (induction items arbitrary: w) (simp_all add: cancel_open_step_def cancel_step_def)

lemma feedback_frame [simp]:
  "status (snd (apply_sample_terminal_feedback env w)) = status w"
  "plan_id (snd (apply_sample_terminal_feedback env w)) = plan_id w"
  "step_status (snd (apply_sample_terminal_feedback env w)) = step_status w"
  by (simp_all add: apply_sample_terminal_feedback_def report_outcome_def Let_def split: pyval.split)

section \<open>Events of steps\<close>

definition collected_ok :: "string list \<Rightarrow> (string \<times> string option) list \<times> string list \<Rightarrow> bool" where
  "collected_ok pub0 acc = (snd acc = pub0 @ map (\<lambda>e. the (snd e)) (fst acc) \<and> list_all (\<lambda>e. snd e \<noteq> None) (fst acc)
     \<and> (distinct pub0 \<longrightarrow> distinct (snd acc)))"

lemma collect_step_ok: "collected_ok pub0 acc \<Longrightarrow> collected_ok pub0 (collect_step stm sid acc)"
  by (cases acc) (auto simp: collected_ok_def collect_step_def split: option.split)

lemma collect_fold_ok: "collected_ok pub0 acc \<Longrightarrow> collected_ok pub0 (fold (collect_step stm) sids acc)"
  by (induction sids arbitrary: acc) (simp_all add: collect_step_ok)

section \<open>Running a plan returns\<close>

text \<open>The variables that steer the fallback, and how many fallbacks they leave.\<close>

definition route_keys :: "string set" where
  "route_keys = {''fallback_chain'', ''fallback_index'', ''route_mode''}"

definition rounds_left :: "pyval dict \<Rightarrow> nat" where
  "rounds_left vars = (case (var_list vars ''fallback_chain'', var_int vars ''fallback_index'') of
     (Inr xs, Inr i) \<Rightarrow> (if dget vars ''route_mode'' = None then length xs else nat (int (length xs) - i))
   | (Inr xs, Inl e) \<Rightarrow> length xs
   | _ \<Rightarrow> 0)"

lemma rounds_left_cong:
  "(\<And>k. k \<in> route_keys \<Longrightarrow> dget v' k = dget v k) \<Longrightarrow> rounds_left v' = rounds_left v"
proof -
  assume "\<And>k. k \<in> route_keys \<Longrightarrow> dget v' k = dget v k"
  then have d: "dget v' ''fallback_chain'' = dget v ''fallback_chain''"
    "dget v' ''fallback_index'' = dget v ''fallback_index''" "dget v' ''route_mode'' = dget v ''route_mode''"
    by (simp_all add: route_keys_def)
  show ?thesis by (simp only: rounds_left_def var_list_def var_int_def pget_def dget_or_def d)
qed

lemma advance_rounds:
  assumes "advance_fallback why sid err w = Inr (True, w')"
  obtains xs i where "var_list (context_vars w) ''fallback_chain'' = Inr xs" "xs \<noteq> []"
    "var_int (context_vars w) ''fallback_index'' = Inr i"
    "rounds_left (context_vars w') < nat (int (length xs) - i)" "steps w' = steps w"
proof -
  have re: "context_vars (reopen_step sid c) = context_vars c" "steps (reopen_step sid c) = steps c"
    for sid and c :: "'b task_context_scheme"
    by (simp_all add: reopen_step_def split: option.split)
  from assms obtain xs i h nxt where v: "var_list (context_vars w) ''fallback_chain'' = Inr xs"
      "var_int (context_vars w) ''fallback_index'' = Inr i" "i + 1 < int (length xs)" "xs \<noteq> []"
    and w': "w' = reopen_step sid (w\<lparr>context_vars := dset (dset (dset (dset (context_vars w) ''fallback_history'' h)
      ''fallback_index'' (PInt (i + 1))) ''route_mode'' nxt) ''route_reason'' (PStr why)\<rparr>)"
    by (auto simp: advance_fallback_def can_advance_def and_then_Inr_iff Let_def split: if_splits)
  have "var_list (context_vars w') ''fallback_chain'' = Inr xs" "var_int (context_vars w') ''fallback_index'' = Inr (i + 1)"
    "dget (context_vars w') ''route_mode'' \<noteq> None"
    using v by (simp_all add: w' re var_list_def var_int_def pget_def dget_or_def)
  then have "rounds_left (context_vars w') < nat (int (length xs) - i)" "steps w' = steps w"
    using v by (auto simp: rounds_left_def) (simp add: w' re)
  with v that show ?thesis by blast
qed

lemma begin_route_rounds:
  assumes "begin_route env w = Inr w1"
  shows "steps w1 = steps w \<and> rounds_left (context_vars w1) = rounds_left (context_vars w)
    \<and> (var_list (context_vars w1) ''fallback_chain'' = Inr [] \<or> dget (context_vars w1) ''route_mode'' \<noteq> None)"
proof -
  from assms obtain chain where ch: "var_list (context_vars w) ''fallback_chain'' = Inr chain"
    by (auto simp: begin_route_def and_then_Inr_iff)
  show ?thesis
  proof (cases chain)
    case Nil
    with assms ch show ?thesis by (simp add: begin_route_def)
  next
    case (Cons m ms)
    show ?thesis
    proof (cases "dget (context_vars w) ''route_mode''")
      case None
      with Cons assms ch have w1: "w1 = touch (env_clock env) (put_var ''fallback_index'' (PInt 0) (put_var ''route_mode'' m w))"
        by (simp add: begin_route_def)
      have "var_list (context_vars w1) ''fallback_chain'' = Inr chain"
        "var_int (context_vars w1) ''fallback_index'' = Inr 0" "dget (context_vars w1) ''route_mode'' \<noteq> None"
        using ch by (simp_all add: w1 put_var_def var_list_def var_int_def pget_def dget_or_def)
      then show ?thesis using ch None
        by (auto simp: rounds_left_def w1 put_var_def split: sum.split)
    next
      case (Some v)
      with Cons assms ch show ?thesis by (simp add: begin_route_def)
    qed
  qed
qed

definition routed_like :: "'a plan_world_scheme \<Rightarrow> 'a plan_world_scheme \<Rightarrow> bool" where
  "routed_like w0 w = (steps w = steps w0 \<and> (\<forall>k \<in> route_keys. dget (context_vars w) k = dget (context_vars w0) k))"

lemma routed_like_kept:
  assumes "result_keys w0 \<inter> route_keys = {}"
  shows "kept_by_engine (routed_like w0) (run_executor env)"
proof -
  have "routed_like w0 w \<Longrightarrow> routed_like w0 (snd (run_executor env st w))" for st w
    by (simp add: run_executor_def call_invoker_def external_call_def routed_like_def split: option.split sum.split)
  moreover have "untouched c c' \<Longrightarrow> routed_like w0 c \<Longrightarrow> routed_like w0 c'" for c c'
  proof -
    assume u: "untouched c c'" and l: "routed_like w0 c"
    then have "result_keys c = result_keys w0" by (simp add: routed_like_def result_keys_def)
    with assms have "k \<in> route_keys \<Longrightarrow> k \<notin> result_keys c" for k by blast
    with u l show ?thesis by (simp add: untouched_def routed_like_def)
  qed
  ultimately show ?thesis unfolding kept_by_engine_def by blast
qed

lemma reopen_plan_frame [simp]:
  "steps (reopen_plan env w) = steps w" "context_vars (reopen_plan env w) = context_vars w"
  by (simp_all add: reopen_plan_def save_def Let_def)

lemma run_plan_total:
  "keyed (steps w) \<Longrightarrow> length (steps w) < fuel \<Longrightarrow> result_keys w \<inter> route_keys = {} \<Longrightarrow>
     rounds_left (context_vars w) < n \<Longrightarrow> \<exists>r. run_plan n fuel env w = Some r"
proof (induction n arbitrary: w)
  case (Suc n)
  show ?case
  proof (cases "steps w = [] \<or> (\<exists>e. begin_route env w = Inl e)")
    case True
    then show ?thesis by (auto simp: Let_def)
  next
    case False
    then obtain w1 where w1: "begin_route env w = Inr w1" by (cases "begin_route env w") auto
    note br = begin_route_rounds [OF w1]
    from run_until_blocked_total [OF run_exec.step_executor_axioms,
        where c = w1 and fuel = fuel and clk = "env_clock env" and m = None] Suc.prems br
    obtain w2 where w2: "run_until_blocked fuel (env_clock env) (run_executor env) None w1 = Some (Inr w2)" by auto
    have keys: "result_keys w1 \<inter> route_keys = {}" using Suc.prems(3) br by (simp add: result_keys_def)
    have like: "routed_like w1 w2"
      by (rule run_until_blocked_keeps [OF routed_like_kept [OF keys] _ w2]) (simp add: routed_like_def)
    then have r2: "rounds_left (context_vars w2) = rounds_left (context_vars w1)" "steps w2 = steps w1"
      by (auto simp: routed_like_def intro: rounds_left_cong)
    show ?thesis
    proof (cases "wants_fallback env w2 \<and> (\<exists>w3. advance_fallback (failure_reason w2) (failed_step_of w2) (ctx_error w2) w2 = Inr (True, w3))")
      case True
      then obtain w3 where adv: "advance_fallback (failure_reason w2) (failed_step_of w2) (ctx_error w2) w2 = Inr (True, w3)" by blast
      from advance_rounds [OF adv] obtain xs i where x: "var_list (context_vars w2) ''fallback_chain'' = Inr xs"
        "xs \<noteq> []" "var_int (context_vars w2) ''fallback_index'' = Inr i"
        "rounds_left (context_vars w3) < nat (int (length xs) - i)" and st: "steps w3 = steps w2" .
      from like have "dget (context_vars w2) k = dget (context_vars w1) k" if "k \<in> route_keys" for k
        using that by (simp add: routed_like_def)
      then have "var_list (context_vars w1) ''fallback_chain'' = Inr xs"
        "dget (context_vars w2) ''route_mode'' = dget (context_vars w1) ''route_mode''"
        using x(1) by (simp_all add: route_keys_def var_list_def pget_def dget_or_def)
      with br x(2) have "dget (context_vars w2) ''route_mode'' \<noteq> None" by simp
      with x(1,3) have "rounds_left (context_vars w2) = nat (int (length xs) - i)"
        by (auto simp: rounds_left_def)
      with x(4) have lt: "rounds_left (context_vars w3) < rounds_left (context_vars w2)" by simp
      have "\<exists>r. run_plan n fuel env (reopen_plan env w3) = Some r"
        using Suc.prems br r2 lt st by (intro Suc.IH) (simp_all add: result_keys_def)
      with True adv w1 w2 False show ?thesis by simp
    next
      case no: False
      then show ?thesis using False w1 w2
        by (cases "advance_fallback (failure_reason w2) (failed_step_of w2) (ctx_error w2) w2") (auto split: prod.splits bool.splits)
    qed
  qed
qed simp

end
