(* ===== verification/Plan_Runs.thy ===== *)
theory Plan_Runs
  imports Plan_Guarantees
begin

text \<open>
  Runs of whole plans on concrete collaborators, evaluated in the logic: a plan whose hard gate
  is passed by, and a plan that a retry cannot bring to its end.
\<close>

section \<open>Collaborators and plans\<close>

definition local_env :: "invoker \<Rightarrow> plan_env" where
  "local_env call = \<lparr>env_clock = (\<lambda>n. of_nat n), env_uuid = (\<lambda>n. ''uuid''), env_repr = (\<lambda>_. ''value''),
     env_invoker = Some call, env_routed = None, env_subagents = None, env_gate = True, env_tracker = True,
     env_adapter = None, env_callback = None, env_pending = (\<lambda>_. None), env_fallback = False,
     env_samples = False, env_privacy = []\<rparr>"

definition idle_world :: plan_world where
  "idle_world = task_context.extend (new_context ''p'' ''t'' [] [])
     (plan_world.fields [] [] (Some ''coding'') [''planning'', ''implementation''] [] 0)"

definition staged_step :: "string \<Rightarrow> string list \<Rightarrow> string option \<Rightarrow> plan_step" where
  "staged_step sid deps g = (sample_step sid deps)\<lparr>step_stage := g\<rparr>"

definition no_decomposition :: decomposition where
  "no_decomposition = \<lparr>dec_source = None, dec_samples = [], dec_candidate = None\<rparr>"

definition next_world :: "plan_env \<Rightarrow> plan_world \<Rightarrow> plan_world" where
  "next_world env w = snd (the (execute_next 3 3 env w))"

text \<open>A skill that answers with a text that passes the checks of both stages, after some failures.\<close>

definition flaky_skill :: "nat \<Rightarrow> invoker" where
  "flaky_skill fails skill payload idem n =
     (if n < fails then Inl (Exn RuntimeError ''down'') else Inr (PStr ''module def ''))"

text \<open>The first step is skipped, the second one belongs to the second stage of the skill.\<close>

definition skipping_plan :: plan_world where
  "skipping_plan = fresh_plan (local_env (flaky_skill 0)) no_decomposition ''p''
     [(staged_step ''a'' [] None)\<lparr>condition_key := Some ''go''\<rparr>, staged_step ''b'' [] (Some ''implementation'')]
     idle_world"

text \<open>The hard gate looks at the first ready step only. If its condition is false the engine skips
  it and, within the same call, executes the next ready step ungated: here a step of the second
  stage runs although nothing of the first stage was ever done.\<close>

theorem gate_passed_by_skipped_step:
  "dget (step_status (next_world (local_env (flaky_skill 0)) skipping_plan)) ''b'' = Some DONE
    \<and> \<not> check_prerequisite (stage_rows (next_world (local_env (flaky_skill 0)) skipping_plan))
        ''p'' ''coding'' ''planning''
    \<and> \<not> allowed (hard_gate_check (check_prerequisite (stage_rows skipping_plan)) ''p'' ''coding''
        ''implementation'' [''planning'', ''implementation''])"
  by code_simp

text \<open>A stage that has failed once stays failed in the tracker, however often its step is executed
  again and whatever the skills answer, so the gate stops every step of a later stage and the plan
  cannot go on.\<close>

theorem failed_stage_blocks_plan:
  assumes "stage_of (stage_rows w) (session_id env w') k p = Some Failed"
    and "run_until_blocked fuel clk (tracked_executor env) m w = Some (Inr w')"
    and "env_gate env" and "get_ready_steps w' = st # rest" and "step_stage st = Some g" and "g \<noteq> []"
    and "skill_name env w' name = Some k" and "g \<in> set (skill_stages env w' stages)"
    and "p \<in> set (takeWhile (\<lambda>x. x \<noteq> g) (skill_stages env w' stages))"
  shows "stage_of (stage_rows w') (session_id env w') k p = Some Failed
    \<and> fst (check_hard_gate env name stages w')
    \<and> paused_reason (snd (check_hard_gate env name stages w')) = Some ''hard_gate_blocked''"
proof -
  have f: "stage_failed (session_id env w') k p w'"
    using stage_failed_run [OF _ assms(2)] assms(1) by (simp add: stage_failed_def)
  from failed_stage_gate [OF f assms(3-7) assms(9) assms(8)] f show ?thesis by (simp add: stage_failed_def)
qed

text \<open>The plan whose first step has succeeded in its second attempt.\<close>

definition failed_planning :: stage_row where
  "failed_planning = \<lparr>exec_id = ''e'', row_session = ''p'', row_skill = ''coding'', row_stage = ''planning'',
     row_status = Failed, row_evidence = None, row_started = 0, row_completed = Some 1\<rparr>"

definition retried_plan :: plan_world where
  "retried_plan = (fresh_plan (local_env (flaky_skill 0)) no_decomposition ''p''
     [staged_step ''a'' [] (Some ''planning''), staged_step ''b'' [''a''] (Some ''implementation'')]
     idle_world)\<lparr>stage_rows := [failed_planning]\<rparr>"

definition retried_run :: "plan_world option" where
  "retried_run = (case run_until_blocked 3 (\<lambda>n. of_nat n) (tracked_executor (local_env (flaky_skill 0))) (Some 1) retried_plan of
     Some (Inr w) \<Rightarrow> Some w | _ \<Rightarrow> None)"

theorem failed_stage_blocks_plan_witness:
  "\<exists>w :: plan_world. dget (step_status w) ''a'' = Some DONE
     \<and> stage_of (stage_rows w) ''p'' ''coding'' ''planning'' = Some Failed
     \<and> fst (check_hard_gate (local_env (flaky_skill 0)) (Some ''coding'') [''planning'', ''implementation''] w)"
proof -
  let ?env = "local_env (flaky_skill 0)"
  have ok: "case retried_run of None \<Rightarrow> False | Some w \<Rightarrow>
      session_id ?env w = ''p'' \<and> map step_id (get_ready_steps w) = [''b'']
      \<and> step_stage (hd (get_ready_steps w)) = Some ''implementation''
      \<and> skill_name ?env w (Some ''coding'') = Some ''coding''
      \<and> skill_stages ?env w [''planning'', ''implementation''] = [''planning'', ''implementation'']
      \<and> dget (step_status w) ''a'' = Some DONE"
    by code_simp
  then obtain w where w: "retried_run = Some w" by (cases retried_run) auto
  then have run: "run_until_blocked 3 (\<lambda>n. of_nat n) (tracked_executor ?env) (Some 1) retried_plan = Some (Inr w)"
    by (auto simp: retried_run_def split: option.splits sum.splits)
  from ok [unfolded w] have o: "session_id ?env w = ''p''" "step_stage (hd (get_ready_steps w)) = Some ''implementation''"
    "skill_name ?env w (Some ''coding'') = Some ''coding''" "dget (step_status w) ''a'' = Some DONE"
    "skill_stages ?env w [''planning'', ''implementation''] = [''planning'', ''implementation'']"
    "get_ready_steps w \<noteq> []" by auto
  from o(6) have ready: "get_ready_steps w = hd (get_ready_steps w) # tl (get_ready_steps w)" by simp
  have f: "stage_of (stage_rows retried_plan) (session_id ?env w) ''coding'' ''planning'' = Some Failed"
    unfolding o(1) by code_simp
  have gate: "env_gate ?env" by (simp add: local_env_def)
  have "stage_of (stage_rows w) (session_id ?env w) ''coding'' ''planning'' = Some Failed
    \<and> fst (check_hard_gate ?env (Some ''coding'') [''planning'', ''implementation''] w)
    \<and> paused_reason (snd (check_hard_gate ?env (Some ''coding'') [''planning'', ''implementation''] w))
        = Some ''hard_gate_blocked''"
    by (rule failed_stage_blocks_plan [OF f run gate ready o(2) _ o(3)]) (simp_all add: o(5))
  with o(1, 4) show ?thesis by (intro exI [of _ w]) simp
qed

section \<open>The store\<close>




section \<open>Returning\<close>

text \<open>C15. Starting or resuming a plan returns: with one round per entry of the fallback chain that is
  left and one iteration per step, provided no step writes its result over the variables that
  steer the fallback.\<close>

theorem run_plan_returns:
  assumes "keyed (steps w)" and "length (steps w) < fuel" and "result_keys w \<inter> route_keys = {}"
    and "rounds_left (context_vars w) < n"
  shows "\<exists>r w'. run_plan n fuel env w = Some (r, w')"
  using run_plan_total [OF assms, of env] by auto

theorem run_plan_returns_witness:
  "\<exists>r w'. run_plan 3 3 (local_env (flaky_skill 9)\<lparr>env_fallback := True\<rparr>)
     (skipping_plan\<lparr>context_vars := [(''fallback_chain'', PList [PStr ''local'', PStr ''cloud''])]\<rparr>) = Some (r, w')"
proof (rule run_plan_returns)
  let ?w = "skipping_plan\<lparr>context_vars := [(''fallback_chain'', PList [PStr ''local'', PStr ''cloud''])]\<rparr>"
  have st: "steps ?w = [(''a'', (staged_step ''a'' [] None)\<lparr>condition_key := Some ''go''\<rparr>),
      (''b'', staged_step ''b'' [] (Some ''implementation''))]"
    by code_simp
  show "keyed (steps ?w)" unfolding st keyed_def by (simp add: staged_step_def sample_step_def)
  show "length (steps ?w) < 3" unfolding st by simp
  show "result_keys ?w \<inter> route_keys = {}"
    unfolding result_keys_def st by (simp add: route_keys_def staged_step_def sample_step_def)
  show "rounds_left (context_vars ?w) < 3" by code_simp
qed

section \<open>Consent, cancelling and events\<close>

text \<open>C17. A decision changes the plan only if the plan waits for consent, the request is the one it waits
  for, and it has been decided: the step becomes ready if it was allowed, and the plan is cancelled
  with the step if not.\<close>

theorem consent_decision_sound:
  assumes "apply_consent_decision env rid w = Inr w'"
  shows "\<exists>sid allow. paused_reason w = Some ''waiting_consent'' \<and> paused_step_id w = Some sid
    \<and> var_text env (case get_step_consent_request sid w of None \<Rightarrow> [] | Some p \<Rightarrow> p) ''request_id'' [] = rid
    \<and> env_pending env rid = Some (True, allow)
    \<and> step_status w' = dset (step_status w) sid (if allow then READY else CANCELLED)
    \<and> status w' = (if allow then Plan_RUNNING else Plan_CANCELLED)"
proof -
  from assms obtain sid where sid: "paused_step_id w = Some sid"
    by (auto simp: apply_consent_decision_def split: option.splits)
  obtain p where p: "p = (case get_step_consent_request sid w of None \<Rightarrow> [] | Some p \<Rightarrow> p)" by simp
  from assms sid have g: "paused_reason w = Some ''waiting_consent''" "var_text env p ''request_id'' [] = rid"
    unfolding apply_consent_decision_def Let_def p by (auto split: if_splits)
  from assms sid g obtain allow where a: "env_pending env rid = Some (True, allow)"
    unfolding apply_consent_decision_def Let_def
    by (auto split: option.splits prod.splits bool.splits if_splits)
  from assms sid g a have "step_status w' = dset (step_status w) sid (if allow then READY else CANCELLED)
      \<and> status w' = (if allow then Plan_RUNNING else Plan_CANCELLED)"
    unfolding apply_consent_decision_def Let_def by (cases allow) (auto split: if_splits)
  with sid g a show ?thesis unfolding p by blast
qed

definition consent_world :: plan_world where
  "consent_world = skipping_plan\<lparr>status := Plan_PAUSED, paused_reason := Some ''waiting_consent'',
     paused_step_id := Some ''b'', step_status := [(''a'', SKIPPED), (''b'', BLOCKED)],
     step_consent_requests := [(''b'', [(''request_id'', PStr ''r1'')])]\<rparr>"

theorem consent_decision_sound_witness:
  "\<exists>w' :: plan_world. step_status w' = [(''a'', SKIPPED), (''b'', READY)] \<and> status w' = Plan_RUNNING"
proof -
  let ?env = "local_env (flaky_skill 0)\<lparr>env_pending := \<lambda>r. if r = ''r1'' then Some (True, True) else None\<rparr>"
  have "case apply_consent_decision ?env ''r1'' consent_world of Inr w \<Rightarrow> True | Inl e \<Rightarrow> False" by code_simp
  then obtain w' where ok: "apply_consent_decision ?env ''r1'' consent_world = Inr w'"
    by (auto split: sum.splits)
  have id: "paused_step_id consent_world = Some ''b''"
    "step_status consent_world = [(''a'', SKIPPED), (''b'', BLOCKED)]" by (simp_all add: consent_world_def)
  from consent_decision_sound [OF ok] obtain sid allow where
    "paused_step_id consent_world = Some sid" "env_pending ?env ''r1'' = Some (True, allow)"
    "step_status w' = dset (step_status consent_world) sid (if allow then READY else CANCELLED)"
    "status w' = (if allow then Plan_RUNNING else Plan_CANCELLED)" by blast
  with id show ?thesis by (intro exI [of _ w']) simp
qed

text \<open>Cancelling a plan that is stored leaves no step open: every step has a final status, the plan is
  cancelled, and the store holds it.\<close>

theorem cancel_closes_every_step:
  assumes "cancel_plan env pid w = (Inr (), w')" and "dget (step_status w') k = Some s"
  shows "s \<in> FINAL_STEP_STATUSES \<and> status w' = Plan_CANCELLED \<and> dget (snapshots w') pid = Some (serialize w')"
proof -
  from assms(1) obtain w1 where load: "load_plan env pid w = (Inr True, w1)"
    by (auto simp: cancel_plan_def split: prod.splits sum.splits if_splits)
  define w2 where "w2 = mark_terminal (env_clock env) (fold (cancel_open_step env) (step_status w1) (w1\<lparr>status := Plan_CANCELLED\<rparr>))"
  have w': "w' = publish ''task.plan_cancelled'' None (save pid (snd (apply_sample_terminal_feedback env w2)))"
    using assms(1) load by (simp add: cancel_plan_def w2_def Let_def)
  have "step_status w' = step_status (fold (cancel_open_step env) (step_status w1) (w1\<lparr>status := Plan_CANCELLED\<rparr>))"
    by (simp add: w' publish_def save_def w2_def)
  with assms(2) have "s \<in> FINAL_STEP_STATUSES"
    by (intro cancel_fold_final [of env w1 "w1\<lparr>status := Plan_CANCELLED\<rparr>" k s]) simp_all
  moreover have "status w' = Plan_CANCELLED"
    by (simp add: w' publish_def save_def w2_def cancel_fold_frame)
  moreover have "dget (snapshots w') pid = Some (serialize w')"
    by (simp add: w') (simp add: publish_def save_def)
  ultimately show ?thesis by blast
qed

theorem cancel_closes_every_step_witness:
  "\<exists>w' :: plan_world. (\<exists>s. dget (step_status w') ''b'' = Some s \<and> s \<in> FINAL_STEP_STATUSES)
     \<and> status w' = Plan_CANCELLED"
proof -
  let ?env = "local_env (flaky_skill 0)" and ?w = "save (plan_id consent_world) consent_world"
  have "snapshot_ok consent_world" by code_simp
  then have "snapshot_ok ?w" by (simp add: snapshot_ok_def save_def)
  from reload_same_plan [OF _ this, of ?env] obtain w1 where
    load: "load_plan ?env (plan_id ?w) ?w = (Inr True, w1)" and same: "serialize w1 = serialize ?w"
    by (cases "load_plan ?env (plan_id ?w) ?w") auto
  then obtain w' where c: "cancel_plan ?env (plan_id ?w) ?w = (Inr (), w')"
    and st: "step_status w' = step_status (fold (cancel_open_step ?env) (step_status w1) (w1\<lparr>status := Plan_CANCELLED\<rparr>))"
    by (simp add: cancel_plan_def Let_def publish_def save_def)
  have "serialize ?w = serialize consent_world" by simp
  with same have "map (\<lambda>(k, s). (k, PStr (step_status_text s))) (step_status w1)
      = map (\<lambda>(k, s). (k, PStr (step_status_text s))) (step_status consent_world)"
    unfolding serialize_def by simp
  from arg_cong [where f = "map fst", OF this]
  have "map fst (step_status w1) = [''a'', ''b'']"
    by (simp add: comp_def case_prod_unfold) (simp add: consent_world_def)
  from arg_cong [where f = set, OF this] have "''b'' \<in> fst ` set (step_status w1)" by simp
  then obtain s0 where "dget (step_status w1) ''b'' = Some s0"
    using in_keys_dget [of "''b''" "step_status w1"] by blast
  then have "dget (step_status w') ''b'' \<noteq> None"
    unfolding st cancel_fold_status by simp
  then obtain s where s: "dget (step_status w') ''b'' = Some s" by blast
  from cancel_closes_every_step [OF c s] s show ?thesis by blast
qed

text \<open>Every step event is announced once: the events collected for publishing name steps that were
  not announced before, no step twice, and exactly these are added to the announced steps.\<close>

theorem step_events_once:
  assumes "collect_step_events env w = (evs, w')" and "distinct (published_step_events w)"
    and "dget (context_vars w) ''_step_unblocked_events'' = None"
  shows "published_step_events w' = published_step_events w @ map (\<lambda>e. the (snd e)) evs
    \<and> distinct (published_step_events w')"
proof -
  have "collected_ok (published_step_events w)
      (fold (collect_step (step_status w)) (processed_steps w) ([], published_step_events w))"
    by (rule collect_fold_ok) (simp add: collected_ok_def)
  with assms show ?thesis
    by (auto simp: collect_step_events_def collected_ok_def pget_def dget_or_def split: prod.splits)
qed

theorem step_events_once_witness:
  "\<exists>evs (w' :: plan_world). evs = [(''task.step_failed'', Some ''b'')] \<and> published_step_events w' = [''a'', ''b'']"
proof -
  let ?w = "consent_world\<lparr>step_status := [(''a'', DONE), (''b'', FAILED)], processed_steps := [''a'', ''b''],
    published_step_events := [''a'']\<rparr>"
  let ?r = "collect_step_events (local_env (flaky_skill 0)) ?w"
  have ev: "fst ?r = [(''task.step_failed'', Some ''b'')]" by code_simp
  have h: "distinct (published_step_events ?w)" "dget (context_vars ?w) ''_step_unblocked_events'' = None"
    "published_step_events ?w = [''a'']"
    by code_simp+
  have "published_step_events (snd ?r) = published_step_events ?w @ map (\<lambda>e. the (snd e)) (fst ?r)"
    using step_events_once [of "local_env (flaky_skill 0)" ?w "fst ?r" "snd ?r", OF _ h(1,2)] by simp
  also have "\<dots> = [''a'', ''b'']" unfolding ev h(3) by simp
  finally show ?thesis using ev by blast
qed

end
