(* ===== verification/Cron_Expression.thy ===== *)
theory Cron_Expression
  imports Py_Values
begin

text \<open>
  \<open>CronExpression\<close> of \<open>shell/job_scheduler.py\<close>: parsing the five fields and the search for the
  next minute that matches, within 366 days.

  The set of values of a field is a list. Minutes are counted from 1970-01-01 00:00 UTC, and the
  calendar of \<open>datetime\<close> is computed from the number of the day in the proleptic Gregorian
  calendar. The error texts of the source are unreadable in it; they are renamed here.
\<close>

section \<open>Texts\<close>

fun split_char :: "char \<Rightarrow> string \<Rightarrow> string list" where
  "split_char c [] = [[]]"
| "split_char c (x # xs) = (if x = c then [] # split_char c xs
     else (case split_char c xs of [] \<Rightarrow> [[x]] | y # ys \<Rightarrow> (x # y) # ys))"

text \<open>\<open>text.split()\<close>\<close>

definition words_of :: "string \<Rightarrow> string list" where
  "words_of s = filter (\<lambda>w. w \<noteq> []) (split_char (CHR '' '') (map (\<lambda>c. if is_space c then CHR '' '' else c) s))"

definition before_char :: "char \<Rightarrow> string \<Rightarrow> string" where
  "before_char c s = takeWhile (\<lambda>x. x \<noteq> c) s"

definition after_char :: "char \<Rightarrow> string \<Rightarrow> string" where
  "after_char c s = tl (dropWhile (\<lambda>x. x \<noteq> c) s)"

definition digits_value :: "string \<Rightarrow> int" where
  "digits_value s = (case read_digits 0 s of Some n \<Rightarrow> int n | None \<Rightarrow> 0)"

section \<open>Fields\<close>

definition cron_error :: "string \<Rightarrow> exn" where
  "cron_error msg = Exn ValueError msg"

definition parse_value :: "string \<Rightarrow> int \<Rightarrow> int \<Rightarrow> bool \<Rightarrow> exn + int" where
  "parse_value value minimum maximum allow_7_as_0 =
     (if \<not> isdigit value then Inl (cron_error ''not a number'')
      else let parsed = (if allow_7_as_0 \<and> digits_value value = 7 then 0 else digits_value value)
        in if parsed < minimum \<or> parsed > maximum then Inl (cron_error ''out of range'') else Inr parsed)"

text \<open>\<open>range(start, end + 1, step)\<close> for a positive step.\<close>

definition int_range :: "int \<Rightarrow> int \<Rightarrow> int \<Rightarrow> int list" where
  "int_range start stop step = filter (\<lambda>i. (i - start) mod step = 0) [start..stop]"

definition parse_chunk :: "string \<Rightarrow> int \<Rightarrow> int \<Rightarrow> bool \<Rightarrow> exn + int list" where
  "parse_chunk chunk minimum maximum allow_7_as_0 =
     and_then (if CHR ''/'' \<in> set chunk
       then (let raw = after_char (CHR ''/'') chunk
         in if \<not> isdigit raw \<or> digits_value raw \<le> 0 then Inl (cron_error ''bad step'')
            else Inr (before_char (CHR ''/'') chunk, digits_value raw))
       else Inr (chunk, 1)) (\<lambda>(base, step).
     if base = ''*'' then Inr (int_range minimum maximum step)
     else if CHR ''-'' \<in> set base
     then and_then (parse_value (before_char (CHR ''-'') base) minimum maximum allow_7_as_0) (\<lambda>start.
          and_then (parse_value (after_char (CHR ''-'') base) minimum maximum allow_7_as_0) (\<lambda>stop.
            if start > stop then Inl (cron_error ''bad range'') else Inr (int_range start stop step)))
     else and_then (parse_value base minimum maximum allow_7_as_0) (\<lambda>v. Inr [v]))"

definition parse_field :: "string \<Rightarrow> int \<Rightarrow> int \<Rightarrow> bool \<Rightarrow> exn + int list" where
  "parse_field field minimum maximum allow_7_as_0 =
     and_then (traverse (\<lambda>c. if strip c = [] then Inl (cron_error ''empty item'')
         else parse_chunk (strip c) minimum maximum allow_7_as_0) (split_char (CHR '','') field)) (\<lambda>vs.
     if concat vs = [] then Inl (cron_error ''empty field'') else Inr (concat vs))"

record cron =
  cron_minutes :: "int list"
  cron_hours :: "int list"
  cron_days :: "int list"
  cron_months :: "int list"
  cron_weekdays :: "int list"

definition parse_cron :: "string \<Rightarrow> exn + cron" where
  "parse_cron expression = (case words_of expression of
     [f0, f1, f2, f3, f4] \<Rightarrow>
       and_then (parse_field f0 0 59 False) (\<lambda>mins.
       and_then (parse_field f1 0 23 False) (\<lambda>hours.
       and_then (parse_field f2 1 31 False) (\<lambda>days.
       and_then (parse_field f3 1 12 False) (\<lambda>months.
       and_then (parse_field f4 0 6 True) (\<lambda>weekdays.
         Inr \<lparr>cron_minutes = mins, cron_hours = hours, cron_days = days, cron_months = months,
              cron_weekdays = weekdays\<rparr>)))))
   | _ \<Rightarrow> Inl (cron_error ''five fields needed''))"

section \<open>The calendar\<close>

text \<open>Month and day of the month of a day number.\<close>

definition month_day :: "int \<Rightarrow> int \<times> int" where
  "month_day d =
     (let z = d + 719468;
          doe = z mod 146097;
          yoe = (doe - doe div 1460 + doe div 36524 - doe div 146096) div 365;
          doy = doe - (365 * yoe + yoe div 4 - yoe div 100);
          mp = (5 * doy + 2) div 153
      in (if mp < 10 then mp + 3 else mp - 9, doy - (153 * mp + 2) div 5 + 1))"

definition cron_matches :: "cron \<Rightarrow> int \<Rightarrow> bool" where
  "cron_matches c m =
     (let d = m div 1440; (mon, day) = month_day d
      in m mod 60 \<in> set (cron_minutes c) \<and> (m div 60) mod 24 \<in> set (cron_hours c)
         \<and> day \<in> set (cron_days c) \<and> mon \<in> set (cron_months c)
         \<and> (d + 4) mod 7 \<in> set (cron_weekdays c))"

text \<open>The loop over the candidate minutes; \<open>n\<close> of them are left.\<close>

fun search_minute :: "cron \<Rightarrow> nat \<Rightarrow> int \<Rightarrow> int option" where
  "search_minute c 0 m = None"
| "search_minute c (Suc n) m = (if cron_matches c m then Some m else search_minute c n (m + 1))"

definition horizon :: nat where
  "horizon = 366 * 1440 + 1"

definition next_after :: "cron \<Rightarrow> pyfloat \<Rightarrow> exn + pyfloat" where
  "next_after c after_ts = (case search_minute c horizon (\<lfloor>after_ts / 60\<rfloor> + 1) of
     Some m \<Rightarrow> Inr (of_int (m * 60))
   | None \<Rightarrow> Inl (cron_error ''no matching minute''))"

section \<open>Correctness\<close>

lemma search_minute_Some:
  "search_minute c n m = Some k \<Longrightarrow>
     m \<le> k \<and> k < m + int n \<and> cron_matches c k \<and> (\<forall>i. m \<le> i \<and> i < k \<longrightarrow> \<not> cron_matches c i)"
proof (induction n arbitrary: m)
  case (Suc n)
  show ?case
  proof (cases "cron_matches c m")
    case True
    with Suc.prems show ?thesis by auto
  next
    case False
    with Suc have "m + 1 \<le> k \<and> k < m + 1 + int n \<and> cron_matches c k
      \<and> (\<forall>i. m + 1 \<le> i \<and> i < k \<longrightarrow> \<not> cron_matches c i)" by simp
    moreover have "m \<le> i \<Longrightarrow> i = m \<or> m + 1 \<le> i" for i by linarith
    ultimately show ?thesis using False by auto
  qed
qed simp

lemma search_minute_None:
  "search_minute c n m = None \<Longrightarrow> m \<le> i \<Longrightarrow> i < m + int n \<Longrightarrow> \<not> cron_matches c i"
proof (induction n arbitrary: m)
  case (Suc n)
  then show ?case by (cases "i = m") (auto split: if_splits)
qed simp

lemma parse_value_range: "parse_value v lo hi b = Inr n \<Longrightarrow> lo \<le> n \<and> n \<le> hi"
  by (auto simp: parse_value_def Let_def split: if_splits)

lemma parse_chunk_range:
  "parse_chunk s lo hi b = Inr vs \<Longrightarrow> n \<in> set vs \<Longrightarrow> lo \<le> n \<and> n \<le> hi"
  by (auto simp: parse_chunk_def and_then_Inr_iff int_range_def Let_def split: if_splits
      dest!: parse_value_range)

lemma traverse_elem: "traverse f xs = Inr ys \<Longrightarrow> y \<in> set ys \<Longrightarrow> \<exists>x \<in> set xs. f x = Inr y"
  by (induction xs arbitrary: ys) (auto simp: and_then_Inr_iff)

lemma parse_field_range:
  assumes "parse_field s lo hi b = Inr vs"
  shows "vs \<noteq> [] \<and> (\<forall>n \<in> set vs. lo \<le> n \<and> n \<le> hi)"
proof -
  from assms obtain vss where vss: "traverse (\<lambda>c. if strip c = [] then Inl (cron_error ''empty item'')
      else parse_chunk (strip c) lo hi b) (split_char (CHR '','') s) = Inr vss" "vs = concat vss" "vs \<noteq> []"
    by (auto simp: parse_field_def and_then_Inr_iff split: if_splits)
  have "lo \<le> n \<and> n \<le> hi" if n: "n \<in> set vs" for n
  proof -
    from n vss(2) obtain ys where ys: "ys \<in> set vss" "n \<in> set ys" by auto
    from traverse_elem [OF vss(1) ys(1)] obtain c where "parse_chunk (strip c) lo hi b = Inr ys"
      by (auto split: if_splits)
    then show ?thesis using parse_chunk_range ys(2) by blast
  qed
  with vss(3) show ?thesis by blast
qed

section \<open>Properties\<close>

text \<open>C13. The next run of a cron expression is the first matching minute after the given time, and an
  error is raised only if none of the minutes of the next 366 days matches.\<close>

theorem next_after_first_match:
  "case next_after c t of
     Inr r \<Rightarrow> \<exists>m. r = of_int (m * 60) \<and> t < r \<and> cron_matches c m
       \<and> (\<forall>i. t < of_int (i * 60) \<and> i < m \<longrightarrow> \<not> cron_matches c i)
   | Inl e \<Rightarrow> \<forall>i. t < of_int (i * 60) \<and> of_int (i * 60) \<le> t + 366 * 86400 \<longrightarrow> \<not> cron_matches c i"
proof -
  let ?m0 = "\<lfloor>t / 60\<rfloor> + 1"
  have after: "t < of_int (i * 60) \<longleftrightarrow> ?m0 \<le> i" for i
  proof -
    have "t < of_int (i * 60) \<longleftrightarrow> t / 60 < of_int i" by (simp add: field_simps)
    also have "\<dots> \<longleftrightarrow> \<lfloor>t / 60\<rfloor> < i" by (simp add: floor_less_iff)
    finally show ?thesis by linarith
  qed
  show ?thesis
  proof (cases "search_minute c horizon ?m0")
    case None
    have "i < ?m0 + int horizon" if "of_int (i * 60) \<le> t + 366 * 86400" for i
    proof -
      have "of_int (i - 527040) \<le> t / 60" using that by (simp add: field_simps)
      then have "i - 527040 \<le> \<lfloor>t / 60\<rfloor>" by (simp only: le_floor_iff)
      then show ?thesis by (simp add: horizon_def)
    qed
    with search_minute_None [OF None] None after show ?thesis by (auto simp: next_after_def)
  next
    case (Some m)
    from search_minute_Some [OF Some] have m: "?m0 \<le> m" "cron_matches c m"
      "\<forall>i. ?m0 \<le> i \<and> i < m \<longrightarrow> \<not> cron_matches c i" by auto
    with after have "\<exists>k. (of_int (m * 60) :: pyfloat) = of_int (k * 60) \<and> t < of_int (m * 60)
        \<and> cron_matches c k \<and> (\<forall>i. t < of_int (i * 60) \<and> i < k \<longrightarrow> \<not> cron_matches c i)"
      by (intro exI [of _ m]) auto
    with Some show ?thesis by (simp add: next_after_def)
  qed
qed

theorem next_after_first_match_witness:
  "\<exists>m. (120 :: pyfloat) = of_int (m * 60) \<and> cron_matches \<lparr>cron_minutes = [2], cron_hours = [0],
     cron_days = [1], cron_months = [1], cron_weekdays = [4]\<rparr> m"
proof -
  let ?c = "\<lparr>cron_minutes = [2], cron_hours = [0], cron_days = [1], cron_months = [1], cron_weekdays = [4]\<rparr>"
  have m: "\<not> cron_matches ?c 1" "cron_matches ?c 2" by code_simp+
  have "horizon = Suc (Suc (horizon - 2))" by (simp add: horizon_def)
  with m have "search_minute ?c horizon 1 = Some 2"
    by (metis one_add_one search_minute.simps(2))
  then have "next_after ?c 0 = Inr 120" by (simp add: next_after_def)
  with next_after_first_match [where c = ?c and t = 0] show ?thesis by auto
qed

text \<open>Every value of an accepted cron expression lies in the range of its field, and no field is
  empty.\<close>

theorem parse_cron_in_range:
  assumes "parse_cron s = Inr c"
  shows "(cron_minutes c \<noteq> [] \<and> list_all (\<lambda>n. 0 \<le> n \<and> n \<le> 59) (cron_minutes c))
    \<and> (cron_hours c \<noteq> [] \<and> list_all (\<lambda>n. 0 \<le> n \<and> n \<le> 23) (cron_hours c))
    \<and> (cron_days c \<noteq> [] \<and> list_all (\<lambda>n. 1 \<le> n \<and> n \<le> 31) (cron_days c))
    \<and> (cron_months c \<noteq> [] \<and> list_all (\<lambda>n. 1 \<le> n \<and> n \<le> 12) (cron_months c))
    \<and> (cron_weekdays c \<noteq> [] \<and> list_all (\<lambda>n. 0 \<le> n \<and> n \<le> 6) (cron_weekdays c))"
  using assms
  by (auto simp: parse_cron_def and_then_Inr_iff list_all_iff dest!: parse_field_range
      split: list.split_asm)

theorem parse_cron_in_range_witness:
  "list_all (\<lambda>n. 0 \<le> n \<and> n \<le> 59) [0, 20, 40 :: int]"
proof -
  have "parse_cron ''*/20 8-10 * * 1,7'' = Inr \<lparr>cron_minutes = [0, 20, 40], cron_hours = [8, 9, 10],
      cron_days = [1..31], cron_months = [1..12], cron_weekdays = [1, 0]\<rparr>" by code_simp
  from parse_cron_in_range [OF this] show ?thesis by simp
qed

text \<open>Sunday may be written as seven on its own, but a weekday range up to seven is refused.\<close>

theorem weekday_range_to_sunday_refused:
  "parse_field ''7'' 0 6 True = Inr [0] \<and> parse_field ''5-7'' 0 6 True = Inl (cron_error ''bad range'')"
  by code_simp

end
