(* ===== verification/Job_Scheduler.thy ===== *)
theory Job_Scheduler
  imports Cron_Expression
begin

text \<open>
  \<open>JobScheduler\<close> (\<open>shell/job_scheduler.py\<close>): the table \<open>job_tasks\<close>, its registration and
  recovery, the polling loop, the worker of a task and the heartbeats.

  The table is the list of its rows; a column holds what the code writes there, and a time stored
  as ISO text is the time. \<open>futures\<close> maps the tasks handed to the thread pool to whether they are
  done, \<open>pool\<close> holds the ones no worker has started. \<open>sessions\<close> are the keys that the foreign key of the table refers to. \<open>ticks\<close> counts the
  reads of the clock. The invoker and the router are arguments: whether the skill is alive, and the
  result of a dispatch. A poll and each of the two halves of a worker run without interruption;
  the dispatch between the halves may be interleaved with anything. Error texts are renamed.
\<close>

section \<open>The table\<close>

record job_row =
  job_task_id :: string
  job_skill_name :: string
  job_task_type :: string
  job_cron_expr :: "string option"
  job_delay_until :: "pyfloat option"
  job_payload :: "pyval dict"
  job_status :: string
  job_priority :: string
  job_session_id :: string
  job_queue_type :: string
  job_created_at :: "pyfloat option"
  job_started_at :: "pyfloat option"
  job_completed_at :: "pyfloat option"
  job_last_heartbeat :: "pyfloat option"
  job_heartbeat_timeout :: int
  job_retry_count :: int
  job_max_retries :: int
  job_idempotency_key :: "string option"
  job_error :: "pyval dict option"

record scheduler =
  job_tasks :: "job_row list"
  futures :: "(string \<times> bool) list"
  pool :: "string list"
  sessions :: "string list"
  ticks :: nat

definition update_rows :: "(job_row \<Rightarrow> bool) \<Rightarrow> (job_row \<Rightarrow> job_row) \<Rightarrow> scheduler \<Rightarrow> scheduler" where
  "update_rows p f s = s\<lparr>job_tasks := map (\<lambda>r. if p r then f r else r) (job_tasks s)\<rparr>"

definition find_row :: "string \<Rightarrow> scheduler \<Rightarrow> job_row option" where
  "find_row tid s = find (\<lambda>r. job_task_id r = tid) (job_tasks s)"

definition read_clock :: "scheduler \<Rightarrow> scheduler" where
  "read_clock s = s\<lparr>ticks := Suc (ticks s)\<rparr>"

definition job_error_dict :: "string \<Rightarrow> pyval dict" where
  "job_error_dict code = [(''code'', PStr code), (''message'', PStr code)]"

section \<open>Registration\<close>

record job_request =
  req_skill :: string
  req_type :: string
  req_session :: string
  req_payload :: "pyval dict"
  req_delay :: "pyfloat option"
  req_cron :: "string option"
  req_queue :: string
  req_priority :: string
  req_heartbeat_timeout :: int
  req_max_retries :: int
  req_idempotency_key :: "string option"
  req_task_id :: "string option"

text \<open>\<open>(text or fallback).strip() or fallback\<close>\<close>

definition text_or :: "string \<Rightarrow> string \<Rightarrow> string" where
  "text_or s fallback = (let t = strip (if s = [] then fallback else s) in if t = [] then fallback else t)"

definition check_request :: "job_request \<Rightarrow> exn + unit" where
  "check_request q =
     (let ty = strip (req_type q)
      in if ty \<notin> {''cron'', ''delay'', ''long_running'', ''event''} then Inl (cron_error ''task type'')
         else if ty = ''event'' then Inl (cron_error ''E_JOB_EVENT_NOT_IMPLEMENTED'')
         else if text_or (req_priority q) ''normal'' \<notin> {''low'', ''normal'', ''high''}
         then Inl (cron_error ''priority'')
         else if text_or (req_queue q) ''background'' \<notin> {''dialog'', ''background''}
         then Inl (cron_error ''queue type'')
         else and_then (if ty = ''cron''
             then (case req_cron q of
                 Some (c # cs) \<Rightarrow> and_then (parse_cron (c # cs)) (\<lambda>_. Inr ())
               | _ \<Rightarrow> Inl (cron_error ''cron_expr missing''))
             else Inr ()) (\<lambda>_.
         if ty = ''delay'' \<and> req_delay q = None then Inl (cron_error ''delay_until missing'') else Inr ()))"

definition new_row :: "string \<Rightarrow> pyfloat \<Rightarrow> job_request \<Rightarrow> job_row" where
  "new_row tid now q = \<lparr>job_task_id = tid, job_skill_name = req_skill q, job_task_type = strip (req_type q),
     job_cron_expr = req_cron q, job_delay_until = req_delay q, job_payload = req_payload q,
     job_status = ''pending'', job_priority = text_or (req_priority q) ''normal'',
     job_session_id = req_session q, job_queue_type = text_or (req_queue q) ''background'',
     job_created_at = Some now, job_started_at = None, job_completed_at = None,
     job_last_heartbeat = None, job_heartbeat_timeout = max 1 (req_heartbeat_timeout q),
     job_retry_count = 0, job_max_retries = max 0 (req_max_retries q),
     job_idempotency_key = req_idempotency_key q, job_error = None\<rparr>"

text \<open>\<open>uuid\<close> is the identifier drawn when the caller gives none.\<close>

definition register_task ::
  "clock \<Rightarrow> string \<Rightarrow> job_request \<Rightarrow> scheduler \<Rightarrow> (exn + job_row) \<times> scheduler" where
  "register_task clk uuid q s = (case check_request q of
     Inl e \<Rightarrow> (Inl e, s)
   | Inr _ \<Rightarrow>
      (let tid = (case req_task_id q of Some (c # cs) \<Rightarrow> c # cs | _ \<Rightarrow> uuid);
           row = new_row tid (clk (ticks s)) q
       in if find_row tid s \<noteq> None then (Inl (Exn (AppError ''IntegrityError'') ''task_id''), read_clock s)
          else if req_session q \<notin> set (sessions s)
          then (Inl (Exn (AppError ''IntegrityError'') ''session_id''), read_clock s)
          else (Inr row, read_clock s\<lparr>job_tasks := job_tasks s @ [row]\<rparr>)))"

definition unregister_task :: "string \<Rightarrow> scheduler \<Rightarrow> bool \<times> scheduler" where
  "unregister_task tid s =
     (let gone = (\<lambda>r. job_task_id r = tid \<and> job_status r \<in> {''pending'', ''failed'', ''completed''})
      in (list_ex gone (job_tasks s), s\<lparr>job_tasks := filter (\<lambda>r. \<not> gone r) (job_tasks s)\<rparr>))"

definition get_task :: "string \<Rightarrow> scheduler \<Rightarrow> exn + job_row" where
  "get_task tid s = (case find_row tid s of
     None \<Rightarrow> Inl (Exn KeyError tid) | Some r \<Rightarrow> Inr r)"

text \<open>\<open>start\<close> recovers before the first poll.\<close>

definition recover :: "clock \<Rightarrow> scheduler \<Rightarrow> scheduler" where
  "recover clk s =
     (let s1 = update_rows (\<lambda>r. job_status r \<in> {''running'', ''pending''})
            (\<lambda>r. r\<lparr>job_status := ''pending'', job_started_at := None, job_completed_at := None,
                   job_last_heartbeat := None\<rparr>) (read_clock s)
      in update_rows (\<lambda>r. job_created_at r = None)
           (\<lambda>r. r\<lparr>job_created_at := Some (clk (ticks s))\<rparr>) s1)"

section \<open>Due tasks\<close>

definition iso_or_now :: "clock \<Rightarrow> pyfloat option \<Rightarrow> scheduler \<Rightarrow> pyfloat \<times> scheduler" where
  "iso_or_now clk t s = (case t of Some x \<Rightarrow> (x, s) | None \<Rightarrow> (clk (ticks s), read_clock s))"

definition cron_due :: "clock \<Rightarrow> job_row \<Rightarrow> pyfloat \<Rightarrow> scheduler \<Rightarrow> (exn + bool) \<times> scheduler" where
  "cron_due clk r now s = (case job_cron_expr r of
     None \<Rightarrow> (Inr False, s)
   | Some e \<Rightarrow>
      if e = [] then (Inr False, s)
      else (case job_delay_until r of
          Some d \<Rightarrow> (Inr (d \<le> now), s)
        | None \<Rightarrow> (case parse_cron e of
            Inl x \<Rightarrow> (Inl x, s)
          | Inr c \<Rightarrow>
             (case iso_or_now clk (job_created_at r) s of (created, s1) \<Rightarrow>
             (case (case job_last_heartbeat r of None \<Rightarrow> (created, s1)
                    | Some h \<Rightarrow> iso_or_now clk (Some h) s1) of (baseline, s2) \<Rightarrow>
               (and_then (next_after c baseline) (\<lambda>n. Inr (n \<le> now)), s2))))))"

definition row_due :: "clock \<Rightarrow> job_row \<Rightarrow> pyfloat \<Rightarrow> scheduler \<Rightarrow> (exn + bool) \<times> scheduler" where
  "row_due clk r now s =
     (if job_task_type r = ''cron'' then cron_due clk r now s
      else if job_task_type r = ''delay''
      then (Inr (case job_delay_until r of None \<Rightarrow> False | Some d \<Rightarrow> d \<le> now), s)
      else if job_task_type r = ''long_running''
      then (Inr (case job_delay_until r of None \<Rightarrow> True | Some d \<Rightarrow> d \<le> now), s)
      else (Inr False, s))"

fun due_loop :: "clock \<Rightarrow> pyfloat \<Rightarrow> job_row list \<Rightarrow> scheduler \<Rightarrow> (exn + job_row list) \<times> scheduler" where
  "due_loop clk now [] s = (Inr [], s)"
| "due_loop clk now (r # rs) s = (case row_due clk r now s of
     (Inl e, s1) \<Rightarrow> (Inl e, s1)
   | (Inr b, s1) \<Rightarrow> (case due_loop clk now rs s1 of
       (Inl e, s2) \<Rightarrow> (Inl e, s2)
     | (Inr ds, s2) \<Rightarrow> (Inr (if b then r # ds else ds), s2)))"

text \<open>\<open>ORDER BY created_at ASC\<close>; an absent time comes first.\<close>

definition created_key :: "job_row \<Rightarrow> pyfloat list" where
  "created_key r = (case job_created_at r of None \<Rightarrow> [] | Some t \<Rightarrow> [t])"

definition pending_rows :: "scheduler \<Rightarrow> job_row list" where
  "pending_rows s = sort_key created_key (filter (\<lambda>r. job_status r = ''pending'') (job_tasks s))"

definition fetch_due_tasks :: "clock \<Rightarrow> scheduler \<Rightarrow> (exn + job_row list) \<times> scheduler" where
  "fetch_due_tasks clk s = due_loop clk (clk (ticks s)) (pending_rows s) (read_clock s)"

section \<open>Promotion\<close>

definition mark_running :: "clock \<Rightarrow> string \<Rightarrow> scheduler \<Rightarrow> bool \<times> scheduler" where
  "mark_running clk tid s =
     (let p = (\<lambda>r. job_task_id r = tid \<and> job_status r = ''pending''); now = Some (clk (ticks s))
      in (length (filter p (job_tasks s)) = 1,
          update_rows p (\<lambda>r. r\<lparr>job_status := ''running'', job_started_at := now, job_completed_at := None,
            job_last_heartbeat := now, job_delay_until := None\<rparr>) (read_clock s)))"

definition promote_row :: "clock \<Rightarrow> job_row \<Rightarrow> scheduler \<Rightarrow> scheduler" where
  "promote_row clk r s = (case mark_running clk (job_task_id r) s of
     (ok, s1) \<Rightarrow> if ok then s1\<lparr>pool := pool s1 @ [job_task_id r],
       futures := dset (futures s1) (job_task_id r) False\<rparr> else s1)"

definition promote_due_tasks :: "clock \<Rightarrow> scheduler \<Rightarrow> (exn + unit) \<times> scheduler" where
  "promote_due_tasks clk s = (case fetch_due_tasks clk s of
     (Inl e, s1) \<Rightarrow> (Inl e, s1)
   | (Inr rows, s1) \<Rightarrow> (Inr (), fold (promote_row clk) rows s1))"

section \<open>Workers\<close>

record dispatch_result =
  dr_status :: string
  dr_error :: "pyval dict option"

definition mark_failed :: "clock \<Rightarrow> string \<Rightarrow> pyval dict \<Rightarrow> scheduler \<Rightarrow> scheduler" where
  "mark_failed clk tid err s =
     update_rows (\<lambda>r. job_task_id r = tid)
       (\<lambda>r. r\<lparr>job_status := ''failed'', job_completed_at := Some (clk (ticks s)),
              job_last_heartbeat := Some (clk (Suc (ticks s))), job_error := Some err\<rparr>) (read_clock (read_clock s))"

definition reschedule_cron :: "clock \<Rightarrow> string \<Rightarrow> scheduler \<Rightarrow> (exn + unit) \<times> scheduler" where
  "reschedule_cron clk tid s =
     (let now = clk (ticks s); s1 = read_clock s;
          write = (\<lambda>nxt s2. update_rows (\<lambda>r. job_task_id r = tid)
            (\<lambda>r. r\<lparr>job_status := ''pending'', job_started_at := None, job_completed_at := Some now,
                   job_last_heartbeat := Some now, job_delay_until := nxt\<rparr>) s2)
      in (case find_row tid s1 of
          Some r \<Rightarrow> (case job_cron_expr r of
              Some (c # cs) \<Rightarrow> (case and_then (parse_cron (c # cs)) (\<lambda>e. next_after e (clk (ticks s1))) of
                  Inl x \<Rightarrow> (Inl x, read_clock s1)
                | Inr nxt \<Rightarrow> (Inr (), write (Some nxt) (read_clock s1)))
            | _ \<Rightarrow> (Inr (), write None s1))
        | None \<Rightarrow> (Inr (), write None s1)))"

definition finalize_after_dispatch ::
  "clock \<Rightarrow> job_row \<Rightarrow> dispatch_result \<Rightarrow> scheduler \<Rightarrow> (exn + unit) \<times> scheduler" where
  "finalize_after_dispatch clk task res s = (case find_row (job_task_id task) s of
     None \<Rightarrow> (Inr (), s)
   | Some r \<Rightarrow>
      if job_status r = ''failed'' then (Inr (), s)
      else if dr_status res \<in> {''completed'', ''skipped_duplicate''}
      then (if job_task_type task = ''cron'' then reschedule_cron clk (job_task_id task) s
            else (Inr (), update_rows (\<lambda>r. job_task_id r = job_task_id task)
              (\<lambda>r. r\<lparr>job_status := ''completed'', job_completed_at := Some (clk (ticks s)),
                     job_last_heartbeat := Some (clk (Suc (ticks s)))\<rparr>) (read_clock (read_clock s))))
      else (Inr (), mark_failed clk (job_task_id task)
        (case dr_error res of Some (e # es) \<Rightarrow> e # es | _ \<Rightarrow> job_error_dict ''E_JOB_DISPATCH_FAILED'') s))"

text \<open>The message a worker dispatches.\<close>

record job_message =
  jm_message_id :: string
  jm_topic :: string
  jm_source :: string
  jm_target :: string
  jm_session_id :: string
  jm_idempotency_key :: "string option"
  jm_timeout_sec :: pyfloat
  jm_queue_type :: string
  jm_payload :: "pyval dict"
  jm_meta :: "pyval dict"

definition task_idempotency_key :: "job_row \<Rightarrow> string option" where
  "task_idempotency_key task =
     (if job_task_type task = ''cron'' then None else Some (''job:'' @ job_task_id task))"

definition build_message :: "job_row \<Rightarrow> job_message" where
  "build_message task = \<lparr>jm_message_id = ''job:'' @ job_task_id task, jm_topic = ''skill.invoke'',
     jm_source = ''shell'', jm_target = job_skill_name task, jm_session_id = job_session_id task,
     jm_idempotency_key = task_idempotency_key task,
     jm_timeout_sec = (if job_task_type task = ''long_running''
        then of_int (job_heartbeat_timeout task) else 30),
     jm_queue_type = job_queue_type task,
     jm_payload = fold (\<lambda>(k, v) d. dset d k v) (job_payload task)
        [(''task_id'', PStr (job_task_id task)), (''skill_name'', PStr (job_skill_name task))],
     jm_meta = [(''job_task_type'', PStr (job_task_type task)),
        (''heartbeat_timeout_sec'', PInt (job_heartbeat_timeout task))]\<rparr>"

text \<open>
  \<open>_trigger_task\<close> up to the dispatch: the message to send, or nothing when the skill is not alive
  or the row is gone. The future is dropped in the \<open>finally\<close> block, which a missing row does
  not reach.
\<close>

definition trigger_begin ::
  "clock \<Rightarrow> (string \<Rightarrow> bool) \<Rightarrow> string \<Rightarrow> scheduler \<Rightarrow> (exn + (job_row \<times> job_message) option) \<times> scheduler" where
  "trigger_begin clk alive tid s = (case find_row tid s of
     None \<Rightarrow> (Inl (Exn KeyError tid), s\<lparr>futures := (if dget (futures s) tid = None then futures s
        else dset (futures s) tid True)\<rparr>)
   | Some task \<Rightarrow>
      if \<not> alive (job_skill_name task)
      then (let s1 = mark_failed clk tid (job_error_dict ''E_JOB_SKILL_NOT_ALIVE'') s
            in (Inr None, s1\<lparr>futures := dpop (futures s1) tid\<rparr>))
      else (Inr (Some (task, build_message task)), s))"

text \<open>The rest of it, with the result of the dispatch or the exception it raised.\<close>

definition trigger_end ::
  "clock \<Rightarrow> job_row \<Rightarrow> exn + dispatch_result \<Rightarrow> scheduler \<Rightarrow> (exn + dispatch_result) \<times> scheduler" where
  "trigger_end clk task res s =
     (case (case res of
         Inl e \<Rightarrow> (Inl e, s)
       | Inr r \<Rightarrow> (case finalize_after_dispatch clk task r s of
           (Inl e, s1) \<Rightarrow> (Inl e, s1) | (Inr _, s1) \<Rightarrow> (Inr r, s1)))
      of (out, s2) \<Rightarrow> (out, s2\<lparr>futures := dpop (futures s2) (job_task_id task)\<rparr>))"

section \<open>Heartbeats and the loop\<close>

definition refresh_row :: "pyfloat \<Rightarrow> string \<times> bool \<Rightarrow> scheduler \<Rightarrow> scheduler" where
  "refresh_row now item s = (if snd item then s
     else update_rows (\<lambda>r. job_task_id r = fst item \<and> job_status r = ''running'')
        (\<lambda>r. r\<lparr>job_last_heartbeat := Some now\<rparr>) s)"

definition refresh_running_heartbeats :: "clock \<Rightarrow> scheduler \<Rightarrow> scheduler" where
  "refresh_running_heartbeats clk s =
     (let s1 = fold (refresh_row (clk (ticks s))) (futures s) (read_clock s)
      in s1\<lparr>futures := filter (\<lambda>item. \<not> snd item) (futures s1)\<rparr>)"

definition sweep_row :: "clock \<Rightarrow> pyfloat \<Rightarrow> job_row \<Rightarrow> scheduler \<Rightarrow> scheduler" where
  "sweep_row clk now r s = (case job_last_heartbeat r of
     None \<Rightarrow> s
   | Some h \<Rightarrow> if now - h > of_int (job_heartbeat_timeout r)
       then mark_failed clk (job_task_id r) (job_error_dict ''E_JOB_HEARTBEAT_TIMEOUT'') s else s)"

definition heartbeat_sweeper :: "clock \<Rightarrow> scheduler \<Rightarrow> scheduler" where
  "heartbeat_sweeper clk s =
     fold (sweep_row clk (clk (ticks s))) (filter (\<lambda>r. job_status r = ''running'') (job_tasks s)) (read_clock s)"

text \<open>One round of \<open>_scheduler_loop\<close>: an exception ends the round and is logged.\<close>

definition poll :: "clock \<Rightarrow> scheduler \<Rightarrow> scheduler" where
  "poll clk s = (case promote_due_tasks clk s of
     (Inl e, s1) \<Rightarrow> s1
   | (Inr _, s1) \<Rightarrow> heartbeat_sweeper clk (refresh_running_heartbeats clk s1))"

section \<open>Runs\<close>

text \<open>
  The scheduler with its workers: the tasks whose message is being dispatched and the messages
  sent. \<open>Begin\<close> and \<open>Finish\<close> name a submitted task and a place in \<open>inflight\<close>; a restart loses the
  pool, the workers and the futures, and recovers.
\<close>

record job_system =
  sched :: scheduler
  inflight :: "job_row list"
  sent :: "string list"

datatype job_event =
    Register string job_request
  | Unregister string
  | Poll
  | Begin string bool
  | Finish nat "exn + dispatch_result"
  | Restart

definition job_event_step :: "clock \<Rightarrow> job_event \<Rightarrow> job_system \<Rightarrow> job_system" where
  "job_event_step clk ev s = (case ev of
     Register uuid q \<Rightarrow> s\<lparr>sched := snd (register_task clk uuid q (sched s))\<rparr>
   | Unregister tid \<Rightarrow> s\<lparr>sched := snd (unregister_task tid (sched s))\<rparr>
   | Poll \<Rightarrow> s\<lparr>sched := poll clk (sched s)\<rparr>
   | Begin tid alive \<Rightarrow>
      if tid \<notin> set (pool (sched s)) then s
      else (case trigger_begin clk (\<lambda>_. alive) tid ((sched s)\<lparr>pool := remove1 tid (pool (sched s))\<rparr>) of
          (Inr (Some (task, _)), d) \<Rightarrow> s\<lparr>sched := d, inflight := inflight s @ [task], sent := sent s @ [tid]\<rparr>
        | (_, d) \<Rightarrow> s\<lparr>sched := d\<rparr>)
   | Finish i res \<Rightarrow>
      if i < length (inflight s)
      then s\<lparr>sched := snd (trigger_end clk (inflight s ! i) res (sched s)),
             inflight := take i (inflight s) @ drop (Suc i) (inflight s)\<rparr>
      else s
   | Restart \<Rightarrow> s\<lparr>sched := recover clk ((sched s)\<lparr>futures := [], pool := []\<rparr>), inflight := []\<rparr>)"

definition job_run :: "clock \<Rightarrow> job_event list \<Rightarrow> job_system \<Rightarrow> job_system" where
  "job_run clk evs s = fold (job_event_step clk) evs s"

text \<open>Events that may put the task into the table again.\<close>

definition reintroduces :: "string \<Rightarrow> job_event \<Rightarrow> bool" where
  "reintroduces tid ev = (case ev of
     Register uuid q \<Rightarrow> (case req_task_id q of Some (c # cs) \<Rightarrow> c # cs | _ \<Rightarrow> uuid) = tid
   | Restart \<Rightarrow> True | _ \<Rightarrow> False)"

section \<open>Counting dispatches\<close>

definition to_dispatch :: "string \<Rightarrow> scheduler \<Rightarrow> nat" where
  "to_dispatch tid s = count_list (pool s) tid
     + length (filter (\<lambda>r. job_task_id r = tid \<and> job_status r = ''pending'') (job_tasks s))"

definition one_shot :: "string \<Rightarrow> scheduler \<Rightarrow> bool" where
  "one_shot tid s = (\<forall>r \<in> set (job_tasks s). job_task_id r = tid \<longrightarrow> job_task_type r \<noteq> ''cron'')"

lemma pending_map_le:
  "(\<And>r. job_task_id (g r) = tid \<and> job_status (g r) = ''pending''
      \<Longrightarrow> job_task_id r = tid \<and> job_status r = ''pending'')
    \<Longrightarrow> length (filter (\<lambda>r. job_task_id r = tid \<and> job_status r = ''pending'') (map g rs))
      \<le> length (filter (\<lambda>r. job_task_id r = tid \<and> job_status r = ''pending'') rs)"
  by (induction rs) (auto intro: le_SucI)

lemma to_dispatch_update_le:
  assumes "\<And>r. p r \<Longrightarrow> job_task_id (f r) = tid \<and> job_status (f r) = ''pending''
      \<Longrightarrow> job_task_id r = tid \<and> job_status r = ''pending''"
  shows "to_dispatch tid (update_rows p f s) \<le> to_dispatch tid s"
proof -
  have "length (filter (\<lambda>r. job_task_id r = tid \<and> job_status r = ''pending'')
      (map (\<lambda>r. if p r then f r else r) (job_tasks s)))
    \<le> length (filter (\<lambda>r. job_task_id r = tid \<and> job_status r = ''pending'') (job_tasks s))"
    by (rule pending_map_le) (use assms in \<open>auto split: if_splits\<close>)
  then show ?thesis by (simp add: to_dispatch_def update_rows_def)
qed

lemma one_shot_update:
  assumes "\<And>r. job_task_id (f r) = job_task_id r" "\<And>r. job_task_type (f r) = job_task_type r"
    "one_shot tid s"
  shows "one_shot tid (update_rows p f s)"
  using assms by (auto simp: one_shot_def update_rows_def)

lemma read_clock_simps [simp]:
  "to_dispatch tid (read_clock s) = to_dispatch tid s" "one_shot tid (read_clock s) = one_shot tid s"
  "job_tasks (read_clock s) = job_tasks s" "pool (read_clock s) = pool s" "futures (read_clock s) = futures s"
  by (simp_all add: to_dispatch_def one_shot_def read_clock_def)

lemma futures_simps [simp]:
  "to_dispatch tid (s\<lparr>futures := f\<rparr>) = to_dispatch tid s" "one_shot tid (s\<lparr>futures := f\<rparr>) = one_shot tid s"
  "one_shot tid (s\<lparr>pool := p\<rparr>) = one_shot tid s"
  by (simp_all add: to_dispatch_def one_shot_def)

text \<open>No operation apart from registration and recovery adds to what waits.\<close>

definition shrinks :: "string \<Rightarrow> scheduler \<Rightarrow> scheduler \<Rightarrow> bool" where
  "shrinks tid s t = (to_dispatch tid t \<le> to_dispatch tid s \<and> (one_shot tid s \<longrightarrow> one_shot tid t))"

lemma shrinks_refl [simp]: "shrinks tid s s"
  by (simp add: shrinks_def)

lemma shrinks_trans: "shrinks tid s t \<Longrightarrow> shrinks tid t u \<Longrightarrow> shrinks tid s u"
  by (auto simp: shrinks_def)

lemma shrinks_fold: "(\<And>x s. shrinks tid s (f x s)) \<Longrightarrow> shrinks tid s (fold f xs s)"
  by (induction xs arbitrary: s) (auto intro: shrinks_trans)

lemma shrinks_read_clock [simp]: "shrinks tid s (read_clock t) = shrinks tid s t" "shrinks tid (read_clock s) t = shrinks tid s t"
  by (simp_all add: shrinks_def)

lemma shrinks_update:
  assumes "\<And>r. job_task_id (f r) = job_task_id r" "\<And>r. job_task_type (f r) = job_task_type r"
    "\<And>r. p r \<Longrightarrow> job_status (f r) = ''pending'' \<Longrightarrow> job_task_id r = tid \<Longrightarrow> job_status r = ''pending''"
  shows "shrinks tid s (update_rows p f s)"
  using assms to_dispatch_update_le [of p f tid s] one_shot_update [of f tid s p]
  by (auto simp: shrinks_def)

lemma mark_failed_shrinks: "shrinks tid s (mark_failed clk k e s)"
proof -
  have "shrinks tid (read_clock (read_clock s)) (mark_failed clk k e s)"
    unfolding mark_failed_def by (rule shrinks_update) auto
  then show ?thesis by simp
qed

lemma refresh_shrinks: "shrinks tid s (refresh_running_heartbeats clk s)"
proof -
  have "shrinks tid t (refresh_row now item t)" for now item t
    by (auto simp: refresh_row_def intro!: shrinks_update)
  from shrinks_fold [of tid "refresh_row (clk (ticks s))" "read_clock s" "futures s", OF this]
  show ?thesis by (simp add: refresh_running_heartbeats_def shrinks_def Let_def)
qed

lemma sweeper_shrinks: "shrinks tid s (heartbeat_sweeper clk s)"
proof -
  have "shrinks tid t (sweep_row clk now r t)" for now r t
    by (simp add: sweep_row_def mark_failed_shrinks split: option.split)
  from shrinks_fold [of tid "sweep_row clk (clk (ticks s))" "read_clock s", OF this]
  show ?thesis by (simp add: heartbeat_sweeper_def)
qed

lemma iso_or_now_frame: "iso_or_now clk t s = (x, s1) \<Longrightarrow> shrinks tid u s1 = shrinks tid u s
    \<and> job_tasks s1 = job_tasks s \<and> pool s1 = pool s \<and> futures s1 = futures s"
  by (auto simp: iso_or_now_def split: option.splits)

lemma row_due_frame: "row_due clk r now s = (x, s1) \<Longrightarrow>
    job_tasks s1 = job_tasks s \<and> pool s1 = pool s \<and> futures s1 = futures s"
  by (auto simp: row_due_def cron_due_def split: if_splits option.splits sum.splits prod.splits
      dest!: iso_or_now_frame)

lemma due_loop_frame: "due_loop clk now rs s = (x, s1) \<Longrightarrow>
    job_tasks s1 = job_tasks s \<and> pool s1 = pool s \<and> futures s1 = futures s"
proof (induction rs arbitrary: s x s1)
  case (Cons r rs)
  obtain b t where b: "row_due clk r now s = (b, t)" by fastforce
  obtain d u where d: "due_loop clk now rs t = (d, u)" by fastforce
  from Cons.IH [OF d] Cons.prems row_due_frame [OF b] b d show ?case
    by (simp split: sum.splits)
qed simp

lemma shrinks_frame: "job_tasks t = job_tasks s \<Longrightarrow> pool t = pool s \<Longrightarrow> shrinks tid s t"
  by (simp add: shrinks_def to_dispatch_def one_shot_def)

text \<open>A promotion moves the one pending row of its task into the pool.\<close>

lemma promote_row_shrinks: "shrinks tid s (promote_row clk r s)"
proof -
  let ?p = "\<lambda>x. job_task_id x = job_task_id r \<and> job_status x = ''pending''"
  obtain ok t where m: "mark_running clk (job_task_id r) s = (ok, t)" by fastforce
  then have t: "t = update_rows ?p (\<lambda>x. x\<lparr>job_status := ''running'', job_started_at := Some (clk (ticks s)),
      job_completed_at := None, job_last_heartbeat := Some (clk (ticks s)), job_delay_until := None\<rparr>) (read_clock s)"
    and ok: "ok = (length (filter ?p (job_tasks s)) = 1)"
    by (auto simp: mark_running_def Let_def)
  have st: "shrinks tid s t"
  proof -
    have "shrinks tid (read_clock s) t" unfolding t by (rule shrinks_update) auto
    then show ?thesis by simp
  qed
  show ?thesis
  proof (cases "ok \<and> tid = job_task_id r")
    case True
    have none: "filter ?p (job_tasks t) = []"
      unfolding t by (auto simp: update_rows_def filter_empty_conv)
    from True have "to_dispatch tid (promote_row clk r s) = to_dispatch tid s"
      using m none ok by (simp add: promote_row_def to_dispatch_def) (simp add: t update_rows_def)
    with st True m show ?thesis by (simp add: shrinks_def promote_row_def one_shot_def)
  next
    case False
    then have "to_dispatch tid (promote_row clk r s) = to_dispatch tid t"
      using m by (auto simp: promote_row_def to_dispatch_def)
    with st m show ?thesis by (simp add: shrinks_def promote_row_def one_shot_def)
  qed
qed

lemma poll_shrinks: "shrinks tid s (poll clk s)"
proof -
  obtain d t where f: "fetch_due_tasks clk s = (d, t)" by fastforce
  then have "shrinks tid s t"
    by (intro shrinks_frame) (auto simp: fetch_due_tasks_def dest!: due_loop_frame)
  then have "shrinks tid s (heartbeat_sweeper clk (refresh_running_heartbeats clk
      (fold (promote_row clk) rows t)))" for rows
    by (intro shrinks_trans [OF _ sweeper_shrinks] shrinks_trans [OF _ refresh_shrinks]
        shrinks_trans [OF _ shrinks_fold]) (assumption, rule promote_row_shrinks)
  with f \<open>shrinks tid s t\<close> show ?thesis
    by (simp add: poll_def promote_due_tasks_def split: sum.split)
qed

lemma find_row_Some: "find_row tid s = Some r \<Longrightarrow> r \<in> set (job_tasks s) \<and> job_task_id r = tid"
  by (auto simp: find_row_def find_Some_iff)

lemma reschedule_shrinks: "k \<noteq> tid \<Longrightarrow> shrinks tid s (snd (reschedule_cron clk k s))"
proof -
  assume k: "k \<noteq> tid"
  have "shrinks tid s (update_rows (\<lambda>r. job_task_id r = k)
      (\<lambda>r. r\<lparr>job_status := ''pending'', job_started_at := None, job_completed_at := a,
        job_last_heartbeat := b, job_delay_until := c\<rparr>) s)" for a b c s
    using k by (intro shrinks_update) auto
  from this [of "read_clock s"] this [of "read_clock (read_clock s)"] show ?thesis
    by (simp add: reschedule_cron_def Let_def split: option.split list.split sum.split)
qed

lemma finalize_shrinks:
  "(job_task_id task = tid \<Longrightarrow> job_task_type task \<noteq> ''cron'')
    \<Longrightarrow> shrinks tid s (snd (finalize_after_dispatch clk task r s))"
proof -
  assume cr: "job_task_id task = tid \<Longrightarrow> job_task_type task \<noteq> ''cron''"
  have "shrinks tid (read_clock (read_clock s)) (update_rows (\<lambda>r. job_task_id r = job_task_id task)
      (\<lambda>r. r\<lparr>job_status := ''completed'', job_completed_at := a, job_last_heartbeat := b\<rparr>) (read_clock (read_clock s)))"
    for a b by (rule shrinks_update) auto
  then show ?thesis
    using cr by (simp add: finalize_after_dispatch_def mark_failed_shrinks split: option.split)
      (metis reschedule_shrinks)
qed

lemma trigger_end_shrinks:
  "(job_task_id task = tid \<Longrightarrow> job_task_type task \<noteq> ''cron'')
    \<Longrightarrow> shrinks tid s (snd (trigger_end clk task res s))"
proof -
  assume cr: "job_task_id task = tid \<Longrightarrow> job_task_type task \<noteq> ''cron''"
  have fut: "shrinks tid s (t\<lparr>futures := f\<rparr>) = shrinks tid s t" for t f
    by (simp add: shrinks_def)
  show ?thesis
  proof (cases res)
    case (Inl e)
    then show ?thesis by (simp add: trigger_end_def fut)
  next
    case (Inr r)
    obtain x t where f: "finalize_after_dispatch clk task r s = (x, t)" by fastforce
    with finalize_shrinks [where s = s and clk = clk and r = r, OF cr] have "shrinks tid s t" by simp
    with Inr f show ?thesis by (cases x) (simp_all add: trigger_end_def fut)
  qed
qed

lemma trigger_begin_shrinks: "shrinks tid s (snd (trigger_begin clk alive k s))"
  using mark_failed_shrinks [of tid s]
  by (simp add: trigger_begin_def shrinks_def Let_def split: option.split)

lemma unregister_shrinks: "shrinks tid s (snd (unregister_task k s))"
proof -
  have "length (filter p (filter q xs)) \<le> length (filter p xs)" for p q and xs :: "job_row list"
    by (induction xs) auto
  then show ?thesis
    by (simp add: shrinks_def unregister_task_def to_dispatch_def one_shot_def)
qed

lemma register_shrinks:
  assumes "(case req_task_id q of Some (c # cs) \<Rightarrow> c # cs | _ \<Rightarrow> uuid) \<noteq> tid"
  shows "shrinks tid s (snd (register_task clk uuid q s))"
proof -
  have "job_task_id (new_row i now q) = i" for i now by (simp add: new_row_def)
  with assms show ?thesis
    by (simp add: register_task_def Let_def shrinks_def to_dispatch_def one_shot_def read_clock_def split: sum.split)
qed

definition budget :: "string \<Rightarrow> job_system \<Rightarrow> nat" where
  "budget tid s = count_list (sent s) tid + to_dispatch tid (sched s)"

definition one_shot_system :: "string \<Rightarrow> job_system \<Rightarrow> bool" where
  "one_shot_system tid s = (one_shot tid (sched s)
     \<and> list_all (\<lambda>t. job_task_id t = tid \<longrightarrow> job_task_type t \<noteq> ''cron'') (inflight s))"

lemma count_list_remove1: "x \<in> set xs \<Longrightarrow> Suc (count_list (remove1 x xs) x) = count_list xs x"
  by (induction xs) auto

lemma count_list_remove1_other: "x \<noteq> y \<Longrightarrow> count_list (remove1 x xs) y = count_list xs y"
  by (induction xs) auto

lemma begin_budget:
  assumes "one_shot_system tid s" "k \<in> set (pool (sched s))"
  shows "budget tid (job_event_step clk (Begin k al) s) \<le> budget tid s
    \<and> one_shot_system tid (job_event_step clk (Begin k al) s)"
proof -
  let ?s0 = "(sched s)\<lparr>pool := remove1 k (pool (sched s))\<rparr>"
  obtain out d where b: "trigger_begin clk (\<lambda>_. al) k ?s0 = (out, d)" by fastforce
  have w: "to_dispatch tid ?s0 + (if k = tid then 1 else 0) = to_dispatch tid (sched s)"
    using count_list_remove1 [OF assms(2)] count_list_remove1_other [of k tid "pool (sched s)"]
    by (auto simp: to_dispatch_def)
  have st: "shrinks tid ?s0 d" using trigger_begin_shrinks [of tid ?s0 clk "\<lambda>_. al" k] b by simp
  have "job_task_id t = tid \<longrightarrow> job_task_type t \<noteq> ''cron''" if "out = Inr (Some (t, m))" for t m
  proof -
    from b that have "find_row k ?s0 = Some t"
      by (auto simp: trigger_begin_def Let_def split: option.splits if_splits)
    then have "t \<in> set (job_tasks (sched s))" using find_row_Some [of k ?s0 t] by simp
    with assms(1) show ?thesis by (auto simp: one_shot_system_def one_shot_def)
  qed
  with assms b w st show ?thesis
    by (auto simp: job_event_step_def budget_def one_shot_system_def shrinks_def
        split: sum.split option.split prod.split)
qed

lemma finish_budget:
  assumes "one_shot_system tid s"
  shows "budget tid (job_event_step clk (Finish i res) s) \<le> budget tid s
    \<and> one_shot_system tid (job_event_step clk (Finish i res) s)"
proof (cases "i < length (inflight s)")
  case True
  then have "inflight s ! i \<in> set (inflight s)" by simp
  with assms have "job_task_id (inflight s ! i) = tid \<Longrightarrow> job_task_type (inflight s ! i) \<noteq> ''cron''"
    by (auto simp: one_shot_system_def list_all_iff)
  from trigger_end_shrinks [where s = "sched s" and clk = clk and res = res, OF this] assms True show ?thesis
    by (auto simp: job_event_step_def budget_def one_shot_system_def shrinks_def list_all_iff
        dest: in_set_takeD in_set_dropD)
qed (use assms in \<open>simp add: job_event_step_def\<close>)

lemma event_budget:
  assumes "one_shot_system tid s" "\<not> reintroduces tid ev"
  shows "budget tid (job_event_step clk ev s) \<le> budget tid s
    \<and> one_shot_system tid (job_event_step clk ev s)"
proof (cases ev)
  case (Register uuid q)
  with assms register_shrinks [where q = q and uuid = uuid and tid = tid and s = "sched s" and clk = clk] show ?thesis
    by (simp add: job_event_step_def budget_def one_shot_system_def shrinks_def reintroduces_def)
next
  case (Unregister k)
  with assms unregister_shrinks [of tid "sched s" k] show ?thesis
    by (simp add: job_event_step_def budget_def one_shot_system_def shrinks_def)
next
  case Poll
  with assms poll_shrinks [of tid "sched s" clk] show ?thesis
    by (simp add: job_event_step_def budget_def one_shot_system_def shrinks_def)
next
  case (Begin k al)
  with assms begin_budget show ?thesis
    by (cases "k \<in> set (pool (sched s))") (simp_all add: job_event_step_def)
next
  case (Finish i res)
  with assms finish_budget show ?thesis by blast
next
  case Restart
  with assms show ?thesis by (simp add: reintroduces_def)
qed

lemma run_budget:
  "one_shot_system tid s \<Longrightarrow> list_all (\<lambda>ev. \<not> reintroduces tid ev) evs \<Longrightarrow>
     budget tid (job_run clk evs s) \<le> budget tid s"
proof (induction evs arbitrary: s)
  case (Cons ev evs)
  from Cons.prems event_budget [of tid s ev clk] Cons.IH [of "job_event_step clk ev s"]
  show ?case by (auto simp: job_run_def)
qed (simp add: job_run_def)

section \<open>A schedule that never matches\<close>

definition april_31 :: cron where
  "april_31 = \<lparr>cron_minutes = [0], cron_hours = [0], cron_days = [31], cron_months = [4],
     cron_weekdays = [0, 1, 2, 3, 4, 5, 6]\<rparr>"

lemma no_april_31: "month_day d \<noteq> (4, 31)"
proof
  assume a: "month_day d = (4, 31)"
  obtain doy where doy: "(let mp = (5 * doy + 2) div 153
      in (if mp < 10 then mp + 3 else mp - 9, doy - (153 * mp + 2) div 5 + 1)) = (4 :: int, 31 :: int)"
    using a unfolding month_day_def Let_def by blast
  define mp where "mp = (5 * doy + 2) div 153"
  from doy have "mp = 1 \<or> mp = 13" "doy - (153 * mp + 2) div 5 + 1 = 31"
    by (auto simp: mp_def Let_def split: if_splits)
  then show False unfolding mp_def by auto
qed

lemma april_31_never: "\<not> cron_matches april_31 m"
  using no_april_31 [of "m div 1440"]
  by (auto simp: cron_matches_def april_31_def Let_def split: prod.splits)

lemma april_31_next: "next_after april_31 t = Inl (cron_error ''no matching minute'')"
proof -
  have "search_minute april_31 n m = None" for n m
    by (induction n arbitrary: m) (simp_all add: april_31_never)
  then show ?thesis by (simp add: next_after_def)
qed

lemma april_31_parses: "parse_cron ''0 0 31 4 *'' = Inr april_31"
  by code_simp

lemma april_31_row_due:
  assumes "job_task_type r = ''cron''" "job_cron_expr r = Some ''0 0 31 4 *''" "job_delay_until r = None"
  shows "\<exists>s1. row_due clk r now s = (Inl (cron_error ''no matching minute''), s1)"
  using assms
  by (simp add: row_due_def cron_due_def april_31_parses april_31_next split: option.split prod.split)

lemma due_loop_error:
  "r \<in> set rs \<Longrightarrow> (\<And>s. \<exists>e s1. row_due clk r now s = (Inl e, s1)) \<Longrightarrow> \<exists>e s1. due_loop clk now rs s = (Inl e, s1)"
proof (induction rs arbitrary: s)
  case (Cons x rs)
  obtain b t where b: "row_due clk x now s = (b, t)" by fastforce
  obtain d u where d: "due_loop clk now rs t = (d, u)" by fastforce
  show ?case
  proof (cases "x = r")
    case True
    with Cons.prems(2) [of s] show ?thesis by auto
  next
    case False
    with Cons.prems have "r \<in> set rs" by simp
    from Cons.IH [OF this Cons.prems(2), of t] d obtain e where "d = Inl e" by auto
    with b d show ?thesis by (cases b) simp_all
  qed
qed simp

section \<open>Properties\<close>

text \<open>C14. A task that is not a cron task is dispatched at most once between restarts, whatever the
  order of polls, workers, other registrations and removals.\<close>

theorem at_most_one_dispatch:
  assumes "distinct (map job_task_id (job_tasks (sched s)))"
    and "one_shot_system tid s" and "tid \<notin> set (pool (sched s))"
    and "list_all (\<lambda>ev. \<not> reintroduces tid ev) evs"
  shows "count_list (sent (job_run clk evs s)) tid \<le> Suc (count_list (sent s) tid)"
proof -
  have "distinct (map job_task_id rs) \<Longrightarrow>
      length (filter (\<lambda>r. job_task_id r = tid \<and> job_status r = ''pending'') rs) \<le> 1" for rs
  proof (induction rs)
    case (Cons r rs)
    show ?case
    proof (cases "job_task_id r = tid")
      case True
      with Cons.prems have "filter (\<lambda>r. job_task_id r = tid \<and> job_status r = ''pending'') rs = []"
        by (auto simp: filter_empty_conv) (metis image_eqI)
      then show ?thesis by simp
    qed (use Cons in simp)
  qed simp
  from this [OF assms(1)] assms(3) have "to_dispatch tid (sched s) \<le> 1"
    by (simp add: to_dispatch_def count_notin)
  with run_budget [OF assms(2, 4), of clk] show ?thesis by (simp add: budget_def)
qed

text \<open>A delayed task that a crash interrupts is lost: its row is pending again after the
  recovery, but since promotion cleared its time it never becomes due.\<close>

theorem crash_loses_delayed_task:
  assumes "mark_running clk tid s = (True, s1)" and "find_row tid s = Some r"
    and "job_task_type r = ''delay''" and "job_status r = ''pending''"
  shows "\<exists>r'. find_row tid (recover clk' s1) = Some r' \<and> job_status r' = ''pending''
    \<and> job_task_type r' = ''delay''
    \<and> (\<forall>clk2 now s2. row_due clk2 r' now s2 = (Inr False, s2))"
proof -
  have upd: "find (\<lambda>r. job_task_id r = tid) (map g rs) = map_option g (find (\<lambda>r. job_task_id r = tid) rs)"
    if "\<And>r. job_task_id (g r) = job_task_id r" for g rs
    using that by (induction rs) auto
  from assms(1) have s1: "s1 = snd (mark_running clk tid s)" by simp
  from find_row_Some [OF assms(2)] have "job_task_id r = tid" by simp
  with assms(2-4) show ?thesis
    by (simp add: s1 mark_running_def recover_def update_rows_def find_row_def read_clock_def upd Let_def
        row_due_def)
qed

text \<open>One cron expression that registration accepts but that matches no date stops the scheduler:
  while its row is pending, every poll promotes nothing and sweeps nothing.\<close>

theorem impossible_cron_stops_polls:
  assumes "r \<in> set (job_tasks s)" and "job_status r = ''pending''" and "job_task_type r = ''cron''"
    and "job_cron_expr r = Some ''0 0 31 4 *''" and "job_delay_until r = None"
  shows "parse_cron ''0 0 31 4 *'' = Inr april_31
    \<and> job_tasks (poll clk s) = job_tasks s \<and> pool (poll clk s) = pool s"
proof -
  have row: "\<exists>e s1. row_due clk r now t = (Inl e, s1)" for now t
    using april_31_row_due [OF assms(3-5)] by blast
  have "r \<in> set (pending_rows s)" using assms(1, 2) by (simp add: pending_rows_def)
  from due_loop_error [OF this row] obtain e s1 where d: "fetch_due_tasks clk s = (Inl e, s1)"
    unfolding fetch_due_tasks_def by blast
  then have "job_tasks s1 = job_tasks s" "pool s1 = pool s"
    by (auto simp: fetch_due_tasks_def dest!: due_loop_frame)
  with d show ?thesis
    by (simp add: poll_def promote_due_tasks_def april_31_parses)
qed

section \<open>Witnesses\<close>

definition sample_request :: "string \<Rightarrow> pyfloat option \<Rightarrow> string option \<Rightarrow> job_request" where
  "sample_request ty delay cr = \<lparr>req_skill = ''notes'', req_type = ty, req_session = ''s1'',
     req_payload = [], req_delay = delay, req_cron = cr, req_queue = [], req_priority = [],
     req_heartbeat_timeout = 300, req_max_retries = 3, req_idempotency_key = None,
     req_task_id = Some ''t1''\<rparr>"

definition sample_scheduler :: "job_request \<Rightarrow> scheduler" where
  "sample_scheduler q = snd (register_task (\<lambda>n. of_nat n) ''u'' q
     \<lparr>job_tasks = [], futures = [], pool = [], sessions = [''s1''], ticks = 0\<rparr>)"

text \<open>The task runs once, although polls go on after it.\<close>

theorem at_most_one_dispatch_witness:
  "count_list (sent (job_run (\<lambda>n. of_nat n) [Poll, Begin ''t1'' True, Poll,
      Finish 0 (Inr \<lparr>dr_status = ''completed'', dr_error = None\<rparr>), Poll, Begin ''t1'' True]
      \<lparr>sched = sample_scheduler (sample_request ''long_running'' None None), inflight = [], sent = []\<rparr>)) ''t1'' = 1"
proof -
  let ?s = "\<lparr>sched = sample_scheduler (sample_request ''long_running'' None None), inflight = [], sent = []\<rparr>"
  let ?evs = "[Poll, Begin ''t1'' True, Poll,
      Finish 0 (Inr \<lparr>dr_status = ''completed'', dr_error = None\<rparr>), Poll, Begin ''t1'' True]"
  have h: "distinct (map job_task_id (job_tasks (sched ?s)))" "one_shot_system ''t1'' ?s"
    "''t1'' \<notin> set (pool (sched ?s))" "list_all (\<lambda>ev. \<not> reintroduces ''t1'' ev) ?evs"
    by code_simp+
  have "count_list (sent (job_run (\<lambda>n. of_nat n) ?evs ?s)) ''t1'' \<ge> 1" by code_simp
  with at_most_one_dispatch [OF h, of "\<lambda>n. of_nat n"] show ?thesis by simp
qed

theorem crash_loses_delayed_task_witness:
  "\<exists>r'. job_status r' = ''pending'' \<and> (\<forall>clk2 now s2. row_due clk2 r' now s2 = (Inr False, s2))"
proof -
  let ?s = "sample_scheduler (sample_request ''delay'' (Some 5) None)"
  have "find_row ''t1'' ?s \<noteq> None \<and> job_task_type (the (find_row ''t1'' ?s)) = ''delay''
      \<and> job_status (the (find_row ''t1'' ?s)) = ''pending''" by code_simp
  then obtain r where r: "find_row ''t1'' ?s = Some r" "job_task_type r = ''delay''"
    "job_status r = ''pending''" by auto
  have "fst (mark_running (\<lambda>n. of_nat n) ''t1'' ?s)" by code_simp
  then obtain s1 where "mark_running (\<lambda>n. of_nat n) ''t1'' ?s = (True, s1)"
    by (cases "mark_running (\<lambda>n. of_nat n) ''t1'' ?s") simp
  from crash_loses_delayed_task [OF this r] show ?thesis by blast
qed

theorem impossible_cron_stops_polls_witness:
  "\<exists>s. job_tasks s \<noteq> [] \<and> pool (poll (\<lambda>n. of_nat n) s) = []"
proof -
  let ?q = "sample_request ''cron'' None (Some ''0 0 31 4 *'')"
  let ?s = "sample_scheduler ?q"
  have h: "new_row ''t1'' 0 ?q \<in> set (job_tasks ?s)" "job_status (new_row ''t1'' 0 ?q) = ''pending''"
    "job_task_type (new_row ''t1'' 0 ?q) = ''cron''"
    "job_cron_expr (new_row ''t1'' 0 ?q) = Some ''0 0 31 4 *''"
    "job_delay_until (new_row ''t1'' 0 ?q) = None"
    by code_simp+
  have "pool ?s = []" "job_tasks ?s \<noteq> []" by code_simp+
  with impossible_cron_stops_polls [OF h, of "\<lambda>n. of_nat n"] show ?thesis by auto
qed

end
