(* ===== verification/Auto_Router.thy ===== *)
theory Auto_Router
  imports Py_Values
begin

text \<open>
  Where a request runs (\<open>shell/auto_router.py\<close>): the default policy, the advisor, the rule of
  thumb on complexity and cost, and the fallback chain. The advisor is a function; the table of
  models read from YAML and the chat with a provider are not modelled.
\<close>

datatype routing_mode = LOCAL | CLOUD | ECHO

definition routing_mode_text :: "routing_mode \<Rightarrow> string" where
  "routing_mode_text m = (case m of LOCAL \<Rightarrow> ''local'' | CLOUD \<Rightarrow> ''cloud'' | ECHO \<Rightarrow> ''echo'')"

record routing_context =
  rc_query :: string
  rc_privacy_mode :: string
  rc_complexity :: int
  rc_cloud_cost :: pyfloat
  rc_cloud_budget :: pyfloat
  rc_metadata :: "pyval dict"

record routing_decision =
  rd_mode :: routing_mode
  rd_reason :: string
  rd_confidence :: pyfloat
  rd_policy_blocked :: bool
  rd_requires_consent :: bool
  rd_fallback_chain :: "routing_mode list"
  rd_selected_by :: string

text \<open>The defaults of the dataclass.\<close>

definition new_decision :: "routing_mode \<Rightarrow> string \<Rightarrow> routing_decision" where
  "new_decision mode reason = \<lparr>rd_mode = mode, rd_reason = reason, rd_confidence = 1,
     rd_policy_blocked = False, rd_requires_consent = False, rd_fallback_chain = [], rd_selected_by = ''rule''\<rparr>"

definition default_policy :: "routing_context \<Rightarrow> routing_decision option" where
  "default_policy c =
    (let consent = truthy (pget (rc_metadata c) ''requires_consent'')
     in if rc_privacy_mode c = ''local_only'' then
          Some ((new_decision LOCAL ''privacy_mode=local_only'')
            \<lparr>rd_policy_blocked := True, rd_requires_consent := consent, rd_selected_by := ''policy''\<rparr>)
        else if truthy (pget (rc_metadata c) ''force_echo'') then
          Some ((new_decision ECHO ''forced_echo'')\<lparr>rd_requires_consent := consent, rd_selected_by := ''policy''\<rparr>)
        else if consent then
          Some ((new_decision LOCAL ''requires_consent'')\<lparr>rd_requires_consent := True, rd_selected_by := ''policy''\<rparr>)
        else None)"

definition fallback_chain :: "routing_context \<Rightarrow> routing_mode list" where
  "fallback_chain c =
    (if rc_privacy_mode c = ''local_only'' then [LOCAL]
     else [LOCAL] @ (if rc_cloud_cost c \<le> rc_cloud_budget c then [CLOUD] else []) @ [ECHO])"

definition with_fallback_chain :: "routing_decision \<Rightarrow> routing_context \<Rightarrow> routing_decision" where
  "with_fallback_chain d c =
    d\<lparr>rd_fallback_chain := (if rd_fallback_chain d \<noteq> [] then rd_fallback_chain d else fallback_chain c)\<rparr>"

text \<open>The rule on complexity and cost, when neither policy nor advisor decides.\<close>

definition rule_decision :: "int \<Rightarrow> routing_context \<Rightarrow> routing_decision" where
  "rule_decision threshold c =
    (if rc_complexity c > threshold then
       if rc_cloud_cost c \<le> rc_cloud_budget c
       then (new_decision CLOUD ''complexity_threshold_exceeded'')\<lparr>rd_confidence := 82 / 100\<rparr>
       else (new_decision LOCAL ''cloud_cost_over_budget'')\<lparr>rd_confidence := 95 / 100\<rparr>
     else (new_decision LOCAL ''default_local'')\<lparr>rd_confidence := 9 / 10\<rparr>)"

definition decide_route :: "(routing_context \<Rightarrow> routing_mode list \<Rightarrow> routing_decision option) option
    \<Rightarrow> int \<Rightarrow> routing_context \<Rightarrow> routing_decision" where
  "decide_route advisor threshold c = (case default_policy c of
      Some d \<Rightarrow> with_fallback_chain d c
    | None \<Rightarrow> (case (case advisor of Some f \<Rightarrow> f c (fallback_chain c) | None \<Rightarrow> None) of
          Some d \<Rightarrow> with_fallback_chain d c
        | None \<Rightarrow> with_fallback_chain (rule_decision threshold c) c))"

lemma no_cloud_in_fallback: "CLOUD \<in> set (fallback_chain c) \<longleftrightarrow>
    rc_privacy_mode c \<noteq> ''local_only'' \<and> rc_cloud_cost c \<le> rc_cloud_budget c"
  by (simp add: fallback_chain_def)

lemma default_policy_simps [simp]:
  "rc_privacy_mode c = ''local_only'' \<Longrightarrow> \<exists>d. default_policy c = Some d \<and> rd_mode d = LOCAL \<and>
     rd_fallback_chain d = [] \<and> rd_policy_blocked d"
  by (simp add: default_policy_def new_decision_def Let_def)

text \<open>A request in the mode \<open>local_only\<close> is decided local whatever its complexity, the
  advisor and the metadata say, and its fallback chain is local alone; without an advisor a
  request goes to the cloud only above the threshold and within the budget, and the fallback
  chain names the cloud only within the budget.
\<close>

theorem local_only_stays_local:
  shows "(rc_privacy_mode c = ''local_only'' \<longrightarrow>
      rd_mode (decide_route advisor threshold c) = LOCAL \<and>
      rd_fallback_chain (decide_route advisor threshold c) = [LOCAL]) \<and>
    (rd_mode (decide_route None threshold c) = CLOUD \<or> CLOUD \<in> set (rd_fallback_chain (decide_route None threshold c)) \<longrightarrow>
      rc_cloud_cost c \<le> rc_cloud_budget c \<and> rc_privacy_mode c \<noteq> ''local_only'') \<and>
    (rd_mode (decide_route None threshold c) = CLOUD \<longrightarrow> threshold < rc_complexity c)"
  by (auto simp: decide_route_def default_policy_def new_decision_def with_fallback_chain_def Let_def
      rule_decision_def fallback_chain_def split: if_splits)

definition sample_routing_context :: routing_context where
  "sample_routing_context = \<lparr>rc_query = ''q'', rc_privacy_mode = ''local_only'', rc_complexity = 9, rc_cloud_cost = 0,
     rc_cloud_budget = 1, rc_metadata = [(''force_echo'', PBool True)]\<rparr>"

theorem local_only_stays_local_witness:
  "rd_mode (decide_route (Some (\<lambda>_ _. Some (new_decision CLOUD ''advice''))) 5 sample_routing_context) = LOCAL \<and>
   rd_mode (decide_route None 5 (sample_routing_context\<lparr>rc_privacy_mode := ''hybrid'', rc_metadata := []\<rparr>)) = CLOUD \<and>
   rc_cloud_cost sample_routing_context \<le> rc_cloud_budget sample_routing_context"
proof -
  have "rc_privacy_mode sample_routing_context = ''local_only''" by (simp add: sample_routing_context_def)
  with local_only_stays_local [of sample_routing_context "Some (\<lambda>_ _. Some (new_decision CLOUD ''advice''))" 5]
  have "rd_mode (decide_route (Some (\<lambda>_ _. Some (new_decision CLOUD ''advice''))) 5 sample_routing_context) = LOCAL" by blast
  moreover have "rd_mode (decide_route None 5 (sample_routing_context\<lparr>rc_privacy_mode := ''hybrid'', rc_metadata := []\<rparr>)) = CLOUD"
    by code_simp
  ultimately show ?thesis by (simp add: sample_routing_context_def)
qed

text \<open>An advisor is not held to the candidates it is given: its choice is taken over the budget.\<close>

lemma advisor_may_exceed_budget:
  "rc_cloud_cost (sample_routing_context\<lparr>rc_privacy_mode := ''hybrid'', rc_metadata := [], rc_cloud_cost := 5\<rparr>) > 1 \<and>
   rd_mode (decide_route (Some (\<lambda>_ _. Some (new_decision CLOUD ''advice''))) 5
     (sample_routing_context\<lparr>rc_privacy_mode := ''hybrid'', rc_metadata := [], rc_cloud_cost := 5\<rparr>)) = CLOUD"
  by code_simp

end
