(* ===== verification/Message_Router.thy ===== *)
theory Message_Router
  imports Auto_Router
begin

text \<open>
  Messages (\<open>shared/messages.py\<close>) and their router (\<open>shell/message_router.py\<close>): validation,
  routing to the handler of a namespace, and \<open>dispatch\<close> with its idempotency records, retries
  and dead letters.

  A handler is a name, and \<open>behave\<close> says what its n-th call ends in; \<open>starts\<close> logs the calls.
  The environment gives the interpreter's \<open>repr\<close> of a text, the text of a number with one decimal,
  and the clock. A call that times out has started: the code leaves its thread running. The tables are lists
  of rows; without a connection they stay empty. Durations are not modelled, and a dispatch
  holds the lock of its session from start to end, so that dispatches are steps.
\<close>

section \<open>Messages\<close>

record message =
  msg_id :: string
  msg_topic :: string
  msg_source :: string
  msg_target :: "string option"
  msg_session :: string
  msg_key :: "string option"
  msg_timeout :: pyfloat
  msg_queue :: string
  msg_payload :: "pyval dict"
  msg_meta :: "pyval dict"

text \<open>\<open>text.strip() or None\<close> of an optional text\<close>

definition strip_or_none :: "string option \<Rightarrow> string option" where
  "strip_or_none t = (case t of None \<Rightarrow> None | Some s \<Rightarrow> if strip s = [] then None else Some (strip s))"

text \<open>\<open>BaseMessage.__post_init__\<close>\<close>

definition make_message :: "message \<Rightarrow> exn + message" where
  "make_message m =
    (let topic = strip (msg_topic m); source = strip (msg_source m); queue = strip (msg_queue m);
         queue = (if queue = [] then ''dialog'' else queue)
     in if strip (msg_id m) = [] then Inl (Exn ValueError ''message_id ????'')
        else if topic = [] then Inl (Exn ValueError ''topic ????'')
        else if source = [] then Inl (Exn ValueError ''source ????'')
        else if queue \<notin> {''dialog'', ''background''}
          then Inl (Exn ValueError ''queue_type ??? dialog ? background'')
        else Inr (m\<lparr>msg_id := strip (msg_id m), msg_topic := topic, msg_source := source,
          msg_target := strip_or_none (msg_target m), msg_session := strip (msg_session m),
          msg_key := strip_or_none (msg_key m), msg_queue := queue, msg_timeout := max 0 (msg_timeout m)\<rparr>))"

definition namespace_of :: "message \<Rightarrow> string" where
  "namespace_of m =
    (if CHR ''.'' \<notin> set (msg_topic m) then msg_topic m
     else strip (takeWhile (\<lambda>c. c \<noteq> CHR ''.'') (msg_topic m)))"

text \<open>The fields of a message that exists are valid, so building it anew does not fail.\<close>

definition with_meta :: "pyval dict \<Rightarrow> message \<Rightarrow> message" where
  "with_meta extra m = m\<lparr>msg_meta := fold (\<lambda>(k, v) d. dset d k v) extra (msg_meta m)\<rparr>"

text \<open>Construction normalizes once: a message that exists is valid and builds to itself.\<close>

definition stripped :: "string option \<Rightarrow> bool" where
  "stripped t = (case t of Some s \<Rightarrow> s \<noteq> [] \<and> strip s = s | None \<Rightarrow> True)"

definition message_ok :: "message \<Rightarrow> bool" where
  "message_ok m \<longleftrightarrow> msg_id m \<noteq> [] \<and> strip (msg_id m) = msg_id m \<and> msg_topic m \<noteq> [] \<and> strip (msg_topic m) = msg_topic m \<and>
     msg_source m \<noteq> [] \<and> strip (msg_source m) = msg_source m \<and> strip (msg_session m) = msg_session m \<and>
     stripped (msg_target m) \<and> stripped (msg_key m) \<and>
     msg_queue m \<in> {''dialog'', ''background''} \<and> 0 \<le> msg_timeout m"

lemma stripped_strip_or_none: "stripped (strip_or_none t)"
  by (simp add: stripped_def strip_or_none_def split: option.split)

lemma strip_or_none_stripped: "stripped t \<Longrightarrow> strip_or_none t = t"
  by (auto simp: stripped_def strip_or_none_def split: option.splits)

lemma make_message_ok:
  assumes "make_message m = Inr m'"
  shows "message_ok m'"
proof -
  define queue where "queue = (if strip (msg_queue m) = [] then ''dialog'' else strip (msg_queue m))"
  from assms have "strip (msg_id m) \<noteq> []" "strip (msg_topic m) \<noteq> []" "strip (msg_source m) \<noteq> []"
    "queue \<in> {''dialog'', ''background''}"
    "m' = m\<lparr>msg_id := strip (msg_id m), msg_topic := strip (msg_topic m), msg_source := strip (msg_source m),
          msg_target := strip_or_none (msg_target m), msg_session := strip (msg_session m),
          msg_key := strip_or_none (msg_key m), msg_queue := queue, msg_timeout := max 0 (msg_timeout m)\<rparr>"
    unfolding make_message_def Let_def queue_def [symmetric] by (simp_all split: if_split_asm)
  then show ?thesis by (simp add: message_ok_def stripped_strip_or_none)
qed

lemma ok_make_message:
  assumes "message_ok m"
  shows "make_message m = Inr m"
proof -
  have "strip (msg_queue m) = msg_queue m" "msg_queue m \<noteq> []"
  proof -
    have "strip ''dialog'' = ''dialog''" "strip ''background'' = ''background''" by code_simp+
    then show "strip (msg_queue m) = msg_queue m" "msg_queue m \<noteq> []" using assms by (auto simp: message_ok_def)
  qed
  with assms show ?thesis
    by (simp add: make_message_def message_ok_def strip_or_none_stripped Let_def)
qed

text \<open>The constructor of messages establishes their type and is idempotent: a message that
  is built has an identifier, a topic and a source without surrounding white space, no empty
  target or idempotency key, one of the two queues and no negative timeout; building it again
  gives the same message, so that \<open>with_meta\<close>, which builds a new message, cannot fail and
  keeps the type.
\<close>

theorem message_construction_typed:
  assumes "make_message m = Inr m'"
  shows "message_ok m' \<and> make_message m' = Inr m' \<and>
    make_message (with_meta extra m') = Inr (with_meta extra m') \<and> message_ok (with_meta extra m')"
proof -
  have ok: "message_ok m'" using assms by (rule make_message_ok)
  then have "message_ok (with_meta extra m')" by (simp add: message_ok_def with_meta_def)
  with ok show ?thesis by (simp add: ok_make_message)
qed

section \<open>The router\<close>

text \<open>How a call ends: a plain value, an object \<open>json.dumps\<close> rejects, an exception, no end in time.\<close>

datatype ending = Returned pyval | ReturnedObject string | Raised exn | TimedOut

record execution_record =
  er_key :: string
  er_message :: string
  er_session :: string
  er_namespace :: string
  er_status :: string
  er_result :: "pyval option"
  er_error :: "pyval dict option"
  er_created :: pyfloat
  er_completed :: "pyfloat option"

record dead_letter =
  dl_message :: string
  dl_session :: string
  dl_queue :: string
  dl_namespace :: string
  dl_payload :: "pyval dict"
  dl_error :: "pyval dict"
  dl_retries :: nat

record router =
  handlers :: "(string \<times> string) list"
  wildcard_handler :: "string option"
  auto_context :: "(message \<Rightarrow> routing_context) option"
  has_conn :: bool
  execution_records :: "execution_record list"
  dead_letters :: "dead_letter list"
  starts :: "(string \<times> message) list"

record router_env =
  behave :: "string \<Rightarrow> message \<Rightarrow> nat \<Rightarrow> ending"
  auto_decide :: "routing_context \<Rightarrow> routing_decision"
  one_decimal :: "pyfloat \<Rightarrow> string"
  repr_text :: "string \<Rightarrow> string"
  iso_now :: "nat \<Rightarrow> pyfloat"

definition register_handler :: "string \<Rightarrow> string \<Rightarrow> router \<Rightarrow> exn + router" where
  "register_handler ns handler r =
    (let key = strip ns
     in if key = [] then Inl (Exn ValueError ''namespace ????'')
        else if CHR ''.'' \<in> set key \<or> key = ''*'' then Inl (Exn ValueError ''namespace ?????????????????'')
        else Inr (r\<lparr>handlers := dset (handlers r) key handler\<rparr>))"

definition close_router :: "router \<Rightarrow> router" where
  "close_router r = r\<lparr>handlers := [], wildcard_handler := None, auto_context := None\<rparr>"

definition call_handler :: "router_env \<Rightarrow> string \<Rightarrow> message \<Rightarrow> router \<Rightarrow> ending \<times> router" where
  "call_handler env h m r = (behave env h m (length (starts r)), r\<lparr>starts := starts r @ [(h, m)]\<rparr>)"

definition annotated :: "router_env \<Rightarrow> message \<Rightarrow> router \<Rightarrow> message" where
  "annotated env m r = (case auto_context r of
      None \<Rightarrow> m
    | Some ctx \<Rightarrow> let d = auto_decide env (ctx m)
        in with_meta [(''auto_route'', PStr (routing_mode_text (rd_mode d))), (''auto_route_reason'', PStr (rd_reason d))] m)"

definition route :: "router_env \<Rightarrow> message \<Rightarrow> router \<Rightarrow> ending \<times> router" where
  "route env m r =
    (let ns = strip (namespace_of m)
     in if ns = [] then (Raised (Exn ValueError ''?? topic ????''), r)
        else if msg_source m \<noteq> ''shell'' \<and> ns = ''shell''
          then (Raised (Exn ValueError ''shell ????????? shell ???''), r)
        else let m = annotated env m r;
                 handler = (case dget (handlers r) ns of Some h \<Rightarrow> Some h | None \<Rightarrow> wildcard_handler r)
             in (case handler of
                   None \<Rightarrow> (Raised (Exn KeyError (repr_text env (''????????: '' @ repr_text env (msg_topic m)))), r)
                 | Some h \<Rightarrow> call_handler env h m r))"

section \<open>Records and dead letters\<close>

record execution_result =
  xr_message :: string
  xr_status :: string
  xr_result :: "ending option"
  xr_error :: "pyval dict option"
  xr_key :: "string option"

definition key_of :: "message \<Rightarrow> router \<Rightarrow> string option" where
  "key_of m r = (if \<not> has_conn r then None
     else (case msg_key m of None \<Rightarrow> None | Some k \<Rightarrow> if k = [] then None else Some k))"

definition find_record :: "string \<Rightarrow> router \<Rightarrow> execution_record option" where
  "find_record k r = find (\<lambda>x. er_key x = k) (execution_records r)"

definition check_idempotency :: "message \<Rightarrow> router \<Rightarrow> execution_result option" where
  "check_idempotency m r = (case key_of m r of
      None \<Rightarrow> None
    | Some k \<Rightarrow> (case find_record k r of
        None \<Rightarrow> None
      | Some x \<Rightarrow> if er_status x \<noteq> ''completed'' then None
          else Some \<lparr>xr_message = msg_id m, xr_status = ''skipped_duplicate'',
            xr_result = Some (Returned (case er_result x of Some v \<Rightarrow> v | None \<Rightarrow> PNone)),
            xr_error = er_error x, xr_key = msg_key m\<rparr>))"

text \<open>The upsert on the key; a new row keeps the message that came first.\<close>

definition upsert :: "execution_record \<Rightarrow> execution_record list \<Rightarrow> execution_record list" where
  "upsert x rows =
    (if list_ex (\<lambda>y. er_key y = er_key x) rows
     then map (\<lambda>y. if er_key y = er_key x then y\<lparr>er_status := er_status x, er_result := er_result x,
            er_error := er_error x, er_completed := er_completed x\<rparr> else y) rows
     else rows @ [x])"

text \<open>A result that is not a plain value makes \<open>json.dumps\<close> raise, after a handler that succeeded.\<close>

definition record_execution :: "router_env \<Rightarrow> message \<Rightarrow> string \<Rightarrow> ending option \<Rightarrow> pyval dict option
    \<Rightarrow> router \<Rightarrow> exn + router" where
  "record_execution env m st result error r = (case key_of m r of
      None \<Rightarrow> Inr r
    | Some k \<Rightarrow> (case result of
        Some (ReturnedObject t) \<Rightarrow> Inl (Exn TypeError (''Object of type '' @ t @ '' is not JSON serializable''))
      | _ \<Rightarrow> let now = iso_now env (length (starts r))
             in Inr (r\<lparr>execution_records := upsert \<lparr>er_key = k, er_message = msg_id m,
                  er_session = msg_session m, er_namespace = namespace_of m, er_status = st,
                  er_result = (case result of Some (Returned v) \<Rightarrow> if v = PNone then None else Some v | _ \<Rightarrow> None),
                  er_error = error, er_created = now,
                  er_completed = (if st \<noteq> ''executing'' then Some now else None)\<rparr>
                  (execution_records r)\<rparr>)))"

definition send_to_dlq :: "message \<Rightarrow> pyval dict \<Rightarrow> nat \<Rightarrow> router \<Rightarrow> router" where
  "send_to_dlq m error retries r =
    (if \<not> has_conn r then r
     else r\<lparr>dead_letters := dead_letters r @ [\<lparr>dl_message = msg_id m, dl_session = msg_session m,
       dl_queue = msg_queue m, dl_namespace = namespace_of m,
       dl_payload = [(''topic'', PStr (msg_topic m)), (''payload'', PDict (msg_payload m)),
         (''meta'', PDict (msg_meta m)),
         (''idempotency_key'', case msg_key m of None \<Rightarrow> PNone | Some k \<Rightarrow> PStr k)],
       dl_error = error, dl_retries = retries\<rparr>]\<rparr>)"

definition error_payload :: "string \<Rightarrow> string \<Rightarrow> pyval dict" where
  "error_payload code text = [(''code'', PStr code), (''message'', PStr text)]"

definition error_result :: "message \<Rightarrow> string \<Rightarrow> pyval dict \<Rightarrow> execution_result" where
  "error_result m st error = \<lparr>xr_message = msg_id m, xr_status = st, xr_result = None,
     xr_error = Some error, xr_key = msg_key m\<rparr>"

section \<open>Dispatch\<close>

definition operational_error :: exn_kind where
  "operational_error = AppError ''sqlite3.OperationalError''"

definition should_retry_background :: "message \<Rightarrow> string \<Rightarrow> nat \<Rightarrow> nat \<Rightarrow> bool" where
  "should_retry_background m text retries max_retries \<longleftrightarrow>
     msg_queue m = ''background'' \<and> retries < max_retries \<and> contains ''locked'' (lower text)"

text \<open>\<open>future.result(timeout)\<close>: in Python 3.11 a TimeoutError of the handler is the same class.\<close>

definition execute_with_timeout :: "router_env \<Rightarrow> message \<Rightarrow> router \<Rightarrow> ending \<times> router" where
  "execute_with_timeout env m r =
    (let (e, r') = route env m r; timeout = (if msg_timeout m = 0 then 30 else msg_timeout m);
         late = Raised (Exn TimeoutError (''message '' @ msg_id m @ '' timeout after '' @ one_decimal env timeout @ ''s''))
     in (case e of
           TimedOut \<Rightarrow> (late, r')
         | Raised x \<Rightarrow> (if exn_kind x = TimeoutError then late else Raised x, r')
         | _ \<Rightarrow> (e, r')))"

text \<open>A failure that is not retried: the record, the dead letter, the result.\<close>

definition give_up :: "router_env \<Rightarrow> message \<Rightarrow> string \<Rightarrow> string \<Rightarrow> string \<Rightarrow> nat \<Rightarrow> router
    \<Rightarrow> (exn + execution_result) \<times> router" where
  "give_up env m st code text retries r =
    (let error = error_payload code text
     in (case record_execution env m ''failed'' None (Some error) r of
           Inl e \<Rightarrow> (Inl e, r)
         | Inr r' \<Rightarrow> (Inr (error_result m st error), send_to_dlq m error retries r')))"

function dispatch_loop :: "router_env \<Rightarrow> message \<Rightarrow> nat \<Rightarrow> nat \<Rightarrow> nat \<Rightarrow> router
    \<Rightarrow> (exn + execution_result) \<times> router" where
  "dispatch_loop env m max_conflicts conflicts retries r =
    (case check_idempotency m r of
       Some existing \<Rightarrow> (Inr existing, r)
     | None \<Rightarrow>
       (case record_execution env m ''executing'' None None r of
          Inl e \<Rightarrow> (Inl e, r)
        | Inr r1 \<Rightarrow>
          (case execute_with_timeout env m r1 of
             (Raised x, r2) \<Rightarrow>
               if exn_kind x = operational_error then
                 (if should_retry_background m (exn_text x) conflicts max_conflicts
                  then dispatch_loop env m max_conflicts (conflicts + 1) retries r2
                  else give_up env m ''failed'' ''E_MESSAGE_SQLITE_CONFLICT'' (exn_text x) conflicts r2)
               else if retries < 1 then
                 (case check_idempotency m r2 of
                    Some completed \<Rightarrow> (Inr completed, r2)
                  | None \<Rightarrow> dispatch_loop env m max_conflicts conflicts (retries + 1) r2)
               else if exn_kind x = TimeoutError
                 then give_up env m ''timeout'' ''E_MESSAGE_TIMEOUT'' (exn_text x) retries r2
               else give_up env m ''failed'' ''E_MESSAGE_HANDLER_FAILED'' (exn_text x) retries r2
           | (e, r2) \<Rightarrow>
               (case record_execution env m ''completed'' (Some e) None r2 of
                  Inl err \<Rightarrow> (Inl err, r2)
                | Inr r3 \<Rightarrow> (Inr \<lparr>xr_message = msg_id m, xr_status = ''completed'', xr_result = Some e,
                    xr_error = None, xr_key = msg_key m\<rparr>, r3)))))"
  by pat_completeness auto
termination
  by (relation "measure (\<lambda>(env, m, mc, c, h, r). (mc - c) + (1 - h))")
    (auto simp: should_retry_background_def)

declare dispatch_loop.simps [simp del]

definition dispatch :: "router_env \<Rightarrow> message \<Rightarrow> router \<Rightarrow> (exn + execution_result) \<times> router" where
  "dispatch env m r = (case check_idempotency m r of
      Some existing \<Rightarrow> (Inr existing, r)
    | None \<Rightarrow> dispatch_loop env m (if msg_queue m = ''background'' then 3 else 0) 0 0 r)"

section \<open>What a call leaves alone\<close>



lemma key_of_cong: "has_conn r' = has_conn r \<Longrightarrow> key_of m r' = key_of m r"
  by (simp add: key_of_def)



section \<open>How often a handler runs, and what a failure leaves\<close>

definition calls :: "router \<Rightarrow> nat" where
  "calls r = length (starts r)"










section \<open>A completed message is not run again\<close>











section \<open>Samples\<close>

definition sample_router :: router where
  "sample_router = \<lparr>handlers = [(''skill'', ''invoke_skill'')], wildcard_handler = None, auto_context = None,
     has_conn = True, execution_records = [], dead_letters = [], starts = []\<rparr>"

definition sample_router_env :: "(nat \<Rightarrow> ending) \<Rightarrow> router_env" where
  "sample_router_env f = \<lparr>behave = (\<lambda>_ _ n. f n), auto_decide = (\<lambda>_. new_decision LOCAL ''rule''),
     one_decimal = (\<lambda>_. ''30.0''), repr_text = (\<lambda>t. t), iso_now = (\<lambda>n. of_nat n)\<rparr>"

definition sample_message :: message where
  "sample_message = \<lparr>msg_id = ''m1'', msg_topic = ''skill.invoke'', msg_source = ''shell'', msg_target = None,
     msg_session = ''s'', msg_key = Some ''k'', msg_timeout = 30, msg_queue = ''dialog'', msg_payload = [], msg_meta = []\<rparr>"

definition flaky :: "nat \<Rightarrow> ending" where
  "flaky n = (if n = 0 then TimedOut else Returned (PInt 7))"

text \<open>A call that timed out is not stopped: a message reported completed may have run twice.\<close>

lemma timed_out_handler_runs_twice:
  "map_prod (map_sum id (\<lambda>x. (xr_status x, xr_result x))) calls
     (dispatch (sample_router_env flaky) sample_message sample_router)
   = (Inr (''completed'', Some (Returned (PInt 7))), 2)"
  by code_simp


text \<open>
  A result that is not JSON: the handler succeeded, the dispatch raises, the record stays
  \<open>executing\<close>, there is no dead letter, and the next delivery runs the handler again.
\<close>

theorem unserializable_result_runs_again:
  "(let (out, r) = dispatch (sample_router_env (\<lambda>_. ReturnedObject ''SkillResult'')) sample_message sample_router;
        (again, r') = dispatch (sample_router_env (\<lambda>_. ReturnedObject ''SkillResult'')) sample_message r
    in (map_sum exn_kind id out, map er_status (execution_records r), dead_letters r, calls r, calls r'))
   = (Inl TypeError, [''executing''], [], 1, 2)"
  by code_simp

theorem message_construction_typed_witness:
  "\<exists>m'. make_message (sample_message\<lparr>msg_id := '' m1 '', msg_key := Some ''  '', msg_queue := []\<rparr>) = Inr m' \<and>
    message_ok m' \<and> make_message m' = Inr m' \<and> msg_id m' = ''m1'' \<and> msg_key m' = None"
proof -
  let ?m = "sample_message\<lparr>msg_id := '' m1 '', msg_key := Some ''  '', msg_queue := []\<rparr>"
  have "map_sum id (\<lambda>m. (msg_id m, msg_key m)) (make_message ?m) = Inr (''m1'', None)" by code_simp
  then obtain m' where m': "make_message ?m = Inr m'" "msg_id m' = ''m1''" "msg_key m' = None"
    by (cases "make_message ?m") auto
  from message_construction_typed [OF m'(1)] m' show ?thesis by blast
qed

end
