(* ===== verification/Job_Dispatch.thy ===== *)
theory Job_Dispatch
  imports Job_Scheduler Message_Router
begin

text \<open>
  The scheduler on top of the router: a worker of \<open>shell/job_scheduler.py\<close> sends the message of
  its task through \<open>MessageRouter.dispatch\<close> and finishes the task with the result. Both use the
  same idempotency key, so that a task taken up again after a crash does not run again.
\<close>





lemma find_row_read_clock [simp]: "find_row tid (read_clock s) = find_row tid s"
  by (simp add: find_row_def read_clock_def)






end
