(* ===== verification/Event_Stream.thy ===== *)
theory Event_Stream
  imports Py_Prelude
begin

text \<open>
  The event streams of \<open>core/event_stream\<close>: the registry of event types, the streams with
  their commit section, the write-behind store in SQLite with its writer thread, recovery
  after a restart, and the projection of a stream into a timeline.

  A payload is a dictionary of plain values, on which a JSON round trip without sorting is the
  identity; \<open>serializable\<close> says which payloads \<open>json.dumps\<close> accepts. An observer is a name,
  and \<open>delivered\<close> logs its calls: its exceptions are swallowed, and its attempt to append from
  inside the notification is a call with \<open>notifying\<close> set. The table is the list of its rows.
\<close>

section \<open>Event types\<close>

type_synonym event_registry = "(string \<times> int) list"

definition register_event :: "string \<Rightarrow> int \<Rightarrow> event_registry \<Rightarrow> exn + event_registry" where
  "register_event kind version reg =
    (if dget reg kind \<noteq> None then Inl (Exn ValueError (''duplicate event type: '' @ kind))
     else if kind = [] then Inl (Exn ValueError ''event type must be a non-empty string'')
     else if version < 1 then Inl (Exn ValueError ''schema_version must be a positive integer'')
     else Inr (dset reg kind version))"

definition schema_version_of :: "string \<Rightarrow> event_registry \<Rightarrow> exn + int" where
  "schema_version_of kind reg = (case dget reg kind of
      None \<Rightarrow> Inl (Exn ValueError (''unknown event type: '' @ kind))
    | Some version \<Rightarrow> Inr version)"

text \<open>\<open>validate\<close>; that the payload is a dictionary is in its type.\<close>

definition validate_event :: "string \<Rightarrow> pyval dict \<Rightarrow> event_registry \<Rightarrow> exn + int" where
  "validate_event kind payload reg = schema_version_of kind reg"

definition DEFAULT_EVENT_TYPES :: "string list" where
  "DEFAULT_EVENT_TYPES =
    [''plan/created'', ''plan/step_started'', ''plan/step_completed'', ''plan/step_failed'',
     ''plan/status_changed'', ''sample/created'', ''sample/injected'', ''sample/verified'',
     ''sample/staled'', ''sample/rejected'', ''sample/archived'', ''sample/restored'',
     ''goal/created'', ''goal/updated'', ''goal/deactivated'', ''tool/call'', ''tool/result'',
     ''ui/action_executed'', ''consent/asked'', ''consent/decided'', ''model/switched'',
     ''model/degraded'', ''model/unavailable'', ''model/download_started'',
     ''model/download_progress'', ''model/download_completed'', ''model/download_failed'',
     ''model/download_cancelled'', ''model/verified'', ''model/verification_failed'',
     ''model/activated'', ''session/created'', ''session/message'', ''session/turn_start'',
     ''session/turn_end'', ''audit/arithmetic_retry_taken'', ''audit/arithmetic_warning_appended'',
     ''audit/quality_retry_taken'', ''extension/loaded'', ''extension/unloaded'',
     ''extension/failed'', ''plugin/loaded'', ''plugin/failed'', ''plugin/unloading'',
     ''plugin/disposed'']"

fun register_all :: "string list \<Rightarrow> event_registry \<Rightarrow> exn + event_registry" where
  "register_all [] reg = Inr reg"
| "register_all (kind # kinds) reg = (case register_event kind 1 reg of
      Inl e \<Rightarrow> Inl e | Inr reg' \<Rightarrow> register_all kinds reg')"

definition build_default_registry :: "exn + event_registry" where
  "build_default_registry = register_all DEFAULT_EVENT_TYPES []"

section \<open>Events, streams, store\<close>

record domain_event =
  ev_id :: string
  ev_stream :: string
  ev_seq :: nat
  ev_kind :: string
  ev_time :: pyfloat
  ev_version :: int
  ev_payload :: "pyval dict"

record event_stream =
  stream_events :: "domain_event list"
  stream_observers :: "string list"

record event_world =
  streams :: "(string \<times> event_stream) list"
  in_flight :: "domain_event list"
  write_queue :: "domain_event list"
  store_closed :: bool
  event_table :: "domain_event list"
  recovery_mode :: bool
  delivered :: "(string \<times> domain_event) list"

definition empty_stream :: event_stream where
  "empty_stream = \<lparr>stream_events = [], stream_observers = []\<rparr>"

definition open_store :: "domain_event list \<Rightarrow> event_world" where
  "open_store table = \<lparr>streams = [], in_flight = [], write_queue = [], store_closed = False,
     event_table = table, recovery_mode = False, delivered = []\<rparr>"

definition stream_of :: "string \<Rightarrow> event_world \<Rightarrow> event_stream" where
  "stream_of sid w = dget_or (streams w) sid empty_stream"

abbreviation events_of :: "string \<Rightarrow> event_world \<Rightarrow> domain_event list" where
  "events_of sid w \<equiv> stream_events (stream_of sid w)"

definition set_stream :: "string \<Rightarrow> event_stream \<Rightarrow> event_world \<Rightarrow> event_world" where
  "set_stream sid s w = w\<lparr>streams := dset (streams w) sid s\<rparr>"

definition get_or_create :: "string \<Rightarrow> event_world \<Rightarrow> event_stream \<times> event_world" where
  "get_or_create sid w = (case dget (streams w) sid of
      Some s \<Rightarrow> (s, w)
    | None \<Rightarrow> (empty_stream, set_stream sid empty_stream w))"

definition latest_seq :: "event_stream \<Rightarrow> int" where
  "latest_seq s = int (length (stream_events s)) - 1"

definition get_events :: "event_stream \<Rightarrow> int \<Rightarrow> domain_event list" where
  "get_events s from_seq =
    (if from_seq < 0 \<or> int (length (stream_events s)) \<le> from_seq then []
     else drop (nat from_seq) (stream_events s))"

definition get_event :: "event_stream \<Rightarrow> int \<Rightarrow> domain_event option" where
  "get_event s n =
    (if 0 \<le> n \<and> n < int (length (stream_events s)) then Some (stream_events s ! nat n) else None)"

definition subscribe_observer :: "string \<Rightarrow> event_stream \<Rightarrow> event_stream" where
  "subscribe_observer obs s = s\<lparr>stream_observers := stream_observers s @ [obs]\<rparr>"

definition unsubscribe_observer :: "string \<Rightarrow> event_stream \<Rightarrow> event_stream" where
  "unsubscribe_observer obs s = s\<lparr>stream_observers := remove1 obs (stream_observers s)\<rparr>"

definition restore_events :: "string \<Rightarrow> domain_event list \<Rightarrow> event_world \<Rightarrow> exn + event_world" where
  "restore_events sid events w =
    (let s = stream_of sid w
     in if stream_events s \<noteq> [] then Inl (Exn ValueError ''restore into a stream with events'')
        else if list_ex (\<lambda>e. ev_stream e \<noteq> sid) events then Inl (Exn ValueError ''stream_id mismatch'')
        else if list_ex (\<lambda>(i, e). ev_seq e \<noteq> i) (enumerate 0 events)
             then Inl (Exn ValueError ''seq must be contiguous from 0'')
        else Inr (set_stream sid (s\<lparr>stream_events := stream_events s @ events\<rparr>) w))"

section \<open>Appending\<close>

record append_env =
  notifying :: bool
  trace_id :: "string option"
  fresh_id :: string
  now :: pyfloat

text \<open>The payload with the trace of the turn, when there is one and the payload has none.\<close>

definition traced_payload :: "string option \<Rightarrow> pyval dict \<Rightarrow> pyval dict" where
  "traced_payload trace payload = (case trace of
      Some t \<Rightarrow> if t \<noteq> [] \<and> dget payload ''trace_id'' = None then dset payload ''trace_id'' (PStr t)
                else payload
    | None \<Rightarrow> payload)"

text \<open>Everything before the lock: the checks, and the payload and version to commit.\<close>

definition check_append :: "(pyval dict \<Rightarrow> bool) \<Rightarrow> append_env \<Rightarrow> event_registry \<Rightarrow> string
    \<Rightarrow> pyval dict \<Rightarrow> exn + pyval dict \<times> int" where
  "check_append serializable env reg kind payload =
    (if notifying env then Inl (Exn RuntimeError ''append while notifying'')
     else let payload = traced_payload (trace_id env) payload
          in if \<not> serializable payload then Inl (Exn ValueError ''payload is not JSON serializable'')
             else (case validate_event kind payload reg of
                 Inl e \<Rightarrow> Inl e
               | Inr version \<Rightarrow> Inr (payload, version)))"

text \<open>The commit section, which runs under the lock of the stream.\<close>

definition commit_event :: "append_env \<Rightarrow> string \<Rightarrow> string \<Rightarrow> pyval dict \<times> int \<Rightarrow> event_world
    \<Rightarrow> domain_event \<times> event_world" where
  "commit_event env sid kind pv w =
    (let s = stream_of sid w;
         e = \<lparr>ev_id = fresh_id env, ev_stream = sid, ev_seq = length (stream_events s), ev_kind = kind,
              ev_time = now env, ev_version = snd pv, ev_payload = fst pv\<rparr>
     in (e, (set_stream sid (s\<lparr>stream_events := stream_events s @ [e]\<rparr>) w)
              \<lparr>in_flight := in_flight w @ [e]\<rparr>))"

text \<open>\<open>EventPersistence.enqueue\<close>: the event leaves the thread that committed it.\<close>

definition enqueue_event :: "domain_event \<Rightarrow> event_world \<Rightarrow> event_world" where
  "enqueue_event e w =
    (let w = w\<lparr>in_flight := remove1 e (in_flight w)\<rparr>
     in if store_closed w then w else w\<lparr>write_queue := write_queue w @ [e]\<rparr>)"

definition notify_observers :: "string list \<Rightarrow> domain_event \<Rightarrow> event_world \<Rightarrow> event_world" where
  "notify_observers observers e w = w\<lparr>delivered := delivered w @ map (\<lambda>obs. (obs, e)) observers\<rparr>"

definition append_event :: "(pyval dict \<Rightarrow> bool) \<Rightarrow> append_env \<Rightarrow> event_registry \<Rightarrow> string
    \<Rightarrow> string \<Rightarrow> pyval dict \<Rightarrow> event_world \<Rightarrow> (exn + domain_event) \<times> event_world" where
  "append_event serializable env reg sid kind payload w =
    (case check_append serializable env reg kind payload of
       Inl err \<Rightarrow> (Inl err, w)
     | Inr pv \<Rightarrow>
         let observers = stream_observers (stream_of sid w);
             (e, w) = commit_event env sid kind pv w;
             w = enqueue_event e w
         in (Inr e, notify_observers observers e w))"

section \<open>The writer\<close>

text \<open>\<open>INSERT OR IGNORE\<close> under the primary key and the uniqueness of stream and sequence number.\<close>

definition insert_or_ignore :: "domain_event \<Rightarrow> domain_event list \<Rightarrow> domain_event list" where
  "insert_or_ignore e table =
    (if list_ex (\<lambda>r. ev_id r = ev_id e \<or> (ev_stream r = ev_stream e \<and> ev_seq r = ev_seq e)) table
     then table else table @ [e])"

text \<open>
  \<open>_flush_batch\<close>: one transaction, and when it fails a row at a time, where \<open>row_ok\<close> says which
  of the single inserts succeed.
\<close>

definition flush_batch :: "bool \<Rightarrow> (domain_event \<Rightarrow> bool) \<Rightarrow> domain_event list
    \<Rightarrow> domain_event list \<Rightarrow> domain_event list" where
  "flush_batch batch_ok row_ok events table =
    (if batch_ok then fold insert_or_ignore events table
     else fold (\<lambda>e t. if row_ok e then insert_or_ignore e t else t) events table)"

text \<open>One turn of \<open>_write_loop\<close>, with \<open>n\<close> events in the queue when it looks.\<close>

definition write_turn :: "nat \<Rightarrow> bool \<Rightarrow> (domain_event \<Rightarrow> bool) \<Rightarrow> event_world \<Rightarrow> event_world" where
  "write_turn n batch_ok row_ok w =
    w\<lparr>write_queue := drop n (write_queue w),
      event_table := flush_batch batch_ok row_ok (take n (write_queue w)) (event_table w)\<rparr>"

definition close_store :: "event_world \<Rightarrow> event_world" where
  "close_store w = w\<lparr>store_closed := True\<rparr>"

section \<open>Recovery\<close>

fun contiguous_prefix :: "nat \<Rightarrow> domain_event list \<Rightarrow> domain_event list \<times> bool" where
  "contiguous_prefix expected [] = ([], False)"
| "contiguous_prefix expected (r # rs) =
    (if ev_seq r \<noteq> expected then ([], True)
     else let (es, gap) = contiguous_prefix (expected + 1) rs in (r # es, gap))"

definition load_stream :: "string \<Rightarrow> int \<Rightarrow> event_world \<Rightarrow> domain_event list \<times> event_world" where
  "load_stream sid from_seq w =
    (let rows = sort_key ev_seq (filter (\<lambda>r. ev_stream r = sid \<and> from_seq \<le> int (ev_seq r)) (event_table w));
         start = nat (max 0 from_seq);
         (events, gap) = contiguous_prefix start rows
     in (events, if gap
         then w\<lparr>recovery_mode := True,
                event_table := filter (\<lambda>r. \<not> (ev_stream r = sid \<and> start + length events \<le> ev_seq r)) (event_table w)\<rparr>
         else w))"

fun load_streams :: "string list \<Rightarrow> event_world \<Rightarrow> (string \<times> domain_event list) list \<times> event_world" where
  "load_streams [] w = ([], w)"
| "load_streams (sid # sids) w =
    (let (events, w) = load_stream sid 0 w; (rest, w) = load_streams sids w in ((sid, events) # rest, w))"

text \<open>\<open>SELECT DISTINCT stream_id ... ORDER BY stream_id\<close>, then each stream.\<close>

definition load_all_streams :: "event_world \<Rightarrow> (string \<times> domain_event list) list \<times> event_world" where
  "load_all_streams w = load_streams (sort_key id (remdups (map ev_stream (event_table w)))) w"

fun restore_streams :: "(string \<times> domain_event list) list \<Rightarrow> event_world \<Rightarrow> exn + event_world" where
  "restore_streams [] w = Inr w"
| "restore_streams ((sid, events) # rest) w =
    (case restore_events sid events (snd (get_or_create sid w)) of
       Inl e \<Rightarrow> Inl e | Inr w' \<Rightarrow> restore_streams rest w')"

definition restore_from_disk :: "event_world \<Rightarrow> exn + event_world" where
  "restore_from_disk w = (let (loaded, w) = load_all_streams w in restore_streams loaded w)"

section \<open>What the worlds that run have in common\<close>

definition in_stream :: "event_world \<Rightarrow> domain_event \<Rightarrow> bool" where
  "in_stream w e \<longleftrightarrow> ev_seq e < length (events_of (ev_stream e) w) \<and> events_of (ev_stream e) w ! ev_seq e = e"

definition numbered :: "string \<Rightarrow> domain_event list \<Rightarrow> bool" where
  "numbered sid events \<longleftrightarrow> (\<forall>i<length events. ev_seq (events ! i) = i \<and> ev_stream (events ! i) = sid)"

abbreviation slot :: "domain_event \<Rightarrow> string \<times> nat" where
  "slot e \<equiv> (ev_stream e, ev_seq e)"

definition events_ok :: "event_world \<Rightarrow> bool" where
  "events_ok w \<longleftrightarrow> (\<forall>sid. numbered sid (events_of sid w)) \<and> distinct (map slot (event_table w)) \<and>
     (\<forall>e \<in> set (in_flight w) \<union> set (write_queue w) \<union> set (event_table w). in_stream w e)"

lemma stream_of_set [simp]: "stream_of sid (set_stream sid' s w) = (if sid = sid' then s else stream_of sid w)"
  by (simp add: stream_of_def set_stream_def)

lemma stream_of_cong: "streams w' = streams w \<Longrightarrow> stream_of sid w' = stream_of sid w"
  by (simp add: stream_of_def)

lemma set_stream_fields [simp]:
  "in_flight (set_stream sid s w) = in_flight w" "write_queue (set_stream sid s w) = write_queue w"
  "event_table (set_stream sid s w) = event_table w" "store_closed (set_stream sid s w) = store_closed w"
  by (simp_all add: set_stream_def)

lemma events_okI:
  assumes "events_ok w" "\<And>sid. events_of sid w' = events_of sid w" "distinct (map slot (event_table w'))"
    "set (in_flight w') \<union> set (write_queue w') \<union> set (event_table w')
      \<subseteq> set (in_flight w) \<union> set (write_queue w) \<union> set (event_table w)"
  shows "events_ok w'"
proof -
  have "in_stream w' e" if "e \<in> set (in_flight w') \<union> set (write_queue w') \<union> set (event_table w')" for e
    using subsetD [OF assms(4) that] assms(1,2) by (simp add: events_ok_def in_stream_def)
  with assms(1-3) show ?thesis by (simp add: events_ok_def)
qed

lemma commit_keeps_ok:
  assumes "events_ok w"
  shows "events_ok (snd (commit_event env sid kind pv w))"
proof -
  let ?old = "events_of sid w"
  define e where "e = fst (commit_event env sid kind pv w)"
  define w' where "w' = snd (commit_event env sid kind pv w)"
  have e: "ev_stream e = sid" "ev_seq e = length ?old" by (simp_all add: e_def commit_event_def Let_def)
  have streams: "events_of x w' = (if x = sid then ?old @ [e] else events_of x w)" for x
    by (simp add: w'_def e_def commit_event_def Let_def stream_of_cong [of _ "set_stream _ _ _"])
  have rest: "in_flight w' = in_flight w @ [e]" "write_queue w' = write_queue w" "event_table w' = event_table w"
    by (simp_all add: w'_def e_def commit_event_def Let_def)
  have "numbered x (events_of x w')" for x
    using assms e unfolding streams by (auto simp: events_ok_def numbered_def nth_append less_Suc_eq)
  moreover have "in_stream w' x" if "in_stream w x" for x
    using that unfolding in_stream_def streams by (auto simp: nth_append)
  moreover have "in_stream w' e" unfolding in_stream_def streams e by simp
  ultimately show ?thesis
    using assms unfolding w'_def [symmetric] events_ok_def rest by auto
qed

lemma enqueue_keeps_ok:
  assumes "events_ok w" "e \<in> set (in_flight w)"
  shows "events_ok (enqueue_event e w)"
  using assms(1)
proof (rule events_okI)
  show "events_of sid (enqueue_event e w) = events_of sid w" for sid
    by (simp add: enqueue_event_def Let_def stream_of_def)
  show "distinct (map slot (event_table (enqueue_event e w)))"
    using assms(1) by (simp add: enqueue_event_def Let_def events_ok_def)
  show "set (in_flight (enqueue_event e w)) \<union> set (write_queue (enqueue_event e w)) \<union> set (event_table (enqueue_event e w))
      \<subseteq> set (in_flight w) \<union> set (write_queue w) \<union> set (event_table w)"
    using assms(2) set_remove1_subset [of e "in_flight w"] by (auto simp: enqueue_event_def Let_def)
qed

lemma insert_or_ignore_sound:
  "set (insert_or_ignore e t) \<subseteq> insert e (set t)"
  "distinct (map slot t) \<Longrightarrow> distinct (map slot (insert_or_ignore e t))"
  by (auto simp: insert_or_ignore_def list_ex_iff)

lemma flush_batch_sound:
  "set (flush_batch ok row es t) \<subseteq> set es \<union> set t"
  "distinct (map slot t) \<Longrightarrow> distinct (map slot (flush_batch ok row es t))"
proof -
  have "set (fold (\<lambda>e t. if row e then insert_or_ignore e t else t) es t) \<subseteq> set es \<union> set t \<and>
    (distinct (map slot t) \<longrightarrow> distinct (map slot (fold (\<lambda>e t. if row e then insert_or_ignore e t else t) es t)))" for row
  proof (induction es arbitrary: t)
    case (Cons e es)
    then show ?case
      using insert_or_ignore_sound(1) [of e t] insert_or_ignore_sound(2) [of t e] by (auto simp: subset_iff)
  qed simp
  from this [of row] this [of "\<lambda>_. True"]
  show "set (flush_batch ok row es t) \<subseteq> set es \<union> set t"
    "distinct (map slot t) \<Longrightarrow> distinct (map slot (flush_batch ok row es t))"
    by (auto simp: flush_batch_def)
qed

lemma write_keeps_ok:
  assumes "events_ok w"
  shows "events_ok (write_turn n ok row w)"
  using assms
proof (rule events_okI)
  show "events_of sid (write_turn n ok row w) = events_of sid w" for sid
    by (simp add: write_turn_def stream_of_def)
  show "distinct (map slot (event_table (write_turn n ok row w)))"
    using assms by (simp add: write_turn_def events_ok_def flush_batch_sound)
  show "set (in_flight (write_turn n ok row w)) \<union> set (write_queue (write_turn n ok row w)) \<union> set (event_table (write_turn n ok row w))
      \<subseteq> set (in_flight w) \<union> set (write_queue w) \<union> set (event_table w)"
    using flush_batch_sound(1) [of ok row "take n (write_queue w)" "event_table w"]
    by (auto simp: write_turn_def dest: in_set_takeD in_set_dropD)
qed

section \<open>Recovery restores a prefix\<close>

definition rows_of :: "string \<Rightarrow> domain_event list \<Rightarrow> domain_event list" where
  "rows_of sid table = sort_key ev_seq (filter (\<lambda>r. ev_stream r = sid) table)"

definition kept_rows :: "string \<Rightarrow> domain_event list \<Rightarrow> nat" where
  "kept_rows sid table = length (fst (contiguous_prefix 0 (rows_of sid table)))"

text \<open>A table that holds some of the events of a history, each in its slot.\<close>

definition records_of :: "(string \<Rightarrow> domain_event list) \<Rightarrow> domain_event list \<Rightarrow> bool" where
  "records_of H table \<longleftrightarrow> distinct (map slot table) \<and> (\<forall>sid. numbered sid (H sid)) \<and>
     (\<forall>r\<in>set table. ev_seq r < length (H (ev_stream r)) \<and> H (ev_stream r) ! ev_seq r = r)"

lemma contiguous_prefix_spec:
  assumes "sorted_wrt (\<lambda>a b. ev_seq a < ev_seq b) rows" "\<forall>r\<in>set rows. k \<le> ev_seq r"
    and "contiguous_prefix k rows = (es, gap)"
  shows "es = take (length es) rows \<and> (\<forall>i<length es. ev_seq (es ! i) = k + i) \<and>
    (\<forall>r\<in>set rows. ev_seq r \<noteq> k + length es) \<and> (\<not> gap \<longrightarrow> es = rows)"
  using assms
proof (induction k rows arbitrary: es gap rule: contiguous_prefix.induct)
  case (2 k r rs)
  show ?case
  proof (cases "ev_seq r = k")
    case False
    with 2(3,4) have "k < ev_seq x" if "x \<in> set (r # rs)" for x
      using that 2(2) by (auto simp: order.strict_iff_order)
    then show ?thesis using False 2(4) by auto
  next
    case True
    obtain fs g where rec: "contiguous_prefix (k + 1) rs = (fs, g)" by fastforce
    then have es: "es = r # fs" "gap = g" using True 2(4) by auto
    have "\<forall>x\<in>set rs. k + 1 \<le> ev_seq x" using 2(2) True by auto
    from 2(1) [OF _ _ this rec] True 2(2) have IH: "fs = take (length fs) rs"
      "\<forall>i<length fs. ev_seq (fs ! i) = k + 1 + i" "\<forall>x\<in>set rs. ev_seq x \<noteq> k + 1 + length fs" "\<not> g \<longrightarrow> fs = rs"
      by simp_all
    from IH(2) have "ev_seq (es ! i) = k + i" if "i < length es" for i
      using that True es by (cases i) auto
    with IH es True show ?thesis by auto
  qed
qed simp

lemma rows_of_sorted:
  assumes "distinct (map slot table)"
  shows "sorted_wrt (\<lambda>a b. ev_seq a < ev_seq b) (rows_of sid table)"
proof -
  have "distinct (map slot (filter (\<lambda>r. ev_stream r = sid) table))"
    using assms by (rule distinct_map_filter)
  then have "inj_on ev_seq (set (filter (\<lambda>r. ev_stream r = sid) table))" "distinct (filter (\<lambda>r. ev_stream r = sid) table)"
    by (auto simp: distinct_map inj_on_def)
  then have "distinct (map ev_seq (rows_of sid table))" by (simp add: rows_of_def distinct_map)
  moreover have "sorted (map ev_seq (rows_of sid table))" by (simp add: rows_of_def)
  ultimately have "sorted_wrt (<) (map ev_seq (rows_of sid table))" by (simp add: strict_sorted_iff)
  then show ?thesis by (simp add: sorted_wrt_map)
qed

lemma kept_rows_prefix:
  assumes "records_of H table"
  shows "fst (contiguous_prefix 0 (rows_of sid table)) = take (kept_rows sid table) (H sid)"
    and "kept_rows sid table \<le> length (H sid)"
    and "i < kept_rows sid table \<Longrightarrow> H sid ! i \<in> set table"
    and "kept_rows sid table < length (H sid) \<Longrightarrow> H sid ! kept_rows sid table \<notin> set table"
    and "\<not> snd (contiguous_prefix 0 (rows_of sid table)) \<Longrightarrow> r \<in> set table \<Longrightarrow> ev_stream r = sid \<Longrightarrow>
      ev_seq r < kept_rows sid table"
proof -
  obtain es gap where run: "contiguous_prefix 0 (rows_of sid table) = (es, gap)" by fastforce
  have n: "kept_rows sid table = length es" by (simp add: kept_rows_def run)
  have spec: "es = take (length es) (rows_of sid table)" "\<forall>i<length es. ev_seq (es ! i) = i"
    "\<forall>r\<in>set (rows_of sid table). ev_seq r \<noteq> length es" "\<not> gap \<longrightarrow> es = rows_of sid table"
    using contiguous_prefix_spec [OF rows_of_sorted _ run] assms by (auto simp: records_of_def)
  have rows: "set (rows_of sid table) = {r \<in> set table. ev_stream r = sid}" by (simp add: rows_of_def)
  have es: "es ! i \<in> set table \<and> ev_stream (es ! i) = sid \<and> i < length (H sid) \<and> H sid ! i = es ! i"
    if "i < length es" for i
  proof -
    have "es ! i \<in> set (rows_of sid table)" using that spec(1) by (metis in_set_takeD nth_mem)
    with that spec(2) assms show ?thesis unfolding rows records_of_def by auto
  qed
  show "kept_rows sid table \<le> length (H sid)"
    unfolding n using es [of "length es - 1"] by (cases "es = []") auto
  then show "fst (contiguous_prefix 0 (rows_of sid table)) = take (kept_rows sid table) (H sid)"
    unfolding n run using es by (auto intro!: nth_equalityI)
  show "i < kept_rows sid table \<Longrightarrow> H sid ! i \<in> set table" unfolding n using es [of i] by simp
  show "H sid ! kept_rows sid table \<notin> set table" if "kept_rows sid table < length (H sid)"
  proof
    assume mem: "H sid ! kept_rows sid table \<in> set table"
    from assms that have "ev_stream (H sid ! kept_rows sid table) = sid"
      "ev_seq (H sid ! kept_rows sid table) = kept_rows sid table"
      by (auto simp: records_of_def numbered_def)
    with mem spec(3) show False unfolding rows n by auto
  qed
  show "ev_seq r < kept_rows sid table" if "\<not> snd (contiguous_prefix 0 (rows_of sid table))"
    "r \<in> set table" "ev_stream r = sid"
  proof -
    from that spec(4) run have "r \<in> set es" unfolding rows by (auto simp: rows)
    then obtain i where "i < length es" "r = es ! i" by (auto simp: in_set_conv_nth)
    with spec(2) show ?thesis unfolding n by simp
  qed
qed

definition trimmed_rows :: "string set \<Rightarrow> domain_event list \<Rightarrow> domain_event list" where
  "trimmed_rows sids table = filter (\<lambda>r. ev_stream r \<in> sids \<longrightarrow> ev_seq r < kept_rows (ev_stream r) table) table"

lemma load_stream_result:
  assumes "records_of H (event_table w)" "load_stream sid 0 w = (es, w')"
  shows "es = take (kept_rows sid (event_table w)) (H sid)"
    "event_table w' = trimmed_rows {sid} (event_table w)"
    "streams w' = streams w" "in_flight w' = in_flight w" "write_queue w' = write_queue w"
    "store_closed w' = store_closed w"
proof -
  note P = kept_rows_prefix [OF assms(1), where sid = sid]
  obtain gap where run: "contiguous_prefix 0 (rows_of sid (event_table w)) = (es, gap)"
    using assms(2) by (auto simp: load_stream_def rows_of_def Let_def split: prod.splits)
  show es: "es = take (kept_rows sid (event_table w)) (H sid)" using P(1) run by simp
  with P(2) have len: "length es = kept_rows sid (event_table w)" by simp
  have result: "w' = (if gap then w\<lparr>recovery_mode := True,
      event_table := filter (\<lambda>r. \<not> (ev_stream r = sid \<and> length es \<le> ev_seq r)) (event_table w)\<rparr> else w)"
    using assms(2) run by (auto simp: load_stream_def rows_of_def Let_def split: prod.splits)
  show "event_table w' = trimmed_rows {sid} (event_table w)"
  proof (cases gap)
    case True
    then show ?thesis by (auto simp: result trimmed_rows_def len not_le intro!: filter_cong)
  next
    case False
    with P(5) run show ?thesis by (auto simp: result trimmed_rows_def intro!: filter_True [symmetric])
  qed
  show "streams w' = streams w" "in_flight w' = in_flight w" "write_queue w' = write_queue w"
    "store_closed w' = store_closed w"
    by (simp_all add: result)
qed

lemma rows_of_trimmed: "sid \<notin> sids \<Longrightarrow> rows_of sid (trimmed_rows sids table) = rows_of sid table"
  by (auto simp: rows_of_def trimmed_rows_def intro!: arg_cong [where f = "sort_key ev_seq"] filter_cong)

lemma kept_rows_trimmed: "sid \<notin> sids \<Longrightarrow> kept_rows sid (trimmed_rows sids table) = kept_rows sid table"
  by (simp add: kept_rows_def rows_of_trimmed)

lemma records_of_filter: "records_of H table \<Longrightarrow> records_of H (filter P table)"
  by (auto simp: records_of_def distinct_map_filter)

lemma trimmed_rows_insert:
  assumes "sid \<notin> sids"
  shows "trimmed_rows sids (trimmed_rows {sid} table) = trimmed_rows (insert sid sids) table"
proof -
  have kept: "kept_rows x (trimmed_rows {sid} table) = kept_rows x table" if "x \<in> sids" for x
    using that assms by (intro kept_rows_trimmed) auto
  have "trimmed_rows sids (trimmed_rows {sid} table)
      = filter (\<lambda>r. ev_stream r \<in> sids \<longrightarrow> ev_seq r < kept_rows (ev_stream r) table) (trimmed_rows {sid} table)"
    unfolding trimmed_rows_def [of sids] by (intro filter_cong) (auto simp: kept)
  then show ?thesis by (auto simp: trimmed_rows_def intro!: filter_cong)
qed

lemma load_streams_result:
  assumes "records_of H (event_table w)" "distinct sids" "load_streams sids w = (loaded, w')"
  shows "loaded = map (\<lambda>sid. (sid, take (kept_rows sid (event_table w)) (H sid))) sids \<and>
    event_table w' = trimmed_rows (set sids) (event_table w) \<and> streams w' = streams w \<and>
    in_flight w' = in_flight w \<and> write_queue w' = write_queue w \<and> store_closed w' = store_closed w"
  using assms
proof (induction sids arbitrary: w loaded)
  case Nil
  then show ?case by (auto simp: trimmed_rows_def)
next
  case (Cons sid sids)
  obtain es v where first: "load_stream sid 0 w = (es, v)" by fastforce
  obtain rest where rest: "load_streams sids v = (rest, w')" and loaded: "loaded = (sid, es) # rest"
    using Cons.prems(3) first by (auto simp: Let_def split: prod.splits)
  note L = load_stream_result [OF Cons.prems(1) first]
  have "records_of H (event_table v)"
    unfolding L(2) trimmed_rows_def by (rule records_of_filter) (rule Cons.prems(1))
  from Cons.IH [OF this _ rest] Cons.prems(2) have IH:
    "rest = map (\<lambda>sid. (sid, take (kept_rows sid (event_table v)) (H sid))) sids"
    "event_table w' = trimmed_rows (set sids) (event_table v)" "streams w' = streams v"
    "in_flight w' = in_flight v" "write_queue w' = write_queue v" "store_closed w' = store_closed v"
    by simp_all
  have "kept_rows x (event_table v) = kept_rows x (event_table w)" if "x \<in> set sids" for x
    unfolding L(2) using that Cons.prems(2) by (intro kept_rows_trimmed) auto
  then have "rest = map (\<lambda>sid. (sid, take (kept_rows sid (event_table w)) (H sid))) sids"
    unfolding IH(1) by simp
  moreover have "event_table w' = trimmed_rows (set (sid # sids)) (event_table w)"
    unfolding IH(2) L(2) using Cons.prems(2) by (simp add: trimmed_rows_insert)
  ultimately show ?case using IH L loaded by simp
qed

lemma restore_streams_result:
  assumes "distinct (map fst loaded)" "\<forall>(sid, es) \<in> set loaded. numbered sid es"
    "\<forall>sid \<in> fst ` set loaded. events_of sid w = []"
  shows "\<exists>w'. restore_streams loaded w = Inr w' \<and> event_table w' = event_table w \<and>
    in_flight w' = in_flight w \<and> write_queue w' = write_queue w \<and> store_closed w' = store_closed w \<and>
    (\<forall>sid. events_of sid w' = (case dget loaded sid of Some es \<Rightarrow> es | None \<Rightarrow> events_of sid w))"
  using assms
proof (induction loaded arbitrary: w)
  case (Cons entry loaded)
  obtain sid es where entry: "entry = (sid, es)" by fastforce
  let ?v = "snd (get_or_create sid w)"
  have v: "stream_of x ?v = stream_of x w" "event_table ?v = event_table w" "in_flight ?v = in_flight w"
    "write_queue ?v = write_queue w" "store_closed ?v = store_closed w" for x
    by (auto simp: get_or_create_def stream_of_def set_stream_def dget_or_def split: option.split)
  have num: "numbered sid es" and empty: "events_of sid w = []" using Cons.prems entry by auto
  have "\<not> list_ex (\<lambda>e. ev_stream e \<noteq> sid) es" "\<not> list_ex (\<lambda>(i, e). ev_seq e \<noteq> i) (enumerate 0 es)"
    using num by (auto simp: numbered_def list_ex_iff in_set_conv_nth nth_enumerate_eq)
  then have step: "restore_events sid es ?v = Inr (set_stream sid ((stream_of sid w)\<lparr>stream_events := es\<rparr>) ?v)"
    using empty by (simp add: restore_events_def Let_def v)
  let ?u = "set_stream sid ((stream_of sid w)\<lparr>stream_events := es\<rparr>) ?v"
  have "\<forall>x \<in> fst ` set loaded. events_of x ?u = []"
    using Cons.prems entry by (auto simp: v)
  with Cons.IH [of ?u] Cons.prems entry obtain w' where
    "restore_streams loaded ?u = Inr w'" "event_table w' = event_table ?u" "in_flight w' = in_flight ?u"
    "write_queue w' = write_queue ?u" "store_closed w' = store_closed ?u"
    "\<forall>x. events_of x w' = (case dget loaded x of Some es \<Rightarrow> es | None \<Rightarrow> events_of x ?u)"
    by auto
  moreover have "dget loaded sid = None" using Cons.prems(1) entry by (simp add: map_of_eq_None_iff)
  ultimately show ?case using step entry by (intro exI [of _ w']) (auto simp: v split: option.splits)
qed simp

lemma events_ok_records: "events_ok w \<Longrightarrow> records_of (\<lambda>sid. events_of sid w) (event_table w)"
  by (auto simp: events_ok_def records_of_def in_stream_def)

lemma restore_result:
  assumes "events_ok w"
  shows "\<exists>w'. restore_from_disk (open_store (event_table w)) = Inr w' \<and> events_ok w' \<and>
    (\<forall>sid. events_of sid w' = take (kept_rows sid (event_table w)) (events_of sid w))"
proof -
  let ?H = "\<lambda>sid. events_of sid w" and ?t = "event_table w"
  let ?sids = "sort_key id (remdups (map ev_stream ?t))"
  have rec: "records_of ?H ?t" using assms by (rule events_ok_records)
  obtain loaded v where load: "load_streams ?sids (open_store ?t) = (loaded, v)" by fastforce
  have "records_of ?H (event_table (open_store ?t))" using rec by (simp add: open_store_def)
  from load_streams_result [OF this _ load] have L:
    "loaded = map (\<lambda>sid. (sid, take (kept_rows sid ?t) (?H sid))) ?sids"
    "event_table v = trimmed_rows (set ?sids) ?t" "streams v = []" "in_flight v = []" "write_queue v = []"
    by (simp_all add: open_store_def)
  have none: "events_of sid v = []" for sid
    by (simp add: stream_of_def L dget_or_def empty_stream_def)
  have num: "numbered sid (take n (?H sid))" for sid n
    using rec by (auto simp: records_of_def numbered_def)
  obtain w' where w': "restore_streams loaded v = Inr w'" "event_table w' = event_table v"
    "in_flight w' = in_flight v" "write_queue w' = write_queue v"
    "\<forall>sid. events_of sid w' = (case dget loaded sid of Some es \<Rightarrow> es | None \<Rightarrow> events_of sid v)"
    using restore_streams_result [of loaded v] none num by (auto simp: L(1) o_def split_beta)
  have outside: "kept_rows sid ?t = 0" if "sid \<notin> set ?sids" for sid
  proof -
    have "filter (\<lambda>r. ev_stream r = sid) ?t = []" using that by (auto simp: filter_empty_conv)
    then show ?thesis by (simp add: kept_rows_def rows_of_def)
  qed
  have events: "events_of sid w' = take (kept_rows sid ?t) (?H sid)" for sid
  proof (cases "sid \<in> set ?sids")
    case True
    then have "dget loaded sid = Some (take (kept_rows sid ?t) (?H sid))"
      unfolding L(1) map_of_map_restrict by simp
    with w'(5) show ?thesis by simp
  next
    case False
    then have "dget loaded sid = None" unfolding L(1) by (auto simp: map_of_eq_None_iff)
    with w'(5) outside [OF False] none show ?thesis by simp
  qed
  have "in_stream w' r" if "r \<in> set (event_table w')" for r
  proof -
    from that w'(2) L(2) have r: "r \<in> set ?t" "ev_seq r < kept_rows (ev_stream r) ?t"
      by (auto simp: trimmed_rows_def)
    with rec show ?thesis unfolding in_stream_def events by (auto simp: records_of_def)
  qed
  moreover have "distinct (map slot (event_table w'))"
    using assms unfolding w'(2) L(2) trimmed_rows_def events_ok_def by (auto intro: distinct_map_filter)
  ultimately have "events_ok w'" using w'(3,4) L(4,5) num events by (auto simp: events_ok_def)
  then show ?thesis using w'(1) events load
    by (auto simp: restore_from_disk_def load_all_streams_def open_store_def)
qed

text \<open>
  The steps of a process: a thread commits an event, a thread hands a committed event to the
  store, the writer writes a batch with whatever failures, the store closes, the process stops
  and another one recovers from the table. Threads interleave in any order.
\<close>

inductive event_run :: "(pyval dict \<Rightarrow> bool) \<Rightarrow> event_registry \<Rightarrow> event_world \<Rightarrow> bool"
  for serializable reg where
  start: "event_run serializable reg (open_store [])"
| commit: "event_run serializable reg w \<Longrightarrow> check_append serializable env reg kind payload = Inr pv \<Longrightarrow>
    event_run serializable reg (snd (commit_event env sid kind pv w))"
| hand_over: "event_run serializable reg w \<Longrightarrow> e \<in> set (in_flight w) \<Longrightarrow>
    event_run serializable reg (enqueue_event e w)"
| writing: "event_run serializable reg w \<Longrightarrow> event_run serializable reg (write_turn n ok row w)"
| closing: "event_run serializable reg w \<Longrightarrow> event_run serializable reg (close_store w)"
| restart: "event_run serializable reg w \<Longrightarrow> restore_from_disk (open_store (event_table w)) = Inr w' \<Longrightarrow>
    event_run serializable reg w'"

lemma event_run_ok: "event_run serializable reg w \<Longrightarrow> events_ok w"
proof (induction rule: event_run.induct)
  case start
  show ?case by (simp add: events_ok_def open_store_def stream_of_def dget_or_def empty_stream_def numbered_def)
next
  case (closing w)
  then show ?case by (auto intro: events_okI simp: close_store_def stream_of_def events_ok_def in_stream_def)
next
  case (restart w w')
  from restore_result [OF restart.IH] restart.hyps(2) show ?case by auto
qed (auto intro: commit_keeps_ok enqueue_keeps_ok write_keeps_ok)

text \<open>C24. Whatever the interleaving of threads, the failures of the writer and the restarts before,
  recovery succeeds, and it restores of every stream the longest prefix of the committed
  events whose rows were written: contiguous sequence numbers from 0, no event invented,
  reordered or moved to another stream, and the first event left out is one that was not written.
\<close>

theorem recovery_restores_prefix:
  assumes "event_run serializable reg w"
  shows "\<exists>w'. restore_from_disk (open_store (event_table w)) = Inr w' \<and>
    (\<forall>sid. \<exists>n. events_of sid w' = take n (events_of sid w) \<and> numbered sid (events_of sid w') \<and>
       (\<forall>i<n. i < length (events_of sid w) \<and> events_of sid w ! i \<in> set (event_table w)) \<and>
       (n < length (events_of sid w) \<longrightarrow> events_of sid w ! n \<notin> set (event_table w)))"
proof -
  have ok: "events_ok w" using assms by (rule event_run_ok)
  note P = kept_rows_prefix [OF events_ok_records [OF ok]]
  from restore_result [OF ok] obtain w' where w': "restore_from_disk (open_store (event_table w)) = Inr w'"
    "events_ok w'" "\<forall>sid. events_of sid w' = take (kept_rows sid (event_table w)) (events_of sid w)"
    by blast
  have "numbered sid (events_of sid w')" for sid using w'(2) by (simp add: events_ok_def)
  moreover have "i < length (events_of sid w)" if "i < kept_rows sid (event_table w)" for sid i
    using that P(2) [of sid] by (rule order.strict_trans2)
  ultimately show ?thesis
    using w'(1,3) P(3,4) by (intro exI [of _ w'] conjI allI exI) auto
qed

section \<open>What was written comes back\<close>

text \<open>A thread that appends one event after the other.\<close>

definition append_all :: "(pyval dict \<Rightarrow> bool) \<Rightarrow> event_registry
    \<Rightarrow> (append_env \<times> string \<times> string \<times> pyval dict) list \<Rightarrow> event_world \<Rightarrow> event_world" where
  "append_all serializable reg calls w =
    fold (\<lambda>(env, sid, kind, payload) w. snd (append_event serializable env reg sid kind payload w)) calls w"

definition all_queued :: "string set \<Rightarrow> event_world \<Rightarrow> bool" where
  "all_queued ids w \<longleftrightarrow> events_ok w \<and> in_flight w = [] \<and> event_table w = [] \<and> \<not> store_closed w \<and>
     (\<forall>sid. set (events_of sid w) \<subseteq> set (write_queue w)) \<and>
     distinct (map ev_id (write_queue w)) \<and> distinct (map slot (write_queue w)) \<and>
     ev_id ` set (write_queue w) \<subseteq> ids"

lemma append_event_queues:
  assumes "all_queued ids w" "fresh_id env \<notin> ids"
  shows "all_queued (insert (fresh_id env) ids) (snd (append_event serializable env reg sid kind payload w))"
proof (cases "check_append serializable env reg kind payload")
  case (Inl err)
  with assms show ?thesis by (auto simp: append_event_def all_queued_def)
next
  case (Inr pv)
  obtain e v where commit: "commit_event env sid kind pv w = (e, v)" by fastforce
  let ?u = "enqueue_event e v"
  have e: "ev_id e = fresh_id env" "ev_stream e = sid" "ev_seq e = length (events_of sid w)"
    and v: "in_flight v = [e]" "write_queue v = write_queue w" "event_table v = []" "\<not> store_closed v"
    and events: "events_of x v = (if x = sid then events_of sid w @ [e] else events_of x w)" for x
    using commit assms(1)
    by (auto simp: commit_event_def Let_def all_queued_def stream_of_cong [of _ "set_stream _ _ _"])
  have ok: "events_ok v" using commit_keeps_ok [of w env sid kind pv] commit assms(1) by (simp add: all_queued_def)
  have u: "in_flight ?u = []" "write_queue ?u = write_queue w @ [e]" "event_table ?u = []" "\<not> store_closed ?u"
    "streams ?u = streams v"
    using v by (simp_all add: enqueue_event_def Let_def)
  have "ev_seq x < length (events_of (ev_stream x) w)" if "x \<in> set (write_queue w)" for x
    using that assms(1) by (auto simp: all_queued_def events_ok_def in_stream_def)
  then have "slot e \<notin> slot ` set (write_queue w)" using e by fastforce
  moreover have "events_ok ?u" using ok v by (intro enqueue_keeps_ok) simp_all
  moreover have "events_of x ?u = events_of x v" for x using u(5) by (simp add: stream_of_def)
  ultimately have "all_queued (insert (fresh_id env) ids) ?u"
    using assms e u events by (auto simp: all_queued_def subset_iff)
  moreover have "all_queued ids' (notify_observers obs x y) = all_queued ids' y" for ids' obs x y
    by (simp add: all_queued_def events_ok_def in_stream_def notify_observers_def stream_of_def)
  ultimately show ?thesis using Inr commit by (simp add: append_event_def Let_def)
qed

lemma append_all_queues:
  assumes "all_queued ids w" "distinct (map (\<lambda>c. fresh_id (fst c)) calls)"
    "\<forall>c\<in>set calls. fresh_id (fst c) \<notin> ids"
  shows "\<exists>ids'. all_queued ids' (append_all serializable reg calls w)"
  using assms
proof (induction calls arbitrary: ids w)
  case Nil
  then show ?case by (auto simp: append_all_def)
next
  case (Cons c calls)
  obtain env sid kind payload where c: "c = (env, sid, kind, payload)" by (cases c) auto
  let ?v = "snd (append_event serializable env reg sid kind payload w)"
  have "all_queued (insert (fresh_id env) ids) ?v"
    by (rule append_event_queues) (use Cons.prems c in auto)
  moreover have "\<forall>c\<in>set calls. fresh_id (fst c) \<notin> insert (fresh_id env) ids"
    using Cons.prems(2,3) c by force
  ultimately have "\<exists>ids'. all_queued ids' (append_all serializable reg calls ?v)"
    using Cons.IH Cons.prems(2) by simp
  then show ?case by (simp add: append_all_def c)
qed

lemma insert_all_fresh:
  assumes "distinct (map ev_id (t @ es))" "distinct (map slot (t @ es))"
  shows "fold insert_or_ignore es t = t @ es"
  using assms
proof (induction es arbitrary: t)
  case (Cons e es)
  have "\<not> list_ex (\<lambda>r. ev_id r = ev_id e \<or> (ev_stream r = ev_stream e \<and> ev_seq r = ev_seq e)) t"
    using Cons.prems by (auto simp: list_ex_iff image_iff)
  then have "insert_or_ignore e t = t @ [e]" by (simp add: insert_or_ignore_def)
  with Cons.IH [of "t @ [e]"] Cons.prems show ?case by simp
qed simp

text \<open>C38. A round trip through the store: events appended by a thread, whatever streams they go
  to and whichever of them are refused, written by the writer and read back by another
  process, give the same streams, event for event, when the identifiers of
  \<open>uuid4\<close> are different.
\<close>

theorem appended_events_survive_restart:
  assumes "distinct (map (\<lambda>c. fresh_id (fst c)) calls)"
    and "length (write_queue (append_all serializable reg calls (open_store []))) \<le> n"
  shows "\<exists>w'. restore_from_disk (open_store (event_table
      (write_turn n True row (append_all serializable reg calls (open_store []))))) = Inr w' \<and>
    (\<forall>sid. events_of sid w' = events_of sid (append_all serializable reg calls (open_store [])))"
proof -
  let ?w = "append_all serializable reg calls (open_store [])"
  let ?v = "write_turn n True row ?w"
  have "all_queued {} (open_store [])"
    by (simp add: all_queued_def events_ok_def open_store_def stream_of_def dget_or_def empty_stream_def numbered_def)
  then obtain ids where q: "all_queued ids ?w" using append_all_queues [OF _ assms(1)] by blast
  have table: "event_table ?v = write_queue ?w"
    using q insert_all_fresh [of "[]" "write_queue ?w"] assms(2)
    by (simp add: write_turn_def flush_batch_def all_queued_def)
  have events: "events_of sid ?v = events_of sid ?w" for sid by (simp add: write_turn_def stream_of_def)
  have ok: "events_ok ?v" using q by (intro write_keeps_ok) (simp add: all_queued_def)
  note P = kept_rows_prefix [OF events_ok_records [OF ok]]
  have "kept_rows sid (event_table ?v) = length (events_of sid ?v)" for sid
  proof (rule ccontr)
    assume "kept_rows sid (event_table ?v) \<noteq> length (events_of sid ?v)"
    with P(2) [of sid] have less: "kept_rows sid (event_table ?v) < length (events_of sid ?v)" by simp
    then have "events_of sid ?v ! kept_rows sid (event_table ?v) \<in> set (events_of sid ?w)"
      unfolding events by (rule nth_mem)
    with P(4) [OF less] q show False unfolding table events by (auto simp: all_queued_def)
  qed
  with restore_result [OF ok] events show ?thesis by (metis take_all_iff order_refl)
qed

section \<open>Samples\<close>

definition sample_registry :: event_registry where
  "sample_registry = [(''session/message'', 1)]"

definition sample_env :: "string \<Rightarrow> append_env" where
  "sample_env i = \<lparr>notifying = False, trace_id = None, fresh_id = i, now = 0\<rparr>"

text \<open>Two threads commit one event each; only the second event reaches the table.\<close>

definition two_commits :: event_world where
  "two_commits = snd (commit_event (sample_env ''b'') ''s'' ''session/message'' ([], 1)
     (snd (commit_event (sample_env ''a'') ''s'' ''session/message'' ([], 1) (open_store []))))"

definition gap_world :: event_world where
  "gap_world = write_turn 1 True (\<lambda>_. True) (enqueue_event (last (in_flight two_commits)) two_commits)"

lemma gap_world_runs: "event_run (\<lambda>_. True) sample_registry gap_world"
proof -
  have check: "check_append (\<lambda>_. True) (sample_env i) sample_registry ''session/message'' [] = Inr ([], 1)" for i
    by (simp add: check_append_def sample_env_def sample_registry_def traced_payload_def
        validate_event_def schema_version_of_def)
  have two: "event_run (\<lambda>_. True) sample_registry two_commits"
    unfolding two_commits_def by (intro event_run.commit [OF _ check] event_run.start)
  have "in_flight two_commits \<noteq> []" by (simp add: two_commits_def commit_event_def Let_def)
  then show ?thesis
    unfolding gap_world_def by (intro event_run.writing event_run.hand_over two last_in_set)
qed

theorem recovery_restores_prefix_witness:
  "\<exists>w'. restore_from_disk (open_store (event_table gap_world)) = Inr w' \<and>
    (\<forall>sid. \<exists>n. events_of sid w' = take n (events_of sid gap_world) \<and> numbered sid (events_of sid w') \<and>
       (\<forall>i<n. i < length (events_of sid gap_world) \<and> events_of sid gap_world ! i \<in> set (event_table gap_world)) \<and>
       (n < length (events_of sid gap_world) \<longrightarrow>
          events_of sid gap_world ! n \<notin> set (event_table gap_world)))"
  by (rule recovery_restores_prefix [OF gap_world_runs])

lemma gap_loses_written_event:
  "length (event_table gap_world) = 1 \<and>
   map_sum id (\<lambda>w'. (events_of ''s'' w', event_table w', recovery_mode w'))
     (restore_from_disk (open_store (event_table gap_world))) = Inr ([], [], True)"
  by code_simp

definition sample_calls :: "(append_env \<times> string \<times> string \<times> pyval dict) list" where
  "sample_calls = [(sample_env ''a'', ''s'', ''session/message'', []), (sample_env ''b'', ''t'', ''unknown'', []),
     (sample_env ''c'', ''s'', ''session/message'', [(''role'', PStr ''user'')])]"

theorem appended_events_survive_restart_witness:
  "(\<exists>w'. restore_from_disk (open_store (event_table
      (write_turn 2 True (\<lambda>_. True) (append_all (\<lambda>_. True) sample_registry sample_calls (open_store []))))) = Inr w' \<and>
    (\<forall>sid. events_of sid w' = events_of sid (append_all (\<lambda>_. True) sample_registry sample_calls (open_store [])))) \<and>
   map ev_id (events_of ''s'' (append_all (\<lambda>_. True) sample_registry sample_calls (open_store []))) = [''a'', ''c'']"
proof
  have "distinct (map (\<lambda>c. fresh_id (fst c)) sample_calls)" by code_simp
  moreover have "length (write_queue (append_all (\<lambda>_. True) sample_registry sample_calls (open_store []))) \<le> 2" by code_simp
  ultimately show "\<exists>w'. restore_from_disk (open_store (event_table
      (write_turn 2 True (\<lambda>_. True) (append_all (\<lambda>_. True) sample_registry sample_calls (open_store []))))) = Inr w' \<and>
    (\<forall>sid. events_of sid w' = events_of sid (append_all (\<lambda>_. True) sample_registry sample_calls (open_store [])))"
    by (rule appended_events_survive_restart)
qed code_simp

section \<open>The timeline\<close>

record projection =
  timeline :: "pyval dict list"
  summary :: "pyval dict"

definition trajectory_kinds :: "(string \<times> string) list" where
  "trajectory_kinds =
    [(''session/turn_start'', ''turn_start''), (''session/turn_end'', ''turn_end''),
     (''session/message'', ''message_''), (''plan/step_started'', ''step_started''),
     (''plan/step_completed'', ''step_completed''), (''plan/step_failed'', ''step_failed''),
     (''plan/status_changed'', ''plan_status_changed''), (''consent/asked'', ''consent_asked''),
     (''consent/decided'', ''consent_decided''), (''model/switched'', ''model_switched''),
     (''model/degraded'', ''model_degraded''), (''model/unavailable'', ''model_unavailable'')]"

definition timeline_entry :: "(pyval \<Rightarrow> string) \<Rightarrow> string \<Rightarrow> domain_event \<Rightarrow> pyval dict" where
  "timeline_entry rp kind e =
    [(''seq'', PInt (int (ev_seq e))),
     (''type'', PStr (if kind = ''message_'' then kind @ py_str rp (dget_or (ev_payload e) ''role'' (PStr ''unknown''))
                      else kind)),
     (''timestamp'', PFloat (ev_time e)), (''trace_id'', pget (ev_payload e) ''trace_id''),
     (''payload'', PDict (ev_payload e))]"

text \<open>What a handler writes into the summary besides the timeline.\<close>

definition summarize :: "domain_event \<Rightarrow> pyval dict \<Rightarrow> pyval dict" where
  "summarize e s = (let p = ev_payload e in
     if ev_kind e = ''plan/step_started'' then
       dset s ''current_step'' (if truthy (pget p ''step_title'') then pget p ''step_title'' else pget p ''step_id'')
     else if ev_kind e = ''plan/step_failed'' then dset s ''last_error'' (pget p ''error'')
     else if ev_kind e = ''plan/status_changed'' then dset s ''plan_status'' (pget p ''status'')
     else if ev_kind e = ''model/switched'' then dset s ''model'' (pget p ''model'')
     else s)"

definition handle_event :: "(pyval \<Rightarrow> string) \<Rightarrow> domain_event \<Rightarrow> projection \<Rightarrow> projection" where
  "handle_event rp e st = (case dget trajectory_kinds (ev_kind e) of
      None \<Rightarrow> st
    | Some kind \<Rightarrow> \<lparr>timeline = timeline st @ [timeline_entry rp kind e], summary = summarize e (summary st)\<rparr>)"

definition project_events :: "(pyval \<Rightarrow> string) \<Rightarrow> domain_event list \<Rightarrow> string option \<Rightarrow> projection" where
  "project_events rp events trace =
    (let selected = filter (\<lambda>e. trace = None \<or> dget (ev_payload e) ''trace_id'' = map_option PStr trace) events;
         st = fold (handle_event rp) (sort_key ev_seq selected) \<lparr>timeline = [], summary = []\<rparr>
     in st\<lparr>summary := dset (summary st) ''event_count'' (PInt (int (length (timeline st))))\<rparr>)"

lemma handle_events_timeline:
  "timeline (fold (handle_event rp) es st) = timeline st @
    concat (map (\<lambda>e. case dget trajectory_kinds (ev_kind e) of None \<Rightarrow> [] | Some kind \<Rightarrow> [timeline_entry rp kind e]) es)"
  by (induction es arbitrary: st) (auto simp: handle_event_def split: option.splits)

text \<open>The default registry is accepted: no type is registered twice.\<close>

lemma default_registry_builds:
  "build_default_registry = Inr (map (\<lambda>kind. (kind, 1)) DEFAULT_EVENT_TYPES)"
  by code_simp

end
