(* ===== verification/Algo_Booth.thy ===== *)
theory Algo_Booth
  imports Py_Values
begin

text \<open>
  The Booth multiplier of \<open>core/algorithm_tools.py\<close>: the registers and the rounds of
  \<open>booth_multiply\<close>, the signed powers of \<open>_booth_terms\<close>, the text of
  \<open>_booth_recoding\<close>. The registers are Python integers, unbounded and signed: \<open>&\<close>,
  \<open>|\<close>, \<open>~\<close>, \<open><<\<close> and \<open>>>\<close> are \<open>AND\<close>, \<open>OR\<close>, \<open>NOT\<close>, \<open>push_bit\<close> and \<open>drop_bit\<close> on
  \<open>int\<close>, and the width is kept by the masks the code applies. The operands are integers;
  the type errors for other arguments have no counterpart.
\<close>

unbundle bit_operations_syntax

section \<open>Integers and their bits\<close>

fun nat_bit_length :: "nat \<Rightarrow> nat" where
  "nat_bit_length n = (if n = 0 then 0 else Suc (nat_bit_length (n div 2)))"

declare nat_bit_length.simps [simp del]

text \<open>\<open>abs(i).bit_length()\<close>\<close>

definition bit_length :: "int \<Rightarrow> nat" where
  "bit_length i = nat_bit_length (nat \<bar>i\<bar>)"

lemma nat_bit_length_le: "nat_bit_length n \<le> k \<longleftrightarrow> n < 2 ^ k"
proof (induction n arbitrary: k rule: nat_bit_length.induct)
  case (1 n)
  show ?case
  proof (cases "n = 0")
    case True
    then show ?thesis by (simp add: nat_bit_length.simps)
  next
    case False
    then have n: "nat_bit_length n = Suc (nat_bit_length (n div 2))"
      by (subst nat_bit_length.simps) simp
    show ?thesis
    proof (cases k)
      case 0
      with False n show ?thesis by simp
    next
      case (Suc j)
      have "n div 2 < 2 ^ j \<longleftrightarrow> n < 2 ^ Suc j" by (simp add: div_less_iff_less_mult mult.commute)
      with 1 [OF False, of j] n Suc show ?thesis by simp
    qed
  qed
qed

lemma bit_length_le: "bit_length i \<le> k \<longleftrightarrow> \<bar>i\<bar> < 2 ^ k"
  by (simp add: bit_length_def nat_bit_length_le nat_less_iff)

section \<open>The registers\<close>

definition to_twos_complement :: "int \<Rightarrow> nat \<Rightarrow> int" where
  "to_twos_complement value width = value AND (push_bit width 1 - 1)"

definition signed_value :: "int \<Rightarrow> nat \<Rightarrow> int" where
  "signed_value value width =
    (let sign_bit = push_bit (width - 1) 1
     in if value AND sign_bit \<noteq> 0 then value - push_bit width 1 else value)"

record registers =
  accumulator :: int
  multiplier_register :: int
  previous_bit :: int

record booth_round =
  round_number :: nat
  round_pair :: string
  round_operation :: string
  accumulator_before :: int
  accumulator_after_operation :: int
  accumulator_after_shift :: int
  multiplier_after_shift :: int
  previous_multiplier_bit :: int

text \<open>The addition or subtraction of a round: the new accumulator and its description.\<close>

definition booth_operation :: "nat \<Rightarrow> int \<Rightarrow> registers \<Rightarrow> int \<times> string" where
  "booth_operation width multiplicand r =
    (let mask = push_bit width 1 - 1; m = to_twos_complement multiplicand width;
         pair = (multiplier_register r AND 1, previous_bit r);
         shown = int_str (signed_value (accumulator r) width)
     in if pair = (1, 0) then
          ((accumulator r - m) AND mask,
           ''A = A - M ('' @ shown @ '' - '' @ int_str multiplicand @ '')'')
        else if pair = (0, 1) then
          ((accumulator r + m) AND mask,
           ''A = A + M ('' @ shown @ '' + '' @ int_str multiplicand @ '')'')
        else (accumulator r, [CHR 0xE4, CHR 0xBF, CHR 0x9D, CHR 0xE6, CHR 0x8C, CHR 0x81] @ '' A''))"

text \<open>The arithmetic shift to the right of the three registers as one number.\<close>

definition booth_shift :: "nat \<Rightarrow> registers \<Rightarrow> registers" where
  "booth_shift width r =
    (let mask = push_bit width 1 - 1;
         combined = push_bit (width + 1) (accumulator r) OR push_bit 1 (multiplier_register r)
                    OR previous_bit r;
         combined = (if accumulator r AND push_bit (width - 1) 1 \<noteq> 0
                     then drop_bit 1 (combined OR NOT (push_bit (2 * width + 1) 1 - 1))
                     else drop_bit 1 combined)
     in \<lparr>accumulator = drop_bit (width + 1) combined AND mask,
         multiplier_register = drop_bit 1 combined AND mask,
         previous_bit = combined AND 1\<rparr>)"

definition booth_round_step :: "nat \<Rightarrow> int \<Rightarrow> nat \<Rightarrow> registers \<times> booth_round list
    \<Rightarrow> registers \<times> booth_round list" where
  "booth_round_step width multiplicand index st =
    (let (r, rounds) = st;
         (a, text) = booth_operation width multiplicand r;
         r' = booth_shift width (r\<lparr>accumulator := a\<rparr>)
     in (r', rounds @ [\<lparr>round_number = index + 1,
          round_pair = int_str (multiplier_register r AND 1) @ int_str (previous_bit r),
          round_operation = text,
          accumulator_before = signed_value (accumulator r) width,
          accumulator_after_operation = signed_value a width,
          accumulator_after_shift = signed_value (accumulator r') width,
          multiplier_after_shift = signed_value (multiplier_register r') width,
          previous_multiplier_bit = previous_bit r'\<rparr>]))"

definition booth_width :: "int \<Rightarrow> int \<Rightarrow> nat" where
  "booth_width multiplicand multiplier =
    max (max (bit_length multiplicand) (bit_length multiplier)) 1 + 1"

definition booth_rounds :: "nat \<Rightarrow> int \<Rightarrow> int \<Rightarrow> registers \<times> booth_round list" where
  "booth_rounds width multiplicand multiplier =
    fold (booth_round_step width multiplicand) [0..<width]
      (\<lparr>accumulator = 0, multiplier_register = to_twos_complement multiplier width,
        previous_bit = 0\<rparr>, [])"

section \<open>Signed powers\<close>

fun booth_term_loop :: "int \<Rightarrow> int \<Rightarrow> nat list \<Rightarrow> int \<Rightarrow> (int \<times> int) list \<Rightarrow> (int \<times> int) list" where
  "booth_term_loop sign magnitude [] previous terms = terms"
| "booth_term_loop sign magnitude (index # rest) previous terms =
    (let current = drop_bit index magnitude AND 1;
         terms = (if previous = 0 \<and> current = 1 then terms @ [(- sign, push_bit index 1)]
                  else if previous = 1 \<and> current = 0 then terms @ [(sign, push_bit index 1)]
                  else terms)
     in booth_term_loop sign magnitude rest current terms)"

definition booth_terms :: "int \<Rightarrow> (int \<times> int) list" where
  "booth_terms value =
    (if value = 0 then []
     else let sign = (if value < 0 then - 1 else 1); magnitude = \<bar>value\<bar>
          in rev (booth_term_loop sign magnitude [0..<bit_length value + 1] 0 []))"

definition render_terms :: "(int \<times> int) list \<Rightarrow> string" where
  "render_terms terms = strip (join '' '' (map (\<lambda>(coefficient, power).
     (if coefficient > 0 then ''+'' else ''-'') @ int_str power) terms))"

definition booth_recoding :: "int \<Rightarrow> string" where
  "booth_recoding value =
    (if value = 0 then ''0 = 0''
     else let rendered = render_terms (booth_terms value)
          in if value < 0 then int_str value @ '' = -('' @ rendered @ '')''
             else int_str value @ '' = '' @ rendered)"

section \<open>The multiplier\<close>

record booth_trace =
  trace_multiplicand :: int
  trace_multiplier :: int
  bit_width :: nat
  recoding :: string
  partial_products :: "int list"
  rounds :: "booth_round list"
  booth_result :: int

definition arithmetic_error :: exn_kind where
  "arithmetic_error = AppError ''ArithmeticError''"

definition booth_multiply :: "int \<Rightarrow> int \<Rightarrow> exn + booth_trace" where
  "booth_multiply multiplicand multiplier =
    (if bit_length multiplicand > 62 \<or> bit_length multiplier > 62
     then Inl (Exn ValueError ''Booth operands exceed the supported 62-bit range'')
     else let width = booth_width multiplicand multiplier;
              (r, steps) = booth_rounds width multiplicand multiplier;
              result_register = push_bit width (accumulator r) OR multiplier_register r;
              result = signed_value result_register (2 * width)
          in if result \<noteq> multiplicand * multiplier
             then Inl (Exn arithmetic_error ''Booth register trace produced an inconsistent result'')
             else Inr \<lparr>trace_multiplicand = multiplicand, trace_multiplier = multiplier,
               bit_width = width, recoding = booth_recoding multiplier,
               partial_products =
                 map (\<lambda>(coefficient, power). coefficient * power * multiplicand) (booth_terms multiplier),
               rounds = steps, booth_result = result\<rparr>)"

text \<open>\<open>_format_sum\<close>\<close>

definition format_sum :: "int list \<Rightarrow> string" where
  "format_sum values = (case values of [] \<Rightarrow> ''0''
    | first # rest \<Rightarrow> fold (\<lambda>v rendered.
        rendered @ (if v \<ge> 0 then '' + '' @ int_str v else '' - '' @ int_str \<bar>v\<bar>)) rest (int_str first))"

section \<open>The registers as numbers\<close>

lemma and_mask: "x AND (push_bit w 1 - 1) = take_bit w (x :: int)"
  by (simp add: push_bit_eq_mult take_bit_eq_mask mask_eq_exp_minus_1)

lemma to_twos_take_bit: "to_twos_complement v w = take_bit w v"
  by (simp add: to_twos_complement_def push_bit_eq_mult take_bit_eq_mask mask_eq_exp_minus_1)

lemma or_push_bit:
  assumes "0 \<le> x" "x < 2 ^ n"
  shows "push_bit n a OR x = a * 2 ^ n + (x :: int)"
proof -
  have x: "take_bit n x = x" using assms by (simp add: take_bit_int_eq_self)
  have "push_bit n a AND take_bit n x = 0" by (rule bit_eqI) (simp add: bit_simps)
  then have "push_bit n a + x = push_bit n a OR x" unfolding x by (rule disjunctive_add_eq_or)
  then show ?thesis by (simp add: push_bit_eq_mult)
qed

lemma or_not_mask:
  assumes "0 \<le> x" "x < 2 ^ n"
  shows "x OR NOT (push_bit n 1 - 1) = x - (2 ^ n :: int)"
proof -
  have "NOT (push_bit n 1 - 1) = push_bit n (- 1 :: int)"
    by (simp add: push_bit_eq_mult not_int_def)
  then show ?thesis using or_push_bit [OF assms, of "- 1"] by (simp add: or.commute)
qed

lemma sign_bit_iff:
  assumes "0 \<le> v" "v < 2 ^ w" "1 \<le> w"
  shows "v AND push_bit (w - 1) 1 \<noteq> (0 :: int) \<longleftrightarrow> 2 ^ (w - 1) \<le> v"
proof -
  have w: "(2 :: int) ^ w = 2 * 2 ^ (w - 1)" using assms(3) by (cases w) simp_all
  have "v AND push_bit (w - 1) 1 \<noteq> 0 \<longleftrightarrow> odd (v div 2 ^ (w - 1))"
    by (simp add: and_exp_eq_0_iff_not_bit push_bit_eq_mult bit_iff_odd)
  also have "\<dots> \<longleftrightarrow> 2 ^ (w - 1) \<le> v"
  proof (cases "2 ^ (w - 1) \<le> v")
    case True
    have "v div 2 ^ (w - 1) = 1"
      by (rule int_div_pos_eq [where r = "v - 2 ^ (w - 1)"]) (use True assms w in auto)
    with True show ?thesis by simp
  next
    case False
    with assms(1) show ?thesis by simp
  qed
  finally show ?thesis .
qed

definition fits :: "nat \<Rightarrow> int \<Rightarrow> bool" where
  "fits w a \<longleftrightarrow> - (2 ^ (w - 1)) \<le> a \<and> a < 2 ^ (w - 1)"

lemma take_bit_fits:
  assumes "1 \<le> w" "fits w a"
  shows "take_bit w a = (if a < 0 then a + 2 ^ w else a)"
proof -
  have w: "(2 :: int) ^ w = 2 * 2 ^ (w - 1)" using assms(1) by (cases w) simp_all
  have pos: "(0 :: int) < 2 ^ (w - 1)" by simp
  show ?thesis
  proof (cases "a < 0")
    case True
    with assms w pos have "(a + 2 ^ w) mod 2 ^ w = a + 2 ^ w"
      unfolding fits_def by (intro mod_pos_pos_trivial) linarith+
    with True show ?thesis by (simp add: take_bit_eq_mod)
  next
    case False
    with assms w pos show ?thesis unfolding fits_def by (simp add: take_bit_eq_mod)
  qed
qed

lemma signed_take_bit:
  assumes "1 \<le> w" "fits w a"
  shows "signed_value (take_bit w a) w = a"
proof -
  have w: "(2 :: int) ^ w = 2 * 2 ^ (w - 1)" using assms(1) by (cases w) simp_all
  have pos: "(0 :: int) < 2 ^ (w - 1)" by simp
  have "take_bit w a AND push_bit (w - 1) 1 \<noteq> 0 \<longleftrightarrow> 2 ^ (w - 1) \<le> take_bit w a"
    using assms by (intro sign_bit_iff) simp_all
  also have "\<dots> \<longleftrightarrow> a < 0"
    using assms w pos by (auto simp: take_bit_fits fits_def)
  finally show ?thesis
    using assms take_bit_fits [OF assms] by (simp add: signed_value_def push_bit_eq_mult)
qed

section \<open>A round on numbers\<close>

definition as_registers :: "nat \<Rightarrow> int \<Rightarrow> int \<Rightarrow> int \<Rightarrow> registers" where
  "as_registers w a q p = \<lparr>accumulator = take_bit w a, multiplier_register = q, previous_bit = p\<rparr>"

lemma booth_operation_value:
  assumes "1 \<le> w" "0 \<le> q" "p = 0 \<or> p = 1"
  shows "fst (booth_operation w m (as_registers w a q p)) = take_bit w (a + (p - q mod 2) * m)"
proof -
  have q: "q AND 1 = q mod 2" by (rule and_one_eq)
  have "q mod 2 = 0 \<or> q mod 2 = 1" by auto
  with assms(3) show ?thesis
    unfolding booth_operation_def as_registers_def Let_def and_mask q to_twos_take_bit
    by (auto simp: q take_bit_eq_mod mod_simps)
qed

lemma div_shift: "1 \<le> w \<Longrightarrow> 0 \<le> q \<Longrightarrow> q < 2 ^ w \<Longrightarrow> (a * 2 ^ w + q) div 2 ^ (w + 1) = a div (2 :: int)"
  by (simp add: zdiv_zmult2_eq mult.commute [of 2])

lemma booth_shift_value:
  assumes w: "1 \<le> w" and a: "fits w a" and q: "0 \<le> q" "q < 2 ^ w" and p: "p = 0 \<or> p = 1"
  shows "booth_shift w (as_registers w a q p)
    = as_registers w (a div 2) (a mod 2 * 2 ^ (w - 1) + q div 2) (q mod 2)"
proof -
  let ?acc = "take_bit w a"
  have ww: "(2 :: int) ^ w = 2 * 2 ^ (w - 1)" using w by (cases w) simp_all
  have low: "push_bit 1 q OR p = q * 2 ^ 1 + p"
    by (rule or_push_bit) (use p in auto)
  have pw: "(2 :: int) ^ (w + 1) = 2 * 2 ^ w" by simp
  have bound: "q * 2 ^ 1 + p < 2 ^ (w + 1)" unfolding pw power_one_right using q p by linarith
  have bound0: "0 \<le> q * 2 ^ 1 + p" unfolding power_one_right using q p by linarith
  have comb: "push_bit (w + 1) ?acc OR push_bit 1 q OR p = ?acc * 2 ^ (w + 1) + (2 * q + p)"
    using or_push_bit [OF bound0 bound, of ?acc]
    unfolding or.assoc low power_one_right by (simp only: mult.commute [of q 2])
  have square: "(2 :: int) ^ (2 * w + 1) = 2 ^ w * 2 ^ (w + 1)"
    by (subst power_add [symmetric], rule arg_cong [where f = "power 2"]) simp
  define c where "c = (if a < 0 then ?acc * 2 ^ (w + 1) + (2 * q + p) - 2 ^ (2 * w + 1)
    else ?acc * 2 ^ (w + 1) + (2 * q + p))"
  have c: "c = a * 2 ^ (w + 1) + (2 * q + p)"
    unfolding c_def take_bit_fits [OF w a] square by (simp add: distrib_right del: power_Suc)
  have negative: "(?acc AND push_bit (w - 1) 1 \<noteq> 0) = (a < 0)"
  proof -
    have pos: "(0 :: int) < 2 ^ (w - 1)" by simp
    have "?acc AND push_bit (w - 1) 1 \<noteq> 0 \<longleftrightarrow> 2 ^ (w - 1) \<le> ?acc"
      using w by (intro sign_bit_iff) simp_all
    then show ?thesis using a ww pos by (auto simp: take_bit_fits [OF w a] fits_def)
  qed
  have top: "?acc * 2 ^ (w + 1) + (2 * q + p) < 2 ^ (2 * w + 1)"
  proof -
    have "?acc + 1 \<le> 2 ^ w" using take_bit_int_less_exp [of w a] by linarith
    then have "(?acc + 1) * 2 ^ (w + 1) \<le> 2 ^ w * (2 ^ (w + 1) :: int)" by (rule mult_right_mono) simp
    with bound show ?thesis unfolding square by (simp add: distrib_right del: power_Suc)
  qed
  have extended: "(?acc * 2 ^ (w + 1) + (2 * q + p)) OR NOT (push_bit (2 * w + 1) 1 - 1)
      = ?acc * 2 ^ (w + 1) + (2 * q + p) - 2 ^ (2 * w + 1)"
    using q p by (intro or_not_mask top) auto
  have half: "drop_bit 1 c = a * 2 ^ w + q"
    using p unfolding c by (auto simp: drop_bit_eq_div)
  have fields: "take_bit w (drop_bit (w + 1) (a * 2 ^ w + q)) = take_bit w (a div 2)"
    using div_shift [OF w q, of a] by (simp add: drop_bit_eq_div)
  have "(a * 2 ^ w + q) div 2 = a * 2 ^ (w - 1) + q div 2" using ww by simp
  also have "\<dots> = (a div 2) * 2 ^ w + (a mod 2 * 2 ^ (w - 1) + q div 2)"
  proof -
    have "a * 2 ^ (w - 1) = (2 * (a div 2) + a mod 2) * 2 ^ (w - 1)"
      by (simp only: mult_div_mod_eq)
    then show ?thesis unfolding ww distrib_right by simp
  qed
  finally have halved: "(a * 2 ^ w + q) div 2 = (a div 2) * 2 ^ w + (a mod 2 * 2 ^ (w - 1) + q div 2)" .
  have "0 \<le> a mod 2 * 2 ^ (w - 1) + q div 2" "a mod 2 * 2 ^ (w - 1) + q div 2 < 2 ^ w"
  proof -
    have "a mod 2 * 2 ^ (w - 1) \<le> 1 * 2 ^ (w - 1)" by (rule mult_right_mono) simp_all
    moreover have "q div 2 < 2 ^ (w - 1)" using q ww by simp
    ultimately show "a mod 2 * 2 ^ (w - 1) + q div 2 < 2 ^ w" using ww by linarith
  qed (use q in simp)
  then have multiplier: "take_bit w (drop_bit 1 (a * 2 ^ w + q)) = a mod 2 * 2 ^ (w - 1) + q div 2"
    unfolding drop_bit_eq_div power_one_right halved by (simp add: take_bit_eq_mod)
  have lowest: "(a * 2 ^ w + q) AND 1 = q mod 2"
    using w by (simp add: and_one_eq mod_add_eq [symmetric] ww)
  show ?thesis
    unfolding booth_shift_def as_registers_def Let_def registers.simps and_mask comb extended negative
    unfolding if_distrib [of "drop_bit 1", symmetric] c_def [symmetric] half
    by (simp only: fields multiplier lowest)
qed

lemma booth_round_value:
  assumes "1 \<le> w" "0 \<le> q" "q < 2 ^ w" "p = 0 \<or> p = 1" "fits w (a + (p - q mod 2) * m)"
  shows "fst (booth_round_step w m i (as_registers w a q p, rs)) =
    as_registers w ((a + (p - q mod 2) * m) div 2)
      ((a + (p - q mod 2) * m) mod 2 * 2 ^ (w - 1) + q div 2) (q mod 2)"
proof -
  let ?a = "a + (p - q mod 2) * m"
  have acc: "(as_registers w a q p)\<lparr>accumulator := take_bit w c\<rparr> = as_registers w c q p" for c
    by (simp add: as_registers_def)
  have "fst (booth_round_step w m i (as_registers w a q p, rs)) = booth_shift w
      ((as_registers w a q p)\<lparr>accumulator := fst (booth_operation w m (as_registers w a q p))\<rparr>)"
    by (simp add: booth_round_step_def Let_def split_def)
  also have "\<dots> = booth_shift w (as_registers w ?a q p)"
    unfolding booth_operation_value [OF assms(1,2,4)] acc ..
  also have "\<dots> = as_registers w (?a div 2) (?a mod 2 * 2 ^ (w - 1) + q div 2) (q mod 2)"
    by (rule booth_shift_value) (use assms in simp_all)
  finally show ?thesis .
qed

text \<open>
  The invariant of the loop: after \<open>n\<close> rounds the two registers hold the product of the
  multiplicand with the \<open>n\<close> low bits of the multiplier read as a signed number, above the
  bits of the multiplier that are left.
\<close>

definition consumed :: "int \<Rightarrow> nat \<Rightarrow> int \<Rightarrow> int" where
  "consumed x n p = x mod 2 ^ n - p * 2 ^ n"

definition booth_inv :: "nat \<Rightarrow> int \<Rightarrow> int \<Rightarrow> nat \<Rightarrow> int \<Rightarrow> int \<Rightarrow> int \<Rightarrow> bool" where
  "booth_inv w m x n a q p \<longleftrightarrow> fits w a \<and> 0 \<le> q \<and> q < 2 ^ w \<and> (p = 0 \<or> p = 1) \<and>
     (0 < n \<longrightarrow> p = x div 2 ^ (n - 1) mod 2) \<and>
     a * 2 ^ w + q = 2 ^ (w - n) * (m * consumed x n p) + x div 2 ^ n"

lemma next_bit: "x mod 2 ^ Suc n = x mod 2 ^ n + 2 ^ n * (x div 2 ^ n mod 2)"
  "x div 2 ^ n = 2 * (x div 2 ^ Suc n) + x div 2 ^ n mod (2 :: int)"
proof -
  have "x mod (2 ^ n * 2) = 2 ^ n * (x div 2 ^ n mod 2) + x mod 2 ^ n"
    by (rule zmod_zmult2_eq) simp
  then show "x mod 2 ^ Suc n = x mod 2 ^ n + 2 ^ n * (x div 2 ^ n mod 2)"
    by (simp add: mult.commute)
  have "x div (2 ^ n * 2) = x div 2 ^ n div 2" by (rule zdiv_zmult2_eq) simp
  then show "x div 2 ^ n = 2 * (x div 2 ^ Suc n) + x div 2 ^ n mod 2"
    by (simp add: mult.commute)
qed

lemma scaled_bound:
  fixes a1 q y m t :: int
  assumes eq: "a1 * 2 ^ w + q = 2 ^ (w - n) * (m * t) + y" and n: "n \<le> w"
    and q: "0 \<le> q" "q < 2 ^ w" and y: "0 \<le> y" "y < 2 ^ w" and t: "\<bar>t\<bar> \<le> 2 ^ n"
  shows "\<bar>a1\<bar> \<le> \<bar>m\<bar>"
proof -
  have split: "(2 :: int) ^ w = 2 ^ (w - n) * 2 ^ n" using n by (simp flip: power_add)
  have "\<bar>2 ^ (w - n) * (m * t)\<bar> \<le> 2 ^ (w - n) * (\<bar>m\<bar> * 2 ^ n)"
    using t by (simp add: abs_mult mult_left_mono)
  then have bound: "\<bar>2 ^ (w - n) * (m * t)\<bar> \<le> \<bar>m\<bar> * 2 ^ w" by (simp add: split mult_ac)
  have "a1 * 2 ^ w < (\<bar>m\<bar> + 1) * 2 ^ w" using eq bound q y by (simp add: distrib_right)
  then have "a1 < \<bar>m\<bar> + 1" by simp
  moreover have "(- \<bar>m\<bar> - 1) * 2 ^ w < a1 * 2 ^ w" using eq bound q y by (simp add: left_diff_distrib)
  then have "- \<bar>m\<bar> - 1 < a1" by simp
  ultimately show ?thesis by linarith
qed

lemma consumed_bound:
  assumes "b = x div 2 ^ n mod 2"
  shows "consumed x (Suc n) b = x mod 2 ^ n - b * 2 ^ n" "\<bar>x mod 2 ^ n - b * 2 ^ n\<bar> \<le> (2 :: int) ^ n"
proof -
  show "consumed x (Suc n) b = x mod 2 ^ n - b * 2 ^ n"
    using next_bit(1) [of x n] assms by (simp add: consumed_def algebra_simps)
  have "0 \<le> x mod 2 ^ n" "x mod 2 ^ n < 2 ^ n" by simp_all
  moreover have "b * 2 ^ n = 0 \<or> b * 2 ^ n = 2 ^ n" unfolding assms by auto
  ultimately show "\<bar>x mod 2 ^ n - b * 2 ^ n\<bar> \<le> 2 ^ n" by linarith
qed

lemma booth_inv_step:
  assumes inv: "booth_inv w m x n a q p" and n: "n < w" and m: "\<bar>m\<bar> < 2 ^ (w - 1)"
    and x: "0 \<le> x" "x < 2 ^ w"
  defines "a1 \<equiv> a + (p - q mod 2) * m"
  shows "fits w a1"
    and "booth_inv w m x (Suc n) (a1 div 2) (a1 mod 2 * 2 ^ (w - 1) + q div 2) (q mod 2)"
proof -
  have w: "(2 :: int) ^ w = 2 * 2 ^ (w - 1)" using n by (cases w) simp_all
  have k: "(2 :: int) ^ (w - n) = 2 * 2 ^ (w - Suc n)" using n by (simp flip: power_Suc add: Suc_diff_Suc)
  have split: "(2 :: int) ^ w = 2 ^ (w - n) * 2 ^ n" using n by (simp flip: power_add)
  from inv have eq: "a * 2 ^ w + q = 2 ^ (w - n) * (m * consumed x n p) + x div 2 ^ n"
    and q: "0 \<le> q" "q < 2 ^ w" and a: "fits w a"
    by (auto simp: booth_inv_def)
  have "even (a * 2 ^ w)" "even (2 ^ (w - n) * (m * consumed x n p))" unfolding w k by simp_all
  with eq have "even q \<longleftrightarrow> even (x div 2 ^ n)" by (metis even_add)
  then have b: "q mod 2 = x div 2 ^ n mod 2" by (simp add: mod2_eq_if)
  note bits = consumed_bound [OF b]
  have "a1 * 2 ^ w + q = (a * 2 ^ w + q) + (p - q mod 2) * m * 2 ^ w"
    by (simp only: a1_def distrib_right add_ac)
  also have "\<dots> = 2 ^ (w - n) * (m * consumed x n p) + x div 2 ^ n
      + 2 ^ (w - n) * (m * ((p - q mod 2) * 2 ^ n))"
    unfolding eq unfolding split by (simp only: mult_ac)
  also have "\<dots> = 2 ^ (w - n) * (m * (x mod 2 ^ n - q mod 2 * 2 ^ n)) + x div 2 ^ n"
    by (simp add: consumed_def algebra_simps)
  finally have eq1: "a1 * 2 ^ w + q =
      2 ^ (w - n) * (m * (x mod 2 ^ n - q mod 2 * 2 ^ n)) + x div 2 ^ n" .
  have y: "0 \<le> x div 2 ^ n" "x div 2 ^ n < 2 ^ w"
    using x div_le_dividend by (simp_all add: pos_imp_zdiv_nonneg_iff)
      (metis div_by_1 le_less_trans one_le_power one_le_numeral zdiv_mono2 zero_less_one)
  have "\<bar>a1\<bar> \<le> \<bar>m\<bar>" by (rule scaled_bound [OF eq1 _ q y bits(2)]) (use n in simp)
  with m show f: "fits w a1" unfolding fits_def by linarith
  have half: "fits w (a1 div 2)" using f unfolding fits_def by linarith
  have q': "0 \<le> a1 mod 2 * 2 ^ (w - 1) + q div 2" "a1 mod 2 * 2 ^ (w - 1) + q div 2 < 2 ^ w"
  proof -
    have "a1 mod 2 * 2 ^ (w - 1) \<le> 1 * 2 ^ (w - 1)" by (rule mult_right_mono) simp_all
    moreover have "q div 2 < 2 ^ (w - 1)" using q w by simp
    ultimately show "a1 mod 2 * 2 ^ (w - 1) + q div 2 < 2 ^ w" using w by linarith
  qed (use q in simp)
  define h where "h = (2 :: int) ^ (w - 1)"
  define r where "r = m * (x mod 2 ^ n - q mod 2 * 2 ^ n)"
  have halve: "2 * u + c = 2 * v + (2 * z + c) \<Longrightarrow> u = v + z" for u v z c :: int by linarith
  have regroup: "2 * (u * (2 * h) + (v * h + s)) + t = (2 * u + v) * (2 * h) + (2 * s + t)" for u v s t
    by (simp add: algebra_simps)
  have "2 * ((a1 div 2) * (2 * h) + (a1 mod 2 * h + q div 2)) + q mod 2 = a1 * (2 * h) + q"
    unfolding regroup mult_div_mod_eq ..
  also have "\<dots> = 2 * (2 ^ (w - Suc n) * r) + (2 * (x div 2 ^ Suc n) + q mod 2)"
    using eq1 next_bit(2) [of x n] b unfolding w k h_def r_def by simp
  finally have "(a1 div 2) * 2 ^ w + (a1 mod 2 * 2 ^ (w - 1) + q div 2)
      = 2 ^ (w - Suc n) * (m * consumed x (Suc n) (q mod 2)) + x div 2 ^ Suc n"
    unfolding bits(1) w h_def [symmetric] r_def [symmetric] by (rule halve)
  with half q' b show "booth_inv w m x (Suc n) (a1 div 2) (a1 mod 2 * 2 ^ (w - 1) + q div 2) (q mod 2)"
    by (auto simp: booth_inv_def)
qed

lemma booth_inv_prefix:
  assumes "\<bar>m\<bar> < 2 ^ (w - 1)" "0 \<le> x" "x < 2 ^ w" "n \<le> w" "1 \<le> w"
  shows "\<exists>a q p. fst (fold (booth_round_step w m) [0..<n] (as_registers w 0 x 0, [])) = as_registers w a q p
    \<and> booth_inv w m x n a q p"
  using assms(4)
proof (induction n)
  case 0
  have "booth_inv w m x 0 0 x 0" using assms by (simp add: booth_inv_def fits_def consumed_def)
  then show ?case by auto
next
  case (Suc n)
  then obtain a q p rs where run: "fold (booth_round_step w m) [0..<n] (as_registers w 0 x 0, [])
      = (as_registers w a q p, rs)" and inv: "booth_inv w m x n a q p"
    by (metis Suc_leD prod.collapse)
  from inv have qp: "0 \<le> q" "q < 2 ^ w" "p = 0 \<or> p = 1" by (auto simp: booth_inv_def)
  from Suc.prems have "n < w" by simp
  note step = booth_inv_step [OF inv this assms(1-3)]
  from booth_round_value [OF assms(5) qp step(1)] step(2) run show ?case by fastforce
qed

lemma booth_rounds_count: "length (snd (fold (booth_round_step w m) xs (r, rs))) = length rs + length xs"
proof (induction xs arbitrary: r rs)
  case (Cons i xs)
  obtain r' rs' where step: "booth_round_step w m i (r, rs) = (r', rs')" by fastforce
  then have "length rs' = Suc (length rs)" by (auto simp: booth_round_step_def Let_def split: prod.splits)
  with step Cons.IH show ?case by simp
qed simp

theorem booth_registers_product:
  assumes "\<bar>m\<bar> < 2 ^ (w - 1)" "\<bar>q\<bar> < 2 ^ (w - 1)" "2 \<le> w"
  shows "signed_value (push_bit w (accumulator (fst (booth_rounds w m q)))
    OR multiplier_register (fst (booth_rounds w m q))) (2 * w) = m * q"
proof -
  have q: "fits w q" using assms(2) unfolding fits_def by linarith
  let ?x = "take_bit w q"
  from booth_inv_prefix [OF assms(1), of ?x w] obtain a y p where
    run: "fst (booth_rounds w m q) = as_registers w a y p" and inv: "booth_inv w m ?x w a y p"
    using assms(3) by (auto simp: booth_rounds_def as_registers_def to_twos_take_bit)
  have x: "0 \<le> ?x" "?x < 2 ^ w" by simp_all
  have w: "(2 :: int) ^ w = 2 * 2 ^ (w - 1)" using assms(3) by (cases w) simp_all
  have xq: "?x = (if q < 0 then q + 2 ^ w else q)" using assms(3) q by (intro take_bit_fits) auto
  from inv have y: "0 \<le> y" "y < 2 ^ w" and p: "p = ?x div 2 ^ (w - 1) mod 2"
    and eq: "a * 2 ^ w + y = m * consumed ?x w p + ?x div 2 ^ w"
    using assms(3) by (simp_all add: booth_inv_def)
  have "?x div 2 ^ (w - 1) = (if q < 0 then 1 else 0)"
  proof (cases "q < 0")
    case True
    then have "?x = 2 ^ (w - 1) + (q + 2 ^ (w - 1))" using xq w by simp
    moreover have "0 \<le> q + 2 ^ (w - 1)" "q + 2 ^ (w - 1) < 2 ^ (w - 1)"
      using True q unfolding fits_def by linarith+
    ultimately have "?x div 2 ^ (w - 1) = 1"
      by (intro int_div_pos_eq [where r = "q + 2 ^ (w - 1)"]) simp_all
    with True show ?thesis by simp
  next
    case False
    with xq q show ?thesis by (simp add: fits_def)
  qed
  then have "consumed ?x w p = q" using p xq x by (simp add: consumed_def)
  moreover have "?x div 2 ^ w = 0" using x by simp
  ultimately have product: "a * 2 ^ w + y = m * q" using eq by simp
  have "push_bit w (take_bit w a) OR y = take_bit w a * 2 ^ w + y" by (rule or_push_bit [OF y])
  also have "\<dots> = take_bit (2 * w) (a * 2 ^ w + y)"
    using zmod_zmult2_eq [of "2 ^ w" "a * 2 ^ w + y" "2 ^ w"] y
    by (simp add: take_bit_eq_mod mult_2 power_add)
  finally have "signed_value (push_bit w (take_bit w a) OR y) (2 * w)
    = signed_value (take_bit (2 * w) (m * q)) (2 * w)" unfolding product by simp
  also have "\<dots> = m * q"
  proof (rule signed_take_bit)
    have "\<bar>m * q\<bar> \<le> 2 ^ (w - 1) * 2 ^ (w - 1)"
      unfolding abs_mult using assms by (intro mult_mono) simp_all
    also have "\<dots> < (2 :: int) ^ (2 * w - 1)" using assms(3) by (simp flip: power_add)
    finally show "fits (2 * w) (m * q)" unfolding fits_def by linarith
  qed (use assms(3) in simp)
  finally show ?thesis unfolding run by (simp add: as_registers_def)
qed

section \<open>The signed powers add up\<close>

definition sum_terms :: "(int \<times> int) list \<Rightarrow> int" where
  "sum_terms terms = (\<Sum>(coefficient, power)\<leftarrow>terms. coefficient * power)"

lemma sum_terms_simps [simp]:
  "sum_terms [] = 0" "sum_terms (xs @ ys) = sum_terms xs + sum_terms ys"
  "sum_terms ((c, p) # xs) = c * p + sum_terms xs" "sum_terms (rev xs) = sum_terms xs"
  by (simp_all add: sum_terms_def sum_list_rev flip: rev_map)

lemma booth_term_loop_sum:
  assumes "0 \<le> g" "g div 2 ^ k < 2 ^ r" "previous = 0 \<or> previous = 1"
  shows "sum_terms (booth_term_loop s g [k..<k + Suc r] previous ts)
    = sum_terms ts + s * 2 ^ k * (previous + g div 2 ^ k)"
  using assms
proof (induction r arbitrary: k previous ts)
  case 0
  then have "g div 2 ^ k = 0" by (simp add: order.antisym pos_imp_zdiv_nonneg_iff)
  then have "drop_bit k g AND 1 = 0" by (simp add: drop_bit_eq_div)
  with 0 \<open>g div 2 ^ k = 0\<close> show ?case by (auto simp: upt_conv_Cons push_bit_eq_mult)
next
  case (Suc r)
  have g: "g div 2 ^ k = 2 * (g div 2 ^ Suc k) + g div 2 ^ k mod 2" by (rule next_bit)
  define cur where "cur = g div 2 ^ k mod 2"
  define h where "h = g div 2 ^ Suc k"
  have current: "drop_bit k g AND 1 = cur" by (simp add: drop_bit_eq_div and_one_eq cur_def)
  have cur: "cur = 0 \<or> cur = 1" by (auto simp: cur_def)
  have g: "g div 2 ^ k = 2 * h + cur" unfolding cur_def h_def by (rule g)
  have "g div 2 ^ Suc k < 2 ^ r"
    unfolding h_def [symmetric] using Suc.prems(2) g cur power_Suc [of "2 :: int" r] by linarith
  note IH = Suc.IH [OF Suc.prems(1) this cur]
  have range: "[k..<k + Suc (Suc r)] = k # [Suc k..<Suc k + Suc r]" by (simp add: upt_conv_Cons)
  have "s * 2 ^ Suc k * (cur + h) = s * 2 ^ k * (2 * cur + 2 * h)" by (simp add: distrib_left)
  then show ?case
    unfolding range g booth_term_loop.simps Let_def current IH h_def [symmetric]
    using cur Suc.prems(3) by (auto simp: push_bit_eq_mult algebra_simps)
qed

lemma booth_terms_sum: "sum_terms (booth_terms v) = v"
proof (cases "v = 0")
  case False
  have "\<bar>v\<bar> < 2 ^ bit_length v" using bit_length_le [of v "bit_length v"] by simp
  then show ?thesis
    using False booth_term_loop_sum [of "\<bar>v\<bar>" 0 "bit_length v" 0] by (auto simp: booth_terms_def Let_def)
qed (simp add: booth_terms_def)

lemma partial_products_sum: "sum_list (map (\<lambda>(c, p). c * p * m) ts) = m * sum_terms ts"
  by (induction ts) (auto simp: algebra_simps)

section \<open>Correctness\<close>

text \<open>C27. Multiplication by Booth's algorithm is multiplication. For operands of at most 62 bits
  the registers end with the product, so that the check against \<open>*\<close> never fires and no
  ArithmeticError is raised; the result is the product, the partial products add up to it,
  and the trace has one round per bit. The only error is the refusal of wider operands.
\<close>

theorem booth_multiply_correct:
  "booth_multiply m q =
    (if bit_length m > 62 \<or> bit_length q > 62
     then Inl (Exn ValueError ''Booth operands exceed the supported 62-bit range'')
     else Inr \<lparr>trace_multiplicand = m, trace_multiplier = q, bit_width = booth_width m q,
       recoding = booth_recoding q,
       partial_products = map (\<lambda>(c, p). c * p * m) (booth_terms q),
       rounds = snd (booth_rounds (booth_width m q) m q), booth_result = m * q\<rparr>) \<and>
   sum_list (map (\<lambda>(c, p). c * p * m) (booth_terms q)) = m * q \<and>
   length (snd (booth_rounds (booth_width m q) m q)) = booth_width m q"
proof -
  have "\<bar>m\<bar> < 2 ^ (booth_width m q - 1)" "\<bar>q\<bar> < 2 ^ (booth_width m q - 1)" "2 \<le> booth_width m q"
    by (simp_all add: booth_width_def flip: bit_length_le)
  note product = booth_registers_product [OF this]
  have "length (snd (booth_rounds (booth_width m q) m q)) = booth_width m q"
    by (simp add: booth_rounds_def booth_rounds_count)
  moreover have "sum_list (map (\<lambda>(c, p). c * p * m) (booth_terms q)) = m * q"
    by (simp only: partial_products_sum booth_terms_sum)
  moreover obtain r steps where "booth_rounds (booth_width m q) m q = (r, steps)" by fastforce
  ultimately show ?thesis
    using product by (simp add: booth_multiply_def Let_def)
qed

text \<open>
  For a negative multiplier the displayed recoding negates twice: the signed powers already
  add up to the multiplier, and the text shows the negation of their sum as its value.
\<close>

theorem booth_recoding_negates_twice:
  assumes "v < 0"
  shows "booth_recoding v = int_str v @ '' = -('' @ render_terms (booth_terms v) @ '')'' \<and>
    sum_terms (booth_terms v) = v"
  using assms by (simp add: booth_recoding_def Let_def booth_terms_sum)

theorem booth_recoding_negates_twice_witness:
  "booth_recoding (- 3) = int_str (- 3) @ '' = -('' @ render_terms (booth_terms (- 3)) @ '')'' \<and>
    sum_terms (booth_terms (- 3)) = - 3 \<and> booth_terms (- 3) = [(- 1, 4), (1, 1)]"
  using booth_recoding_negates_twice [of "- 3"] by (simp add: booth_terms_def) code_simp

end
