(* ===== verification/Algo_Tools.thy ===== *)
theory Algo_Tools
  imports Algo_Booth "HOL-Library.Multiset"
begin

text \<open>
  The other deterministic tools of \<open>core/algorithm_tools.py\<close>: the bitwise CRC-32 and its
  cross-check against \<open>zlib.crc32\<close>, Euclid's algorithm, and the in-place quicksort with its
  snapshots. Text is the list of its UTF-8 bytes, so \<open>text.encode("utf-8")\<close> is the list
  itself. The texts for the reader that \<open>format_*_result\<close> build from a trace are not modelled.
\<close>

unbundle bit_operations_syntax

section \<open>CRC-32\<close>

definition hex_digit :: "nat \<Rightarrow> char" where
  "hex_digit d = (if d < 10 then char_of (48 + d) else char_of (55 + d))"

text \<open>\<open>f"0x{crc:08X}"\<close>\<close>

definition hex8 :: "int \<Rightarrow> string" where
  "hex8 c = ''0x'' @ rev (map (\<lambda>k. hex_digit (nat (drop_bit (4 * k) c AND 15))) [0..<8])"

record crc_bit_step =
  crc_bit :: nat
  crc_before :: string
  crc_after :: string
  crc_operation :: string

record crc_byte_step =
  crc_byte_index :: nat
  crc_byte :: nat
  crc_char :: string
  after_xor_and_bits :: string
  crc_bits :: "crc_bit_step list"

record crc_trace =
  crc_input :: string
  crc_bytes :: "nat list"
  crc_steps :: "crc_byte_step list"
  crc_result :: int
  crc_hex :: string
  zlib_crc :: int

definition crc_shift :: "int \<Rightarrow> int" where
  "crc_shift crc =
    (if crc AND 1 \<noteq> 0 then drop_bit 1 crc XOR 0xEDB88320 else drop_bit 1 crc) AND 0xFFFFFFFF"

definition crc_bit_round :: "nat \<Rightarrow> int \<times> crc_bit_step list \<Rightarrow> int \<times> crc_bit_step list" where
  "crc_bit_round index st =
    (let (crc, bits) = st; crc' = crc_shift crc;
         operation = (if crc AND 1 \<noteq> 0
           then [CHR 0xE5, CHR 0x8F, CHR 0xB3, CHR 0xE7, CHR 0xA7, CHR 0xBB, CHR 0xE5, CHR 0x90, CHR 0x8E, CHR 0xE5, CHR 0xBC, CHR 0x82, CHR 0xE6, CHR 0x88, CHR 0x96, CHR 0xE5, CHR 0x8F, CHR 0x8D, CHR 0xE5, CHR 0xB0, CHR 0x84, CHR 0xE5, CHR 0xA4, CHR 0x9A, CHR 0xE9, CHR 0xA1, CHR 0xB9, CHR 0xE5, CHR 0xBC, CHR 0x8F] @ '' 0xEDB88320''
           else [CHR 0xE5, CHR 0x8F, CHR 0xB3, CHR 0xE7, CHR 0xA7, CHR 0xBB])
     in (crc', bits @ [\<lparr>crc_bit = index, crc_before = hex8 crc, crc_after = hex8 crc',
                        crc_operation = operation\<rparr>]))"

definition crc_byte_round :: "nat \<times> nat \<Rightarrow> int \<times> crc_byte_step list \<Rightarrow> int \<times> crc_byte_step list" where
  "crc_byte_round entry st =
    (let (index, byte) = entry; (crc, steps) = st;
         (crc', bits) = fold crc_bit_round [0..<8] (crc XOR int byte, [])
     in (crc', steps @ [\<lparr>crc_byte_index = index, crc_byte = byte,
           crc_char = (if 32 \<le> byte \<and> byte \<le> 126 then [char_of byte] else []),
           after_xor_and_bits = hex8 crc', crc_bits = bits\<rparr>]))"

text \<open>
  \<open>zlib.crc32\<close> of the standard library, as RFC 1952 documents it: a table of the 256
  remainders, one look-up per byte.
\<close>

definition crc_table :: "int \<Rightarrow> int" where
  "crc_table n = fold (\<lambda>_ c. if c AND 1 \<noteq> 0 then 0xEDB88320 XOR drop_bit 1 c else drop_bit 1 c) [0..<8] n"

definition zlib_crc32 :: "nat list \<Rightarrow> int" where
  "zlib_crc32 bytes =
    fold (\<lambda>b c. crc_table ((c XOR int b) AND 0xFF) XOR drop_bit 8 c) bytes 0xFFFFFFFF XOR 0xFFFFFFFF"

definition bytes_of :: "string \<Rightarrow> nat list" where
  "bytes_of text = map of_char text"

definition crc32_utf8 :: "string \<Rightarrow> exn + crc_trace" where
  "crc32_utf8 text =
    (let bytes = bytes_of text
     in if length bytes > 64
        then Inl (Exn ValueError ''CRC-32 input exceeds 64 UTF-8 bytes; refuse to truncate silently'')
        else let (crc, steps) = fold crc_byte_round (enumerate 0 bytes) (0xFFFFFFFF, []);
                 result = crc XOR 0xFFFFFFFF; expected = zlib_crc32 bytes AND 0xFFFFFFFF
             in if result \<noteq> expected
                then Inl (Exn arithmetic_error ''CRC-32 implementation diverged from zlib.crc32'')
                else Inr \<lparr>crc_input = text, crc_bytes = bytes, crc_steps = steps, crc_result = result,
                  crc_hex = hex8 result, zlib_crc = expected\<rparr>)"

section \<open>Euclid's algorithm\<close>

record gcd_step =
  gcd_a :: int
  gcd_b :: int
  gcd_quotient :: int
  gcd_remainder :: int

record gcd_trace =
  gcd_left :: int
  gcd_right :: int
  gcd_steps :: "gcd_step list"
  gcd_result :: int

function gcd_loop :: "int \<Rightarrow> int \<Rightarrow> gcd_step list \<Rightarrow> int \<times> gcd_step list" where
  "gcd_loop a b steps =
    (if b = 0 then (a, steps)
     else gcd_loop b (a mod b)
       (steps @ [\<lparr>gcd_a = a, gcd_b = b, gcd_quotient = a div b, gcd_remainder = a mod b\<rparr>]))"
  by pat_completeness auto
termination
  by (relation "measure (\<lambda>(a, b, steps). nat \<bar>b\<bar>)") (auto simp: abs_mod_less)

declare gcd_loop.simps [simp del]

definition euclidean_gcd :: "int \<Rightarrow> int \<Rightarrow> gcd_trace" where
  "euclidean_gcd left right =
    (let (a, steps) = gcd_loop \<bar>left\<bar> \<bar>right\<bar> []
     in \<lparr>gcd_left = left, gcd_right = right, gcd_steps = steps, gcd_result = a\<rparr>)"

section \<open>Quicksort\<close>

record partition_snapshot =
  part_low :: int
  part_high :: int
  part_pivot :: int
  part_index :: int
  part_snapshot :: "int list"

record sort_trace =
  sort_input :: "int list"
  sort_partitions :: "partition_snapshot list"
  sort_result :: "int list"

text \<open>\<open>array[i]\<close> and the simultaneous assignment that swaps two entries. The indices are
  never negative here, so Python's counting from the end does not come in.\<close>

abbreviation entry :: "int list \<Rightarrow> int \<Rightarrow> int" where
  "entry array i \<equiv> array ! nat i"

definition swap_entries :: "int list \<Rightarrow> int \<Rightarrow> int \<Rightarrow> int list" where
  "swap_entries array i j = array[nat i := entry array j, nat j := entry array i]"

definition scan_step :: "int \<Rightarrow> int \<Rightarrow> int list \<times> int \<Rightarrow> int list \<times> int" where
  "scan_step pivot scan_index st =
    (let (array, pivot_index) = st
     in if entry array scan_index \<le> pivot
        then (swap_entries array pivot_index scan_index, pivot_index + 1)
        else (array, pivot_index))"

definition partition_range :: "int \<Rightarrow> int \<Rightarrow> int list \<Rightarrow> int list \<times> int" where
  "partition_range low high array =
    (let pivot = entry array high;
         (array, pivot_index) = fold (scan_step pivot) [low..high - 1] (array, low)
     in (swap_entries array pivot_index high, pivot_index))"

lemma scan_index_bounds:
  "p \<le> snd (fold (scan_step v) is (a, p)) \<and> snd (fold (scan_step v) is (a, p)) \<le> p + int (length is)"
proof (induction "is" arbitrary: a p)
  case (Cons i "is")
  show ?case
    using Cons.IH [of "p + 1" "swap_entries a p i"] Cons.IH [of p a] by (simp add: scan_step_def)
qed simp

lemma partition_index_bounds:
  assumes "low \<le> high"
  shows "low \<le> snd (partition_range low high a) \<and> snd (partition_range low high a) \<le> high"
  using scan_index_bounds [of low "entry a high" "[low..high - 1]" a] assms
  by (simp add: partition_range_def split_def Let_def)

lemma partition_index_pair:
  "(a', p) = partition_range low high a \<Longrightarrow> low \<le> high \<Longrightarrow> low \<le> p \<and> p \<le> high"
  using partition_index_bounds [of low high a] by (metis snd_conv)

function sort_range :: "int \<Rightarrow> int \<Rightarrow> int list \<times> partition_snapshot list
    \<Rightarrow> int list \<times> partition_snapshot list" where
  "sort_range low high st =
    (if high \<le> low then st
     else let (array, snapshots) = st;
              (array', pivot_index) = partition_range low high array;
              snapshots' = snapshots @ [\<lparr>part_low = low, part_high = high, part_pivot = entry array high,
                part_index = pivot_index, part_snapshot = array'\<rparr>]
          in sort_range (pivot_index + 1) high
               (sort_range low (pivot_index - 1) (array', snapshots')))"
  by pat_completeness auto
termination
  by (relation "measure (\<lambda>(low, high, st). nat (high - low))") (auto dest!: partition_index_pair)

declare sort_range.simps [simp del]

definition quicksort_trace :: "int list \<Rightarrow> sort_trace" where
  "quicksort_trace values =
    (let (array, snapshots) = sort_range 0 (int (length values) - 1) (values, [])
     in \<lparr>sort_input = values, sort_partitions = snapshots, sort_result = array\<rparr>)"

section \<open>The bitwise CRC against the table\<close>

definition crc_step :: "int \<Rightarrow> int" where
  "crc_step c = (if odd c then drop_bit 1 c XOR 0xEDB88320 else drop_bit 1 c)"

abbreviation word32 :: "int \<Rightarrow> bool" where
  "word32 c \<equiv> take_bit 32 c = c"

lemma crc_step_word: "word32 c \<Longrightarrow> word32 (crc_step c)"
proof -
  assume c: "word32 c"
  then have "0 \<le> c" "c < 2 ^ 32" by (simp_all only: take_bit_int_eq_self_iff)
  then have "take_bit 32 (drop_bit 1 c) = drop_bit 1 c"
    by (intro take_bit_int_eq_self) (simp_all add: drop_bit_eq_div)
  then show ?thesis by (simp add: crc_step_def take_bit_xor)
qed

lemma and_word32: "c AND 0xFFFFFFFF = take_bit 32 (c :: int)"
proof -
  have "mask 32 = (0xFFFFFFFF :: int)" by (simp add: mask_eq_exp_minus_1)
  then show ?thesis by (simp only: take_bit_eq_mask)
qed

lemma crc_shift_take_bit: "crc_shift c = take_bit 32 (crc_step c)"
proof -
  have "c AND 1 \<noteq> 0 \<longleftrightarrow> odd c" by (simp add: and_one_eq mod2_eq_if)
  then show ?thesis by (simp only: crc_shift_def crc_step_def and_word32)
qed

lemma crc_shift_step: "word32 c \<Longrightarrow> crc_shift c = crc_step c"
  by (simp add: crc_shift_take_bit crc_step_word)

lemma crc_step_xor: "crc_step (a XOR b) = crc_step a XOR crc_step b"
  by (auto simp: crc_step_def even_xor_iff xor.assoc xor.left_commute xor.commute)

lemma crc_step_push: "crc_step (push_bit (Suc k) y) = push_bit k y"
  by (simp add: crc_step_def push_bit_eq_mult drop_bit_eq_div)

lemma crc_steps_push: "(crc_step ^^ k) (push_bit k y) = y"
  by (induction k) (simp_all only: funpow_Suc_right comp_apply crc_step_push funpow_0 push_bit_0_id id_apply)

lemma crc_steps_xor: "(crc_step ^^ k) (a XOR b) = (crc_step ^^ k) a XOR (crc_step ^^ k) b"
  by (induction k) (simp_all add: crc_step_xor)

lemma crc_steps_word: "word32 c \<Longrightarrow> word32 ((crc_step ^^ k) c)"
  by (induction k) (simp_all add: crc_step_word)

text \<open>Eight steps on a register are eight steps on its low byte and a shift of the rest.\<close>

lemma crc_steps_split: "(crc_step ^^ 8) c = (crc_step ^^ 8) (c AND 0xFF) XOR drop_bit 8 c"
proof -
  have "c AND 0xFF = take_bit 8 c" by (simp add: take_bit_eq_mask mask_eq_exp_minus_1)
  moreover have "c = take_bit 8 c XOR push_bit 8 (drop_bit 8 c)"
    by (rule bit_eqI) (auto simp: bit_simps)
  ultimately show ?thesis using crc_steps_xor [of 8 "take_bit 8 c" "push_bit 8 (drop_bit 8 c)"]
    by (simp add: crc_steps_push)
qed

lemma crc_table_steps: "crc_table n = (crc_step ^^ 8) n"
proof -
  have "(\<lambda>(_ :: nat) c. if c AND 1 \<noteq> 0 then 0xEDB88320 XOR drop_bit 1 c else drop_bit 1 c) = (\<lambda>_. crc_step)"
    by (rule ext)+ (simp add: crc_step_def and_one_eq mod2_eq_if xor.commute)
  then show ?thesis by (simp add: crc_table_def upt_rec numeral_eq_Suc)
qed

lemma crc_bit_rounds: "word32 c \<Longrightarrow> fst (fold crc_bit_round is (c, bs)) = (crc_step ^^ length is) c"
proof (induction "is" arbitrary: c bs)
  case (Cons i "is")
  have "crc_bit_round i (c, bs) = (crc_step c, snd (crc_bit_round i (c, bs)))"
    using Cons.prems by (simp add: crc_bit_round_def Let_def crc_shift_step)
  then have "fold crc_bit_round (i # is) (c, bs)
      = fold crc_bit_round is (crc_step c, snd (crc_bit_round i (c, bs)))"
    by simp
  then show ?case
    using Cons.IH [of "crc_step c"] Cons.prems
    by (simp only: crc_step_word list.size add_Suc_right add_0_right funpow_Suc_right comp_apply)
qed simp

definition crc_register :: "nat list \<Rightarrow> int \<Rightarrow> int" where
  "crc_register bytes c = fold (\<lambda>b c. (crc_step ^^ 8) (c XOR int b)) bytes c"

lemma byte_word: "b < 256 \<Longrightarrow> word32 (int b)"
  by (simp add: take_bit_int_eq_self)

lemma crc_byte_rounds:
  assumes "word32 c" "\<forall>b\<in>set bytes. b < 256"
  shows "fst (fold crc_byte_round (enumerate n bytes) (c, steps)) = crc_register bytes c"
  using assms
proof (induction bytes arbitrary: c n steps)
  case (Cons b bytes)
  have "word32 (c XOR int b)" using Cons.prems byte_word [of b] by (simp add: take_bit_xor)
  moreover obtain c' bs where rounds: "fold crc_bit_round [0..<8] (c XOR int b, []) = (c', bs)" by fastforce
  ultimately have "c' = (crc_step ^^ 8) (c XOR int b)"
    using crc_bit_rounds [of "c XOR int b" "[0..<8]" "[]"] by simp
  moreover have "word32 ((crc_step ^^ 8) (c XOR int b))"
    using \<open>word32 (c XOR int b)\<close> by (rule crc_steps_word)
  ultimately show ?case using Cons.IH Cons.prems(2) rounds
    by (simp add: crc_byte_round_def crc_register_def)
qed (simp add: crc_register_def)

lemma zlib_register:
  assumes "\<forall>b\<in>set bytes. b < 256"
  shows "zlib_crc32 bytes = crc_register bytes 0xFFFFFFFF XOR 0xFFFFFFFF"
proof -
  have step: "crc_table ((c XOR int b) AND 0xFF) XOR drop_bit 8 c = (crc_step ^^ 8) (c XOR int b)"
    if "b < 256" for b c
  proof -
    have "drop_bit 8 (int b) = 0" using that by (simp add: drop_bit_eq_div)
    then show ?thesis
      unfolding crc_table_steps using crc_steps_split [of "c XOR int b"] by (simp add: drop_bit_xor)
  qed
  have "fold (\<lambda>b c. crc_table ((c XOR int b) AND 0xFF) XOR drop_bit 8 c) bytes c = crc_register bytes c" for c
    unfolding crc_register_def by (rule fold_cong) (use assms step in auto)
  then show ?thesis by (simp add: zlib_crc32_def)
qed

lemma bytes_of_bound: "\<forall>b\<in>set (bytes_of text). b < 256"
  by (simp add: bytes_of_def)

lemma crc_register_word: "word32 c \<Longrightarrow> \<forall>b\<in>set bytes. b < 256 \<Longrightarrow> word32 (crc_register bytes c)"
proof (induction bytes arbitrary: c)
  case (Cons b bytes)
  have "word32 ((crc_step ^^ 8) (c XOR int b))"
    using Cons.prems byte_word [of b] by (intro crc_steps_word) (simp add: take_bit_xor)
  with Cons show ?case by (simp add: crc_register_def)
qed (simp add: crc_register_def)

lemma initial_word: "word32 0xFFFFFFFF"
  by (simp add: take_bit_int_eq_self)

text \<open>The bitwise CRC-32 of the code equals the table-driven CRC-32 of zlib on every text of
  at most 64 bytes: the cross-check never fires, no ArithmeticError is raised, and the
  checksum in the trace is zlib's. Longer texts are refused.
\<close>

theorem crc32_matches_zlib:
  "crc32_utf8 text =
    (if length text > 64
     then Inl (Exn ValueError ''CRC-32 input exceeds 64 UTF-8 bytes; refuse to truncate silently'')
     else Inr \<lparr>crc_input = text, crc_bytes = bytes_of text,
       crc_steps = snd (fold crc_byte_round (enumerate 0 (bytes_of text)) (0xFFFFFFFF, [])),
       crc_result = zlib_crc32 (bytes_of text), crc_hex = hex8 (zlib_crc32 (bytes_of text)),
       zlib_crc = zlib_crc32 (bytes_of text)\<rparr>)"
proof -
  let ?b = "bytes_of text"
  have reg: "fst (fold crc_byte_round (enumerate 0 ?b) (0xFFFFFFFF, [])) = crc_register ?b 0xFFFFFFFF"
    by (rule crc_byte_rounds [OF initial_word bytes_of_bound])
  have zlib: "zlib_crc32 ?b = crc_register ?b 0xFFFFFFFF XOR 0xFFFFFFFF"
    by (rule zlib_register [OF bytes_of_bound])
  have "word32 (zlib_crc32 ?b)"
    unfolding zlib using crc_register_word [OF initial_word bytes_of_bound] initial_word
    by (simp only: take_bit_xor)
  then have "zlib_crc32 ?b AND 0xFFFFFFFF = zlib_crc32 ?b"
    by (simp only: and_word32)
  with reg zlib show ?thesis
    by (cases "fold crc_byte_round (enumerate 0 ?b) (0xFFFFFFFF, [])")
      (simp add: crc32_utf8_def Let_def bytes_of_def)
qed

lemma xor_cancel: "a XOR c = b XOR c \<Longrightarrow> a = (b :: int)"
  by (metis xor.assoc xor_self_eq xor.right_neutral)

lemma crc_step_inj:
  assumes "word32 a" "word32 b" "crc_step a = crc_step b"
  shows "a = b"
proof -
  have top: "bit (crc_step c) 31 = odd c" if "word32 c" for c
  proof -
    from that have "\<not> bit c 32" by (metis bit_take_bit_iff less_irrefl)
    moreover have "bit (0xEDB88320 :: int) 31" by simp
    ultimately show ?thesis by (simp add: crc_step_def bit_xor_iff bit_drop_bit_eq)
  qed
  have odd: "odd a = odd b" using top [OF assms(1)] top [OF assms(2)] assms(3) by simp
  then have "drop_bit 1 a = drop_bit 1 b"
    using assms(3) by (auto simp: crc_step_def dest: xor_cancel split: if_splits)
  with odd show ?thesis by (simp add: drop_bit_eq_div) presburger
qed

lemma crc_steps_inj:
  "word32 a \<Longrightarrow> word32 b \<Longrightarrow> (crc_step ^^ k) a = (crc_step ^^ k) b \<Longrightarrow> a = b"
proof (induction k)
  case (Suc k)
  from Suc.prems(3) have "crc_step ((crc_step ^^ k) a) = crc_step ((crc_step ^^ k) b)" by simp
  with crc_steps_word [OF Suc.prems(1)] crc_steps_word [OF Suc.prems(2)]
  have "(crc_step ^^ k) a = (crc_step ^^ k) b" by (rule crc_step_inj)
  with Suc show ?case by blast
qed simp

lemma crc_register_inj:
  "word32 c \<Longrightarrow> word32 d \<Longrightarrow> \<forall>b\<in>set bytes. b < 256 \<Longrightarrow> crc_register bytes c = crc_register bytes d \<Longrightarrow> c = d"
proof (induction bytes arbitrary: c d)
  case (Cons b bytes)
  have words: "word32 (c XOR int b)" "word32 (d XOR int b)"
    using Cons.prems byte_word [of b] by (simp_all add: take_bit_xor)
  have "(crc_step ^^ 8) (c XOR int b) = (crc_step ^^ 8) (d XOR int b)"
    using Cons.IH [OF crc_steps_word [OF words(1)] crc_steps_word [OF words(2)]] Cons.prems(3,4)
    by (simp add: crc_register_def)
  with words have "c XOR int b = d XOR int b" by (rule crc_steps_inj)
  then show ?case by (rule xor_cancel)
qed (simp add: crc_register_def)

lemma crc_register_append: "crc_register (u @ v) c = crc_register v (crc_register u c)"
  by (simp add: crc_register_def)

theorem crc_detects_one_byte:
  assumes "a \<noteq> b" "length (u @ a # v) \<le> 64"
  shows "\<exists>s t. crc32_utf8 (u @ a # v) = Inr s \<and> crc32_utf8 (u @ b # v) = Inr t \<and>
    crc_result s \<noteq> crc_result t"
proof -
  let ?r = "crc_register (bytes_of u) 0xFFFFFFFF"
  have r: "word32 ?r" by (rule crc_register_word [OF initial_word bytes_of_bound])
  have words: "word32 (?r XOR int (of_char c))" for c
    using r byte_word [of "of_char c"] by (simp add: take_bit_xor)
  have register: "zlib_crc32 (bytes_of (u @ c # v)) =
      crc_register (bytes_of v) ((crc_step ^^ 8) (?r XOR int (of_char c))) XOR 0xFFFFFFFF" for c
    unfolding zlib_register [OF bytes_of_bound]
    by (simp add: bytes_of_def crc_register_append) (simp add: crc_register_def)
  have "zlib_crc32 (bytes_of (u @ a # v)) \<noteq> zlib_crc32 (bytes_of (u @ b # v))"
  proof
    assume "zlib_crc32 (bytes_of (u @ a # v)) = zlib_crc32 (bytes_of (u @ b # v))"
    then have "crc_register (bytes_of v) ((crc_step ^^ 8) (?r XOR int (of_char a)))
      = crc_register (bytes_of v) ((crc_step ^^ 8) (?r XOR int (of_char b)))"
      unfolding register by (rule xor_cancel)
    then have "(crc_step ^^ 8) (?r XOR int (of_char a)) = (crc_step ^^ 8) (?r XOR int (of_char b))"
      by (rule crc_register_inj [OF crc_steps_word [OF words] crc_steps_word [OF words] bytes_of_bound])
    then have "?r XOR int (of_char a) = ?r XOR int (of_char b)" by (rule crc_steps_inj [OF words words])
    then have "int (of_char a) = int (of_char b)" by (metis xor.commute xor_cancel)
    with assms(1) show False by simp
  qed
  moreover have "length (u @ b # v) \<le> 64" using assms(2) by simp
  ultimately show ?thesis using assms(2) by (simp add: crc32_matches_zlib)
qed

section \<open>Euclid's algorithm computes the greatest common divisor\<close>

lemma gcd_loop_result:
  "0 \<le> a \<Longrightarrow> 0 \<le> b \<Longrightarrow> fst (gcd_loop a b steps) = gcd a b"
proof (induction a b steps rule: gcd_loop.induct)
  case (1 a b steps)
  show ?case
  proof (cases "b = 0")
    case True
    with 1 show ?thesis by (simp add: gcd_loop.simps)
  next
    case False
    then have "fst (gcd_loop a b steps) = gcd b (a mod b)"
      using 1 by (subst gcd_loop.simps) simp
    also have "\<dots> = gcd a b" by (metis gcd.commute gcd_red_int)
    finally show ?thesis .
  qed
qed

text \<open>Two rounds halve the second number, so the trace is as long as its bits, twice.\<close>

lemma gcd_loop_length:
  assumes "0 \<le> b"
  shows "length (snd (gcd_loop a b steps)) \<le> length steps + 2 * bit_length b"
  using assms
proof (induction "nat b" arbitrary: a b steps rule: less_induct)
  case less
  show ?case
  proof (cases "b = 0")
    case True
    then show ?thesis by (simp add: gcd_loop.simps)
  next
    case False
    with less.prems have b: "0 < b" by simp
    define r where "r = a mod b"
    have r: "0 \<le> r" "r < b" using b by (simp_all add: r_def)
    have b1: "1 \<le> bit_length b" using b bit_length_le [of b 0] by simp
    show ?thesis
    proof (cases "r = 0")
      case True
      with b b1 show ?thesis by (simp add: gcd_loop.simps [of a b] gcd_loop.simps [of b 0] r_def)
    next
      case False
      define s where "s = b mod r"
      have s: "0 \<le> s" "2 * s < b"
      proof -
        show "0 \<le> s" using r False by (simp add: s_def)
        have "s < r" using r False by (simp add: s_def)
        moreover have "1 \<le> b div r" using pos_imp_zdiv_pos_iff [of r b] r False by linarith
        then have "r * 1 \<le> r * (b div r)" using r by (intro mult_left_mono) simp_all
        then have "r + s \<le> b" using mult_div_mod_eq [of r b] unfolding s_def by linarith
        ultimately show "2 * s < b" by linarith
      qed
      have "\<bar>s\<bar> < 2 ^ (bit_length b - 1)"
      proof -
        have "\<bar>b\<bar> < 2 ^ bit_length b" using bit_length_le by blast
        moreover have "(2 :: int) ^ bit_length b = 2 * 2 ^ (bit_length b - 1)" using b1 by (cases "bit_length b") simp_all
        ultimately show ?thesis using s by linarith
      qed
      then have sb: "bit_length s \<le> bit_length b - 1" by (simp only: bit_length_le)
      have "gcd_loop a b steps = gcd_loop r s (steps @
          [\<lparr>gcd_a = a, gcd_b = b, gcd_quotient = a div b, gcd_remainder = r\<rparr>,
           \<lparr>gcd_a = b, gcd_b = r, gcd_quotient = b div r, gcd_remainder = s\<rparr>])"
        using b False by (simp add: gcd_loop.simps [of a b] gcd_loop.simps [of b "a mod b"] r_def s_def)
      then obtain u v where twice: "gcd_loop a b steps = gcd_loop r s (steps @ [u, v])" by blast
      have "nat s < nat b" using s b by linarith
      from less.hyps [OF this s(1), of r "steps @ [u, v]"] sb b1 show ?thesis unfolding twice by simp
    qed
  qed
qed

text \<open>Euclid's algorithm returns the greatest common divisor of any two integers, negative
  ones and zero included, and its trace has at most two steps per bit of the right operand.
\<close>

theorem euclidean_gcd_correct:
  "gcd_result (euclidean_gcd left right) = gcd left right \<and>
   length (gcd_steps (euclidean_gcd left right)) \<le> 2 * bit_length right"
proof -
  have "bit_length \<bar>right\<bar> = bit_length right" by (simp add: bit_length_def)
  then show ?thesis
    using gcd_loop_result [of "\<bar>left\<bar>" "\<bar>right\<bar>" "[]"] gcd_loop_length [of "\<bar>right\<bar>" "\<bar>left\<bar>" "[]"]
    by (simp add: euclidean_gcd_def split_def Let_def)
qed

section \<open>Quicksort sorts\<close>

text \<open>A change of the array that permutes the entries between two indices and no others.\<close>

definition permuted :: "int \<Rightarrow> int \<Rightarrow> int list \<Rightarrow> int list \<Rightarrow> bool" where
  "permuted low high xs ys \<longleftrightarrow> mset ys = mset xs \<and>
     (\<forall>i. 0 \<le> i \<and> (i < low \<or> high < i) \<longrightarrow> entry ys i = entry xs i) \<and>
     (\<forall>i. low \<le> i \<and> i \<le> high \<longrightarrow> (\<exists>j. low \<le> j \<and> j \<le> high \<and> entry ys i = entry xs j))"

lemma permuted_refl [simp]: "permuted low high xs xs"
  by (auto simp: permuted_def)

lemma permuted_length: "permuted low high xs ys \<Longrightarrow> length ys = length xs"
  by (auto simp: permuted_def dest: mset_eq_length)

lemma permuted_trans: "permuted low high xs ys \<Longrightarrow> permuted low high ys zs \<Longrightarrow> permuted low high xs zs"
  unfolding permuted_def by (metis (no_types, lifting))

lemma permuted_wider:
  assumes "permuted low high xs ys" "0 \<le> l" "l \<le> low" "high \<le> h"
  shows "permuted l h xs ys"
  unfolding permuted_def
proof (intro conjI allI impI)
  show "mset ys = mset xs" using assms by (simp add: permuted_def)
next
  fix i assume "0 \<le> i \<and> (i < l \<or> h < i)"
  then show "entry ys i = entry xs i" using assms by (auto simp: permuted_def)
next
  fix i assume i: "l \<le> i \<and> i \<le> h"
  show "\<exists>j. l \<le> j \<and> j \<le> h \<and> entry ys i = entry xs j"
  proof (cases "low \<le> i \<and> i \<le> high")
    case True
    with assms(1) obtain j where "low \<le> j" "j \<le> high" "entry ys i = entry xs j"
      unfolding permuted_def by blast
    with assms show ?thesis by (intro exI [of _ j]) simp
  next
    case False
    with assms i have "entry ys i = entry xs i" by (auto simp: permuted_def)
    with i show ?thesis by blast
  qed
qed

lemma permuted_swap:
  assumes "0 \<le> low" "low \<le> i" "i \<le> high" "low \<le> j" "j \<le> high" "high < int (length xs)"
  shows "permuted low high xs (swap_entries xs i j)"
proof -
  have ij: "nat i < length xs" "nat j < length xs" using assms by linarith+
  have "mset (swap_entries xs i j) = mset xs"
    using mset_swap [OF ij(2) ij(1)] by (simp add: swap_entries_def)
  then show ?thesis
    unfolding permuted_def swap_entries_def using assms ij
    by (auto simp: nth_list_update)
qed

lemma entry_swap:
  assumes "0 \<le> i" "0 \<le> j" "0 \<le> k" "i < int (length xs)" "j < int (length xs)"
  shows "entry (swap_entries xs i j) k = (if k = j then entry xs i else if k = i then entry xs j else entry xs k)"
  using assms by (auto simp: swap_entries_def nth_list_update nat_eq_iff)

definition partitioned :: "int \<Rightarrow> int \<Rightarrow> int \<Rightarrow> int \<Rightarrow> int list \<Rightarrow> bool" where
  "partitioned v low p k xs \<longleftrightarrow>
     (\<forall>i. low \<le> i \<and> i < p \<longrightarrow> entry xs i \<le> v) \<and> (\<forall>i. p \<le> i \<and> i < k \<longrightarrow> v < entry xs i)"

lemma scan_correct:
  assumes "0 \<le> low" "low \<le> p" "p \<le> k" "k \<le> h" "h < int (length a)" "partitioned v low p k a"
    and "fold (scan_step v) [k..h - 1] (a, p) = (a', p')"
  shows "permuted low (h - 1) a a' \<and> p \<le> p' \<and> p' \<le> h \<and> partitioned v low p' h a'"
  using assms(2-7)
proof (induction "nat (h - k)" arbitrary: k a p)
  case 0
  then show ?case by simp
next
  case (Suc n)
  then have k: "k < h" by linarith
  then have range: "[k..h - 1] = k # [k + 1..h - 1]" by (intro upto_rec1) simp
  have n: "n = nat (h - (k + 1))" using Suc.hyps(2) by linarith
  show ?case
  proof (cases "entry a k \<le> v")
    case False
    have part: "partitioned v low p (k + 1) a"
      using Suc.prems(5) False unfolding partitioned_def
      by (metis not_le order.order_iff_strict zle_add1_eq_le zless_add1_eq)
    have run: "fold (scan_step v) [k + 1..h - 1] (a, p) = (a', p')"
      using Suc.prems(6) False unfolding range by (simp add: scan_step_def)
    show ?thesis by (rule Suc.hyps(1) [OF n _ _ _ _ part run]) (use Suc.prems k in simp_all)
  next
    case True
    let ?a = "swap_entries a p k"
    have len: "length ?a = length a" by (simp add: swap_entries_def)
    have swap: "entry ?a i = (if i = k then entry a p else if i = p then entry a k else entry a i)"
      if "0 \<le> i" for i
      using that assms(1) Suc.prems k by (intro entry_swap) linarith+
    have part: "partitioned v low (p + 1) (k + 1) ?a"
      unfolding partitioned_def
    proof (intro conjI allI impI)
      fix i assume i: "low \<le> i \<and> i < p + 1"
      with Suc.prems have "i < p \<longrightarrow> i \<noteq> k" "0 \<le> i" using assms(1) by linarith+
      with swap [of i] i True Suc.prems(5) show "entry ?a i \<le> v"
        unfolding partitioned_def by (cases "i = p") auto
    next
      fix i assume i: "p + 1 \<le> i \<and> i < k + 1"
      then have "0 \<le> i" using assms(1) Suc.prems by linarith
      with swap [of i] i Suc.prems(5) show "v < entry ?a i"
        unfolding partitioned_def by (cases "i = k") auto
    qed
    have run: "fold (scan_step v) [k + 1..h - 1] (?a, p + 1) = (a', p')"
      using Suc.prems(6) True unfolding range by (simp add: scan_step_def)
    have rest: "permuted low (h - 1) ?a a' \<and> p + 1 \<le> p' \<and> p' \<le> h \<and> partitioned v low p' h a'"
      by (rule Suc.hyps(1) [OF n _ _ _ _ part run]) (use Suc.prems k len in simp_all)
    have "permuted low (h - 1) a ?a"
      using assms(1) Suc.prems k by (intro permuted_swap) simp_all
    with rest show ?thesis by (auto intro: permuted_trans)
  qed
qed

lemma partition_range_correct:
  assumes "0 \<le> low" "low \<le> high" "high < int (length a)" "partition_range low high a = (b, p)"
  shows "permuted low high a b \<and> low \<le> p \<and> p \<le> high \<and> entry b p = entry a high \<and>
    (\<forall>i. low \<le> i \<and> i < p \<longrightarrow> entry b i \<le> entry b p) \<and>
    (\<forall>i. p < i \<and> i \<le> high \<longrightarrow> entry b p < entry b i)"
proof -
  let ?v = "entry a high"
  obtain c where scan: "fold (scan_step ?v) [low..high - 1] (a, low) = (c, p)"
    and b: "b = swap_entries c p high"
    using assms(4) by (auto simp: partition_range_def Let_def split: prod.splits)
  have c: "permuted low (high - 1) a c \<and> low \<le> p \<and> p \<le> high \<and> partitioned ?v low p high c"
    by (rule scan_correct [OF _ _ _ _ _ _ scan]) (use assms in \<open>simp_all add: partitioned_def\<close>)
  have len: "length c = length a" using c permuted_length by blast
  have ch: "entry c high = ?v" using c assms by (auto simp: permuted_def)
  have swap: "entry b i = (if i = high then entry c p else if i = p then ?v else entry c i)" if "0 \<le> i" for i
    unfolding b ch [symmetric] by (rule entry_swap) (use that assms c len in linarith)+
  have bp: "entry b p = ?v"
    using swap [of p] ch c assms(1) by (cases "p = high") simp_all
  have "permuted low high c b"
    unfolding b using assms c len by (intro permuted_swap) simp_all
  moreover have "permuted low high a c"
    by (rule permuted_wider) (use c assms in auto)
  ultimately have "permuted low high a b" by (metis permuted_trans)
  moreover have "entry b i \<le> ?v" if "low \<le> i" "i < p" for i
    using swap [of i] that c assms by (auto simp: partitioned_def)
  moreover have "?v < entry b i" if "p < i" "i \<le> high" for i
    using swap [of i] that c assms by (auto simp: partitioned_def)
  ultimately show ?thesis using c bp by auto
qed

definition sorted_range :: "int \<Rightarrow> int \<Rightarrow> int list \<Rightarrow> bool" where
  "sorted_range low high xs \<longleftrightarrow> (\<forall>i j. low \<le> i \<and> i \<le> j \<and> j \<le> high \<longrightarrow> entry xs i \<le> entry xs j)"

text \<open>A snapshot tells the truth about the final array: its pivot is where it will stay.\<close>

definition pivot_settled :: "int \<Rightarrow> int \<Rightarrow> int list \<Rightarrow> partition_snapshot \<Rightarrow> bool" where
  "pivot_settled low high xs x \<longleftrightarrow> low \<le> part_index x \<and> part_index x \<le> high \<and>
     entry xs (part_index x) = part_pivot x \<and> mset (part_snapshot x) = mset xs"

lemma pivot_settled_permuted:
  assumes "pivot_settled l h xs x" "permuted low high xs ys" "h < low \<or> high < l" "0 \<le> l"
  shows "pivot_settled l h ys x"
  using assms unfolding pivot_settled_def permuted_def by auto

lemma pivot_settled_wider: "pivot_settled l h xs x \<Longrightarrow> low \<le> l \<Longrightarrow> h \<le> high \<Longrightarrow> pivot_settled low high xs x"
  by (auto simp: pivot_settled_def)

lemma sorted_around:
  assumes "sorted_range low (p - 1) c" "sorted_range (p + 1) high c" "low \<le> p" "p \<le> high"
    and "\<And>i. low \<le> i \<Longrightarrow> i < p \<Longrightarrow> entry c i \<le> entry c p"
    and "\<And>i. p < i \<Longrightarrow> i \<le> high \<Longrightarrow> entry c p \<le> entry c i"
  shows "sorted_range low high c"
  unfolding sorted_range_def
proof (intro allI impI)
  fix i j assume ij: "low \<le> i \<and> i \<le> j \<and> j \<le> high"
  consider "j < p" | "p < i" | "i \<le> p" "p \<le> j" by linarith
  then show "entry c i \<le> entry c j"
  proof cases
    case 1
    with ij assms(1) show ?thesis by (simp add: sorted_range_def)
  next
    case 2
    with ij assms(2) show ?thesis by (simp add: sorted_range_def)
  next
    case 3
    have "entry c i \<le> entry c p" using 3 ij assms(5) [of i] by (cases "i = p") simp_all
    also have "\<dots> \<le> entry c j" using 3 ij assms(6) [of j] by (cases "j = p") simp_all
    finally show ?thesis .
  qed
qed

lemma sort_range_correct:
  assumes "0 \<le> low" "high < int (length a)"
  shows "\<exists>b new. sort_range low high (a, s) = (b, s @ new) \<and> permuted low high a b \<and>
    sorted_range low high b \<and> list_all (pivot_settled low high b) new"
  using assms
proof (induction "nat (high - low)" arbitrary: low high a s rule: less_induct)
  case less
  show ?case
  proof (cases "high \<le> low")
    case True
    then have "sorted_range low high a"
      unfolding sorted_range_def by (metis order.antisym order.trans order_refl)
    with True show ?thesis by (auto simp: sort_range.simps)
  next
    case False
    obtain b p where part: "partition_range low high a = (b, p)" by fastforce
    note P = partition_range_correct [OF less.prems(1) _ less.prems(2) part]
    have ab: "permuted low high a b" and p: "low \<le> p" "p \<le> high" and bp: "entry b p = entry a high"
      and left: "\<And>i. low \<le> i \<Longrightarrow> i < p \<Longrightarrow> entry b i \<le> entry b p"
      and right: "\<And>i. p < i \<Longrightarrow> i \<le> high \<Longrightarrow> entry b p < entry b i"
      using P False by auto
    let ?x = "\<lparr>part_low = low, part_high = high, part_pivot = entry a high, part_index = p, part_snapshot = b\<rparr>"
    have len: "length b = length a" using ab by (rule permuted_length)
    obtain c new1 where c: "sort_range low (p - 1) (b, s @ [?x]) = (c, (s @ [?x]) @ new1)"
      "permuted low (p - 1) b c" "sorted_range low (p - 1) c" "list_all (pivot_settled low (p - 1) c) new1"
      using less.hyps [of "p - 1" low b "s @ [?x]"] less.prems False p len by fastforce
    have lenc: "length c = length a" using permuted_length [OF c(2)] len by simp
    obtain d new2 where d: "sort_range (p + 1) high (c, (s @ [?x]) @ new1) = (d, ((s @ [?x]) @ new1) @ new2)"
      "permuted (p + 1) high c d" "sorted_range (p + 1) high d" "list_all (pivot_settled (p + 1) high d) new2"
      using less.hyps [of high "p + 1" c "(s @ [?x]) @ new1"] less.prems False p lenc by fastforce
    have run: "sort_range low high (a, s) = (d, s @ ?x # new1 @ new2)"
      using False c(1) d(1) part by (subst sort_range.simps) (simp add: Let_def)
    have "permuted low high b c" using c(2) less.prems(1) p by (intro permuted_wider [OF c(2)]) simp_all
    moreover have "permuted low high c d" using less.prems(1) p by (intro permuted_wider [OF d(2)]) simp_all
    ultimately have ad: "permuted low high a d" using ab by (metis permuted_trans)
    have cp: "entry c p = entry b p" using c(2) p less.prems(1) by (auto simp: permuted_def)
    have dp: "entry d p = entry b p" using d(2) cp p less.prems(1) by (auto simp: permuted_def)
    have dl: "entry d i = entry c i" if "low \<le> i" "i < p" for i
      using d(2) that less.prems(1) by (auto simp: permuted_def)
    have below: "entry d i \<le> entry d p" if i: "low \<le> i" "i < p" for i
    proof -
      from i have "low \<le> i \<and> i \<le> p - 1" by simp
      with c(2) obtain j where "low \<le> j" "j \<le> p - 1" "entry c i = entry b j"
        unfolding permuted_def by blast
      with left [of j] dl [OF i] dp show ?thesis by simp
    qed
    have above: "entry d p \<le> entry d i" if i: "p < i" "i \<le> high" for i
    proof -
      from i have "p + 1 \<le> i \<and> i \<le> high" by simp
      with d(2) obtain j where j: "p + 1 \<le> j" "j \<le> high" "entry d i = entry c j"
        unfolding permuted_def by blast
      then have "entry c j = entry b j" using c(2) less.prems(1) p by (auto simp: permuted_def)
      with right [of j] j dp show ?thesis by simp
    qed
    have "sorted_range low (p - 1) d" using c(3) dl by (auto simp: sorted_range_def)
    then have sorted: "sorted_range low high d" using d(3) p below above by (rule sorted_around)
    have "pivot_settled low high d ?x" using p dp bp ad ab by (simp add: pivot_settled_def permuted_def)
    moreover have "list_all (pivot_settled low high d) new1"
      using c(4) d(2) less.prems(1) p
      by (auto simp: list_all_iff intro!: pivot_settled_wider [OF pivot_settled_permuted [OF _ d(2)]])
    moreover have "list_all (pivot_settled low high d) new2"
      using d(4) p by (auto simp: list_all_iff intro: pivot_settled_wider)
    ultimately show ?thesis using run ad sorted by auto
  qed
qed

text \<open>The in-place quicksort computes exactly what \<open>sorted\<close> would: the array at the end is
  the sorted permutation of the input, for every list, empty ones and duplicates included.
  Its snapshots are permutations of the input, and the pivot a snapshot reports at an index is
  the entry of the final array at that index.
\<close>

theorem quicksort_sorts:
  "sort_result (quicksort_trace values) = sort values \<and>
   list_all (\<lambda>x. 0 \<le> part_index x \<and> part_index x < int (length values) \<and>
     entry (sort values) (part_index x) = part_pivot x \<and> mset (part_snapshot x) = mset values)
     (sort_partitions (quicksort_trace values))"
proof -
  let ?h = "int (length values) - 1"
  obtain b new where run: "sort_range 0 ?h (values, []) = (b, new)" and perm: "permuted 0 ?h values b"
    and sorted: "sorted_range 0 ?h b" and pivot_settled: "list_all (pivot_settled 0 ?h b) new"
    using sort_range_correct [of 0 ?h "values" "[]"] by auto
  have len: "length b = length values" using perm by (rule permuted_length)
  have "sorted b"
    unfolding sorted_iff_nth_mono
  proof (intro allI impI)
    fix i j assume "i \<le> j" "j < length b"
    then show "b ! i \<le> b ! j"
      using sorted [unfolded sorted_range_def, rule_format, of "int i" "int j"] len by simp
  qed
  moreover have "mset b = mset values" using perm by (simp add: permuted_def)
  ultimately have b: "b = sort values" by (metis properties_for_sort)
  have "list_all (\<lambda>x. 0 \<le> part_index x \<and> part_index x < int (length values) \<and>
     entry b (part_index x) = part_pivot x \<and> mset (part_snapshot x) = mset values) new"
    using pivot_settled \<open>mset b = mset values\<close> by (auto simp: list_all_iff pivot_settled_def)
  then show ?thesis using run b by (simp add: quicksort_trace_def)
qed

end
