(* ===== verification/Subagent_Prompt.thy ===== *)
theory Subagent_Prompt
  imports Plan_World
begin

text \<open>
  The prompt of a sub-agent (\<open>SubagentScheduler._build_system_prompt\<close> in
  \<open>core/subagent_scheduler.py\<close>): its role, its task and the texts of the files it may see,
  cut to a budget. The reading of a file is a function. Texts are kept as their UTF-8 bytes, so
  characters are counted by the bytes that begin one.
\<close>

definition fence :: string where
  "fence = [CHR 0x60, CHR 0x60, CHR 0x60]"

datatype file_text = NotAFile | ReadError string | FileText string

text \<open>
  The files that go into a prompt, given what was injected already: each is cut to 8000
  characters, all together to 32000; the notices of a cut are not counted before it.
\<close>

definition file_content :: "string \<Rightarrow> string" where
  "file_content content = (if char_length content > 8000
     then take_chars 8000 content @ newline @ ''... [truncated, '' @ int_str (int (char_length content)) @ '' chars total]''
     else content)"

fun inject_loop :: "(string \<Rightarrow> file_text) \<Rightarrow> nat \<Rightarrow> string list \<Rightarrow> string list" where
  "inject_loop read used [] = []"
| "inject_loop read used (p # ps) =
    (let header = ''### '' @ p in case read p of
       NotAFile \<Rightarrow> (header @ newline @ ''[file not found]'') # inject_loop read used ps
     | ReadError e \<Rightarrow> (header @ newline @ ''[read error: '' @ e @ '']'') # inject_loop read used ps
     | FileText content \<Rightarrow>
         let content = file_content content
         in if used + char_length content > 32000 then
              (if 32000 \<le> used then (header @ newline @ ''[skipped: total file content budget exceeded]'') # inject_loop read used ps
               else let content = take_chars (32000 - used) content @ newline @ ''... [truncated: total budget]''
                 in (header @ newline @ fence @ newline @ content @ newline @ fence)
                    # inject_loop read (used + char_length content) ps)
            else (header @ newline @ fence @ newline @ content @ newline @ fence)
                 # inject_loop read (used + char_length content) ps)"

definition inject_files :: "(string \<Rightarrow> file_text) \<Rightarrow> string list \<Rightarrow> string" where
  "inject_files read files = ''## Allowed Files'' @ newline @
    (if files = [] then ''(none)'' else join (newline @ newline) (inject_loop read 0 files))"

definition role_instruction :: "string \<Rightarrow> string" where
  "role_instruction role = (if role = ''implementer''
    then ''You are an implementer subagent.'' @ newline @
      ''Your job: execute the coding task using only the files listed below.'' @ newline @
      ''Produce working code changes. Do not refactor unrelated code.''
    else ''You are a reviewer subagent.'' @ newline @
      ''Your job: review the implementation against the task specification.'' @ newline @
      ''Check: correctness, edge cases, architecture boundary violations, missing tests.'' @ newline @
      ''Return: approved (bool), issues (list), suggestions (list).'')"

definition build_system_prompt :: "(string \<Rightarrow> file_text) \<Rightarrow> string \<Rightarrow> string \<Rightarrow> string list \<Rightarrow> string" where
  "build_system_prompt read role task files =
    role_instruction role @ newline @ newline @
    ''## Task'' @ newline @ task @ newline @ newline @
    inject_files read files @ newline @ newline @
    ''## Isolation Discipline'' @ newline @
    ''- Do not use parent conversation history.'' @ newline @
    ''- Do not access files outside the allowed set.'' @ newline @
    ''- Complete the task within your tool budget.'' @ newline"

section \<open>The budget holds\<close>

definition file_overhead :: "(string \<Rightarrow> file_text) \<Rightarrow> string \<Rightarrow> nat" where
  "file_overhead read p = 62 + char_length p + (case read p of ReadError e \<Rightarrow> char_length e | _ \<Rightarrow> 0)"

lemma char_length_join:
  "char_length (join sep xs) \<le> sum_list (map char_length xs) + (length xs - 1) * char_length sep"
  by (induction sep xs rule: join.induct) simp_all

lemma length_inject_loop [simp]: "length (inject_loop read used ps) = length ps"
  by (induction read used ps rule: inject_loop.induct) (simp_all add: Let_def split: file_text.split)

lemma budget_step:
  fixes a n k r u b l t :: nat
  assumes "a = n + 13 + k + r" "u + k \<le> b" "r + 2 * l \<le> b - (u + k) + t"
  shows "a + 2 * (l + Suc 0) \<le> b - u + ((62 + n) + t)"
proof -
  have "b - u = (b - (u + k)) + k" using assms(2) by simp
  with assms(1,3) show ?thesis by simp
qed

lemma inject_loop_length:
  "sum_list (map char_length (inject_loop read used ps)) + 2 * length ps \<le>
     (32030 - used) + sum_list (map (file_overhead read) ps)"
proof (induction ps arbitrary: used)
  case (Cons p ps)
  show ?case
  proof (cases "read p")
    case (FileText content)
    let ?n = "char_length (file_content content)"
    let ?kept = "take_chars (32000 - used) (file_content content) @ newline @ ''... [truncated: total budget]''"
    have kept: "char_length ?kept \<le> (32000 - used) + 30"
      using char_length_take [of "32000 - used" "file_content content"] by (simp add: newline_def)
    consider "used + ?n \<le> 32000" | "32000 \<le> used" "32000 < used + ?n" | "used < 32000" "32000 < used + ?n" by linarith
    then show ?thesis
    proof cases
      case 1
      with FileText Cons.IH [of "used + ?n"] show ?thesis
        by (simp add: Let_def file_overhead_def newline_def fence_def)
    next
      case 2
      with FileText Cons.IH [of used] show ?thesis
        by (simp add: Let_def file_overhead_def newline_def fence_def)
    next
      case 3
      then have "inject_loop read used (p # ps) =
          (''### '' @ p @ newline @ fence @ newline @ ?kept @ newline @ fence) # inject_loop read (used + char_length ?kept) ps"
        using FileText by (simp add: Let_def)
      then have "sum_list (map char_length (inject_loop read used (p # ps))) =
          char_length p + 13 + char_length ?kept + sum_list (map char_length (inject_loop read (used + char_length ?kept) ps))"
        by (simp add: newline_def fence_def del: inject_loop.simps)
      moreover have "used + char_length ?kept \<le> 32030" using kept 3(1) by linarith
      moreover have "file_overhead read p = 62 + char_length p" using FileText by (simp add: file_overhead_def)
      ultimately show ?thesis
        using budget_step [OF _ _ Cons.IH [of "used + char_length ?kept"]] unfolding list.size list.map sum_list.Cons by simp
    qed
  qed (use Cons.IH [of used] in \<open>simp_all add: Let_def file_overhead_def newline_def\<close>)
qed simp

text \<open>The prompt of a sub-agent stays within its budget of characters, however many files
  it lists and however long they are: what the files add is at most 32030 characters of
  content, and for each file its name, one notice and the text of a read error.\<close>

theorem injected_files_bounded:
  "char_length (inject_files read files) \<le> 32054 + sum_list (map (file_overhead read) files)"
proof (cases files)
  case Nil
  then show ?thesis by (simp add: inject_files_def newline_def)
next
  case Cons
  then have "char_length (inject_files read files) \<le> 17 + sum_list (map char_length (inject_loop read 0 files)) + 2 * length files"
    using char_length_join [of "newline @ newline" "inject_loop read 0 files"]
    by (simp add: inject_files_def newline_def del: inject_loop.simps)
  also have "\<dots> \<le> 32054 + sum_list (map (file_overhead read) files)"
    using inject_loop_length [of read 0 files] by simp
  finally show ?thesis .
qed

end
