(* ===== verification/Subagent_Scheduler.thy ===== *)
theory Subagent_Scheduler
  imports Subagent_Prompt
begin

text \<open>
  Sub-agents (\<open>core/subagent_scheduler.py\<close>): the registry that restricts their tools by role,
  file and consent, and the loop that talks to the model under a budget of calls.

  The model, the base tools, the consent gateway, the resolution of paths and \<open>json.loads\<close> are
  functions; one that may answer differently each time gets the number of effects so far.
  \<open>effects\<close> logs what leaves the scheduler. \<open>interrupt\<close> says at which reads the flag
  \<open>interrupted\<close>, which another thread sets, is seen set. A router's answer is given in its
  normalized form. Tool calls are dictionaries, and their results are JSON
  values, so that \<open>json.dumps\<close> takes them.
\<close>

section \<open>The restricted registry\<close>

datatype sub_effect =
    Consented string "pyval dict" bool
  | BaseCall string "pyval dict"
  | ModelCall "pyval dict list" string

type_synonym 'a answers = "nat \<Rightarrow> exn + 'a"

datatype gateway =
    Checker "string \<Rightarrow> pyval dict \<Rightarrow> string \<Rightarrow> pyval answers"
  | Submitter "consent_request \<Rightarrow> (bool \<times> pyval dict) answers"
  | BareGateway

datatype base_tools =
    BaseInvoke "string \<Rightarrow> pyval dict \<Rightarrow> pyval dict \<Rightarrow> pyval answers"
  | BaseExecute "string \<Rightarrow> pyval dict \<Rightarrow> string \<Rightarrow> pyval \<Rightarrow> pyval answers"
  | BareBase

record restricted_registry =
  rr_base :: base_tools
  rr_tools :: "pyval dict list"
  rr_files :: "string list"
  rr_role :: string
  rr_gateway :: "gateway option"

definition role_tools :: "string \<Rightarrow> string list" where
  "role_tools role =
    (if role = ''implementer'' then [''file_read'', ''file_write'', ''execute_command'']
     else if role = ''reviewer'' then [''file_read''] else [])"

text \<open>\<open>str(d.get(k) or d.get(l) or "")\<close>\<close>

definition text_field :: "(pyval \<Rightarrow> string) \<Rightarrow> pyval dict \<Rightarrow> string list \<Rightarrow> string" where
  "text_field rp d ks = (case filter truthy (map (pget d) ks) of [] \<Rightarrow> [] | v # _ \<Rightarrow> py_str rp v)"

definition object_to_dict :: "pyval \<Rightarrow> pyval dict" where
  "object_to_dict v = (case v of PDict d \<Rightarrow> d | _ \<Rightarrow> [(''result'', v)])"

text \<open>\<open>resolve\<close> is \<open>Path(p).expanduser().resolve()\<close>; it may raise.\<close>

definition validate_file_access :: "(string \<Rightarrow> string option) \<Rightarrow> string \<Rightarrow> string list \<Rightarrow> bool" where
  "validate_file_access resolve path files =
    (if files = [] then False
     else (case resolve path of None \<Rightarrow> False
       | Some p \<Rightarrow> list_ex (\<lambda>a. resolve a = Some p) files))"

definition registry_list_available :: "(pyval \<Rightarrow> string) \<Rightarrow> restricted_registry \<Rightarrow> pyval dict list" where
  "registry_list_available rp r =
    filter (\<lambda>t. text_field rp t [''name'', ''tool_id''] \<in> set (role_tools (rr_role r))) (rr_tools r)"

definition command_consent_request :: "(pyval \<Rightarrow> string) \<Rightarrow> string \<Rightarrow> string \<Rightarrow> pyval dict \<Rightarrow> pyval dict \<Rightarrow> consent_request" where
  "command_consent_request rp role name arguments context =
    (let or_text = (\<lambda>k alt. let t = text_field rp context [k] in if t = [] then alt else t)
     in \<lparr>cr_plan_id = or_text ''plan_id'' ''subagent'', cr_step_id = or_text ''step_id'' ''execute_command'',
         cr_skill_id = ''subagent'', cr_operation = name, cr_purpose_type = ''tool_use'', cr_risk_level = ''high'',
         cr_impact_scope = ''plan_step'', cr_source = ''plan_orchestrator'',
         cr_metadata = [(''arguments'', PDict arguments), (''subagent_role'', PStr role),
           (''session_id'', PStr (text_field rp context [''session_id'']))]\<rparr>)"

definition check_command_consent :: "(pyval \<Rightarrow> string) \<Rightarrow> gateway \<Rightarrow> string \<Rightarrow> string \<Rightarrow> pyval dict \<Rightarrow> pyval dict
    \<Rightarrow> nat \<Rightarrow> exn + pyval dict" where
  "check_command_consent rp g role name arguments context n = (case g of
      Checker check \<Rightarrow> map_sum id object_to_dict (check name arguments (text_field rp context [''session_id'']) n)
    | Submitter submit \<Rightarrow> map_sum id (\<lambda>(allowed, artifact). [(''allowed'', PBool allowed),
          (''consent_request_id'', pget artifact ''request_id'')])
        (submit (command_consent_request rp role name arguments context) n)
    | BareGateway \<Rightarrow> Inr [(''allowed'', PBool False)])"

text \<open>The call of the base, whichever method it has.\<close>

definition call_base :: "(pyval \<Rightarrow> string) \<Rightarrow> restricted_registry \<Rightarrow> string \<Rightarrow> pyval dict \<Rightarrow> pyval dict
    \<Rightarrow> sub_effect list \<Rightarrow> (exn + pyval dict) \<times> sub_effect list" where
  "call_base rp r name arguments context fx = (case rr_base r of
      BaseInvoke f \<Rightarrow> (map_sum id object_to_dict (f name arguments context (length fx)), fx @ [BaseCall name arguments])
    | BaseExecute f \<Rightarrow>
        (let session = text_field rp context [''session_id'']; mode = pget context ''privacy_mode'' in
         (map_sum id object_to_dict (f name arguments (if session = [] then ''subagent'' else session)
            (if truthy mode then mode else PStr ''local_only'') (length fx)), fx @ [BaseCall name arguments]))
    | BareBase \<Rightarrow> (Inr [(''error'', PStr ''base registry has no invoke/execute method'')], fx))"

definition registry_invoke :: "(pyval \<Rightarrow> string) \<Rightarrow> (string \<Rightarrow> string option) \<Rightarrow> restricted_registry
    \<Rightarrow> string \<Rightarrow> pyval dict \<Rightarrow> pyval dict \<Rightarrow> sub_effect list \<Rightarrow> (exn + pyval dict) \<times> sub_effect list" where
  "registry_invoke rp resolve r name arguments context fx =
    (let path = text_field rp arguments [''path'', ''file_path'']
     in if name \<notin> set (role_tools (rr_role r)) then
          (Inr [(''error'', PStr (''tool '' @ [CHR 0x27] @ name @ [CHR 0x27] @ '' not available to '' @ rr_role r @ '' subagent''))], fx)
        else if name \<in> {''file_read'', ''file_write''} \<and> \<not> validate_file_access resolve path (rr_files r) then
          (Inr [(''error'', PStr (''file access denied: '' @ [CHR 0x27] @ path @ [CHR 0x27] @ '' not in allowed_files''))], fx)
        else (case (if name = ''execute_command'' then rr_gateway r else None) of
            None \<Rightarrow> call_base rp r name arguments context fx
          | Some g \<Rightarrow> (case check_command_consent rp g (rr_role r) name arguments context (length fx) of
              Inl e \<Rightarrow> (Inl e, fx)
            | Inr decision \<Rightarrow>
                let allowed = truthy (pget decision ''allowed''); fx = fx @ [Consented name arguments allowed]
                in if \<not> allowed then
                     (Inr [(''error'', PStr ''execute_command denied by consent''),
                           (''consent_request_id'', pget decision ''consent_request_id'')], fx)
                   else call_base rp r name arguments context fx)))"

section \<open>The loop\<close>

record subagent_context =
  sub_id :: string
  sub_parent_session :: string
  sub_role :: string
  sub_task :: string
  sub_files :: "string list"
  sub_system_prompt :: string
  sub_messages :: "pyval dict list"
  sub_privacy_mode :: string
  max_llm_calls :: nat
  llm_call_count :: nat
  sub_registry :: "restricted_registry option"
  sub_plan_id :: "string option"
  sub_step_id :: "string option"

record subagent_result =
  sr_id :: string
  sr_status :: string
  sr_output :: string
  sr_evidence :: "string option"
  sr_approved :: "bool option"
  sr_issues :: "string list option"
  sr_suggestions :: "string list option"
  sr_error :: "string option"

record router_response =
  resp_content :: string
  resp_tool_calls :: "pyval dict list"

record subagent_env =
  se_repr :: "pyval \<Rightarrow> string"
  se_resolve :: "string \<Rightarrow> string option"
  se_loads :: "string \<Rightarrow> pyval option"
  se_dumps :: "pyval dict \<Rightarrow> string"
  se_model :: "(pyval dict list \<Rightarrow> string \<Rightarrow> string \<Rightarrow> pyval option \<Rightarrow> router_response answers) option"
  interrupt :: "nat \<Rightarrow> bool"

text \<open>What a run changes besides its context: the log, and how often the flag was read.\<close>

record sub_world =
  effects :: "sub_effect list"
  flag_reads :: nat

definition read_flag :: "subagent_env \<Rightarrow> sub_world \<Rightarrow> bool \<times> sub_world" where
  "read_flag env w = (interrupt env (flag_reads w), w\<lparr>flag_reads := Suc (flag_reads w)\<rparr>)"

definition sub_result :: "subagent_context \<Rightarrow> string \<Rightarrow> string \<Rightarrow> string option \<Rightarrow> string option \<Rightarrow> subagent_result" where
  "sub_result c st output evidence error = \<lparr>sr_id = sub_id c, sr_status = st, sr_output = output,
     sr_evidence = evidence, sr_approved = None, sr_issues = None, sr_suggestions = None, sr_error = error\<rparr>"

definition spawn_subagent :: "string \<Rightarrow> string \<Rightarrow> string \<Rightarrow> string \<Rightarrow> string list \<Rightarrow> string \<Rightarrow> string \<Rightarrow> int
    \<Rightarrow> string option \<Rightarrow> string option \<Rightarrow> subagent_context" where
  "spawn_subagent sid parent role task files prompt privacy max_calls plan step =
     \<lparr>sub_id = sid, sub_parent_session = parent, sub_role = role, sub_task = task, sub_files = files,
      sub_system_prompt = prompt, sub_messages = [], sub_privacy_mode = privacy,
      max_llm_calls = nat (max 1 max_calls), llm_call_count = 0, sub_registry = None,
      sub_plan_id = plan, sub_step_id = step\<rparr>"

definition call_context :: "subagent_context \<Rightarrow> pyval dict" where
  "call_context c = (let text = (\<lambda>t. PStr (case t of Some s \<Rightarrow> s | None \<Rightarrow> [])) in
     [(''session_id'', PStr (sub_parent_session c)), (''privacy_mode'', PStr (sub_privacy_mode c)),
      (''subagent_id'', PStr (sub_id c)), (''subagent_role'', PStr (sub_role c)),
      (''plan_id'', text (sub_plan_id c)), (''step_id'', text (sub_step_id c))])"

text \<open>\<open>arguments\<close>: a dictionary, or the text of one; anything else is taken for no arguments.\<close>

definition call_arguments :: "subagent_env \<Rightarrow> pyval dict \<Rightarrow> pyval dict" where
  "call_arguments env tool_call =
    (let v = pget tool_call ''arguments'';
         v = (if truthy v then v else PDict []);
         v = (case v of PStr s \<Rightarrow> (case se_loads env s of Some u \<Rightarrow> u | None \<Rightarrow> PDict []) | _ \<Rightarrow> v)
     in case v of PDict d \<Rightarrow> d | _ \<Rightarrow> [])"

definition execute_tool_call :: "subagent_env \<Rightarrow> subagent_context \<Rightarrow> pyval dict \<Rightarrow> sub_world
    \<Rightarrow> (exn + pyval dict) \<times> sub_world" where
  "execute_tool_call env c tool_call w = (case sub_registry c of
      None \<Rightarrow> (Inr [(''error'', PStr ''no tool_registry available'')], w)
    | Some r \<Rightarrow>
        let (stop, w) = read_flag env w
        in if stop then (Inr [(''error'', PStr ''interrupted before tool execution'')], w)
           else let (out, fx) = registry_invoke (se_repr env) (se_resolve env) r
                      (text_field (se_repr env) tool_call [''name'']) (call_arguments env tool_call) (call_context c) (effects w)
                in (out, w\<lparr>effects := fx\<rparr>))"

fun execute_tool_calls :: "subagent_env \<Rightarrow> subagent_context \<Rightarrow> pyval dict list \<Rightarrow> sub_world
    \<Rightarrow> (exn + subagent_context) \<times> sub_world" where
  "execute_tool_calls env c [] w = (Inr c, w)"
| "execute_tool_calls env c (t # ts) w =
    (case execute_tool_call env c t w of
       (Inl e, w') \<Rightarrow> (Inl e, w')
     | (Inr result, w') \<Rightarrow>
         execute_tool_calls env (c\<lparr>sub_messages := sub_messages c @ [[(''role'', PStr ''tool''),
           (''tool_call_id'', PStr (text_field (se_repr env) t [''id''])), (''content'', PStr (se_dumps env result))]]\<rparr>) ts w')"

text \<open>The JSON object in a review: the text itself, or the first fenced block.\<close>

fun split_at :: "string \<Rightarrow> string \<Rightarrow> (string \<times> string) option" where
  "split_at p [] = (if p = [] then Some ([], []) else None)"
| "split_at p (c # cs) =
    (if starts_with p (c # cs) then Some ([], drop (length p) (c # cs))
     else map_option (\<lambda>(before, rest). (c # before, rest)) (split_at p cs))"

definition fenced :: "string \<Rightarrow> string \<Rightarrow> string option" where
  "fenced opening text = (case split_at opening text of
      None \<Rightarrow> None
    | Some (_, rest) \<Rightarrow> map_option (\<lambda>(inner, _). strip inner) (split_at fence rest))"

definition extract_json :: "string \<Rightarrow> string option" where
  "extract_json text =
    (let text = strip text
     in if starts_with ''{'' text then Some text
        else if contains (fence @ ''json'') text then fenced (fence @ ''json'') text
        else if contains fence text then fenced fence text
        else None)"

definition str_list :: "(pyval \<Rightarrow> string) \<Rightarrow> pyval \<Rightarrow> string list option" where
  "str_list rp v = (case (if truthy v then v else PList []) of PList xs \<Rightarrow> Some (map (py_str rp) xs) | _ \<Rightarrow> None)"

definition parse_reviewer_result :: "subagent_env \<Rightarrow> subagent_context \<Rightarrow> string \<Rightarrow> sub_world \<Rightarrow> subagent_result \<times> sub_world" where
  "parse_reviewer_result env c content w =
    (let parsed = (case Option.bind (extract_json content) (se_loads env) of Some (PDict d) \<Rightarrow> Some d | _ \<Rightarrow> None);
         approved = (case parsed of Some d \<Rightarrow> truthy (pget d ''approved'') | None \<Rightarrow> False);
         issues = (case parsed of Some d \<Rightarrow> str_list (se_repr env) (pget d ''issues'')
           | None \<Rightarrow> Some [''reviewer output format error: expected JSON with approved/issues/suggestions, got: ''
                           @ take_chars 200 content]);
         suggestions = (case parsed of Some d \<Rightarrow> str_list (se_repr env) (pget d ''suggestions'') | None \<Rightarrow> None);
         (stop, w) = read_flag env w; (stop2, w) = read_flag env w
     in (\<lparr>sr_id = sub_id c, sr_status = (if stop then ''failed'' else ''completed''), sr_output = content,
          sr_evidence = Some (''review completed in '' @ int_str (int (llm_call_count c)) @ '' LLM calls, approved=''
            @ (if approved then ''True'' else ''False'')),
          sr_approved = Some approved, sr_issues = issues, sr_suggestions = suggestions,
          sr_error = (if stop2 then Some ''interrupted'' else None)\<rparr>, w))"

definition tool_schemas :: "subagent_env \<Rightarrow> subagent_context \<Rightarrow> pyval option" where
  "tool_schemas env c = (case sub_registry c of
      None \<Rightarrow> None
    | Some r \<Rightarrow> (let available = registry_list_available (se_repr env) r in
        if available = [] then None
        else Some (PList (map (\<lambda>t. PDict [(''type'', PStr ''function''), (''function'', PDict
          [(''name'', PStr (text_field (se_repr env) t [''name'', ''tool_id''])),
           (''description'', dget_or t ''description'' (PStr [])),
           (''parameters'', dget_or t ''parameters'' (dget_or t ''params_schema'' (PDict [])))])])
          (filter (\<lambda>t. text_field (se_repr env) t [''name'', ''tool_id''] \<noteq> []) available)))))"

definition caught_route_error :: "exn \<Rightarrow> bool" where
  "caught_route_error e \<longleftrightarrow> is_runtime_kind (exn_kind e) \<or> is_value_kind (exn_kind e) \<or> exn_kind e = TypeError"

text \<open>One call of the model: the counter, the effect, the answer.\<close>

definition ask_model :: "subagent_env \<Rightarrow> (pyval dict list \<Rightarrow> string \<Rightarrow> string \<Rightarrow> pyval option \<Rightarrow> router_response answers)
    \<Rightarrow> subagent_context \<Rightarrow> sub_world \<Rightarrow> (exn + router_response) \<times> sub_world" where
  "ask_model env model c w =
    (model (sub_messages c) (sub_system_prompt c) (sub_privacy_mode c) (tool_schemas env c) (length (effects w)),
     w\<lparr>effects := effects w @ [ModelCall (sub_messages c) (sub_privacy_mode c)]\<rparr>)"

definition assistant_message :: "router_response \<Rightarrow> pyval dict" where
  "assistant_message resp =
    [(''role'', PStr ''assistant''), (''content'', PStr (resp_content resp))] @
    (if resp_tool_calls resp \<noteq> [] then [(''tool_calls'', PList (map PDict (resp_tool_calls resp)))] else [])"

text \<open>The end of a conversation: the answer without tool calls.\<close>

definition end_conversation :: "subagent_env \<Rightarrow> subagent_context \<Rightarrow> router_response \<Rightarrow> sub_world \<Rightarrow> subagent_result \<times> sub_world" where
  "end_conversation env c resp w =
    (if sub_role c = ''reviewer'' then parse_reviewer_result env c (resp_content resp) w
     else let (stop, w) = read_flag env w; (stop2, w) = read_flag env w
          in (sub_result c (if stop then ''failed'' else ''completed'') (resp_content resp)
                (Some (''completed in '' @ int_str (int (llm_call_count c)) @ '' LLM calls''))
                (if stop2 then Some ''interrupted'' else None), w))"

definition exhausted :: "subagent_context \<Rightarrow> subagent_result" where
  "exhausted c =
    (let content = (case rev (sub_messages c) of m # _ \<Rightarrow>
           (if pget m ''role'' = PStr ''assistant'' then (case pget m ''content'' of PStr t \<Rightarrow> t | _ \<Rightarrow> []) else [])
         | [] \<Rightarrow> [])
     in sub_result c ''timeout'' content
          (Some (''exhausted '' @ int_str (int (max_llm_calls c)) @ '' LLM calls'')) (Some ''max_llm_calls exceeded''))"

lemma execute_tool_calls_budget:
  "execute_tool_calls env c ts w = (Inr c', w') \<Longrightarrow>
    max_llm_calls c' = max_llm_calls c \<and> llm_call_count c' = llm_call_count c \<and>
    sub_registry c' = sub_registry c \<and> sub_role c' = sub_role c"
  by (induction ts arbitrary: c w) (auto split: prod.splits sum.splits)

function sub_loop :: "subagent_env \<Rightarrow> (pyval dict list \<Rightarrow> string \<Rightarrow> string \<Rightarrow> pyval option \<Rightarrow> router_response answers)
    \<Rightarrow> subagent_context \<Rightarrow> sub_world \<Rightarrow> (exn + subagent_result) \<times> sub_world" where
  "sub_loop env model c w =
    (if max_llm_calls c \<le> llm_call_count c then (Inr (exhausted c), w)
     else let (stop, w) = read_flag env w
       in if stop then (Inr (sub_result c ''failed'' [] None (Some ''interrupted'')), w)
       else let c1 = c\<lparr>llm_call_count := llm_call_count c + 1\<rparr>; (answer, w) = ask_model env model c1 w
         in case answer of
            Inl e \<Rightarrow> (if caught_route_error e
              then Inr (sub_result c1 ''failed'' [] None (Some (''LLM route error: '' @ exn_text e))) else Inl e, w)
          | Inr resp \<Rightarrow>
              let c2 = c1\<lparr>sub_messages := sub_messages c1 @ [assistant_message resp]\<rparr>
              in if resp_tool_calls resp \<noteq> [] then
                   (case execute_tool_calls env c2 (resp_tool_calls resp) w of
                      (Inl e, w) \<Rightarrow> (Inl e, w)
                    | (Inr c3, w) \<Rightarrow> sub_loop env model c3 w)
                 else map_prod Inr id (end_conversation env c2 resp w))"
  by pat_completeness auto
termination
  by (relation "measure (\<lambda>(env, model, c, w). max_llm_calls c - llm_call_count c)")
    (auto dest!: execute_tool_calls_budget [OF sym])

declare sub_loop.simps [simp del]

definition run_subagent :: "subagent_env \<Rightarrow> (subagent_context \<Rightarrow> restricted_registry) option \<Rightarrow> subagent_context
    \<Rightarrow> sub_world \<Rightarrow> (exn + subagent_result) \<times> sub_world" where
  "run_subagent env tool_factory c w =
    (let c = (case tool_factory of Some f \<Rightarrow> c\<lparr>sub_registry := Some (f c)\<rparr> | None \<Rightarrow> c)
     in case se_model env of
          None \<Rightarrow> (Inr (sub_result c ''completed'' ''[stub] subagent scheduler not yet wired to LLM''
                     (Some ''stub subagent completed'') None), w)
        | Some model \<Rightarrow> sub_loop env model (c\<lparr>sub_messages :=
            [[(''role'', PStr ''system''), (''content'', PStr (sub_system_prompt c))],
             [(''role'', PStr ''user''), (''content'', PStr (sub_task c))]]\<rparr>) w)"

section \<open>What a sub-agent can reach\<close>

definition permitted :: "(pyval \<Rightarrow> string) \<Rightarrow> (string \<Rightarrow> string option) \<Rightarrow> restricted_registry \<Rightarrow> string \<Rightarrow> pyval dict \<Rightarrow> bool" where
  "permitted rp resolve r name args \<longleftrightarrow> name \<in> set (role_tools (rr_role r)) \<and>
     (name \<in> {''file_read'', ''file_write''} \<longrightarrow>
        (\<exists>p f. f \<in> set (rr_files r) \<and> resolve f = Some p \<and> resolve (text_field rp args [''path'', ''file_path'']) = Some p))"

text \<open>
  Every call that reached the base was permitted, and a command under a gateway came right
  after a consent that allowed that very command.
\<close>

definition confined :: "(pyval \<Rightarrow> string) \<Rightarrow> (string \<Rightarrow> string option) \<Rightarrow> restricted_registry \<Rightarrow> sub_effect list \<Rightarrow> bool" where
  "confined rp resolve r fx \<longleftrightarrow> (\<forall>i name args. i < length fx \<longrightarrow> fx ! i = BaseCall name args \<longrightarrow>
     permitted rp resolve r name args \<and>
     (name = ''execute_command'' \<and> rr_gateway r \<noteq> None \<longrightarrow> 0 < i \<and> fx ! (i - 1) = Consented name args True))"

definition model_calls :: "sub_effect list \<Rightarrow> nat" where
  "model_calls fx = length (filter (\<lambda>e. case e of ModelCall _ _ \<Rightarrow> True | _ \<Rightarrow> False) fx)"

lemma model_calls_simps [simp]:
  "model_calls [] = 0" "model_calls (fx @ gx) = model_calls fx + model_calls gx"
  "model_calls [ModelCall ms p] = 1" "model_calls [BaseCall n a] = 0" "model_calls [Consented n a b] = 0"
  by (simp_all add: model_calls_def)

lemma confined_other:
  assumes "confined rp resolve r fx" "\<And>n a. e \<noteq> BaseCall n a"
  shows "confined rp resolve r (fx @ [e])"
  unfolding confined_def
proof (intro allI impI)
  fix i n a assume i: "i < length (fx @ [e])" "(fx @ [e]) ! i = BaseCall n a"
  with assms(2) have less: "i < length fx" by (auto simp: nth_append split: if_splits)
  with i assms(1) show "permitted rp resolve r n a \<and> (n = ''execute_command'' \<and> rr_gateway r \<noteq> None \<longrightarrow>
      0 < i \<and> (fx @ [e]) ! (i - 1) = Consented n a True)"
    by (auto simp: confined_def nth_append)
qed

lemma confined_call:
  assumes "confined rp resolve r fx" "permitted rp resolve r n a"
    and "n = ''execute_command'' \<Longrightarrow> rr_gateway r \<noteq> None \<Longrightarrow> fx \<noteq> [] \<and> last fx = Consented n a True"
  shows "confined rp resolve r (fx @ [BaseCall n a])"
  unfolding confined_def
proof (intro allI impI)
  fix i n' a' assume i: "i < length (fx @ [BaseCall n a])" "(fx @ [BaseCall n a]) ! i = BaseCall n' a'"
  show "permitted rp resolve r n' a' \<and> (n' = ''execute_command'' \<and> rr_gateway r \<noteq> None \<longrightarrow>
      0 < i \<and> (fx @ [BaseCall n a]) ! (i - 1) = Consented n' a' True)"
  proof (cases "i < length fx")
    case True
    with i assms(1) show ?thesis by (auto simp: confined_def nth_append)
  next
    case False
    with i have "i = length fx" "n' = n" "a' = a" by (auto simp: nth_append)
    with assms(2,3) show ?thesis by (auto simp: nth_append last_conv_nth)
  qed
qed

lemma call_base_effects:
  "snd (call_base rp r n a ctx fx) = fx @ [BaseCall n a] \<or> snd (call_base rp r n a ctx fx) = fx"
  by (auto simp: call_base_def Let_def split: base_tools.split)

lemma registry_invoke_confined:
  assumes "confined rp resolve r fx" "registry_invoke rp resolve r n a ctx fx = (out, gx)"
  shows "confined rp resolve r gx \<and> model_calls gx = model_calls fx"
proof -
  let ?path = "text_field rp a [''path'', ''file_path'']"
  have fine: "permitted rp resolve r n a" if "n \<in> set (role_tools (rr_role r))"
    "n \<in> {''file_read'', ''file_write''} \<longrightarrow> validate_file_access resolve ?path (rr_files r)"
    using that by (auto simp: permitted_def validate_file_access_def list_ex_iff split: if_splits option.splits)
  have call: "confined rp resolve r (snd (call_base rp r n a ctx hx)) \<and>
      model_calls (snd (call_base rp r n a ctx hx)) = model_calls hx"
    if "confined rp resolve r hx" "permitted rp resolve r n a"
      "n = ''execute_command'' \<Longrightarrow> rr_gateway r \<noteq> None \<Longrightarrow> hx \<noteq> [] \<and> last hx = Consented n a True" for hx
    using call_base_effects [of rp r n a ctx hx] confined_call [OF that] that(1) by auto
  have denied: "confined rp resolve r (fx @ [Consented n a b])" for b
    by (rule confined_other [OF assms(1)]) simp
  show ?thesis
  proof (cases "n \<in> set (role_tools (rr_role r)) \<and>
      (n \<in> {''file_read'', ''file_write''} \<longrightarrow> validate_file_access resolve ?path (rr_files r))")
    case False
    then have "gx = fx" using assms(2) by (auto simp: registry_invoke_def Let_def split: if_splits)
    with assms(1) show ?thesis by simp
  next
    case True
    note ok = fine [OF conjunct1 [OF True] conjunct2 [OF True]]
    show ?thesis
    proof (cases "if n = ''execute_command'' then rr_gateway r else None")
      case None
      with True assms(2) have "gx = snd (call_base rp r n a ctx fx)"
        by (auto simp: registry_invoke_def Let_def split: if_splits)
      with call [OF assms(1) ok] None show ?thesis by (auto split: if_splits)
    next
      case (Some g)
      then have n: "n = ''execute_command''" "rr_gateway r = Some g" by (auto split: if_splits)
      show ?thesis
      proof (cases "check_command_consent rp g (rr_role r) n a ctx (length fx)")
        case (Inl e)
        with True Some assms show ?thesis by (auto simp: registry_invoke_def Let_def)
      next
        case (Inr decision)
        show ?thesis
        proof (cases "truthy (pget decision ''allowed'')")
          case False
          with True Some assms(2) Inr have "gx = fx @ [Consented n a False]"
            by (auto simp: registry_invoke_def Let_def)
          with denied show ?thesis by simp
        next
          case allowed: True
          with True Some assms(2) Inr have "gx = snd (call_base rp r n a ctx (fx @ [Consented n a True]))"
            by (auto simp: registry_invoke_def Let_def)
          with call [OF denied ok] show ?thesis by simp
        qed
      qed
    qed
  qed
qed

lemma execute_tool_calls_confined:
  assumes "sub_registry c = Some r" "confined (se_repr env) (se_resolve env) r (effects w)"
    "execute_tool_calls env c ts w = (out, w')"
  shows "confined (se_repr env) (se_resolve env) r (effects w') \<and> model_calls (effects w') = model_calls (effects w)"
  using assms
proof (induction ts arbitrary: c w)
  case (Cons t ts)
  obtain res v where one: "execute_tool_call env c t w = (res, v)" by fastforce
  have v: "confined (se_repr env) (se_resolve env) r (effects v) \<and> model_calls (effects v) = model_calls (effects w)"
    using one Cons.prems(1,2) registry_invoke_confined
    by (auto simp: execute_tool_call_def read_flag_def Let_def split: if_splits prod.splits)
  show ?case
  proof (cases res)
    case (Inl e)
    with Cons.prems(3) one v show ?thesis by simp
  next
    case (Inr result)
    with Cons.prems(3) one have rest: "execute_tool_calls env (c\<lparr>sub_messages := sub_messages c @ [[(''role'', PStr ''tool''),
        (''tool_call_id'', PStr (text_field (se_repr env) t [''id''])), (''content'', PStr (se_dumps env result))]]\<rparr>) ts v = (out, w')"
      by simp
    from Cons.IH [OF _ _ rest] Cons.prems(1) v show ?thesis by simp
  qed
qed simp

lemma end_conversation_effects: "effects (snd (end_conversation env c resp w)) = effects w"
  by (simp add: end_conversation_def parse_reviewer_result_def read_flag_def Let_def)

text \<open>The cases of one turn of the loop, with the log after the model has been asked.\<close>

lemma sub_loop_cases:
  fixes c :: subagent_context and w :: sub_world
  obtains (spent) "max_llm_calls c \<le> llm_call_count c" "sub_loop env model c w = (Inr (exhausted c), w)"
  | (stopped) v :: sub_world where "effects v = effects w"
      "sub_loop env model c w = (Inr (sub_result c ''failed'' [] None (Some ''interrupted'')), v)"
  | (failed) e and v :: sub_world where "llm_call_count c < max_llm_calls c" "model_calls (effects v) = model_calls (effects w) + 1"
      "\<exists>ms m. effects v = effects w @ [ModelCall ms m]"
      "sub_loop env model c w = (if caught_route_error e
         then Inr (sub_result (c\<lparr>llm_call_count := llm_call_count c + 1\<rparr>) ''failed'' [] None
           (Some (''LLM route error: '' @ exn_text e))) else Inl e, v)"
  | (finished) resp :: router_response and c2 :: subagent_context and v :: sub_world where "llm_call_count c < max_llm_calls c" "\<exists>ms m. effects v = effects w @ [ModelCall ms m]"
      "sub_role c2 = sub_role c" "sub_loop env model c w = map_prod Inr id (end_conversation env c2 resp v)"
  | (tools) resp :: router_response and c2 :: subagent_context and v :: sub_world
      and out :: "exn + subagent_context" and u :: sub_world where "llm_call_count c < max_llm_calls c" "\<exists>ms m. effects v = effects w @ [ModelCall ms m]"
      "max_llm_calls c2 = max_llm_calls c" "llm_call_count c2 = llm_call_count c + 1"
      "sub_registry c2 = sub_registry c" "sub_role c2 = sub_role c"
      "resp_tool_calls resp \<noteq> []" "execute_tool_calls env c2 (resp_tool_calls resp) v = (out, u)"
      "sub_loop env model c w = (case out of Inl e \<Rightarrow> (Inl e, u) | Inr c3 \<Rightarrow> sub_loop env model c3 u)"
proof (cases "max_llm_calls c \<le> llm_call_count c")
  case True
  then show ?thesis by (intro spent) (simp_all add: sub_loop.simps)
next
  case False
  obtain stop w1 where flag: "read_flag env w = (stop, w1)" by fastforce
  then have w1: "effects w1 = effects w" by (auto simp: read_flag_def)
  let ?c1 = "c\<lparr>llm_call_count := llm_call_count c + 1\<rparr>"
  show ?thesis
  proof (cases stop)
    case True
    with False flag w1 show ?thesis by (intro stopped [of w1]) (simp_all add: sub_loop.simps [of env model c w])
  next
    case go: False
    obtain answer w2 where ask: "ask_model env model ?c1 w1 = (answer, w2)" by fastforce
    then have w2: "\<exists>ms m. effects w2 = effects w @ [ModelCall ms m]" using w1 by (auto simp: ask_model_def)
    show ?thesis
    proof (cases answer)
      case (Inl e)
      show ?thesis
        by (rule failed [of w2 e]) (use False flag go ask Inl w2 in \<open>auto simp: sub_loop.simps [of env model c w] Let_def\<close>)
    next
      case (Inr resp)
      let ?c2 = "?c1\<lparr>sub_messages := sub_messages ?c1 @ [assistant_message resp]\<rparr>"
      show ?thesis
      proof (cases "resp_tool_calls resp = []")
        case True
        show ?thesis
          by (rule finished [of w2 ?c2 resp]) (use False flag go ask Inr True w2 in
            \<open>auto simp: sub_loop.simps [of env model c w] Let_def\<close>)
      next
        case tools': False
        obtain out u where exec: "execute_tool_calls env ?c2 (resp_tool_calls resp) w2 = (out, u)" by fastforce
        show ?thesis
          by (rule tools [of w2 ?c2 resp out u]) (use False flag go ask Inr tools' w2 exec in
            \<open>auto simp: sub_loop.simps [of env model c w] Let_def split: sum.split\<close>)
      qed
    qed
  qed
qed

lemma sub_loop_confined:
  assumes "sub_registry c = Some r" "confined (se_repr env) (se_resolve env) r (effects w)"
  shows "confined (se_repr env) (se_resolve env) r (effects (snd (sub_loop env model c w))) \<and>
    model_calls (effects (snd (sub_loop env model c w))) \<le> model_calls (effects w) + (max_llm_calls c - llm_call_count c)"
  using assms
proof (induction "max_llm_calls c - llm_call_count c" arbitrary: c w rule: less_induct)
  case less
  have asked: "confined (se_repr env) (se_resolve env) r (effects w @ [ModelCall ms m])" for ms m
    using less.prems(2) by (rule confined_other) simp
  show ?case
  proof (cases rule: sub_loop_cases [of c env model w])
    case (tools resp c2 v out u)
    from tools(2) obtain ms m where v: "effects v = effects w @ [ModelCall ms m]" by blast
    have r2: "sub_registry c2 = Some r" using tools(5) less.prems(1) by simp
    have u: "confined (se_repr env) (se_resolve env) r (effects u) \<and> model_calls (effects u) = model_calls (effects w) + 1"
      using execute_tool_calls_confined [OF r2 _ tools(8)] asked v by simp
    show ?thesis
    proof (cases out)
      case (Inl e)
      with tools(1,9) u show ?thesis by simp
    next
      case (Inr c3)
      with execute_tool_calls_budget [of env c2 "resp_tool_calls resp" v c3 u] tools r2
      have c3: "max_llm_calls c3 = max_llm_calls c" "llm_call_count c3 = llm_call_count c + 1" "sub_registry c3 = Some r"
        by simp_all
      then have "max_llm_calls c3 - llm_call_count c3 < max_llm_calls c - llm_call_count c" using tools(1) by simp
      from less.hyps [OF this c3(3), of u] u c3 tools(1,9) Inr show ?thesis by (simp add: Suc_diff_Suc)
    qed
  next
    case (finished resp c2 v)
    then obtain ms m where "effects v = effects w @ [ModelCall ms m]" by blast
    with finished end_conversation_effects [of env c2 resp v] asked show ?thesis by simp
  next
    case (failed e v)
    with asked show ?thesis by auto
  qed (use less.prems in auto)
qed

text \<open>C23. A sub-agent stays inside its registry, whatever the model asks for. Every call that
  reaches the base tools is of a tool of its role, a file it reads or writes resolves to one
  of the allowed files, and where there is a consent gateway a command runs only right after
  the gateway has allowed that command with those arguments. And the run ends: the model is
  asked at most as often as the budget says.\<close>

theorem subagent_confined:
  assumes "confined (se_repr env) (se_resolve env) (factory c) (effects w)" "llm_call_count c = 0"
  shows "confined (se_repr env) (se_resolve env) (factory c) (effects (snd (run_subagent env (Some factory) c w))) \<and>
    model_calls (effects (snd (run_subagent env (Some factory) c w))) \<le> model_calls (effects w) + max_llm_calls c"
proof (cases "se_model env")
  case None
  with assms show ?thesis by (simp add: run_subagent_def)
next
  case (Some model)
  from assms Some show ?thesis
    using sub_loop_confined [of "c\<lparr>sub_registry := Some (factory c), sub_messages :=
      [[(''role'', PStr ''system''), (''content'', PStr (sub_system_prompt c))],
       [(''role'', PStr ''user''), (''content'', PStr (sub_task c))]]\<rparr>" "factory c" env w model]
    by (simp add: run_subagent_def Let_def)
qed

text \<open>
  The sample: an implementer whose model first asks for a file outside the list, a command the
  gateway refuses and one it allows, and then answers. Paths resolve by dropping \<open>./\<close>.
\<close>

definition sample_call :: "string \<Rightarrow> (string \<times> string) list \<Rightarrow> pyval dict" where
  "sample_call name args = [(''id'', PStr ''t''), (''name'', PStr name),
     (''arguments'', PDict (map (\<lambda>(k, v). (k, PStr v)) args))]"

definition sample_sub_model :: "pyval dict list \<Rightarrow> string \<Rightarrow> string \<Rightarrow> pyval option \<Rightarrow> router_response answers" where
  "sample_sub_model ms prompt mode tools n = Inr (if n = 0
     then \<lparr>resp_content = [], resp_tool_calls = [sample_call ''file_read'' [(''path'', ''secret'')],
       sample_call ''file_read'' [(''path'', ''./a'')],
       sample_call ''execute_command'' [(''cmd'', ''rm'')], sample_call ''execute_command'' [(''cmd'', ''ls'')]]\<rparr>
     else \<lparr>resp_content = ''ready'', resp_tool_calls = []\<rparr>)"

definition sample_sub_env :: subagent_env where
  "sample_sub_env = \<lparr>se_repr = (\<lambda>_. []), se_resolve = (\<lambda>p. Some (if starts_with ''./'' p then drop 2 p else p)),
     se_loads = (\<lambda>_. None), se_dumps = (\<lambda>_. ''{}''), se_model = Some sample_sub_model, interrupt = (\<lambda>_. False)\<rparr>"

definition sample_sub_registry :: "subagent_context \<Rightarrow> restricted_registry" where
  "sample_sub_registry c = \<lparr>rr_base = BaseInvoke (\<lambda>_ _ _ _. Inr (PStr ''result'')), rr_tools = [], rr_files = sub_files c,
     rr_role = sub_role c, rr_gateway = Some (Checker (\<lambda>_ args _ _.
       Inr (PDict [(''allowed'', PBool (pget args ''cmd'' = PStr ''ls''))])))\<rparr>"

definition sample_subagent :: subagent_context where
  "sample_subagent = spawn_subagent ''sub'' ''s'' ''implementer'' ''task'' [''a''] [] ''local_only'' 3 None None"

lemma sample_sub_run:
  "filter (\<lambda>e. case e of ModelCall _ _ \<Rightarrow> False | _ \<Rightarrow> True)
      (effects (snd (run_subagent sample_sub_env (Some sample_sub_registry) sample_subagent \<lparr>effects = [], flag_reads = 0\<rparr>))) =
     [BaseCall ''file_read'' [(''path'', PStr ''./a'')],
      Consented ''execute_command'' [(''cmd'', PStr ''rm'')] False,
      Consented ''execute_command'' [(''cmd'', PStr ''ls'')] True,
      BaseCall ''execute_command'' [(''cmd'', PStr ''ls'')]]"
  by code_simp

theorem subagent_confined_witness:
  "confined (\<lambda>_. []) (\<lambda>p. Some (if starts_with ''./'' p then drop 2 p else p)) (sample_sub_registry sample_subagent)
     (effects (snd (run_subagent sample_sub_env (Some sample_sub_registry) sample_subagent \<lparr>effects = [], flag_reads = 0\<rparr>)))"
  using subagent_confined [of sample_sub_env sample_sub_registry sample_subagent "\<lparr>effects = [], flag_reads = 0\<rparr>"]
  by (simp add: confined_def sample_sub_env_def sample_subagent_def spawn_subagent_def)

section \<open>Reviews and exhausted budgets\<close>

text \<open>The review that counts as an approval.\<close>

definition approves :: "subagent_env \<Rightarrow> string \<Rightarrow> bool" where
  "approves env text \<longleftrightarrow> (\<exists>t d. extract_json text = Some t \<and> se_loads env t = Some (PDict d) \<and> truthy (pget d ''approved''))"

lemma end_conversation_approved:
  assumes "sr_approved (fst (end_conversation env c resp w)) = Some True"
  shows "sub_role c = ''reviewer'' \<and> approves env (sr_output (fst (end_conversation env c resp w)))"
  using assms
  by (auto simp: end_conversation_def parse_reviewer_result_def read_flag_def sub_result_def approves_def Let_def bind_eq_Some_conv
      split: if_splits option.splits pyval.splits)

lemma sub_loop_approved:
  assumes "sub_loop env model c w = (Inr res, w')" "sr_approved res = Some True"
  shows "sub_role c = ''reviewer'' \<and> approves env (sr_output res)"
  using assms
proof (induction "max_llm_calls c - llm_call_count c" arbitrary: c w rule: less_induct)
  case less
  show ?case
  proof (cases rule: sub_loop_cases [of c env model w])
    case (tools resp c2 v out u)
    with less.prems(1) obtain c3 where c3: "out = Inr c3" "sub_loop env model c3 u = (Inr res, w')" by (cases out) auto
    with execute_tool_calls_budget [of env c2 "resp_tool_calls resp" v c3 u] tools
    have "max_llm_calls c3 - llm_call_count c3 < max_llm_calls c - llm_call_count c" "sub_role c3 = sub_role c" by simp_all
    with less.hyps [OF _ c3(2) less.prems(2)] show ?thesis by simp
  next
    case (finished resp c2 v)
    with less.prems end_conversation_approved [of env c2 resp v] show ?thesis by (cases "end_conversation env c2 resp v") simp
  qed (use less.prems in \<open>auto simp: exhausted_def sub_result_def Let_def split: if_splits\<close>)
qed

text \<open>
  Once the budget is spent the last message is never the assistant's: it is the answer of a
  tool, or the task. The branch that keeps the last content is never taken, and the partial
  work of a sub-agent that runs out of calls is lost.
\<close>

definition no_answer_pending :: "subagent_context \<Rightarrow> bool" where
  "no_answer_pending c \<longleftrightarrow> (case rev (sub_messages c) of m # _ \<Rightarrow> pget m ''role'' \<noteq> PStr ''assistant'' | [] \<Rightarrow> True)"

lemma no_answer_pending_simps [simp]:
  "no_answer_pending (c\<lparr>sub_messages := ms @ [m]\<rparr>) \<longleftrightarrow> pget m ''role'' \<noteq> PStr ''assistant''"
  "no_answer_pending (c\<lparr>sub_messages := [m', m]\<rparr>) \<longleftrightarrow> pget m ''role'' \<noteq> PStr ''assistant''"
  "no_answer_pending (c\<lparr>sub_registry := r, sub_messages := [m', m]\<rparr>) \<longleftrightarrow> pget m ''role'' \<noteq> PStr ''assistant''"
  by (simp_all add: no_answer_pending_def)

lemma execute_tool_calls_answered:
  "execute_tool_calls env c ts w = (Inr c', w') \<Longrightarrow> ts \<noteq> [] \<or> no_answer_pending c \<Longrightarrow> no_answer_pending c'"
proof (induction ts arbitrary: c w)
  case (Cons t ts)
  obtain res v where one: "execute_tool_call env c t w = (res, v)" by fastforce
  with Cons.prems(1) obtain result where "res = Inr result" by (cases res) auto
  with one Cons.prems(1) show ?case by (intro Cons.IH [of _ v]) (auto simp: pget_def dget_or_def)
qed simp

lemma sub_loop_timeout:
  assumes "sub_loop env model c w = (Inr res, w')" "no_answer_pending c" "sr_status res = ''timeout''"
  shows "sr_output res = []"
  using assms
proof (induction "max_llm_calls c - llm_call_count c" arbitrary: c w rule: less_induct)
  case less
  show ?case
  proof (cases rule: sub_loop_cases [of c env model w])
    case (tools resp c2 v out u)
    with less.prems(1) obtain c3 where c3: "out = Inr c3" "sub_loop env model c3 u = (Inr res, w')" by (cases out) auto
    with execute_tool_calls_budget [of env c2 "resp_tool_calls resp" v c3 u] tools
    have "max_llm_calls c3 - llm_call_count c3 < max_llm_calls c - llm_call_count c" by simp
    moreover have "no_answer_pending c3" using execute_tool_calls_answered tools(7,8) c3(1) by blast
    ultimately show ?thesis using less.hyps [OF _ c3(2) _ less.prems(3)] by blast
  next
    case (finished resp c2 v)
    with less.prems(1,3) show ?thesis
      by (auto simp: end_conversation_def parse_reviewer_result_def read_flag_def sub_result_def Let_def split: if_splits)
  next
    case spent
    with less.prems(1,2) show ?thesis
      by (auto simp: exhausted_def sub_result_def no_answer_pending_def Let_def split: list.splits)
  qed (use less.prems in \<open>auto simp: sub_result_def split: if_splits\<close>)
qed

text \<open>A run that exhausts its budget returns no output, whatever the model had written before.\<close>

lemma timeout_output_empty:
  assumes "run_subagent env f c w = (Inr res, w')" "sr_status res = ''timeout''"
  shows "sr_output res = []"
proof (cases "se_model env")
  case None
  with assms show ?thesis by (auto simp: run_subagent_def sub_result_def)
next
  case (Some model)
  with assms(1) obtain d where "sub_loop env model d w = (Inr res, w')" "no_answer_pending d"
    by (cases f) (fastforce simp: run_subagent_def Let_def pget_def dget_or_def intro: that)+
  from sub_loop_timeout [OF this assms(2)] show ?thesis .
qed

text \<open>A sub-agent's work is approved only by a review. A run that ends with
  \<open>approved=True\<close> is a reviewer's, its output holds a JSON object, bare or in a fence, and
  the object's \<open>approved\<close> is truthy: an answer without such an object, an interruption before
  it, a spent budget, an error of the router and the stub never approve.\<close>

theorem reviewer_approval_sound:
  assumes "run_subagent env f c w = (Inr res, w')" "sr_approved res = Some True"
  shows "sub_role c = ''reviewer'' \<and> approves env (sr_output res)"
proof (cases "se_model env")
  case None
  with assms show ?thesis by (auto simp: run_subagent_def sub_result_def)
next
  case (Some model)
  with assms(1) obtain d where "sub_loop env model d w = (Inr res, w')" "sub_role d = sub_role c"
    by (cases f) (auto simp: run_subagent_def Let_def)
  from sub_loop_approved [OF this(1) assms(2)] this(2) show ?thesis by simp
qed

text \<open>
  Truthy, not true: a reviewer that answers \<open>{"approved": "false"}\<close> approves.
\<close>

definition sample_review :: string where
  "sample_review = ''Review: '' @ fence @ ''json{...}'' @ fence"

definition sample_review_env :: subagent_env where
  "sample_review_env = sample_sub_env\<lparr>
     se_loads := (\<lambda>t. if t = ''{...}'' then Some (PDict [(''approved'', PStr ''false'')]) else None),
     se_model := Some (\<lambda>_ _ _ _ _. Inr \<lparr>resp_content = sample_review, resp_tool_calls = []\<rparr>)\<rparr>"

definition sample_reviewer :: subagent_context where
  "sample_reviewer = spawn_subagent ''sub'' ''s'' ''reviewer'' ''task'' [''a''] [] ''local_only'' 3 None None"

lemma review_false_text_approves:
  "map_sum id (\<lambda>res. (sr_status res, sr_output res, sr_approved res))
     (fst (run_subagent sample_review_env None sample_reviewer \<lparr>effects = [], flag_reads = 0\<rparr>)) =
   Inr (''completed'', sample_review, Some True)"
  by code_simp

theorem reviewer_approval_sound_witness:
  "approves sample_review_env sample_review"
proof -
  obtain res w' where run: "run_subagent sample_review_env None sample_reviewer \<lparr>effects = [], flag_reads = 0\<rparr> = (Inr res, w')"
    using review_false_text_approves
    by (cases "run_subagent sample_review_env None sample_reviewer \<lparr>effects = [], flag_reads = 0\<rparr>"; cases "fst (run_subagent sample_review_env None sample_reviewer \<lparr>effects = [], flag_reads = 0\<rparr>)") auto
  with review_false_text_approves have "sr_output res = sample_review" "sr_approved res = Some True" by simp_all
  with reviewer_approval_sound [OF run] show ?thesis by simp
qed

end
