(* ===== verification/Consent_Gateway.thy ===== *)
theory Consent_Gateway
  imports Plan_World
begin

text \<open>
  The consent gateway (\<open>UIHostConsentGateway\<close> in \<open>shell/outbound_manager/a3_gateway.py\<close>) and the
  check of consent artifacts (\<open>shell/outbound_manager/consent.py\<close>).

  A request is pending until it is decided, at once by the decision provider or later by the
  user. \<open>gw_log\<close> records what leaves the gateway, and what the tools on top of it do, in one
  order. The identifiers of \<open>uuid4\<close>, the clock, the provider and the event stream are functions;
  the stream may refuse an event. An artifact is a JSON value, so storing it does not fail.
\<close>

section \<open>State\<close>

text \<open>
  \<open>Asked\<close> to \<open>Emitted\<close> are the gateway's: a request, a decision, an artifact written to the
  database, an event. The others are those of the tool invoker: what the registry answered for
  a tool in a mode, a run of a handler or an endpoint, and the answer with which the host
  resumes a request.
\<close>

datatype tool_effect =
    Asked string consent_request
  | Decided string bool
  | Stored "pyval dict"
  | Emitted string "pyval dict"
  | Checked string bool string
  | Handled string "string option" "pyval dict"
  | Posted string string "pyval dict"
  | Resumed string bool

record pending_consent =
  pc_id :: string
  pc_request :: consent_request
  pc_artifact :: "pyval dict"
  pc_session :: "string option"
  pc_decided :: bool
  pc_allowed :: bool

record consent_gateway =
  gw_session :: "string option"
  gw_stream :: bool
  gw_pending :: "pending_consent dict"
  gw_last :: "pyval dict option"
  gw_draws :: nat
  gw_log :: "tool_effect list"

record gateway_env =
  ge_uuid :: "nat \<Rightarrow> string"
  ge_clock :: clock
  ge_repr :: "pyval \<Rightarrow> string"
  ge_decide :: "(pyval dict \<Rightarrow> nat \<Rightarrow> exn + bool) option"
  ge_append :: "string \<Rightarrow> pyval dict \<Rightarrow> nat \<Rightarrow> exn option"
  ge_db :: bool

section \<open>Artifacts\<close>

definition purpose_types :: "string list" where
  "purpose_types = [''skill_network_egress'', ''skill_file_access'', ''skill_code_execution'',
     ''skill_cloud_inference'', ''skill_invoke'', ''cloud_routing'', ''sandbox_downgrade'',
     ''native_risk_prompt'', ''plugin_high_risk_skill'', ''tool_external_enable'', ''tool_use'',
     ''agent_toolbox_high_risk'']"

definition purpose_for_request :: "(pyval \<Rightarrow> string) \<Rightarrow> consent_request \<Rightarrow> string" where
  "purpose_for_request rp r =
    (let raw = (if cr_purpose_type r \<noteq> [] then PStr (cr_purpose_type r)
                else if truthy (pget (cr_metadata r) ''purpose_type'') then pget (cr_metadata r) ''purpose_type''
                else PStr []);
         explicit = strip (py_str rp raw);
         skill = lower (cr_skill_id r)
     in if explicit \<noteq> [] then explicit
        else if contains ''network'' skill \<or> contains ''egress'' skill then ''skill_network_egress''
        else if contains ''file'' skill then ''skill_file_access''
        else if contains ''code'' skill \<or> contains ''exec'' skill then ''skill_code_execution''
        else if contains ''cloud'' skill then ''skill_cloud_inference''
        else if cr_risk_level r = ''high'' then ''plugin_high_risk_skill''
        else ''native_risk_prompt'')"

definition build_consent_artifact :: "(pyval \<Rightarrow> string) \<Rightarrow> pyfloat \<Rightarrow> consent_request \<Rightarrow> string \<Rightarrow> string \<Rightarrow> pyval dict" where
  "build_consent_artifact rp now r decision rid =
    [(''request_id'', PStr rid), (''scope'', PStr ''this_turn''), (''purpose'', PStr (purpose_for_request rp r)),
     (''user_decision'', PStr decision), (''timestamp'', PFloat now), (''data_category'', PStr ''plan_step''),
     (''plan_id'', PStr (cr_plan_id r)), (''step_id'', PStr (cr_step_id r)), (''skill_id'', PStr (cr_skill_id r)),
     (''operation'', PStr (cr_operation r)), (''risk_level'', PStr (cr_risk_level r)),
     (''impact_scope'', PStr (cr_impact_scope r)), (''source'', PStr (cr_source r)),
     (''metadata'', PDict (cr_metadata r))]"

definition required_artifact_keys :: "string list" where
  "required_artifact_keys =
    [''data_category'', ''purpose'', ''request_id'', ''scope'', ''timestamp'', ''user_decision'']"

definition bad_purpose :: string where
  "bad_purpose =
     ''purpose/purpose_type '' @ [CHR 0xE5, CHR 0xBF, CHR 0x85, CHR 0xE9, CHR 0xA1, CHR 0xBB,
     CHR 0xE4, CHR 0xB8, CHR 0xBA, CHR 0xE5, CHR 0x90, CHR 0x88, CHR 0xE6, CHR 0xB3, CHR 0x95]
     @ '' PurposeType '' @ [CHR 0xE6, CHR 0x9E, CHR 0x9A, CHR 0xE4, CHR 0xB8, CHR 0xBE, CHR
     0xE5, CHR 0x80, CHR 0xBC, CHR 0xEF, CHR 0xBC, CHR 0x8C, CHR 0xE5, CHR 0xBD, CHR 0x93, CHR
     0xE5, CHR 0x89, CHR 0x8D, CHR 0xE4, CHR 0xB8, CHR 0xBA] @ '' ''"

definition validate_consent_artifact :: "(pyval \<Rightarrow> string) \<Rightarrow> pyval dict \<Rightarrow> exn + pyval dict" where
  "validate_consent_artifact rp a =
    (let missing = filter (\<lambda>k. dget a k = None) required_artifact_keys;
         purpose = (if truthy (pget a ''purpose'') then pget a ''purpose'' else pget a ''purpose_type'');
         bad = (\<lambda>text. Inl (Exn (AppError ''ConsentArtifactError'') text))
     in if missing \<noteq> [] then bad (''Consent artifact missing keys: '' @ rp (PList (map PStr missing)))
        else if \<not> (case pget a ''request_id'' of PStr _ \<Rightarrow> True | _ \<Rightarrow> False) then bad ''request_id must be str''
        else if \<not> (case purpose of PStr p \<Rightarrow> p \<in> set purpose_types | _ \<Rightarrow> False) then bad (bad_purpose @ rp purpose)
        else if \<not> (case pget a ''scope'' of PStr s \<Rightarrow> strip s \<noteq> [] | _ \<Rightarrow> False) then bad ''scope must be a non-empty str''
        else Inr (dsetdefault a ''purpose_type'' purpose))"

section \<open>The gateway\<close>

text \<open>\<open>self.event_stream.append\<close>, when there is a stream.\<close>

definition emit_event :: "'e gateway_env_scheme \<Rightarrow> string \<Rightarrow> pyval dict \<Rightarrow> 'g consent_gateway_scheme
    \<Rightarrow> exn option \<times> 'g consent_gateway_scheme" where
  "emit_event env kind payload w =
    (if \<not> gw_stream w then (None, w)
     else (case ge_append env kind payload (length (gw_log w)) of
         Some e \<Rightarrow> (Some e, w)
       | None \<Rightarrow> (None, w\<lparr>gw_log := gw_log w @ [Emitted kind payload]\<rparr>)))"

definition is_visible :: "'g consent_gateway_scheme \<Rightarrow> pending_consent \<Rightarrow> bool" where
  "is_visible w p = (gw_session w = None \<or> pc_session p = None \<or> pc_session p = gw_session w)"

definition get_pending :: "string option \<Rightarrow> 'g consent_gateway_scheme \<Rightarrow> pending_consent option" where
  "get_pending rid w = (case rid of
      Some i \<Rightarrow> (case dget (gw_pending w) i of
          None \<Rightarrow> None
        | Some p \<Rightarrow> if is_visible w p then Some p else None)
    | None \<Rightarrow> find (\<lambda>p. \<not> pc_decided p \<and> is_visible w p) (rev (map snd (gw_pending w))))"

definition store_artifact :: "'e gateway_env_scheme \<Rightarrow> string \<Rightarrow> pending_consent \<Rightarrow> 'g consent_gateway_scheme
    \<Rightarrow> (exn + pyval dict) \<times> 'g consent_gateway_scheme" where
  "store_artifact env rid p w =
    (if \<not> ge_db env then (Inr (pc_artifact p), w)
     else (case validate_consent_artifact (ge_repr env) (pc_artifact p) of
         Inl e \<Rightarrow> (Inl e, w)
       | Inr a \<Rightarrow> (Inr a, w\<lparr>gw_pending := dset (gw_pending w) rid (p\<lparr>pc_artifact := a\<rparr>), gw_last := Some a,
           gw_log := gw_log w @ [Stored a]\<rparr>)))"

definition decide_request :: "'e gateway_env_scheme \<Rightarrow> string \<Rightarrow> bool \<Rightarrow> 'g consent_gateway_scheme
    \<Rightarrow> (exn + pyval dict) \<times> 'g consent_gateway_scheme" where
  "decide_request env rid granted w = (case get_pending (Some rid) w of
      None \<Rightarrow> (Inl (Exn KeyError (''unknown consent request_id: '' @ rid)), w)
    | Some p \<Rightarrow>
        let decision = (if granted then ''allow'' else ''deny'');
            a = dset (dset (dset (pc_artifact p) ''user_decision'' (PStr decision)) ''allowed'' (PBool granted))
                  ''timestamp'' (PFloat (ge_clock env (gw_draws w)));
            p = p\<lparr>pc_artifact := a, pc_decided := True, pc_allowed := granted\<rparr>;
            w = w\<lparr>gw_pending := dset (gw_pending w) rid p, gw_last := Some a, gw_draws := gw_draws w + 1,
                  gw_log := gw_log w @ [Decided rid granted]\<rparr>
        in case emit_event env ''consent/decided''
               [(''request_id'', PStr rid), (''plan_id'', PStr (cr_plan_id (pc_request p))),
                (''step_id'', PStr (cr_step_id (pc_request p))), (''allowed'', PBool granted),
                (''decision'', PStr decision), (''trace_id'', pget (cr_metadata (pc_request p)) ''trace_id'')] w of
             (Some e, w) \<Rightarrow> (Inl e, w)
           | (None, w) \<Rightarrow> store_artifact env rid p w)"

definition submit_request :: "'e gateway_env_scheme \<Rightarrow> consent_request \<Rightarrow> 'g consent_gateway_scheme
    \<Rightarrow> (exn + bool) \<times> 'g consent_gateway_scheme" where
  "submit_request env r w =
    (let rid = ge_uuid env (gw_draws w);
         a = build_consent_artifact (ge_repr env) (ge_clock env (gw_draws w + 1)) r ''pending'' rid;
         p = \<lparr>pc_id = rid, pc_request = r, pc_artifact = a, pc_session = gw_session w, pc_decided = False, pc_allowed = False\<rparr>;
         w = w\<lparr>gw_pending := dset (gw_pending w) rid p, gw_last := Some a, gw_draws := gw_draws w + 2,
               gw_log := gw_log w @ [Asked rid r]\<rparr>
     in case emit_event env ''consent/asked''
            [(''request_id'', PStr rid), (''plan_id'', PStr (cr_plan_id r)), (''step_id'', PStr (cr_step_id r)),
             (''purpose'', PStr (purpose_for_request (ge_repr env) r)), (''risk_level'', PStr (cr_risk_level r)),
             (''trace_id'', pget (cr_metadata r) ''trace_id'')] w of
          (Some e, w) \<Rightarrow> (Inl e, w)
        | (None, w) \<Rightarrow> (case ge_decide env of
              None \<Rightarrow> (Inr False, w)
            | Some provider \<Rightarrow> (case provider a (length (gw_log w)) of
                  Inl e \<Rightarrow> (Inl e, w)
                | Inr granted \<Rightarrow> (case decide_request env rid granted w of
                      (Inl e, w) \<Rightarrow> (Inl e, w)
                    | (Inr _, w) \<Rightarrow> (Inr granted, w)))))"

definition bind_session_context :: "string \<Rightarrow> bool \<Rightarrow> 'g consent_gateway_scheme \<Rightarrow> 'g consent_gateway_scheme" where
  "bind_session_context session stream w = w\<lparr>gw_session := Some session, gw_stream := stream\<rparr>"

text \<open>The texts of the dialog, in Chinese.\<close>

definition modal_title :: string where
  "modal_title =
     [CHR 0xE5, CHR 0x87, CHR 0xBA, CHR 0xE7, CHR 0xAB, CHR 0x99, CHR 0xE5, CHR 0x90, CHR 0x8C,
     CHR 0xE6, CHR 0x84, CHR 0x8F]"

definition modal_empty :: string where
  "modal_empty =
     [CHR 0xE5, CHR 0xBD, CHR 0x93, CHR 0xE5, CHR 0x89, CHR 0x8D, CHR 0xE6, CHR 0xB2, CHR 0xA1,
     CHR 0xE6, CHR 0x9C, CHR 0x89, CHR 0xE5, CHR 0xBE, CHR 0x85, CHR 0xE5, CHR 0xAE, CHR 0xA1,
     CHR 0xE6, CHR 0x89, CHR 0xB9, CHR 0xE8, CHR 0xAF, CHR 0xB7, CHR 0xE6, CHR 0xB1, CHR 0x82,
     CHR 0xE3, CHR 0x80, CHR 0x82]"

definition modal_step :: string where
  "modal_step =
     [CHR 0xE4, CHR 0xBB, CHR 0xBB, CHR 0xE5, CHR 0x8A, CHR 0xA1, CHR 0xE6, CHR 0xAD, CHR 0xA5,
     CHR 0xE9, CHR 0xAA, CHR 0xA4, CHR 0xE9, CHR 0x9C, CHR 0x80, CHR 0xE8, CHR 0xA6, CHR 0x81,
     CHR 0xE5, CHR 0xAE, CHR 0xA1, CHR 0xE6, CHR 0x89, CHR 0xB9]"

definition modal_plan :: string where
  "modal_plan =
     [CHR 0xE8, CHR 0xAE, CHR 0xA1, CHR 0xE5, CHR 0x88, CHR 0x92] @ '': ''"

definition modal_step_id :: string where
  "modal_step_id =
     [CHR 0x0A, CHR 0xE6, CHR 0xAD, CHR 0xA5, CHR 0xE9, CHR 0xAA, CHR 0xA4] @ '': ''"

definition modal_skill :: string where
  "modal_skill =
     [CHR 0x0A, CHR 0xE6, CHR 0x8A, CHR 0x80, CHR 0xE8, CHR 0x83, CHR 0xBD] @ '': ''"

definition modal_operation :: string where
  "modal_operation =
     [CHR 0x0A, CHR 0xE6, CHR 0x93, CHR 0x8D, CHR 0xE4, CHR 0xBD, CHR 0x9C] @ '': ''"

definition modal_risk :: string where
  "modal_risk =
     [CHR 0x0A, CHR 0xE9, CHR 0xA3, CHR 0x8E, CHR 0xE9, CHR 0x99, CHR 0xA9, CHR 0xE7, CHR 0xAD,
     CHR 0x89, CHR 0xE7, CHR 0xBA, CHR 0xA7] @ '': ''"

definition modal_impact :: string where
  "modal_impact =
     [CHR 0x0A, CHR 0xE5, CHR 0xBD, CHR 0xB1, CHR 0xE5, CHR 0x93, CHR 0x8D, CHR 0xE8, CHR 0x8C,
     CHR 0x83, CHR 0xE5, CHR 0x9B, CHR 0xB4] @ '': ''"

definition to_modal_payload :: "string option \<Rightarrow> 'g consent_gateway_scheme \<Rightarrow> pyval dict" where
  "to_modal_payload rid w = (case get_pending rid w of
      None \<Rightarrow> [(''title'', PStr modal_title), (''body'', PStr modal_empty), (''purpose_type'', PStr ''native_risk_prompt'')]
    | Some p \<Rightarrow> (let r = pc_request p in
        [(''title'', PStr modal_step),
         (''body'', PStr (modal_plan @ cr_plan_id r @ modal_step_id @ cr_step_id r @ modal_skill @ cr_skill_id r @
            modal_operation @ cr_operation r @ modal_risk @ cr_risk_level r @ modal_impact @ cr_impact_scope r)),
         (''purpose_type'', pget (pc_artifact p) ''purpose''), (''request_id'', PStr (pc_id p)),
         (''plan_id'', PStr (cr_plan_id r)), (''step_id'', PStr (cr_step_id r)), (''skill_id'', PStr (cr_skill_id r)),
         (''risk_level'', PStr (cr_risk_level r)), (''status'', PStr (if pc_decided p then ''decided'' else ''pending'')),
         (''allowed'', if pc_decided p then PBool (pc_allowed p) else PNone)]))"

end
