(* ===== verification/Tool_Registry.thy ===== *)
theory Tool_Registry
  imports Consent_Gateway
begin

text \<open>
  The registry of tools (\<open>shell/tool_registry/registry.py\<close>): builtin tools with their handlers,
  external tools from a configuration, and the permission of a tool in a privacy mode. The YAML
  reader is outside: the configuration is the value it returns. A handler is a function, given
  the session if it asked for one, its parameters and the number of the call.
\<close>

record tool_manifest =
  tm_id :: string
  tm_display_name :: string
  tm_description :: string
  tm_type :: string
  tm_permission :: string
  tm_scope :: string
  tm_params_schema :: "pyval dict"
  tm_return_schema :: "pyval dict"
  tm_handler_module :: "string option"
  tm_handler_function :: "string option"
  tm_external_config :: "string option"
  tm_version :: string
  tm_audit_only :: bool
  tm_enabled :: bool
  tm_endpoint :: "string option"
  tm_algorithm_names :: "string list"
  tm_trigger_keywords :: "string list"

text \<open>What a handler does: its result, a \<open>ToolBlockedError\<close> with its data, another exception.\<close>

datatype handler_outcome =
    Returned "pyval dict"
  | BlockedBy string "pyval dict"
  | Raised exn

type_synonym tool_handler = "string option \<Rightarrow> pyval dict \<Rightarrow> nat \<Rightarrow> handler_outcome"

record tool_registry =
  tools :: "tool_manifest dict"
  handlers :: "tool_handler dict"
  session_tools :: "string list"

definition network_scopes :: "string list" where
  "network_scopes = [''network_egress'', ''cloud_inference'']"

text \<open>
  The argument of the enum type: a member, or a plain text that a caller passes in its place;
  \<open>is\<close> is false for the text even when it is the value of the member.
\<close>

datatype mode_argument = Member string | Text string

definition is_local_only :: "mode_argument \<Rightarrow> bool" where
  "is_local_only mode = (mode = Member ''local_only'')"

definition register_builtin :: "tool_manifest \<Rightarrow> tool_handler \<Rightarrow> bool \<Rightarrow> tool_registry \<Rightarrow> (exn + unit) \<times> tool_registry" where
  "register_builtin m h inject r =
    (if tm_type m \<noteq> ''builtin'' then
       (Inl (Exn ValueError (''builtin registration requires tool_type='' @ [CHR 0x27] @ ''builtin'' @ [CHR 0x27])), r)
     else if tm_permission m = ''deny'' then
       (Inl (Exn ValueError (''builtin tool with permission='' @ [CHR 0x27] @ ''deny'' @ [CHR 0x27] @ '' should not be registered'')), r)
     else (Inr (), r\<lparr>tools := dset (tools r) (tm_id m) m, handlers := dset (handlers r) (tm_id m) h,
             session_tools := (if inject then append_new (tm_id m) (session_tools r) else session_tools r)\<rparr>))"

definition mapping_field :: "pyval \<Rightarrow> pyval dict" where
  "mapping_field v = (case v of PDict d \<Rightarrow> d | _ \<Rightarrow> [])"

definition tuple_field :: "(pyval \<Rightarrow> string) \<Rightarrow> pyval \<Rightarrow> string list" where
  "tuple_field rp v = (case v of
      PList xs \<Rightarrow> filter (\<lambda>s. s \<noteq> []) (map (\<lambda>x. strip (py_str rp x)) xs)
    | _ \<Rightarrow> [])"

text \<open>\<open>str(item.get(k) or default)\<close>\<close>

definition text_or_default :: "(pyval \<Rightarrow> string) \<Rightarrow> pyval dict \<Rightarrow> string \<Rightarrow> string \<Rightarrow> string" where
  "text_or_default rp d k default_text = (if truthy (pget d k) then py_str rp (pget d k) else default_text)"

definition external_manifest :: "(pyval \<Rightarrow> string) \<Rightarrow> pyval \<Rightarrow> exn + tool_manifest" where
  "external_manifest rp item = (case item of
      PDict d \<Rightarrow>
        (let permission = text_or_default rp d ''permission'' ''deny'';
             tid = strip (text_or_default rp d ''tool_id'' []);
             endpoint = strip (text_or_default rp d ''endpoint'' [])
         in if permission = ''allow'' then
              Inl (Exn ValueError (''external tool permission cannot be '' @ [CHR 0x27] @ ''allow'' @ [CHR 0x27]))
            else if permission \<notin> {''ask'', ''deny''} then
              Inl (Exn ValueError (''unsupported external tool permission: '' @ permission))
            else if tid = [] \<or> endpoint = [] then
              Inl (Exn ValueError ''external tool requires non-empty tool_id and endpoint'')
            else Inr \<lparr>tm_id = tid, tm_display_name = text_or_default rp d ''display_name'' tid,
              tm_description = text_or_default rp d ''description'' [], tm_type = ''external'',
              tm_permission = permission, tm_scope = text_or_default rp d ''scope'' ''network_egress'',
              tm_params_schema = mapping_field (pget d ''params_schema''), tm_return_schema = mapping_field (pget d ''return_schema''),
              tm_handler_module = None, tm_handler_function = None, tm_external_config = Some tid,
              tm_version = text_or_default rp d ''version'' ''0.1.0'', tm_audit_only = True,
              tm_enabled = truthy (dget_or d ''enabled'' (PBool False)), tm_endpoint = Some endpoint,
              tm_algorithm_names = tuple_field rp (pget d ''algorithm_names''),
              tm_trigger_keywords = tuple_field rp (pget d ''trigger_keywords'')\<rparr>)
    | _ \<Rightarrow> Inl (Exn TypeError ''external tool item must be a mapping''))"

text \<open>The tools read before an item that is refused stay registered.\<close>

fun load_items :: "(pyval \<Rightarrow> string) \<Rightarrow> pyval list \<Rightarrow> tool_registry \<Rightarrow> (exn + tool_manifest list) \<times> tool_registry" where
  "load_items rp [] r = (Inr [], r)"
| "load_items rp (item # items) r = (case external_manifest rp item of
      Inl e \<Rightarrow> (Inl e, r)
    | Inr m \<Rightarrow> (case load_items rp items (r\<lparr>tools := dset (tools r) (tm_id m) m\<rparr>) of
          (Inl e, r') \<Rightarrow> (Inl e, r')
        | (Inr ms, r') \<Rightarrow> (Inr (m # ms), r')))"

text \<open>\<open>None\<close> is a configuration file that does not exist.\<close>

definition load_external :: "(pyval \<Rightarrow> string) \<Rightarrow> pyval option \<Rightarrow> tool_registry \<Rightarrow> (exn + tool_manifest list) \<times> tool_registry" where
  "load_external rp config r = (case config of
      None \<Rightarrow> (Inr [], r)
    | Some raw \<Rightarrow> (case py_iter (case raw of PDict d \<Rightarrow> dget_or d ''tools'' (PList []) | _ \<Rightarrow> PList []) of
          Inl e \<Rightarrow> (Inl e, r)
        | Inr items \<Rightarrow> load_items rp items r))"

definition require_manifest :: "string \<Rightarrow> tool_registry \<Rightarrow> exn + tool_manifest" where
  "require_manifest tid r = (case dget (tools r) tid of
      None \<Rightarrow> Inl (Exn KeyError (''unknown tool_id: '' @ tid))
    | Some m \<Rightarrow> Inr m)"

definition set_external_enabled :: "string \<Rightarrow> bool \<Rightarrow> tool_registry \<Rightarrow> (exn + tool_manifest) \<times> tool_registry" where
  "set_external_enabled tid enabled r = (case require_manifest tid r of
      Inl e \<Rightarrow> (Inl e, r)
    | Inr m \<Rightarrow> if tm_type m \<noteq> ''external'' then
          (Inl (Exn ValueError ''only external tools support enabled state changes''), r)
        else (let m = m\<lparr>tm_enabled := enabled\<rparr> in (Inr m, r\<lparr>tools := dset (tools r) tid m\<rparr>)))"

definition list_available :: "tool_registry \<Rightarrow> tool_manifest list" where
  "list_available r = filter (\<lambda>m. tm_permission m \<noteq> ''deny'' \<and> \<not> (tm_type m = ''external'' \<and> \<not> tm_enabled m))
     (map snd (tools r))"

definition algorithm_name_map :: "tool_registry \<Rightarrow> string list dict" where
  "algorithm_name_map r = dict_of (map (\<lambda>m. (tm_id m, tm_algorithm_names m))
     (filter (\<lambda>m. tm_algorithm_names m \<noteq> []) (list_available r)))"

definition trigger_keyword_map :: "tool_registry \<Rightarrow> string list dict" where
  "trigger_keyword_map r = dict_of (map (\<lambda>m. (tm_id m, tm_trigger_keywords m))
     (filter (\<lambda>m. tm_trigger_keywords m \<noteq> []) (list_available r)))"

definition algorithm_names :: "tool_registry \<Rightarrow> string set" where
  "algorithm_names r = set (filter (\<lambda>n. strip n \<noteq> []) (concat (map snd (algorithm_name_map r))))"

definition trigger_keywords :: "tool_registry \<Rightarrow> string set" where
  "trigger_keywords r = set (filter (\<lambda>n. strip n \<noteq> []) (concat (map snd (trigger_keyword_map r))))"

definition get_builtin_handler :: "string \<Rightarrow> tool_registry \<Rightarrow> exn + tool_handler" where
  "get_builtin_handler tid r = (case dget (handlers r) tid of
      None \<Rightarrow> Inl (Exn KeyError (''unknown builtin handler: '' @ tid))
    | Some h \<Rightarrow> Inr h)"

definition resolve_permission :: "string \<Rightarrow> mode_argument \<Rightarrow> tool_registry \<Rightarrow> exn + string" where
  "resolve_permission tid mode r = (case require_manifest tid r of
      Inl e \<Rightarrow> Inl e
    | Inr m \<Rightarrow> Inr (if is_local_only mode \<and> tm_scope m \<in> set network_scopes then ''deny''
        else if tm_type m = ''external'' \<and> \<not> tm_enabled m then ''deny''
        else tm_permission m))"

section \<open>What a registry guarantees\<close>

text \<open>
  An entry is stored under its own identifier and has one of the three permissions; a builtin
  tool has a handler and is not denied; an external tool has an endpoint and is never simply
  allowed.
\<close>

definition has_endpoint :: "tool_manifest \<Rightarrow> bool" where
  "has_endpoint m = (case tm_endpoint m of Some e \<Rightarrow> e \<noteq> [] | None \<Rightarrow> False)"

definition registry_ok :: "tool_registry \<Rightarrow> bool" where
  "registry_ok r \<longleftrightarrow> (\<forall>tid m. dget (tools r) tid = Some m \<longrightarrow> tm_id m = tid \<and> tm_type m \<in> {''builtin'', ''external''} \<and>
     tm_permission m \<in> {''allow'', ''ask'', ''deny''} \<and>
     (tm_type m = ''builtin'' \<longrightarrow> dget (handlers r) tid \<noteq> None \<and> tm_permission m \<noteq> ''deny'') \<and>
     (tm_type m = ''external'' \<longrightarrow> tm_permission m \<noteq> ''allow'' \<and> has_endpoint m))"

lemma has_endpoint_enabled [simp]: "has_endpoint (m\<lparr>tm_enabled := b\<rparr>) = has_endpoint m"
  by (simp add: has_endpoint_def)

lemma registry_okD:
  assumes "registry_ok r" "dget (tools r) tid = Some m"
  shows "tm_id m = tid" "tm_permission m \<in> {''allow'', ''ask'', ''deny''}" "tm_type m \<noteq> ''builtin'' \<Longrightarrow> tm_type m = ''external''"
    "tm_type m = ''builtin'' \<Longrightarrow> dget (handlers r) tid \<noteq> None"
    "tm_type m = ''builtin'' \<Longrightarrow> tm_permission m \<noteq> ''deny''"
    "tm_type m = ''external'' \<Longrightarrow> tm_permission m \<noteq> ''allow''"
    "tm_type m = ''external'' \<Longrightarrow> has_endpoint m"
  using assms by (auto simp: registry_ok_def)

lemma registry_ok_update:
  assumes "registry_ok r" "tm_type m = ''external''" "tm_permission m \<in> {''ask'', ''deny''}" "has_endpoint m"
  shows "registry_ok (r\<lparr>tools := dset (tools r) (tm_id m) m\<rparr>)"
  using assms by (auto simp: registry_ok_def)

lemma register_builtin_ok:
  "registry_ok r \<Longrightarrow> tm_permission m \<in> {''allow'', ''ask'', ''deny''} \<Longrightarrow> registry_ok (snd (register_builtin m h inject r))"
  by (auto simp: registry_ok_def register_builtin_def)

lemma external_manifest_ok:
  "external_manifest rp item = Inr m \<Longrightarrow>
    tm_type m = ''external'' \<and> tm_permission m \<in> {''ask'', ''deny''} \<and> has_endpoint m"
  by (auto simp: external_manifest_def has_endpoint_def Let_def split: pyval.splits if_splits)

lemma load_items_ok: "registry_ok r \<Longrightarrow> registry_ok (snd (load_items rp items r))"
proof (induction items arbitrary: r)
  case (Cons item items)
  show ?case
  proof (cases "external_manifest rp item")
    case (Inr m)
    from external_manifest_ok [OF this] Cons.prems
    have "registry_ok (r\<lparr>tools := dset (tools r) (tm_id m) m\<rparr>)" by (intro registry_ok_update) auto
    from Cons.IH [OF this] Inr show ?thesis
      by (cases "load_items rp items (r\<lparr>tools := dset (tools r) (tm_id m) m\<rparr>)"; cases "fst (load_items rp items (r\<lparr>tools := dset (tools r) (tm_id m) m\<rparr>))") auto
  qed (use Cons.prems in simp)
qed simp

lemma load_external_ok: "registry_ok r \<Longrightarrow> registry_ok (snd (load_external rp config r))"
  by (auto simp: load_external_def load_items_ok split: option.split sum.split)

lemma set_external_enabled_ok: "registry_ok r \<Longrightarrow> registry_ok (snd (set_external_enabled tid enabled r))"
  by (auto simp: set_external_enabled_def require_manifest_def registry_ok_def Let_def split: option.split)

lemma resolve_permission_allow:
  assumes "registry_ok r" "resolve_permission tid mode r = Inr ''allow''"
  shows "\<exists>m. dget (tools r) tid = Some m \<and> tm_type m = ''builtin'' \<and> tm_permission m = ''allow'' \<and>
    \<not> (is_local_only mode \<and> tm_scope m \<in> set network_scopes)"
proof -
  from assms(2) obtain m where m: "dget (tools r) tid = Some m" "tm_permission m = ''allow''"
    "\<not> (is_local_only mode \<and> tm_scope m \<in> set network_scopes)"
    by (auto simp: resolve_permission_def require_manifest_def split: option.splits if_splits)
  with registry_okD(3,6) [OF assms(1) m(1)] show ?thesis by auto
qed

end
