(* ===== verification/Tool_Invoker.thy ===== *)
theory Tool_Invoker
  imports Tool_Registry
begin

text \<open>
  The invoker of tools (\<open>shell/tool_registry/invoker.py\<close>) on top of the registry and the consent
  gateway: a tool is run at once, refused, or kept pending until the host resumes it with the
  user's answer.

  The world is the gateway's, extended by the registry and the pending actions. The answer of an
  external endpoint and \<open>json.loads\<close> are functions. Durations are left out.
\<close>

section \<open>State\<close>

record pending_action =
  pa_action :: string
  pa_tool :: string
  pa_params :: "pyval dict"
  pa_session :: string
  pa_mode :: mode_argument

record tool_result =
  tres_tool :: string
  tres_status :: string
  tres_result :: "pyval dict option"
  tres_error :: "(string \<times> string) option"
  tres_request :: "string option"
  tres_audit :: "pyval dict"

record tool_world = consent_gateway +
  tw_registry :: tool_registry
  tw_actions :: "pending_action dict"

record tool_env = gateway_env +
  te_gateway :: bool
  te_stream :: bool
  te_post :: "string \<Rightarrow> pyval dict \<Rightarrow> nat \<Rightarrow> exn + string"
  te_loads :: "string \<Rightarrow> pyval option"

section \<open>Results\<close>

text \<open>\<open>str(exc)\<close>: a \<open>KeyError\<close> shows the \<open>repr\<close> of its key.\<close>

definition exn_str :: "(pyval \<Rightarrow> string) \<Rightarrow> exn \<Rightarrow> string" where
  "exn_str rp e = (if exn_kind e = KeyError then rp (PStr (exn_text e)) else exn_text e)"

definition params_summary :: "(pyval \<Rightarrow> string) \<Rightarrow> pyval dict \<Rightarrow> pyval" where
  "params_summary rp params = PDict (map (\<lambda>(k, v). (k, PStr (take_chars 120 (py_str rp v)))) params)"

definition tool_audit :: "(pyval \<Rightarrow> string) \<Rightarrow> tool_manifest \<Rightarrow> string \<Rightarrow> string \<Rightarrow> pyval dict \<Rightarrow> pyval dict \<Rightarrow> pyval dict" where
  "tool_audit rp m st session params extra = fold (\<lambda>(k, v) d. dset d k v) extra
    [(''tool_id'', PStr (tm_id m)), (''tool_type'', PStr (tm_type m)), (''scope'', PStr (tm_scope m)),
     (''permission'', PStr (tm_permission m)), (''status'', PStr st), (''session_id'', PStr session),
     (''params_summary'', params_summary rp params), (''audit_only'', PBool (tm_audit_only m))]"

definition completed_result :: "tool_manifest \<Rightarrow> pyval dict \<Rightarrow> pyval dict \<Rightarrow> tool_result" where
  "completed_result m result audit = \<lparr>tres_tool = tm_id m, tres_status = ''completed'', tres_result = Some result,
     tres_error = None, tres_request = None, tres_audit = audit\<rparr>"

definition denied_result :: "(pyval \<Rightarrow> string) \<Rightarrow> tool_manifest \<Rightarrow> string \<Rightarrow> string \<Rightarrow> tool_result" where
  "denied_result rp m why session = \<lparr>tres_tool = tm_id m, tres_status = ''denied'', tres_result = None,
     tres_error = Some (''tool_permission_denied'', why), tres_request = None,
     tres_audit = tool_audit rp m ''denied'' session [] [(''reason'', PStr why)]\<rparr>"

definition tool_error_result :: "string \<Rightarrow> string \<Rightarrow> string \<Rightarrow> string \<Rightarrow> tool_result" where
  "tool_error_result tid code text session = \<lparr>tres_tool = tid, tres_status = ''error'', tres_result = None,
     tres_error = Some (code, text), tres_request = None,
     tres_audit = [(''tool_id'', PStr tid), (''status'', PStr ''error''), (''session_id'', PStr session),
       (''error'', PDict [(''code'', PStr code), (''message'', PStr text)])]\<rparr>"

definition rejected_result :: "string \<Rightarrow> pyval dict \<Rightarrow> tool_result" where
  "rejected_result tid audit = \<lparr>tres_tool = tid, tres_status = ''consent_rejected'', tres_result = None,
     tres_error = Some (''consent_rejected'', ''user rejected tool consent''), tres_request = None, tres_audit = audit\<rparr>"

definition enabled_result :: "(pyval \<Rightarrow> string) \<Rightarrow> tool_manifest \<Rightarrow> string \<Rightarrow> tool_result" where
  "enabled_result rp m session = completed_result m [(''enabled'', PBool True)]
     (tool_audit rp m ''completed'' session [] [(''action'', PStr ''enable_external''), (''enabled'', PBool True)])"

section \<open>Events\<close>

text \<open>Errors of these three classes are logged and dropped; others reach the caller.\<close>

definition append_tool_event :: "tool_env \<Rightarrow> string \<Rightarrow> pyval dict \<Rightarrow> tool_world \<Rightarrow> exn option \<times> tool_world" where
  "append_tool_event env kind payload w =
    (if \<not> te_stream env then (None, w)
     else (case ge_append env kind payload (length (gw_log w)) of
         None \<Rightarrow> (None, w\<lparr>gw_log := gw_log w @ [Emitted kind payload]\<rparr>)
       | Some e \<Rightarrow> (if is_runtime_kind (exn_kind e) \<or> is_value_kind (exn_kind e) \<or> exn_kind e = TypeError then None else Some e, w)))"

definition append_tool_call :: "tool_env \<Rightarrow> tool_manifest \<Rightarrow> pyval dict \<Rightarrow> string \<Rightarrow> tool_world \<Rightarrow> exn option \<times> tool_world" where
  "append_tool_call env m params session = append_tool_event env ''tool/call''
     [(''tool_id'', PStr (tm_id m)), (''tool_type'', PStr (tm_type m)), (''scope'', PStr (tm_scope m)),
      (''session_id'', PStr session), (''params'', PDict params)]"

definition append_tool_result :: "tool_env \<Rightarrow> string \<Rightarrow> (exn + tool_result) \<times> tool_world \<Rightarrow> (exn + tool_result) \<times> tool_world" where
  "append_tool_result env session = (\<lambda>(out, w). case out of
      Inl e \<Rightarrow> (Inl e, w)
    | Inr res \<Rightarrow> (case append_tool_event env ''tool/result''
          [(''tool_id'', PStr (tres_tool res)), (''status'', PStr (tres_status res)), (''session_id'', PStr session),
           (''error'', case tres_error res of None \<Rightarrow> PNone
             | Some (code, text) \<Rightarrow> PDict [(''code'', PStr code), (''message'', PStr text)])] w of
          (Some e, w) \<Rightarrow> (Inl e, w)
        | (None, w) \<Rightarrow> (Inr res, w)))"

section \<open>Running a tool\<close>

definition call_external :: "tool_env \<Rightarrow> tool_manifest \<Rightarrow> pyval dict \<Rightarrow> tool_world \<Rightarrow> handler_outcome \<times> tool_world" where
  "call_external env m params w = (case tm_endpoint m of
      Some (c # cs) \<Rightarrow>
        (case te_post env (c # cs) params (length (gw_log w)) of
            Inl e \<Rightarrow> Raised (Exn RuntimeError (''external tool request failed: '' @ exn_text e))
          | Inr raw \<Rightarrow> if strip raw = [] then Returned []
              else (case te_loads env raw of
                  None \<Rightarrow> Raised (Exn ValueError ''json'')
                | Some (PDict d) \<Rightarrow> Returned d
                | Some _ \<Rightarrow> Raised (Exn TypeError ''external tool response must be a JSON object'')),
         w\<lparr>gw_log := gw_log w @ [Posted (tm_id m) (c # cs) params]\<rparr>)
    | _ \<Rightarrow> (Raised (Exn ValueError ''external tool missing endpoint''), w))"

definition call_builtin :: "tool_manifest \<Rightarrow> string \<Rightarrow> pyval dict \<Rightarrow> tool_world \<Rightarrow> handler_outcome \<times> tool_world" where
  "call_builtin m session params w = (case get_builtin_handler (tm_id m) (tw_registry w) of
      Inl e \<Rightarrow> (Raised e, w)
    | Inr h \<Rightarrow>
        let safe = dpop params ''session_id'';
            sid = (if tm_id m \<in> set (session_tools (tw_registry w)) then Some session else None)
        in (h sid safe (length (gw_log w)), w\<lparr>gw_log := gw_log w @ [Handled (tm_id m) sid safe]\<rparr>))"

definition execute_allowed :: "tool_env \<Rightarrow> tool_manifest \<Rightarrow> pyval dict \<Rightarrow> string \<Rightarrow> tool_world
    \<Rightarrow> (exn + tool_result) \<times> tool_world" where
  "execute_allowed env m params session w =
    (let audit = tool_audit (ge_repr env) m ''completed'' session params [];
         (outcome, w) = (if tm_type m = ''builtin'' then call_builtin m session params w else call_external env m params w)
     in (Inr (case outcome of
          Returned result \<Rightarrow> completed_result m result audit
        | BlockedBy text data \<Rightarrow> \<lparr>tres_tool = tm_id m, tres_status = ''blocked'', tres_result = Some data,
            tres_error = Some (''hard_gate_blocked'', text), tres_request = None,
            tres_audit = dset (dset audit ''status'' (PStr ''blocked'')) ''reason'' (PStr text)\<rparr>
        | Raised e \<Rightarrow> \<lparr>tres_tool = tm_id m, tres_status = ''error'', tres_result = None,
            tres_error = Some (''tool_execution_failed'', exn_str (ge_repr env) e), tres_request = None,
            tres_audit = dset (dset audit ''status'' (PStr ''error'')) ''error'' (PStr (exn_str (ge_repr env) e))\<rparr>), w))"

section \<open>Consent\<close>

definition tool_consent_request :: "(pyval \<Rightarrow> string) \<Rightarrow> string \<Rightarrow> tool_manifest \<Rightarrow> pyval dict \<Rightarrow> string \<Rightarrow> string \<Rightarrow> string
    \<Rightarrow> consent_request" where
  "tool_consent_request rp action m params session mode purpose =
    \<lparr>cr_plan_id = session, cr_step_id = ''tool:'' @ tm_id m, cr_skill_id = ''tool_'' @ tm_id m, cr_operation = action,
     cr_purpose_type = purpose, cr_risk_level = ''medium'', cr_impact_scope = ''single_turn'', cr_source = ''tool_invoker'',
     cr_metadata = [(''purpose_type'', PStr purpose), (''tool_id'', PStr (tm_id m)), (''scope'', PStr (tm_scope m)),
       (''permission'', PStr (tm_permission m)), (''params_summary'', params_summary rp params),
       (''reason'', PStr (''tool permission='' @ tm_permission m)), (''privacy_mode'', PStr mode)]\<rparr>"

text \<open>The tool is enabled, or run, once the user has agreed.\<close>

definition perform_action :: "tool_env \<Rightarrow> string \<Rightarrow> tool_manifest \<Rightarrow> pyval dict \<Rightarrow> string \<Rightarrow> tool_world
    \<Rightarrow> (exn + tool_result) \<times> tool_world" where
  "perform_action env action m params session w =
    (if action = ''enable_external'' then
       (case set_external_enabled (tm_id m) True (tw_registry w) of
          (Inl e, _) \<Rightarrow> (Inl e, w)
        | (Inr m', r) \<Rightarrow> (Inr (enabled_result (ge_repr env) m' session), w\<lparr>tw_registry := r\<rparr>))
     else execute_allowed env m params session w)"

definition last_request_id :: "(pyval \<Rightarrow> string) \<Rightarrow> tool_world \<Rightarrow> string" where
  "last_request_id rp w = (case gw_last w of
      None \<Rightarrow> []
    | Some a \<Rightarrow> if truthy (pget a ''request_id'') then py_str rp (pget a ''request_id'') else [])"

definition is_undecided :: "string \<Rightarrow> tool_world \<Rightarrow> bool" where
  "is_undecided rid w = (case get_pending (Some rid) w of Some p \<Rightarrow> \<not> pc_decided p | None \<Rightarrow> False)"

definition request_tool_consent :: "tool_env \<Rightarrow> string \<Rightarrow> tool_manifest \<Rightarrow> pyval dict \<Rightarrow> string \<Rightarrow> mode_argument \<Rightarrow> string
    \<Rightarrow> tool_world \<Rightarrow> (exn + tool_result) \<times> tool_world" where
  "request_tool_consent env action m params session mode purpose w = (case mode of
      Text _ \<Rightarrow> (Inl (Exn OtherError (ge_repr env (PStr ''str'') @ '' object has no attribute '' @ ge_repr env (PStr ''value''))), w)
    | Member mode_value \<Rightarrow>
        let extra = [(''action'', PStr action), (''purpose_type'', PStr purpose)];
            audit = (\<lambda>st. tool_audit (ge_repr env) m st session params extra)
        in if \<not> te_gateway env then (Inr (denied_result (ge_repr env) m ''consent_infrastructure_unavailable'' session), w)
           else (case submit_request env (tool_consent_request (ge_repr env) action m params session mode_value purpose) w of
               (Inl e, w) \<Rightarrow> (Inl e, w)
             | (Inr granted, w) \<Rightarrow>
                 let rid = last_request_id (ge_repr env) w
                 in if rid \<noteq> [] \<and> is_undecided rid w then
                      (Inr \<lparr>tres_tool = tm_id m, tres_status = ''requires_consent'', tres_result = None, tres_error = None,
                         tres_request = Some rid, tres_audit = audit ''requires_consent''\<rparr>,
                       w\<lparr>tw_actions := dset (tw_actions w) rid \<lparr>pa_action = action, pa_tool = tm_id m,
                         pa_params = params, pa_session = session, pa_mode = mode\<rparr>\<rparr>)
                    else if \<not> granted then (Inr (rejected_result (tm_id m) (audit ''consent_rejected'')), w)
                    else perform_action env action m params session w))"

section \<open>The operations\<close>

definition execute_tool :: "tool_env \<Rightarrow> string \<Rightarrow> pyval dict \<Rightarrow> string \<Rightarrow> mode_argument \<Rightarrow> tool_world
    \<Rightarrow> (exn + tool_result) \<times> tool_world" where
  "execute_tool env tid params session mode w = (case require_manifest tid (tw_registry w) of
      Inl e \<Rightarrow> append_tool_result env session
        (Inr (tool_error_result tid ''tool_not_found'' (exn_str (ge_repr env) e) session), w)
    | Inr m \<Rightarrow> (case append_tool_call env m params session w of
        (Some e, w) \<Rightarrow> (Inl e, w)
      | (None, w) \<Rightarrow> (case resolve_permission tid mode (tw_registry w) of
          Inl e \<Rightarrow> (Inl e, w)
        | Inr permission \<Rightarrow>
            let w = w\<lparr>gw_log := gw_log w @ [Checked tid (is_local_only mode) permission]\<rparr>
            in append_tool_result env session
                 (if permission = ''deny'' then (Inr (denied_result (ge_repr env) m ''permission_denied'' session), w)
                  else if permission = ''ask'' then request_tool_consent env ''execute'' m params session mode ''tool_use'' w
                  else execute_allowed env m params session w))))"

definition enable_external :: "tool_env \<Rightarrow> string \<Rightarrow> string \<Rightarrow> mode_argument \<Rightarrow> tool_world
    \<Rightarrow> (exn + tool_result) \<times> tool_world" where
  "enable_external env tid session mode w = (case require_manifest tid (tw_registry w) of
      Inl e \<Rightarrow> (Inr (tool_error_result tid ''tool_not_found'' (exn_str (ge_repr env) e) session), w)
    | Inr m \<Rightarrow>
        if tm_type m \<noteq> ''external'' then
          (Inr (tool_error_result tid ''tool_not_external'' ''only external tools support enable flow'' session), w)
        else if tm_enabled m then (Inr (enabled_result (ge_repr env) m session), w)
        else request_tool_consent env ''enable_external'' m [] session mode ''tool_external_enable'' w)"

text \<open>The action is taken off the pending ones before its tool is looked up.\<close>

definition resume_action :: "tool_env \<Rightarrow> string \<Rightarrow> bool \<Rightarrow> pending_action \<Rightarrow> tool_world
    \<Rightarrow> (exn + tool_result) \<times> tool_world" where
  "resume_action env rid granted a w =
    (let w = w\<lparr>tw_actions := dpop (tw_actions w) rid, gw_log := gw_log w @ [Resumed rid granted]\<rparr>
     in case require_manifest (pa_tool a) (tw_registry w) of
          Inl e \<Rightarrow> (Inl e, w)
        | Inr m \<Rightarrow> if \<not> granted then
              (Inr (rejected_result (pa_tool a) (tool_audit (ge_repr env) m ''consent_rejected'' (pa_session a) (pa_params a)
                 [(''action'', PStr (pa_action a))])), w)
            else perform_action env (pa_action a) m (pa_params a) (pa_session a) w)"

definition resume_tool :: "tool_env \<Rightarrow> string \<Rightarrow> bool \<Rightarrow> tool_world \<Rightarrow> (exn + tool_result) \<times> tool_world" where
  "resume_tool env rid granted w = (case dget (tw_actions w) rid of
      None \<Rightarrow> (Inl (Exn KeyError (''unknown tool consent_request_id: '' @ rid)), w)
    | Some a \<Rightarrow>
        if \<not> te_gateway env then resume_action env rid granted a w
        else (case get_pending (Some rid) w of
            None \<Rightarrow> (Inl (Exn KeyError (''inactive session tool consent_request_id: '' @ rid)), w)
          | Some p \<Rightarrow> if pc_decided p then resume_action env rid granted a w
              else (case decide_request env rid granted w of
                  (Inl e, w) \<Rightarrow> (Inl e, w)
                | (Inr _, w) \<Rightarrow> resume_action env rid granted a w)))"

end
