(* ===== verification/Tool_Safety.thy ===== *)
theory Tool_Safety
  imports Tool_Invoker
begin

text \<open>
  What stands before a run of a tool: in every history of the registry, the gateway and the
  invoker, each handler that is called and each endpoint that is posted to was allowed by the
  registry at that moment, or was asked for and agreed to. And where the agreement is not
  looked at closely enough.
\<close>

section \<open>The rule\<close>

definition is_run :: "tool_effect \<Rightarrow> bool" where
  "is_run e = (case e of Handled _ _ _ \<Rightarrow> True | Posted _ _ _ \<Rightarrow> True | _ \<Rightarrow> False)"

text \<open>The request r asks for this tool with these parameters.\<close>

definition asks_for :: "(pyval \<Rightarrow> string) \<Rightarrow> string \<Rightarrow> string \<Rightarrow> pyval dict \<Rightarrow> consent_request \<Rightarrow> bool" where
  "asks_for rp action tid params r \<longleftrightarrow> (\<exists>m session mode purpose. tm_id m = tid \<and>
     r = tool_consent_request rp action m params session mode purpose)"

definition was_asked :: "(pyval \<Rightarrow> string) \<Rightarrow> tool_effect list \<Rightarrow> string \<Rightarrow> string \<Rightarrow> string \<Rightarrow> pyval dict \<Rightarrow> bool" where
  "was_asked rp hist rid action tid params \<longleftrightarrow> (\<exists>r. Asked rid r \<in> set hist \<and> asks_for rp action tid params r)"

text \<open>It was asked for under some identifier, and then that identifier was agreed to.\<close>

definition agreed :: "(pyval \<Rightarrow> string) \<Rightarrow> tool_effect list \<Rightarrow> string \<Rightarrow> pyval dict \<Rightarrow> bool" where
  "agreed rp hist tid params \<longleftrightarrow> (\<exists>a b rid. hist = a @ b \<and> was_asked rp a rid ''execute'' tid params \<and>
     (Decided rid True \<in> set b \<or> Resumed rid True \<in> set b))"

definition checked :: "tool_effect list \<Rightarrow> string \<Rightarrow> bool" where
  "checked hist tid \<longleftrightarrow> hist \<noteq> [] \<and> (\<exists>local. last hist = Checked tid local ''allow'')"

definition entitled :: "(pyval \<Rightarrow> string) \<Rightarrow> tool_effect list \<Rightarrow> tool_effect \<Rightarrow> bool" where
  "entitled rp hist e = (case e of
      Handled tid sid safe \<Rightarrow> checked hist tid \<or> (\<exists>params. safe = dpop params ''session_id'' \<and> agreed rp hist tid params)
    | Posted tid url params \<Rightarrow> agreed rp hist tid params
    | _ \<Rightarrow> True)"

definition runs_entitled :: "(pyval \<Rightarrow> string) \<Rightarrow> tool_effect list \<Rightarrow> bool" where
  "runs_entitled rp hist \<longleftrightarrow> (\<forall>a e b. hist = a @ e # b \<longrightarrow> entitled rp a e)"

lemma runs_entitled_Nil [simp]: "runs_entitled rp []"
  by (simp add: runs_entitled_def)

lemma runs_entitled_snoc [simp]: "runs_entitled rp (hist @ [e]) \<longleftrightarrow> runs_entitled rp hist \<and> entitled rp hist e"
proof
  assume all: "runs_entitled rp (hist @ [e])"
  then have "entitled rp hist e" by (simp add: runs_entitled_def)
  moreover have "runs_entitled rp hist"
    unfolding runs_entitled_def
  proof (intro allI impI)
    fix a x b assume "hist = a @ x # b"
    with all show "entitled rp a x" unfolding runs_entitled_def by (metis append.assoc append_Cons)
  qed
  ultimately show "runs_entitled rp hist \<and> entitled rp hist e" by simp
next
  assume both: "runs_entitled rp hist \<and> entitled rp hist e"
  show "runs_entitled rp (hist @ [e])"
    unfolding runs_entitled_def
  proof (intro allI impI)
    fix a x b assume eq: "hist @ [e] = a @ x # b"
    show "entitled rp a x"
    proof (cases b rule: rev_cases)
      case Nil
      with eq both show ?thesis by simp
    next
      case (snoc c y)
      with eq have "hist = a @ x # c" by simp
      with both show ?thesis by (simp add: runs_entitled_def)
    qed
  qed
qed

lemma entitled_quiet [simp]: "\<not> is_run e \<Longrightarrow> entitled rp hist e"
  by (cases e) (simp_all add: is_run_def entitled_def)



section \<open>What the gateway adds\<close>

text \<open>Between two states of the tools: the log has grown, and nothing but the gateway has changed.\<close>

definition gateway_step :: "tool_world \<Rightarrow> tool_effect list \<Rightarrow> tool_world \<Rightarrow> bool" where
  "gateway_step w ext w' \<longleftrightarrow> gw_log w' = gw_log w @ ext \<and> tw_registry w' = tw_registry w \<and> tw_actions w' = tw_actions w \<and>
     \<not> list_ex is_run ext"




lemma gateway_step_trans: "gateway_step w e w' \<Longrightarrow> gateway_step w' f w'' \<Longrightarrow> gateway_step w (e @ f) w''"
  by (simp add: gateway_step_def)





section \<open>The invariant\<close>






lemma append_tool_event_step:
  "append_tool_event env kind payload w = (x, w') \<Longrightarrow> \<exists>ext. gateway_step w ext w' \<and> gw_pending w' = gw_pending w"
  by (auto simp: append_tool_event_def gateway_step_def is_run_def split: if_splits option.splits)







lemma snoc_agreed: "agreed rp hist tid params \<Longrightarrow> agreed rp (hist @ [e]) tid params"
  unfolding agreed_def by (metis append.assoc set_append Un_iff)





section \<open>Histories\<close>



section \<open>Samples\<close>

definition sample_manifest :: "string \<Rightarrow> string \<Rightarrow> string \<Rightarrow> string \<Rightarrow> tool_manifest" where
  "sample_manifest tid kind permission scope = \<lparr>tm_id = tid, tm_display_name = tid, tm_description = [], tm_type = kind,
     tm_permission = permission, tm_scope = scope, tm_params_schema = [], tm_return_schema = [],
     tm_handler_module = None, tm_handler_function = None, tm_external_config = None, tm_version = ''1'',
     tm_audit_only = True, tm_enabled = True,
     tm_endpoint = (if kind = ''external'' then Some ''https://elsewhere'' else None),
     tm_algorithm_names = [], tm_trigger_keywords = []\<rparr>"

text \<open>A builtin tool that must be asked for, and an external one whose scope is not a network scope.\<close>

definition sample_tool_world :: tool_world where
  "sample_tool_world = \<lparr>gw_session = Some ''s'', gw_stream = False, gw_pending = [], gw_last = None, gw_draws = 0, gw_log = [],
     tw_registry = \<lparr>tools = [(''file_read'', sample_manifest ''file_read'' ''builtin'' ''ask'' ''file''),
         (''fetch'', sample_manifest ''fetch'' ''external'' ''ask'' ''file'')],
       handlers = [(''file_read'', \<lambda>_ _ _. Returned [(''content'', PStr ''text'')])], session_tools = []\<rparr>,
     tw_actions = []\<rparr>"

definition sample_tool_env :: tool_env where
  "sample_tool_env = \<lparr>ge_uuid = (\<lambda>n. ''req'' @ nat_str n), ge_clock = (\<lambda>_. 0), ge_repr = (\<lambda>_. []), ge_decide = None,
     ge_append = (\<lambda>_ _ _. None), ge_db = False, te_gateway = True, te_stream = False,
     te_post = (\<lambda>_ _ _. Inr ''{}''), te_loads = (\<lambda>_. Some (PDict []))\<rparr>"

definition sample_asked :: "string \<Rightarrow> tool_world" where
  "sample_asked tid = snd (execute_tool sample_tool_env tid [(''path'', PStr ''a'')] ''s'' (Member ''local_only'') sample_tool_world)"



lemma sample_resumed:
  "map_sum id tres_status (fst (resume_tool sample_tool_env ''req0'' True (sample_asked ''file_read''))) = Inr ''completed''"
  "map (\<lambda>e. case e of Handled tid sid ps \<Rightarrow> Some (tid, ps) | _ \<Rightarrow> None)
     (drop 2 (gw_log (snd (resume_tool sample_tool_env ''req0'' True (sample_asked ''file_read''))))) =
     [None, None, Some (''file_read'', [(''path'', PStr ''a'')])]"
  by code_simp+




section \<open>Where agreement is not looked at\<close>

text \<open>
  \<open>resume\<close> takes the host's word: it passes the answer to the gateway only when the gateway has
  none. A request the user has denied in the dialog is run when the host resumes it with
  \<open>allowed=True\<close>, and the gateway's record keeps saying "deny".
\<close>

lemma denied_request_runs:
  "let w = snd (decide_request sample_tool_env ''req0'' False (sample_asked ''file_read''));
       (out, w') = resume_tool sample_tool_env ''req0'' True w
   in map_sum id tres_status out = Inr ''completed'' \<and>
      map_option pc_allowed (get_pending (Some ''req0'') w') = Some False"
  by code_simp

text \<open>An external tool that was switched off while its request was open is still posted to.\<close>

lemma disabled_tool_runs:
  "let w = sample_asked ''fetch'';
       w = w\<lparr>tw_registry := snd (set_external_enabled ''fetch'' False (tw_registry w))\<rparr>;
       (out, w') = resume_tool sample_tool_env ''req0'' True w
   in map_sum id tres_status out = Inr ''completed'' \<and> resolve_permission ''fetch'' (Member ''local_only'') (tw_registry w') = Inr ''deny'' \<and>
      is_run (last (gw_log w'))"
  by code_simp

text \<open>
  In the mode \<open>local_only\<close> it is the scope a tool declares that decides, not what it does: an
  external tool with another scope is posted to wherever its endpoint is.
\<close>

lemma local_only_posts_anywhere:
  "last (gw_log (snd (resume_tool sample_tool_env ''req0'' True (sample_asked ''fetch'')))) =
     Posted ''fetch'' ''https://elsewhere'' [(''path'', PStr ''a'')]"
  by code_simp

text \<open>
  The mode is compared with \<open>is\<close>. A sub-agent's registry passes the text \<open>local_only\<close> where the
  invoker expects the member: the tools of a network scope are then allowed as their manifest
  says, and every tool that must be asked for raises before anybody is asked.
\<close>

lemma text_mode_not_local:
  "dget (tools r) tid = Some m \<Longrightarrow> tm_type m = ''builtin'' \<Longrightarrow>
    resolve_permission tid (Text ''local_only'') r = Inr (tm_permission m)"
  by (simp add: resolve_permission_def require_manifest_def is_local_only_def)

lemma text_mode_raises:
  "resolve_permission tid (Text mode) (tw_registry w) = Inr ''ask'' \<Longrightarrow> \<not> te_stream env \<Longrightarrow>
    \<exists>text. fst (execute_tool env tid params session (Text mode) w) = Inl (Exn OtherError text)"
  by (auto simp: execute_tool_def append_tool_call_def append_tool_event_def append_tool_result_def
      request_tool_consent_def resolve_permission_def Let_def split: sum.splits)

text \<open>
  A decision takes effect before its artifact is checked: for a purpose that is not one of the
  enumeration, \<open>decide\<close> raises, nothing is stored, and the request is allowed all the same.
\<close>

lemma decided_without_audit:
  "let env = sample_tool_env\<lparr>ge_db := True\<rparr>;
       r = tool_consent_request (\<lambda>_. []) ''execute'' (sample_manifest ''file_read'' ''builtin'' ''ask'' ''file'') [] ''s'' [] ''custom'';
       w = snd (submit_request env r sample_tool_world); (out, w') = decide_request env ''req0'' True w
   in (case out of Inl e \<Rightarrow> exn_kind e = AppError ''ConsentArtifactError'' | Inr _ \<Rightarrow> False) \<and>
      map_option pc_allowed (get_pending (Some ''req0'') w') = Some True \<and>
      gw_log w' = [Asked ''req0'' r, Decided ''req0'' True]"
  by code_simp

section \<open>Modes and sessions\<close>

lemma append_tool_result_denied:
  fixes w :: tool_world
  assumes "append_tool_result env session (Inr (denied_result rp m why session), w) = (out, w')"
  shows "((\<exists>e. out = Inl e) \<or> (\<exists>res. out = Inr res \<and> tres_status res = ''denied'')) \<and>
    (\<exists>ext. gateway_step w ext w' \<and> gw_pending w' = gw_pending w)"
  using assms append_tool_event_step [of env _ _ w]
  by (fastforce simp: append_tool_result_def denied_result_def split: prod.splits option.splits)

text \<open>In the mode \<open>local_only\<close> a tool of a network scope is denied before anything
  happens: \<open>execute\<close> reports it denied (or raises an error of the event stream), asks nobody and
  runs nothing, whatever the permission of the tool.\<close>

theorem local_only_denies_network_tools:
  assumes "dget (tools (tw_registry w)) tid = Some m" "tm_scope m \<in> set network_scopes"
    "execute_tool env tid params session (Member ''local_only'') w = (out, w')"
  shows "((\<exists>e. out = Inl e) \<or> (\<exists>res. out = Inr res \<and> tres_status res = ''denied'')) \<and>
    (\<exists>ext. gateway_step w ext w' \<and> gw_pending w' = gw_pending w)"
proof -
  obtain x v where call: "append_tool_call env m params session w = (x, v)" by fastforce
  then obtain e1 where v: "gateway_step w e1 v" "gw_pending v = gw_pending w"
    using append_tool_event_step unfolding append_tool_call_def by blast
  let ?v = "v\<lparr>gw_log := gw_log v @ [Checked tid True ''deny'']\<rparr>"
  have step: "gateway_step w (e1 @ [Checked tid True ''deny'']) ?v" using v(1) by (simp add: gateway_step_def is_run_def)
  have same: "tw_registry v = tw_registry w" using v(1) by (simp add: gateway_step_def)
  show ?thesis
  proof (cases x)
    case (Some e)
    with assms(1,3) call v show ?thesis by (auto simp: execute_tool_def require_manifest_def)
  next
    case None
    with assms call same
    have "append_tool_result env session (Inr (denied_result (ge_repr env) m ''permission_denied'' session), ?v) = (out, w')"
      by (simp add: execute_tool_def require_manifest_def resolve_permission_def is_local_only_def Let_def)
    from append_tool_result_denied [OF this] gateway_step_trans [OF step] v(2) show ?thesis by auto
  qed
qed

theorem local_only_denies_network_tools_witness:
  "(let w = sample_tool_world\<lparr>tw_registry := \<lparr>tools = [(''web'', sample_manifest ''web'' ''builtin'' ''allow'' ''network_egress'')],
      handlers = [(''web'', \<lambda>_ _ _. Returned [])], session_tools = []\<rparr>\<rparr>
    in gw_pending (snd (execute_tool sample_tool_env ''web'' [] ''s'' (Member ''local_only'') w)) = gw_pending w)"
  using local_only_denies_network_tools [of "sample_tool_world\<lparr>tw_registry :=
      \<lparr>tools = [(''web'', sample_manifest ''web'' ''builtin'' ''allow'' ''network_egress'')],
       handlers = [(''web'', \<lambda>_ _ _. Returned [])], session_tools = []\<rparr>\<rparr>" "''web''"
      "sample_manifest ''web'' ''builtin'' ''allow'' ''network_egress''" sample_tool_env "[]" "''s''", OF _ _ prod.collapse [symmetric]]
  by (simp add: sample_manifest_def network_scopes_def)

text \<open>A session cannot touch the requests of another. While the gateway is bound to one
  session, a request submitted in a different one is not shown, and neither deciding nor
  resuming it changes anything: both raise a \<open>KeyError\<close> and leave the state as it was.\<close>

theorem foreign_request_untouched:
  assumes "dget (gw_pending w) rid = Some p" "pc_session p = Some other" "gw_session w = Some mine" "other \<noteq> mine"
    "te_gateway env"
  shows "get_pending (Some rid) w = None \<and>
    decide_request env rid granted w = (Inl (Exn KeyError (''unknown consent request_id: '' @ rid)), w) \<and>
    snd (resume_tool env rid granted w) = w \<and> (\<exists>e. fst (resume_tool env rid granted w) = Inl e \<and> exn_kind e = KeyError)"
proof -
  have hidden: "get_pending (Some rid) w = None" using assms by (simp add: get_pending_def is_visible_def)
  with assms(5) show ?thesis by (auto simp: decide_request_def resume_tool_def split: option.split)
qed

theorem foreign_request_untouched_witness:
  "snd (resume_tool sample_tool_env ''req0'' True (bind_session_context ''t'' False (sample_asked ''file_read''))) =
     bind_session_context ''t'' False (sample_asked ''file_read'')"
proof -
  have other: "map_option pc_session (dget (gw_pending (bind_session_context ''t'' False (sample_asked ''file_read''))) ''req0'') =
      Some (Some ''s'')" "te_gateway sample_tool_env"
    by code_simp+
  then obtain p where "dget (gw_pending (bind_session_context ''t'' False (sample_asked ''file_read''))) ''req0'' = Some p"
    "pc_session p = Some ''s''" by auto
  from foreign_request_untouched [OF this, of "''t''"] other(2) show ?thesis by (simp add: bind_session_context_def)
qed

end
