(* ===== verification/Memory_Chunks.thy ===== *)
theory Memory_Chunks
  imports Py_Values "HOL-Library.Product_Lexorder"
begin

text \<open>
  The table of memories (\<open>core/memory_lifecycle/fts_ops.py\<close>) that goals and decomposition samples
  share with facts: adding, changing, invalidating and listing rows, the commands in a user's
  text, and the block of memories in a prompt.

  A JSON column is the value it decodes to. The two time stamps are text columns: most writers
  store a number, two store an ISO text, so a time stamp is a \<open>pyval\<close>; numbers order as numbers
  (they have ten digits before the point) and before texts (which begin with a 2). The column of
  the embedding, which nothing here reads, and the older column \<open>updated_at\<close> are left out, as is
  the full-text search.
\<close>

section \<open>Rows\<close>

record chunk =
  ch_id :: int
  ch_session :: "string option"
  ch_content :: string
  ch_body :: string
  ch_type :: string
  ch_status :: string
  ch_source :: string
  ch_created :: pyval
  ch_modified :: pyval
  ch_metadata :: pyval
  ch_meta :: pyval

text \<open>\<open>db_next\<close> is the counter of \<open>AUTOINCREMENT\<close>, \<open>db_ticks\<close> the number of reads of the clock.\<close>

record memory_db =
  db_chunks :: "chunk list"
  db_next :: int
  db_ticks :: nat

record memory_env =
  me_clock :: clock
  me_iso :: "nat \<Rightarrow> string"
  me_repr :: "pyval \<Rightarrow> string"

definition db_now :: "'e memory_env_scheme \<Rightarrow> 'd memory_db_scheme \<Rightarrow> pyfloat \<times> 'd memory_db_scheme" where
  "db_now env db = (me_clock env (db_ticks db), db\<lparr>db_ticks := Suc (db_ticks db)\<rparr>)"

definition find_chunk :: "(chunk \<Rightarrow> bool) \<Rightarrow> 'd memory_db_scheme \<Rightarrow> chunk option" where
  "find_chunk p db = find p (db_chunks db)"

text \<open>An \<open>UPDATE\<close> with the number of rows it changed.\<close>

definition update_chunks :: "(chunk \<Rightarrow> bool) \<Rightarrow> (chunk \<Rightarrow> chunk) \<Rightarrow> 'd memory_db_scheme \<Rightarrow> nat \<times> 'd memory_db_scheme" where
  "update_chunks p f db = (length (filter p (db_chunks db)),
     db\<lparr>db_chunks := map (\<lambda>r. if p r then f r else r) (db_chunks db)\<rparr>)"

definition delete_chunks :: "(chunk \<Rightarrow> bool) \<Rightarrow> 'd memory_db_scheme \<Rightarrow> nat \<times> 'd memory_db_scheme" where
  "delete_chunks p db = (length (filter p (db_chunks db)), db\<lparr>db_chunks := filter (\<lambda>r. \<not> p r) (db_chunks db)\<rparr>)"

text \<open>\<open>ORDER BY modified_at DESC, id DESC\<close>\<close>

definition time_key :: "pyval \<Rightarrow> bool \<times> pyfloat \<times> string" where
  "time_key v = (case v of PFloat q \<Rightarrow> (False, q, []) | PInt i \<Rightarrow> (False, of_int i, []) | PStr s \<Rightarrow> (True, 0, s) | _ \<Rightarrow> (False, 0, []))"

definition newest_first :: "chunk list \<Rightarrow> chunk list" where
  "newest_first rows = rev (sort_key (\<lambda>r. (time_key (ch_modified r), ch_id r)) rows)"

lemma set_newest_first [simp]: "set (newest_first rows) = set rows"
  by (simp add: newest_first_def)

lemma length_newest_first [simp]: "length (newest_first rows) = length rows"
  by (simp add: newest_first_def)

section \<open>Operations\<close>

text \<open>\<open>str(meta.get(k) or default)\<close>\<close>

definition meta_text :: "(pyval \<Rightarrow> string) \<Rightarrow> pyval dict \<Rightarrow> string \<Rightarrow> string \<Rightarrow> string" where
  "meta_text rp meta k alt = (if truthy (pget meta k) then py_str rp (pget meta k) else alt)"

definition add_memory_chunk :: "'e memory_env_scheme \<Rightarrow> string \<Rightarrow> string option \<Rightarrow> string \<Rightarrow> pyval dict \<Rightarrow> 'd memory_db_scheme
    \<Rightarrow> (exn + int) \<times> 'd memory_db_scheme" where
  "add_memory_chunk env text session source meta db =
    (let body = strip text in
     if body = [] then (Inl (Exn (AppError ''B2MemoryWriteError'') ''empty memory body''), db)
     else let (now, db) = db_now env db; rp = me_repr env;
              metadata = (if truthy (pget meta ''metadata'') then pget meta ''metadata'' else PDict meta)
          in (Inr (db_next db),
              db\<lparr>db_chunks := db_chunks db @ [\<lparr>ch_id = db_next db, ch_session = session,
                   ch_content = meta_text rp meta ''content'' body, ch_body = body,
                   ch_type = meta_text rp meta ''memory_type'' ''fact'', ch_status = meta_text rp meta ''status'' ''active'',
                   ch_source = source, ch_created = PFloat now, ch_modified = PFloat now,
                   ch_metadata = metadata, ch_meta = PDict meta\<rparr>],
                 db_next := db_next db + 1\<rparr>))"

definition delete_memory_chunk :: "int \<Rightarrow> 'd memory_db_scheme \<Rightarrow> bool \<times> 'd memory_db_scheme" where
  "delete_memory_chunk cid db = (let (n, db) = delete_chunks (\<lambda>r. ch_id r = cid) db in (n > 0, db))"

definition update_memory_chunk :: "'e memory_env_scheme \<Rightarrow> int \<Rightarrow> string \<Rightarrow> 'd memory_db_scheme \<Rightarrow> bool \<times> 'd memory_db_scheme" where
  "update_memory_chunk env cid text db =
    (let body = strip text in
     if body = [] then (False, db)
     else let (now, db) = db_now env db;
              (n, db) = update_chunks (\<lambda>r. ch_id r = cid) (\<lambda>r. r\<lparr>ch_body := body, ch_modified := PFloat now\<rparr>) db
          in (n > 0, db))"

text \<open>These two store the time as an ISO text.\<close>

definition set_memory_status :: "'e memory_env_scheme \<Rightarrow> string \<Rightarrow> int \<Rightarrow> 'd memory_db_scheme \<Rightarrow> bool \<times> 'd memory_db_scheme" where
  "set_memory_status env st cid db =
    (let now = me_iso env (db_ticks db); db = db\<lparr>db_ticks := Suc (db_ticks db)\<rparr>;
         (n, db) = update_chunks (\<lambda>r. ch_id r = cid) (\<lambda>r. r\<lparr>ch_status := st, ch_modified := PStr now\<rparr>) db
     in (n > 0, db))"

definition invalidate_memory_chunk :: "'e memory_env_scheme \<Rightarrow> int \<Rightarrow> 'd memory_db_scheme \<Rightarrow> bool \<times> 'd memory_db_scheme" where
  "invalidate_memory_chunk env = set_memory_status env ''invalid''"

definition restore_memory_chunk :: "'e memory_env_scheme \<Rightarrow> int \<Rightarrow> 'd memory_db_scheme \<Rightarrow> bool \<times> 'd memory_db_scheme" where
  "restore_memory_chunk env = set_memory_status env ''active''"

definition list_recent_memory :: "nat \<Rightarrow> 'd memory_db_scheme \<Rightarrow> (int \<times> string) list" where
  "list_recent_memory limit db = map (\<lambda>r. (ch_id r, ch_body r))
     (take limit (newest_first (filter (\<lambda>r. ch_status r = ''active'') (db_chunks db))))"

definition list_memory_rows :: "nat \<Rightarrow> nat \<Rightarrow> 'd memory_db_scheme \<Rightarrow> chunk list" where
  "list_memory_rows limit offset db = take limit (drop offset (newest_first (db_chunks db)))"

definition count_memory_rows :: "'d memory_db_scheme \<Rightarrow> nat" where
  "count_memory_rows db = length (db_chunks db)"

definition profile_step :: "(pyval \<Rightarrow> string) \<Rightarrow> chunk \<Rightarrow> string dict dict \<Rightarrow> string dict dict" where
  "profile_step rp r profile = (case ch_meta r of
      PDict meta \<Rightarrow>
        (let t = meta_text rp meta ''target'' []; f = meta_text rp meta ''field'' []; v = meta_text rp meta ''value'' []
         in if meta_text rp meta ''memory_type'' [] \<in> {''agent_profile'', ''user_profile'', ''user_preference''}
               \<and> t \<noteq> [] \<and> f \<noteq> [] \<and> v \<noteq> []
            then dset profile t (dset (dget_or profile t []) f v) else profile)
    | _ \<Rightarrow> profile)"

definition latest_profile_memory :: "(pyval \<Rightarrow> string) \<Rightarrow> 'd memory_db_scheme \<Rightarrow> string dict dict" where
  "latest_profile_memory rp db = fold (profile_step rp) (sort_key ch_id (db_chunks db)) [(''assistant'', []), (''user'', [])]"

section \<open>Texts\<close>

text \<open>\<open>splitlines\<close>, on the two line ends that occur: line feed and carriage return.\<close>

fun split_lines :: "string \<Rightarrow> string list" where
  "split_lines [] = []"
| "split_lines (c # cs) =
    (if c = CHR 0x0D then (case cs of d # ds \<Rightarrow> [] # split_lines (if d = CHR 0x0A then ds else cs) | [] \<Rightarrow> [[]])
     else if c = CHR 0x0A then [] # split_lines cs
     else (case split_lines cs of [] \<Rightarrow> [[c]] | l # ls \<Rightarrow> (c # l) # ls))"

definition remember_prefix :: string where
  "remember_prefix = ''#remember ''"

definition maybe_extract_memory_commands :: "string \<Rightarrow> string \<times> string list" where
  "maybe_extract_memory_commands text =
    (let is_command = (\<lambda>l. starts_with remember_prefix (lower (strip l))); ls = split_lines text
     in (strip (join newline (filter (\<lambda>l. \<not> is_command l) ls)),
         map (\<lambda>l. strip (drop (length remember_prefix) (strip l))) (filter is_command ls)))"

text \<open>Lines are taken while they fit; the first that does not ends the block.\<close>

fun block_lines :: "nat \<Rightarrow> nat \<Rightarrow> (int \<times> string) list \<Rightarrow> string list" where
  "block_lines limit used [] = []"
| "block_lines limit used ((i, body) # hits) =
    (let line = ''- ['' @ int_str i @ ''] '' @ body
     in if used + char_length line > limit then []
        else line # block_lines limit (used + char_length line + 1) hits)"

definition format_memory_block :: "nat \<Rightarrow> (int \<times> string) list \<Rightarrow> string" where
  "format_memory_block limit hits =
    (let parts = block_lines limit 0 hits
     in if parts = [] then []
        else ''Known memory snippets (editable by user; do not fabricate facts beyond them):'' @ newline @ join newline parts)"

section \<open>The table stays in order\<close>

text \<open>Identifiers are never used twice.\<close>

definition memory_ok :: "'d memory_db_scheme \<Rightarrow> bool" where
  "memory_ok db \<longleftrightarrow> distinct (map ch_id (db_chunks db)) \<and> (\<forall>r \<in> set (db_chunks db). ch_id r < db_next db)"

lemma update_chunks_ok:
  "memory_ok db \<Longrightarrow> (\<And>r. ch_id (f r) = ch_id r) \<Longrightarrow> memory_ok (snd (update_chunks p f db))"
  by (auto simp: memory_ok_def update_chunks_def o_def if_distrib [of ch_id] cong: if_cong)

lemma delete_chunks_ok: "memory_ok db \<Longrightarrow> memory_ok (snd (delete_chunks p db))"
  by (auto simp: memory_ok_def delete_chunks_def distinct_map_filter)

lemma db_now_frame [simp]: "db_chunks (snd (db_now env db)) = db_chunks db" "db_next (snd (db_now env db)) = db_next db"
  by (simp_all add: db_now_def)

lemma add_memory_chunk_ok: "memory_ok db \<Longrightarrow> memory_ok (snd (add_memory_chunk env text session source meta db))"
  by (fastforce simp: memory_ok_def add_memory_chunk_def db_now_def Let_def)

lemma find_chunk_id:
  "memory_ok db \<Longrightarrow> r \<in> set (db_chunks db) \<Longrightarrow> p r \<Longrightarrow> (\<And>x. p x \<Longrightarrow> ch_id x = ch_id r) \<Longrightarrow> find_chunk p db = Some r"
proof -
  assume ok: "memory_ok db" and r: "r \<in> set (db_chunks db)" "p r" and id: "\<And>x. p x \<Longrightarrow> ch_id x = ch_id r"
  from r obtain s where s: "find p (db_chunks db) = Some s" by (metis find_None_iff option.exhaust)
  then have "s \<in> set (db_chunks db)" "p s" unfolding find_Some_iff by force+
  moreover from this(2) have "ch_id s = ch_id r" by (rule id)
  ultimately have "s = r" using ok r(1) by (metis distinct_map inj_onD memory_ok_def)
  with s show ?thesis by (simp add: find_chunk_def)
qed

lemma sum_length_join: "length parts > 0 \<Longrightarrow> char_length (join newline parts) = sum_list (map (\<lambda>p. char_length p + 1) parts) - 1"
proof (induction newline parts rule: join.induct)
  case (3 x y xs)
  then show ?case by (simp add: newline_def)
qed simp_all

lemma block_lines_bound:
  "used \<le> limit + 1 \<Longrightarrow> used + sum_list (map (\<lambda>p. char_length p + 1) (block_lines limit used hits)) \<le> limit + 1"
proof (induction limit used hits rule: block_lines.induct)
  case (2 limit used i body hits)
  define line where "line = ''- ['' @ int_str i @ ''] '' @ body"
  have eq: "block_lines limit used ((i, body) # hits)
      = (if used + char_length line > limit then [] else line # block_lines limit (used + char_length line + 1) hits)"
    by (simp only: block_lines.simps line_def Let_def)
  show ?case
  proof (cases "used + char_length line > limit")
    case False
    then have "used + char_length line + 1 + sum_list (map (\<lambda>p. char_length p + 1) (block_lines limit (used + char_length line + 1) hits))
        \<le> limit + 1"
      using 2(1) [OF line_def] by linarith
    then show ?thesis using False by (simp only: eq if_False list.map sum_list.Cons add.assoc)
  next
    case True
    then show ?thesis using 2(2) by (simp only: eq if_True list.map sum_list.Nil)
  qed
qed simp

text \<open>The snippets of a prompt take at most the characters they are given.\<close>

theorem memory_block_bounded: "char_length (join newline (block_lines limit 0 hits)) \<le> limit"
proof (cases "block_lines limit 0 hits")
  case Nil
  then show ?thesis by simp
next
  case (Cons p ps)
  then have "char_length (join newline (block_lines limit 0 hits)) = sum_list (map (\<lambda>p. char_length p + 1) (block_lines limit 0 hits)) - 1"
    by (simp only: sum_length_join list.size zero_less_Suc add_Suc_right)
  then show ?thesis using block_lines_bound [of 0 limit hits] by linarith
qed

end
