(* ===== verification/Sample_Text.thy ===== *)
theory Sample_Text
  imports Py_Values
begin

text \<open>
  How samples compare texts: the tokens of a text (\<open>tokenize_for_embedding\<close> in
  \<open>shared/deterministic_embedding.py\<close>), the ratio of Python's \<open>SequenceMatcher\<close>, and
  the estimate of the size of a prompt. Texts are kept as their UTF-8 bytes; upper case and
  white space are ASCII.
\<close>

section \<open>Characters and tokens\<close>

definition is_continuation :: "char \<Rightarrow> bool" where
  "is_continuation c = ((of_char c :: nat) div 64 = 2)"

text \<open>The characters of a text, each with its bytes.\<close>

function characters :: "string \<Rightarrow> string list" where
  "characters [] = []"
| "characters (c # cs) = (c # takeWhile is_continuation cs) # characters (dropWhile is_continuation cs)"
  by pat_completeness auto
termination by (relation "measure length") (simp_all add: length_dropWhile_le le_imp_less_Suc)

text \<open>The range from U+4E00 to U+9FFF, three bytes each.\<close>

definition is_cjk :: "string \<Rightarrow> bool" where
  "is_cjk ch = (case map (\<lambda>c. of_char c :: int) ch of
      [a, b, c] \<Rightarrow> a div 16 = 14 \<and> (let p = (a mod 16) * 4096 + (b mod 64) * 64 + c mod 64 in 0x4E00 \<le> p \<and> p \<le> 0x9FFF)
    | _ \<Rightarrow> False)"

definition is_alnum :: "char \<Rightarrow> bool" where
  "is_alnum c = (let n = (of_char c :: nat) in (97 \<le> n \<and> n \<le> 122) \<or> (48 \<le> n \<and> n \<le> 57))"

text \<open>The longest runs of such characters.\<close>

function runs :: "('a \<Rightarrow> bool) \<Rightarrow> 'a list \<Rightarrow> 'a list list" where
  "runs p [] = []"
| "runs p (c # cs) = (if p c then (c # takeWhile p cs) # runs p (dropWhile p cs) else runs p cs)"
  by pat_completeness auto
termination by (relation "measure (length \<circ> snd)") (simp_all add: length_dropWhile_le le_imp_less_Suc)

definition tokenize_for_embedding :: "string \<Rightarrow> string list" where
  "tokenize_for_embedding text =
    (let normalized = lower (strip text);
         words = filter (\<lambda>w. 2 \<le> length w) (runs is_alnum normalized);
         cjk = filter is_cjk (characters normalized)
     in dedup (words @ cjk @ map2 (@) cjk (tl cjk)))"

text \<open>Four other characters weigh as much as one ideograph.\<close>

definition estimate_tokens :: "string \<Rightarrow> nat" where
  "estimate_tokens text =
    (let chs = characters text; cjk = length (filter is_cjk chs);
         other = length (filter (\<lambda>ch. \<not> is_cjk ch \<and> \<not> is_space (hd ch)) chs)
     in cjk + (other + 3) div 4)"

definition truncate_text :: "string \<Rightarrow> nat \<Rightarrow> string" where
  "truncate_text s n = (let t = strip s in if char_length t \<le> n then t else take_chars n t)"

text \<open>The vector of a text: its tokens counted in the bins their digests name, at length one.\<close>

definition embed_text :: "(pyfloat \<Rightarrow> pyfloat) \<Rightarrow> (string \<Rightarrow> nat) \<Rightarrow> string \<Rightarrow> nat \<Rightarrow> pyfloat list" where
  "embed_text sqrt_of digest text dimensions =
    (let vec = fold (\<lambda>t v. let i = digest t mod dimensions in v[i := v ! i + 1]) (tokenize_for_embedding text) (replicate dimensions 0);
         norm = sqrt_of (sum_list (map (\<lambda>x. x * x) vec))
     in if norm \<le> 0 then vec else map (\<lambda>x. x / norm) vec)"

definition cosine_similarity :: "(pyfloat \<Rightarrow> pyfloat) \<Rightarrow> pyfloat list \<Rightarrow> pyfloat list \<Rightarrow> pyfloat" where
  "cosine_similarity sqrt_of a b =
    (let dot = sum_list (map2 (*) a b); na = sqrt_of (sum_list (map (\<lambda>x. x * x) a)); nb = sqrt_of (sum_list (map (\<lambda>x. x * x) b))
     in if length a \<noteq> length b \<or> a = [] \<or> na \<le> 0 \<or> nb \<le> 0 then 0 else dot / (na * nb))"

section \<open>The ratio of two sequences\<close>

fun common_prefix :: "'a list \<Rightarrow> 'a list \<Rightarrow> nat" where
  "common_prefix (x # xs) (y # ys) = (if x = y then Suc (common_prefix xs ys) else 0)"
| "common_prefix _ _ = 0"

text \<open>
  The longest block both have, the first in either among equals: where it begins, and its length.
  Items that are popular begin no block, but a block is continued over them on both sides.
\<close>

definition better_match :: "('a \<Rightarrow> bool) \<Rightarrow> 'a list \<Rightarrow> 'a list \<Rightarrow> nat \<times> nat \<Rightarrow> nat \<times> nat \<times> nat \<Rightarrow> nat \<times> nat \<times> nat" where
  "better_match pop xs ys ij best =
    (let k = common_prefix (takeWhile (\<lambda>x. \<not> pop x) (drop (fst ij) xs)) (drop (snd ij) ys)
     in if k > snd (snd best) then (fst ij, snd ij, k) else best)"

definition extend_match :: "'a list \<Rightarrow> 'a list \<Rightarrow> nat \<times> nat \<times> nat \<Rightarrow> nat \<times> nat \<times> nat" where
  "extend_match xs ys = (\<lambda>(i, j, k).
     let l = common_prefix (rev (take i xs)) (rev (take j ys)); r = common_prefix (drop (i + k) xs) (drop (j + k) ys)
     in (i - l, j - l, l + k + r))"

definition find_longest_match :: "('a \<Rightarrow> bool) \<Rightarrow> 'a list \<Rightarrow> 'a list \<Rightarrow> nat \<times> nat \<times> nat" where
  "find_longest_match pop xs ys =
    extend_match xs ys (fold (better_match pop xs ys) (List.product [0..<length xs] [0..<length ys]) (0, 0, 0))"

lemma common_prefix_le: "common_prefix xs ys \<le> length xs" "common_prefix xs ys \<le> length ys"
  by (induction xs ys rule: common_prefix.induct) simp_all

definition match_within :: "'a list \<Rightarrow> 'a list \<Rightarrow> nat \<times> nat \<times> nat \<Rightarrow> bool" where
  "match_within xs ys b \<longleftrightarrow> fst b + snd (snd b) \<le> length xs \<and> fst (snd b) + snd (snd b) \<le> length ys"

lemma better_match_within: "match_within xs ys b \<Longrightarrow> ij \<in> set (List.product [0..<length xs] [0..<length ys]) \<Longrightarrow>
  match_within xs ys (better_match pop xs ys ij b)"
proof -
  assume b: "match_within xs ys b" and ij: "ij \<in> set (List.product [0..<length xs] [0..<length ys])"
  define k where "k = common_prefix (takeWhile (\<lambda>x. \<not> pop x) (drop (fst ij) xs)) (drop (snd ij) ys)"
  have "k \<le> length (takeWhile (\<lambda>x. \<not> pop x) (drop (fst ij) xs))" "k \<le> length ys - snd ij"
    using common_prefix_le [of "takeWhile (\<lambda>x. \<not> pop x) (drop (fst ij) xs)" "drop (snd ij) ys"] by (simp_all add: k_def)
  then have "k \<le> length xs - fst ij" "k \<le> length ys - snd ij"
    using length_takeWhile_le [of "\<lambda>x. \<not> pop x" "drop (fst ij) xs"] by simp_all
  with b ij show ?thesis by (auto simp: better_match_def k_def [symmetric] match_within_def Let_def)
qed

lemma fold_match_within: "match_within xs ys b \<Longrightarrow> set ijs \<subseteq> set (List.product [0..<length xs] [0..<length ys]) \<Longrightarrow>
  match_within xs ys (fold (better_match pop xs ys) ijs b)"
  by (induction ijs arbitrary: b) (simp_all add: better_match_within)

lemma extend_match_within: "match_within xs ys b \<Longrightarrow> match_within xs ys (extend_match xs ys b)"
proof -
  assume b: "match_within xs ys b"
  obtain i j k where ijk: "b = (i, j, k)" by (rule prod_cases3)
  define l r where "l = common_prefix (rev (take i xs)) (rev (take j ys))"
    and "r = common_prefix (drop (i + k) xs) (drop (j + k) ys)"
  have "l \<le> i" "l \<le> j" "r \<le> length xs - (i + k)" "r \<le> length ys - (j + k)"
    using common_prefix_le [of "rev (take i xs)" "rev (take j ys)"] common_prefix_le [of "drop (i + k) xs" "drop (j + k) ys"]
    by (simp_all add: l_def r_def)
  moreover have "extend_match xs ys b = (i - l, j - l, l + k + r)"
    by (simp add: ijk extend_match_def Let_def l_def [symmetric] r_def [symmetric])
  moreover have "i + k \<le> length xs" "j + k \<le> length ys" using b by (simp_all add: ijk match_within_def)
  ultimately show ?thesis unfolding match_within_def by auto
qed

lemma longest_match_within:
  assumes "find_longest_match pop xs ys = (i, j, k)"
  shows "i + k \<le> length xs" "j + k \<le> length ys"
proof -
  have "match_within xs ys (find_longest_match pop xs ys)"
    unfolding find_longest_match_def by (intro extend_match_within fold_match_within) (simp_all add: match_within_def)
  with assms show "i + k \<le> length xs" "j + k \<le> length ys" by (simp_all add: match_within_def)
qed

lemma longest_match_shorter:
  assumes "(i, j, k) = find_longest_match pop xs ys" "0 < k"
  shows "min (length xs) i < length xs" "length xs - (i + k) < length xs"
  using longest_match_within [OF assms(1) [symmetric]] assms(2) by auto

text \<open>The sizes of the matching blocks, on both sides of the longest.\<close>

function count_matches :: "('a \<Rightarrow> bool) \<Rightarrow> 'a list \<Rightarrow> 'a list \<Rightarrow> nat" where
  "count_matches pop xs ys = (case find_longest_match pop xs ys of (i, j, k) \<Rightarrow>
     if k = 0 then 0
     else count_matches pop (take i xs) (take j ys) + k + count_matches pop (drop (i + k) xs) (drop (j + k) ys))"
  by pat_completeness auto
termination
  by (relation "measure (\<lambda>(pop, xs, ys). length xs)") (auto dest: longest_match_shorter)

declare count_matches.simps [simp del]

definition ratio_by :: "('a \<Rightarrow> bool) \<Rightarrow> 'a list \<Rightarrow> 'a list \<Rightarrow> pyfloat" where
  "ratio_by pop xs ys = (if length xs + length ys = 0 then 1
     else 2 * of_nat (count_matches pop xs ys) / of_nat (length xs + length ys))"

definition match_ratio :: "'a list \<Rightarrow> 'a list \<Rightarrow> pyfloat" where
  "match_ratio xs ys = ratio_by (\<lambda>_. False) xs ys"

text \<open>With \<open>autojunk\<close>: in a second sequence of 200 items or more the frequent ones are popular.\<close>

definition popular :: "'a list \<Rightarrow> 'a \<Rightarrow> bool" where
  "popular ys y \<longleftrightarrow> 200 \<le> length ys \<and> length ys div 100 + 1 < count_list ys y"

definition autojunk_ratio :: "'a list \<Rightarrow> 'a list \<Rightarrow> pyfloat" where
  "autojunk_ratio xs ys = ratio_by (popular ys) xs ys"

lemma count_matches_le: "count_matches pop xs ys \<le> length xs \<and> count_matches pop xs ys \<le> length ys"
proof (induction pop xs ys rule: count_matches.induct)
  case (1 pop xs ys)
  obtain i j k where m: "find_longest_match pop xs ys = (i, j, k)" by (metis prod_cases3)
  show ?case
  proof (cases "k = 0")
    case False
    with longest_match_within [OF m] 1 [OF m [symmetric] refl False] 1(2) [OF m [symmetric] refl False] show ?thesis
      by (subst (1 2) count_matches.simps) (auto simp: m)
  qed (simp add: count_matches.simps [of pop xs] m)
qed

lemma ratio_by_bounds: "0 \<le> ratio_by pop xs ys" "ratio_by pop xs ys \<le> 1"
proof -
  have "2 * count_matches pop xs ys \<le> length xs + length ys" using count_matches_le [of pop xs ys] by linarith
  then have "(of_nat (2 * count_matches pop xs ys) :: rat) \<le> of_nat (length xs + length ys)" by (simp only: of_nat_le_iff)
  then show "ratio_by pop xs ys \<le> 1" by (auto simp: ratio_by_def divide_simps)
  show "0 \<le> ratio_by pop xs ys" by (simp add: ratio_by_def)
qed

lemma match_ratio_bounds: "0 \<le> match_ratio xs ys" "match_ratio xs ys \<le> 1"
  by (simp_all add: match_ratio_def ratio_by_bounds)

lemma common_prefix_self [simp]: "common_prefix xs xs = length xs"
  by (induction xs) simp_all

end
