(* ===== verification/Sample_Library.thy ===== *)
theory Sample_Library
  imports Memory_Chunks Sample_Text
begin

text \<open>
  The store of decomposition samples (\<open>SampleRepository\<close> in
  \<open>core/decomposition_sample_library.py\<close>) on the table of memories: reading a row as a sample,
  adding a candidate or merging it into a near duplicate, listing, and the changes of a sample's
  metadata, each in one statement that comes last, after everything that can raise.

  A step handed to the store is the dictionary \<open>asdict\<close>, \<open>dict\<close> or \<open>vars\<close> makes of it, with
  enumerations as their texts. The digest of a sample's content is a function of the environment.
\<close>

section \<open>Samples\<close>

definition SAMPLE_MEMORY_TYPE :: string where
  "SAMPLE_MEMORY_TYPE = ''decomposition_sample''"

definition PLANSTEP_SCHEMA_VERSION :: int where
  "PLANSTEP_SCHEMA_VERSION = 1"

definition STEP_FIELDS :: "string list" where
  "STEP_FIELDS = [''title'', ''description'', ''expected_output'', ''verification'', ''completion_criteria'', ''stage'', ''subagent_type'']"

definition sample_states :: "string list" where
  "sample_states = [''candidate'', ''verified'', ''stale'', ''rejected'', ''archived'']"

record decomposition_sample =
  sp_id :: string
  sp_task :: string
  sp_state :: string
  sp_verify :: "string option"
  sp_steps :: "pyval dict list"
  sp_schema :: int
  sp_source :: string
  sp_plan :: "string option"
  sp_provenance :: "string list"
  sp_usage :: "pyval dict"
  sp_tools :: "string list"
  sp_hash :: string
  sp_version :: int
  sp_status :: string
  sp_created :: pyfloat
  sp_updated :: pyfloat
  sp_stale_reason :: "string option"
  sp_rejected_by :: "string option"
  sp_last_actor :: "string option"

text \<open>The table and the events of the library.\<close>

record sample_world = memory_db +
  sw_events :: "(string \<times> pyval dict) list"

record library_env = memory_env +
  se_hash :: "string \<Rightarrow> pyval dict list \<Rightarrow> string"

definition value_error :: "string \<Rightarrow> exn" where
  "value_error t = Exn ValueError t"

definition empty_usage :: "pyval dict" where
  "empty_usage = [(''injected_count'', PInt 0), (''last_hit_at'', PNone), (''last_injected_at'', PNone),
     (''similarity_sum'', PFloat 0), (''similarity_count'', PInt 0), (''plan_completed'', PInt 0),
     (''plan_failed'', PInt 0), (''consecutive_failures'', PInt 0)]"

definition validate_state :: "string \<Rightarrow> exn + unit" where
  "validate_state st = (if st \<in> set sample_states then Inr () else Inl (value_error ''invalid decomposition sample state''))"

definition decode_metadata :: "pyval \<Rightarrow> pyval dict" where
  "decode_metadata v = (case v of PDict m \<Rightarrow> m | _ \<Rightarrow> [])"

definition normalize_description :: "string \<Rightarrow> exn + string" where
  "normalize_description s = (let t = strip s in
     if t = [] then Inl (value_error ''decomposition sample task description must not be empty'') else Inr t)"

definition normalize_strings :: "string list \<Rightarrow> string list" where
  "normalize_strings xs = dedup (filter (\<lambda>s. s \<noteq> []) (map strip xs))"

definition sample_id :: "string \<Rightarrow> exn + int" where
  "sample_id s = (case parse_int s of Some i \<Rightarrow> Inr i | None \<Rightarrow> Inl (value_error ''invalid decomposition sample id''))"

definition opt_text :: "(pyval \<Rightarrow> string) \<Rightarrow> pyval dict \<Rightarrow> string \<Rightarrow> string option" where
  "opt_text rp m k = (if truthy (pget m k) then Some (py_str rp (pget m k)) else None)"

text \<open>\<open>int(m.get(k) or d)\<close>, \<open>float(v or 0.0)\<close>, and the texts of \<open>m.get(k, [])\<close> that are not blank\<close>

definition int_or :: "pyval dict \<Rightarrow> string \<Rightarrow> int \<Rightarrow> exn + int" where
  "int_or m k d = (if truthy (pget m k) then py_int (pget m k) else Inr d)"

definition float_or_zero :: "pyval \<Rightarrow> exn + pyfloat" where
  "float_or_zero v = (if truthy v then py_float v else Inr 0)"

definition texts_in :: "(pyval \<Rightarrow> string) \<Rightarrow> pyval dict \<Rightarrow> string \<Rightarrow> exn + string list" where
  "texts_in rp m k = (case dget m k of None \<Rightarrow> Inr []
     | Some v \<Rightarrow> and_then (py_iter v) (\<lambda>xs. Inr (filter (\<lambda>s. strip s \<noteq> []) (map (py_str rp) xs))))"

definition dicts_of :: "pyval \<Rightarrow> pyval dict list" where
  "dicts_of v = (case v of PList xs \<Rightarrow> List.map_filter (\<lambda>x. case x of PDict d \<Rightarrow> Some d | _ \<Rightarrow> None) xs | _ \<Rightarrow> [])"

definition row_to_sample :: "'e memory_env_scheme \<Rightarrow> chunk \<Rightarrow> exn + decomposition_sample" where
  "row_to_sample env r =
    (let m = decode_metadata (ch_metadata r); rp = me_repr env in
     and_then (int_or m ''schema_version'' 0) (\<lambda>schema.
     and_then (case pget m ''provenance'' of PDict p \<Rightarrow> texts_in rp p ''sample_ids'' | _ \<Rightarrow> Inr []) (\<lambda>prov.
     and_then (texts_in rp m ''tool_refs'') (\<lambda>tools.
     and_then (int_or m ''version'' 1) (\<lambda>version.
     and_then (float_or_zero (ch_created r)) (\<lambda>created.
     and_then (float_or_zero (ch_modified r)) (\<lambda>updated.
       Inr \<lparr>sp_id = int_str (ch_id r), sp_task = ch_content r, sp_state = meta_text rp m ''sample_state'' ''candidate'',
          sp_verify = opt_text rp m ''verify_kind'', sp_steps = dicts_of (pget m ''steps''), sp_schema = schema,
          sp_source = meta_text rp m ''source'' ''rule'', sp_plan = opt_text rp m ''plan_id'', sp_provenance = prov,
          sp_usage = (case pget m ''usage'' of PDict u \<Rightarrow> u | _ \<Rightarrow> empty_usage), sp_tools = tools,
          sp_hash = meta_text rp m ''content_hash'' [], sp_version = max 1 version,
          sp_status = (if ch_status r = [] then ''active'' else ch_status r),
          sp_created = created, sp_updated = updated, sp_stale_reason = opt_text rp m ''stale_reason'',
          sp_rejected_by = opt_text rp m ''rejected_by'', sp_last_actor = opt_text rp m ''last_actor''\<rparr>)))))))"

section \<open>What is stored of a step\<close>

definition step_text :: "(pyval \<Rightarrow> string) \<Rightarrow> pyval dict \<Rightarrow> string \<Rightarrow> pyval" where
  "step_text rp p k = (if pget p k = PNone then PNone else PStr (strip (py_str rp (pget p k))))"

definition serialize_step :: "(pyval \<Rightarrow> string) \<Rightarrow> pyval dict \<Rightarrow> exn + pyval dict" where
  "serialize_step rp p =
    (let item = map (\<lambda>k. (k, step_text rp p k)) STEP_FIELDS;
         item = (if truthy (pget item ''title'') then item
                 else dset item ''title'' (PStr (strip (meta_text rp p ''step_id'' []))));
         item = (if truthy (pget item ''description'') then item
                 else (case pget p ''payload'' of
                     PDict n \<Rightarrow> dset item ''description'' (PStr (strip (meta_text rp n ''description'' [])))
                   | _ \<Rightarrow> item))
     in if truthy (pget item ''title'') \<and> truthy (pget item ''description'') then Inr item
        else Inl (value_error ''decomposition sample step requires title and description''))"

definition serialize_steps :: "(pyval \<Rightarrow> string) \<Rightarrow> pyval dict list \<Rightarrow> exn + pyval dict list" where
  "serialize_steps rp = traverse (serialize_step rp)"

definition tool_ref :: "(pyval \<Rightarrow> string) \<Rightarrow> pyval dict \<Rightarrow> string option" where
  "tool_ref rp p =
    (let raw = (if truthy (pget p ''action'') then pget p ''action''
                else if truthy (pget p ''tool'') then pget p ''tool'' else pget p ''skill_id'');
         t = takeWhile (\<lambda>c. c \<noteq> CHR ''.'') (takeWhile (\<lambda>c. c \<noteq> CHR '':'') (strip (py_str rp raw)))
     in if truthy raw \<and> t \<noteq> [] \<and> t \<noteq> ''chat'' then Some t else None)"

definition extract_tool_refs :: "(pyval \<Rightarrow> string) \<Rightarrow> pyval dict list \<Rightarrow> string list" where
  "extract_tool_refs rp steps = dedup (List.map_filter (tool_ref rp) steps)"

definition content_hash :: "'e library_env_scheme \<Rightarrow> string \<Rightarrow> pyval dict list \<Rightarrow> string" where
  "content_hash env desc steps = se_hash env (strip desc) steps"

definition content_tokens :: "(pyval \<Rightarrow> string) \<Rightarrow> string \<Rightarrow> pyval dict list \<Rightarrow> string list" where
  "content_tokens rp desc steps = tokenize_for_embedding (join newline
     (strip desc # concat (map (\<lambda>s. map (\<lambda>f. strip (meta_text rp s f [])) STEP_FIELDS) steps)))"

section \<open>Reading\<close>

definition is_sample :: "chunk \<Rightarrow> bool" where
  "is_sample r = (ch_type r = SAMPLE_MEMORY_TYPE)"

definition sample_at :: "int \<Rightarrow> chunk \<Rightarrow> bool" where
  "sample_at i r = (ch_id r = i \<and> is_sample r)"

definition get_sample :: "'e memory_env_scheme \<Rightarrow> string \<Rightarrow> 'd memory_db_scheme \<Rightarrow> exn + decomposition_sample option" where
  "get_sample env sid db = and_then (sample_id sid) (\<lambda>i. case find_chunk (sample_at i) db of
       None \<Rightarrow> Inr None | Some r \<Rightarrow> and_then (row_to_sample env r) (\<lambda>s. Inr (Some s)))"

text \<open>The read after a write: no sample is an error.\<close>

definition reload_sample :: "'e memory_env_scheme \<Rightarrow> string \<Rightarrow> 'd memory_db_scheme \<Rightarrow> (exn + decomposition_sample) \<times> 'd memory_db_scheme" where
  "reload_sample env sid db = (and_then (get_sample env sid db) (\<lambda>s. case s of
       Some s \<Rightarrow> Inr s | None \<Rightarrow> Inl (Exn RuntimeError ''decomposition sample could not be reloaded'')), db)"

text \<open>\<open>COALESCE(json_extract(metadata, '$.sample_state'), 'candidate')\<close>: only a text equals a text.\<close>

definition sql_state :: "chunk \<Rightarrow> string option" where
  "sql_state r = (case pget (decode_metadata (ch_metadata r)) ''sample_state'' of
      PNone \<Rightarrow> Some ''candidate'' | PStr s \<Rightarrow> Some s | _ \<Rightarrow> None)"

definition normalize_sample_states :: "string option \<Rightarrow> string list option \<Rightarrow> exn + string list" where
  "normalize_sample_states one many = (case (one, many) of
      (Some s, Some _) \<Rightarrow> Inl (value_error ''sample_state and sample_states are mutually exclusive'')
    | (Some s, None) \<Rightarrow> and_then (validate_state s) (\<lambda>_. Inr [s])
    | (None, _) \<Rightarrow> (let ss = dedup (map strip (case many of Some xs \<Rightarrow> xs | None \<Rightarrow> []))
         in and_then (traverse validate_state ss) (\<lambda>_. Inr ss)))"

definition state_filter :: "string list \<Rightarrow> chunk \<Rightarrow> bool" where
  "state_filter ss r = (is_sample r \<and> (ss = [] \<or> (case sql_state r of Some s \<Rightarrow> s \<in> set ss | None \<Rightarrow> False)))"

definition list_samples :: "'e memory_env_scheme \<Rightarrow> string option \<Rightarrow> string list option \<Rightarrow> int \<Rightarrow> int \<Rightarrow> 'd memory_db_scheme
    \<Rightarrow> exn + decomposition_sample list" where
  "list_samples env one many limit offset db =
    and_then (normalize_sample_states one many) (\<lambda>ss. traverse (row_to_sample env)
      (take (nat (max 1 (min limit 500))) (drop (nat (max 0 offset)) (newest_first (filter (state_filter ss) (db_chunks db))))))"

definition count_samples :: "string option \<Rightarrow> string list option \<Rightarrow> 'd memory_db_scheme \<Rightarrow> exn + nat" where
  "count_samples one many db = and_then (normalize_sample_states one many) (\<lambda>ss. Inr (length (filter (state_filter ss) (db_chunks db))))"

section \<open>Writing\<close>

definition delete_sample :: "string \<Rightarrow> 'd memory_db_scheme \<Rightarrow> (exn + bool) \<times> 'd memory_db_scheme" where
  "delete_sample sid db = (case sample_id sid of Inl e \<Rightarrow> (Inl e, db)
     | Inr i \<Rightarrow> (let (n, db) = delete_chunks (sample_at i) db in (Inr (n = 1), db)))"

definition write_metadata :: "pyval dict \<Rightarrow> string \<Rightarrow> pyfloat \<Rightarrow> chunk \<Rightarrow> chunk" where
  "write_metadata m st now r = r\<lparr>ch_metadata := PDict m, ch_status := st, ch_modified := PFloat now\<rparr>"

definition mutate_metadata :: "'e memory_env_scheme \<Rightarrow> string \<Rightarrow> (pyval dict \<Rightarrow> exn + pyval dict) \<Rightarrow> string option
    \<Rightarrow> 'd memory_db_scheme \<Rightarrow> (exn + decomposition_sample) \<times> 'd memory_db_scheme" where
  "mutate_metadata env sid mutation db_status db =
    (case sample_id sid of Inl e \<Rightarrow> (Inl e, db)
     | Inr i \<Rightarrow> case find_chunk (sample_at i) db of
         None \<Rightarrow> (Inl (value_error ''decomposition sample not found''), db)
       | Some r \<Rightarrow> case mutation (decode_metadata (ch_metadata r)) of
           Inl e \<Rightarrow> (Inl e, db)
         | Inr m \<Rightarrow>
             let old = (if ch_status r = [] then ''active'' else ch_status r);
                 st = (case db_status of Some s \<Rightarrow> if s = [] then old else s | None \<Rightarrow> old)
             in if st \<notin> {''active'', ''cancelled''} then (Inl (value_error ''invalid decomposition sample db status''), db)
                else let (now, db) = db_now env db;
                         db = snd (update_chunks (sample_at i) (write_metadata m st now) db)
                     in reload_sample env (int_str i) db)"

definition assign_plan_id :: "'e memory_env_scheme \<Rightarrow> string \<Rightarrow> string \<Rightarrow> 'd memory_db_scheme
    \<Rightarrow> (exn + decomposition_sample) \<times> 'd memory_db_scheme" where
  "assign_plan_id env sid plan_id db = (let p = strip plan_id in
     if p = [] then (Inl (value_error ''decomposition sample plan_id must not be empty''), db)
     else mutate_metadata env sid (\<lambda>m. Inr (dset m ''plan_id'' (PStr p))) None db)"

definition usage_of :: "pyval dict \<Rightarrow> pyval dict" where
  "usage_of m = (case pget m ''usage'' of PDict u \<Rightarrow> u | _ \<Rightarrow> empty_usage)"

text \<open>\<open>u[k] = int(u.get(k) or 0) + 1\<close>\<close>

definition bump :: "string \<Rightarrow> pyval dict \<Rightarrow> exn + pyval dict" where
  "bump k u = and_then (int_or u k 0) (\<lambda>n. Inr (dset u k (PInt (n + 1))))"

definition inject_usage :: "pyfloat \<Rightarrow> pyfloat option \<Rightarrow> pyval dict \<Rightarrow> exn + pyval dict" where
  "inject_usage hit similarity m =
    and_then (bump ''injected_count'' (usage_of m)) (\<lambda>u.
      let u = dset (dset u ''last_hit_at'' (PFloat hit)) ''last_injected_at'' (PFloat hit)
      in and_then (case similarity of None \<Rightarrow> Inr u
           | Some q \<Rightarrow> and_then (float_or_zero (pget u ''similarity_sum'')) (\<lambda>t.
               bump ''similarity_count'' (dset u ''similarity_sum'' (PFloat (t + q)))))
         (\<lambda>u. Inr (dset m ''usage'' (PDict u))))"

definition record_injection :: "'e memory_env_scheme \<Rightarrow> string \<Rightarrow> pyfloat option \<Rightarrow> pyfloat option \<Rightarrow> 'd memory_db_scheme
    \<Rightarrow> (exn + decomposition_sample) \<times> 'd memory_db_scheme" where
  "record_injection env sid hit_at similarity db =
    (let (hit, db) = (case hit_at of Some t \<Rightarrow> (t, db) | None \<Rightarrow> db_now env db)
     in mutate_metadata env sid (inject_usage hit similarity) None db)"

definition outcome_usage :: "bool \<Rightarrow> pyval dict \<Rightarrow> exn + pyval dict" where
  "outcome_usage completed m =
    and_then (if completed
       then and_then (bump ''plan_completed'' (usage_of m)) (\<lambda>u. Inr (dset u ''consecutive_failures'' (PInt 0)))
       else and_then (bump ''plan_failed'' (usage_of m)) (bump ''consecutive_failures''))
     (\<lambda>u. Inr (dset m ''usage'' (PDict u)))"

definition record_plan_outcome :: "'e memory_env_scheme \<Rightarrow> string \<Rightarrow> bool \<Rightarrow> 'd memory_db_scheme
    \<Rightarrow> (exn + decomposition_sample) \<times> 'd memory_db_scheme" where
  "record_plan_outcome env sid completed db = mutate_metadata env sid (outcome_usage completed) None db"

definition edit_content :: "'e memory_env_scheme \<Rightarrow> string \<Rightarrow> string \<Rightarrow> pyval dict list \<Rightarrow> (pyval dict \<Rightarrow> pyval dict list \<Rightarrow> exn + pyval dict)
    \<Rightarrow> 'd memory_db_scheme \<Rightarrow> (exn + decomposition_sample) \<times> 'd memory_db_scheme" where
  "edit_content env sid task steps mutation db =
    (case and_then (sample_id sid) (\<lambda>i. and_then (normalize_description task) (\<lambda>desc.
            and_then (serialize_steps (me_repr env) steps) (\<lambda>ser.
              if ser = [] then Inl (value_error ''decomposition sample steps must not be empty'') else Inr (i, desc, ser)))) of
       Inl e \<Rightarrow> (Inl e, db)
     | Inr (i, desc, ser) \<Rightarrow> case find_chunk (sample_at i) db of
         None \<Rightarrow> (Inl (value_error ''decomposition sample not found''), db)
       | Some r \<Rightarrow> case mutation (decode_metadata (ch_metadata r)) ser of
           Inl e \<Rightarrow> (Inl e, db)
         | Inr m \<Rightarrow>
             let (now, db) = db_now env db;
                 db = snd (update_chunks (sample_at i) (\<lambda>r. r\<lparr>ch_content := desc, ch_body := desc, ch_metadata := PDict m,
                        ch_status := ''active'', ch_modified := PFloat now\<rparr>) db)
             in reload_sample env (int_str i) db)"

section \<open>Adding a candidate\<close>

definition sample_rows :: "'d memory_db_scheme \<Rightarrow> chunk list" where
  "sample_rows db = newest_first (filter is_sample (db_chunks db))"

definition closer :: "(decomposition_sample \<Rightarrow> pyfloat) \<Rightarrow> decomposition_sample \<Rightarrow> decomposition_sample option \<times> pyfloat
    \<Rightarrow> decomposition_sample option \<times> pyfloat" where
  "closer sim s best = (if sim s > snd best then (Some s, sim s) else best)"

definition find_duplicate :: "'e memory_env_scheme \<Rightarrow> string \<Rightarrow> pyval dict list \<Rightarrow> string \<Rightarrow> 'd memory_db_scheme
    \<Rightarrow> exn + decomposition_sample option \<times> pyfloat" where
  "find_duplicate env desc steps hash db =
    (case filter (\<lambda>r. pget (decode_metadata (ch_metadata r)) ''content_hash'' = PStr hash) (sample_rows db) of
       r # _ \<Rightarrow> and_then (row_to_sample env r) (\<lambda>s. Inr (Some s, 1))
     | [] \<Rightarrow>
         let target = content_tokens (me_repr env) desc steps;
             sim = (\<lambda>s. match_ratio target (content_tokens (me_repr env) (sp_task s) (sp_steps s)))
         in if target = [] then Inr (None, 0)
            else and_then (traverse (row_to_sample env) (sample_rows db)) (\<lambda>samples.
                let best = fold (closer sim) samples (None, 0)
                in Inr (if snd best > 95 / 100 then best else (None, 0))))"

text \<open>
  \<open>json_set\<close> on the two counters of \<open>usage\<close>: it makes a missing \<open>usage\<close> and leaves a value that is
  no object alone. A counter that is no number counts as zero.
\<close>

definition sql_number :: "pyval \<Rightarrow> pyfloat" where
  "sql_number v = (case v of PInt i \<Rightarrow> of_int i | PFloat q \<Rightarrow> q | PBool b \<Rightarrow> if b then 1 else 0 | _ \<Rightarrow> 0)"

definition merge_usage :: "pyfloat \<Rightarrow> pyval dict \<Rightarrow> pyval dict" where
  "merge_usage q u = (let u = dset u ''similarity_sum'' (PFloat (sql_number (pget u ''similarity_sum'') + q))
     in dset u ''similarity_count'' (PInt (\<lfloor>sql_number (pget u ''similarity_count'')\<rfloor> + 1)))"

definition merge_metadata :: "pyfloat \<Rightarrow> pyval \<Rightarrow> pyval" where
  "merge_metadata q v = (case v of
      PDict m \<Rightarrow> (case dget m ''usage'' of
          None \<Rightarrow> PDict (dset m ''usage'' (PDict (merge_usage q [])))
        | Some (PDict u) \<Rightarrow> PDict (dset m ''usage'' (PDict (merge_usage q u)))
        | Some _ \<Rightarrow> v)
    | _ \<Rightarrow> v)"

definition merge_duplicate :: "'e memory_env_scheme \<Rightarrow> string \<Rightarrow> pyfloat \<Rightarrow> 'd memory_db_scheme
    \<Rightarrow> (exn + decomposition_sample) \<times> 'd memory_db_scheme" where
  "merge_duplicate env sid similarity db =
    (case sample_id sid of Inl e \<Rightarrow> (Inl e, db)
     | Inr i \<Rightarrow>
         let (now, db) = db_now env db;
             (n, db') = update_chunks (sample_at i)
               (\<lambda>r. r\<lparr>ch_metadata := merge_metadata similarity (ch_metadata r), ch_modified := PFloat now\<rparr>) db
         in if n \<noteq> 1 then (Inl (value_error ''decomposition sample not found''), db') else reload_sample env sid db')"

definition candidate_metadata :: "string \<Rightarrow> pyval dict list \<Rightarrow> string option \<Rightarrow> string list \<Rightarrow> string list \<Rightarrow> string \<Rightarrow> pyval dict" where
  "candidate_metadata source steps plan_id prov tools hash =
    [(''sample_state'', PStr ''candidate''), (''verify_kind'', PNone), (''steps'', PList (map PDict steps)),
     (''schema_version'', PInt PLANSTEP_SCHEMA_VERSION), (''source'', PStr source),
     (''plan_id'', case plan_id of Some p \<Rightarrow> if p = [] then PNone else PStr (strip p) | None \<Rightarrow> PNone),
     (''provenance'', PDict [(''sample_ids'', PList (map PStr prov))]), (''usage'', PDict empty_usage),
     (''tool_refs'', PList (map PStr tools)), (''content_hash'', PStr hash), (''version'', PInt 1),
     (''stale_reason'', PNone), (''rejected_by'', PNone), (''last_actor'', PStr ''system'')]"

text \<open>The arguments of \<open>create_candidate\<close>, and their checks.\<close>

record candidate_args =
  ca_task :: string
  ca_steps :: "pyval dict list"
  ca_source :: string
  ca_plan :: "string option"
  ca_provenance :: "string list"
  ca_tools :: "string list option"

definition check_candidate :: "(pyval \<Rightarrow> string) \<Rightarrow> candidate_args \<Rightarrow> exn + string \<times> pyval dict list \<times> string" where
  "check_candidate rp ca =
    and_then (normalize_description (ca_task ca)) (\<lambda>desc. and_then (serialize_steps rp (ca_steps ca)) (\<lambda>ser.
      if ser = [] then Inl (value_error ''decomposition sample steps must not be empty'')
      else let src = strip (ca_source ca)
        in if src \<notin> {''llm'', ''rule'', ''user_edit''} then Inl (value_error ''invalid decomposition sample source'')
           else Inr (desc, ser, src)))"

definition create_candidate :: "'e library_env_scheme \<Rightarrow> candidate_args \<Rightarrow> 'd memory_db_scheme
    \<Rightarrow> (exn + decomposition_sample) \<times> 'd memory_db_scheme" where
  "create_candidate env ca db =
    (case check_candidate (me_repr env) ca of
       Inl e \<Rightarrow> (Inl e, db)
     | Inr (desc, ser, src) \<Rightarrow>
         let tools = normalize_strings (case ca_tools ca of None \<Rightarrow> extract_tool_refs (me_repr env) (ca_steps ca) | Some ts \<Rightarrow> ts);
             hash = content_hash env desc ser
         in case find_duplicate env desc ser hash db of
              Inl e \<Rightarrow> (Inl e, db)
            | Inr (Some dup, similarity) \<Rightarrow> merge_duplicate env (sp_id dup) similarity db
            | Inr (None, _) \<Rightarrow>
                let m = candidate_metadata src ser (ca_plan ca) (normalize_strings (ca_provenance ca)) tools hash
                in try_then (add_memory_chunk env desc None ''plan_decomposer''
                      [(''content'', PStr desc), (''memory_type'', PStr SAMPLE_MEMORY_TYPE), (''status'', PStr ''active''),
                       (''metadata'', PDict m)] db)
                    (\<lambda>i db. reload_sample env (int_str i) db))"

end
