(* ===== verification/Sample_Lifecycle.thy ===== *)
theory Sample_Lifecycle
  imports Sample_Library
begin

text \<open>
  The life of a sample (\<open>SampleLifecycleManager\<close> in \<open>core/decomposition_sample_library.py\<close>): the
  transitions a user asks for and those the program makes by itself, with their events, and what
  each keeps of the samples a user has decided about. An event stream takes every event.
\<close>

section \<open>Transitions\<close>

definition transition_error :: "string \<Rightarrow> exn" where
  "transition_error t = Exn (AppError ''InvalidSampleTransitionError'') t"

definition emit :: "string \<Rightarrow> pyval dict \<Rightarrow> sample_world \<Rightarrow> sample_world" where
  "emit ev payload w = w\<lparr>sw_events := sw_events w @ [(ev, payload)]\<rparr>"

definition opt_val :: "string option \<Rightarrow> pyval" where
  "opt_val t = (case t of Some s \<Rightarrow> PStr s | None \<Rightarrow> PNone)"

definition emit_transition :: "string \<Rightarrow> decomposition_sample \<Rightarrow> decomposition_sample \<Rightarrow> string \<Rightarrow> string option \<Rightarrow> sample_world \<Rightarrow> sample_world" where
  "emit_transition ev previous updated actor why w = emit ev
     ([(''sample_id'', PStr (sp_id updated)), (''previous_state'', PStr (sp_state previous)),
       (''sample_state'', PStr (sp_state updated)), (''verify_kind'', opt_val (sp_verify updated)), (''actor'', PStr actor)]
      @ (case why of Some t \<Rightarrow> if t = [] then [] else [(''reason'', PStr t)] | None \<Rightarrow> [])) w"

definition require_sample :: "'e memory_env_scheme \<Rightarrow> string \<Rightarrow> 'd memory_db_scheme \<Rightarrow> exn + decomposition_sample" where
  "require_sample env sid w = and_then (get_sample env sid w) (\<lambda>s. case s of
     Some s \<Rightarrow> Inr s | None \<Rightarrow> Inl (value_error ''decomposition sample not found''))"

definition require_actor :: "string \<Rightarrow> string \<Rightarrow> exn + unit" where
  "require_actor actor expected = (if strip actor = expected then Inr () else Inl (transition_error ''transition requires another actor''))"

definition require_reason :: "string \<Rightarrow> exn + string" where
  "require_reason why = (let t = strip why in
     if t = [] then Inl (value_error ''automatic sample transition requires reason'') else Inr t)"

definition transition_metadata :: "string \<Rightarrow> string \<Rightarrow> string option \<Rightarrow> string option \<Rightarrow> pyval dict \<Rightarrow> pyval dict" where
  "transition_metadata target actor why verify m =
    (let m = dset m ''sample_state'' (PStr target);
         m = dset m ''verify_kind'' (if target = ''verified'' then opt_val verify else PNone);
         m = dset m ''stale_reason'' (if target = ''stale'' then opt_val why else PNone);
         m = dset m ''rejected_by'' (if target = ''rejected'' then PStr actor else PNone)
     in dset m ''last_actor'' (PStr actor))"

definition transition :: "'e memory_env_scheme \<Rightarrow> decomposition_sample \<Rightarrow> string \<Rightarrow> string \<Rightarrow> string \<Rightarrow> string option \<Rightarrow> string option
    \<Rightarrow> sample_world \<Rightarrow> (exn + decomposition_sample) \<times> sample_world" where
  "transition env current target actor ev why verify w =
    try_then (mutate_metadata env (sp_id current) (\<lambda>m. Inr (transition_metadata target actor why verify m))
       (Some (if target = ''archived'' then ''cancelled'' else ''active'')) w)
     (\<lambda>updated w. (Inr updated, emit_transition ev current updated actor why w))"

text \<open>A guard on the sample as it is read, then a step on it.\<close>

definition when_sample :: "'e memory_env_scheme \<Rightarrow> (exn + unit) \<Rightarrow> string \<Rightarrow> (decomposition_sample \<Rightarrow> sample_world \<Rightarrow> (exn + 'a) \<times> sample_world)
    \<Rightarrow> sample_world \<Rightarrow> (exn + 'a) \<times> sample_world" where
  "when_sample env guard sid f w = (case and_then guard (\<lambda>_. require_sample env sid w) of Inl e \<Rightarrow> (Inl e, w) | Inr s \<Rightarrow> f s w)"

definition user_verified :: "decomposition_sample \<Rightarrow> bool" where
  "user_verified s = (sp_state s = ''verified'' \<and> sp_verify s = Some ''user'')"

definition auto_verified :: "decomposition_sample \<Rightarrow> bool" where
  "auto_verified s = (sp_state s = ''verified'' \<and> sp_verify s = Some ''auto'')"

section \<open>Operations of the user\<close>

definition confirm :: "'e memory_env_scheme \<Rightarrow> string \<Rightarrow> string \<Rightarrow> sample_world \<Rightarrow> (exn + decomposition_sample) \<times> sample_world" where
  "confirm env sid actor = when_sample env (require_actor actor ''user'') sid (\<lambda>current w.
     if user_verified current then (Inr current, w)
     else transition env current ''verified'' actor ''sample/verified'' None (Some ''user'') w)"

definition edit_metadata :: "'e library_env_scheme \<Rightarrow> decomposition_sample \<Rightarrow> string \<Rightarrow> string \<Rightarrow> pyval dict \<Rightarrow> pyval dict list \<Rightarrow> exn + pyval dict" where
  "edit_metadata env current task actor m ser =
    and_then (int_or m ''version'' (sp_version current)) (\<lambda>version.
      Inr (fold (\<lambda>(k, v) m. dset m k v)
        [(''sample_state'', PStr ''verified''), (''verify_kind'', PStr ''user''), (''steps'', PList (map PDict ser)),
         (''schema_version'', PInt PLANSTEP_SCHEMA_VERSION), (''source'', PStr ''user_edit''), (''usage'', PDict empty_usage),
         (''content_hash'', PStr (content_hash env task ser)), (''version'', PInt (version + 1)),
         (''stale_reason'', PNone), (''rejected_by'', PNone), (''last_actor'', PStr actor)] m))"

definition edit_sample :: "'e library_env_scheme \<Rightarrow> string \<Rightarrow> string \<Rightarrow> pyval dict list \<Rightarrow> string \<Rightarrow> sample_world
    \<Rightarrow> (exn + decomposition_sample) \<times> sample_world" where
  "edit_sample env sid task steps actor = when_sample env (require_actor actor ''user'') sid (\<lambda>current w.
     try_then (edit_content env sid task steps (edit_metadata env current task actor) w)
      (\<lambda>updated w. (Inr updated, emit_transition ''sample/verified'' current updated actor (Some ''user_edit'') w)))"

definition reject :: "'e memory_env_scheme \<Rightarrow> string \<Rightarrow> string \<Rightarrow> sample_world \<Rightarrow> (exn + decomposition_sample) \<times> sample_world" where
  "reject env sid actor = when_sample env (require_actor actor ''user'') sid (\<lambda>current w.
     if sp_state current = ''rejected'' then (Inl (transition_error ''sample is already rejected''), w)
     else transition env current ''rejected'' actor ''sample/rejected'' None None w)"

definition restore_sample :: "'e memory_env_scheme \<Rightarrow> string \<Rightarrow> string \<Rightarrow> sample_world \<Rightarrow> (exn + decomposition_sample) \<times> sample_world" where
  "restore_sample env sid actor = when_sample env (require_actor actor ''user'') sid (\<lambda>current w.
     if sp_state current \<notin> {''rejected'', ''archived'', ''stale''} then (Inl (transition_error ''cannot restore sample''), w)
     else transition env current ''candidate'' actor ''sample/restored'' None None w)"

section \<open>Operations of the program\<close>

definition lifecycle_create_candidate :: "'e library_env_scheme \<Rightarrow> candidate_args \<Rightarrow> sample_world \<Rightarrow> (exn + decomposition_sample) \<times> sample_world" where
  "lifecycle_create_candidate env ca w = try_then (create_candidate env ca w) (\<lambda>s w.
     case int_or (sp_usage s) ''similarity_count'' 0 of
       Inl e \<Rightarrow> (Inl e, w)
     | Inr n \<Rightarrow> if n > 0 then (Inr s, w)
         else (Inr s, emit ''sample/created''
           [(''sample_id'', PStr (sp_id s)), (''plan_id'', opt_val (sp_plan s)), (''source'', PStr (sp_source s)),
            (''provenance'', PDict [(''sample_ids'', PList (map PStr (sp_provenance s)))])] w))"

definition auto_verify :: "'e memory_env_scheme \<Rightarrow> string \<Rightarrow> string \<Rightarrow> sample_world \<Rightarrow> (exn + decomposition_sample) \<times> sample_world" where
  "auto_verify env sid why = when_sample env (Inr ()) sid (\<lambda>current w.
     if sp_state current \<noteq> ''candidate'' then (Inl (transition_error ''cannot auto verify sample''), w)
     else transition env current ''verified'' ''auto'' ''sample/verified'' (Some why) (Some ''auto'') w)"

definition auto_verify_candidate :: "'e memory_env_scheme \<Rightarrow> string \<Rightarrow> sample_world \<Rightarrow> (exn + decomposition_sample) \<times> sample_world" where
  "auto_verify_candidate env sid = when_sample env (Inr ()) sid (\<lambda>current w.
     if sp_state current \<noteq> ''candidate'' then (Inr current, w)
     else case int_or (sp_usage current) ''plan_completed'' 0 of
         Inl e \<Rightarrow> (Inl e, w)
       | Inr n \<Rightarrow> if n < 2 then (Inr current, w) else auto_verify env sid ''plan_all_green'' w)"

definition mark_stale :: "'e memory_env_scheme \<Rightarrow> string \<Rightarrow> string \<Rightarrow> string \<Rightarrow> sample_world \<Rightarrow> (exn + decomposition_sample) \<times> sample_world" where
  "mark_stale env sid why actor w = (case and_then (require_actor actor ''auto'') (\<lambda>_. require_reason why) of
     Inl e \<Rightarrow> (Inl e, w)
   | Inr t \<Rightarrow> when_sample env (Inr ()) sid (\<lambda>current w.
       if sp_state current \<noteq> ''candidate'' \<and> \<not> auto_verified current then (Inl (transition_error ''automatic stale cannot override''), w)
       else transition env current ''stale'' actor ''sample/staled'' (Some t) None w) w)"

definition lifecycle_record_plan_outcome :: "'e memory_env_scheme \<Rightarrow> string \<Rightarrow> bool \<Rightarrow> sample_world \<Rightarrow> (exn + decomposition_sample) \<times> sample_world" where
  "lifecycle_record_plan_outcome env sid completed w = try_then (record_plan_outcome env sid completed w) (\<lambda>updated w.
     if completed then (Inr updated, w)
     else case and_then (int_or (sp_usage updated) ''consecutive_failures'' 0) (\<lambda>f.
                and_then (int_or (sp_usage updated) ''injected_count'' 0) (\<lambda>n. Inr (f, n))) of
         Inl e \<Rightarrow> (Inl e, w)
       | Inr (f, n) \<Rightarrow>
           if n \<ge> 3 \<and> f \<ge> 3 \<and> (sp_state updated = ''candidate'' \<or> auto_verified updated)
           then mark_stale env (sp_id updated) ''consecutive_failure'' ''auto'' w else (Inr updated, w))"

definition archive :: "'e memory_env_scheme \<Rightarrow> string \<Rightarrow> string \<Rightarrow> string \<Rightarrow> sample_world \<Rightarrow> (exn + decomposition_sample) \<times> sample_world" where
  "archive env sid why actor w =
    (if strip actor \<notin> {''auto'', ''system''} then (Inl (transition_error ''transition requires actor=auto or system''), w)
     else case require_reason why of
       Inl e \<Rightarrow> (Inl e, w)
     | Inr t \<Rightarrow> when_sample env (Inr ()) sid (\<lambda>current w.
         if sp_state current \<in> {''rejected'', ''archived''} then (Inl (transition_error ''cannot archive sample''), w)
         else if user_verified current then (Inl (transition_error ''automatic archive cannot override user_verified''), w)
         else transition env current ''archived'' actor ''sample/archived'' (Some t) None w) w)"

section \<open>What a change keeps\<close>

text \<open>The samples a user has decided about, and what must not change of them.\<close>

definition user_decided :: "chunk \<Rightarrow> bool" where
  "user_decided r = (is_sample r \<and> (let m = decode_metadata (ch_metadata r) in
     pget m ''sample_state'' = PStr ''rejected'' \<or>
     pget m ''sample_state'' = PStr ''verified'' \<and> pget m ''verify_kind'' = PStr ''user''))"

definition decided_keys :: "string list" where
  "decided_keys = [''sample_state'', ''verify_kind'', ''steps'', ''content_hash'', ''version'', ''rejected_by'', ''last_actor'']"

definition same_decision :: "chunk \<Rightarrow> chunk \<Rightarrow> bool" where
  "same_decision r r' = (ch_id r' = ch_id r \<and> ch_type r' = ch_type r \<and> ch_content r' = ch_content r \<and> ch_body r' = ch_body r \<and>
     (ch_status r \<noteq> [] \<longrightarrow> ch_status r' = ch_status r) \<and>
     (\<forall>k \<in> set decided_keys. pget (decode_metadata (ch_metadata r')) k = pget (decode_metadata (ch_metadata r)) k))"

definition keeps_decisions :: "'d memory_db_scheme \<Rightarrow> 'd memory_db_scheme \<Rightarrow> bool" where
  "keeps_decisions db db' = (\<forall>r \<in> set (db_chunks db). user_decided r \<longrightarrow> (\<exists>r' \<in> set (db_chunks db'). same_decision r r'))"

definition careful :: "'d memory_db_scheme \<Rightarrow> 'd memory_db_scheme \<Rightarrow> bool" where
  "careful db db' \<longleftrightarrow> (memory_ok db \<longrightarrow> memory_ok db' \<and> keeps_decisions db db')"

lemma same_decision_refl [simp]: "same_decision r r"
  by (simp add: same_decision_def)

lemma same_decision_trans: "same_decision r s \<Longrightarrow> same_decision s t \<Longrightarrow> same_decision r t"
  by (simp add: same_decision_def)

lemma same_decision_decided: "same_decision r s \<Longrightarrow> user_decided r \<Longrightarrow> user_decided s"
  by (simp add: same_decision_def user_decided_def decided_keys_def is_sample_def Let_def)

lemma careful_refl [simp]: "careful db db"
  by (auto simp: careful_def keeps_decisions_def intro!: bexI)

lemma careful_trans: "careful db db' \<Longrightarrow> careful db' db'' \<Longrightarrow> careful db db''"
  unfolding careful_def keeps_decisions_def
  by (meson same_decision_decided same_decision_trans)

lemma careful_chunks: "db_chunks db' = db_chunks db \<Longrightarrow> db_next db' = db_next db \<Longrightarrow> careful db db'"
  by (auto simp: careful_def keeps_decisions_def memory_ok_def intro!: bexI)

lemma careful_try_then:
  "careful w (snd r) \<Longrightarrow> (\<And>x v. r = (Inr x, v) \<Longrightarrow> careful v (snd (f x v))) \<Longrightarrow> careful w (snd (try_then r f))"
  by (cases r; cases "fst r") (auto intro: careful_trans)

lemma careful_update:
  assumes "\<And>r. ch_id (f r) = ch_id r"
    and "\<And>r. memory_ok db \<Longrightarrow> r \<in> set (db_chunks db) \<Longrightarrow> p r \<Longrightarrow> user_decided r \<Longrightarrow> same_decision r (f r)"
  shows "careful db (snd (update_chunks p f db))"
  unfolding careful_def
proof
  assume ok: "memory_ok db"
  have "\<exists>r' \<in> set (db_chunks (snd (update_chunks p f db))). same_decision r r'"
    if "r \<in> set (db_chunks db)" "user_decided r" for r
    using that assms(2) [OF ok] by (intro bexI [of _ "if p r then f r else r"]) (auto simp: update_chunks_def)
  then show "memory_ok (snd (update_chunks p f db)) \<and> keeps_decisions db (snd (update_chunks p f db))"
    using update_chunks_ok [of db f p, OF ok assms(1)] by (simp add: keeps_decisions_def)
qed

lemma careful_now: "careful db (snd (db_now env db))"
  by (rule careful_chunks) simp_all

lemma snd_reload_sample [simp]: "snd (reload_sample env sid db) = db"
  by (simp add: reload_sample_def)

lemma sample_at_unique:
  "memory_ok db \<Longrightarrow> find_chunk (sample_at i) db = Some r0 \<Longrightarrow> r \<in> set (db_chunks db) \<Longrightarrow> sample_at i r \<Longrightarrow> r0 = r"
  using find_chunk_id [of db r "sample_at i"] by (auto simp: sample_at_def)

lemma careful_mutate:
  assumes "\<And>i r m'. sample_id sid = Inr i \<Longrightarrow> find_chunk (sample_at i) db = Some r \<Longrightarrow> mutation (decode_metadata (ch_metadata r)) = Inr m'
      \<Longrightarrow> user_decided r \<Longrightarrow> db_status = None \<and> (\<forall>k \<in> set decided_keys. pget m' k = pget (decode_metadata (ch_metadata r)) k)"
  shows "careful db (snd (mutate_metadata env sid mutation db_status db))"
proof (cases "sample_id sid")
  case (Inr i)
  show ?thesis
  proof (cases "find_chunk (sample_at i) db")
    case (Some r0)
    show ?thesis
    proof (cases "mutation (decode_metadata (ch_metadata r0))")
      case m: (Inr m)
      have same: "same_decision r (write_metadata m st now r)"
        if "memory_ok db'" "db_chunks db' = db_chunks db" "r \<in> set (db_chunks db')" "sample_at i r" "user_decided r"
          "st = (if ch_status r0 = [] then ''active'' else ch_status r0) \<or> db_status \<noteq> None" for db' and r st now
      proof -
        have "find_chunk (sample_at i) db' = Some r0" using Some that(2) by (simp add: find_chunk_def)
        from sample_at_unique [OF that(1) this that(3,4)] have r0: "r0 = r" .
        with that(5) assms [OF Inr Some m] that(6)
        show ?thesis by (auto simp: same_decision_def write_metadata_def decode_metadata_def)
      qed
      have upd: "careful db (snd (update_chunks (sample_at i) (write_metadata m st (fst (db_now env db))) (snd (db_now env db))))"
        if "st = (if ch_status r0 = [] then ''active'' else ch_status r0) \<or> db_status \<noteq> None" for st
        using careful_now [of db env] that
        by (elim careful_trans, intro careful_update same [of "snd (db_now env db)"]) (simp_all add: write_metadata_def)
      show ?thesis
        using upd Inr Some m
        by (auto simp: mutate_metadata_def Let_def split_beta split: option.split)
    qed (simp add: mutate_metadata_def Inr Some)
  qed (simp add: mutate_metadata_def Inr)
qed (simp add: mutate_metadata_def)

section \<open>Each step of the program keeps them\<close>

lemma row_to_sample_fields:
  "row_to_sample env r = Inr s \<Longrightarrow> sp_id s = int_str (ch_id r) \<and> sp_task s = ch_content r
     \<and> sp_state s = meta_text (me_repr env) (decode_metadata (ch_metadata r)) ''sample_state'' ''candidate''
     \<and> sp_verify s = opt_text (me_repr env) (decode_metadata (ch_metadata r)) ''verify_kind''
     \<and> sp_steps s = dicts_of (pget (decode_metadata (ch_metadata r)) ''steps'')
     \<and> sp_status s = (if ch_status r = [] then ''active'' else ch_status r)"
  by (auto simp: row_to_sample_def Let_def and_then_Inr_iff)

lemma decided_sample: "row_to_sample env r = Inr s \<Longrightarrow> user_decided r \<Longrightarrow> sp_state s = ''rejected'' \<or> user_verified s"
  by (drule row_to_sample_fields) (auto simp: user_decided_def user_verified_def meta_text_def opt_text_def py_str_def Let_def)

lemma sample_id_str [simp]: "sample_id (int_str i) = Inr i"
  by (simp add: sample_id_def)

lemma careful_emit [simp]: "careful w (emit ev payload w)" "careful w (emit_transition ev s t actor why w)"
  by (simp_all add: emit_transition_def emit_def careful_chunks)

lemma careful_transition:
  assumes r: "find_chunk (sample_at i) w = Some r" "row_to_sample env r = Inr s"
    and free: "sp_state s \<noteq> ''rejected''" "\<not> user_verified s"
  shows "careful w (snd (transition env s target actor ev why verify w))"
  unfolding transition_def
proof (intro careful_try_then careful_mutate)
  fix j r' m'
  assume j: "sample_id (sp_id s) = Inr j" "find_chunk (sample_at j) w = Some r'" and "user_decided r'"
  have "sample_at i r" using r(1) by (auto simp: find_chunk_def find_Some_iff)
  then have "j = i" using j(1) row_to_sample_fields [OF r(2)] by (simp add: sample_at_def)
  then have "user_decided r" using j(2) r(1) \<open>user_decided r'\<close> by simp
  with decided_sample [OF r(2)] free
  show "Some (if target = ''archived'' then ''cancelled'' else ''active'') = None \<and>
      (\<forall>k \<in> set decided_keys. pget m' k = pget (decode_metadata (ch_metadata r')) k)" by blast
qed simp

lemma careful_when_sample:
  "(\<And>i r s. find_chunk (sample_at i) w = Some r \<Longrightarrow> row_to_sample env r = Inr s \<Longrightarrow> careful w (snd (f s w)))
   \<Longrightarrow> careful w (snd (when_sample env g sid f w))"
  by (auto simp: when_sample_def require_sample_def get_sample_def and_then_Inr_iff split: sum.splits option.splits)

lemma careful_auto_verify: "careful w (snd (auto_verify env sid why w))"
  by (auto simp: auto_verify_def user_verified_def intro!: careful_when_sample careful_transition)

lemma careful_auto_verify_candidate: "careful w (snd (auto_verify_candidate env sid w))"
  by (auto simp: auto_verify_candidate_def careful_auto_verify intro!: careful_when_sample split: sum.split)

lemma careful_mark_stale: "careful w (snd (mark_stale env sid why actor w))"
  by (auto simp: mark_stale_def user_verified_def auto_verified_def intro!: careful_when_sample careful_transition split: sum.split)

lemma careful_archive: "careful w (snd (archive env sid why actor w))"
  by (auto simp: archive_def intro!: careful_when_sample careful_transition split: sum.split)

lemma not_decided_keys [simp]: "''usage'' \<notin> set decided_keys" "''plan_id'' \<notin> set decided_keys"
  by (simp_all add: decided_keys_def)

lemma usage_mutations:
  "outcome_usage c m = Inr m' \<Longrightarrow> \<exists>u. m' = dset m ''usage'' u"
  "inject_usage hit q m = Inr m' \<Longrightarrow> \<exists>u. m' = dset m ''usage'' u"
  by (auto simp: outcome_usage_def inject_usage_def and_then_Inr_iff Let_def)

lemma careful_record_plan_outcome: "careful db (snd (record_plan_outcome env sid c db))"
  unfolding record_plan_outcome_def
  by (rule careful_mutate) (auto dest!: usage_mutations)

lemma careful_record_injection: "careful db (snd (record_injection env sid hit q db))"
proof -
  have "careful db (snd (mutate_metadata env sid (inject_usage t q) None db))" for t and db :: "'a memory_db_scheme"
    by (rule careful_mutate) (auto dest!: usage_mutations)
  then show ?thesis
    using careful_now [of db env]
    by (auto simp: record_injection_def split_beta intro: careful_trans split: option.split)
qed

lemma careful_assign_plan_id: "careful db (snd (assign_plan_id env sid p db))"
  unfolding assign_plan_id_def Let_def
  by (auto intro!: careful_mutate)

lemma careful_merge: "careful db (snd (merge_duplicate env sid q db))"
proof (cases "sample_id sid")
  case (Inr i)
  have same: "same_decision r (r\<lparr>ch_metadata := merge_metadata q (ch_metadata r), ch_modified := t\<rparr>)" for r t
    by (auto simp: same_decision_def merge_metadata_def decode_metadata_def split: pyval.split option.split)
  have "careful db (snd (update_chunks (sample_at i)
      (\<lambda>r. r\<lparr>ch_metadata := merge_metadata q (ch_metadata r), ch_modified := PFloat (fst (db_now env db))\<rparr>) (snd (db_now env db))))"
    using careful_now [of db env] by (elim careful_trans, intro careful_update same) simp_all
  then show ?thesis
    by (auto simp: merge_duplicate_def Inr Let_def split_beta careful_now)
qed (simp add: merge_duplicate_def)

lemma careful_add: "careful db (snd (add_memory_chunk env body session source meta db))"
  using add_memory_chunk_ok [of db env body session source meta]
  by (auto simp: careful_def keeps_decisions_def add_memory_chunk_def db_now_def Let_def intro!: bexI)

lemma careful_create_candidate: "careful db (snd (create_candidate env ca db))"
  by (auto simp: create_candidate_def Let_def careful_merge intro!: careful_try_then careful_add split: sum.split option.split prod.split)

lemma careful_lifecycle_create: "careful w (snd (lifecycle_create_candidate env ca w))"
  unfolding lifecycle_create_candidate_def
  by (intro careful_try_then careful_create_candidate) (auto split: sum.split)

lemma careful_lifecycle_outcome: "careful w (snd (lifecycle_record_plan_outcome env sid c w))"
  unfolding lifecycle_record_plan_outcome_def
  by (intro careful_try_then careful_record_plan_outcome) (auto simp: careful_mark_stale split: sum.split)

end
