(* ===== verification/Sample_Retriever.thy ===== *)
theory Sample_Retriever
  imports Sample_Lifecycle "HOL-Library.Multiset"
begin

text \<open>
  Choosing the examples of a prompt (\<open>SampleRetriever\<close>) and the upkeep of the library
  (\<open>SampleMaintenance\<close> in \<open>core/decomposition_sample_library.py\<close>). The full-text index, the square
  root, the exponential and the digests are functions of the environment.
\<close>

section \<open>Retrieval\<close>

text \<open>\<open>re_fts\<close>: the ids the index finds for a query, the best first, or none when SQLite raises.\<close>

record retriever_env = library_env +
  re_fts :: "string \<Rightarrow> chunk list \<Rightarrow> int list option"
  re_root :: "pyfloat \<Rightarrow> pyfloat"
  re_exp :: "pyfloat \<Rightarrow> pyfloat"
  re_token_digest :: "string \<Rightarrow> nat"
  re_goal_digest :: "string \<Rightarrow> string"

record sample_shot =
  sh_id :: string
  sh_task :: string
  sh_steps :: "string dict list"
  sh_similarity :: pyfloat
  sh_score :: pyfloat
  sh_tools :: "string list"
  sh_tokens :: nat

definition fts_values :: "'e retriever_env_scheme \<Rightarrow> string \<Rightarrow> string list \<Rightarrow> 'd memory_db_scheme \<Rightarrow> pyfloat dict" where
  "fts_values env goal ids db =
    (let query = map (\<lambda>c. if c = CHR 0x22 then CHR 0x20 else c) (strip goal)
     in if query = [] \<or> ids = [] then []
        else (case re_fts env query (db_chunks db) of
            None \<Rightarrow> []
          | Some rows \<Rightarrow> fold (\<lambda>(rank, i) v. if int_str i \<in> set ids then dset v (int_str i) (61 / (60 + of_nat rank)) else v)
              (enumerate 1 rows) []))"

definition embedding_value :: "'e retriever_env_scheme \<Rightarrow> string \<Rightarrow> decomposition_sample \<Rightarrow> pyfloat" where
  "embedding_value env goal s = max 0 (cosine_similarity (re_root env)
     (embed_text (re_root env) (re_token_digest env) goal 128) (embed_text (re_root env) (re_token_digest env) (sp_task s) 128))"

definition overlap_value :: "'e retriever_env_scheme \<Rightarrow> string \<Rightarrow> decomposition_sample \<Rightarrow> pyfloat" where
  "overlap_value env goal s =
    (let g = tokenize_for_embedding goal; t = tokenize_for_embedding (sp_task s);
         d = re_root env (of_nat (length g * length t))
     in if d > 0 then of_nat (length (filter (\<lambda>x. x \<in> set t) g)) / d else 0)"

definition by_id :: "(decomposition_sample \<Rightarrow> 'a) \<Rightarrow> decomposition_sample list \<Rightarrow> 'a dict" where
  "by_id f samples = fold (\<lambda>s v. dset v (sp_id s) (f s)) samples []"

text \<open>Adds one route's values, weighted by their rank, to the fused values.\<close>

definition add_route :: "pyfloat dict \<Rightarrow> pyfloat dict \<Rightarrow> pyfloat dict" where
  "add_route route fused =
    (let ranked = filter (\<lambda>k. dget_or route k 0 > 0) (map fst (sort_key (\<lambda>(k, v). - v) route))
     in fold (\<lambda>(rank, k) f. dset f k (dget_or f k 0 + dget_or route k 0 * (61 / (60 + of_nat rank)) / 3)) (enumerate 1 ranked) fused)"

definition fused_similarities :: "'e retriever_env_scheme \<Rightarrow> string \<Rightarrow> decomposition_sample list \<Rightarrow> 'd memory_db_scheme \<Rightarrow> pyfloat dict" where
  "fused_similarities env goal samples db =
    map (\<lambda>(k, v). (k, min 1 v))
      (fold add_route [fts_values env goal (map sp_id samples) db, by_id (embedding_value env goal) samples, by_id (overlap_value env goal) samples]
        (by_id (\<lambda>_. 0) samples))"

definition nonneg_int :: "pyval dict \<Rightarrow> string \<Rightarrow> exn + int" where
  "nonneg_int u k = and_then (int_or u k 0) (\<lambda>n. Inr (max 0 n))"

definition quality :: "'e retriever_env_scheme \<Rightarrow> decomposition_sample \<Rightarrow> pyfloat \<Rightarrow> exn + pyfloat" where
  "quality env s now =
    and_then (nonneg_int (sp_usage s) ''plan_completed'') (\<lambda>completed.
    and_then (nonneg_int (sp_usage s) ''plan_failed'') (\<lambda>failed.
    and_then (nonneg_int (sp_usage s) ''injected_count'') (\<lambda>injected.
      let runs = completed + failed;
          success = (if injected \<ge> 2 \<and> runs \<ge> 2 then of_int completed / of_int runs else 1 / 2);
          age = max 0 (now - sp_updated s) / 86400;
          verification = (if sp_verify s = Some ''user'' then 1 else 74 / 100)
      in Inr (5 / 10 * success + 3 / 10 * re_exp env (- age / 90) + 2 / 10 * verification))))"

text \<open>The first, and the first after it that uses other tools.\<close>

definition select_diverse :: "(decomposition_sample \<times> 'a) list \<Rightarrow> (decomposition_sample \<times> 'a) list" where
  "select_diverse ranked = (case ranked of
      [] \<Rightarrow> []
    | first # others \<Rightarrow> first # (case find (\<lambda>x. mset (sp_tools (fst x)) \<noteq> mset (sp_tools (fst first))) others of
        Some x \<Rightarrow> [x] | None \<Rightarrow> []))"

definition render_step :: "nat \<times> string dict \<Rightarrow> string list" where
  "render_step = (\<lambda>(i, s).
    [int_str (int i) @ ''. '' @ dget_or s ''title'' [] @ '' '' @ [CHR 0xE2, CHR 0x80, CHR 0x94] @ '' '' @ dget_or s ''description'' [],
     ''   '' @ [CHR 0xE9, CHR 0xAA, CHR 0x8C, CHR 0xE8, CHR 0xAF, CHR 0x81, CHR 0xEF, CHR 0xBC, CHR 0x9A] @ dget_or s ''verification'' [],
     ''   '' @ [CHR 0xE4, CHR 0xBA, CHR 0xA7, CHR 0xE5, CHR 0x87, CHR 0xBA, CHR 0xEF, CHR 0xBC, CHR 0x9A] @ dget_or s ''expected_output'' []])"

definition render_shot :: "string \<Rightarrow> string dict list \<Rightarrow> string" where
  "render_shot task steps = join newline
     ([[CHR 0xE8, CHR 0x8C, CHR 0x83, CHR 0xE4, CHR 0xBE, CHR 0x8B, CHR 0xE4, CHR 0xBB, CHR 0xBB, CHR 0xE5, CHR 0x8A, CHR 0xA1,
        CHR 0xEF, CHR 0xBC, CHR 0x9A] @ task,
       [CHR 0xE8, CHR 0x8C, CHR 0x83, CHR 0xE4, CHR 0xBE, CHR 0x8B, CHR 0xE6, CHR 0x8B, CHR 0x86, CHR 0xE8, CHR 0xA7, CHR 0xA3,
        CHR 0xEF, CHR 0xBC, CHR 0x9A]]
      @ concat (map render_step (enumerate 1 steps)))"

definition crop_step :: "(pyval \<Rightarrow> string) \<Rightarrow> bool \<Rightarrow> pyval dict \<Rightarrow> string dict" where
  "crop_step rp brief p = map (\<lambda>(k, long, short). (k, truncate_text (meta_text rp p k []) (if brief then short else long)))
     [(''title'', 80, 60), (''description'', 120, 80), (''verification'', 80, 60), (''expected_output'', 80, 60)]"

definition SAMPLE_TOKEN_BUDGET :: nat where
  "SAMPLE_TOKEN_BUDGET = 1000"

definition SAMPLE_TOKEN_BUDGET_PER_ITEM :: nat where
  "SAMPLE_TOKEN_BUDGET_PER_ITEM = 400"

text \<open>Steps are taken in order while the example fits; a step without a title is passed over.\<close>

fun fit_steps :: "string \<Rightarrow> string dict list \<Rightarrow> string dict list \<Rightarrow> string dict list" where
  "fit_steps task steps [] = steps"
| "fit_steps task steps (s # ss) =
    (if dget_or s ''title'' [] = [] then fit_steps task steps ss
     else if estimate_tokens (render_shot task (steps @ [s])) > SAMPLE_TOKEN_BUDGET_PER_ITEM then steps
     else fit_steps task (steps @ [s]) ss)"

definition crop_sample :: "(pyval \<Rightarrow> string) \<Rightarrow> decomposition_sample \<Rightarrow> pyfloat \<Rightarrow> pyfloat \<Rightarrow> sample_shot option" where
  "crop_sample rp s similarity score =
    (let attempt = (\<lambda>brief. let task = truncate_text (sp_task s) (if brief then 60 else 200)
                     in (task, fit_steps task [] (map (crop_step rp brief) (sp_steps s))));
         (task, steps) = (if snd (attempt False) = [] then attempt True else attempt False)
     in if steps = [] then None
        else Some \<lparr>sh_id = sp_id s, sh_task = task, sh_steps = steps, sh_similarity = similarity, sh_score = score,
               sh_tools = sp_tools s, sh_tokens = estimate_tokens (render_shot task steps)\<rparr>)"

fun take_shots :: "(pyval \<Rightarrow> string) \<Rightarrow> nat \<Rightarrow> (decomposition_sample \<times> pyfloat \<times> pyfloat) list \<Rightarrow> sample_shot list" where
  "take_shots rp used [] = []"
| "take_shots rp used ((s, similarity, score) # xs) = (case crop_sample rp s similarity score of
      None \<Rightarrow> take_shots rp used xs
    | Some shot \<Rightarrow> if used + sh_tokens shot > SAMPLE_TOKEN_BUDGET then []
        else shot # take_shots rp (used + sh_tokens shot) xs)"

definition rank_samples :: "'e retriever_env_scheme \<Rightarrow> pyfloat \<Rightarrow> pyfloat \<Rightarrow> pyfloat dict \<Rightarrow> pyfloat \<Rightarrow> decomposition_sample list
    \<Rightarrow> exn + (decomposition_sample \<times> pyfloat \<times> pyfloat) list" where
  "rank_samples env low high similarities now samples =
    and_then (traverse (\<lambda>s. let q = dget_or similarities (sp_id s) 0 in and_then (quality env s now) (\<lambda>w. Inr (s, q, q * w)))
        (filter (\<lambda>s. let q = dget_or similarities (sp_id s) 0 in \<not> (q < low \<or> q > high)) samples))
      (\<lambda>ranked. Inr (sort_key (\<lambda>(s, q, w). (- w, - q, - sp_updated s)) ranked))"

text \<open>\<open>round(x, 6)\<close>\<close>

definition round6 :: "pyfloat \<Rightarrow> pyfloat" where
  "round6 x = (let y = x * 1000000; n = \<lfloor>y\<rfloor>; d = y - of_int n
     in of_int (if d < 1 / 2 \<or> d = 1 / 2 \<and> even n then n else n + 1) / 1000000)"

fun inject_shots :: "'e retriever_env_scheme \<Rightarrow> string \<Rightarrow> pyfloat \<Rightarrow> sample_shot list \<Rightarrow> sample_world \<Rightarrow> (exn + unit) \<times> sample_world" where
  "inject_shots env digest now [] w = (Inr (), w)"
| "inject_shots env digest now (shot # shots) w =
    try_then (record_injection env (sh_id shot) (Some now) (Some (sh_similarity shot)) w) (\<lambda>_ w.
      inject_shots env digest now shots (emit ''sample/injected''
        [(''sample_id'', PStr (sh_id shot)), (''goal_digest'', PStr digest), (''sim_score'', PFloat (round6 (sh_similarity shot)))] w))"

definition retrieve :: "'e retriever_env_scheme \<Rightarrow> pyfloat \<Rightarrow> pyfloat \<Rightarrow> string \<Rightarrow> sample_world \<Rightarrow> (exn + sample_shot list) \<times> sample_world" where
  "retrieve env low high goal w =
    (let goal = strip goal in
     if goal = [] then (Inr [], w)
     else case list_samples env (Some ''verified'') None 200 0 w of
       Inl e \<Rightarrow> (Inl e, w)
     | Inr samples \<Rightarrow>
         let samples = filter (\<lambda>s. sp_status s = ''active'' \<and> sp_verify s \<in> {Some ''user'', Some ''auto''}) samples
         in if samples = [] then (Inr [], w)
            else let similarities = fused_similarities env goal samples w; (now, w) = db_now env w
              in case rank_samples env low high similarities now samples of
                   Inl e \<Rightarrow> (Inl e, w)
                 | Inr ranked \<Rightarrow>
                     let shots = take_shots (me_repr env) 0 (select_diverse ranked)
                     in try_then (inject_shots env (take 16 (re_goal_digest env goal)) now shots w) (\<lambda>_ w. (Inr shots, w)))"

section \<open>Upkeep\<close>

text \<open>\<open>_all_samples\<close>: pages of 500 until one is not full.\<close>

lemma full_page:
  assumes "list_samples env st None 500 (int off) db = Inr page" "\<not> length page < 500"
  shows "off + 500 \<le> length (db_chunks db)"
proof -
  from assms(1) obtain ss where "length page = length (take 500 (drop off (newest_first (filter (state_filter ss) (db_chunks db)))))"
    by (auto simp: list_samples_def and_then_Inr_iff dest: length_traverse)
  then have "length page = min (length (filter (state_filter ss) (db_chunks db)) - off) 500" by simp
  with assms(2) have "500 \<le> length (filter (state_filter ss) (db_chunks db)) - off" by linarith
  with length_filter_le [of "state_filter ss" "db_chunks db"] show ?thesis by linarith
qed

function all_samples :: "'e memory_env_scheme \<Rightarrow> string option \<Rightarrow> nat \<Rightarrow> 'd memory_db_scheme \<Rightarrow> exn + decomposition_sample list" where
  "all_samples env st off db = (case list_samples env st None 500 (int off) db of
      Inl e \<Rightarrow> Inl e
    | Inr page \<Rightarrow> if length page < 500 then Inr page
        else and_then (all_samples env st (off + length page) db) (\<lambda>rest. Inr (page @ rest)))"
  by pat_completeness auto
termination
  by (relation "measure (\<lambda>(env, st, off, db). length (db_chunks db) - off)") (auto dest: full_page)

declare all_samples.simps [simp del]

definition eviction_score :: "'e retriever_env_scheme \<Rightarrow> pyfloat \<Rightarrow> decomposition_sample \<Rightarrow> exn + pyfloat" where
  "eviction_score env now s =
    and_then (nonneg_int (sp_usage s) ''injected_count'') (\<lambda>injected.
    and_then (nonneg_int (sp_usage s) ''similarity_count'') (\<lambda>n.
    and_then (float_or_zero (pget (sp_usage s) ''similarity_sum'')) (\<lambda>total_sim.
      let representative = (if injected = 0 \<or> n \<le> 0 then 0 else max 0 total_sim / of_int n)
      in and_then (quality env s now) (\<lambda>q. Inr (representative * q)))))"

text \<open>The actions done, the number of transitions that failed, and the world.\<close>

type_synonym upkeep = "string list \<times> nat \<times> sample_world"

definition try_archive :: "'e memory_env_scheme \<Rightarrow> string \<Rightarrow> decomposition_sample \<Rightarrow> upkeep \<Rightarrow> upkeep" where
  "try_archive env why s = (\<lambda>(actions, errors, w). case archive env (sp_id s) why ''system'' w of
      (Inl _, w) \<Rightarrow> (actions, errors + 1, w)
    | (Inr a, w) \<Rightarrow> (actions @ [sp_id a @ '':'' @ why], errors, w))"

definition enforce_verified_limit :: "'e retriever_env_scheme \<Rightarrow> nat \<Rightarrow> pyfloat \<Rightarrow> upkeep \<Rightarrow> (exn + unit) \<times> upkeep" where
  "enforce_verified_limit env limit now u =
    (case all_samples env (Some ''verified'') 0 (snd (snd u)) of
       Inl e \<Rightarrow> (Inl e, u)
     | Inr verified \<Rightarrow>
         if length verified \<le> max 1 limit then (Inr (), u)
         else case traverse (\<lambda>s. and_then (eviction_score env now s) (\<lambda>q. Inr (s, q)))
                (filter (\<lambda>s. sp_verify s = Some ''auto'' \<and> sp_status s = ''active'') verified) of
            Inl e \<Rightarrow> (Inl e, u)
          | Inr eligible \<Rightarrow>
              let worst = map fst (take (length verified - max 1 limit) (sort_key (\<lambda>(s, q). (q, sp_updated s)) eligible))
              in (Inr (), fold (try_archive env ''capacity'') worst u))"

text \<open>The reason to archive a sample that no user decided about, if there is one.\<close>

definition archive_cause :: "(string \<Rightarrow> bool) \<Rightarrow> pyfloat \<Rightarrow> decomposition_sample \<Rightarrow> string option" where
  "archive_cause plan_failed now s =
    (let injected = pget (sp_usage s) ''last_injected_at'' in
     if sp_state s \<in> {''rejected'', ''archived''} \<or> user_verified s then None
     else if injected \<noteq> PNone \<and> (case py_float injected of Inr t \<Rightarrow> t < now - 90 * 86400 | Inl _ \<Rightarrow> False) then Some ''cold''
     else if sp_state s = ''candidate'' \<and> sp_updated s < now - 30 * 86400
             \<and> (case sp_plan s of Some p \<Rightarrow> p \<noteq> [] \<and> plan_failed p | None \<Rightarrow> False) then Some ''abandoned''
     else None)"

definition archive_cold_and_abandoned :: "'e memory_env_scheme \<Rightarrow> (string \<Rightarrow> bool) \<Rightarrow> pyfloat \<Rightarrow> upkeep \<Rightarrow> (exn + unit) \<times> upkeep" where
  "archive_cold_and_abandoned env plan_failed now u =
    (case all_samples env None 0 (snd (snd u)) of
       Inl e \<Rightarrow> (Inl e, u)
     | Inr samples \<Rightarrow> (Inr (), fold (\<lambda>s. case archive_cause plan_failed now s of
           Some why \<Rightarrow> try_archive env why s | None \<Rightarrow> (\<lambda>u. u)) samples u))"

definition run_maintenance :: "'e retriever_env_scheme \<Rightarrow> (string \<Rightarrow> bool) \<Rightarrow> nat \<Rightarrow> pyfloat option \<Rightarrow> sample_world
    \<Rightarrow> (exn + string list) \<times> sample_world" where
  "run_maintenance env plan_failed limit now w =
    (let (now, w) = (case now of Some t \<Rightarrow> (t, w) | None \<Rightarrow> db_now env w);
         (r, u) = try_then (enforce_verified_limit env limit now ([], 0, w)) (\<lambda>_ u. archive_cold_and_abandoned env plan_failed now u)
     in (case r of Inl e \<Rightarrow> Inl e
         | Inr _ \<Rightarrow> if fst (snd u) > 0 then Inl (Exn RuntimeError ''decomposition sample maintenance failed'') else Inr (fst u),
         snd (snd u)))"

end
