(* ===== verification/Sample_Safety.thy ===== *)
theory Sample_Safety
  imports Sample_Retriever
begin

text \<open>
  What the library of samples promises: what a user decided stays decided whatever the program
  does by itself, the same content is kept once, a stored candidate reads back as it was given,
  and the examples of a prompt stay within their budget. And what breaks it: a sample that the
  memory panel marked as invalid.
\<close>

section \<open>Decisions of the user\<close>











text \<open>No transition looks at the state it changes: one that was decided on a sample read earlier
  overwrites what a user decided in between.\<close>

lemma mutate_returns:
  assumes "mutate_metadata env sid mutation st w = (Inr u, w')"
  shows "\<exists>i r s m. find_chunk (sample_at i) w = Some r \<and> mutation (decode_metadata (ch_metadata r)) = Inr m
     \<and> s \<in> set (db_chunks w') \<and> sample_at i s \<and> decode_metadata (ch_metadata s) = m \<and> row_to_sample env s = Inr u"
proof -
  from assms obtain i r m where i: "sample_id sid = Inr i" "find_chunk (sample_at i) w = Some r" "mutation (decode_metadata (ch_metadata r)) = Inr m"
    by (auto simp: mutate_metadata_def split: sum.splits option.splits)
  from assms obtain t where r: "reload_sample env (int_str i) (snd (update_chunks (sample_at i) (write_metadata m t (fst (db_now env w))) (snd (db_now env w)))) = (Inr u, w')"
    by (auto simp: mutate_metadata_def i Let_def split_beta split: if_splits)
  then have w': "db_chunks w' = map (\<lambda>r. if sample_at i r then write_metadata m t (fst (db_now env w)) r else r) (db_chunks w)"
    by (auto simp: reload_sample_def update_chunks_def)
  from r have "get_sample env (int_str i) w' = Inr (Some u)"
    by (auto simp: reload_sample_def and_then_Inr_iff split: option.splits)
  then obtain s where s: "find_chunk (sample_at i) w' = Some s" "row_to_sample env s = Inr u"
    by (auto simp: get_sample_def and_then_Inr_iff split: option.splits)
  from s(1) have s': "s \<in> set (db_chunks w')" "sample_at i s" unfolding find_chunk_def find_Some_iff by force+
  moreover have "decode_metadata (ch_metadata s) = m"
    using s' unfolding w' by (auto simp: write_metadata_def decode_metadata_def split: if_splits)
  ultimately show ?thesis using i s(2) by blast
qed

lemma transition_reaches_target:
  assumes "transition env current target actor ev why verify w = (Inr u, w')" "target \<noteq> []"
  shows "sp_state u = target"
proof -
  from assms(1) obtain v where "mutate_metadata env (sp_id current) (\<lambda>m. Inr (transition_metadata target actor why verify m))
      (Some (if target = ''archived'' then ''cancelled'' else ''active'')) w = (Inr u, v)"
    unfolding transition_def try_then_Inr by blast
  from mutate_returns [OF this] obtain s m where "row_to_sample env s = Inr u"
    "decode_metadata (ch_metadata s) = transition_metadata target actor why verify m" by blast
  with row_to_sample_fields [of env s u] assms(2) show ?thesis
    by (simp add: meta_text_def py_str_def transition_metadata_def Let_def)
qed

section \<open>The same content once\<close>

lemma closer_bounds:
  "snd b \<le> snd (fold (closer sim) ss b)" "s \<in> set ss \<Longrightarrow> sim s \<le> snd (fold (closer sim) ss b)"
proof -
  show le: "snd b \<le> snd (fold (closer sim) ss b)" for b ss
  proof (induction ss arbitrary: b)
    case (Cons t ss)
    have "snd b \<le> snd (closer sim t b)" by (simp add: closer_def)
    with Cons.IH [of "closer sim t b"] show ?case by simp
  qed simp
  show "s \<in> set ss \<Longrightarrow> sim s \<le> snd (fold (closer sim) ss b)"
  proof (induction ss arbitrary: b)
    case (Cons t ss)
    have "sim t \<le> snd (closer sim t b)" by (simp add: closer_def)
    with le [of "closer sim t b" ss] have "sim t \<le> snd (fold (closer sim) ss (closer sim t b))" by linarith
    with Cons.IH [of "closer sim t b"] Cons.prems show ?case by auto
  qed simp
qed

lemma closer_found: "fst b \<noteq> None \<or> snd b = 0 \<Longrightarrow> fst (fold (closer sim) ss b) \<noteq> None \<or> snd (fold (closer sim) ss b) = 0"
  by (induction ss arbitrary: b) (auto simp: closer_def)

lemma no_duplicate:
  assumes "find_duplicate env desc ser hash db = Inr (None, q)" "r \<in> set (db_chunks db)" "is_sample r"
  shows "pget (decode_metadata (ch_metadata r)) ''content_hash'' \<noteq> PStr hash"
    "content_tokens (me_repr env) desc ser = [] \<or> (\<exists>s. row_to_sample env r = Inr s \<and>
       match_ratio (content_tokens (me_repr env) desc ser) (content_tokens (me_repr env) (sp_task s) (sp_steps s)) \<le> 95 / 100)"
proof -
  have r: "r \<in> set (sample_rows db)" using assms(2,3) by (simp add: sample_rows_def)
  have none: "filter (\<lambda>r. pget (decode_metadata (ch_metadata r)) ''content_hash'' = PStr hash) (sample_rows db) = []"
    using assms(1) by (auto simp: find_duplicate_def and_then_Inr_iff split: list.splits)
  with r show "pget (decode_metadata (ch_metadata r)) ''content_hash'' \<noteq> PStr hash" by (auto simp: filter_empty_conv)
  define sim where "sim = (\<lambda>s :: decomposition_sample. match_ratio (content_tokens (me_repr env) desc ser) (content_tokens (me_repr env) (sp_task s) (sp_steps s)))"
  show "content_tokens (me_repr env) desc ser = [] \<or> (\<exists>s. row_to_sample env r = Inr s \<and>
       match_ratio (content_tokens (me_repr env) desc ser) (content_tokens (me_repr env) (sp_task s) (sp_steps s)) \<le> 95 / 100)"
  proof (cases "content_tokens (me_repr env) desc ser = []")
    case False
    have "and_then (traverse (row_to_sample env) (sample_rows db)) (\<lambda>ss. Inr (if snd (fold (closer sim) ss (None, 0)) > 95 / 100
        then fold (closer sim) ss (None, 0) else (None, 0))) = Inr (None, q)"
      using assms(1) none False unfolding sim_def by (simp add: find_duplicate_def Let_def)
    then obtain ss where ss: "traverse (row_to_sample env) (sample_rows db) = Inr ss"
      and best: "(if snd (fold (closer sim) ss (None, 0)) > 95 / 100 then fold (closer sim) ss (None, 0) else (None, 0)) = (None, q)"
      by (auto simp: and_then_Inr_iff)
    from closer_found [of "(None, 0)" sim ss] best have "snd (fold (closer sim) ss (None, 0)) \<le> 95 / 100"
      by (auto split: if_splits)
    moreover obtain s where s: "s \<in> set ss" "row_to_sample env r = Inr s" using traverse_member [OF ss r] by blast
    ultimately have "sim s \<le> 95 / 100" using closer_bounds(2) [of s ss sim "(None, 0)"] by linarith
    with s show ?thesis by (auto simp: sim_def)
  qed simp
qed

lemma merge_keeps_rows: "length (db_chunks (snd (merge_duplicate env sid q db))) = length (db_chunks db)"
  by (auto simp: merge_duplicate_def update_chunks_def db_now_def Let_def split: sum.split)

text \<open>Adding a candidate makes a row only when no sample, in any state, has its content's digest,
  and every sample there is reads and is at most 95 percent alike (or the text has no words to
  compare).\<close>

theorem candidate_added_only_if_new:
  assumes "check_candidate (me_repr env) ca = Inr (desc, ser, src)"
    and "length (db_chunks (snd (create_candidate env ca db))) \<noteq> length (db_chunks db)"
    and "r \<in> set (db_chunks db)" "is_sample r"
  shows "pget (decode_metadata (ch_metadata r)) ''content_hash'' \<noteq> PStr (content_hash env desc ser) \<and>
    (content_tokens (me_repr env) desc ser = [] \<or> (\<exists>s. row_to_sample env r = Inr s \<and>
       match_ratio (content_tokens (me_repr env) desc ser) (content_tokens (me_repr env) (sp_task s) (sp_steps s)) \<le> 95 / 100))"
proof -
  have "\<exists>q. find_duplicate env desc ser (content_hash env desc ser) db = Inr (None, q)"
  proof (rule ccontr)
    assume "\<not> ?thesis"
    then have "length (db_chunks (snd (create_candidate env ca db))) = length (db_chunks db)"
      by (auto simp: create_candidate_def assms(1) merge_keeps_rows Let_def split: sum.split option.split prod.split)
    with assms(2) show False by simp
  qed
  then show ?thesis using no_duplicate [OF _ assms(3,4)] by blast
qed

section \<open>A candidate reads back\<close>

lemma texts_in_map: "texts_in rp [(k, PList (map PStr xs))] k = Inr (filter (\<lambda>s. strip s \<noteq> []) xs)"
  by (simp add: texts_in_def o_def py_str_def)

lemma normalize_strings_clean [simp]: "filter (\<lambda>s. strip s \<noteq> []) (normalize_strings xs) = normalize_strings xs"
  by (auto simp: normalize_strings_def filter_id_conv)

lemma dicts_of_map [simp]: "dicts_of (PList (map PDict ds)) = ds"
  by (induction ds) (simp_all add: dicts_of_def List.map_filter_simps)

lemma candidate_row:
  assumes "ch_metadata r = PDict (candidate_metadata src ser plan prov tools hash)" "prov = normalize_strings ps" "tools = normalize_strings ts"
    and "ch_created r = PFloat t" "ch_modified r = PFloat t" "src \<noteq> []"
  shows "row_to_sample env r = Inr \<lparr>sp_id = int_str (ch_id r), sp_task = ch_content r, sp_state = ''candidate'', sp_verify = None,
     sp_steps = ser, sp_schema = 1, sp_source = src,
     sp_plan = (case plan of Some p \<Rightarrow> if strip p = [] then None else Some (strip p) | None \<Rightarrow> None), sp_provenance = prov,
     sp_usage = empty_usage, sp_tools = tools, sp_hash = hash, sp_version = 1,
     sp_status = (if ch_status r = [] then ''active'' else ch_status r), sp_created = t, sp_updated = t,
     sp_stale_reason = None, sp_rejected_by = None, sp_last_actor = Some ''system''\<rparr>"
proof -
  have "texts_in (me_repr env) (candidate_metadata src ser plan prov tools hash) ''tool_refs'' = Inr tools"
    by (simp add: texts_in_def candidate_metadata_def o_def py_str_def assms(3))
  moreover have "texts_in (me_repr env) [(''sample_ids'', PList (map PStr prov))] ''sample_ids'' = Inr prov"
    by (simp add: texts_in_map assms(2))
  ultimately show ?thesis
    using assms(1,4-) strip_Nil
    by (simp add: row_to_sample_def Let_def decode_metadata_def int_or_def float_or_zero_def meta_text_def opt_text_def py_str_def
        candidate_metadata_def pget_def dget_or_def PLANSTEP_SCHEMA_VERSION_def split: option.split)
qed

lemma find_append_None: "find p xs = None \<Longrightarrow> find p (xs @ ys) = find p ys"
  by (induction xs) (simp_all split: if_splits)

text \<open>A candidate that duplicates nothing is stored under a fresh id and reads back as it was
  given: the trimmed task, the serialized steps, the source and the samples it came from, in
  the state of a candidate.\<close>

theorem candidate_reads_back:
  assumes "memory_ok db" "check_candidate (me_repr env) ca = Inr (desc, ser, src)"
    and "find_duplicate env desc ser (content_hash env desc ser) db = Inr (None, q)"
  shows "\<exists>s. fst (create_candidate env ca db) = Inr s \<and> get_sample env (int_str (db_next db)) (snd (create_candidate env ca db)) = Inr (Some s) \<and>
     sp_id s = int_str (db_next db) \<and> sp_state s = ''candidate'' \<and> sp_task s = strip (ca_task ca) \<and>
     serialize_steps (me_repr env) (ca_steps ca) = Inr (sp_steps s) \<and> sp_source s = strip (ca_source ca) \<and>
     sp_provenance s = normalize_strings (ca_provenance ca) \<and> sp_hash s = content_hash env desc ser \<and> sp_version s = 1"
proof -
  from assms(2) have c: "desc = strip (ca_task ca)" "desc \<noteq> []" "serialize_steps (me_repr env) (ca_steps ca) = Inr ser"
      "src = strip (ca_source ca)" "src \<noteq> []"
    by (auto simp: check_candidate_def normalize_description_def and_then_Inr_iff Let_def split: if_splits)
  define tools where "tools = (case ca_tools ca of None \<Rightarrow> extract_tool_refs (me_repr env) (ca_steps ca) | Some ts \<Rightarrow> ts)"
  define m where "m = candidate_metadata src ser (ca_plan ca) (normalize_strings (ca_provenance ca)) (normalize_strings tools) (content_hash env desc ser)"
  define meta where "meta = [(''content'', PStr desc), (''memory_type'', PStr SAMPLE_MEMORY_TYPE), (''status'', PStr ''active''), (''metadata'', PDict m)]"
  define r where "r = \<lparr>ch_id = db_next db, ch_session = None, ch_content = desc, ch_body = desc, ch_type = SAMPLE_MEMORY_TYPE,
     ch_status = ''active'', ch_source = ''plan_decomposer'', ch_created = PFloat (fst (db_now env db)), ch_modified = PFloat (fst (db_now env db)),
     ch_metadata = PDict m, ch_meta = PDict meta\<rparr>"
  define db' where "db' = (snd (db_now env db))\<lparr>db_chunks := db_chunks db @ [r], db_next := db_next db + 1\<rparr>"
  have add: "add_memory_chunk env desc None ''plan_decomposer'' meta db = (Inr (db_next db), db')"
    using c(1,2) by (simp add: add_memory_chunk_def meta_def db'_def r_def meta_text_def py_str_def pget_def dget_or_def
        SAMPLE_MEMORY_TYPE_def m_def candidate_metadata_def db_now_def Let_def)
  have create: "create_candidate env ca db = reload_sample env (int_str (db_next db)) db'"
    by (simp add: create_candidate_def assms(2,3) add [unfolded meta_def m_def tools_def] Let_def)
  have found: "find_chunk (sample_at (db_next db)) db' = Some r"
  proof -
    have "find (sample_at (db_next db)) (db_chunks db) = None"
      using assms(1) by (auto simp: find_None_iff memory_ok_def sample_at_def)
    then show ?thesis
      by (simp add: find_chunk_def db'_def find_append_None r_def sample_at_def is_sample_def)
  qed
  obtain s where s: "row_to_sample env r = Inr s" "sp_id s = int_str (db_next db)" "sp_state s = ''candidate''" "sp_task s = desc"
      "sp_steps s = ser" "sp_source s = src" "sp_provenance s = normalize_strings (ca_provenance ca)" "sp_hash s = content_hash env desc ser" "sp_version s = 1"
    using candidate_row [of r src ser "ca_plan ca" _ _ _ "ca_provenance ca" tools "fst (db_now env db)" env, OF _ refl refl _ _ c(5)]
    by (force simp: r_def m_def)
  have get: "get_sample env (int_str (db_next db)) db' = Inr (Some s)"
    by (simp add: get_sample_def found s(1))
  then show ?thesis
    unfolding create by (intro exI [of _ s]) (use s c in \<open>simp add: reload_sample_def\<close>)
qed

section \<open>The budget of the examples\<close>

lemma fit_steps_fits:
  assumes "steps = [] \<or> estimate_tokens (render_shot task steps) \<le> SAMPLE_TOKEN_BUDGET_PER_ITEM"
  shows "fit_steps task steps ss = [] \<or> estimate_tokens (render_shot task (fit_steps task steps ss)) \<le> SAMPLE_TOKEN_BUDGET_PER_ITEM"
  using assms by (induction task steps ss rule: fit_steps.induct) simp_all

lemma crop_fits:
  assumes "crop_sample rp s q w = Some shot"
  shows "sh_tokens shot \<le> SAMPLE_TOKEN_BUDGET_PER_ITEM \<and> sh_tokens shot = estimate_tokens (render_shot (sh_task shot) (sh_steps shot))
    \<and> sh_id shot = sp_id s \<and> sh_similarity shot = q \<and> sh_tools shot = sp_tools s"
  using assms fit_steps_fits [of "[]" "truncate_text (sp_task s) 60" "map (crop_step rp True) (sp_steps s)"]
    fit_steps_fits [of "[]" "truncate_text (sp_task s) 200" "map (crop_step rp False) (sp_steps s)"]
  by (auto simp: crop_sample_def Let_def split: if_splits)

lemma take_shots_budget: "used \<le> SAMPLE_TOKEN_BUDGET \<Longrightarrow> used + sum_list (map sh_tokens (take_shots rp used xs)) \<le> SAMPLE_TOKEN_BUDGET"
  by (induction rp used xs rule: take_shots.induct) (auto split: option.split simp: add.assoc)

lemma length_take_shots: "length (take_shots rp used xs) \<le> length xs"
  by (induction rp used xs rule: take_shots.induct) (auto split: option.split)

lemma take_shots_from: "shot \<in> set (take_shots rp used xs) \<Longrightarrow> \<exists>(s, q, w) \<in> set xs. crop_sample rp s q w = Some shot"
  by (induction rp used xs rule: take_shots.induct) (auto split: option.splits if_splits)

lemma select_diverse_props: "length (select_diverse xs) \<le> 2" "set (select_diverse xs) \<subseteq> set xs"
proof -
  have "x \<in> set ys" if "find p ys = Some x" for p :: "decomposition_sample \<times> 'a \<Rightarrow> bool" and ys x
    using that by (induction ys) (auto split: if_splits)
  then show "length (select_diverse xs) \<le> 2" "set (select_diverse xs) \<subseteq> set xs"
    by (force simp: select_diverse_def split: list.split option.split)+
qed

lemma rank_samples_from:
  assumes "rank_samples env low high sims now samples = Inr ranked" "(s, q, w) \<in> set ranked"
  shows "s \<in> set samples \<and> low \<le> q \<and> q \<le> high"
proof -
  from assms obtain r where "traverse (\<lambda>s. let q = dget_or sims (sp_id s) 0 in and_then (quality env s now) (\<lambda>w. Inr (s, q, q * w)))
        (filter (\<lambda>s. let q = dget_or sims (sp_id s) 0 in \<not> (q < low \<or> q > high)) samples) = Inr r" "(s, q, w) \<in> set r"
    by (auto simp: rank_samples_def and_then_Inr_iff)
  from traverse_from [OF this] show ?thesis by (auto simp: Let_def and_then_Inr_iff)
qed

lemma retrieve_shots:
  assumes "fst (retrieve env low high goal w) = Inr shots" "shots \<noteq> []"
  obtains samples sims now ranked where "list_samples env (Some ''verified'') None 200 0 w = Inr samples"
    "rank_samples env low high sims now (filter (\<lambda>s. sp_status s = ''active'' \<and> sp_verify s \<in> {Some ''user'', Some ''auto''}) samples) = Inr ranked"
    "shots = take_shots (me_repr env) 0 (select_diverse ranked)"
proof -
  have shot: "xs = shots" if "fst (try_then r (\<lambda>_ w. (Inr xs, w))) = Inr shots" for r :: "(exn + unit) \<times> sample_world" and xs
    using that by (cases r; cases "fst r") auto
  show thesis
    using assms that by (auto simp: retrieve_def Let_def split_beta split: sum.splits if_splits dest!: shot)
qed

text \<open>Retrieval gives at most two examples, each within 400 tokens as rendered, together within
  the budget of 1000, each a verified and active sample of the library whose similarity lies
  between the two bounds.\<close>

theorem retrieval_bounded:
  assumes "fst (retrieve env low high goal w) = Inr shots"
  shows "length shots \<le> 2 \<and> sum_list (map sh_tokens shots) \<le> SAMPLE_TOKEN_BUDGET \<and>
    (\<forall>shot \<in> set shots. sh_tokens shot = estimate_tokens (render_shot (sh_task shot) (sh_steps shot)) \<and>
       sh_tokens shot \<le> SAMPLE_TOKEN_BUDGET_PER_ITEM \<and> low \<le> sh_similarity shot \<and> sh_similarity shot \<le> high \<and>
       (\<exists>r \<in> set (db_chunks w). \<exists>s. is_sample r \<and> row_to_sample env r = Inr s \<and> sql_state r = Some ''verified'' \<and> sp_id s = sh_id shot \<and>
          sp_status s = ''active'' \<and> sp_verify s \<in> {Some ''user'', Some ''auto''}))"
proof (cases "shots = []")
  case False
  from retrieve_shots [OF assms False] obtain samples sims now ranked where l: "list_samples env (Some ''verified'') None 200 0 w = Inr samples"
    and k: "rank_samples env low high sims now (filter (\<lambda>s. sp_status s = ''active'' \<and> sp_verify s \<in> {Some ''user'', Some ''auto''}) samples) = Inr ranked"
    and shots: "shots = take_shots (me_repr env) 0 (select_diverse ranked)" by blast
  have "length shots \<le> 2"
    using length_take_shots [of "me_repr env" 0 "select_diverse ranked"] select_diverse_props(1) [of ranked] shots
    by (metis le_trans)
  moreover have "sum_list (map sh_tokens shots) \<le> SAMPLE_TOKEN_BUDGET"
    using take_shots_budget [of 0 "me_repr env" "select_diverse ranked"] shots by simp
  moreover have "sh_tokens shot = estimate_tokens (render_shot (sh_task shot) (sh_steps shot)) \<and>
       sh_tokens shot \<le> SAMPLE_TOKEN_BUDGET_PER_ITEM \<and> low \<le> sh_similarity shot \<and> sh_similarity shot \<le> high \<and>
       (\<exists>r \<in> set (db_chunks w). \<exists>s. is_sample r \<and> row_to_sample env r = Inr s \<and> sql_state r = Some ''verified'' \<and> sp_id s = sh_id shot \<and>
          sp_status s = ''active'' \<and> sp_verify s \<in> {Some ''user'', Some ''auto''})" if "shot \<in> set shots" for shot
  proof -
    from that take_shots_from [of shot "me_repr env" 0 "select_diverse ranked"] select_diverse_props(2) [of ranked] shots
    obtain s q p where s: "(s, q, p) \<in> set ranked" "crop_sample (me_repr env) s q p = Some shot" by blast
    from rank_samples_from [OF k s(1)] have r: "s \<in> set samples" "sp_status s = ''active''" "sp_verify s \<in> {Some ''user'', Some ''auto''}" "low \<le> q" "q \<le> high"
      by simp_all
    define rows where "rows = take 200 (newest_first (filter (state_filter [''verified'']) (db_chunks w)))"
    have rows: "traverse (row_to_sample env) rows = Inr samples"
      using l by (auto simp: rows_def list_samples_def normalize_sample_states_def validate_state_def and_then_Inr_iff split: if_splits)
    have "set rows \<subseteq> set (filter (state_filter [''verified'']) (db_chunks w))"
      by (auto simp: rows_def dest: in_set_takeD)
    moreover from traverse_from [OF rows r(1)] obtain row where row: "row \<in> set rows" "row_to_sample env row = Inr s" by blast
    ultimately have "row \<in> set (db_chunks w)" "is_sample row" "sql_state row = Some ''verified''"
      by (auto simp: state_filter_def split: option.splits)
    with crop_fits [OF s(2)] r row show ?thesis by auto
  qed
  ultimately show ?thesis by blast
qed simp

section \<open>A sample the memory panel touched\<close>

text \<open>The panel stores the time of the change as a text, which \<open>float\<close> does not read.\<close>

definition unreadable :: "'e memory_env_scheme \<Rightarrow> chunk \<Rightarrow> bool" where
  "unreadable env r = (is_sample r \<and> isl (row_to_sample env r))"

lemma isl_and_then: "isl x \<or> (\<forall>y. isl (f y)) \<Longrightarrow> isl (and_then x f)"
  by (cases x) simp_all

lemma unreadable_row: "is_sample r \<Longrightarrow> ch_modified r = PStr t \<Longrightarrow> t \<noteq> [] \<Longrightarrow> parse_float t = None \<Longrightarrow> unreadable env r"
  by (auto simp: unreadable_def row_to_sample_def Let_def float_or_zero_def [of "PStr t"] py_float_def [of "PStr t"] intro!: isl_and_then)

lemma traverse_isl: "x \<in> set xs \<Longrightarrow> isl (f x) \<Longrightarrow> isl (traverse f xs)"
  by (metis isl_def sum.disc(2) sum.exhaust traverse_member)

lemma all_samples_reads:
  "all_samples env None off db = Inr ss \<Longrightarrow> r \<in> set (drop off (newest_first (filter is_sample (db_chunks db)))) \<Longrightarrow> \<exists>s. row_to_sample env r = Inr s"
proof (induction "length (db_chunks db) - off" arbitrary: off ss rule: less_induct)
  case less
  let ?rows = "newest_first (filter is_sample (db_chunks db))"
  have page: "list_samples env None None 500 (int off) db = traverse (row_to_sample env) (take 500 (drop off ?rows))"
    by (simp add: list_samples_def normalize_sample_states_def state_filter_def dedup_def cong: filter_cong)
  from less.prems(1) obtain p where p: "list_samples env None None 500 (int off) db = Inr p"
    by (subst (asm) all_samples.simps) (auto split: sum.splits)
  show ?case
  proof (cases "r \<in> set (take 500 (drop off ?rows))")
    case True
    with traverse_member [of "row_to_sample env" "take 500 (drop off ?rows)" p r] p page show ?thesis by auto
  next
    case False
    have len: "length p = min (length ?rows - off) 500" using p page by (auto dest!: length_traverse)
    from False less.prems(2) have r: "r \<in> set (drop 500 (drop off ?rows))"
      by (metis Un_iff append_take_drop_id set_append)
    then have "500 < length (drop off ?rows)" by (metis drop_all empty_iff empty_set leI)
    with len have full: "length p = 500" by simp
    with less.prems(1) p obtain rest where rest: "all_samples env None (off + 500) db = Inr rest"
      by (subst (asm) all_samples.simps) (auto simp: and_then_Inr_iff)
    have "length (db_chunks db) - (off + 500) < length (db_chunks db) - off" using full_page [OF p] full by linarith
    from less.hyps [OF this rest] r show ?thesis by (simp add: add.commute)
  qed
qed

lemma unreadable_stops:
  assumes "r \<in> set (db_chunks db)" "unreadable env r"
  shows "isl (all_samples env None 0 db)"
    and "check_candidate (me_repr env) ca = Inr (desc, ser, src) \<Longrightarrow> content_tokens (me_repr env) desc ser \<noteq> [] \<Longrightarrow>
      \<forall>r \<in> set (db_chunks db). pget (decode_metadata (ch_metadata r)) ''content_hash'' \<noteq> PStr (content_hash env desc ser) \<Longrightarrow>
      isl (fst (create_candidate env ca db)) \<and> snd (create_candidate env ca db) = db"
proof -
  have r: "r \<in> set (newest_first (filter is_sample (db_chunks db)))" using assms by (simp add: unreadable_def)
  show "isl (all_samples env None 0 db)"
  proof (cases "all_samples env None 0 db")
    case (Inr ss)
    then obtain s where "row_to_sample env r = Inr s" using all_samples_reads [of env 0 db ss r] r by auto
    with assms(2) show ?thesis by (simp add: unreadable_def)
  qed simp
  assume c: "check_candidate (me_repr env) ca = Inr (desc, ser, src)" "content_tokens (me_repr env) desc ser \<noteq> []"
    and new: "\<forall>r \<in> set (db_chunks db). pget (decode_metadata (ch_metadata r)) ''content_hash'' \<noteq> PStr (content_hash env desc ser)"
  have "isl (traverse (row_to_sample env) (sample_rows db))"
    using r assms(2) by (intro traverse_isl [of r]) (simp_all add: sample_rows_def unreadable_def)
  then obtain e where e: "traverse (row_to_sample env) (sample_rows db) = Inl e" by (auto simp: isl_def)
  have "filter (\<lambda>r. pget (decode_metadata (ch_metadata r)) ''content_hash'' = PStr (content_hash env desc ser)) (sample_rows db) = []"
    using new by (auto simp: filter_empty_conv sample_rows_def)
  then have "find_duplicate env desc ser (content_hash env desc ser) db = Inl e"
    using c(2) e by (simp add: find_duplicate_def Let_def)
  then show "isl (fst (create_candidate env ca db)) \<and> snd (create_candidate env ca db) = db"
    by (simp add: create_candidate_def c(1) Let_def)
qed

text \<open>Once the memory panel has marked a sample invalid, or marked it active again, no listing of
  the library succeeds and no new candidate is stored, because the time it wrote is a text
  that \<open>float\<close> rejects.\<close>

theorem invalidated_sample_stops_library:
  assumes "r \<in> set (db_chunks w)" "is_sample r" "\<forall>n. me_iso env n \<noteq> [] \<and> parse_float (me_iso env n) = None"
    and "v = snd (invalidate_memory_chunk env (ch_id r) w) \<or> v = snd (restore_memory_chunk env (ch_id r) w)"
  shows "isl (all_samples env None 0 v) \<and>
    (check_candidate (me_repr env) ca = Inr (desc, ser, src) \<and> content_tokens (me_repr env) desc ser \<noteq> [] \<and>
      (\<forall>r \<in> set (db_chunks v). pget (decode_metadata (ch_metadata r)) ''content_hash'' \<noteq> PStr (content_hash env desc ser)) \<longrightarrow>
      isl (fst (create_candidate env ca v)) \<and> snd (create_candidate env ca v) = v)"
proof -
  obtain st where v: "v = snd (set_memory_status env st (ch_id r) w)"
    using assms(4) by (auto simp: invalidate_memory_chunk_def restore_memory_chunk_def)
  let ?r = "r\<lparr>ch_status := st, ch_modified := PStr (me_iso env (db_ticks w))\<rparr>"
  have "?r \<in> set (db_chunks v)"
    using assms(1) by (force simp: v set_memory_status_def update_chunks_def Let_def)
  moreover have "unreadable env ?r"
    using assms(2,3) by (intro unreadable_row [of _ "me_iso env (db_ticks w)"]) (auto simp: is_sample_def)
  ultimately show ?thesis using unreadable_stops [of ?r v env] by blast
qed

section \<open>Concrete inputs\<close>

definition plain_env :: retriever_env where
  "plain_env = \<lparr>me_clock = of_nat, me_iso = (\<lambda>_. ''2026-01-01T00:00:00Z''), me_repr = (\<lambda>_. []), se_hash = (\<lambda>t _. t),
     re_fts = (\<lambda>_ _. None), re_root = (\<lambda>x. x), re_exp = (\<lambda>_. 1), re_token_digest = (\<lambda>_. 3), re_goal_digest = (\<lambda>t. t)\<rparr>"

definition alpha_step :: "pyval dict" where
  "alpha_step = [(''title'', PStr ''alpha''), (''description'', PStr ''alpha'')]"

definition alpha_chunk :: "string \<Rightarrow> pyval \<Rightarrow> chunk" where
  "alpha_chunk st verify = \<lparr>ch_id = 1, ch_session = None, ch_content = ''alpha'', ch_body = ''alpha'', ch_type = SAMPLE_MEMORY_TYPE,
     ch_status = ''active'', ch_source = ''plan_decomposer'', ch_created = PFloat 0, ch_modified = PFloat 0,
     ch_metadata = PDict [(''sample_state'', PStr st), (''verify_kind'', verify), (''steps'', PList [PDict alpha_step])], ch_meta = PNone\<rparr>"

definition alpha_world :: "chunk list \<Rightarrow> sample_world" where
  "alpha_world rows = \<lparr>db_chunks = rows, db_next = 2, db_ticks = 0, sw_events = []\<rparr>"

definition beta_args :: candidate_args where
  "beta_args = \<lparr>ca_task = '' beta'', ca_steps = [[(''title'', PStr ''beta''), (''description'', PStr ''beta'')]],
     ca_source = ''llm'', ca_plan = None, ca_provenance = [], ca_tools = None\<rparr>"

lemma alpha_vector: "embed_text (\<lambda>x. x) (\<lambda>_. 3) ''alpha'' 128 = replicate 3 0 @ 1 # replicate 124 0"
proof -
  have t: "tokenize_for_embedding ''alpha'' = [''alpha'']" by code_simp
  have r: "(replicate 128 0 :: rat list) = replicate 3 0 @ 0 # replicate 124 0" by (simp add: numeral_eq_Suc)
  show ?thesis by (simp add: embed_text_def t r list_update_append nth_append sum_list_replicate Let_def)
qed

definition alpha_sample :: decomposition_sample where
  "alpha_sample = \<lparr>sp_id = ''1'', sp_task = ''alpha'', sp_state = ''verified'', sp_verify = Some ''user'', sp_steps = [alpha_step],
     sp_schema = 0, sp_source = ''rule'', sp_plan = None, sp_provenance = [], sp_usage = empty_usage, sp_tools = [], sp_hash = [],
     sp_version = 1, sp_status = ''active'', sp_created = 0, sp_updated = 0, sp_stale_reason = None, sp_rejected_by = None,
     sp_last_actor = None\<rparr>"

abbreviation alpha_verified :: sample_world where
  "alpha_verified \<equiv> alpha_world [alpha_chunk ''verified'' (PStr ''user'')]"

lemma alpha_similarity: "fused_similarities plain_env ''alpha'' [alpha_sample] alpha_verified = [(''1'', 2 / 3)]"
proof -
  have "cosine_similarity (\<lambda>x. x) (replicate 3 0 @ 1 # replicate 124 0) (replicate 3 0 @ 1 # replicate 124 0) = 1"
    by (simp add: cosine_similarity_def zip_append sum_list_replicate zip_replicate Let_def)
  then have e: "embedding_value plain_env ''alpha'' alpha_sample = 1"
    by (simp add: embedding_value_def plain_env_def alpha_sample_def alpha_vector)
  have o: "overlap_value plain_env ''alpha'' alpha_sample = 1" by code_simp
  have f: "fts_values plain_env ''alpha'' (map sp_id [alpha_sample]) alpha_verified = []"
    by (simp add: fts_values_def plain_env_def)
  have "fused_similarities plain_env ''alpha'' [alpha_sample] alpha_verified
      = map (\<lambda>(k, v). (k, min 1 v)) (fold add_route [[], [(''1'', 1)], [(''1'', 1)]] [(''1'', 0)])"
    by (simp only: fused_similarities_def f) (simp add: by_id_def e o, simp add: alpha_sample_def)
  also have "\<dots> = [(''1'', 2 / 3)]" by code_simp
  finally show ?thesis .
qed

lemma alpha_retrieved:
  "\<exists>shot. fst (retrieve plain_env (7 / 20) (49 / 50) ''alpha'' alpha_verified) = Inr [shot]"
proof -
  have l: "list_samples plain_env (Some ''verified'') None 200 0 alpha_verified = Inr [alpha_sample]" by code_simp
  have g: "strip ''alpha'' = ''alpha''" by code_simp
  have n: "db_now plain_env alpha_verified = (0, alpha_verified\<lparr>db_ticks := Suc 0\<rparr>)" by (simp add: db_now_def plain_env_def alpha_world_def)
  have r: "rank_samples plain_env (7 / 20) (49 / 50) [(''1'', 2 / 3)] 0 [alpha_sample] = Inr [(alpha_sample, 2 / 3, 1 / 2)]" by code_simp
  obtain shot where s: "take_shots (me_repr plain_env) 0 (select_diverse [(alpha_sample, 2 / 3, 1 / 2)]) = [shot]"
  proof -
    have "length (take_shots (me_repr plain_env) 0 (select_diverse [(alpha_sample, 2 / 3, 1 / 2)])) = 1" by code_simp
    then show thesis using that by (auto simp: length_Suc_conv)
  qed
  have "fst (inject_shots plain_env ''alpha'' 0 (take_shots (me_repr plain_env) 0 (select_diverse [(alpha_sample, 2 / 3, 1 / 2)]))
      (alpha_verified\<lparr>db_ticks := Suc 0\<rparr>)) = Inr ()" by code_simp
  then obtain w where i: "inject_shots plain_env ''alpha'' 0 [shot] (alpha_verified\<lparr>db_ticks := Suc 0\<rparr>) = (Inr (), w)"
    unfolding s by (metis prod.collapse)
  have "sp_status alpha_sample = ''active''" "sp_verify alpha_sample = Some ''user''" by (simp_all add: alpha_sample_def)
  moreover have "re_goal_digest plain_env ''alpha'' = ''alpha''" by (simp add: plain_env_def)
  ultimately show ?thesis
    by (simp add: retrieve_def Let_def g l n r s i alpha_similarity del: inject_shots.simps take_Cons')
qed



theorem invalidated_sample_stops_library_witness:
  "isl (all_samples plain_env None 0 (snd (invalidate_memory_chunk plain_env 1 (alpha_world [alpha_chunk ''verified'' (PStr ''user'')]))))"
proof -
  have "\<forall>n. me_iso plain_env n \<noteq> [] \<and> parse_float (me_iso plain_env n) = None"
    unfolding plain_env_def by simp code_simp
  with invalidated_sample_stops_library [of "alpha_chunk ''verified'' (PStr ''user'')" "alpha_world [alpha_chunk ''verified'' (PStr ''user'')]"
      plain_env "snd (invalidate_memory_chunk plain_env 1 (alpha_world [alpha_chunk ''verified'' (PStr ''user'')]))"]
  show ?thesis by (simp add: alpha_world_def alpha_chunk_def is_sample_def)
qed

theorem candidate_reads_back_witness:
  "\<exists>s. fst (create_candidate plain_env beta_args (alpha_world [])) = Inr s \<and> sp_task s = ''beta'' \<and> sp_state s = ''candidate''"
proof -
  have "check_candidate (me_repr plain_env) beta_args = Inr (''beta'', [[(''title'', PStr ''beta''), (''description'', PStr ''beta''),
      (''expected_output'', PNone), (''verification'', PNone), (''completion_criteria'', PNone), (''stage'', PNone), (''subagent_type'', PNone)]], ''llm'')"
    by code_simp
  moreover have "find_duplicate plain_env ''beta'' [[(''title'', PStr ''beta''), (''description'', PStr ''beta''),
      (''expected_output'', PNone), (''verification'', PNone), (''completion_criteria'', PNone), (''stage'', PNone), (''subagent_type'', PNone)]]
      (content_hash plain_env ''beta'' [[(''title'', PStr ''beta''), (''description'', PStr ''beta''),
      (''expected_output'', PNone), (''verification'', PNone), (''completion_criteria'', PNone), (''stage'', PNone), (''subagent_type'', PNone)]])
      (alpha_world []) = Inr (None, 0)" by code_simp
  moreover have "memory_ok (alpha_world [])" "strip (ca_task beta_args) = ''beta''" by code_simp+
  ultimately show ?thesis using candidate_reads_back [of "alpha_world []" plain_env beta_args] by metis
qed

theorem candidate_added_only_if_new_witness:
  "pget (decode_metadata (ch_metadata (alpha_chunk ''rejected'' PNone))) ''content_hash'' \<noteq> PStr ''beta''"
proof -
  have c: "check_candidate (me_repr plain_env) beta_args = Inr (''beta'', [[(''title'', PStr ''beta''), (''description'', PStr ''beta''),
      (''expected_output'', PNone), (''verification'', PNone), (''completion_criteria'', PNone), (''stage'', PNone), (''subagent_type'', PNone)]], ''llm'')"
    by code_simp
  moreover have "length (db_chunks (snd (create_candidate plain_env beta_args (alpha_world [alpha_chunk ''rejected'' PNone]))))
      \<noteq> length (db_chunks (alpha_world [alpha_chunk ''rejected'' PNone]))" by code_simp
  moreover have "alpha_chunk ''rejected'' PNone \<in> set (db_chunks (alpha_world [alpha_chunk ''rejected'' PNone]))"
      "is_sample (alpha_chunk ''rejected'' PNone)" by (simp_all add: alpha_world_def is_sample_def alpha_chunk_def)
  ultimately have "pget (decode_metadata (ch_metadata (alpha_chunk ''rejected'' PNone))) ''content_hash''
      \<noteq> PStr (content_hash plain_env ''beta'' [[(''title'', PStr ''beta''), (''description'', PStr ''beta''),
      (''expected_output'', PNone), (''verification'', PNone), (''completion_criteria'', PNone), (''stage'', PNone), (''subagent_type'', PNone)]])"
    using candidate_added_only_if_new by blast
  moreover have "content_hash plain_env ''beta'' ser = ''beta''" for ser
    unfolding content_hash_def plain_env_def by simp code_simp
  ultimately show ?thesis by simp
qed

theorem retrieval_bounded_witness:
  "\<exists>shot. fst (retrieve plain_env (7 / 20) (49 / 50) ''alpha'' alpha_verified) = Inr [shot] \<and> sh_tokens shot \<le> 400"
proof -
  from alpha_retrieved obtain shot where shot: "fst (retrieve plain_env (7 / 20) (49 / 50) ''alpha'' alpha_verified) = Inr [shot]" by blast
  from retrieval_bounded [OF this] shot show ?thesis by (simp add: SAMPLE_TOKEN_BUDGET_PER_ITEM_def)
qed

end
