(* ===== verification/Goal_Manager.thy ===== *)
theory Goal_Manager
  imports Memory_Chunks
begin

text \<open>
  Goals and their reminders: the goals in the table of memories
  (\<open>core/goal_manager/repository.py\<close>), the score of a reminder (\<open>evaluator.py\<close>), the guard that
  allows, silences or drops it (\<open>core/attention_awareness/guard.py\<close>), what a reply says about
  reminders (\<open>semantic_feedback.py\<close>), and \<open>GoalManager\<close> over them (\<open>manager.py\<close>).

  Statements commit one by one, each operation makes one. Local hours and dates of a time are
  functions of the environment; an infinite number of days is \<open>None\<close>.
\<close>

section \<open>Goals\<close>

definition goal_statuses :: "string list" where
  "goal_statuses = [''active'', ''completed'', ''abandoned'']"

definition goal_priorities :: "string list" where
  "goal_priorities = [''normal'', ''high'', ''urgent'']"

record goal =
  go_id :: string
  go_description :: string
  go_status :: string
  go_priority :: string
  go_progress :: pyfloat
  go_created :: pyfloat
  go_updated :: pyfloat
  go_deadline :: "pyfloat option"
  go_reminders :: int
  go_last_reminder :: "pyfloat option"
  go_negative :: pyfloat
  go_tags :: "string list"

definition goal_error :: "string \<Rightarrow> exn" where
  "goal_error t = Exn ValueError t"

definition goal_meta :: "chunk \<Rightarrow> pyval dict" where
  "goal_meta r = (case ch_metadata r of PDict m \<Rightarrow> m | _ \<Rightarrow> [])"

text \<open>\<open>float(m.get(k, d))\<close>, \<open>None if m.get(k) is None else float(m[k])\<close>, and a time stamp\<close>

definition float_at :: "pyval dict \<Rightarrow> string \<Rightarrow> pyfloat \<Rightarrow> exn + pyfloat" where
  "float_at m k d = (case dget m k of None \<Rightarrow> Inr d | Some v \<Rightarrow> py_float v)"

definition opt_float_at :: "pyval dict \<Rightarrow> string \<Rightarrow> exn + pyfloat option" where
  "opt_float_at m k = (if pget m k = PNone then Inr None else and_then (py_float (pget m k)) (\<lambda>q. Inr (Some q)))"

definition int_at :: "pyval dict \<Rightarrow> string \<Rightarrow> exn + int" where
  "int_at m k = (case dget m k of None \<Rightarrow> Inr 0 | Some v \<Rightarrow> py_int v)"

definition timestamp :: "pyval \<Rightarrow> pyfloat" where
  "timestamp v = (case py_float v of Inr q \<Rightarrow> q | Inl _ \<Rightarrow> 0)"

definition normalize_tags :: "(pyval \<Rightarrow> string) \<Rightarrow> pyval \<Rightarrow> string list" where
  "normalize_tags rp v = (case v of PList xs \<Rightarrow> dedup (filter (\<lambda>s. s \<noteq> []) (map (\<lambda>x. strip (py_str rp x)) xs)) | _ \<Rightarrow> [])"

definition row_to_goal :: "'e memory_env_scheme \<Rightarrow> chunk \<Rightarrow> exn + goal" where
  "row_to_goal env r =
    (let m = goal_meta r; rp = me_repr env in
     and_then (float_at m ''progress'' 0) (\<lambda>progress. and_then (opt_float_at m ''deadline'') (\<lambda>deadline.
     and_then (int_at m ''reminder_count'') (\<lambda>reminders. and_then (opt_float_at m ''last_reminder_at'') (\<lambda>last_at.
     and_then (float_at m ''negative_feedback_score'' 0) (\<lambda>negative.
       Inr \<lparr>go_id = int_str (ch_id r), go_description = ch_content r, go_status = meta_text rp m ''goal_status'' ''active'',
          go_priority = meta_text rp m ''priority'' ''normal'', go_progress = progress, go_created = timestamp (ch_created r),
          go_updated = timestamp (ch_modified r), go_deadline = deadline, go_reminders = reminders, go_last_reminder = last_at,
          go_negative = negative, go_tags = normalize_tags rp (dget_or m ''tags'' (PList []))\<rparr>))))))"

section \<open>The repository\<close>

definition goal_at :: "int \<Rightarrow> chunk \<Rightarrow> bool" where
  "goal_at i r = (ch_id r = i \<and> ch_type r = ''goal'')"

definition goal_id :: "string \<Rightarrow> exn + int" where
  "goal_id s = (case parse_int s of Some i \<Rightarrow> Inr i | None \<Rightarrow> Inl (goal_error ''invalid goal id''))"

definition validate_priority :: "string \<Rightarrow> exn + unit" where
  "validate_priority p = (if p \<in> set goal_priorities then Inr () else Inl (goal_error ''invalid priority''))"

definition create_goal :: "'e memory_env_scheme \<Rightarrow> string \<Rightarrow> string \<Rightarrow> pyfloat option \<Rightarrow> string list \<Rightarrow> 'd memory_db_scheme
    \<Rightarrow> (exn + string) \<times> 'd memory_db_scheme" where
  "create_goal env description priority deadline tags db =
    (let desc = strip description in
     if desc = [] then (Inl (goal_error ''goal description must not be empty''), db)
     else case validate_priority priority of
       Inl e \<Rightarrow> (Inl e, db)
     | Inr _ \<Rightarrow>
         if priority = ''urgent'' then (Inl (goal_error ''urgent priority can only be set via update_priority''), db)
         else let m = [(''goal_status'', PStr ''active''), (''priority'', PStr priority), (''progress'', PFloat 0),
                  (''deadline'', case deadline of Some t \<Rightarrow> PFloat t | None \<Rightarrow> PNone), (''reminder_count'', PInt 0),
                  (''last_reminder_at'', PNone), (''reminder_history'', PList []), (''negative_feedback_score'', PFloat 0),
                  (''tags'', PList (map PStr (normalize_tags (me_repr env) (PList (map PStr tags)))))]
           in (case add_memory_chunk env desc None ''user_explicit''
                 [(''content'', PStr desc), (''memory_type'', PStr ''goal''), (''status'', PStr ''active''), (''metadata'', PDict m)] db of
                 (Inl e, db) \<Rightarrow> (Inl e, db)
               | (Inr i, db) \<Rightarrow> (Inr (int_str i), db)))"

definition get_goal :: "'e memory_env_scheme \<Rightarrow> string \<Rightarrow> 'd memory_db_scheme \<Rightarrow> exn + goal option" where
  "get_goal env gid db = and_then (goal_id gid) (\<lambda>i. case find_chunk (goal_at i) db of
       None \<Rightarrow> Inr None | Some r \<Rightarrow> and_then (row_to_goal env r) (\<lambda>g. Inr (Some g)))"

definition list_active :: "'e memory_env_scheme \<Rightarrow> 'd memory_db_scheme \<Rightarrow> exn + goal list" where
  "list_active env db =
    and_then (traverse (row_to_goal env) (sort_key (\<lambda>r. (time_key (ch_created r), ch_id r))
        (filter (\<lambda>r. ch_type r = ''goal'' \<and> ch_status r = ''active'') (db_chunks db))))
      (\<lambda>goals. Inr (filter (\<lambda>g. go_status g = ''active'') goals))"

definition write_goal :: "pyval dict \<Rightarrow> string option \<Rightarrow> pyfloat \<Rightarrow> chunk \<Rightarrow> chunk" where
  "write_goal m st now r = r\<lparr>ch_metadata := PDict m, ch_status := (case st of Some s \<Rightarrow> s | None \<Rightarrow> ch_status r), ch_modified := PFloat now\<rparr>"

definition mutate_goal :: "'e memory_env_scheme \<Rightarrow> string \<Rightarrow> (pyval dict \<Rightarrow> exn + pyval dict) \<Rightarrow> string option \<Rightarrow> 'd memory_db_scheme
    \<Rightarrow> (exn + unit) \<times> 'd memory_db_scheme" where
  "mutate_goal env gid mutation st db =
    (case goal_id gid of Inl e \<Rightarrow> (Inl e, db)
     | Inr i \<Rightarrow> case find_chunk (goal_at i) db of
         None \<Rightarrow> (Inl (goal_error ''goal not found''), db)
       | Some r \<Rightarrow> case mutation (goal_meta r) of
           Inl e \<Rightarrow> (Inl e, db)
         | Inr m \<Rightarrow> let (now, db) = db_now env db in (Inr (), snd (update_chunks (goal_at i) (write_goal m st now) db)))"

definition update_progress :: "'e memory_env_scheme \<Rightarrow> string \<Rightarrow> pyfloat \<Rightarrow> 'd memory_db_scheme \<Rightarrow> (exn + unit) \<times> 'd memory_db_scheme" where
  "update_progress env gid p db =
    (if \<not> (0 \<le> p \<and> p \<le> 1) then (Inl (goal_error ''progress must be between 0.0 and 1.0''), db)
     else if p = 1 then mutate_goal env gid (\<lambda>m. Inr (dset (dset m ''progress'' (PFloat p)) ''goal_status'' (PStr ''completed''))) (Some ''cancelled'') db
     else mutate_goal env gid (\<lambda>m. Inr (dset m ''progress'' (PFloat p))) None db)"

definition update_priority :: "'e memory_env_scheme \<Rightarrow> string \<Rightarrow> string \<Rightarrow> 'd memory_db_scheme \<Rightarrow> (exn + unit) \<times> 'd memory_db_scheme" where
  "update_priority env gid p db = (case validate_priority p of Inl e \<Rightarrow> (Inl e, db)
     | Inr _ \<Rightarrow> mutate_goal env gid (\<lambda>m. Inr (dset m ''priority'' (PStr p))) None db)"

text \<open>The entries of a reminder history that are numbers (a truth value is one).\<close>

definition history_of :: "pyval dict \<Rightarrow> pyfloat list" where
  "history_of m = (case dget_or m ''reminder_history'' (PList []) of
      PList xs \<Rightarrow> List.map_filter (\<lambda>v. case v of PInt i \<Rightarrow> Some (of_int i) | PFloat q \<Rightarrow> Some q
         | PBool b \<Rightarrow> Some (if b then 1 else 0) | _ \<Rightarrow> None) xs
    | _ \<Rightarrow> [])"

definition reminder_update :: "pyfloat \<Rightarrow> pyval dict \<Rightarrow> exn + pyval dict" where
  "reminder_update now m = and_then (int_at m ''reminder_count'') (\<lambda>n.
     let m = dset (dset m ''reminder_count'' (PInt (n + 1))) ''last_reminder_at'' (PFloat now)
     in Inr (dset m ''reminder_history'' (PList (map PFloat (filter (\<lambda>t. t \<ge> now - 7 * 86400) (history_of m) @ [now])))))"

definition record_reminder :: "'e memory_env_scheme \<Rightarrow> string \<Rightarrow> 'd memory_db_scheme \<Rightarrow> (exn + unit) \<times> 'd memory_db_scheme" where
  "record_reminder env gid db = (let (now, db) = db_now env db in mutate_goal env gid (reminder_update now) None db)"

definition get_reminder_count_today :: "string \<Rightarrow> pyfloat \<Rightarrow> 'd memory_db_scheme \<Rightarrow> exn + nat" where
  "get_reminder_count_today gid now db = and_then (goal_id gid) (\<lambda>i. Inr (case find_chunk (goal_at i) db of
       None \<Rightarrow> 0 | Some r \<Rightarrow> length (filter (\<lambda>t. now - 86400 \<le> t \<and> t \<le> now) (history_of (goal_meta r)))))"

definition feedback_weight :: "string \<Rightarrow> pyfloat option" where
  "feedback_weight level = (if level = ''strong_negative'' then Some 1 else if level = ''weak_negative'' then Some (3 / 10)
     else if level = ''positive'' then Some (- (2 / 10)) else None)"

definition feedback_update :: "pyfloat \<Rightarrow> pyval dict \<Rightarrow> exn + pyval dict" where
  "feedback_update w m = and_then (float_at m ''negative_feedback_score'' 0) (\<lambda>q.
     Inr (dset m ''negative_feedback_score'' (PFloat (max 0 (q + w)))))"

definition record_feedback :: "'e memory_env_scheme \<Rightarrow> string \<Rightarrow> string \<Rightarrow> 'd memory_db_scheme \<Rightarrow> (exn + unit) \<times> 'd memory_db_scheme" where
  "record_feedback env gid level db = (case feedback_weight level of
       None \<Rightarrow> (Inl (goal_error ''invalid feedback level''), db)
     | Some w \<Rightarrow> mutate_goal env gid (feedback_update w) None db)"

definition deactivate :: "'e memory_env_scheme \<Rightarrow> string \<Rightarrow> string \<Rightarrow> 'd memory_db_scheme \<Rightarrow> (exn + unit) \<times> 'd memory_db_scheme" where
  "deactivate env gid why db = (if why \<notin> {''completed'', ''abandoned''} then (Inl (goal_error ''invalid deactivate reason''), db)
     else mutate_goal env gid (\<lambda>m. Inr (dset m ''goal_status'' (PStr why))) (Some ''cancelled'') db)"

definition is_suppressed :: "'e memory_env_scheme \<Rightarrow> string \<Rightarrow> 'd memory_db_scheme \<Rightarrow> exn + bool" where
  "is_suppressed env gid db = and_then (get_goal env gid db) (\<lambda>g. Inr (case g of None \<Rightarrow> True | Some g \<Rightarrow> go_negative g \<ge> 2))"

section \<open>The score of a reminder\<close>

record candidate =
  rc_goal :: string
  rc_description :: string
  rc_urgency :: pyfloat
  rc_reason :: string
  rc_priority :: string
  rc_deadline :: "pyfloat option"
  rc_progress :: pyfloat
  rc_days :: "pyfloat option"

record evaluator_config =
  ev_cooldown_hours :: pyfloat
  ev_daily_cap :: nat
  ev_urgent_hours :: pyfloat
  ev_warn_hours :: pyfloat
  ev_stale_hours :: pyfloat
  ev_decay :: pyfloat

definition default_evaluator :: evaluator_config where
  "default_evaluator = \<lparr>ev_cooldown_hours = 4, ev_daily_cap = 2, ev_urgent_hours = 24, ev_warn_hours = 72, ev_stale_hours = 48, ev_decay = 3 / 10\<rparr>"

definition priority_weight :: "string \<Rightarrow> pyfloat" where
  "priority_weight p = (if p = ''high'' then 6 / 10 else if p = ''urgent'' then 9 / 10 else 3 / 10)"

text \<open>\<open>f"{q:.0f}"\<close> of a positive number: to the nearest integer, halves to even.\<close>

definition format_0f :: "pyfloat \<Rightarrow> string" where
  "format_0f q = (let n = \<lfloor>q\<rfloor>; d = q - of_int n in int_str (if d < 1 / 2 \<or> d = 1 / 2 \<and> even n then n else n + 1))"

definition deadline_part :: "evaluator_config \<Rightarrow> pyfloat \<Rightarrow> goal \<Rightarrow> pyfloat \<times> string list" where
  "deadline_part cfg now g = (case go_deadline g of None \<Rightarrow> (0, [])
     | Some t \<Rightarrow> let left = (t - now) / 3600 in
         if left \<le> 0 then (4 / 10, [[CHR 0xE5, CHR 0xB7, CHR 0xB2, CHR 0xE8, CHR 0xBF, CHR 0x87, CHR 0xE6, CHR 0x88, CHR 0xAA, CHR 0xE6, CHR
            0xAD, CHR 0xA2, CHR 0xE6, CHR 0x97, CHR 0xB6, CHR 0xE9, CHR 0x97, CHR 0xB4]])
         else if left \<le> ev_urgent_hours cfg then (3 / 10, [[CHR 0xE6, CHR 0x88, CHR 0xAA, CHR 0xE6, CHR 0xAD, CHR 0xA2, CHR 0xE6, CHR 0x97, CHR 0xB6, CHR 0xE9, CHR
            0x97, CHR 0xB4, CHR 0xE4, CHR 0xB8, CHR 0xB4, CHR 0xE8, CHR 0xBF, CHR 0x91, CHR 0xEF, CHR 0xBC, CHR 0x88] @ format_0f left @ ''h'' @ [CHR 0xEF, CHR 0xBC, CHR 0x89]])
         else if left \<le> ev_warn_hours cfg then (15 / 100, [[CHR 0xE6, CHR 0x88, CHR 0xAA, CHR 0xE6, CHR 0xAD, CHR 0xA2, CHR 0xE6, CHR 0x97, CHR 0xB6, CHR 0xE9, CHR
            0x97, CHR 0xB4, CHR 0xE6, CHR 0x8E, CHR 0xA5, CHR 0xE8, CHR 0xBF, CHR 0x91, CHR 0xEF, CHR 0xBC, CHR 0x88] @ format_0f left @ ''h'' @ [CHR 0xEF, CHR 0xBC, CHR 0x89]])
         else (0, []))"

definition days_since_last_reminder :: "goal \<Rightarrow> pyfloat \<Rightarrow> pyfloat option" where
  "days_since_last_reminder g now = map_option (\<lambda>t. (now - t) / 86400) (go_last_reminder g)"

text \<open>After infinitely many days nothing is left of the feedback (the decay is positive).\<close>

definition effective_negative :: "evaluator_config \<Rightarrow> pyfloat \<Rightarrow> goal \<Rightarrow> pyfloat" where
  "effective_negative cfg now g = (case days_since_last_reminder g now of None \<Rightarrow> 0
     | Some d \<Rightarrow> max 0 (go_negative g - d * ev_decay cfg))"

definition last_part :: "pyfloat \<Rightarrow> goal \<Rightarrow> pyfloat \<times> string list" where
  "last_part now g = (case go_last_reminder g of None \<Rightarrow> (15 / 100, [[CHR 0xE4, CHR 0xBB, CHR 0x8E, CHR 0xE6, CHR 0x9C, CHR 0xAA, CHR 0xE6, CHR 0x8F, CHR 0x90, CHR 0xE9, CHR
            0x86, CHR 0x92]])
     | Some t \<Rightarrow> if now - t \<ge> 86400 then (1 / 10, [[CHR 0xE8, CHR 0xB6, CHR 0x85, CHR 0xE8, CHR 0xBF, CHR 0x87, CHR 0xE4, CHR 0xB8, CHR 0x80, CHR 0xE5, CHR
            0xA4, CHR 0xA9, CHR 0xE6, CHR 0x9C, CHR 0xAA, CHR 0xE6, CHR 0x8F, CHR 0x90, CHR 0xE9, CHR 0x86, CHR 0x92]]) else (0, []))"

definition evaluate_goal :: "evaluator_config \<Rightarrow> pyfloat \<Rightarrow> goal \<Rightarrow> candidate option" where
  "evaluate_goal cfg now g =
    (let base = priority_weight (go_priority g);
         (due, r1) = deadline_part cfg now g;
         stale = (now - go_updated g) / 3600 \<ge> ev_stale_hours cfg \<and> go_progress g < 1;
         (seen, r3) = last_part now g;
         score = base + due + (if stale then 15 / 100 else 0) - effective_negative cfg now g * (2 / 10) + seen;
         reasons = (if go_priority g = ''urgent'' then [[CHR 0xE7, CHR 0x94, CHR 0xA8, CHR 0xE6, CHR 0x88, CHR 0xB7, CHR 0xE6, CHR 0xA0, CHR 0x87, CHR 0xE8, CHR
            0xAE, CHR 0xB0, CHR 0xE7, CHR 0xB4, CHR 0xA7, CHR 0xE6, CHR 0x80, CHR 0xA5]] else []) @ r1 @ (if stale then [[CHR 0xE8, CHR 0xBF, CHR 0x9B, CHR 0xE5, CHR 0xBA, CHR 0xA6, CHR 0xE5, CHR 0x81, CHR 0x9C, CHR 0xE6, CHR
            0xBB, CHR 0x9E]] else []) @ r3;
         urgency = max 0 (min 1 score)
     in if urgency < 2 / 10 then None
        else Some \<lparr>rc_goal = go_id g, rc_description = go_description g, rc_urgency = urgency,
          rc_reason = (if reasons = [] then ([CHR 0xE5, CHR 0xB8, CHR 0xB8, CHR 0xE8, CHR 0xA7, CHR 0x84, CHR 0xE6, CHR 0x8F, CHR 0x90, CHR 0xE9, CHR
            0x86, CHR 0x92]) else join ([CHR 0xEF, CHR 0xBC, CHR 0x9B]) reasons), rc_priority = go_priority g, rc_deadline = go_deadline g,
          rc_progress = go_progress g, rc_days = days_since_last_reminder g now\<rparr>)"

definition in_cooldown :: "evaluator_config \<Rightarrow> pyfloat \<Rightarrow> goal \<Rightarrow> bool" where
  "in_cooldown cfg now g = (case go_last_reminder g of None \<Rightarrow> False | Some t \<Rightarrow> (now - t) / 3600 < ev_cooldown_hours cfg)"

definition consider_goal :: "'e memory_env_scheme \<Rightarrow> evaluator_config \<Rightarrow> pyfloat \<Rightarrow> 'd memory_db_scheme \<Rightarrow> goal \<Rightarrow> exn + candidate option" where
  "consider_goal env cfg now db g =
    and_then (is_suppressed env (go_id g) db) (\<lambda>suppressed.
      if suppressed \<or> in_cooldown cfg now g then Inr None
      else and_then (get_reminder_count_today (go_id g) now db) (\<lambda>n.
        Inr (if n \<ge> ev_daily_cap cfg then None else evaluate_goal cfg now g)))"

definition evaluate :: "'e memory_env_scheme \<Rightarrow> evaluator_config \<Rightarrow> pyfloat \<Rightarrow> 'd memory_db_scheme \<Rightarrow> exn + candidate list" where
  "evaluate env cfg now db =
    and_then (list_active env db) (\<lambda>goals. and_then (traverse (consider_goal env cfg now db) goals) (\<lambda>cs.
      Inr (sort_key (\<lambda>c. - rc_urgency c) (List.map_filter (\<lambda>c. c) cs))))"

section \<open>The guard of attention\<close>

datatype quiet_level = ALLOW | SILENT | SUPPRESS

record attention_context =
  ac_focus :: bool
  ac_night :: bool
  ac_idle :: bool
  ac_last_reminder :: "pyfloat option"
  ac_urgent_only :: bool

record guard_config =
  gc_night_start :: int
  gc_night_end :: int
  gc_cooldown_minutes :: pyfloat
  gc_daily_cap :: nat
  gc_silent :: pyfloat
  gc_suppress :: pyfloat

definition default_guard :: guard_config where
  "default_guard = \<lparr>gc_night_start = 22, gc_night_end = 8, gc_cooldown_minutes = 30, gc_daily_cap = 5, gc_silent = 3 / 10, gc_suppress = 15 / 100\<rparr>"

record goal_env = memory_env +
  ge_hour :: "pyfloat \<Rightarrow> int"
  ge_date :: "pyfloat \<Rightarrow> int"

record goal_world = memory_db +
  gw_count :: nat
  gw_day :: "pyfloat option"

definition is_night :: "'e goal_env_scheme \<Rightarrow> guard_config \<Rightarrow> pyfloat \<Rightarrow> bool" where
  "is_night env cfg now = (let h = ge_hour env now in
     if gc_night_start cfg > gc_night_end cfg then h \<ge> gc_night_start cfg \<or> h < gc_night_end cfg
     else gc_night_start cfg \<le> h \<and> h < gc_night_end cfg)"

definition reset_daily_count :: "'e goal_env_scheme \<Rightarrow> pyfloat \<Rightarrow> goal_world \<Rightarrow> goal_world" where
  "reset_daily_count env now w = (if map_option (ge_date env) (gw_day w) \<noteq> Some (ge_date env now)
     then w\<lparr>gw_day := Some now, gw_count := 0\<rparr> else w)"

definition guard_candidate :: "guard_config \<Rightarrow> attention_context \<Rightarrow> bool \<Rightarrow> bool \<Rightarrow> bool \<Rightarrow> candidate \<Rightarrow> quiet_level" where
  "guard_candidate cfg ctx focus_block cooling cap_reached c =
    (let urgent = (rc_priority c = ''urgent'') in
     if rc_urgency c < gc_suppress cfg then SUPPRESS
     else if focus_block \<and> \<not> urgent then (if rc_urgency c < gc_silent cfg then SUPPRESS else SILENT)
     else if ac_urgent_only ctx \<and> \<not> urgent then SUPPRESS
     else if (cooling \<or> cap_reached) \<and> \<not> urgent then SILENT
     else if rc_urgency c < gc_silent cfg then SILENT
     else ALLOW)"

definition cooling_down :: "guard_config \<Rightarrow> attention_context \<Rightarrow> pyfloat \<Rightarrow> bool" where
  "cooling_down cfg ctx now = (case ac_last_reminder ctx of None \<Rightarrow> False | Some t \<Rightarrow> (now - t) / 60 < gc_cooldown_minutes cfg)"

definition guard_filter :: "'e goal_env_scheme \<Rightarrow> guard_config \<Rightarrow> candidate list \<Rightarrow> attention_context \<Rightarrow> pyfloat \<Rightarrow> goal_world
    \<Rightarrow> (candidate \<times> quiet_level) list \<times> goal_world" where
  "guard_filter env cfg cs ctx now w =
    (let w = reset_daily_count env now w;
         night = (ac_night ctx \<or> is_night env cfg now);
         focus_block = (ac_focus ctx \<or> night \<and> \<not> ac_idle ctx)
     in (filter (\<lambda>(c, l). l \<noteq> SUPPRESS)
           (map (\<lambda>c. (c, guard_candidate cfg ctx focus_block (cooling_down cfg ctx now) (gw_count w \<ge> gc_daily_cap cfg) c)) cs), w))"

definition record_shown :: "'e goal_env_scheme \<Rightarrow> pyfloat \<Rightarrow> goal_world \<Rightarrow> goal_world" where
  "record_shown env now w = (let w = reset_daily_count env now w in w\<lparr>gw_count := gw_count w + 1\<rparr>)"

section \<open>What a reply says\<close>

definition strong_negative_patterns :: "string list" where
  "strong_negative_patterns =
   [[CHR 0xE5, CHR 0x88, CHR 0xAB, CHR 0xE5, CHR 0x86, CHR 0x8D, CHR 0xE6, CHR 0x8F, CHR 0x90, CHR 0xE9, CHR 0x86,
    CHR 0x92],
   [CHR 0xE4, CHR 0xB8, CHR 0x8D, CHR 0xE8, CHR 0xA6, CHR 0x81, CHR 0xE5, CHR 0x86, CHR 0x8D, CHR 0xE6, CHR 0x8F,
    CHR 0x90, CHR 0xE9, CHR 0x86, CHR 0x92],
   [CHR 0xE5, CHR 0x88, CHR 0xAB, CHR 0xE6, CHR 0x8F, CHR 0x90, CHR 0xE9, CHR 0x86, CHR 0x92, CHR 0xE6, CHR 0x88,
    CHR 0x91],
   [CHR 0xE5, CHR 0x85, CHR 0xB3, CHR 0xE6, CHR 0x8E, CHR 0x89, CHR 0xE6, CHR 0x8F, CHR 0x90, CHR 0xE9, CHR 0x86,
    CHR 0x92],
   [CHR 0xE4, CHR 0xB8, CHR 0x8D, CHR 0xE8, CHR 0xA6, CHR 0x81, CHR 0xE8, CHR 0xBF, CHR 0x99, CHR 0xE4, CHR 0xB8,
    CHR 0xAA, CHR 0xE6, CHR 0x8F, CHR 0x90, CHR 0xE9, CHR 0x86, CHR 0x92],
   [CHR 0xE7, CHR 0x83, CHR 0xA6, CHR 0xE6, CHR 0xAD, CHR 0xBB, CHR 0xE4, CHR 0xBA, CHR 0x86],
   [CHR 0xE5, CHR 0x88, CHR 0xAB, CHR 0xE7, CHR 0x83, CHR 0xA6, CHR 0xE6, CHR 0x88, CHR 0x91],
   [CHR 0xE5, CHR 0xAE, CHR 0x89, CHR 0xE9, CHR 0x9D, CHR 0x99, CHR 0xE7, CHR 0x82, CHR 0xB9],
   [CHR 0xE6, CHR 0x88, CHR 0x91, CHR 0xE4, CHR 0xB8, CHR 0x8D, CHR 0xE6, CHR 0x83, CHR 0xB3, CHR 0xE7, CHR 0x9C,
    CHR 0x8B, CHR 0xE5, CHR 0x88, CHR 0xB0],
   [CHR 0xE5, CHR 0x8F, CHR 0x96, CHR 0xE6, CHR 0xB6, CHR 0x88, CHR 0xE6, CHR 0x8F, CHR 0x90, CHR 0xE9, CHR 0x86,
    CHR 0x92]]"

definition weak_negative_patterns :: "string list" where
  "weak_negative_patterns =
   [[CHR 0xE7, CHR 0x9F, CHR 0xA5, CHR 0xE9, CHR 0x81, CHR 0x93, CHR 0xE4, CHR 0xBA, CHR 0x86],
   [CHR 0xE8, CHR 0xA1, CHR 0x8C, CHR 0xE5, CHR 0x90, CHR 0xA7],
   [CHR 0xE5, CHR 0x97, CHR 0xAF],
   [CHR 0xE5, CHR 0xA5, CHR 0xBD, CHR 0xE5, CHR 0x90, CHR 0xA7],
   [CHR 0xE5, CHR 0x85, CHR 0x88, CHR 0xE4, CHR 0xB8, CHR 0x8D, CHR 0xE7, CHR 0x94, CHR 0xA8],
   [CHR 0xE4, CHR 0xB8, CHR 0x8D, CHR 0xE7, CHR 0x94, CHR 0xA8, CHR 0xE4, CHR 0xBA, CHR 0x86],
   [CHR 0xE9, CHR 0x9A, CHR 0x8F, CHR 0xE4, CHR 0xBE, CHR 0xBF],
   [CHR 0xE5, CHR 0x86, CHR 0x8D, CHR 0xE8, CHR 0xAF, CHR 0xB4, CHR 0xE5, CHR 0x90, CHR 0xA7],
   [CHR 0xE4, CHR 0xBB, CHR 0xA5, CHR 0xE5, CHR 0x90, CHR 0x8E, CHR 0xE5, CHR 0x86, CHR 0x8D, CHR 0xE8, CHR 0xAF,
    CHR 0xB4]]"

definition positive_patterns :: "string list" where
  "positive_patterns =
   [[CHR 0xE8, CHR 0xB0, CHR 0xA2, CHR 0xE8, CHR 0xB0, CHR 0xA2, CHR 0xE6, CHR 0x8F, CHR 0x90, CHR 0xE9, CHR 0x86,
    CHR 0x92],
   [CHR 0xE5, CHR 0xA5, CHR 0xBD, CHR 0xE7, CHR 0x9A, CHR 0x84, CHR 0xE6, CHR 0x88, CHR 0x91, CHR 0xE4, CHR 0xBC,
    CHR 0x9A],
   [CHR 0xE6, CHR 0x94, CHR 0xB6, CHR 0xE5, CHR 0x88, CHR 0xB0],
   [CHR 0xE5, CHR 0xA5, CHR 0xBD, CHR 0xE7, CHR 0x9A, CHR 0x84, CHR 0xE8, CHR 0xB0, CHR 0xA2, CHR 0xE8, CHR 0xB0,
    CHR 0xA2],
   [CHR 0xE6, CHR 0x9C, CHR 0x89, CHR 0xE7, CHR 0x94, CHR 0xA8, CHR 0xE7, CHR 0x9A, CHR 0x84],
   [CHR 0xE7, CHR 0xBB, CHR 0xA7, CHR 0xE7, CHR 0xBB, CHR 0xAD, CHR 0xE6, CHR 0x8F, CHR 0x90, CHR 0xE9, CHR 0x86,
    CHR 0x92]]"

text \<open>The level, the pattern found and the confidence.\<close>

definition analyze_feedback :: "string \<Rightarrow> (string \<times> string \<times> pyfloat) option" where
  "analyze_feedback reply =
    (let t = lower (strip reply);
         hit = (\<lambda>patterns level confidence. map_option (\<lambda>p. (level, p, confidence)) (find (\<lambda>p. contains p t) patterns))
     in if t = [] then None
        else case hit strong_negative_patterns ''strong_negative'' (8 / 10) of Some r \<Rightarrow> Some r
        | None \<Rightarrow> (case hit positive_patterns ''positive'' (7 / 10) of Some r \<Rightarrow> Some r
           | None \<Rightarrow> hit weak_negative_patterns ''weak_negative'' (6 / 10)))"

section \<open>The manager\<close>

record reminder_decision =
  rd_show :: "candidate list"
  rd_silent :: "candidate list"
  rd_context :: attention_context

definition evaluate_reminders :: "'e goal_env_scheme \<Rightarrow> evaluator_config \<Rightarrow> guard_config \<Rightarrow> attention_context \<Rightarrow> pyfloat \<Rightarrow> goal_world
    \<Rightarrow> (exn + reminder_decision) \<times> goal_world" where
  "evaluate_reminders env ecfg gcfg ctx now w = (case evaluate env ecfg now w of
       Inl e \<Rightarrow> (Inl e, w)
     | Inr cs \<Rightarrow> let (filtered, w) = guard_filter env gcfg cs ctx now w
         in (Inr \<lparr>rd_show = map fst (filter (\<lambda>(c, l). l = ALLOW) filtered), rd_silent = map fst (filter (\<lambda>(c, l). l = SILENT) filtered),
               rd_context = ctx\<rparr>, w))"

definition record_reminder_shown :: "'e goal_env_scheme \<Rightarrow> string \<Rightarrow> pyfloat \<Rightarrow> goal_world \<Rightarrow> (exn + unit) \<times> goal_world" where
  "record_reminder_shown env gid now w = (case record_reminder env gid w of
       (Inl e, w) \<Rightarrow> (Inl e, w) | (Inr _, w) \<Rightarrow> (Inr (), record_shown env now w))"

definition record_user_feedback :: "'e memory_env_scheme \<Rightarrow> string \<Rightarrow> string \<Rightarrow> goal_world \<Rightarrow> (exn + string option) \<times> goal_world" where
  "record_user_feedback env gid reply w = (case analyze_feedback reply of
       None \<Rightarrow> (Inr None, w)
     | Some (level, _) \<Rightarrow> (case record_feedback env gid level w of (Inl e, w) \<Rightarrow> (Inl e, w) | (Inr _, w) \<Rightarrow> (Inr (Some level), w)))"

end
