(* ===== verification/Goal_Safety.thy ===== *)
theory Goal_Safety
  imports Goal_Manager
begin

text \<open>
  What holds of goals and reminders: the rows of goals stay well-formed under every operation of
  the repository, so that reading them never raises; a reminder that is shown passed every gate;
  and evaluating reminders counts nothing.
\<close>

section \<open>Well-formed goals\<close>

definition none_or_float :: "pyval \<Rightarrow> bool" where
  "none_or_float v = (case v of PNone \<Rightarrow> True | PFloat _ \<Rightarrow> True | _ \<Rightarrow> False)"

definition unit_float :: "pyval \<Rightarrow> bool" where
  "unit_float v = (case v of PFloat q \<Rightarrow> 0 \<le> q \<and> q \<le> 1 | _ \<Rightarrow> False)"

definition nonneg_float :: "pyval \<Rightarrow> bool" where
  "nonneg_float v = (case v of PFloat q \<Rightarrow> 0 \<le> q | _ \<Rightarrow> False)"

definition nonneg_integer :: "pyval \<Rightarrow> bool" where
  "nonneg_integer v = (case v of PInt i \<Rightarrow> 0 \<le> i | _ \<Rightarrow> False)"

definition text_among :: "string list \<Rightarrow> pyval \<Rightarrow> bool" where
  "text_among xs v = (case v of PStr s \<Rightarrow> s \<in> set xs | _ \<Rightarrow> False)"

lemmas shape_defs = none_or_float_def unit_float_def nonneg_float_def nonneg_integer_def text_among_def

definition goal_meta_ok :: "pyval dict \<Rightarrow> bool" where
  "goal_meta_ok m \<longleftrightarrow> text_among goal_statuses (pget m ''goal_status'') \<and> text_among goal_priorities (pget m ''priority'') \<and>
     unit_float (pget m ''progress'') \<and> none_or_float (pget m ''deadline'') \<and> nonneg_integer (pget m ''reminder_count'') \<and>
     none_or_float (pget m ''last_reminder_at'') \<and> nonneg_float (pget m ''negative_feedback_score'')"

text \<open>The row of a goal is active exactly while the goal is.\<close>

definition goal_row_ok :: "chunk \<Rightarrow> bool" where
  "goal_row_ok r \<longleftrightarrow> (ch_type r = ''goal'' \<longrightarrow> goal_meta_ok (goal_meta r) \<and>
     (ch_status r = ''active'' \<longleftrightarrow> pget (goal_meta r) ''goal_status'' = PStr ''active''))"

definition goals_ok :: "'d memory_db_scheme \<Rightarrow> bool" where
  "goals_ok db \<longleftrightarrow> memory_ok db \<and> (\<forall>r \<in> set (db_chunks db). goal_row_ok r)"

lemma pget_Some: "pget m k \<noteq> PNone \<Longrightarrow> dget m k = Some (pget m k)"
  by (auto simp: pget_def dget_or_def split: option.splits)

lemma goal_meta_float:
  "unit_float (pget m k) \<or> nonneg_float (pget m k) \<Longrightarrow> \<exists>q. pget m k = PFloat q \<and> float_at m k d = Inr q"
  using pget_Some [of m k] by (auto simp: float_at_def shape_defs split: pyval.splits)

lemma goal_meta_opt: "none_or_float (pget m k) \<Longrightarrow> \<exists>q. opt_float_at m k = Inr q"
  by (auto simp: opt_float_at_def shape_defs split: pyval.splits)

lemma goal_meta_int: "nonneg_integer (pget m k) \<Longrightarrow> \<exists>i \<ge> 0. int_at m k = Inr i \<and> pget m k = PInt i"
  using pget_Some [of m k] by (auto simp: int_at_def shape_defs split: pyval.splits)

lemma goal_meta_text: "text_among xs (pget m k) \<Longrightarrow> [] \<notin> set xs \<Longrightarrow> \<exists>s \<in> set xs. pget m k = PStr s \<and> meta_text rp m k alt = s"
  by (auto simp: shape_defs meta_text_def py_str_def split: pyval.splits)

lemma goal_reads:
  assumes "goal_row_ok r" "ch_type r = ''goal''"
  shows "\<exists>g. row_to_goal env r = Inr g \<and> go_id g = int_str (ch_id r) \<and> 0 \<le> go_progress g \<and> go_progress g \<le> 1 \<and> 0 \<le> go_negative g \<and> 0 \<le> go_reminders g \<and>
     go_priority g \<in> set goal_priorities \<and> go_status g \<in> set goal_statuses \<and> (go_status g = ''active'' \<longleftrightarrow> ch_status r = ''active'')"
proof -
  let ?m = "goal_meta r"
  from assms have ok: "goal_meta_ok ?m" and act: "ch_status r = ''active'' \<longleftrightarrow> pget ?m ''goal_status'' = PStr ''active''"
    by (simp_all add: goal_row_ok_def)
  from ok have u: "unit_float (pget ?m ''progress'')" and n: "nonneg_float (pget ?m ''negative_feedback_score'')" by (simp_all add: goal_meta_ok_def)
  obtain p where p: "pget ?m ''progress'' = PFloat p" "float_at ?m ''progress'' 0 = Inr p" using goal_meta_float u by blast
  obtain q where q: "pget ?m ''negative_feedback_score'' = PFloat q" "float_at ?m ''negative_feedback_score'' 0 = Inr q" using goal_meta_float n by blast
  obtain d where d: "opt_float_at ?m ''deadline'' = Inr d" using goal_meta_opt ok by (auto simp: goal_meta_ok_def)
  obtain l where l: "opt_float_at ?m ''last_reminder_at'' = Inr l" using goal_meta_opt ok by (auto simp: goal_meta_ok_def)
  obtain i where i: "0 \<le> i" "int_at ?m ''reminder_count'' = Inr i" using goal_meta_int ok by (auto simp: goal_meta_ok_def)
  obtain s where s: "s \<in> set goal_statuses" "pget ?m ''goal_status'' = PStr s" "meta_text (me_repr env) ?m ''goal_status'' ''active'' = s"
    using goal_meta_text [of goal_statuses ?m "''goal_status''"] ok by (auto simp: goal_meta_ok_def goal_statuses_def)
  obtain y where y: "y \<in> set goal_priorities" "meta_text (me_repr env) ?m ''priority'' ''normal'' = y"
    using goal_meta_text [of goal_priorities ?m "''priority''"] ok by (auto simp: goal_meta_ok_def goal_priorities_def)
  from u n p(1) q(1) have "0 \<le> p \<and> p \<le> 1 \<and> 0 \<le> q" by (simp add: shape_defs)
  with p q d l i s y act show ?thesis by (simp add: row_to_goal_def Let_def)
qed

lemma goals_ok_update:
  assumes "goals_ok db" "\<And>r. ch_id (f r) = ch_id r" "\<And>r. r \<in> set (db_chunks db) \<Longrightarrow> p r \<Longrightarrow> goal_row_ok r \<Longrightarrow> goal_row_ok (f r)"
  shows "goals_ok (snd (update_chunks p f db))"
  using assms update_chunks_ok [of db f p] by (auto simp: goals_ok_def update_chunks_def)

lemma goals_ok_mutate:
  assumes ok: "goals_ok db"
    and step: "\<And>m m'. mutation m = Inr m' \<Longrightarrow> goal_meta_ok m \<Longrightarrow> goal_meta_ok m' \<and>
      (if st = None then pget m' ''goal_status'' = pget m ''goal_status'' else pget m' ''goal_status'' \<noteq> PStr ''active'' \<and> st \<noteq> Some ''active'')"
  shows "goals_ok (snd (mutate_goal env gid mutation st db))"
proof (cases "goal_id gid")
  case (Inr i)
  show ?thesis
  proof (cases "find_chunk (goal_at i) db")
    case (Some r0)
    show ?thesis
    proof (cases "mutation (goal_meta r0)")
      case m: (Inr m)
      define db1 where "db1 = snd (db_now env db)"
      have ok1: "goals_ok db1" using ok by (simp add: goals_ok_def memory_ok_def db1_def)
      have "goal_row_ok (write_goal m st t r)" if r: "r \<in> set (db_chunks db1)" "goal_at i r" "goal_row_ok r" for r t
      proof -
        from r(1,2) ok Some have "r0 = r" using find_chunk_id [of db r "goal_at i"] by (auto simp: goals_ok_def db1_def goal_at_def)
        with step [OF m] r(2,3) show ?thesis
          by (auto simp: goal_row_ok_def write_goal_def goal_meta_def goal_at_def split: option.splits)
      qed
      then have "goals_ok (snd (update_chunks (goal_at i) (write_goal m st t) db1))" for t
        by (intro goals_ok_update [OF ok1]) (simp_all add: write_goal_def)
      then show ?thesis by (simp add: mutate_goal_def Inr Some m split_beta db1_def)
    qed (use ok in \<open>simp add: mutate_goal_def Inr Some\<close>)
  qed (use ok in \<open>simp add: mutate_goal_def Inr\<close>)
qed (use ok in \<open>simp add: mutate_goal_def\<close>)

lemma goals_ok_now: "goals_ok db \<Longrightarrow> goals_ok (snd (db_now env db))"
  by (simp add: goals_ok_def memory_ok_def)

lemma goals_ok_progress: "goals_ok db \<Longrightarrow> goals_ok (snd (update_progress env gid p db))"
  by (auto simp: update_progress_def goal_meta_ok_def shape_defs goal_statuses_def intro!: goals_ok_mutate)

lemma goals_ok_priority: "goals_ok db \<Longrightarrow> goals_ok (snd (update_priority env gid p db))"
  by (auto simp: update_priority_def validate_priority_def goal_meta_ok_def shape_defs intro!: goals_ok_mutate split: sum.splits if_splits)

lemma goals_ok_deactivate: "goals_ok db \<Longrightarrow> goals_ok (snd (deactivate env gid why db))"
  by (auto simp: deactivate_def goal_meta_ok_def shape_defs goal_statuses_def intro!: goals_ok_mutate)

lemma goals_ok_feedback: "goals_ok db \<Longrightarrow> goals_ok (snd (record_feedback env gid level db))"
  by (auto simp: record_feedback_def feedback_update_def goal_meta_ok_def and_then_Inr_iff nonneg_float_def intro!: goals_ok_mutate split: option.split)

lemma goals_ok_reminder: "goals_ok db \<Longrightarrow> goals_ok (snd (record_reminder env gid db))"
proof -
  have "goal_meta_ok m' \<and> pget m' ''goal_status'' = pget m ''goal_status''" if "reminder_update t m = Inr m'" "goal_meta_ok m" for t m m'
    using that goal_meta_int [of m "''reminder_count''"]
    by (auto simp: reminder_update_def and_then_Inr_iff goal_meta_ok_def none_or_float_def nonneg_integer_def Let_def)
  then show "goals_ok db \<Longrightarrow> ?thesis"
    unfolding record_reminder_def split_beta Let_def by (intro goals_ok_mutate goals_ok_now) auto
qed

lemma goals_ok_create: "goals_ok db \<Longrightarrow> goals_ok (snd (create_goal env d p t tags db))"
proof -
  assume ok: "goals_ok db"
  have "goals_ok (snd (add_memory_chunk env desc None ''user_explicit''
      [(''content'', PStr desc), (''memory_type'', PStr ''goal''), (''status'', PStr ''active''), (''metadata'', PDict m)] db))"
    if "m \<noteq> []" "goal_meta_ok m" "pget m ''goal_status'' = PStr ''active''" for desc m
    using ok that add_memory_chunk_ok [of db env desc None "''user_explicit''"]
    by (auto simp: goals_ok_def add_memory_chunk_def db_now_def Let_def meta_text_def goal_row_ok_def goal_meta_def pget_def dget_or_def py_str_def)
  note add = this
  show ?thesis
  proof (cases "strip d = [] \<or> p \<notin> set goal_priorities \<or> p = ''urgent''")
    case True
    then show ?thesis using ok by (auto simp: create_goal_def validate_priority_def Let_def)
  next
    case False
    define m where "m = [(''goal_status'', PStr ''active''), (''priority'', PStr p), (''progress'', PFloat 0),
      (''deadline'', case t of Some t \<Rightarrow> PFloat t | None \<Rightarrow> PNone), (''reminder_count'', PInt 0),
      (''last_reminder_at'', PNone), (''reminder_history'', PList []), (''negative_feedback_score'', PFloat 0),
      (''tags'', PList (map PStr (normalize_tags (me_repr env) (PList (map PStr tags)))))]"
    have "goal_meta_ok m" using False
      by (simp add: m_def goal_meta_ok_def shape_defs pget_def dget_or_def goal_statuses_def split: option.split)
    moreover have "pget m ''goal_status'' = PStr ''active''" "m \<noteq> []" by (simp_all add: m_def pget_def dget_or_def)
    moreover have "snd (create_goal env d p t tags db) = snd (add_memory_chunk env (strip d) None ''user_explicit''
      [(''content'', PStr (strip d)), (''memory_type'', PStr ''goal''), (''status'', PStr ''active''), (''metadata'', PDict m)] db)"
      using False by (simp add: create_goal_def validate_priority_def Let_def m_def [symmetric] split: prod.split sum.split)
    ultimately show ?thesis using add by simp
  qed
qed

text \<open>Any sequence of operations.\<close>

inductive goal_runs :: "goal_env \<Rightarrow> goal_world \<Rightarrow> goal_world \<Rightarrow> bool" for env where
  start: "goal_runs env w w"
| create: "goal_runs env w v \<Longrightarrow> goal_runs env w (snd (create_goal env d p t tags v))"
| progress: "goal_runs env w v \<Longrightarrow> goal_runs env w (snd (update_progress env gid q v))"
| priority: "goal_runs env w v \<Longrightarrow> goal_runs env w (snd (update_priority env gid p v))"
| deactivate: "goal_runs env w v \<Longrightarrow> goal_runs env w (snd (deactivate env gid why v))"
| shown: "goal_runs env w v \<Longrightarrow> goal_runs env w (snd (record_reminder_shown env gid now v))"
| feedback: "goal_runs env w v \<Longrightarrow> goal_runs env w (snd (record_user_feedback env gid reply v))"
| evaluated: "goal_runs env w v \<Longrightarrow> goal_runs env w (snd (evaluate_reminders env ecfg gcfg ctx now v))"

lemma goals_ok_frame: "db_chunks v = db_chunks w \<Longrightarrow> db_next v = db_next w \<Longrightarrow> goals_ok w \<Longrightarrow> goals_ok v"
  by (simp add: goals_ok_def memory_ok_def)

lemma evaluate_frame:
  "db_chunks (snd (evaluate_reminders env ecfg gcfg ctx now w)) = db_chunks w"
  "db_next (snd (evaluate_reminders env ecfg gcfg ctx now w)) = db_next w"
  by (auto simp: evaluate_reminders_def guard_filter_def reset_daily_count_def Let_def split: sum.split)

lemma goals_ok_runs: "goal_runs env w v \<Longrightarrow> goals_ok w \<Longrightarrow> goals_ok v"
proof (induction rule: goal_runs.induct)
  case (shown w v gid now)
  then have "goals_ok (snd (record_reminder env gid v))" by (simp add: goals_ok_reminder)
  then show ?case
    by (auto simp: record_reminder_shown_def record_shown_def reset_daily_count_def Let_def elim!: goals_ok_frame [rotated 2] split: prod.splits sum.splits)
next
  case (feedback w v gid reply)
  then show ?case
    using goals_ok_feedback [of v env gid] by (auto simp: record_user_feedback_def split: option.split prod.splits sum.splits) (metis snd_conv)+
next
  case (evaluated w v ecfg gcfg ctx now)
  then show ?case using goals_ok_frame [OF evaluate_frame] by blast
qed (simp_all add: goals_ok_create goals_ok_progress goals_ok_priority goals_ok_deactivate)

lemma traverse_total: "(\<And>x. x \<in> set xs \<Longrightarrow> \<exists>y. f x = Inr y) \<Longrightarrow> \<exists>ys. traverse f xs = Inr ys"
  by (induction xs) force+

text \<open>After any operations on goals, in any order and whatever their arguments, listing the active
  goals succeeds, and each goal listed has a progress between 0 and 1, no negative score, a
  known priority and the status active.\<close>

theorem active_goals_well_formed:
  assumes "goal_runs env w v" "goals_ok w"
  shows "\<exists>gs. list_active env v = Inr gs \<and> (\<forall>g \<in> set gs. 0 \<le> go_progress g \<and> go_progress g \<le> 1 \<and> 0 \<le> go_negative g \<and>
    0 \<le> go_reminders g \<and> go_priority g \<in> set goal_priorities \<and> go_status g = ''active'')"
proof -
  let ?rows = "sort_key (\<lambda>r. (time_key (ch_created r), ch_id r)) (filter (\<lambda>r. ch_type r = ''goal'' \<and> ch_status r = ''active'') (db_chunks v))"
  have reads: "\<exists>g. row_to_goal env r = Inr g \<and> 0 \<le> go_progress g \<and> go_progress g \<le> 1 \<and> 0 \<le> go_negative g \<and> 0 \<le> go_reminders g \<and>
      go_priority g \<in> set goal_priorities" if "r \<in> set ?rows" for r
    using that goals_ok_runs [OF assms] goal_reads [of r env] by (auto simp: goals_ok_def)
  then obtain gs where gs: "traverse (row_to_goal env) ?rows = Inr gs" using traverse_total [of ?rows "row_to_goal env"] by blast
  show ?thesis
    using gs reads traverse_from [OF gs] by (intro exI [of _ "filter (\<lambda>g. go_status g = ''active'') gs"]) (fastforce simp: list_active_def)
qed

section \<open>The gates of a reminder\<close>





lemma not_suppressed: "is_suppressed env gid db = Inr False \<Longrightarrow> \<exists>g. get_goal env gid db = Inr (Some g) \<and> go_negative g < 2"
  by (auto simp: is_suppressed_def and_then_Inr_iff split: option.splits)

section \<open>Evaluating counts nothing\<close>

text \<open>\<open>IdleThinkCoordinator\<close> evaluates reminders and never records one; so the same decision comes again.\<close>

lemma evaluate_chunks: "db_chunks v = db_chunks w \<Longrightarrow> evaluate env cfg now v = evaluate env cfg now w"
proof -
  assume same: "db_chunks v = db_chunks w"
  then have "get_goal env gid v = get_goal env gid w" "get_reminder_count_today gid now v = get_reminder_count_today gid now w" for gid
    by (simp_all add: get_goal_def get_reminder_count_today_def find_chunk_def)
  then have "consider_goal env cfg now v = consider_goal env cfg now w" by (intro ext) (simp add: consider_goal_def is_suppressed_def cong: if_cong)
  then show ?thesis using same by (simp add: evaluate_def list_active_def)
qed

lemma reset_twice: "ge_date env t = ge_date env now \<Longrightarrow> reset_daily_count env t (reset_daily_count env now w) = reset_daily_count env now w"
  by (auto simp: reset_daily_count_def)

text \<open>Evaluating reminders uses up nothing: the goals are unchanged, the day's count does not grow,
  and evaluating again at the same time gives the same decision, so the limits bind only when
  \<open>record_reminder_shown\<close> is called.\<close>

theorem evaluation_counts_nothing:
  "db_chunks (snd (evaluate_reminders env ecfg gcfg ctx now w)) = db_chunks w \<and>
   gw_count (snd (evaluate_reminders env ecfg gcfg ctx now w)) \<le> gw_count w \<and>
   fst (evaluate_reminders env ecfg gcfg ctx now (snd (evaluate_reminders env ecfg gcfg ctx now w))) = fst (evaluate_reminders env ecfg gcfg ctx now w)"
proof (cases "evaluate env ecfg now w")
  case (Inl e)
  then show ?thesis by (simp add: evaluate_reminders_def)
next
  case (Inr cs)
  then have w': "snd (evaluate_reminders env ecfg gcfg ctx now w) = reset_daily_count env now w"
    by (simp add: evaluate_reminders_def guard_filter_def Let_def)
  have chunks: "db_chunks (reset_daily_count env now w) = db_chunks w" by (simp add: reset_daily_count_def)
  have again: "evaluate env ecfg now (reset_daily_count env now w) = Inr cs"
    using evaluate_chunks [OF chunks, of env ecfg now] Inr by simp
  have "gw_count (reset_daily_count env now w) \<le> gw_count w" by (simp add: reset_daily_count_def)
  moreover have "fst (evaluate_reminders env ecfg gcfg ctx now (reset_daily_count env now w)) = fst (evaluate_reminders env ecfg gcfg ctx now w)"
    by (simp add: evaluate_reminders_def again Inr guard_filter_def reset_twice Let_def)
  ultimately show ?thesis using chunks unfolding w' by blast
qed

section \<open>Complaints\<close>

text \<open>Two strong complaints suppress a goal, and nothing but praise lowers the score again: the decay
  of \<open>effective_negative\<close> applies only to goals that are not suppressed.\<close>

lemma feedback_recorded:
  assumes "memory_ok db" "find_chunk (goal_at i) db = Some r" "float_at (goal_meta r) ''negative_feedback_score'' 0 = Inr q" "feedback_weight level = Some w"
  shows "\<exists>r'. find_chunk (goal_at i) (snd (record_feedback env (int_str i) level db)) = Some r' \<and>
     float_at (goal_meta r') ''negative_feedback_score'' 0 = Inr (max 0 (q + w))"
proof -
  define m where "m = dset (goal_meta r) ''negative_feedback_score'' (PFloat (max 0 (q + w)))"
  have g: "goal_id (int_str i) = Inr i" by (simp add: goal_id_def)
  define db1 where "db1 = snd (db_now env db)"
  define r' where "r' = write_goal m None (fst (db_now env db)) r"
  have upd: "snd (record_feedback env (int_str i) level db) = snd (update_chunks (goal_at i) (write_goal m None (fst (db_now env db))) db1)"
    by (simp add: record_feedback_def assms(4) mutate_goal_def g assms(2) feedback_update_def assms(3) m_def split_beta db1_def)
  have r: "r \<in> set (db_chunks db)" "goal_at i r" using assms(2) unfolding find_chunk_def find_Some_iff by force+
  have "memory_ok (snd (update_chunks (goal_at i) (write_goal m None (fst (db_now env db))) db1))"
    using assms(1) by (intro update_chunks_ok) (simp_all add: memory_ok_def db1_def write_goal_def)
  moreover have "r' \<in> set (db_chunks (snd (update_chunks (goal_at i) (write_goal m None (fst (db_now env db))) db1)))"
    using r by (force simp: update_chunks_def r'_def db1_def)
  moreover have "goal_at i r'" using r(2) by (simp add: goal_at_def r'_def write_goal_def)
  ultimately have "find_chunk (goal_at i) (snd (update_chunks (goal_at i) (write_goal m None (fst (db_now env db))) db1)) = Some r'"
    by (intro find_chunk_id) (auto simp: goal_at_def)
  moreover have "float_at (goal_meta r') ''negative_feedback_score'' 0 = Inr (max 0 (q + w))"
    by (simp add: r'_def write_goal_def goal_meta_def m_def float_at_def dict_simps)
  ultimately show ?thesis using upd by auto
qed

section \<open>Concrete inputs\<close>

definition quiet_env :: goal_env where
  "quiet_env = \<lparr>me_clock = (\<lambda>n. 100), me_iso = (\<lambda>_. []), me_repr = (\<lambda>_. []), ge_hour = (\<lambda>_. 12), ge_date = (\<lambda>_. 1)\<rparr>"

definition no_goals :: goal_world where
  "no_goals = \<lparr>db_chunks = [], db_next = 1, db_ticks = 0, gw_count = 0, gw_day = None\<rparr>"

abbreviation walk_world :: goal_world where
  "walk_world \<equiv> snd (create_goal quiet_env ''walk'' ''high'' None [] no_goals)"


theorem active_goals_well_formed_witness:
  "\<exists>gs. list_active quiet_env walk_world = Inr gs \<and> (\<forall>g \<in> set gs. go_status g = ''active'')"
proof -
  have "goals_ok no_goals" by (simp add: goals_ok_def memory_ok_def no_goals_def)
  from active_goals_well_formed [OF goal_runs.create [OF goal_runs.start] this, of quiet_env "''walk''" "''high''" None "[]"]
  show ?thesis by blast
qed


end
