(* ===== verification/Memory_Bundle.thy ===== *)
theory Memory_Bundle
  imports Memory_Chunks
begin

text \<open>
  The bundle that carries conversations and memories to another file
  (\<open>prepare_export_bundle\<close> and \<open>apply_bundle_import\<close> in \<open>core/memory_lifecycle/manager.py\<close>).

  A line of the bundle is the row it encodes, and a JSON column the value it decodes to. The
  columns an import does not read (the snapshot of the persona in a session, the embedding of a
  memory) are left out, as are the digests and the persona. Every statement commits by itself
  (\<open>runtime/storage_index/engine.py\<close>), so what was inserted before an exception stays.
\<close>

section \<open>Tables and bundles\<close>

record session_row =
  ss_id :: string
  ss_title :: pyval
  ss_persona :: string
  ss_created :: pyfloat
  ss_updated :: pyfloat

record chat_message =
  ms_id :: int
  ms_session :: string
  ms_role :: string
  ms_content :: string
  ms_emotion :: pyval
  ms_created :: pyfloat
  ms_meta :: pyval
  ms_status :: string

record bundle_db = memory_db +
  bd_sessions :: "session_row list"
  bd_messages :: "chat_message list"
  bd_next_message :: int

record export_bundle =
  bu_format :: string
  bu_sessions :: "session_row list"
  bu_messages :: "chat_message list"
  bu_memory :: "chunk list"

definition BUNDLE_FORMAT :: string where
  "BUNDLE_FORMAT = ''offline-companion-bundle''"

definition prepare_export_bundle :: "bundle_db \<Rightarrow> export_bundle" where
  "prepare_export_bundle db = \<lparr>bu_format = BUNDLE_FORMAT, bu_sessions = bd_sessions db, bu_messages = bd_messages db, bu_memory = db_chunks db\<rparr>"

section \<open>Import\<close>

definition integrity_error :: "string \<Rightarrow> exn" where
  "integrity_error t = Exn (AppError ''IntegrityError'') t"

definition new_id :: "string \<Rightarrow> string \<Rightarrow> string" where
  "new_id prefix old = prefix @ ''-'' @ old"

definition session_id_map :: "string \<Rightarrow> session_row list \<Rightarrow> string dict" where
  "session_id_map prefix sessions = fold (\<lambda>s m. dset m (ss_id s) (new_id prefix (ss_id s))) sessions []"

fun import_sessions :: "string \<Rightarrow> pyfloat \<Rightarrow> session_row list \<Rightarrow> bundle_db \<Rightarrow> (exn + unit) \<times> bundle_db" where
  "import_sessions prefix now [] db = (Inr (), db)"
| "import_sessions prefix now (s # ss) db =
    (if new_id prefix (ss_id s) \<in> ss_id ` set (bd_sessions db) then (Inl (integrity_error ''UNIQUE constraint failed: sessions.id''), db)
     else import_sessions prefix now ss (db\<lparr>bd_sessions := bd_sessions db @
       [s\<lparr>ss_id := new_id prefix (ss_id s), ss_updated := now\<rparr>]\<rparr>))"

text \<open>\<open>meta_json\<close> if there is one; the emotion and the status are those of a new row.\<close>

definition json_or_empty :: "pyval \<Rightarrow> pyval" where
  "json_or_empty v = (if v = PNone then PDict [] else v)"

definition import_message :: "string dict \<Rightarrow> chat_message \<Rightarrow> bundle_db \<Rightarrow> bundle_db" where
  "import_message ids m db = (case dget ids (ms_session m) of
      None \<Rightarrow> db
    | Some sid \<Rightarrow> if sid = [] then db else db\<lparr>bd_messages := bd_messages db @
        [m\<lparr>ms_id := bd_next_message db, ms_session := sid, ms_emotion := PNone, ms_meta := json_or_empty (ms_meta m), ms_status := ''completed''\<rparr>],
        bd_next_message := bd_next_message db + 1\<rparr>)"

text \<open>
  The statement names neither \<open>content\<close> nor \<open>memory_type\<close>, \<open>status\<close> and \<open>metadata\<close>. \<open>default_content\<close> is the
  default of the first column: none in a file created by \<open>_init_v1\<close>, the empty text in an older
  file that \<open>_init_v4\<close> extended.
\<close>

definition import_chunk :: "string option \<Rightarrow> string dict \<Rightarrow> chunk \<Rightarrow> bundle_db \<Rightarrow> (exn + unit) \<times> bundle_db" where
  "import_chunk default_content ids r db =
    (let sid = (case ch_session r of Some s \<Rightarrow> if s = [] then None else dget ids s | None \<Rightarrow> None) in
     case and_then (py_float (ch_created r)) (\<lambda>c. and_then (py_float (ch_modified r)) (\<lambda>m. Inr (c, m))) of
       Inl e \<Rightarrow> (Inl e, db)
     | Inr (c, m) \<Rightarrow> (case default_content of
           None \<Rightarrow> (Inl (integrity_error ''NOT NULL constraint failed: memory_chunks.content''), db)
         | Some content \<Rightarrow> (Inr (), db\<lparr>db_chunks := db_chunks db @ [\<lparr>ch_id = db_next db, ch_session = sid, ch_content = content,
               ch_body = ch_body r, ch_type = ''fact'', ch_status = ''active'', ch_source = ch_source r, ch_created = PFloat c, ch_modified = PFloat m,
               ch_metadata = PDict [], ch_meta = json_or_empty (ch_meta r)\<rparr>], db_next := db_next db + 1\<rparr>)))"

fun import_chunks :: "string option \<Rightarrow> string dict \<Rightarrow> chunk list \<Rightarrow> bundle_db \<Rightarrow> (exn + unit) \<times> bundle_db" where
  "import_chunks dc ids [] db = (Inr (), db)"
| "import_chunks dc ids (r # rs) db = (case import_chunk dc ids r db of (Inl e, db) \<Rightarrow> (Inl e, db) | (Inr _, db) \<Rightarrow> import_chunks dc ids rs db)"

definition apply_bundle_import :: "'e memory_env_scheme \<Rightarrow> string option \<Rightarrow> string \<Rightarrow> export_bundle \<Rightarrow> bundle_db \<Rightarrow> (exn + nat \<times> string dict) \<times> bundle_db" where
  "apply_bundle_import env dc prefix b db =
    (if bu_format b \<noteq> BUNDLE_FORMAT then (Inl (Exn (AppError ''BundleFormatError'') ''unknown bundle format''), db)
     else let ids = session_id_map prefix (bu_sessions b); (now, db) = db_now env db in
       case import_sessions prefix now (bu_sessions b) db of
         (Inl e, db) \<Rightarrow> (Inl e, db)
       | (Inr _, db) \<Rightarrow> (case import_chunks dc ids (bu_memory b) (fold (import_message ids) (bu_messages b) db) of
             (Inl e, db) \<Rightarrow> (Inl e, db)
           | (Inr _, db) \<Rightarrow> (Inr (length (bu_sessions b), ids), db)))"

section \<open>What an import keeps\<close>

lemma dget_fold_ids: "dget (fold (\<lambda>s m. dset m (ss_id s) (new_id prefix (ss_id s))) ss m) k =
    (if k \<in> ss_id ` set ss then Some (new_id prefix k) else dget m k)"
  by (induction ss arbitrary: m) (auto simp: dict_simps)

lemma dget_session_id_map: "dget (session_id_map prefix ss) k = (if k \<in> ss_id ` set ss then Some (new_id prefix k) else None)"
  by (simp add: session_id_map_def dget_fold_ids)

lemma new_id_inj [simp]: "new_id p s = new_id p t \<longleftrightarrow> s = t" "new_id p s \<noteq> []"
  by (simp_all add: new_id_def)

definition imported_session :: "string \<Rightarrow> pyfloat \<Rightarrow> session_row \<Rightarrow> session_row" where
  "imported_session prefix now s = s\<lparr>ss_id := new_id prefix (ss_id s), ss_updated := now\<rparr>"

lemma import_sessions_all:
  "distinct (map ss_id ss) \<Longrightarrow> (\<And>s. s \<in> set ss \<Longrightarrow> new_id prefix (ss_id s) \<notin> ss_id ` set (bd_sessions db)) \<Longrightarrow>
   import_sessions prefix now ss db = (Inr (), db\<lparr>bd_sessions := bd_sessions db @ map (imported_session prefix now) ss\<rparr>)"
proof (induction ss arbitrary: db)
  case (Cons s ss)
  define db1 where "db1 = db\<lparr>bd_sessions := bd_sessions db @ [imported_session prefix now s]\<rparr>"
  have "new_id prefix (ss_id t) \<notin> ss_id ` set (bd_sessions db1)" if "t \<in> set ss" for t
  proof -
    from that Cons.prems(1) have "ss_id t \<noteq> ss_id s" by (metis distinct.simps(2) image_eqI list.set_map list.simps(9))
    moreover have "set (bd_sessions db1) = insert (imported_session prefix now s) (set (bd_sessions db))" by (simp add: db1_def)
    ultimately show ?thesis using Cons.prems(2) [of t] that by (simp add: imported_session_def)
  qed
  with Cons.IH [of db1] Cons.prems(1)
  have "import_sessions prefix now ss db1 = (Inr (), db1\<lparr>bd_sessions := bd_sessions db1 @ map (imported_session prefix now) ss\<rparr>)" by simp
  moreover have "import_sessions prefix now (s # ss) db = import_sessions prefix now ss db1"
    using Cons.prems(2) [of s] by (simp add: db1_def imported_session_def)
  ultimately show ?case by (simp add: db1_def)
qed simp

text \<open>What the reader of a conversation sees of a message.\<close>

definition said :: "chat_message \<Rightarrow> string \<times> string \<times> pyfloat" where
  "said m = (ms_role m, ms_content m, ms_created m)"

definition conversation :: "string \<Rightarrow> bundle_db \<Rightarrow> (string \<times> string \<times> pyfloat) list" where
  "conversation sid db = map said (filter (\<lambda>m. ms_session m = sid) (bd_messages db))"

lemma import_messages_conversation:
  "\<forall>m \<in> set ms. ms_session m \<in> ss_id ` set ss \<Longrightarrow> conversation (new_id prefix sid) (fold (import_message (session_id_map prefix ss)) ms db)
     = conversation (new_id prefix sid) db @ map said (filter (\<lambda>m. ms_session m = sid) ms)"
  by (induction ms arbitrary: db) (auto simp: import_message_def dget_session_id_map conversation_def said_def)

lemma import_message_frame:
  "bd_sessions (fold (import_message ids) ms db) = bd_sessions db"
  by (induction ms arbitrary: db) (simp_all add: import_message_def split: option.split)

lemma import_chunks_frame:
  "bd_messages (snd (import_chunks dc ids rs db)) = bd_messages db" "bd_sessions (snd (import_chunks dc ids rs db)) = bd_sessions db"
  by (induction dc ids rs db rule: import_chunks.induct) (auto simp: import_chunk_def Let_def split: sum.splits option.splits prod.splits)

lemma import_chunks_fresh: "rs \<noteq> [] \<Longrightarrow> isl (fst (import_chunks None ids rs db)) \<and> snd (import_chunks None ids rs db) = db"
  by (cases rs) (auto simp: import_chunk_def Let_def split: sum.split prod.split)

text \<open>What an import makes of sessions and messages, whether it succeeds or not.\<close>

lemma import_conversations:
  assumes "distinct (map ss_id (bu_sessions b))" "\<forall>m \<in> set (bu_messages b). ms_session m \<in> ss_id ` set (bu_sessions b)"
    and "bu_format b = BUNDLE_FORMAT" "\<forall>s \<in> set (bu_sessions b). new_id prefix (ss_id s) \<notin> ss_id ` set (bd_sessions db)"
  shows "bd_sessions (snd (apply_bundle_import env dc prefix b db)) = bd_sessions db @ map (imported_session prefix (fst (db_now env db))) (bu_sessions b)"
    "conversation (new_id prefix sid) (snd (apply_bundle_import env dc prefix b db))
      = conversation (new_id prefix sid) db @ map said (filter (\<lambda>m. ms_session m = sid) (bu_messages b))"
    "isl (fst (apply_bundle_import env dc prefix b db)) \<longleftrightarrow> isl (fst (import_chunks dc (session_id_map prefix (bu_sessions b)) (bu_memory b)
      (fold (import_message (session_id_map prefix (bu_sessions b))) (bu_messages b)
        ((snd (db_now env db))\<lparr>bd_sessions := bd_sessions db @ map (imported_session prefix (fst (db_now env db))) (bu_sessions b)\<rparr>))))"
proof -
  define db1 where "db1 = (snd (db_now env db))\<lparr>bd_sessions := bd_sessions db @ map (imported_session prefix (fst (db_now env db))) (bu_sessions b)\<rparr>"
  define r where "r = import_chunks dc (session_id_map prefix (bu_sessions b)) (bu_memory b) (fold (import_message (session_id_map prefix (bu_sessions b))) (bu_messages b) db1)"
  have s: "bd_sessions (snd (db_now env db)) = bd_sessions db" by (simp add: db_now_def)
  have "import_sessions prefix (fst (db_now env db)) (bu_sessions b) (snd (db_now env db)) = (Inr (), db1)"
    using import_sessions_all [of "bu_sessions b" prefix "snd (db_now env db)"] assms(1,4) by (simp add: s db1_def)
  then have eq: "snd (apply_bundle_import env dc prefix b db) = snd r" "isl (fst (apply_bundle_import env dc prefix b db)) = isl (fst r)"
    using assms(3) by (auto simp: apply_bundle_import_def Let_def split_beta r_def split: sum.split prod.split)
  show "bd_sessions (snd (apply_bundle_import env dc prefix b db)) = bd_sessions db @ map (imported_session prefix (fst (db_now env db))) (bu_sessions b)"
    by (simp add: eq r_def import_chunks_frame import_message_frame db1_def)
  have "conversation c (snd r) = conversation c (fold (import_message (session_id_map prefix (bu_sessions b))) (bu_messages b) db1)" for c
    by (simp add: conversation_def r_def import_chunks_frame)
  moreover have "conversation c db1 = conversation c db" for c by (simp add: conversation_def db1_def db_now_def)
  ultimately show "conversation (new_id prefix sid) (snd (apply_bundle_import env dc prefix b db))
      = conversation (new_id prefix sid) db @ map said (filter (\<lambda>m. ms_session m = sid) (bu_messages b))"
    by (simp add: eq import_messages_conversation [OF assms(2)])
  show "isl (fst (apply_bundle_import env dc prefix b db)) \<longleftrightarrow> isl (fst (import_chunks dc (session_id_map prefix (bu_sessions b)) (bu_memory b)
      (fold (import_message (session_id_map prefix (bu_sessions b))) (bu_messages b)
        ((snd (db_now env db))\<lparr>bd_sessions := bd_sessions db @ map (imported_session prefix (fst (db_now env db))) (bu_sessions b)\<rparr>))))"
    by (simp add: eq r_def db1_def)
qed

definition conversations_ok :: "bundle_db \<Rightarrow> bool" where
  "conversations_ok db \<longleftrightarrow> distinct (map ss_id (bd_sessions db)) \<and> (\<forall>m \<in> set (bd_messages db). ms_session m \<in> ss_id ` set (bd_sessions db))"


text \<open>An export that holds a memory does not import into a file the program created: the insert of the
  first memory violates \<open>NOT NULL\<close>. The sessions are there all the same, so that a second
  attempt fails at the first of them.\<close>

theorem memories_never_import:
  assumes "conversations_ok src" "db_chunks src \<noteq> []" "bd_sessions src \<noteq> []"
    and "\<forall>s \<in> set (bd_sessions src). new_id prefix (ss_id s) \<notin> ss_id ` set (bd_sessions db)"
  shows "isl (fst (apply_bundle_import env None prefix (prepare_export_bundle src) db)) \<and>
    (\<forall>s \<in> set (bd_sessions src). new_id prefix (ss_id s) \<in> ss_id ` set (bd_sessions (snd (apply_bundle_import env None prefix (prepare_export_bundle src) db)))) \<and>
    db_chunks (snd (apply_bundle_import env None prefix (prepare_export_bundle src) db)) = db_chunks db \<and>
    fst (apply_bundle_import env None prefix (prepare_export_bundle src) (snd (apply_bundle_import env None prefix (prepare_export_bundle src) db)))
      = Inl (integrity_error ''UNIQUE constraint failed: sessions.id'')"
proof -
  let ?b = "prepare_export_bundle src"
  let ?db' = "snd (apply_bundle_import env None prefix ?b db)"
  have b: "distinct (map ss_id (bu_sessions ?b))" "\<forall>m \<in> set (bu_messages ?b). ms_session m \<in> ss_id ` set (bu_sessions ?b)"
    "bu_format ?b = BUNDLE_FORMAT" "\<forall>s \<in> set (bu_sessions ?b). new_id prefix (ss_id s) \<notin> ss_id ` set (bd_sessions db)"
    using assms by (auto simp: prepare_export_bundle_def conversations_ok_def)
  have mem: "bu_memory ?b \<noteq> []" using assms(2) by (simp add: prepare_export_bundle_def)
  have fails: "isl (fst (apply_bundle_import env None prefix ?b db))"
    unfolding import_conversations(3) [OF b] using import_chunks_fresh [OF mem] by blast
  have there: "new_id prefix (ss_id s) \<in> ss_id ` set (bd_sessions ?db')" if "s \<in> set (bd_sessions src)" for s
    using that unfolding import_conversations(1) [OF b] by (auto simp: prepare_export_bundle_def imported_session_def image_image image_Un)
  obtain s ss where s: "bd_sessions src = s # ss" using assms(3) by (cases "bd_sessions src") auto
  have "new_id prefix (ss_id s) \<in> ss_id ` set (bd_sessions (snd (db_now env ?db')))" using there s by (simp add: db_now_def)
  then have again: "fst (apply_bundle_import env None prefix ?b ?db') = Inl (integrity_error ''UNIQUE constraint failed: sessions.id'')"
    by (simp add: apply_bundle_import_def Let_def split_beta prepare_export_bundle_def s)
  have chunks: "db_chunks (fold (import_message ids) ms w) = db_chunks w" for ids ms w
    by (induction ms arbitrary: w) (simp_all add: import_message_def split: option.split)
  have sess: "db_chunks (snd (import_sessions prefix now ss w)) = db_chunks w" for now ss w
    by (induction prefix now ss w rule: import_sessions.induct) simp_all
  have "db_chunks ?db' = db_chunks db"
    using import_chunks_fresh [OF mem] sess [of _ "bu_sessions ?b" "snd (db_now env db)"]
    by (auto simp: apply_bundle_import_def Let_def split_beta chunks split: sum.splits prod.splits)
  with fails there again show ?thesis by blast
qed

section \<open>Concrete inputs\<close>

definition still_env :: memory_env where
  "still_env = \<lparr>me_clock = (\<lambda>_. 5), me_iso = (\<lambda>_. []), me_repr = (\<lambda>_. [])\<rparr>"

definition new_file :: bundle_db where
  "new_file = \<lparr>db_chunks = [], db_next = 1, db_ticks = 0, bd_sessions = [], bd_messages = [], bd_next_message = 1\<rparr>"

definition talk_file :: bundle_db where
  "talk_file = new_file\<lparr>bd_sessions := [\<lparr>ss_id = ''s1'', ss_title = PNone, ss_persona = ''p'', ss_created = 1, ss_updated = 1\<rparr>],
     bd_messages := [\<lparr>ms_id = 1, ms_session = ''s1'', ms_role = ''user'', ms_content = ''hello'', ms_emotion = PNone, ms_created = 1,
       ms_meta = PNone, ms_status = ''completed''\<rparr>]\<rparr>"

abbreviation noted_file :: bundle_db where
  "noted_file \<equiv> snd (add_memory_chunk still_env ''a cat'' None ''user'' [] talk_file)"


theorem memories_never_import_witness:
  "db_chunks noted_file \<noteq> [] \<and> isl (fst (apply_bundle_import still_env None ''imp'' (prepare_export_bundle noted_file) new_file))"
proof -
  have "strip ''a cat'' = ''a cat''" by code_simp
  then have f: "db_chunks noted_file \<noteq> []" "bd_sessions noted_file = bd_sessions talk_file" "bd_messages noted_file = bd_messages talk_file"
    by (simp_all add: add_memory_chunk_def db_now_def Let_def still_env_def)
  then have "conversations_ok noted_file" "bd_sessions noted_file \<noteq> []"
    "\<forall>s \<in> set (bd_sessions noted_file). new_id ''imp'' (ss_id s) \<notin> ss_id ` set (bd_sessions new_file)"
    by (simp_all add: conversations_ok_def talk_file_def new_file_def)
  from memories_never_import [OF this(1) f(1) this(2,3)] f(1) show ?thesis by blast
qed

end
