(* ===== verification/Plan_Repo.thy ===== *)
theory Plan_Repo
  imports Py_Values
begin

text \<open>
  The tables of the desktop's plans (\<open>storage/plan_repo.py\<close>): saving a plan with its steps, reading
  it back and deleting it.

  The connection is the one of \<open>runtime/storage_index/engine.py\<close>, which commits every statement
  (\<open>isolation_level=None\<close>), so that \<open>with conn:\<close> begins no transaction and an exception undoes
  nothing. A JSON column is the value it decodes to. \<open>rp\<close> is \<open>str\<close> on values that are no text.
  The columns older files lack are there.
\<close>

section \<open>Rows\<close>

record plan_row =
  pr_id :: string
  pr_goal :: string
  pr_status :: string
  pr_skill_name :: pyval
  pr_stages :: pyval
  pr_created :: pyfloat
  pr_updated :: pyfloat

record step_row =
  sr_plan :: string
  sr_id :: int
  sr_title :: string
  sr_description :: string
  sr_expected :: string
  sr_verification :: string
  sr_criteria :: string
  sr_stage :: pyval
  sr_minutes :: int
  sr_files :: pyval
  sr_deps :: pyval
  sr_risk :: string
  sr_status :: string
  sr_auth :: bool
  sr_result :: pyval
  sr_error :: pyval
  sr_consent :: pyval
  sr_updated :: pyfloat

record plan_db =
  pd_plans :: "plan_row list"
  pd_steps :: "step_row list"

section \<open>Values and columns\<close>

text \<open>\<open>d[k]\<close>, and \<open>str(d.get(k) or alt)\<close>\<close>

definition item :: "pyval dict \<Rightarrow> string \<Rightarrow> exn + pyval" where
  "item d k = (case dget d k of Some v \<Rightarrow> Inr v | None \<Rightarrow> Inl (Exn KeyError k))"

definition text_or_else :: "(pyval \<Rightarrow> string) \<Rightarrow> pyval dict \<Rightarrow> string \<Rightarrow> string \<Rightarrow> string" where
  "text_or_else rp d k alt = (if truthy (pget d k) then py_str rp (pget d k) else alt)"

text \<open>A value bound to a column of texts, and an integer to one of integers (64 bits).\<close>

definition bind_text :: "(pyval \<Rightarrow> string) \<Rightarrow> pyval \<Rightarrow> exn + pyval" where
  "bind_text rp v = (case v of
      PNone \<Rightarrow> Inr PNone
    | PStr s \<Rightarrow> Inr (PStr s)
    | PInt i \<Rightarrow> Inr (PStr (int_str i))
    | PBool b \<Rightarrow> Inr (PStr (if b then ''1'' else ''0''))
    | PFloat q \<Rightarrow> Inr (PStr (rp v))
    | _ \<Rightarrow> Inl (Exn (AppError ''InterfaceError'') ''type not supported''))"

definition bind_int :: "int \<Rightarrow> exn + int" where
  "bind_int i = (if - (2 ^ 63) \<le> i \<and> i < 2 ^ 63 then Inr i else Inl (Exn (AppError ''OverflowError'') ''integer too large''))"

definition loads_list :: "pyval \<Rightarrow> pyval" where
  "loads_list v = (case v of PList xs \<Rightarrow> PList xs | _ \<Rightarrow> PList [])"

text \<open>\<open>json.dumps(d.get(k) or [])\<close>\<close>

definition json_or_list :: "pyval dict \<Rightarrow> string \<Rightarrow> pyval" where
  "json_or_list d k = (if truthy (pget d k) then pget d k else PList [])"

section \<open>Saving\<close>

definition step_row_of :: "(pyval \<Rightarrow> string) \<Rightarrow> string \<Rightarrow> pyfloat \<Rightarrow> pyval \<Rightarrow> exn + step_row" where
  "step_row_of rp pid t v = (case v of PDict s \<Rightarrow>
     and_then (item s ''id'') (\<lambda>i. and_then (py_int i) (\<lambda>i.
     and_then (if truthy (pget s ''estimated_minutes'') then py_int (pget s ''estimated_minutes'') else Inr 0) (\<lambda>minutes.
     and_then (bind_int i) (\<lambda>i. and_then (bind_text rp (pget s ''stage'')) (\<lambda>stage. and_then (bind_int minutes) (\<lambda>minutes.
     and_then (bind_text rp (pget s ''result'')) (\<lambda>result. and_then (bind_text rp (pget s ''error'')) (\<lambda>err.
     and_then (bind_text rp (pget s ''consent_request_id'')) (\<lambda>consent.
       Inr \<lparr>sr_plan = pid, sr_id = i, sr_title = text_or_else rp s ''title'' [], sr_description = text_or_else rp s ''description'' [],
         sr_expected = text_or_else rp s ''expected_output'' [], sr_verification = text_or_else rp s ''verification'' [],
         sr_criteria = text_or_else rp s ''completion_criteria'' [], sr_stage = stage, sr_minutes = minutes,
         sr_files = json_or_list s ''files'', sr_deps = json_or_list s ''deps'', sr_risk = text_or_else rp s ''risk'' ''low'',
         sr_status = text_or_else rp s ''status'' ''pending'', sr_auth = truthy (dget_or s ''requires_auth'' (PBool False)),
         sr_result = result, sr_error = err, sr_consent = consent, sr_updated = t\<rparr>)))))))))
   | _ \<Rightarrow> Inl (Exn TypeError ''step is no mapping''))"

text \<open>The primary key is the plan and the step.\<close>

definition insert_step :: "step_row \<Rightarrow> plan_db \<Rightarrow> (exn + unit) \<times> plan_db" where
  "insert_step r db = (if \<exists>x \<in> set (pd_steps db). sr_plan x = sr_plan r \<and> sr_id x = sr_id r
     then (Inl (Exn (AppError ''IntegrityError'') ''UNIQUE constraint failed''), db)
     else (Inr (), db\<lparr>pd_steps := pd_steps db @ [r]\<rparr>))"

fun insert_steps :: "(pyval \<Rightarrow> string) \<Rightarrow> string \<Rightarrow> pyfloat \<Rightarrow> pyval list \<Rightarrow> plan_db \<Rightarrow> (exn + unit) \<times> plan_db" where
  "insert_steps rp pid t [] db = (Inr (), db)"
| "insert_steps rp pid t (v # vs) db = (case step_row_of rp pid t v of
      Inl e \<Rightarrow> (Inl e, db)
    | Inr r \<Rightarrow> (case insert_step r db of (Inl e, db) \<Rightarrow> (Inl e, db) | (Inr _, db) \<Rightarrow> insert_steps rp pid t vs db))"

text \<open>\<open>INSERT ... ON CONFLICT DO UPDATE\<close>: the time of creation stays.\<close>

definition upsert_plan :: "plan_row \<Rightarrow> plan_db \<Rightarrow> plan_db" where
  "upsert_plan r db = db\<lparr>pd_plans := (if \<exists>x \<in> set (pd_plans db). pr_id x = pr_id r
     then map (\<lambda>x. if pr_id x = pr_id r then r\<lparr>pr_created := pr_created x\<rparr> else x) (pd_plans db)
     else pd_plans db @ [r])\<rparr>"

definition plan_row_of :: "(pyval \<Rightarrow> string) \<Rightarrow> pyval dict \<Rightarrow> exn + plan_row" where
  "plan_row_of rp plan =
    and_then (item plan ''id'') (\<lambda>pid. and_then (py_float (pget plan ''created_at'')) (\<lambda>created.
    and_then (py_float (pget plan ''updated_at'')) (\<lambda>updated. and_then (bind_text rp (pget plan ''skill_name'')) (\<lambda>skill.
      Inr \<lparr>pr_id = py_str rp pid, pr_goal = text_or_else rp plan ''goal'' [], pr_status = text_or_else rp plan ''status'' ''pending'',
        pr_skill_name = skill, pr_stages = json_or_list plan ''skill_stages'', pr_created = created, pr_updated = updated\<rparr>))))"

text \<open>The time stamps \<open>save_plan\<close> puts into the plan it is given.\<close>

definition stamp_plan :: "pyfloat \<Rightarrow> pyval dict \<Rightarrow> pyval dict" where
  "stamp_plan now plan = (let plan = dsetdefault plan ''created_at'' (PFloat now)
     in dset plan ''updated_at'' (if truthy (pget plan ''updated_at'') then pget plan ''updated_at'' else PFloat now))"

section \<open>Reading and deleting\<close>

definition step_payload :: "step_row \<Rightarrow> pyval dict" where
  "step_payload r =
    [(''id'', PInt (sr_id r)), (''title'', PStr (sr_title r)), (''description'', PStr (sr_description r)),
     (''expected_output'', PStr (sr_expected r)), (''verification'', PStr (sr_verification r)),
     (''completion_criteria'', PStr (sr_criteria r)), (''stage'', sr_stage r), (''estimated_minutes'', PInt (sr_minutes r)),
     (''files'', loads_list (sr_files r)), (''deps'', loads_list (sr_deps r)), (''risk'', PStr (sr_risk r)),
     (''status'', PStr (sr_status r)), (''requires_auth'', PBool (sr_auth r)), (''result'', sr_result r), (''error'', sr_error r)]
    @ (if truthy (sr_consent r) then [(''consent_request_id'', sr_consent r)] else [])"

definition steps_of :: "string \<Rightarrow> plan_db \<Rightarrow> step_row list" where
  "steps_of pid db = sort_key sr_id (filter (\<lambda>r. sr_plan r = pid) (pd_steps db))"

definition plan_payload :: "plan_row \<Rightarrow> step_row list \<Rightarrow> pyval dict" where
  "plan_payload r rows =
    [(''id'', PStr (pr_id r)), (''goal'', PStr (pr_goal r)), (''status'', PStr (pr_status r)), (''skill_name'', pr_skill_name r),
     (''skill_stages'', loads_list (pr_stages r)), (''created_at'', PFloat (pr_created r)), (''updated_at'', PFloat (pr_updated r)),
     (''steps'', PList (map (\<lambda>s. PDict (step_payload s)) rows))]"

definition get_plan :: "string \<Rightarrow> plan_db \<Rightarrow> pyval dict option" where
  "get_plan pid db = map_option (\<lambda>r. plan_payload r (steps_of pid db)) (find (\<lambda>r. pr_id r = pid) (pd_plans db))"

text \<open>\<open>ON DELETE CASCADE\<close>\<close>

definition delete_plan :: "string \<Rightarrow> plan_db \<Rightarrow> plan_db" where
  "delete_plan pid db = db\<lparr>pd_plans := filter (\<lambda>r. pr_id r \<noteq> pid) (pd_plans db), pd_steps := filter (\<lambda>r. sr_plan r \<noteq> pid) (pd_steps db)\<rparr>"

definition save_plan :: "(pyval \<Rightarrow> string) \<Rightarrow> pyfloat \<Rightarrow> pyval dict \<Rightarrow> plan_db \<Rightarrow> (exn + pyval dict) \<times> plan_db" where
  "save_plan rp now plan db =
    (let plan = stamp_plan now plan in
     case plan_row_of rp plan of
       Inl e \<Rightarrow> (Inl e, db)
     | Inr r \<Rightarrow>
         let db = upsert_plan r db;
             db = db\<lparr>pd_steps := filter (\<lambda>s. sr_plan s \<noteq> pr_id r) (pd_steps db)\<rparr>
         in case py_iter (dget_or plan ''steps'' (PList [])) of
              Inl e \<Rightarrow> (Inl e, db)
            | Inr vs \<Rightarrow> (case insert_steps rp (pr_id r) (pr_updated r) vs db of
                  (Inl e, db) \<Rightarrow> (Inl e, db)
                | (Inr _, db) \<Rightarrow> (Inr (case get_plan (pr_id r) db of Some p \<Rightarrow> p | None \<Rightarrow> plan), db)))"

definition update_plan :: "(pyval \<Rightarrow> string) \<Rightarrow> pyfloat \<Rightarrow> pyfloat \<Rightarrow> pyval dict \<Rightarrow> plan_db \<Rightarrow> (exn + pyval dict) \<times> plan_db" where
  "update_plan rp t now plan db = save_plan rp now (dset plan ''updated_at'' (PFloat t)) db"

section \<open>What a save leaves\<close>

text \<open>Plans and steps have one row per key.\<close>

definition plan_db_ok :: "plan_db \<Rightarrow> bool" where
  "plan_db_ok db \<longleftrightarrow> distinct (map pr_id (pd_plans db)) \<and> distinct (map (\<lambda>r. (sr_plan r, sr_id r)) (pd_steps db))"

lemma insert_steps_result:
  assumes "insert_steps rp pid t vs db = (res, db')"
  shows "pd_plans db' = pd_plans db \<and> (\<exists>rows rest. pd_steps db' = pd_steps db @ rows \<and> traverse (step_row_of rp pid t) (take (length rows) vs) = Inr rows
    \<and> (isl res \<longleftrightarrow> length rows < length vs) \<and> rest = drop (length rows) vs)
    \<and> (distinct (map (\<lambda>r. (sr_plan r, sr_id r)) (pd_steps db)) \<longrightarrow> distinct (map (\<lambda>r. (sr_plan r, sr_id r)) (pd_steps db')))"
  using assms
proof (induction rp pid t vs db rule: insert_steps.induct)
  case (2 rp pid t v vs db)
  show ?case
  proof (cases "step_row_of rp pid t v")
    case (Inl e)
    with 2 show ?thesis by (auto intro: exI [of _ "[]"])
  next
    case (Inr r)
    show ?thesis
    proof (cases "\<exists>x \<in> set (pd_steps db). sr_plan x = sr_plan r \<and> sr_id x = sr_id r")
      case True
      with 2 Inr show ?thesis by (auto simp: insert_step_def intro!: exI [of _ "[]"])
    next
      case False
      define db1 where "db1 = db\<lparr>pd_steps := pd_steps db @ [r]\<rparr>"
      have ins: "insert_step r db = (Inr (), db1)" using False by (auto simp: insert_step_def db1_def)
      from 2 Inr ins have "insert_steps rp pid t vs db1 = (res, db')" by simp
      from 2(1) [OF Inr ins [symmetric] refl this] obtain rows where rows: "pd_plans db' = pd_plans db"
        "pd_steps db' = pd_steps db @ r # rows" "traverse (step_row_of rp pid t) (take (length rows) vs) = Inr rows"
        "isl res \<longleftrightarrow> length rows < length vs"
        "distinct (map (\<lambda>r. (sr_plan r, sr_id r)) (pd_steps db @ [r])) \<longrightarrow> distinct (map (\<lambda>r. (sr_plan r, sr_id r)) (pd_steps db'))"
        by (auto simp: db1_def)
      show ?thesis using rows Inr False by (auto intro!: exI [of _ "r # rows"])
    qed
  qed
qed auto

lemma upsert_plan_simps:
  "pd_steps (upsert_plan r db) = pd_steps db"
  "find (\<lambda>x. pr_id x = pr_id r) (pd_plans (upsert_plan r db)) \<noteq> None"
  "pid \<noteq> pr_id r \<Longrightarrow> find (\<lambda>x. pr_id x = pid) (pd_plans (upsert_plan r db)) = find (\<lambda>x. pr_id x = pid) (pd_plans db)"
proof -
  have upd: "find (\<lambda>x. pr_id x = pid) (map (\<lambda>x. if pr_id x = pr_id r then r\<lparr>pr_created := pr_created x\<rparr> else x) xs)
      = find (\<lambda>x. pr_id x = pid) xs" if "pid \<noteq> pr_id r" for xs
    using that by (induction xs) auto
  have app: "find (\<lambda>x. pr_id x = pid) (xs @ [r]) = find (\<lambda>x. pr_id x = pid) xs" if "pid \<noteq> pr_id r" for xs
    using that by (induction xs) auto
  show "pd_steps (upsert_plan r db) = pd_steps db" by (simp add: upsert_plan_def)
  show "find (\<lambda>x. pr_id x = pr_id r) (pd_plans (upsert_plan r db)) \<noteq> None"
    by (auto simp: upsert_plan_def find_None_iff)
  show "pid \<noteq> pr_id r \<Longrightarrow> find (\<lambda>x. pr_id x = pid) (pd_plans (upsert_plan r db)) = find (\<lambda>x. pr_id x = pid) (pd_plans db)"
    using upd app by (simp add: upsert_plan_def)
qed


lemma upsert_plan_ok: "distinct (map pr_id (pd_plans db)) \<Longrightarrow> distinct (map pr_id (pd_plans (upsert_plan r db)))"
proof (cases "\<exists>x \<in> set (pd_plans db). pr_id x = pr_id r")
  case True
  have ids: "map pr_id (map (\<lambda>x. if pr_id x = pr_id r then r\<lparr>pr_created := pr_created x\<rparr> else x) xs) = map pr_id xs" for xs
    by (induction xs) simp_all
  have rows: "pd_plans (upsert_plan r db) = map (\<lambda>x. if pr_id x = pr_id r then r\<lparr>pr_created := pr_created x\<rparr> else x) (pd_plans db)"
    using True by (simp add: upsert_plan_def)
  show "distinct (map pr_id (pd_plans db)) \<Longrightarrow> ?thesis" unfolding rows ids .
next
  case False
  then show "distinct (map pr_id (pd_plans db)) \<Longrightarrow> ?thesis" by (auto simp: upsert_plan_def)
qed

lemma step_row_of_plan: "step_row_of rp pid t v = Inr r \<Longrightarrow> sr_plan r = pid"
  by (cases v) (auto simp: step_row_of_def and_then_Inr_iff)

lemma filter_map_plan: "traverse (step_row_of rp pid t) vs = Inr rows \<Longrightarrow> \<forall>r \<in> set rows. sr_plan r = pid"
  using traverse_from step_row_of_plan by metis

lemma save_plan_effect:
  assumes "save_plan rp now plan db = (res, db')" "plan_row_of rp (stamp_plan now plan) = Inr r"
    and "py_iter (dget_or (stamp_plan now plan) ''steps'' (PList [])) = Inr vs"
  obtains rows where "traverse (step_row_of rp (pr_id r) (pr_updated r)) (take (length rows) vs) = Inr rows"
    "pd_steps db' = filter (\<lambda>s. sr_plan s \<noteq> pr_id r) (pd_steps db) @ rows" "pd_plans db' = pd_plans (upsert_plan r db)"
    "isl res \<longleftrightarrow> length rows < length vs" "plan_db_ok db \<longrightarrow> plan_db_ok db'"
    "\<And>p. res = Inr p \<Longrightarrow> get_plan (pr_id r) db' = Some p"
proof -
  define db1 where "db1 = (upsert_plan r db)\<lparr>pd_steps := filter (\<lambda>s. sr_plan s \<noteq> pr_id r) (pd_steps db)\<rparr>"
  obtain res1 where ins: "insert_steps rp (pr_id r) (pr_updated r) vs db1 = (res1, db')" and isl: "isl res1 = isl res"
    and res: "\<And>p. res = Inr p \<Longrightarrow> p = (case get_plan (pr_id r) db' of Some p \<Rightarrow> p | None \<Rightarrow> stamp_plan now plan)"
    using assms by (auto simp: save_plan_def Let_def db1_def upsert_plan_simps split: prod.splits sum.splits)
  from insert_steps_result [OF ins] obtain rows where rows: "pd_plans db' = pd_plans db1" "pd_steps db' = pd_steps db1 @ rows"
    "traverse (step_row_of rp (pr_id r) (pr_updated r)) (take (length rows) vs) = Inr rows" "isl res1 \<longleftrightarrow> length rows < length vs"
    "distinct (map (\<lambda>r. (sr_plan r, sr_id r)) (pd_steps db1)) \<longrightarrow> distinct (map (\<lambda>r. (sr_plan r, sr_id r)) (pd_steps db'))" by blast
  have plans: "pd_plans db' = pd_plans (upsert_plan r db)" using rows(1) by (simp add: db1_def)
  have "get_plan (pr_id r) db' = Some p" if "res = Inr p" for p
    using res [OF that] upsert_plan_simps(2) [of r db] by (auto simp: get_plan_def plans)
  moreover have "plan_db_ok db \<longrightarrow> plan_db_ok db'"
    using rows(5) by (auto simp: plan_db_ok_def plans upsert_plan_ok db1_def distinct_map_filter)
  ultimately show thesis using that [of rows] rows isl plans by (simp add: db1_def)
qed



text \<open>A save that fails at a step has already deleted the steps the plan had: what is stored
  afterwards is what the save inserted before it failed, fewer steps than it was given.\<close>

theorem failed_save_loses_steps:
  assumes "save_plan rp now plan db = (Inl e, db')" "plan_row_of rp (stamp_plan now plan) = Inr r"
    and "py_iter (dget_or (stamp_plan now plan) ''steps'' (PList [])) = Inr vs"
  shows "\<exists>n < length vs. \<exists>rows. traverse (step_row_of rp (pr_id r) (pr_updated r)) (take n vs) = Inr rows \<and>
    steps_of (pr_id r) db' = sort_key sr_id rows \<and> get_plan (pr_id r) db' \<noteq> None"
proof -
  from save_plan_effect [OF assms] obtain rows
    where rows: "traverse (step_row_of rp (pr_id r) (pr_updated r)) (take (length rows) vs) = Inr rows"
    "pd_steps db' = filter (\<lambda>s. sr_plan s \<noteq> pr_id r) (pd_steps db) @ rows" "pd_plans db' = pd_plans (upsert_plan r db)"
    "length rows < length vs" by auto
  have "steps_of (pr_id r) db' = sort_key sr_id rows"
    using filter_map_plan [OF rows(1)] by (simp add: steps_of_def rows(2) filter_id_conv)
  moreover have "get_plan (pr_id r) db' \<noteq> None" using upsert_plan_simps(2) [of r db] by (auto simp: get_plan_def rows(3))
  ultimately show ?thesis using rows(1,4) by blast
qed

section \<open>Concrete inputs\<close>

definition small_plan :: "pyval list \<Rightarrow> pyval dict" where
  "small_plan steps = [(''id'', PStr ''p''), (''goal'', PStr ''g''), (''steps'', PList steps)]"

abbreviation no_text :: "pyval \<Rightarrow> string" where
  "no_text \<equiv> (\<lambda>_. [])"

abbreviation one_step :: plan_db where
  "one_step \<equiv> snd (save_plan no_text 1 (small_plan [PDict [(''id'', PInt 1), (''title'', PStr ''t'')]]) \<lparr>pd_plans = [], pd_steps = []\<rparr>)"


theorem failed_save_loses_steps_witness:
  "steps_of ''p'' one_step \<noteq> [] \<and> steps_of ''p'' (snd (save_plan no_text 2 (small_plan [PDict [(''id'', PStr ''x'')]]) one_step)) = []"
proof
  show "steps_of ''p'' one_step \<noteq> []" by code_simp
  have "isl (fst (save_plan no_text 2 (small_plan [PDict [(''id'', PStr ''x'')]]) one_step))" by code_simp
  then obtain e db' where e: "save_plan no_text 2 (small_plan [PDict [(''id'', PStr ''x'')]]) one_step = (Inl e, db')"
    by (metis isl_def prod.collapse)
  have "\<not> isl (plan_row_of no_text (stamp_plan 2 (small_plan [PDict [(''id'', PStr ''x'')]])))" by code_simp
  then obtain r where r: "plan_row_of no_text (stamp_plan 2 (small_plan [PDict [(''id'', PStr ''x'')]])) = Inr r"
    by (metis isl_def sum.exhaust)
  have "(case plan_row_of no_text (stamp_plan 2 (small_plan [PDict [(''id'', PStr ''x'')]])) of Inr r \<Rightarrow> pr_id r = ''p'' | Inl _ \<Rightarrow> False)" by code_simp
  then have p: "pr_id r = ''p''" unfolding r by simp
  have "py_iter (dget_or (stamp_plan 2 (small_plan [PDict [(''id'', PStr ''x'')]])) ''steps'' (PList [])) = Inr [PDict [(''id'', PStr ''x'')]]" by code_simp
  from failed_save_loses_steps [OF e r this] show "steps_of ''p'' (snd (save_plan no_text 2 (small_plan [PDict [(''id'', PStr ''x'')]]) one_step)) = []"
    unfolding e p by auto
qed

end
