(* ===== verification/Text_Patterns.thy ===== *)
theory Text_Patterns
  imports Sample_Text
begin

text \<open>
  The part of Python's \<open>re\<close> that the program uses: classes of characters, sequence, ordered
  choice, greedy repetition, named groups and a look at the next character. A text is the list
  of its characters, each with its UTF-8 bytes. A pattern gives all ways to match a beginning
  of the text, in the order in which the backtracking matcher tries them. White space and
  digits are ASCII.
\<close>

section \<open>Patterns\<close>

datatype pattern =
    Eps
  | Class "string \<Rightarrow> bool"
  | Seq pattern pattern
  | Alt pattern pattern
  | Star pattern
  | Named string pattern
  | NotBefore "string \<Rightarrow> bool"

type_synonym match_state = "string list \<times> string dict"

text \<open>\<open>p*\<close>: a round that consumes nothing ends the repetition; the characters left bound the rounds.\<close>

fun repeat_greedy :: "(match_state \<Rightarrow> match_state list) \<Rightarrow> nat \<Rightarrow> match_state \<Rightarrow> match_state list" where
  "repeat_greedy f 0 st = [st]"
| "repeat_greedy f (Suc n) st =
    concat (map (repeat_greedy f n) (filter (\<lambda>st'. length (fst st') < length (fst st)) (f st))) @ [st]"

fun run_pattern :: "pattern \<Rightarrow> match_state \<Rightarrow> match_state list" where
  "run_pattern Eps st = [st]"
| "run_pattern (Class p) st = (case fst st of [] \<Rightarrow> [] | c # cs \<Rightarrow> if p c then [(cs, snd st)] else [])"
| "run_pattern (Seq p q) st = concat (map (run_pattern q) (run_pattern p st))"
| "run_pattern (Alt p q) st = run_pattern p st @ run_pattern q st"
| "run_pattern (Star p) st = repeat_greedy (run_pattern p) (length (fst st)) st"
| "run_pattern (Named n p) st =
    map (\<lambda>st'. (fst st', dset (snd st') n (concat (take (length (fst st) - length (fst st')) (fst st))))) (run_pattern p st)"
| "run_pattern (NotBefore p) st = (case fst st of [] \<Rightarrow> [st] | c # _ \<Rightarrow> if p c then [] else [st])"

section \<open>Searching\<close>

text \<open>\<open>p.search(text)\<close>: what comes before the leftmost match, the match, its groups, and the rest.\<close>

record text_match =
  tm_before :: "string list"
  tm_match :: "string list"
  tm_groups :: "string dict"
  tm_rest :: "string list"

definition match_here :: "pattern \<Rightarrow> string list \<Rightarrow> text_match option" where
  "match_here p cs = (case run_pattern p (cs, []) of
     [] \<Rightarrow> None
   | (rest, g) # _ \<Rightarrow> Some \<lparr>tm_before = [], tm_match = take (length cs - length rest) cs, tm_groups = g, tm_rest = rest\<rparr>)"

fun search_chars :: "pattern \<Rightarrow> string list \<Rightarrow> text_match option" where
  "search_chars p [] = match_here p []"
| "search_chars p (c # cs) = (case match_here p (c # cs) of
     Some m \<Rightarrow> Some m
   | None \<Rightarrow> map_option (\<lambda>m. m\<lparr>tm_before := c # tm_before m\<rparr>) (search_chars p cs))"

definition search_text :: "pattern \<Rightarrow> string \<Rightarrow> text_match option" where
  "search_text p s = search_chars p (characters s)"

definition fullmatch :: "pattern \<Rightarrow> string \<Rightarrow> bool" where
  "fullmatch p s = list_ex (\<lambda>st. fst st = []) (run_pattern p (characters s, []))"

text \<open>\<open>p.finditer(text)\<close>, for patterns that match no empty text; it stops at an empty match.\<close>

function find_all :: "pattern \<Rightarrow> string list \<Rightarrow> text_match list" where
  "find_all p cs = (case search_chars p cs of
     None \<Rightarrow> []
   | Some m \<Rightarrow> if length (tm_rest m) < length cs then m # find_all p (tm_rest m) else [])"
  by pat_completeness auto
termination by (relation "measure (\<lambda>(p, cs). length cs)") auto

declare find_all.simps [simp del]

text \<open>\<open>p.sub("", text)\<close> and \<open>re.split(p, text)\<close>: what lies between the matches.\<close>

definition rest_after :: "string list \<Rightarrow> text_match list \<Rightarrow> string list" where
  "rest_after cs ms = (if ms = [] then cs else tm_rest (last ms))"

definition split_text :: "pattern \<Rightarrow> string \<Rightarrow> string list" where
  "split_text p s = (let cs = characters s; ms = find_all p cs
     in map (\<lambda>m. concat (tm_before m)) ms @ [concat (rest_after cs ms)])"

definition remove_matches :: "pattern \<Rightarrow> string \<Rightarrow> string" where
  "remove_matches p s = concat (split_text p s)"

definition match_text :: "text_match \<Rightarrow> string" where
  "match_text m = concat (tm_match m)"

section \<open>Abbreviations of pattern syntax\<close>

definition one_of :: "string list \<Rightarrow> pattern" where
  "one_of cs = Class (\<lambda>c. c \<in> set cs)"

definition digit :: pattern where
  "digit = Class (\<lambda>c. list_all is_digit c)"

definition space_char :: "string \<Rightarrow> bool" where
  "space_char c = list_all is_space c"

definition spaces :: pattern where
  "spaces = Star (Class space_char)"

definition any_char :: pattern where
  "any_char = Class (\<lambda>c. c \<noteq> newline)"

definition maybe :: "pattern \<Rightarrow> pattern" where
  "maybe p = Alt p Eps"

definition some :: "pattern \<Rightarrow> pattern" where
  "some p = Seq p (Star p)"

fun up_to :: "nat \<Rightarrow> pattern \<Rightarrow> pattern" where
  "up_to 0 p = Eps"
| "up_to (Suc n) p = maybe (Seq p (up_to n p))"

fun alts :: "pattern list \<Rightarrow> pattern" where
  "alts [] = Class (\<lambda>_. False)"
| "alts [p] = p"
| "alts (p # q # ps) = Alt p (alts (q # ps))"

fun seqs :: "pattern list \<Rightarrow> pattern" where
  "seqs [] = Eps"
| "seqs [p] = p"
| "seqs (p # q # ps) = Seq p (seqs (q # ps))"

definition literal :: "string \<Rightarrow> pattern" where
  "literal s = seqs (map (\<lambda>c. Class (\<lambda>d. d = c)) (characters s))"

text \<open>The same under \<open>re.IGNORECASE\<close>.\<close>

definition literal_nocase :: "string \<Rightarrow> pattern" where
  "literal_nocase s = seqs (map (\<lambda>c. Class (\<lambda>d. lower d = lower c)) (characters s))"

definition literals :: "string list \<Rightarrow> pattern" where
  "literals ss = alts (map literal ss)"

section \<open>The language of a pattern\<close>

text \<open>Without a look ahead, the matcher finds exactly the words of the pattern.\<close>

inductive accepts :: "pattern \<Rightarrow> string list \<Rightarrow> bool" where
  eps: "accepts Eps []"
| cls: "p c \<Longrightarrow> accepts (Class p) [c]"
| seq: "accepts p u \<Longrightarrow> accepts q v \<Longrightarrow> accepts (Seq p q) (u @ v)"
| left: "accepts p u \<Longrightarrow> accepts (Alt p q) u"
| right: "accepts q u \<Longrightarrow> accepts (Alt p q) u"
| stop: "accepts (Star p) []"
| more: "accepts p u \<Longrightarrow> u \<noteq> [] \<Longrightarrow> accepts (Star p) v \<Longrightarrow> accepts (Star p) (u @ v)"
| named: "accepts p u \<Longrightarrow> accepts (Named n p) u"

inductive_simps accepts_simps:
  "accepts Eps u" "accepts (Class p) u" "accepts (Seq p q) u" "accepts (Alt p q) u" "accepts (Named n p) u"
  "accepts (NotBefore p) u"

inductive_cases accepts_StarE: "accepts (Star p) u"

fun plain :: "pattern \<Rightarrow> bool" where
  "plain (Seq p q) = (plain p \<and> plain q)"
| "plain (Alt p q) = (plain p \<and> plain q)"
| "plain (Star p) = plain p"
| "plain (Named n p) = plain p"
| "plain (NotBefore p) = False"
| "plain _ = True"

lemma repeat_greedy_sound:
  assumes "\<And>st st'. st' \<in> set (f st) \<Longrightarrow> \<exists>u. fst st = u @ fst st' \<and> accepts p u"
  shows "st' \<in> set (repeat_greedy f n st) \<Longrightarrow> \<exists>u. fst st = u @ fst st' \<and> accepts (Star p) u"
proof (induction n arbitrary: st)
  case 0
  then show ?case by (auto intro: accepts.stop)
next
  case (Suc n)
  from Suc.prems consider "st' = st"
    | st'' where "st'' \<in> set (f st)" "length (fst st'') < length (fst st)" "st' \<in> set (repeat_greedy f n st'')" by auto
  then show ?case
  proof cases
    case (2 st'')
    from assms [OF 2(1)] obtain u where u: "fst st = u @ fst st''" "accepts p u" by blast
    from Suc.IH [OF 2(3)] obtain v where v: "fst st'' = v @ fst st'" "accepts (Star p) v" by blast
    from u 2(2) have "u \<noteq> []" by auto
    with u v show ?thesis by (auto intro: accepts.more)
  qed (auto intro: accepts.stop)
qed

lemma run_pattern_sound: "plain p \<Longrightarrow> st' \<in> set (run_pattern p st) \<Longrightarrow> \<exists>u. fst st = u @ fst st' \<and> accepts p u"
proof (induction p arbitrary: st st')
  case (Seq p q)
  then obtain st'' where "st'' \<in> set (run_pattern p st)" "st' \<in> set (run_pattern q st'')" by auto
  with Seq.IH(1) [of st'' st] Seq.IH(2) [of st' st''] Seq.prems(1) obtain u v where
    "fst st = u @ fst st''" "accepts p u" "fst st'' = v @ fst st'" "accepts q v" by auto
  then show ?case by (intro exI [of _ "u @ v"]) (simp add: accepts.seq)
next
  case (Star p)
  show ?case by (rule repeat_greedy_sound [of "run_pattern p" p]) (use Star in auto)
next
  case (Alt p q)
  then have "st' \<in> set (run_pattern p st) \<or> st' \<in> set (run_pattern q st)" by simp
  with Alt.IH(1) [of st' st] Alt.IH(2) [of st' st] Alt.prems(1) show ?case by (simp add: accepts_simps) blast
next
  case (Named n p)
  then obtain st'' where "st'' \<in> set (run_pattern p st)" "fst st' = fst st''" by auto
  with Named.IH [of st'' st] Named.prems(1) show ?case by (simp add: accepts_simps)
qed (auto simp: accepts_simps split: list.splits if_splits)

lemma run_pattern_complete:
  "accepts r u \<Longrightarrow> plain r \<longrightarrow> (\<forall>t g. \<exists>h. (t, h) \<in> set (run_pattern r (u @ t, g))) \<and>
     (\<forall>p n t g. r = Star p \<longrightarrow> length u \<le> n \<longrightarrow> (\<exists>h. (t, h) \<in> set (repeat_greedy (run_pattern p) n (u @ t, g))))"
proof (induction rule: accepts.induct)
  case eps
  show ?case by simp
next
  case (cls p c)
  then show ?case by simp
next
  case (left p u q)
  then show ?case by (simp add: ex_disj_distrib)
next
  case (right q u p)
  then show ?case by (simp add: ex_disj_distrib)
next
  case (seq p u q v)
  show ?case
  proof (intro impI conjI allI)
    fix t g
    assume "plain (Seq p q)"
    then have p: "\<exists>h. (v @ t, h) \<in> set (run_pattern p (u @ v @ t, g))" and q: "\<And>h. \<exists>k. (t, k) \<in> set (run_pattern q (v @ t, h))"
      using seq.IH by simp_all
    from p obtain h where h: "(v @ t, h) \<in> set (run_pattern p (u @ v @ t, g))" ..
    from q [of h] obtain k where "(t, k) \<in> set (run_pattern q (v @ t, h))" ..
    with h show "\<exists>h. (t, h) \<in> set (run_pattern (Seq p q) ((u @ v) @ t, g))" by force
  qed simp
next
  case (stop p)
  have "(t, g) \<in> set (repeat_greedy (run_pattern p) n (t, g))" for n t g by (cases n) simp_all
  then show ?case by auto
next
  case (more p u v)
  have many: "\<exists>h. (t, h) \<in> set (repeat_greedy (run_pattern p) n ((u @ v) @ t, g))" if "plain p" "length (u @ v) \<le> n" for n t g
  proof -
    from that more.hyps(2) obtain m where m: "n = Suc m" "length v \<le> m" by (cases n) (auto simp: Suc_le_eq le_less_trans neq_Nil_conv)
    from more.IH(1) that(1) obtain h where h: "(v @ t, h) \<in> set (run_pattern p (u @ v @ t, g))" by blast
    have "\<forall>n \<ge> length v. \<forall>t g. \<exists>h. (t, h) \<in> set (repeat_greedy (run_pattern p) n (v @ t, g))" using more.IH(2) that(1) by simp
    with m(2) obtain k where k: "(t, k) \<in> set (repeat_greedy (run_pattern p) m (v @ t, h))" by meson
    have "length (v @ t) < length ((u @ v) @ t)" using more.hyps(2) by simp
    with h have "(v @ t, h) \<in> set (filter (\<lambda>st'. length (fst st') < length (fst ((u @ v) @ t, g))) (run_pattern p ((u @ v) @ t, g)))"
      by simp
    with k have "(t, k) \<in> set (repeat_greedy (run_pattern p) (Suc m) ((u @ v) @ t, g))"
      unfolding repeat_greedy.simps set_append set_concat set_map by blast
    then show ?thesis unfolding m(1) ..
  qed
  show ?case
  proof (intro impI conjI allI)
    fix t g
    assume "plain (Star p)"
    then show "\<exists>h. (t, h) \<in> set (run_pattern (Star p) ((u @ v) @ t, g))" using many [of "length ((u @ v) @ t)" t g] by simp
  next
    fix q n t g
    assume "plain (Star p)" "Star p = Star q" "length (u @ v) \<le> n"
    then show "\<exists>h. (t, h) \<in> set (repeat_greedy (run_pattern q) n ((u @ v) @ t, g))" using many [of n t g] by simp
  qed
next
  case (named p u n)
  show ?case
  proof (intro impI conjI allI)
    fix t g
    assume "plain (Named n p)"
    then have "\<exists>h. (t, h) \<in> set (run_pattern p (u @ t, g))" using named.IH by simp
    then obtain h where "(t, h) \<in> set (run_pattern p (u @ t, g))" ..
    then show "\<exists>h. (t, h) \<in> set (run_pattern (Named n p) (u @ t, g))" by (force simp: image_iff)
  qed simp
qed

lemma accepts_runs: "accepts p u \<Longrightarrow> plain p \<Longrightarrow> run_pattern p (u @ t, g) \<noteq> []"
  using run_pattern_complete [of p u] by (metis empty_iff empty_set)

lemma fullmatch_accepts:
  assumes "plain p"
  shows "fullmatch p s \<longleftrightarrow> accepts p (characters s)"
proof
  assume "fullmatch p s"
  then obtain st where "st \<in> set (run_pattern p (characters s, []))" "fst st = []" by (auto simp: fullmatch_def list_ex_iff)
  with run_pattern_sound [OF assms this(1)] show "accepts p (characters s)" by simp
next
  assume "accepts p (characters s)"
  with run_pattern_complete [OF this] assms obtain h where "([], h) \<in> set (run_pattern p (characters s @ [], []))" by blast
  then show "fullmatch p s" unfolding fullmatch_def list_ex_iff by (intro bexI [of _ "([], h)"]) simp_all
qed

lemma match_here_Some: "plain p \<Longrightarrow> match_here p cs = Some m \<Longrightarrow> cs = tm_match m @ tm_rest m \<and> accepts p (tm_match m) \<and> tm_before m = []"
  using run_pattern_sound [of p _ "(cs, [])"]
  by (fastforce simp: match_here_def split: list.splits)

lemma match_here_None: "plain p \<Longrightarrow> match_here p cs = None \<longleftrightarrow> (\<forall>u t. cs = u @ t \<longrightarrow> \<not> accepts p u)"
proof
  assume p: "plain p"
  { assume "match_here p cs = None"
    then have "run_pattern p (cs, []) = []" by (simp add: match_here_def split: list.splits prod.splits)
    then show "\<forall>u t. cs = u @ t \<longrightarrow> \<not> accepts p u" using accepts_runs p by blast }
  assume none: "\<forall>u t. cs = u @ t \<longrightarrow> \<not> accepts p u"
  show "match_here p cs = None"
  proof (rule ccontr)
    assume "match_here p cs \<noteq> None"
    then obtain m where "match_here p cs = Some m" by blast
    from match_here_Some [OF p this] none show False by blast
  qed
qed

text \<open>A search returns a word of the pattern, at the leftmost place where there is one.\<close>

lemma search_chars_Some: "plain p \<Longrightarrow> search_chars p cs = Some m \<Longrightarrow>
  cs = tm_before m @ tm_match m @ tm_rest m \<and> accepts p (tm_match m) \<and>
  (\<forall>n < length (tm_before m). \<forall>u t. drop n cs = u @ t \<longrightarrow> \<not> accepts p u)"
proof (induction p cs arbitrary: m rule: search_chars.induct)
  case (1 p)
  then show ?case using match_here_Some [of p "[]" m] by auto
next
  case (2 p c cs)
  show ?case
  proof (cases "match_here p (c # cs)")
    case None
    with 2 obtain m' where m': "search_chars p cs = Some m'" "m = m'\<lparr>tm_before := c # tm_before m'\<rparr>" by auto
    from None 2(2) have "\<forall>u t. c # cs = u @ t \<longrightarrow> \<not> accepts p u" using match_here_None by blast
    with 2(1) [OF None 2(2) m'(1)] show ?thesis by (auto simp: m'(2) less_Suc_eq_0_disj)
  next
    case (Some k)
    with 2 match_here_Some [of p "c # cs" k] show ?thesis by auto
  qed
qed

lemma search_chars_None: "plain p \<Longrightarrow> search_chars p cs = None \<longleftrightarrow> (\<forall>n \<le> length cs. \<forall>u t. drop n cs = u @ t \<longrightarrow> \<not> accepts p u)"
proof (induction p cs rule: search_chars.induct)
  case (1 p)
  then show ?case using match_here_None [of p "[]"] by auto
next
  case (2 p c cs)
  have "(\<forall>n \<le> length (c # cs). \<forall>u t. drop n (c # cs) = u @ t \<longrightarrow> \<not> accepts p u) \<longleftrightarrow>
    (\<forall>u t. c # cs = u @ t \<longrightarrow> \<not> accepts p u) \<and> (\<forall>n \<le> length cs. \<forall>u t. drop n cs = u @ t \<longrightarrow> \<not> accepts p u)"
    (is "?all \<longleftrightarrow> ?here \<and> ?later")
  proof
    assume all: ?all
    have ?here using all by (metis drop0 zero_le)
    moreover have ?later using all by (metis Suc_le_mono drop_Suc_Cons length_Cons)
    ultimately show "?here \<and> ?later" ..
  next
    assume "?here \<and> ?later"
    then show ?all by (metis Suc_le_mono drop0 drop_Suc_Cons length_Cons not0_implies_Suc)
  qed
  with 2 match_here_None [of p "c # cs"] show ?case by (auto split: option.split)
qed

end
