(* ===== verification/Calculator.thy ===== *)
theory Calculator
  imports Text_Patterns
begin

text \<open>
  The calculator (\<open>core/calculator.py\<close> and its tool): finding an expression in a text, numbers in
  digits or in Chinese numerals, and the four operations and powers in Python's \<open>decimal\<close>.

  A decimal is its value, so that trailing zeros and the sign of a zero are not kept; infinities
  are not read. The results of the operations are rounded to 64 digits, half to even. The text
  of a number is made outside that context, with the 28 digits of the default one.
\<close>

section \<open>Characters\<close>

definition zh_digits :: "int dict" where
  "zh_digits =
    [([CHR 0xE9, CHR 0x9B, CHR 0xB6], 0),
     ([CHR 0xE4, CHR 0xB8, CHR 0x80], 1),
     ([CHR 0xE4, CHR 0xBA, CHR 0x8C], 2),
     ([CHR 0xE4, CHR 0xB8, CHR 0xA4], 2),
     ([CHR 0xE4, CHR 0xB8, CHR 0x89], 3),
     ([CHR 0xE5, CHR 0x9B, CHR 0x9B], 4),
     ([CHR 0xE4, CHR 0xBA, CHR 0x94], 5),
     ([CHR 0xE5, CHR 0x85, CHR 0xAD], 6),
     ([CHR 0xE4, CHR 0xB8, CHR 0x83], 7),
     ([CHR 0xE5, CHR 0x85, CHR 0xAB], 8),
     ([CHR 0xE4, CHR 0xB9, CHR 0x9D], 9)]"

definition zh_units :: "int dict" where
  "zh_units =
    [([CHR 0xE5, CHR 0x8D, CHR 0x81], 10),
     ([CHR 0xE7, CHR 0x99, CHR 0xBE], 100),
     ([CHR 0xE5, CHR 0x8D, CHR 0x83], 1000),
     ([CHR 0xE4, CHR 0xB8, CHR 0x87], 10000),
     ([CHR 0xE4, CHR 0xBA, CHR 0xBF], 100000000)]"

definition zh_negative :: string where
  "zh_negative = [CHR 0xE8, CHR 0xB4, CHR 0x9F]"

definition minus_sign :: string where
  "minus_sign = [CHR 0xE2, CHR 0x88, CHR 0x92]"

definition zh_times_by :: string where
  "zh_times_by = [CHR 0xE4, CHR 0xB9, CHR 0x98, CHR 0xE4, CHR 0xBB, CHR 0xA5]"

definition zh_divided_by :: string where
  "zh_divided_by = [CHR 0xE9, CHR 0x99, CHR 0xA4, CHR 0xE4, CHR 0xBB, CHR 0xA5]"

definition zh_times :: string where
  "zh_times = [CHR 0xE4, CHR 0xB9, CHR 0x98]"

definition zh_plus :: string where
  "zh_plus = [CHR 0xE5, CHR 0x8A, CHR 0xA0]"

definition zh_minus :: string where
  "zh_minus = [CHR 0xE5, CHR 0x87, CHR 0x8F]"

definition times_sign :: string where
  "times_sign = [CHR 0xC3, CHR 0x97]"

definition division_sign :: string where
  "division_sign = [CHR 0xC3, CHR 0xB7]"

section \<open>Numbers\<close>

definition invalid_operation :: exn where
  "invalid_operation = Exn (AppError ''InvalidOperation'') ''decimal''"

text \<open>Total, section and digit read so far; a unit from ten thousand on closes the section.\<close>

type_synonym numeral_state = "int \<times> int \<times> int"

definition read_numeral_char :: "string \<Rightarrow> numeral_state \<Rightarrow> exn + numeral_state" where
  "read_numeral_char c st = (case st of (total_value, section_value, d) \<Rightarrow>
     (case dget zh_digits c of
        Some v \<Rightarrow> Inr (total_value, section_value, v)
      | None \<Rightarrow> (case dget zh_units c of
          Some u \<Rightarrow> if u < 10000 then Inr (total_value, section_value + (if d \<noteq> 0 then d else 1) * u, 0)
                    else Inr (total_value + (section_value + d) * u, 0, 0)
        | None \<Rightarrow> Inl (Exn ValueError ''invalid Chinese number''))))"

fun read_numeral :: "string list \<Rightarrow> numeral_state \<Rightarrow> exn + numeral_state" where
  "read_numeral [] st = Inr st"
| "read_numeral (c # cs) st = and_then (read_numeral_char c st) (read_numeral cs)"

definition numeral_value :: "numeral_state \<Rightarrow> int" where
  "numeral_value st = (case st of (total_value, section_value, d) \<Rightarrow> total_value + section_value + d)"

definition parse_chinese_number :: "string list \<Rightarrow> exn + int" where
  "parse_chinese_number cs = and_then (read_numeral cs (0, 0, 0)) (\<lambda>st. Inr (numeral_value st))"

definition is_numeral_char :: "string \<Rightarrow> bool" where
  "is_numeral_char c \<longleftrightarrow> dget zh_digits c \<noteq> None \<or> dget zh_units c \<noteq> None"

definition plus_or_minus :: "char \<Rightarrow> bool" where
  "plus_or_minus c \<longleftrightarrow> c = CHR ''+'' \<or> c = CHR ''-''"

definition ascii_sign :: "string \<Rightarrow> string \<Rightarrow> string" where
  "ascii_sign sign s = (if starts_with sign s then CHR ''-'' # drop (length sign) s else s)"

definition to_decimal :: "string \<Rightarrow> exn + pyfloat" where
  "to_decimal value_text =
    (let t = ascii_sign zh_negative (ascii_sign minus_sign (strip value_text)); digits = dropWhile plus_or_minus t
     in if t \<noteq> [] \<and> list_all is_numeral_char (characters digits)
        then and_then (parse_chinese_number (characters digits)) (\<lambda>n. Inr (of_int (if starts_with ''-'' t then - n else n)))
        else (case parse_float t of
            Some q \<Rightarrow> Inr q
          | None \<Rightarrow> Inl (Exn ValueError ''invalid calculator operand'')))"

definition is_integral :: "pyfloat \<Rightarrow> bool" where
  "is_integral q \<longleftrightarrow> q = of_int \<lfloor>q\<rfloor>"

definition parse_integer :: "string \<Rightarrow> exn + int" where
  "parse_integer value_text = and_then (to_decimal value_text) (\<lambda>q.
     if is_integral q then Inr \<lfloor>q\<rfloor> else Inl (Exn ValueError ''expected integer operand''))"

section \<open>Finding an expression\<close>

definition zh_numeral :: pattern where
  "zh_numeral = some (one_of (dkeys zh_digits @ dkeys zh_units))"

definition sign_chars :: "string list" where
  "sign_chars = [''+'', ''-'', minus_sign, zh_negative]"

definition NUMBER :: pattern where
  "NUMBER = seqs [maybe (one_of sign_chars),
     alts [seqs [some digit, maybe (seqs [one_of [''.''], some digit])], zh_numeral]]"

definition OPERATOR :: pattern where
  "OPERATOR = literals [zh_times_by, zh_divided_by, zh_times, zh_plus, zh_minus, ''+'', ''-'', ''*'', ''/'',
     division_sign, times_sign, ''^'', ''**'']"

definition EXPRESSION :: pattern where
  "EXPRESSION = seqs [Named ''left'' NUMBER, spaces, Named ''operator'' OPERATOR, spaces, Named ''right'' NUMBER]"

record calculation =
  cr_left :: string
  cr_operator :: string
  cr_right :: string

definition parse_calculation_request :: "string \<Rightarrow> calculation option" where
  "parse_calculation_request s = map_option (\<lambda>m.
     \<lparr>cr_left = dget_or (tm_groups m) ''left'' [], cr_operator = dget_or (tm_groups m) ''operator'' [],
      cr_right = dget_or (tm_groups m) ''right'' []\<rparr>) (search_text EXPRESSION s)"

section \<open>Decimals\<close>

definition half_even :: "pyfloat \<Rightarrow> int" where
  "half_even q = (let f = \<lfloor>q\<rfloor>; d = q - of_int f
     in if d < 1 / 2 then f else if d > 1 / 2 then f + 1 else if even f then f else f + 1)"

text \<open>The exponent of the first digit.\<close>

definition adjusted :: "pyfloat \<Rightarrow> int" where
  "adjusted q = (let (a, b) = quotient_of \<bar>q\<bar>; d = int (length (int_str a)) - int (length (int_str b))
     in if pow10 d \<le> \<bar>q\<bar> then d else d - 1)"

definition round_digits :: "nat \<Rightarrow> pyfloat \<Rightarrow> pyfloat" where
  "round_digits p q = (if q = 0 then 0 else let e = adjusted q - (int p - 1) in of_int (half_even (q / pow10 e)) * pow10 e)"

text \<open>\<open>quantize(Decimal(1))\<close> of an integer raises when the integer has more than 28 digits.\<close>

definition fraction_text :: "pyfloat \<Rightarrow> string" where
  "fraction_text q =
    (let k = (case find (\<lambda>k. is_integral (q * 10 ^ k)) [0..<nat (28 - adjusted q) + 1] of Some k \<Rightarrow> k | None \<Rightarrow> 0);
         ds = nat_str (nat \<lfloor>\<bar>q\<bar> * 10 ^ k\<rfloor>); ds = replicate (k + 1 - length ds) (CHR ''0'') @ ds
     in (if q < 0 then ''-'' else []) @ take (length ds - k) ds @ ''.'' @ drop (length ds - k) ds)"

definition format_decimal :: "pyfloat \<Rightarrow> exn + string" where
  "format_decimal q = (if is_integral q
     then (if length (nat_str (nat \<bar>\<lfloor>q\<rfloor>\<bar>)) \<le> 28 then Inr (int_str \<lfloor>q\<rfloor>) else Inl invalid_operation)
     else (let r = round_digits 28 q in Inr (if is_integral r then int_str \<lfloor>r\<rfloor> else fraction_text r)))"

section \<open>Calculating\<close>

definition operator_name :: "string \<Rightarrow> string" where
  "operator_name op = dget_or
     [(zh_times_by, ''multiply''), (zh_times, ''multiply''), (''*'', ''multiply''), (times_sign, ''multiply''),
      (zh_plus, ''add''), (''+'', ''add''), (zh_minus, ''subtract''), (''-'', ''subtract''),
      (zh_divided_by, ''divide''), (''/'', ''divide''), (division_sign, ''divide''), (''^'', ''power''), (''**'', ''power'')]
     op op"

text \<open>\<open>left ** int(right)\<close>; zero to the power zero is invalid, to a negative one infinite.\<close>

definition power_value :: "pyfloat \<Rightarrow> int \<Rightarrow> pyfloat option" where
  "power_value q n = (if q = 0 \<and> n \<le> 0 then None else Some (if 0 \<le> n then q ^ nat n else 1 / q ^ nat (- n)))"

definition calculate_values :: "pyfloat \<Rightarrow> string \<Rightarrow> pyfloat \<Rightarrow> exn + pyfloat" where
  "calculate_values l op r =
    (if op = ''add'' then Inr (round_digits 64 (l + r))
     else if op = ''subtract'' then Inr (round_digits 64 (l - r))
     else if op = ''multiply'' then Inr (round_digits 64 (l * r))
     else if op = ''divide'' then (if r = 0 then Inl (Exn (AppError ''ZeroDivisionError'') ''calculator division by zero'')
       else Inr (round_digits 64 (l / r)))
     else if op = ''power'' then (if \<not> is_integral r \<or> \<bar>r\<bar> > 1000
       then Inl (Exn ValueError ''calculator power exponent must be an integer within 1000'')
       else (case power_value l \<lfloor>r\<rfloor> of Some q \<Rightarrow> Inr (round_digits 64 q) | None \<Rightarrow> Inl invalid_operation))
     else Inl (Exn ValueError ''unsupported calculator operator''))"

record calculated =
  cd_expression :: string
  cd_left :: pyfloat
  cd_operator :: string
  cd_right :: pyfloat
  cd_result :: pyfloat
  cd_formatted :: string

definition calculate_expression :: "string \<Rightarrow> string \<Rightarrow> string \<Rightarrow> exn + calculated" where
  "calculate_expression left operator right =
    and_then (to_decimal left) (\<lambda>l. and_then (to_decimal right) (\<lambda>r.
    and_then (calculate_values l (operator_name operator) r) (\<lambda>v.
    and_then (format_decimal l) (\<lambda>lt. and_then (format_decimal r) (\<lambda>rt.
      let e = lt @ '' '' @ operator @ '' '' @ rt
      in and_then (format_decimal v) (\<lambda>vt.
        Inr \<lparr>cd_expression = e, cd_left = l, cd_operator = operator_name operator, cd_right = r,
             cd_result = v, cd_formatted = e @ '' = '' @ vt\<rparr>))))))"

end
