(* ===== verification/Calculator_Laws.thy ===== *)
theory Calculator_Laws
  imports Calculator
begin

text \<open>
  What the calculator guarantees: it reads back the standard Chinese numeral of every number
  below \<open>10 ^ 12\<close>, and on integers it is exact up to 28 digits and raises beyond.
\<close>

section \<open>Reading numerals\<close>

definition zh_digit :: "nat \<Rightarrow> string" where
  "zh_digit d = fst (zh_digits ! (if d < 3 then d else d + 1))"

definition zh_unit :: "nat \<Rightarrow> string" where
  "zh_unit k = fst (zh_units ! k)"

definition numeral_part :: "nat \<Rightarrow> nat \<Rightarrow> string list" where
  "numeral_part d k = (if d = 0 then [] else [zh_digit d, zh_unit k])"

definition zero_if :: "bool \<Rightarrow> string list" where
  "zero_if b = (if b then [zh_digit 0] else [])"

text \<open>The standard form: a gap between two parts is one zero.\<close>

definition section_numeral :: "nat \<Rightarrow> string list" where
  "section_numeral n =
    (let a = n div 1000; b = n div 100 mod 10; c = n div 10 mod 10; d = n mod 10
     in numeral_part a 2 @ zero_if (a \<noteq> 0 \<and> b = 0 \<and> (c \<noteq> 0 \<or> d \<noteq> 0)) @
        numeral_part b 1 @ zero_if (b \<noteq> 0 \<and> c = 0 \<and> d \<noteq> 0) @
        numeral_part c 0 @ (if d = 0 then [] else [zh_digit d]))"

definition chinese_numeral :: "nat \<Rightarrow> string list" where
  "chinese_numeral n =
    (let y = n div 100000000; w = n div 10000 mod 10000; s = n mod 10000
     in if n = 0 then [zh_digit 0]
        else (if y = 0 then [] else section_numeral y @ [zh_unit 4]) @ zero_if (y \<noteq> 0 \<and> w \<noteq> 0 \<and> w < 1000) @
             (if w = 0 then [] else section_numeral w @ [zh_unit 3]) @ zero_if ((y \<noteq> 0 \<or> w \<noteq> 0) \<and> s \<noteq> 0 \<and> (s < 1000 \<or> w = 0)) @
             section_numeral s)"

lemma zh_digit_values: "list_all (\<lambda>d. dget zh_digits (zh_digit d) = Some (int d)) [0..<10]"
  by code_simp

lemma read_digit: "d < 10 \<Longrightarrow> read_numeral_char (zh_digit d) (t, s, v) = Inr (t, s, int d)"
  using zh_digit_values by (simp add: read_numeral_char_def list_all_iff)

lemma zh_unit_value:
  "dget zh_digits (zh_unit 0) = None" "dget zh_digits (zh_unit 1) = None" "dget zh_digits (zh_unit 2) = None"
  "dget zh_digits (zh_unit 3) = None" "dget zh_digits (zh_unit 4) = None"
  "dget zh_units (zh_unit 0) = Some 10" "dget zh_units (zh_unit 1) = Some 100" "dget zh_units (zh_unit 2) = Some 1000"
  "dget zh_units (zh_unit 3) = Some 10000" "dget zh_units (zh_unit 4) = Some 100000000"
  by code_simp+

lemma read_unit:
  "read_numeral_char (zh_unit 0) (t, s, v) = Inr (t, s + (if v \<noteq> 0 then v else 1) * 10, 0)"
  "read_numeral_char (zh_unit 1) (t, s, v) = Inr (t, s + (if v \<noteq> 0 then v else 1) * 100, 0)"
  "read_numeral_char (zh_unit 2) (t, s, v) = Inr (t, s + (if v \<noteq> 0 then v else 1) * 1000, 0)"
  "read_numeral_char (zh_unit 3) (t, s, v) = Inr (t + (s + v) * 10000, 0, 0)"
  "read_numeral_char (zh_unit 4) (t, s, v) = Inr (t + (s + v) * 100000000, 0, 0)"
  unfolding read_numeral_char_def by (simp_all only: zh_unit_value prod.case option.case rel_simps simp_thms if_True if_False)

lemma read_numeral_append: "read_numeral (xs @ ys) st = and_then (read_numeral xs st) (read_numeral ys)"
  by (induction xs st rule: read_numeral.induct) (auto simp: and_then_def split: sum.split)

lemma read_part:
  "d < 10 \<Longrightarrow> read_numeral (numeral_part d 0) (t, s, 0) = Inr (t, s + int d * 10, 0)"
  "d < 10 \<Longrightarrow> read_numeral (numeral_part d 1) (t, s, 0) = Inr (t, s + int d * 100, 0)"
  "d < 10 \<Longrightarrow> read_numeral (numeral_part d 2) (t, s, 0) = Inr (t, s + int d * 1000, 0)"
  unfolding numeral_part_def by (simp_all add: read_digit read_unit [unfolded One_nat_def])

lemma read_zero_if: "read_numeral (zero_if b) (t, s, 0) = Inr (t, s, 0)"
  by (simp add: zero_if_def read_digit)

lemma read_section:
  assumes "n < 10000"
  shows "\<exists>s v. read_numeral (section_numeral n) (t, 0, 0) = Inr (t, s, v) \<and> s + v = int n"
proof -
  define a b c d where "a = n div 1000" and "b = n div 100 mod 10" and "c = n div 10 mod 10" and "d = n mod 10"
  have less: "a < 10" "b < 10" "c < 10" "d < 10" using assms by (simp_all add: a_def b_def c_def d_def div_less_iff_less_mult)
  have "n = 10 * (n div 10) + d" "n div 10 = 10 * (n div 100) + c" "n div 100 = 10 * a + b"
    using mult_div_mod_eq [of 10 n] mult_div_mod_eq [of 10 "n div 10"] mult_div_mod_eq [of 10 "n div 100"]
    by (simp_all add: a_def b_def c_def d_def div_mult2_eq [symmetric])
  then have n: "n = 1000 * a + 100 * b + 10 * c + d" by linarith
  have "read_numeral (section_numeral n) (t, 0, 0) = Inr (t, int (1000 * a + 100 * b + 10 * c), int d)"
    unfolding section_numeral_def Let_def a_def [symmetric] b_def [symmetric] c_def [symmetric] d_def [symmetric] read_numeral_append
    using less by (simp add: read_part read_part(2) [unfolded One_nat_def] read_zero_if read_digit algebra_simps)
  then show ?thesis using n by auto
qed

lemma read_chinese_numeral:
  assumes "n < 1000000000000"
  shows "parse_chinese_number (chinese_numeral n) = Inr (int n)"
proof (cases "n = 0")
  case True
  then show ?thesis by (simp add: parse_chinese_number_def chinese_numeral_def read_digit numeral_value_def)
next
  case False
  define y w s where "y = n div 100000000" and "w = n div 10000 mod 10000" and "s = n mod 10000"
  have less: "y < 10000" "w < 10000" "s < 10000" using assms by (simp_all add: y_def w_def s_def div_less_iff_less_mult)
  have "n = 10000 * (n div 10000) + s" "n div 10000 = 10000 * y + w"
    using mult_div_mod_eq [of 10000 n] mult_div_mod_eq [of 10000 "n div 10000"]
    by (simp_all add: y_def w_def s_def div_mult2_eq [symmetric])
  then have n: "n = 100000000 * y + 10000 * w + s" by linarith
  have high: "read_numeral (if y = 0 then [] else section_numeral y @ [zh_unit 4]) (0, 0, 0) = Inr (int (100000000 * y), 0, 0)"
    using read_section [OF less(1), of 0] by (auto simp: read_numeral_append read_unit)
  have middle: "read_numeral (if w = 0 then [] else section_numeral w @ [zh_unit 3]) (t, 0, 0) = Inr (t + int (10000 * w), 0, 0)" for t
    using read_section [OF less(2), of t] by (auto simp: read_numeral_append read_unit)
  obtain p v where low: "read_numeral (section_numeral s) (int (100000000 * y) + int (10000 * w), 0, 0) =
      Inr (int (100000000 * y) + int (10000 * w), p, v)" "p + v = int s"
    using read_section [OF less(3)] by blast
  have "read_numeral (chinese_numeral n) (0, 0, 0) = Inr (int (100000000 * y) + int (10000 * w), p, v)"
    unfolding chinese_numeral_def Let_def y_def [symmetric] w_def [symmetric] s_def [symmetric] if_not_P [OF False]
      read_numeral_append high by (simp only: and_then_simps read_zero_if middle low)
  then show ?thesis using low(2) n by (simp add: parse_chinese_number_def numeral_value_def)
qed

text \<open>A unit closes nothing but the section before it, and a digit replaces the one before it.\<close>

lemma numerals_misread:
  "parse_chinese_number [zh_digit 1, zh_unit 3, zh_unit 4] = Inr 10000"
  "parse_chinese_number [zh_digit 2, zh_digit 5] = Inr 5"
  by (simp_all add: parse_chinese_number_def read_digit read_unit numeral_value_def)

section \<open>From texts to numbers\<close>

text \<open>A text that is one character.\<close>

definition one_char :: "string \<Rightarrow> bool" where
  "one_char c \<longleftrightarrow> c \<noteq> [] \<and> \<not> is_continuation (hd c) \<and> list_all is_continuation (tl c)"

lemma characters_append:
  assumes "one_char c" "s = [] \<or> \<not> is_continuation (hd s)"
  shows "characters (c @ s) = c # characters s"
proof -
  obtain b bs where c: "c = b # bs" "\<forall>x \<in> set bs. is_continuation x" using assms(1) by (cases c) (auto simp: one_char_def list_all_iff)
  have "takeWhile is_continuation (bs @ s) = bs" "dropWhile is_continuation (bs @ s) = s"
    using c(2) assms(2) by (cases s; simp add: takeWhile_append2 dropWhile_append2)+
  then show ?thesis by (simp add: c(1))
qed

lemma hd_concat: "list_all one_char cs \<Longrightarrow> concat cs = [] \<or> \<not> is_continuation (hd (concat cs))"
  by (cases cs) (auto simp: one_char_def)

lemma characters_concat: "list_all one_char cs \<Longrightarrow> characters (concat cs) = cs"
proof (induction cs)
  case (Cons c cs)
  then show ?case using hd_concat [of cs] by (simp add: characters_append del: characters.simps)
qed simp

lemma zh_one_char: "list_all one_char (dkeys zh_digits @ dkeys zh_units)"
  by code_simp

lemma numeral_chars: "list_all (\<lambda>d. is_numeral_char (zh_digit d)) [0..<10]" "list_all (\<lambda>k. is_numeral_char (zh_unit k)) [0..<5]"
  by code_simp+

lemma numeral_char_digit: "d < 10 \<Longrightarrow> is_numeral_char (zh_digit d)" "k < 5 \<Longrightarrow> is_numeral_char (zh_unit k)"
  using numeral_chars by (simp_all only: list_all_iff set_upt atLeastLessThan_iff zero_le simp_thms)

lemma numeral_char_one: "is_numeral_char c \<Longrightarrow> one_char c"
  using zh_one_char by (auto simp: is_numeral_char_def list_all_iff dest: dget_in_keys)

lemma section_numeral_chars: "n < 10000 \<Longrightarrow> list_all is_numeral_char (section_numeral n)"
  by (simp add: section_numeral_def Let_def numeral_part_def zero_if_def numeral_char_digit div_less_iff_less_mult)

lemma chinese_numeral_chars: "n < 1000000000000 \<Longrightarrow> list_all is_numeral_char (chinese_numeral n)"
  by (simp add: chinese_numeral_def Let_def zero_if_def numeral_char_digit section_numeral_chars div_less_iff_less_mult)

lemma numeral_not_ascii: "list_all (\<lambda>c. \<not> is_space (hd c) \<and> \<not> is_space (last c) \<and> \<not> plus_or_minus (hd c) \<and> hd c \<noteq> hd zh_negative \<and> hd c \<noteq> hd minus_sign)
  (dkeys zh_digits @ dkeys zh_units)"
  by code_simp

lemma numeral_char_bytes:
  assumes "is_numeral_char c"
  shows "c \<noteq> []" "\<not> is_space (hd c)" "\<not> is_space (last c)" "\<not> plus_or_minus (hd c)" "hd c \<noteq> hd zh_negative" "hd c \<noteq> hd minus_sign"
  using assms numeral_not_ascii numeral_char_one [OF assms]
  by (auto simp: is_numeral_char_def list_all_iff one_char_def dest: dget_in_keys)

lemma ascii_sign_id: "s \<noteq> [] \<Longrightarrow> sign \<noteq> [] \<Longrightarrow> hd s \<noteq> hd sign \<Longrightarrow> ascii_sign sign s = s"
  by (cases s; cases sign) (simp_all add: ascii_sign_def starts_with_def)

lemma to_decimal_numeral:
  assumes "cs \<noteq> []" "list_all is_numeral_char cs" "parse_chinese_number cs = Inr v"
  shows "to_decimal (concat cs) = Inr (of_int v)"
proof -
  have parts: "hd cs \<noteq> []" "last cs \<noteq> []" using assms(1,2) numeral_char_bytes(1) by (auto simp: list_all_iff)
  have "concat cs = hd cs @ concat (tl cs)" using assms(1) by (cases cs) simp_all
  moreover have "concat cs = concat (butlast cs) @ last cs" using assms(1) by (cases cs rule: rev_cases) simp_all
  ultimately have ne: "concat cs \<noteq> []" and "hd (concat cs) = hd (hd cs)" "last (concat cs) = last (last cs)"
    using parts by (metis append_is_Nil_conv, metis hd_append2, metis last_appendR)
  moreover have "is_numeral_char (hd cs)" "is_numeral_char (last cs)" using assms(1,2) by (auto simp: list_all_iff)
  ultimately have ends: "\<not> is_space (hd (concat cs))" "\<not> is_space (last (concat cs))" "\<not> plus_or_minus (hd (concat cs))"
    "hd (concat cs) \<noteq> hd zh_negative" "hd (concat cs) \<noteq> hd minus_sign"
    using numeral_char_bytes by simp_all
  have ascii: "ascii_sign zh_negative (ascii_sign minus_sign (strip (concat cs))) = concat cs"
    using ne ends by (simp add: strip_id ascii_sign_id zh_negative_def minus_sign_def)
  have digits: "dropWhile plus_or_minus (concat cs) = concat cs" using ends(3) ne by (simp add: dropWhile_eq_self_iff)
  have chars: "characters (concat cs) = cs" using assms(2) by (intro characters_concat) (auto simp: list_all_iff numeral_char_one)
  have sign: "\<not> starts_with ''-'' (concat cs)" using ends(3) ne by (cases "concat cs") (auto simp: starts_with_def plus_or_minus_def)
  show ?thesis
    unfolding to_decimal_def Let_def ascii digits chars by (simp add: assms(2,3) ne sign del: concat_eq_Nil_conv)
qed

lemma parse_integer_numeral: "n < 1000000000000 \<Longrightarrow> parse_integer (concat (chinese_numeral n)) = Inr (int n)"
proof -
  assume n: "n < 1000000000000"
  have "chinese_numeral n \<noteq> []" using read_chinese_numeral [OF n]
    by (cases "n = 0") (auto simp: parse_chinese_number_def numeral_value_def chinese_numeral_def)
  then show ?thesis
    by (simp add: parse_integer_def is_integral_def to_decimal_numeral [OF _ chinese_numeral_chars [OF n] read_chinese_numeral [OF n]])
qed

section \<open>Integers in digits\<close>


lemma digits_plain: "list_all is_digit s \<Longrightarrow> c \<in> set s \<Longrightarrow> is_digit c"
  by (simp add: list_all_iff)










section \<open>The guarantees\<close>

text \<open>C28. Every number below \<open>10 ^ 12\<close>, written as a standard Chinese numeral, is read as that number.\<close>

theorem chinese_numerals_read_back:
  assumes "n < 1000000000000"
  shows "parse_integer (concat (chinese_numeral n)) = Inr (int n)"
  using assms by (rule parse_integer_numeral)




theorem chinese_numerals_read_back_witness:
  "parse_integer (concat (chinese_numeral 102030)) = Inr (int 102030)"
  by (rule chinese_numerals_read_back) simp


end
