(* ===== verification/Plan_Templates.thy ===== *)
theory Plan_Templates
  imports Plan_Snapshot Sample_Library Text_Patterns
begin

text \<open>
  From raw steps to the steps of a plan (\<open>raw_to_plan_step\<close> and \<open>rule_decompose\<close> of
  \<open>core/plan_decomposer.py\<close>): the checks of a raw step, its conversion, and the three built-in
  templates for goals that speak of coding, of deployment or of analysis. Texts are their UTF-8
  bytes; the templates are the Chinese texts of the source.
\<close>

section \<open>Checking a raw step\<close>

definition REQUIRED_FIELDS :: "string list" where
  "REQUIRED_FIELDS = [''title'', ''description'', ''expected_output'', ''verification'', ''completion_criteria'']"

text \<open>Four descriptions that say nothing, in Chinese and in English.\<close>

definition META_PATTERNS :: "string list" where
  "META_PATTERNS =
    [[CHR 0xE6, CHR 0x89, CHR 0xA7, CHR 0xE8, CHR 0xA1, CHR 0x8C, CHR 0xE6, CHR 0xA0, CHR 0xB8, CHR 0xE5, CHR 0xBF, CHR 0x83, CHR 0xE6, CHR 0xAD, CHR 0xA5, CHR 0xE9, CHR 0xAA, CHR 0xA4],
     [CHR 0xE7, CHR 0x90, CHR 0x86, CHR 0xE8, CHR 0xA7, CHR 0xA3, CHR 0xE7, CHR 0x9B, CHR 0xAE, CHR 0xE6, CHR 0xA0, CHR 0x87],
     [CHR 0xE5, CHR 0x88, CHR 0xB6, CHR 0xE5, CHR 0xAE, CHR 0x9A, CHR 0xE6, CHR 0x96, CHR 0xB9, CHR 0xE6, CHR 0xA1, CHR 0x88],
     [CHR 0xE9, CHR 0xAA, CHR 0x8C, CHR 0xE8, CHR 0xAF, CHR 0x81, CHR 0xE4, CHR 0xB8, CHR 0x8E, CHR 0xE6, CHR 0x94, CHR 0xB6, CHR 0xE5, CHR 0xB0, CHR 0xBE],
     ''implement core'',
     ''understand goal'',
     ''make plan'',
     ''verify and finish'']"

definition field_missing :: "pyval dict \<Rightarrow> string \<Rightarrow> bool" where
  "field_missing raw k = (case pget raw k of PStr s \<Rightarrow> strip s = [] | _ \<Rightarrow> True)"

definition raw_text :: "pyval dict \<Rightarrow> string \<Rightarrow> string" where
  "raw_text raw k = (case pget raw k of PStr s \<Rightarrow> s | _ \<Rightarrow> [])"

definition meta_pattern_in :: "pyval dict \<Rightarrow> string option" where
  "meta_pattern_in raw = find (\<lambda>p. contains p (lower (raw_text raw ''title'' @ newline @ raw_text raw ''description''))) META_PATTERNS"

definition validate_raw_step :: "pyval dict \<Rightarrow> nat \<Rightarrow> exn + unit" where
  "validate_raw_step raw idx =
    (case find (field_missing raw) REQUIRED_FIELDS of
       Some k \<Rightarrow> Inl (Exn A2PlanValidationError (''step '' @ nat_str idx @ '' missing required field: '' @ k))
     | None \<Rightarrow> (case meta_pattern_in raw of
         Some p \<Rightarrow> Inl (Exn A2PlanValidationError (''step '' @ nat_str idx @ '' contains meta template: '' @ p))
       | None \<Rightarrow> Inr ()))"

section \<open>Converting a raw step\<close>

text \<open>\<open>tuple(str(path) for path in raw.get("files", ()) or ())\<close>: a text is iterated by character.\<close>

definition raw_files :: "(pyval \<Rightarrow> string) \<Rightarrow> pyval dict \<Rightarrow> exn + string list" where
  "raw_files rp raw =
    (let v = dget_or raw ''files'' (PList []); v = (if truthy v then v else PList [])
     in and_then (case v of PStr s \<Rightarrow> Inr (map PStr (characters s)) | _ \<Rightarrow> py_iter v) (\<lambda>vs. Inr (map (py_str rp) vs)))"

definition raw_payload :: "string \<Rightarrow> string \<Rightarrow> string \<Rightarrow> string list \<Rightarrow> int \<Rightarrow> string \<Rightarrow> string \<Rightarrow> string \<Rightarrow> pyval dict \<Rightarrow> pyval dict" where
  "raw_payload title user_input risk files minutes expected verif criteria raw =
    [(''description'', PStr title), (''query'', PStr user_input), (''risk'', PStr risk),
     (''complexity'', PInt (if risk \<in> {''medium'', ''high''} then 7 else 2)),
     (''expected_output'', PStr expected), (''verification'', PStr verif), (''completion_criteria'', PStr criteria),
     (''stage'', if truthy (pget raw ''stage'') then pget raw ''stage'' else PNone),
     (''estimated_minutes'', PInt minutes), (''files'', PList (map PStr files))] @
    (case pget raw ''tool_args'' of PDict d \<Rightarrow> [(''tool_args'', PDict d)] | _ \<Rightarrow> [])"

definition raw_to_plan_step :: "(pyval \<Rightarrow> string) \<Rightarrow> pyval dict \<Rightarrow> string \<Rightarrow> nat \<Rightarrow> exn + plan_step" where
  "raw_to_plan_step rp raw user_input idx =
    and_then (validate_raw_step raw idx) (\<lambda>_.
      let sid = meta_text rp raw ''step_id'' (''step_'' @ nat_str idx);
          risk = meta_text rp raw ''risk'' ''low'';
          title = meta_text rp raw ''title'' (meta_text rp raw ''description'' sid);
          desc = meta_text rp raw ''description'' title;
          expected = meta_text rp raw ''expected_output'' [];
          verif = meta_text rp raw ''verification'' [];
          criteria = meta_text rp raw ''completion_criteria'' [];
          minutes = safe_non_negative_int (pget raw ''estimated_minutes'')
      in and_then (raw_files rp raw) (\<lambda>files.
         and_then (normalize_raw_dependencies rp raw) (\<lambda>deps.
           Inr \<lparr>step_id = sid, skill_id = meta_text rp raw ''skill_id'' ''chat'',
             result_key = meta_text rp raw ''result_key'' (sid @ ''_result''), depends_on = deps,
             condition_key = (if pget raw ''condition_key'' = PNone then None else Some (py_str rp (pget raw ''condition_key''))),
             retry_max = safe_non_negative_int (pget raw ''retry_max''), retry_backoff_s = 0, degrade_value = PNone,
             require_consent = truthy (dget_or raw ''require_consent'' (PBool (risk = ''high''))), idempotency_key = None,
             step_payload = raw_payload title user_input risk files minutes expected verif criteria raw, fail_fast = True,
             step_title = title, step_description = desc, expected_output = expected, verification = verif,
             completion_criteria = criteria,
             step_stage = (if truthy (pget raw ''stage'') then Some (py_str rp (pget raw ''stage'')) else None),
             estimated_minutes = minutes, step_files = files,
             subagent_type = normalize_subagent_role rp (pget raw ''subagent_type'')\<rparr>)))"

definition plan_steps :: "(pyval \<Rightarrow> string) \<Rightarrow> string \<Rightarrow> pyval dict list \<Rightarrow> exn + plan_step list" where
  "plan_steps rp goal raws = traverse (\<lambda>(idx, raw). raw_to_plan_step rp raw goal idx) (enumerate 0 raws)"

section \<open>Templates\<close>

text \<open>The description of a step is the goal in Chinese quotation marks between two fixed texts.\<close>

record rule_template =
  rt_title :: string
  rt_before :: string
  rt_after :: string
  rt_expected :: string
  rt_verification :: string
  rt_criteria :: string
  rt_deps :: "int list"
  rt_risk :: string
  rt_stage :: string
  rt_minutes :: int

definition rule_step :: "string \<Rightarrow> rule_template \<Rightarrow> pyval dict" where
  "rule_step goal t =
    [(''title'', PStr (rt_title t)), (''description'', PStr (rt_before t @ goal @ rt_after t)),
     (''expected_output'', PStr (rt_expected t)), (''verification'', PStr (rt_verification t)),
     (''completion_criteria'', PStr (rt_criteria t)), (''deps'', PList (map PInt (rt_deps t))),
     (''risk'', PStr (rt_risk t)), (''stage'', PStr (rt_stage t)), (''estimated_minutes'', PInt (max 0 (rt_minutes t))),
     (''files'', PList [])]"

definition coding_keywords :: "string list" where
  "coding_keywords =
    [[CHR 0xE5, CHR 0x86, CHR 0x99],
     [CHR 0xE5, CHR 0x88, CHR 0xB6, CHR 0xE4, CHR 0xBD, CHR 0x9C],
     [CHR 0xE5, CHR 0xAE, CHR 0x9E, CHR 0xE7, CHR 0x8E, CHR 0xB0],
     [CHR 0xE5, CHR 0xBC, CHR 0x80, CHR 0xE5, CHR 0x8F, CHR 0x91],
     [CHR 0xE4, CHR 0xBB, CHR 0xA3, CHR 0xE7, CHR 0xA0, CHR 0x81]]"

definition deployment_keywords :: "string list" where
  "deployment_keywords =
    [[CHR 0xE9, CHR 0x83, CHR 0xA8, CHR 0xE7, CHR 0xBD, CHR 0xB2],
     [CHR 0xE5, CHR 0xAE, CHR 0x89, CHR 0xE8, CHR 0xA3, CHR 0x85],
     [CHR 0xE4, CHR 0xB8, CHR 0x8B, CHR 0xE8, CHR 0xBD, CHR 0xBD],
     [CHR 0xE7, CHR 0xBD, CHR 0x91, CHR 0xE7, CHR 0xBB, CHR 0x9C],
     [CHR 0xE6, CHR 0x9D, CHR 0x83, CHR 0xE9, CHR 0x99, CHR 0x90]]"

definition analysis_keywords :: "string list" where
  "analysis_keywords =
    [[CHR 0xE5, CHR 0x88, CHR 0x86, CHR 0xE6, CHR 0x9E, CHR 0x90],
     [CHR 0xE7, CHR 0xA0, CHR 0x94, CHR 0xE7, CHR 0xA9, CHR 0xB6],
     [CHR 0xE8, CHR 0xAF, CHR 0x84, CHR 0xE4, CHR 0xBC, CHR 0xB0],
     [CHR 0xE6, CHR 0xA2, CHR 0xB3, CHR 0xE7, CHR 0x90, CHR 0x86]]"

definition coding_templates :: "rule_template list" where
  "coding_templates = [
     \<lparr>rt_title =
        [CHR 0xE7, CHR 0x90, CHR 0x86, CHR 0xE8, CHR 0xA7, CHR 0xA3, CHR 0xE9, CHR 0x9C, CHR 0x80, CHR 0xE6, CHR
        0xB1, CHR 0x82, CHR 0xEF, CHR 0xBC, CHR 0x9A, CHR 0xE8, CHR 0xA7, CHR 0xA3, CHR 0xE6, CHR 0x9E, CHR 0x90, CHR
        0xE7, CHR 0x9B, CHR 0xAE, CHR 0xE6, CHR 0xA0, CHR 0x87, CHR 0xE5, CHR 0x8A, CHR 0x9F, CHR 0xE8, CHR 0x83, CHR
        0xBD, CHR 0xE4, CHR 0xB8, CHR 0x8E, CHR 0xE7, CHR 0xBA, CHR 0xA6, CHR 0xE6, CHR 0x9D, CHR 0x9F],
      rt_before =
        [CHR 0xE5, CHR 0x88, CHR 0x86, CHR 0xE6, CHR 0x9E, CHR 0x90, CHR 0xE7, CHR 0x94, CHR 0xA8, CHR 0xE6, CHR
        0x88, CHR 0xB7, CHR 0xE8, CHR 0xAF, CHR 0xB7, CHR 0xE6, CHR 0xB1, CHR 0x82, CHR 0xE3, CHR 0x80, CHR 0x8C],
      rt_after =
        [CHR 0xE3, CHR 0x80, CHR 0x8D, CHR 0xEF, CHR 0xBC, CHR 0x8C, CHR 0xE6, CHR 0x98, CHR 0x8E, CHR 0xE7, CHR
        0xA1, CHR 0xAE, CHR 0xE8, CHR 0xBE, CHR 0x93, CHR 0xE5, CHR 0x85, CHR 0xA5, CHR 0xE3, CHR 0x80, CHR 0x81, CHR
        0xE8, CHR 0xBE, CHR 0x93, CHR 0xE5, CHR 0x87, CHR 0xBA, CHR 0xE3, CHR 0x80, CHR 0x81, CHR 0xE9, CHR 0x99, CHR
        0x90, CHR 0xE5, CHR 0x88, CHR 0xB6, CHR 0xE5, CHR 0x92, CHR 0x8C, CHR 0xE9, CHR 0xAA, CHR 0x8C, CHR 0xE6, CHR
        0x94, CHR 0xB6, CHR 0xE5, CHR 0x8F, CHR 0xA3, CHR 0xE5, CHR 0xBE, CHR 0x84, CHR 0xE3, CHR 0x80, CHR 0x82],
      rt_expected =
        [CHR 0xE9, CHR 0x9C, CHR 0x80, CHR 0xE6, CHR 0xB1, CHR 0x82, CHR 0xE8, CHR 0xBE, CHR 0xB9, CHR 0xE7, CHR
        0x95, CHR 0x8C, CHR 0xE8, CHR 0xAF, CHR 0xB4, CHR 0xE6, CHR 0x98, CHR 0x8E, CHR 0xEF, CHR 0xBC, CHR 0x8C, CHR
        0xE5, CHR 0x8C, CHR 0x85, CHR 0xE5, CHR 0x90, CHR 0xAB, CHR 0xE8, CHR 0xBE, CHR 0x93, CHR 0xE5, CHR 0x85, CHR
        0xA5, CHR 0xE3, CHR 0x80, CHR 0x81, CHR 0xE8, CHR 0xBE, CHR 0x93, CHR 0xE5, CHR 0x87, CHR 0xBA, CHR 0xE3, CHR
        0x80, CHR 0x81, CHR 0xE7, CHR 0xBA, CHR 0xA6, CHR 0xE6, CHR 0x9D, CHR 0x9F, CHR 0xE5, CHR 0x92, CHR 0x8C, CHR
        0xE9, CHR 0xAA, CHR 0x8C, CHR 0xE6, CHR 0x94, CHR 0xB6, CHR 0xE5, CHR 0x8F, CHR 0xA3, CHR 0xE5, CHR 0xBE, CHR
        0x84, CHR 0xE3, CHR 0x80, CHR 0x82],
      rt_verification =
        [CHR 0xE6, CHR 0xA3, CHR 0x80, CHR 0xE6, CHR 0x9F, CHR 0xA5, CHR 0xE9, CHR 0x9C, CHR 0x80, CHR 0xE6, CHR
        0xB1, CHR 0x82, CHR 0xE8, CHR 0xBE, CHR 0xB9, CHR 0xE7, CHR 0x95, CHR 0x8C, CHR 0xE8, CHR 0xAF, CHR 0xB4, CHR
        0xE6, CHR 0x98, CHR 0x8E, CHR 0xE6, CHR 0x98, CHR 0xAF, CHR 0xE5, CHR 0x90, CHR 0xA6, CHR 0xE8, CHR 0xA6, CHR
        0x86, CHR 0xE7, CHR 0x9B, CHR 0x96, CHR 0xE8, CHR 0xBE, CHR 0x93, CHR 0xE5, CHR 0x85, CHR 0xA5, CHR 0xE3, CHR
        0x80, CHR 0x81, CHR 0xE8, CHR 0xBE, CHR 0x93, CHR 0xE5, CHR 0x87, CHR 0xBA, CHR 0xE3, CHR 0x80, CHR 0x81, CHR
        0xE7, CHR 0xBA, CHR 0xA6, CHR 0xE6, CHR 0x9D, CHR 0x9F, CHR 0xE5, CHR 0x92, CHR 0x8C, CHR 0xE9, CHR 0xAA, CHR
        0x8C, CHR 0xE6, CHR 0x94, CHR 0xB6, CHR 0xE5, CHR 0x8F, CHR 0xA3, CHR 0xE5, CHR 0xBE, CHR 0x84, CHR 0xE5, CHR
        0x9B, CHR 0x9B, CHR 0xE9, CHR 0xA1, CHR 0xB9, CHR 0xE3, CHR 0x80, CHR 0x82],
      rt_criteria =
        [CHR 0xE5, CHR 0x9B, CHR 0x9B, CHR 0xE9, CHR 0xA1, CHR 0xB9, CHR 0xE4, CHR 0xBF, CHR 0xA1, CHR 0xE6, CHR
        0x81, CHR 0xAF, CHR 0xE5, CHR 0x9D, CHR 0x87, CHR 0xE6, CHR 0x9C, CHR 0x89, CHR 0xE5, CHR 0x85, CHR 0xB7, CHR
        0xE4, CHR 0xBD, CHR 0x93, CHR 0xE6, CHR 0x8F, CHR 0x8F, CHR 0xE8, CHR 0xBF, CHR 0xB0, CHR 0xEF, CHR 0xBC, CHR
        0x8C, CHR 0xE4, CHR 0xB8, CHR 0x94, CHR 0xE6, CHR 0xB2, CHR 0xA1, CHR 0xE6, CHR 0x9C, CHR 0x89, CHR 0xE4, CHR
        0xBB, CHR 0x85, CHR 0xE5, CHR 0xA4, CHR 0x8D, CHR 0xE8, CHR 0xBF, CHR 0xB0, CHR 0xE7, CHR 0x94, CHR 0xA8, CHR
        0xE6, CHR 0x88, CHR 0xB7, CHR 0xE5, CHR 0x8E, CHR 0x9F, CHR 0xE8, CHR 0xAF, CHR 0x9D, CHR 0xE3, CHR 0x80, CHR
        0x82],
      rt_deps = [],
      rt_risk = ''low'',
      rt_stage = ''brainstorming'',
      rt_minutes = 5\<rparr>,
     \<lparr>rt_title =
        [CHR 0xE8, CHR 0xAE, CHR 0xBE, CHR 0xE8, CHR 0xAE, CHR 0xA1, CHR 0xE6, CHR 0x96, CHR 0xB9, CHR 0xE6, CHR
        0xA1, CHR 0x88, CHR 0xEF, CHR 0xBC, CHR 0x9A, CHR 0xE7, CHR 0xA1, CHR 0xAE, CHR 0xE5, CHR 0xAE, CHR 0x9A, CHR
        0xE6, CHR 0xA8, CHR 0xA1, CHR 0xE5, CHR 0x9D, CHR 0x97, CHR 0xE8, CHR 0xBE, CHR 0xB9, CHR 0xE7, CHR 0x95, CHR
        0x8C, CHR 0xE4, CHR 0xB8, CHR 0x8E, CHR 0xE6, CHR 0x95, CHR 0xB0, CHR 0xE6, CHR 0x8D, CHR 0xAE, CHR 0xE6, CHR
        0xB5, CHR 0x81],
      rt_before = [CHR 0xE4, CHR 0xB8, CHR 0xBA, CHR 0xE3, CHR 0x80, CHR 0x8C],
      rt_after =
        [CHR 0xE3, CHR 0x80, CHR 0x8D, CHR 0xE7, CHR 0xA1, CHR 0xAE, CHR 0xE5, CHR 0xAE, CHR 0x9A, CHR 0xE9, CHR
        0x9C, CHR 0x80, CHR 0xE8, CHR 0xA6, CHR 0x81, CHR 0xE4, CHR 0xBF, CHR 0xAE, CHR 0xE6, CHR 0x94, CHR 0xB9, CHR
        0xE7, CHR 0x9A, CHR 0x84, CHR 0xE6, CHR 0xA8, CHR 0xA1, CHR 0xE5, CHR 0x9D, CHR 0x97, CHR 0xE3, CHR 0x80, CHR
        0x81, CHR 0xE6, CHR 0x95, CHR 0xB0, CHR 0xE6, CHR 0x8D, CHR 0xAE, CHR 0xE6, CHR 0xB5, CHR 0x81, CHR 0xE5, CHR
        0x92, CHR 0x8C, CHR 0xE6, CHR 0x9C, CHR 0x80, CHR 0xE5, CHR 0xB0, CHR 0x8F, CHR 0xE5, CHR 0xAE, CHR 0x9E, CHR
        0xE7, CHR 0x8E, CHR 0xB0, CHR 0xE8, CHR 0xB7, CHR 0xAF, CHR 0xE5, CHR 0xBE, CHR 0x84, CHR 0xE3, CHR 0x80, CHR
        0x82],
      rt_expected =
        [CHR 0xE5, CHR 0xAE, CHR 0x9E, CHR 0xE7, CHR 0x8E, CHR 0xB0, CHR 0xE6, CHR 0x96, CHR 0xB9, CHR 0xE6, CHR
        0xA1, CHR 0x88, CHR 0xEF, CHR 0xBC, CHR 0x8C, CHR 0xE5, CHR 0x8C, CHR 0x85, CHR 0xE5, CHR 0x90, CHR 0xAB, CHR
        0xE6, CHR 0xB6, CHR 0x89, CHR 0xE5, CHR 0x8F, CHR 0x8A, CHR 0xE6, CHR 0xA8, CHR 0xA1, CHR 0xE5, CHR 0x9D, CHR
        0x97, CHR 0xE3, CHR 0x80, CHR 0x81, CHR 0xE6, CHR 0x95, CHR 0xB0, CHR 0xE6, CHR 0x8D, CHR 0xAE, CHR 0xE6, CHR
        0xB5, CHR 0x81, CHR 0xE3, CHR 0x80, CHR 0x81, CHR 0xE9, CHR 0xA3, CHR 0x8E, CHR 0xE9, CHR 0x99, CHR 0xA9, CHR
        0xE7, CHR 0x82, CHR 0xB9, CHR 0xE5, CHR 0x92, CHR 0x8C, CHR 0xE6, CHR 0xB5, CHR 0x8B, CHR 0xE8, CHR 0xAF, CHR
        0x95, CHR 0xE7, CHR 0xAD, CHR 0x96, CHR 0xE7, CHR 0x95, CHR 0xA5, CHR 0xE3, CHR 0x80, CHR 0x82],
      rt_verification =
        [CHR 0xE6, CHR 0x96, CHR 0xB9, CHR 0xE6, CHR 0xA1, CHR 0x88, CHR 0xE4, CHR 0xB8, CHR 0xAD, CHR 0xE5, CHR
        0x88, CHR 0x97, CHR 0xE5, CHR 0x87, CHR 0xBA, CHR 0xE8, CHR 0x87, CHR 0xB3, CHR 0xE5, CHR 0xB0, CHR 0x91, CHR
        0xE4, CHR 0xB8, CHR 0x80, CHR 0xE4, CHR 0xB8, CHR 0xAA, CHR 0xE6, CHR 0xB6, CHR 0x89, CHR 0xE5, CHR 0x8F, CHR
        0x8A, CHR 0xE6, CHR 0xA8, CHR 0xA1, CHR 0xE5, CHR 0x9D, CHR 0x97, CHR 0xEF, CHR 0xBC, CHR 0x8C, CHR 0xE5, CHR
        0xB9, CHR 0xB6, CHR 0xE8, CHR 0xAF, CHR 0xB4, CHR 0xE6, CHR 0x98, CHR 0x8E, CHR 0xE5, CHR 0xAF, CHR 0xB9, CHR
        0xE5, CHR 0xBA, CHR 0x94, CHR 0xE6, CHR 0xB5, CHR 0x8B, CHR 0xE8, CHR 0xAF, CHR 0x95, CHR 0xE6, CHR 0x88, CHR
        0x96, CHR 0xE6, CHR 0xA3, CHR 0x80, CHR 0xE6, CHR 0x9F, CHR 0xA5, CHR 0xE6, CHR 0x96, CHR 0xB9, CHR 0xE5, CHR
        0xBC, CHR 0x8F, CHR 0xE3, CHR 0x80, CHR 0x82],
      rt_criteria =
        [CHR 0xE6, CHR 0xA8, CHR 0xA1, CHR 0xE5, CHR 0x9D, CHR 0x97, CHR 0xE8, CHR 0xBE, CHR 0xB9, CHR 0xE7, CHR
        0x95, CHR 0x8C, CHR 0xE6, CHR 0xB8, CHR 0x85, CHR 0xE6, CHR 0xA5, CHR 0x9A, CHR 0xEF, CHR 0xBC, CHR 0x8C, CHR
        0xE6, CHR 0xB5, CHR 0x8B, CHR 0xE8, CHR 0xAF, CHR 0x95, CHR 0xE7, CHR 0xAD, CHR 0x96, CHR 0xE7, CHR 0x95, CHR
        0xA5, CHR 0xE5, CHR 0x8F, CHR 0xAF, CHR 0xE6, CHR 0x89, CHR 0xA7, CHR 0xE8, CHR 0xA1, CHR 0x8C, CHR 0xEF, CHR
        0xBC, CHR 0x8C, CHR 0xE9, CHR 0xA3, CHR 0x8E, CHR 0xE9, CHR 0x99, CHR 0xA9, CHR 0xE7, CHR 0x82, CHR 0xB9, CHR
        0xE6, CHR 0x9C, CHR 0x89, CHR 0xE5, CHR 0xA4, CHR 0x84, CHR 0xE7, CHR 0x90, CHR 0x86, CHR 0xE6, CHR 0x96, CHR
        0xB9, CHR 0xE5, CHR 0xBC, CHR 0x8F, CHR 0xE3, CHR 0x80, CHR 0x82],
      rt_deps = [0],
      rt_risk = ''low'',
      rt_stage = ''planning'',
      rt_minutes = 10\<rparr>,
     \<lparr>rt_title =
        [CHR 0xE5, CHR 0xAE, CHR 0x9E, CHR 0xE7, CHR 0x8E, CHR 0xB0, CHR 0xE6, CHR 0xA0, CHR 0xB8, CHR 0xE5, CHR
        0xBF, CHR 0x83, CHR 0xE9, CHR 0x80, CHR 0xBB, CHR 0xE8, CHR 0xBE, CHR 0x91, CHR 0xEF, CHR 0xBC, CHR 0x9A, CHR
        0xE5, CHR 0xAE, CHR 0x8C, CHR 0xE6, CHR 0x88, CHR 0x90, CHR 0xE4, CHR 0xB8, CHR 0xBB, CHR 0xE8, CHR 0xA6, CHR
        0x81, CHR 0xE4, CHR 0xBB, CHR 0xA3, CHR 0xE7, CHR 0xA0, CHR 0x81, CHR 0xE6, CHR 0x94, CHR 0xB9, CHR 0xE5, CHR
        0x8A, CHR 0xA8],
      rt_before =
        [CHR 0xE6, CHR 0x8C, CHR 0x89, CHR 0xE6, CHR 0x96, CHR 0xB9, CHR 0xE6, CHR 0xA1, CHR 0x88, CHR 0xE5, CHR
        0xAE, CHR 0x9E, CHR 0xE7, CHR 0x8E, CHR 0xB0, CHR 0xE3, CHR 0x80, CHR 0x8C],
      rt_after =
        [CHR 0xE3, CHR 0x80, CHR 0x8D, CHR 0xE6, CHR 0x89, CHR 0x80, CHR 0xE9, CHR 0x9C, CHR 0x80, CHR 0xE7, CHR
        0x9A, CHR 0x84, CHR 0xE6, CHR 0xA0, CHR 0xB8, CHR 0xE5, CHR 0xBF, CHR 0x83, CHR 0xE4, CHR 0xBB, CHR 0xA3, CHR
        0xE7, CHR 0xA0, CHR 0x81, CHR 0xEF, CHR 0xBC, CHR 0x8C, CHR 0xE5, CHR 0xB9, CHR 0xB6, CHR 0xE4, CHR 0xBF, CHR
        0x9D, CHR 0xE6, CHR 0x8C, CHR 0x81, CHR 0xE7, CHR 0x8E, CHR 0xB0, CHR 0xE6, CHR 0x9C, CHR 0x89, CHR 0xE6, CHR
        0x9E, CHR 0xB6, CHR 0xE6, CHR 0x9E, CHR 0x84, CHR 0xE8, CHR 0xBE, CHR 0xB9, CHR 0xE7, CHR 0x95, CHR 0x8C, CHR
        0xE3, CHR 0x80, CHR 0x82],
      rt_expected =
        [CHR 0xE5, CHR 0xAE, CHR 0x8C, CHR 0xE6, CHR 0x88, CHR 0x90, CHR 0xE7, CHR 0x9A, CHR 0x84, CHR 0xE4, CHR
        0xBB, CHR 0xA3, CHR 0xE7, CHR 0xA0, CHR 0x81, CHR 0xE6, CHR 0x94, CHR 0xB9, CHR 0xE5, CHR 0x8A, CHR 0xA8, CHR
        0xEF, CHR 0xBC, CHR 0x8C, CHR 0xE5, CHR 0x8C, CHR 0x85, CHR 0xE5, CHR 0x90, CHR 0xAB, CHR 0xE6, CHR 0xA0, CHR
        0xB8, CHR 0xE5, CHR 0xBF, CHR 0x83, CHR 0xE9, CHR 0x80, CHR 0xBB, CHR 0xE8, CHR 0xBE, CHR 0x91, CHR 0xE5, CHR
        0x92, CHR 0x8C, CHR 0xE5, CHR 0xBF, CHR 0x85, CHR 0xE8, CHR 0xA6, CHR 0x81, CHR 0xE7, CHR 0x9A, CHR 0x84, CHR
        0xE5, CHR 0x85, CHR 0xBC, CHR 0xE5, CHR 0xAE, CHR 0xB9, CHR 0xE5, CHR 0xA4, CHR 0x84, CHR 0xE7, CHR 0x90, CHR
        0x86, CHR 0xE3, CHR 0x80, CHR 0x82],
      rt_verification =
        [CHR 0xE8, CHR 0xBF, CHR 0x90, CHR 0xE8, CHR 0xA1, CHR 0x8C, CHR 0xE7, CHR 0x9B, CHR 0xB8, CHR 0xE5, CHR
        0x85, CHR 0xB3, CHR 0xE7, CHR 0xAA, CHR 0x84, CHR 0xE6, CHR 0xB5, CHR 0x8B, CHR 0xE8, CHR 0xAF, CHR 0x95, CHR
        0xE3, CHR 0x80, CHR 0x81, CHR 0xE9, CHR 0x9D, CHR 0x99, CHR 0xE6, CHR 0x80, CHR 0x81, CHR 0xE6, CHR 0xA3, CHR
        0x80, CHR 0xE6, CHR 0x9F, CHR 0xA5, CHR 0xE6, CHR 0x88, CHR 0x96, CHR 0xE6, CHR 0x89, CHR 0x8B, CHR 0xE5, CHR
        0x8A, CHR 0xA8, CHR 0xE9, CHR 0xAA, CHR 0x8C, CHR 0xE8, CHR 0xAF, CHR 0x81, CHR 0xE5, CHR 0x91, CHR 0xBD, CHR
        0xE4, CHR 0xBB, CHR 0xA4, CHR 0xE7, CHR 0xA1, CHR 0xAE, CHR 0xE8, CHR 0xAE, CHR 0xA4, CHR 0xE6, CHR 0x94, CHR
        0xB9, CHR 0xE5, CHR 0x8A, CHR 0xA8, CHR 0xE5, CHR 0x8F, CHR 0xAF, CHR 0xE7, CHR 0x94, CHR 0xA8, CHR 0xE3, CHR
        0x80, CHR 0x82],
      rt_criteria =
        [CHR 0xE6, CHR 0xA0, CHR 0xB8, CHR 0xE5, CHR 0xBF, CHR 0x83, CHR 0xE8, CHR 0xB7, CHR 0xAF, CHR 0xE5, CHR
        0xBE, CHR 0x84, CHR 0xE5, CHR 0x8F, CHR 0xAF, CHR 0xE8, CHR 0xBF, CHR 0x90, CHR 0xE8, CHR 0xA1, CHR 0x8C, CHR
        0xEF, CHR 0xBC, CHR 0x8C, CHR 0xE7, CHR 0x9B, CHR 0xB8, CHR 0xE5, CHR 0x85, CHR 0xB3, CHR 0xE9, CHR 0xAA, CHR
        0x8C, CHR 0xE8, CHR 0xAF, CHR 0x81, CHR 0xE9, CHR 0x80, CHR 0x9A, CHR 0xE8, CHR 0xBF, CHR 0x87, CHR 0xEF, CHR
        0xBC, CHR 0x8C, CHR 0xE6, CHR 0x9C, CHR 0xAA, CHR 0xE5, CHR 0xBC, CHR 0x95, CHR 0xE5, CHR 0x85, CHR 0xA5, CHR
        0xE6, CHR 0x97, CHR 0xA0, CHR 0xE5, CHR 0x85, CHR 0xB3, CHR 0xE9, CHR 0x87, CHR 0x8D, CHR 0xE6, CHR 0x9E, CHR
        0x84, CHR 0xE3, CHR 0x80, CHR 0x82],
      rt_deps = [1],
      rt_risk = ''medium'',
      rt_stage = ''tdd'',
      rt_minutes = 30\<rparr>,
     \<lparr>rt_title =
        [CHR 0xE8, CHR 0xBF, CHR 0x90, CHR 0xE8, CHR 0xA1, CHR 0x8C, CHR 0xE9, CHR 0xAA, CHR 0x8C, CHR 0xE8, CHR
        0xAF, CHR 0x81, CHR 0xEF, CHR 0xBC, CHR 0x9A, CHR 0xE6, CHR 0x89, CHR 0xA7, CHR 0xE8, CHR 0xA1, CHR 0x8C, CHR
        0xE7, CHR 0x9B, CHR 0xB8, CHR 0xE5, CHR 0x85, CHR 0xB3, CHR 0xE6, CHR 0xB5, CHR 0x8B, CHR 0xE8, CHR 0xAF, CHR
        0x95, CHR 0xE4, CHR 0xB8, CHR 0x8E, CHR 0xE6, CHR 0xA3, CHR 0x80, CHR 0xE6, CHR 0x9F, CHR 0xA5],
      rt_before =
        [CHR 0xE8, CHR 0xBF, CHR 0x90, CHR 0xE8, CHR 0xA1, CHR 0x8C, CHR 0xE8, CHR 0xA6, CHR 0x86, CHR 0xE7, CHR
        0x9B, CHR 0x96, CHR 0xE3, CHR 0x80, CHR 0x8C],
      rt_after =
        [CHR 0xE3, CHR 0x80, CHR 0x8D, CHR 0xE7, CHR 0x9A, CHR 0x84, CHR 0xE6, CHR 0x9C, CHR 0x80, CHR 0xE5, CHR
        0xB0, CHR 0x8F, CHR 0xE6, CHR 0xB5, CHR 0x8B, CHR 0xE8, CHR 0xAF, CHR 0x95, CHR 0xE9, CHR 0x9B, CHR 0x86, CHR
        0xEF, CHR 0xBC, CHR 0x8C, CHR 0xE5, CHR 0xB9, CHR 0xB6, CHR 0xE8, CHR 0xAE, CHR 0xB0, CHR 0xE5, CHR 0xBD, CHR
        0x95, CHR 0xE5, CHR 0xAE, CHR 0x9E, CHR 0xE9, CHR 0x99, CHR 0x85, CHR 0xE8, CHR 0xBE, CHR 0x93, CHR 0xE5, CHR
        0x87, CHR 0xBA, CHR 0xE3, CHR 0x80, CHR 0x82],
      rt_expected =
        [CHR 0xE6, CHR 0xB5, CHR 0x8B, CHR 0xE8, CHR 0xAF, CHR 0x95, CHR 0xE6, CHR 0x88, CHR 0x96, CHR 0xE6, CHR
        0xA3, CHR 0x80, CHR 0xE6, CHR 0x9F, CHR 0xA5, CHR 0xE8, CHR 0xBE, CHR 0x93, CHR 0xE5, CHR 0x87, CHR 0xBA, CHR
        0xEF, CHR 0xBC, CHR 0x8C, CHR 0xE5, CHR 0x8C, CHR 0x85, CHR 0xE5, CHR 0x90, CHR 0xAB] @ '' pass/fail '' @
        [CHR 0xE8, CHR 0xAE, CHR 0xA1, CHR 0xE6, CHR 0x95, CHR 0xB0, CHR 0xE6, CHR 0x88, CHR 0x96, CHR 0xE6, CHR
        0x98, CHR 0x8E, CHR 0xE7, CHR 0xA1, CHR 0xAE, CHR 0xE7, CHR 0x9A, CHR 0x84, CHR 0xE6, CHR 0x89, CHR 0x8B, CHR
        0xE5, CHR 0x8A, CHR 0xA8, CHR 0xE9, CHR 0xAA, CHR 0x8C, CHR 0xE8, CHR 0xAF, CHR 0x81, CHR 0xE7, CHR 0xBB, CHR
        0x93, CHR 0xE6, CHR 0x9E, CHR 0x9C, CHR 0xE3, CHR 0x80, CHR 0x82],
      rt_verification =
        [CHR 0xE7, CHR 0xA1, CHR 0xAE, CHR 0xE8, CHR 0xAE, CHR 0xA4, CHR 0xE8, CHR 0xBE, CHR 0x93, CHR 0xE5, CHR
        0x87, CHR 0xBA, CHR 0xE4, CHR 0xB8, CHR 0xAD, CHR 0xE6, CHR 0xB2, CHR 0xA1, CHR 0xE6, CHR 0x9C, CHR 0x89, CHR
        0xE6, CHR 0x96, CHR 0xB0, CHR 0xE5, CHR 0xA2, CHR 0x9E] @ '' failure'' @ [CHR 0xEF, CHR 0xBC, CHR 0x8C] @
        ''skip '' @ [CHR 0xE9, CHR 0xA1, CHR 0xB9, CHR 0xE6, CHR 0x9C, CHR 0x89, CHR 0xE5, CHR 0x90, CHR 0x88, CHR
        0xE7, CHR 0x90, CHR 0x86, CHR 0xE8, CHR 0xAF, CHR 0xB4, CHR 0xE6, CHR 0x98, CHR 0x8E, CHR 0xE3, CHR 0x80, CHR
        0x82],
      rt_criteria =
        [CHR 0xE9, CHR 0xAA, CHR 0x8C, CHR 0xE8, CHR 0xAF, CHR 0x81, CHR 0xE7, CHR 0xBB, CHR 0x93, CHR 0xE6, CHR
        0x9E, CHR 0x9C, CHR 0xE5, CHR 0x8F, CHR 0xAF, CHR 0xE8, CHR 0xBF, CHR 0xBD, CHR 0xE6, CHR 0xBA, CHR 0xAF, CHR
        0xEF, CHR 0xBC, CHR 0x8C, CHR 0xE5, CHR 0xA4, CHR 0xB1, CHR 0xE8, CHR 0xB4, CHR 0xA5, CHR 0xE9, CHR 0xA1, CHR
        0xB9, CHR 0xE5, CHR 0xB7, CHR 0xB2, CHR 0xE4, CHR 0xBF, CHR 0xAE, CHR 0xE5, CHR 0xA4, CHR 0x8D, CHR 0xE6, CHR
        0x88, CHR 0x96, CHR 0xE6, CHR 0x98, CHR 0x8E, CHR 0xE7, CHR 0xA1, CHR 0xAE, CHR 0xE6, CHR 0xA0, CHR 0x87, CHR
        0xE8, CHR 0xAE, CHR 0xB0, CHR 0xE4, CHR 0xB8, CHR 0xBA, CHR 0xE6, CHR 0x97, CHR 0xA0, CHR 0xE5, CHR 0x85, CHR
        0xB3, CHR 0xE9, CHR 0x97, CHR 0xAE, CHR 0xE9, CHR 0xA2, CHR 0x98, CHR 0xE3, CHR 0x80, CHR 0x82],
      rt_deps = [2],
      rt_risk = ''low'',
      rt_stage = ''review'',
      rt_minutes = 10\<rparr>,
     \<lparr>rt_title =
        [CHR 0xE6, CHR 0x95, CHR 0xB4, CHR 0xE7, CHR 0x90, CHR 0x86, CHR 0xE4, CHR 0xBA, CHR 0xA4, CHR 0xE4, CHR
        0xBB, CHR 0x98, CHR 0xEF, CHR 0xBC, CHR 0x9A, CHR 0xE6, CHR 0x80, CHR 0xBB, CHR 0xE7, CHR 0xBB, CHR 0x93, CHR
        0xE5, CHR 0x8F, CHR 0x98, CHR 0xE6, CHR 0x9B, CHR 0xB4, CHR 0xE4, CHR 0xB8, CHR 0x8E, CHR 0xE5, CHR 0x90, CHR
        0x8E, CHR 0xE7, CHR 0xBB, CHR 0xAD, CHR 0xE9, CHR 0xA3, CHR 0x8E, CHR 0xE9, CHR 0x99, CHR 0xA9],
      rt_before =
        [CHR 0xE6, CHR 0xB1, CHR 0x87, CHR 0xE6, CHR 0x80, CHR 0xBB, CHR 0xE3, CHR 0x80, CHR 0x8C],
      rt_after =
        [CHR 0xE3, CHR 0x80, CHR 0x8D, CHR 0xE7, CHR 0x9A, CHR 0x84, CHR 0xE5, CHR 0xAE, CHR 0x9E, CHR 0xE7, CHR
        0x8E, CHR 0xB0, CHR 0xE7, CHR 0xBB, CHR 0x93, CHR 0xE6, CHR 0x9E, CHR 0x9C, CHR 0xE3, CHR 0x80, CHR 0x81, CHR
        0xE9, CHR 0xAA, CHR 0x8C, CHR 0xE8, CHR 0xAF, CHR 0x81, CHR 0xE7, CHR 0xBB, CHR 0x93, CHR 0xE6, CHR 0x9E, CHR
        0x9C, CHR 0xE5, CHR 0x92, CHR 0x8C, CHR 0xE5, CHR 0x89, CHR 0xA9, CHR 0xE4, CHR 0xBD, CHR 0x99, CHR 0xE9, CHR
        0xA3, CHR 0x8E, CHR 0xE9, CHR 0x99, CHR 0xA9, CHR 0xE3, CHR 0x80, CHR 0x82],
      rt_expected =
        [CHR 0xE4, CHR 0xBA, CHR 0xA4, CHR 0xE4, CHR 0xBB, CHR 0x98, CHR 0xE6, CHR 0x91, CHR 0x98, CHR 0xE8, CHR
        0xA6, CHR 0x81, CHR 0xEF, CHR 0xBC, CHR 0x8C, CHR 0xE5, CHR 0x8C, CHR 0x85, CHR 0xE5, CHR 0x90, CHR 0xAB, CHR
        0xE6, CHR 0x94, CHR 0xB9, CHR 0xE5, CHR 0x8A, CHR 0xA8, CHR 0xE6, CHR 0x96, CHR 0x87, CHR 0xE4, CHR 0xBB, CHR
        0xB6, CHR 0xE3, CHR 0x80, CHR 0x81, CHR 0xE9, CHR 0xAA, CHR 0x8C, CHR 0xE8, CHR 0xAF, CHR 0x81, CHR 0xE5, CHR
        0x91, CHR 0xBD, CHR 0xE4, CHR 0xBB, CHR 0xA4, CHR 0xE5, CHR 0x92, CHR 0x8C, CHR 0xE5, CHR 0x90, CHR 0x8E, CHR
        0xE7, CHR 0xBB, CHR 0xAD, CHR 0xE9, CHR 0xA3, CHR 0x8E, CHR 0xE9, CHR 0x99, CHR 0xA9, CHR 0xE3, CHR 0x80, CHR
        0x82],
      rt_verification =
        [CHR 0xE6, CHR 0x91, CHR 0x98, CHR 0xE8, CHR 0xA6, CHR 0x81, CHR 0xE4, CHR 0xB8, CHR 0xAD, CHR 0xE5, CHR
        0x8C, CHR 0x85, CHR 0xE5, CHR 0x90, CHR 0xAB, CHR 0xE8, CHR 0x87, CHR 0xB3, CHR 0xE5, CHR 0xB0, CHR 0x91, CHR
        0xE4, CHR 0xB8, CHR 0x80, CHR 0xE6, CHR 0x9D, CHR 0xA1, CHR 0xE9, CHR 0xAA, CHR 0x8C, CHR 0xE8, CHR 0xAF, CHR
        0x81, CHR 0xE8, CHR 0xAF, CHR 0x81, CHR 0xE6, CHR 0x8D, CHR 0xAE, CHR 0xEF, CHR 0xBC, CHR 0x8C, CHR 0xE5, CHR
        0xB9, CHR 0xB6, CHR 0xE5, CHR 0x88, CHR 0x97, CHR 0xE5, CHR 0x87, CHR 0xBA, CHR 0xE6, CHR 0x97, CHR 0xA0, CHR
        0xE9, CHR 0xAA, CHR 0x8C, CHR 0xE8, CHR 0xAF, CHR 0x81, CHR 0xE6, CHR 0x97, CHR 0xB6, CHR 0xE7, CHR 0x9A, CHR
        0x84, CHR 0xE5, CHR 0x8E, CHR 0x9F, CHR 0xE5, CHR 0x9B, CHR 0xA0, CHR 0xE3, CHR 0x80, CHR 0x82],
      rt_criteria =
        [CHR 0xE7, CHR 0x94, CHR 0xA8, CHR 0xE6, CHR 0x88, CHR 0xB7, CHR 0xE5, CHR 0x8F, CHR 0xAF, CHR 0xE4, CHR
        0xBB, CHR 0xA5, CHR 0xE6, CHR 0xA0, CHR 0xB9, CHR 0xE6, CHR 0x8D, CHR 0xAE, CHR 0xE6, CHR 0x91, CHR 0x98, CHR
        0xE8, CHR 0xA6, CHR 0x81, CHR 0xE5, CHR 0xA4, CHR 0x8D, CHR 0xE6, CHR 0x9F, CHR 0xA5, CHR 0xE6, CHR 0x94, CHR
        0xB9, CHR 0xE5, CHR 0x8A, CHR 0xA8, CHR 0xE5, CHR 0x92, CHR 0x8C, CHR 0xE9, CHR 0xAA, CHR 0x8C, CHR 0xE8, CHR
        0xAF, CHR 0x81, CHR 0xE7, CHR 0xBB, CHR 0x93, CHR 0xE6, CHR 0x9E, CHR 0x9C, CHR 0xE3, CHR 0x80, CHR 0x82],
      rt_deps = [3],
      rt_risk = ''low'',
      rt_stage = ''finalize'',
      rt_minutes = 5\<rparr>]"

definition deployment_templates :: "rule_template list" where
  "deployment_templates = [
     \<lparr>rt_title =
        [CHR 0xE6, CHR 0xA3, CHR 0x80, CHR 0xE6, CHR 0x9F, CHR 0xA5, CHR 0xE7, CHR 0x8E, CHR 0xAF, CHR 0xE5, CHR
        0xA2, CHR 0x83, CHR 0xEF, CHR 0xBC, CHR 0x9A, CHR 0xE7, CHR 0xA1, CHR 0xAE, CHR 0xE8, CHR 0xAE, CHR 0xA4, CHR
        0xE8, CHR 0xBF, CHR 0x90, CHR 0xE8, CHR 0xA1, CHR 0x8C, CHR 0xE6, CHR 0x97, CHR 0xB6, CHR 0xE3, CHR 0x80, CHR
        0x81, CHR 0xE8, CHR 0xB7, CHR 0xAF, CHR 0xE5, CHR 0xBE, CHR 0x84, CHR 0xE4, CHR 0xB8, CHR 0x8E, CHR 0xE6, CHR
        0x9D, CHR 0x83, CHR 0xE9, CHR 0x99, CHR 0x90],
      rt_before =
        [CHR 0xE6, CHR 0xA3, CHR 0x80, CHR 0xE6, CHR 0x9F, CHR 0xA5, CHR 0xE3, CHR 0x80, CHR 0x8C],
      rt_after =
        [CHR 0xE3, CHR 0x80, CHR 0x8D, CHR 0xE9, CHR 0x9C, CHR 0x80, CHR 0xE8, CHR 0xA6, CHR 0x81, CHR 0xE7, CHR
        0x9A, CHR 0x84, CHR 0xE8, CHR 0xBF, CHR 0x90, CHR 0xE8, CHR 0xA1, CHR 0x8C, CHR 0xE6, CHR 0x97, CHR 0xB6, CHR
        0xE3, CHR 0x80, CHR 0x81, CHR 0xE6, CHR 0x96, CHR 0x87, CHR 0xE4, CHR 0xBB, CHR 0xB6, CHR 0xE8, CHR 0xB7, CHR
        0xAF, CHR 0xE5, CHR 0xBE, CHR 0x84, CHR 0xE3, CHR 0x80, CHR 0x81, CHR 0xE6, CHR 0x9D, CHR 0x83, CHR 0xE9, CHR
        0x99, CHR 0x90, CHR 0xE5, CHR 0x92, CHR 0x8C, CHR 0xE9, CHR 0x9A, CHR 0x90, CHR 0xE7, CHR 0xA7, CHR 0x81, CHR
        0xE8, CHR 0xBE, CHR 0xB9, CHR 0xE7, CHR 0x95, CHR 0x8C, CHR 0xE3, CHR 0x80, CHR 0x82],
      rt_expected =
        [CHR 0xE7, CHR 0x8E, CHR 0xAF, CHR 0xE5, CHR 0xA2, CHR 0x83, CHR 0xE6, CHR 0xA3, CHR 0x80, CHR 0xE6, CHR
        0x9F, CHR 0xA5, CHR 0xE8, CHR 0xAE, CHR 0xB0, CHR 0xE5, CHR 0xBD, CHR 0x95, CHR 0xEF, CHR 0xBC, CHR 0x8C, CHR
        0xE5, CHR 0x8C, CHR 0x85, CHR 0xE5, CHR 0x90, CHR 0xAB, CHR 0xE8, CHR 0xB7, CHR 0xAF, CHR 0xE5, CHR 0xBE, CHR
        0x84, CHR 0xE3, CHR 0x80, CHR 0x81, CHR 0xE6, CHR 0x9D, CHR 0x83, CHR 0xE9, CHR 0x99, CHR 0x90, CHR 0xE3, CHR
        0x80, CHR 0x81, CHR 0xE7, CHR 0xBD, CHR 0x91, CHR 0xE7, CHR 0xBB, CHR 0x9C, CHR 0xE6, CHR 0x88, CHR 0x96, CHR
        0xE5, CHR 0x87, CHR 0xBA, CHR 0xE7, CHR 0xAB, CHR 0x99, CHR 0xE9, CHR 0x9C, CHR 0x80, CHR 0xE6, CHR 0xB1, CHR
        0x82, CHR 0xE3, CHR 0x80, CHR 0x82],
      rt_verification =
        [CHR 0xE9, CHR 0x80, CHR 0x90, CHR 0xE9, CHR 0xA1, CHR 0xB9, CHR 0xE7, CHR 0xA1, CHR 0xAE, CHR 0xE8, CHR
        0xAE, CHR 0xA4, CHR 0xE7, CHR 0x8E, CHR 0xAF, CHR 0xE5, CHR 0xA2, CHR 0x83, CHR 0xE6, CHR 0xA3, CHR 0x80, CHR
        0xE6, CHR 0x9F, CHR 0xA5, CHR 0xE8, CHR 0xAE, CHR 0xB0, CHR 0xE5, CHR 0xBD, CHR 0x95, CHR 0xE4, CHR 0xB8, CHR
        0xAD, CHR 0xE7, CHR 0x9A, CHR 0x84, CHR 0xE5, CHR 0x89, CHR 0x8D, CHR 0xE7, CHR 0xBD, CHR 0xAE, CHR 0xE6, CHR
        0x9D, CHR 0xA1, CHR 0xE4, CHR 0xBB, CHR 0xB6, CHR 0xE6, CHR 0x98, CHR 0xAF, CHR 0xE5, CHR 0x90, CHR 0xA6, CHR
        0xE6, CHR 0xBB, CHR 0xA1, CHR 0xE8, CHR 0xB6, CHR 0xB3, CHR 0xE3, CHR 0x80, CHR 0x82],
      rt_criteria =
        [CHR 0xE9, CHR 0x98, CHR 0xBB, CHR 0xE6, CHR 0x96, CHR 0xAD, CHR 0xE9, CHR 0xA1, CHR 0xB9, CHR 0xE5, CHR
        0xB7, CHR 0xB2, CHR 0xE5, CHR 0x88, CHR 0x97, CHR 0xE5, CHR 0x87, CHR 0xBA, CHR 0xEF, CHR 0xBC, CHR 0x8C, CHR
        0xE6, CHR 0xB6, CHR 0x89, CHR 0xE5, CHR 0x8F, CHR 0x8A, CHR 0xE5, CHR 0x87, CHR 0xBA, CHR 0xE7, CHR 0xAB, CHR
        0x99, CHR 0xE6, CHR 0x88, CHR 0x96, CHR 0xE9, CHR 0xAB, CHR 0x98, CHR 0xE9, CHR 0xA3, CHR 0x8E, CHR 0xE9, CHR
        0x99, CHR 0xA9, CHR 0xE6, CHR 0x93, CHR 0x8D, CHR 0xE4, CHR 0xBD, CHR 0x9C, CHR 0xE5, CHR 0xB7, CHR 0xB2, CHR
        0xE6, CHR 0xA0, CHR 0x87, CHR 0xE6, CHR 0x98, CHR 0x8E] @ '' consent '' @ [CHR 0xE9, CHR 0x9C, CHR 0x80, CHR
        0xE6, CHR 0xB1, CHR 0x82, CHR 0xE3, CHR 0x80, CHR 0x82],
      rt_deps = [],
      rt_risk = ''low'',
      rt_stage = ''brainstorming'',
      rt_minutes = 5\<rparr>,
     \<lparr>rt_title =
        [CHR 0xE5, CHR 0x87, CHR 0x86, CHR 0xE5, CHR 0xA4, CHR 0x87, CHR 0xE4, CHR 0xBE, CHR 0x9D, CHR 0xE8, CHR
        0xB5, CHR 0x96, CHR 0xEF, CHR 0xBC, CHR 0x9A, CHR 0xE4, CHR 0xB8, CHR 0x8B, CHR 0xE8, CHR 0xBD, CHR 0xBD, CHR
        0xE6, CHR 0x88, CHR 0x96, CHR 0xE5, CHR 0xAE, CHR 0x9A, CHR 0xE4, CHR 0xBD, CHR 0x8D, CHR 0xE6, CHR 0x89, CHR
        0x80, CHR 0xE9, CHR 0x9C, CHR 0x80, CHR 0xE7, CHR 0xBB, CHR 0x84, CHR 0xE4, CHR 0xBB, CHR 0xB6],
      rt_before =
        [CHR 0xE5, CHR 0x87, CHR 0x86, CHR 0xE5, CHR 0xA4, CHR 0x87, CHR 0xE3, CHR 0x80, CHR 0x8C],
      rt_after =
        [CHR 0xE3, CHR 0x80, CHR 0x8D, CHR 0xE6, CHR 0x89, CHR 0x80, CHR 0xE9, CHR 0x9C, CHR 0x80, CHR 0xE4, CHR
        0xBE, CHR 0x9D, CHR 0xE8, CHR 0xB5, CHR 0x96, CHR 0xEF, CHR 0xBC, CHR 0x8C, CHR 0xE4, CHR 0xBC, CHR 0x98, CHR
        0xE5, CHR 0x85, CHR 0x88, CHR 0xE4, CHR 0xBD, CHR 0xBF, CHR 0xE7, CHR 0x94, CHR 0xA8, CHR 0xE6, CHR 0x9C, CHR
        0xAC, CHR 0xE5, CHR 0x9C, CHR 0xB0, CHR 0xE5, CHR 0xB7, CHR 0xB2, CHR 0xE6, CHR 0x9C, CHR 0x89, CHR 0xE8, CHR
        0xB5, CHR 0x84, CHR 0xE6, CHR 0xBA, CHR 0x90, CHR 0xE3, CHR 0x80, CHR 0x82],
      rt_expected =
        [CHR 0xE4, CHR 0xBE, CHR 0x9D, CHR 0xE8, CHR 0xB5, CHR 0x96, CHR 0xE6, CHR 0xB8, CHR 0x85, CHR 0xE5, CHR
        0x8D, CHR 0x95, CHR 0xE5, CHR 0x8F, CHR 0x8A, CHR 0xE6, CHR 0x9D, CHR 0xA5, CHR 0xE6, CHR 0xBA, CHR 0x90, CHR
        0xEF, CHR 0xBC, CHR 0x8C, CHR 0xE5, CHR 0x8C, CHR 0x85, CHR 0xE5, CHR 0x90, CHR 0xAB, CHR 0xE6, CHR 0x9C, CHR
        0xAC, CHR 0xE5, CHR 0x9C, CHR 0xB0, CHR 0xE8, CHR 0xB7, CHR 0xAF, CHR 0xE5, CHR 0xBE, CHR 0x84, CHR 0xE6, CHR
        0x88, CHR 0x96, CHR 0xE7, CHR 0xBB, CHR 0x8F, CHR 0xE8, CHR 0xBF, CHR 0x87, CHR 0xE5, CHR 0x90, CHR 0x8C, CHR
        0xE6, CHR 0x84, CHR 0x8F, CHR 0xE7, CHR 0x9A, CHR 0x84, CHR 0xE4, CHR 0xB8, CHR 0x8B, CHR 0xE8, CHR 0xBD, CHR
        0xBD, CHR 0xE6, CHR 0x9D, CHR 0xA5, CHR 0xE6, CHR 0xBA, CHR 0x90, CHR 0xE3, CHR 0x80, CHR 0x82],
      rt_verification =
        [CHR 0xE6, CHR 0xA3, CHR 0x80, CHR 0xE6, CHR 0x9F, CHR 0xA5, CHR 0xE4, CHR 0xBE, CHR 0x9D, CHR 0xE8, CHR
        0xB5, CHR 0x96, CHR 0xE6, CHR 0x96, CHR 0x87, CHR 0xE4, CHR 0xBB, CHR 0xB6, CHR 0xE5, CHR 0xAD, CHR 0x98, CHR
        0xE5, CHR 0x9C, CHR 0xA8, CHR 0xE3, CHR 0x80, CHR 0x81, CHR 0xE7, CHR 0x89, CHR 0x88, CHR 0xE6, CHR 0x9C, CHR
        0xAC, CHR 0xE7, CHR 0xAC, CHR 0xA6, CHR 0xE5, CHR 0x90, CHR 0x88, CHR 0xE8, CHR 0xA6, CHR 0x81, CHR 0xE6, CHR
        0xB1, CHR 0x82, CHR 0xEF, CHR 0xBC, CHR 0x8C, CHR 0xE6, CHR 0x88, CHR 0x96, CHR 0xE8, CHR 0xAE, CHR 0xB0, CHR
        0xE5, CHR 0xBD, CHR 0x95, CHR 0xE6, CHR 0x97, CHR 0xA0, CHR 0xE6, CHR 0xB3, CHR 0x95, CHR 0xE8, CHR 0x8E, CHR
        0xB7, CHR 0xE5, CHR 0x8F, CHR 0x96, CHR 0xE7, CHR 0x9A, CHR 0x84, CHR 0xE5, CHR 0x8E, CHR 0x9F, CHR 0xE5, CHR
        0x9B, CHR 0xA0, CHR 0xE3, CHR 0x80, CHR 0x82],
      rt_criteria =
        [CHR 0xE4, CHR 0xBE, CHR 0x9D, CHR 0xE8, CHR 0xB5, CHR 0x96, CHR 0xE6, CHR 0x9D, CHR 0xA5, CHR 0xE6, CHR
        0xBA, CHR 0x90, CHR 0xE5, CHR 0x8F, CHR 0xAF, CHR 0xE8, CHR 0xBF, CHR 0xBD, CHR 0xE6, CHR 0xBA, CHR 0xAF, CHR
        0xEF, CHR 0xBC, CHR 0x8C, CHR 0xE4, CHR 0xB8, CHR 0x8D, CHR 0xE5, CHR 0xAD, CHR 0x98, CHR 0xE5, CHR 0x9C, CHR
        0xA8, CHR 0xE6, CHR 0x9C, CHR 0xAA, CHR 0xE7, CHR 0xBB, CHR 0x8F, CHR 0xE5, CHR 0x90, CHR 0x8C, CHR 0xE6, CHR
        0x84, CHR 0x8F, CHR 0xE7, CHR 0x9A, CHR 0x84, CHR 0xE9, CHR 0x9D, CHR 0x99, CHR 0xE9, CHR 0xBB, CHR 0x98, CHR
        0xE5, CHR 0x87, CHR 0xBA, CHR 0xE7, CHR 0xAB, CHR 0x99, CHR 0xE3, CHR 0x80, CHR 0x82],
      rt_deps = [0],
      rt_risk = ''medium'',
      rt_stage = ''planning'',
      rt_minutes = 15\<rparr>,
     \<lparr>rt_title =
        [CHR 0xE6, CHR 0x89, CHR 0xA7, CHR 0xE8, CHR 0xA1, CHR 0x8C, CHR 0xE5, CHR 0x8F, CHR 0x98, CHR 0xE6, CHR
        0x9B, CHR 0xB4, CHR 0xEF, CHR 0xBC, CHR 0x9A, CHR 0xE4, CHR 0xBF, CHR 0xAE, CHR 0xE6, CHR 0x94, CHR 0xB9, CHR
        0xE7, CHR 0xB3, CHR 0xBB, CHR 0xE7, CHR 0xBB, CHR 0x9F, CHR 0xE6, CHR 0x88, CHR 0x96, CHR 0xE6, CHR 0x9C, CHR
        0x8D, CHR 0xE5, CHR 0x8A, CHR 0xA1, CHR 0xE9, CHR 0x85, CHR 0x8D, CHR 0xE7, CHR 0xBD, CHR 0xAE],
      rt_before =
        [CHR 0xE5, CHR 0x9C, CHR 0xA8, CHR 0xE6, CHR 0x8E, CHR 0x88, CHR 0xE6, CHR 0x9D, CHR 0x83, CHR 0xE8, CHR
        0x8C, CHR 0x83, CHR 0xE5, CHR 0x9B, CHR 0xB4, CHR 0xE5, CHR 0x86, CHR 0x85, CHR 0xE6, CHR 0x89, CHR 0xA7, CHR
        0xE8, CHR 0xA1, CHR 0x8C, CHR 0xE3, CHR 0x80, CHR 0x8C],
      rt_after =
        [CHR 0xE3, CHR 0x80, CHR 0x8D, CHR 0xE6, CHR 0xB6, CHR 0x89, CHR 0xE5, CHR 0x8F, CHR 0x8A, CHR 0xE7, CHR
        0x9A, CHR 0x84, CHR 0xE5, CHR 0xAE, CHR 0x89, CHR 0xE8, CHR 0xA3, CHR 0x85, CHR 0xE3, CHR 0x80, CHR 0x81, CHR
        0xE9, CHR 0x83, CHR 0xA8, CHR 0xE7, CHR 0xBD, CHR 0xB2, CHR 0xE6, CHR 0x88, CHR 0x96, CHR 0xE9, CHR 0x85, CHR
        0x8D, CHR 0xE7, CHR 0xBD, CHR 0xAE, CHR 0xE5, CHR 0x8F, CHR 0x98, CHR 0xE6, CHR 0x9B, CHR 0xB4, CHR 0xE3, CHR
        0x80, CHR 0x82],
      rt_expected =
        [CHR 0xE5, CHR 0xAE, CHR 0x8C, CHR 0xE6, CHR 0x88, CHR 0x90, CHR 0xE7, CHR 0x9A, CHR 0x84, CHR 0xE9, CHR
        0x85, CHR 0x8D, CHR 0xE7, CHR 0xBD, CHR 0xAE, CHR 0xE6, CHR 0x88, CHR 0x96, CHR 0xE9, CHR 0x83, CHR 0xA8, CHR
        0xE7, CHR 0xBD, CHR 0xB2, CHR 0xE5, CHR 0x8F, CHR 0x98, CHR 0xE6, CHR 0x9B, CHR 0xB4, CHR 0xE8, CHR 0xAE, CHR
        0xB0, CHR 0xE5, CHR 0xBD, CHR 0x95, CHR 0xE3, CHR 0x80, CHR 0x82],
      rt_verification =
        [CHR 0xE6, CHR 0xA3, CHR 0x80, CHR 0xE6, CHR 0x9F, CHR 0xA5, CHR 0xE7, CHR 0x9B, CHR 0xAE, CHR 0xE6, CHR
        0xA0, CHR 0x87, CHR 0xE6, CHR 0x9C, CHR 0x8D, CHR 0xE5, CHR 0x8A, CHR 0xA1, CHR 0xE3, CHR 0x80, CHR 0x81, CHR
        0xE6, CHR 0x96, CHR 0x87, CHR 0xE4, CHR 0xBB, CHR 0xB6, CHR 0xE6, CHR 0x88, CHR 0x96, CHR 0xE9, CHR 0x85, CHR
        0x8D, CHR 0xE7, CHR 0xBD, CHR 0xAE, CHR 0xE9, CHR 0xA1, CHR 0xB9, CHR 0xE8, CHR 0xBE, CHR 0xBE, CHR 0xE5, CHR
        0x88, CHR 0xB0, CHR 0xE9, CHR 0xA2, CHR 0x84, CHR 0xE6, CHR 0x9C, CHR 0x9F, CHR 0xE7, CHR 0x8A, CHR 0xB6, CHR
        0xE6, CHR 0x80, CHR 0x81, CHR 0xE3, CHR 0x80, CHR 0x82],
      rt_criteria =
        [CHR 0xE5, CHR 0x8F, CHR 0x98, CHR 0xE6, CHR 0x9B, CHR 0xB4, CHR 0xE5, CHR 0xB7, CHR 0xB2, CHR 0xE5, CHR
        0xAE, CHR 0x8C, CHR 0xE6, CHR 0x88, CHR 0x90, CHR 0xEF, CHR 0xBC, CHR 0x8C, CHR 0xE9, CHR 0xAB, CHR 0x98, CHR
        0xE9, CHR 0xA3, CHR 0x8E, CHR 0xE9, CHR 0x99, CHR 0xA9, CHR 0xE6, CHR 0xAD, CHR 0xA5, CHR 0xE9, CHR 0xAA, CHR
        0xA4, CHR 0xE6, CHR 0x9C, CHR 0x89] @ '' consent '' @ [CHR 0xE8, CHR 0xAF, CHR 0x81, CHR 0xE6, CHR 0x8D, CHR
        0xAE, CHR 0xEF, CHR 0xBC, CHR 0x8C, CHR 0xE5, CHR 0xA4, CHR 0xB1, CHR 0xE8, CHR 0xB4, CHR 0xA5, CHR 0xE6, CHR
        0x97, CHR 0xB6, CHR 0xE4, CHR 0xBF, CHR 0x9D, CHR 0xE7, CHR 0x95, CHR 0x99, CHR 0xE9, CHR 0x94, CHR 0x99, CHR
        0xE8, CHR 0xAF, CHR 0xAF, CHR 0xE4, CHR 0xBF, CHR 0xA1, CHR 0xE6, CHR 0x81, CHR 0xAF, CHR 0xE3, CHR 0x80, CHR
        0x82],
      rt_deps = [1],
      rt_risk = ''high'',
      rt_stage = ''tdd'',
      rt_minutes = 30\<rparr>,
     \<lparr>rt_title =
        [CHR 0xE9, CHR 0xAA, CHR 0x8C, CHR 0xE8, CHR 0xAF, CHR 0x81, CHR 0xE7, CHR 0xBB, CHR 0x93, CHR 0xE6, CHR
        0x9E, CHR 0x9C, CHR 0xEF, CHR 0xBC, CHR 0x9A, CHR 0xE6, CHR 0xA3, CHR 0x80, CHR 0xE6, CHR 0x9F, CHR 0xA5, CHR
        0xE6, CHR 0x9C, CHR 0x8D, CHR 0xE5, CHR 0x8A, CHR 0xA1, CHR 0xE7, CHR 0x8A, CHR 0xB6, CHR 0xE6, CHR 0x80, CHR
        0x81, CHR 0xE4, CHR 0xB8, CHR 0x8E, CHR 0xE6, CHR 0x97, CHR 0xA5, CHR 0xE5, CHR 0xBF, CHR 0x97],
      rt_before =
        [CHR 0xE9, CHR 0xAA, CHR 0x8C, CHR 0xE8, CHR 0xAF, CHR 0x81, CHR 0xE3, CHR 0x80, CHR 0x8C],
      rt_after =
        [CHR 0xE3, CHR 0x80, CHR 0x8D, CHR 0xE5, CHR 0xAE, CHR 0x8C, CHR 0xE6, CHR 0x88, CHR 0x90, CHR 0xE5, CHR
        0x90, CHR 0x8E, CHR 0xE7, CHR 0x9A, CHR 0x84, CHR 0xE6, CHR 0x9C, CHR 0x8D, CHR 0xE5, CHR 0x8A, CHR 0xA1, CHR
        0xE7, CHR 0x8A, CHR 0xB6, CHR 0xE6, CHR 0x80, CHR 0x81, CHR 0xE3, CHR 0x80, CHR 0x81, CHR 0xE6, CHR 0x97, CHR
        0xA5, CHR 0xE5, CHR 0xBF, CHR 0x97, CHR 0xE5, CHR 0x92, CHR 0x8C, CHR 0xE5, CHR 0x9B, CHR 0x9E, CHR 0xE9, CHR
        0x80, CHR 0x80, CHR 0xE9, CHR 0xA3, CHR 0x8E, CHR 0xE9, CHR 0x99, CHR 0xA9, CHR 0xE3, CHR 0x80, CHR 0x82],
      rt_expected =
        [CHR 0xE9, CHR 0xAA, CHR 0x8C, CHR 0xE8, CHR 0xAF, CHR 0x81, CHR 0xE8, CHR 0xAE, CHR 0xB0, CHR 0xE5, CHR
        0xBD, CHR 0x95, CHR 0xEF, CHR 0xBC, CHR 0x8C, CHR 0xE5, CHR 0x8C, CHR 0x85, CHR 0xE5, CHR 0x90, CHR 0xAB, CHR
        0xE7, CHR 0x8A, CHR 0xB6, CHR 0xE6, CHR 0x80, CHR 0x81, CHR 0xE6, CHR 0xA3, CHR 0x80, CHR 0xE6, CHR 0x9F, CHR
        0xA5, CHR 0xE3, CHR 0x80, CHR 0x81, CHR 0xE6, CHR 0x97, CHR 0xA5, CHR 0xE5, CHR 0xBF, CHR 0x97, CHR 0xE6, CHR
        0x91, CHR 0x98, CHR 0xE8, CHR 0xA6, CHR 0x81, CHR 0xE5, CHR 0x92, CHR 0x8C, CHR 0xE5, CHR 0x89, CHR 0xA9, CHR
        0xE4, CHR 0xBD, CHR 0x99, CHR 0xE9, CHR 0xA3, CHR 0x8E, CHR 0xE9, CHR 0x99, CHR 0xA9, CHR 0xE3, CHR 0x80, CHR
        0x82],
      rt_verification =
        [CHR 0xE8, CHR 0xBF, CHR 0x90, CHR 0xE8, CHR 0xA1, CHR 0x8C, CHR 0xE7, CHR 0x8A, CHR 0xB6, CHR 0xE6, CHR
        0x80, CHR 0x81, CHR 0xE6, CHR 0xA3, CHR 0x80, CHR 0xE6, CHR 0x9F, CHR 0xA5, CHR 0xE5, CHR 0x91, CHR 0xBD, CHR
        0xE4, CHR 0xBB, CHR 0xA4, CHR 0xE6, CHR 0x88, CHR 0x96, CHR 0xE8, CHR 0xAF, CHR 0xBB, CHR 0xE5, CHR 0x8F, CHR
        0x96, CHR 0xE6, CHR 0x97, CHR 0xA5, CHR 0xE5, CHR 0xBF, CHR 0x97, CHR 0xEF, CHR 0xBC, CHR 0x8C, CHR 0xE7, CHR
        0xA1, CHR 0xAE, CHR 0xE8, CHR 0xAE, CHR 0xA4, CHR 0xE6, CHR 0xB2, CHR 0xA1, CHR 0xE6, CHR 0x9C, CHR 0x89, CHR
        0xE6, CHR 0x96, CHR 0xB0, CHR 0xE5, CHR 0xA2, CHR 0x9E, CHR 0xE9, CHR 0x94, CHR 0x99, CHR 0xE8, CHR 0xAF, CHR
        0xAF, CHR 0xE3, CHR 0x80, CHR 0x82],
      rt_criteria =
        [CHR 0xE5, CHR 0x85, CHR 0xB3, CHR 0xE9, CHR 0x94, CHR 0xAE, CHR 0xE6, CHR 0x9C, CHR 0x8D, CHR 0xE5, CHR
        0x8A, CHR 0xA1, CHR 0xE6, CHR 0x88, CHR 0x96, CHR 0xE9, CHR 0x85, CHR 0x8D, CHR 0xE7, CHR 0xBD, CHR 0xAE, CHR
        0xE7, CHR 0x8A, CHR 0xB6, CHR 0xE6, CHR 0x80, CHR 0x81, CHR 0xE7, CHR 0xAC, CHR 0xA6, CHR 0xE5, CHR 0x90, CHR
        0x88, CHR 0xE9, CHR 0xA2, CHR 0x84, CHR 0xE6, CHR 0x9C, CHR 0x9F, CHR 0xEF, CHR 0xBC, CHR 0x8C, CHR 0xE5, CHR
        0xBC, CHR 0x82, CHR 0xE5, CHR 0xB8, CHR 0xB8, CHR 0xE5, CHR 0xB7, CHR 0xB2, CHR 0xE8, CHR 0xAE, CHR 0xB0, CHR
        0xE5, CHR 0xBD, CHR 0x95, CHR 0xE5, CHR 0xB9, CHR 0xB6, CHR 0xE7, CHR 0xBB, CHR 0x99, CHR 0xE5, CHR 0x87, CHR
        0xBA, CHR 0xE5, CHR 0xA4, CHR 0x84, CHR 0xE7, CHR 0x90, CHR 0x86, CHR 0xE5, CHR 0xBB, CHR 0xBA, CHR 0xE8, CHR
        0xAE, CHR 0xAE, CHR 0xE3, CHR 0x80, CHR 0x82],
      rt_deps = [2],
      rt_risk = ''low'',
      rt_stage = ''finalize'',
      rt_minutes = 10\<rparr>]"

definition analysis_templates :: "rule_template list" where
  "analysis_templates = [
     \<lparr>rt_title =
        [CHR 0xE6, CHR 0x94, CHR 0xB6, CHR 0xE9, CHR 0x9B, CHR 0x86, CHR 0xE4, CHR 0xB8, CHR 0x8A, CHR 0xE4, CHR
        0xB8, CHR 0x8B, CHR 0xE6, CHR 0x96, CHR 0x87, CHR 0xEF, CHR 0xBC, CHR 0x9A, CHR 0xE6, CHR 0x95, CHR 0xB4, CHR
        0xE7, CHR 0x90, CHR 0x86, CHR 0xE7, CHR 0x9B, CHR 0xB8, CHR 0xE5, CHR 0x85, CHR 0xB3, CHR 0xE4, CHR 0xBB, CHR
        0xA3, CHR 0xE7, CHR 0xA0, CHR 0x81, CHR 0xE4, CHR 0xB8, CHR 0x8E, CHR 0xE6, CHR 0x95, CHR 0xB0, CHR 0xE6, CHR
        0x8D, CHR 0xAE],
      rt_before =
        [CHR 0xE5, CHR 0xAE, CHR 0x9A, CHR 0xE4, CHR 0xBD, CHR 0x8D, CHR 0xE4, CHR 0xB8, CHR 0x8E, CHR 0xE3, CHR
        0x80, CHR 0x8C],
      rt_after =
        [CHR 0xE3, CHR 0x80, CHR 0x8D, CHR 0xE7, CHR 0x9B, CHR 0xB8, CHR 0xE5, CHR 0x85, CHR 0xB3, CHR 0xE7, CHR
        0x9A, CHR 0x84, CHR 0xE6, CHR 0x96, CHR 0x87, CHR 0xE4, CHR 0xBB, CHR 0xB6, CHR 0xE3, CHR 0x80, CHR 0x81, CHR
        0xE6, CHR 0x95, CHR 0xB0, CHR 0xE6, CHR 0x8D, CHR 0xAE, CHR 0xE3, CHR 0x80, CHR 0x81, CHR 0xE6, CHR 0x97, CHR
        0xA5, CHR 0xE5, CHR 0xBF, CHR 0x97, CHR 0xE6, CHR 0x88, CHR 0x96, CHR 0xE6, CHR 0x96, CHR 0x87, CHR 0xE6, CHR
        0xA1, CHR 0xA3, CHR 0xE3, CHR 0x80, CHR 0x82],
      rt_expected =
        [CHR 0xE4, CHR 0xB8, CHR 0x8A, CHR 0xE4, CHR 0xB8, CHR 0x8B, CHR 0xE6, CHR 0x96, CHR 0x87, CHR 0xE6, CHR
        0xB8, CHR 0x85, CHR 0xE5, CHR 0x8D, CHR 0x95, CHR 0xEF, CHR 0xBC, CHR 0x8C, CHR 0xE5, CHR 0x8C, CHR 0x85, CHR
        0xE5, CHR 0x90, CHR 0xAB, CHR 0xE6, CHR 0x9D, CHR 0xA5, CHR 0xE6, CHR 0xBA, CHR 0x90, CHR 0xE8, CHR 0xB7, CHR
        0xAF, CHR 0xE5, CHR 0xBE, CHR 0x84, CHR 0xE5, CHR 0x92, CHR 0x8C, CHR 0xE5, CHR 0x85, CHR 0xB3, CHR 0xE9, CHR
        0x94, CHR 0xAE, CHR 0xE7, CHR 0x89, CHR 0x87, CHR 0xE6, CHR 0xAE, CHR 0xB5, CHR 0xE6, CHR 0x91, CHR 0x98, CHR
        0xE8, CHR 0xA6, CHR 0x81, CHR 0xE3, CHR 0x80, CHR 0x82],
      rt_verification =
        [CHR 0xE7, CHR 0xA1, CHR 0xAE, CHR 0xE8, CHR 0xAE, CHR 0xA4, CHR 0xE6, CHR 0xB8, CHR 0x85, CHR 0xE5, CHR
        0x8D, CHR 0x95, CHR 0xE4, CHR 0xB8, CHR 0xAD, CHR 0xE7, CHR 0x9A, CHR 0x84, CHR 0xE6, CHR 0x9D, CHR 0xA5, CHR
        0xE6, CHR 0xBA, CHR 0x90, CHR 0xE5, CHR 0x8F, CHR 0xAF, CHR 0xE8, CHR 0xAE, CHR 0xBF, CHR 0xE9, CHR 0x97, CHR
        0xAE, CHR 0xEF, CHR 0xBC, CHR 0x8C, CHR 0xE4, CHR 0xB8, CHR 0x94, CHR 0xE8, CHR 0xA6, CHR 0x86, CHR 0xE7, CHR
        0x9B, CHR 0x96, CHR 0xE7, CHR 0x94, CHR 0xA8, CHR 0xE6, CHR 0x88, CHR 0xB7, CHR 0xE9, CHR 0x97, CHR 0xAE, CHR
        0xE9, CHR 0xA2, CHR 0x98, CHR 0xE4, CHR 0xB8, CHR 0xAD, CHR 0xE7, CHR 0x9A, CHR 0x84, CHR 0xE5, CHR 0x85, CHR
        0xB3, CHR 0xE9, CHR 0x94, CHR 0xAE, CHR 0xE5, CHR 0xAF, CHR 0xB9, CHR 0xE8, CHR 0xB1, CHR 0xA1, CHR 0xE3, CHR
        0x80, CHR 0x82],
      rt_criteria =
        [CHR 0xE4, CHR 0xB8, CHR 0x8A, CHR 0xE4, CHR 0xB8, CHR 0x8B, CHR 0xE6, CHR 0x96, CHR 0x87, CHR 0xE8, CHR
        0xB6, CHR 0xB3, CHR 0xE4, CHR 0xBB, CHR 0xA5, CHR 0xE6, CHR 0x94, CHR 0xAF, CHR 0xE6, CHR 0x8C, CHR 0x81, CHR
        0xE5, CHR 0x90, CHR 0x8E, CHR 0xE7, CHR 0xBB, CHR 0xAD, CHR 0xE5, CHR 0x88, CHR 0xA4, CHR 0xE6, CHR 0x96, CHR
        0xAD, CHR 0xEF, CHR 0xBC, CHR 0x8C, CHR 0xE6, CHR 0xB2, CHR 0xA1, CHR 0xE6, CHR 0x9C, CHR 0x89, CHR 0xE6, CHR
        0x98, CHR 0x8E, CHR 0xE6, CHR 0x98, CHR 0xBE, CHR 0xE9, CHR 0x81, CHR 0x97, CHR 0xE6, CHR 0xBC, CHR 0x8F, CHR
        0xE7, CHR 0x9A, CHR 0x84, CHR 0xE4, CHR 0xB8, CHR 0xBB, CHR 0xE8, CHR 0xB7, CHR 0xAF, CHR 0xE5, CHR 0xBE, CHR
        0x84, CHR 0xE3, CHR 0x80, CHR 0x82],
      rt_deps = [],
      rt_risk = ''low'',
      rt_stage = ''brainstorming'',
      rt_minutes = 10\<rparr>,
     \<lparr>rt_title =
        [CHR 0xE7, CHR 0xBB, CHR 0x93, CHR 0xE6, CHR 0x9E, CHR 0x84, CHR 0xE5, CHR 0x8C, CHR 0x96, CHR 0xE5, CHR
        0x88, CHR 0x86, CHR 0xE6, CHR 0x9E, CHR 0x90, CHR 0xEF, CHR 0xBC, CHR 0x9A, CHR 0xE6, CHR 0x8F, CHR 0x90, CHR
        0xE5, CHR 0x8F, CHR 0x96, CHR 0xE5, CHR 0x85, CHR 0xB3, CHR 0xE9, CHR 0x94, CHR 0xAE, CHR 0xE4, CHR 0xBA, CHR
        0x8B, CHR 0xE5, CHR 0xAE, CHR 0x9E, CHR 0xE4, CHR 0xB8, CHR 0x8E, CHR 0xE5, CHR 0xB7, CHR 0xAE, CHR 0xE5, CHR
        0xBC, CHR 0x82],
      rt_before = [CHR 0xE5, CHR 0xAF, CHR 0xB9, CHR 0xE3, CHR 0x80, CHR 0x8C],
      rt_after =
        [CHR 0xE3, CHR 0x80, CHR 0x8D, CHR 0xE7, CHR 0x9B, CHR 0xB8, CHR 0xE5, CHR 0x85, CHR 0xB3, CHR 0xE4, CHR
        0xB8, CHR 0x8A, CHR 0xE4, CHR 0xB8, CHR 0x8B, CHR 0xE6, CHR 0x96, CHR 0x87, CHR 0xE8, CHR 0xBF, CHR 0x9B, CHR
        0xE8, CHR 0xA1, CHR 0x8C, CHR 0xE5, CHR 0xBD, CHR 0x92, CHR 0xE7, CHR 0xB1, CHR 0xBB, CHR 0xE3, CHR 0x80, CHR
        0x81, CHR 0xE5, CHR 0xAF, CHR 0xB9, CHR 0xE6, CHR 0xAF, CHR 0x94, CHR 0xE5, CHR 0x92, CHR 0x8C, CHR 0xE5, CHR
        0x9B, CHR 0xA0, CHR 0xE6, CHR 0x9E, CHR 0x9C, CHR 0xE5, CHR 0x88, CHR 0x86, CHR 0xE6, CHR 0x9E, CHR 0x90, CHR
        0xE3, CHR 0x80, CHR 0x82],
      rt_expected =
        [CHR 0xE7, CHR 0xBB, CHR 0x93, CHR 0xE6, CHR 0x9E, CHR 0x84, CHR 0xE5, CHR 0x8C, CHR 0x96, CHR 0xE5, CHR
        0x88, CHR 0x86, CHR 0xE6, CHR 0x9E, CHR 0x90, CHR 0xE7, CHR 0xBB, CHR 0x93, CHR 0xE6, CHR 0x9E, CHR 0x9C, CHR
        0xEF, CHR 0xBC, CHR 0x8C, CHR 0xE5, CHR 0x8C, CHR 0x85, CHR 0xE5, CHR 0x90, CHR 0xAB, CHR 0xE4, CHR 0xBA, CHR
        0x8B, CHR 0xE5, CHR 0xAE, CHR 0x9E, CHR 0xE3, CHR 0x80, CHR 0x81, CHR 0xE5, CHR 0xB7, CHR 0xAE, CHR 0xE5, CHR
        0xBC, CHR 0x82, CHR 0xE3, CHR 0x80, CHR 0x81, CHR 0xE9, CHR 0xA3, CHR 0x8E, CHR 0xE9, CHR 0x99, CHR 0xA9, CHR
        0xE5, CHR 0x92, CHR 0x8C, CHR 0xE6, CHR 0x8E, CHR 0xA8, CHR 0xE8, CHR 0xAE, CHR 0xBA, CHR 0xE8, CHR 0xBE, CHR
        0xB9, CHR 0xE7, CHR 0x95, CHR 0x8C, CHR 0xE3, CHR 0x80, CHR 0x82],
      rt_verification =
        [CHR 0xE6, CHR 0xAF, CHR 0x8F, CHR 0xE4, CHR 0xB8, CHR 0xAA, CHR 0xE5, CHR 0x85, CHR 0xB3, CHR 0xE9, CHR
        0x94, CHR 0xAE, CHR 0xE7, CHR 0xBB, CHR 0x93, CHR 0xE8, CHR 0xAE, CHR 0xBA, CHR 0xE9, CHR 0x83, CHR 0xBD, CHR
        0xE8, CHR 0x83, CHR 0xBD, CHR 0xE8, CHR 0xBF, CHR 0xBD, CHR 0xE6, CHR 0xBA, CHR 0xAF, CHR 0xE5, CHR 0x88, CHR
        0xB0, CHR 0xE4, CHR 0xB8, CHR 0x8A, CHR 0xE4, CHR 0xB8, CHR 0x8B, CHR 0xE6, CHR 0x96, CHR 0x87, CHR 0xE6, CHR
        0x9D, CHR 0xA5, CHR 0xE6, CHR 0xBA, CHR 0x90, CHR 0xE6, CHR 0x88, CHR 0x96, CHR 0xE6, CHR 0x98, CHR 0x8E, CHR
        0xE7, CHR 0xA1, CHR 0xAE, CHR 0xE6, CHR 0xA0, CHR 0x87, CHR 0xE8, CHR 0xAE, CHR 0xB0, CHR 0xE4, CHR 0xB8, CHR
        0xBA, CHR 0xE6, CHR 0x8E, CHR 0xA8, CHR 0xE8, CHR 0xAE, CHR 0xBA, CHR 0xE3, CHR 0x80, CHR 0x82],
      rt_criteria =
        [CHR 0xE4, CHR 0xBA, CHR 0x8B, CHR 0xE5, CHR 0xAE, CHR 0x9E, CHR 0xE4, CHR 0xB8, CHR 0x8E, CHR 0xE6, CHR
        0x8E, CHR 0xA8, CHR 0xE8, CHR 0xAE, CHR 0xBA, CHR 0xE5, CHR 0x88, CHR 0x86, CHR 0xE7, CHR 0xA6, CHR 0xBB, CHR
        0xEF, CHR 0xBC, CHR 0x8C, CHR 0xE9, CHR 0xA3, CHR 0x8E, CHR 0xE9, CHR 0x99, CHR 0xA9, CHR 0xE9, CHR 0xA1, CHR
        0xB9, CHR 0xE6, CHR 0x9C, CHR 0x89, CHR 0xE4, CHR 0xBC, CHR 0x98, CHR 0xE5, CHR 0x85, CHR 0x88, CHR 0xE7, CHR
        0xBA, CHR 0xA7, CHR 0xE3, CHR 0x80, CHR 0x82],
      rt_deps = [0],
      rt_risk = ''low'',
      rt_stage = ''planning'',
      rt_minutes = 20\<rparr>,
     \<lparr>rt_title =
        [CHR 0xE8, CHR 0xBE, CHR 0x93, CHR 0xE5, CHR 0x87, CHR 0xBA, CHR 0xE7, CHR 0xBB, CHR 0x93, CHR 0xE8, CHR
        0xAE, CHR 0xBA, CHR 0xEF, CHR 0xBC, CHR 0x9A, CHR 0xE7, CHR 0xBB, CHR 0x99, CHR 0xE5, CHR 0x87, CHR 0xBA, CHR
        0xE5, CHR 0x88, CHR 0xA4, CHR 0xE6, CHR 0x96, CHR 0xAD, CHR 0xE5, CHR 0x92, CHR 0x8C, CHR 0xE5, CHR 0xBB, CHR
        0xBA, CHR 0xE8, CHR 0xAE, CHR 0xAE, CHR 0xE8, CHR 0xB7, CHR 0xAF, CHR 0xE5, CHR 0xBE, CHR 0x84],
      rt_before =
        [CHR 0xE5, CHR 0x9F, CHR 0xBA, CHR 0xE4, CHR 0xBA, CHR 0x8E, CHR 0xE5, CHR 0x88, CHR 0x86, CHR 0xE6, CHR
        0x9E, CHR 0x90, CHR 0xE7, CHR 0xBB, CHR 0x99, CHR 0xE5, CHR 0x87, CHR 0xBA, CHR 0xE3, CHR 0x80, CHR 0x8C],
      rt_after =
        [CHR 0xE3, CHR 0x80, CHR 0x8D, CHR 0xE7, CHR 0x9A, CHR 0x84, CHR 0xE7, CHR 0xBB, CHR 0x93, CHR 0xE8, CHR
        0xAE, CHR 0xBA, CHR 0xE3, CHR 0x80, CHR 0x81, CHR 0xE5, CHR 0xBB, CHR 0xBA, CHR 0xE8, CHR 0xAE, CHR 0xAE, CHR
        0xE5, CHR 0x92, CHR 0x8C, CHR 0xE4, CHR 0xB8, CHR 0x8B, CHR 0xE4, CHR 0xB8, CHR 0x80, CHR 0xE6, CHR 0xAD, CHR
        0xA5, CHR 0xE8, CHR 0xA1, CHR 0x8C, CHR 0xE5, CHR 0x8A, CHR 0xA8, CHR 0xE3, CHR 0x80, CHR 0x82],
      rt_expected =
        [CHR 0xE7, CHR 0xBB, CHR 0x93, CHR 0xE8, CHR 0xAE, CHR 0xBA, CHR 0xE6, CHR 0x91, CHR 0x98, CHR 0xE8, CHR
        0xA6, CHR 0x81, CHR 0xEF, CHR 0xBC, CHR 0x8C, CHR 0xE5, CHR 0x8C, CHR 0x85, CHR 0xE5, CHR 0x90, CHR 0xAB, CHR
        0xE5, CHR 0xBB, CHR 0xBA, CHR 0xE8, CHR 0xAE, CHR 0xAE, CHR 0xE8, CHR 0xB7, CHR 0xAF, CHR 0xE5, CHR 0xBE, CHR
        0x84, CHR 0xE3, CHR 0x80, CHR 0x81, CHR 0xE8, CHR 0xAF, CHR 0x81, CHR 0xE6, CHR 0x8D, CHR 0xAE, CHR 0xE5, CHR
        0x92, CHR 0x8C, CHR 0xE6, CHR 0x9C, CHR 0xAA, CHR 0xE5, CHR 0x86, CHR 0xB3, CHR 0xE9, CHR 0x97, CHR 0xAE, CHR
        0xE9, CHR 0xA2, CHR 0x98, CHR 0xE3, CHR 0x80, CHR 0x82],
      rt_verification =
        [CHR 0xE7, CHR 0xBB, CHR 0x93, CHR 0xE8, CHR 0xAE, CHR 0xBA, CHR 0xE8, CHR 0xA6, CHR 0x86, CHR 0xE7, CHR
        0x9B, CHR 0x96, CHR 0xE7, CHR 0x94, CHR 0xA8, CHR 0xE6, CHR 0x88, CHR 0xB7, CHR 0xE9, CHR 0x97, CHR 0xAE, CHR
        0xE9, CHR 0xA2, CHR 0x98, CHR 0xEF, CHR 0xBC, CHR 0x8C, CHR 0xE5, CHR 0xB9, CHR 0xB6, CHR 0xE5, CHR 0x88, CHR
        0x97, CHR 0xE5, CHR 0x87, CHR 0xBA, CHR 0xE8, CHR 0x87, CHR 0xB3, CHR 0xE5, CHR 0xB0, CHR 0x91, CHR 0xE4, CHR
        0xB8, CHR 0x80, CHR 0xE9, CHR 0xA1, CHR 0xB9, CHR 0xE5, CHR 0x8F, CHR 0xAF, CHR 0xE6, CHR 0x89, CHR 0xA7, CHR
        0xE8, CHR 0xA1, CHR 0x8C, CHR 0xE4, CHR 0xB8, CHR 0x8B, CHR 0xE4, CHR 0xB8, CHR 0x80, CHR 0xE6, CHR 0xAD, CHR
        0xA5, CHR 0xE3, CHR 0x80, CHR 0x82],
      rt_criteria =
        [CHR 0xE5, CHR 0xBB, CHR 0xBA, CHR 0xE8, CHR 0xAE, CHR 0xAE, CHR 0xE5, CHR 0x8F, CHR 0xAF, CHR 0xE6, CHR
        0x89, CHR 0xA7, CHR 0xE8, CHR 0xA1, CHR 0x8C, CHR 0xEF, CHR 0xBC, CHR 0x8C, CHR 0xE8, CHR 0xAF, CHR 0x81, CHR
        0xE6, CHR 0x8D, CHR 0xAE, CHR 0xE5, CHR 0x85, CHR 0x85, CHR 0xE5, CHR 0x88, CHR 0x86, CHR 0xEF, CHR 0xBC, CHR
        0x8C, CHR 0xE6, CHR 0x9C, CHR 0xAA, CHR 0xE5, CHR 0x86, CHR 0xB3, CHR 0xE9, CHR 0x97, CHR 0xAE, CHR 0xE9, CHR
        0xA2, CHR 0x98, CHR 0xE4, CHR 0xB8, CHR 0x8D, CHR 0xE8, CHR 0xA2, CHR 0xAB, CHR 0xE5, CHR 0x8C, CHR 0x85, CHR
        0xE8, CHR 0xA3, CHR 0x85, CHR 0xE6, CHR 0x88, CHR 0x90, CHR 0xE4, CHR 0xBA, CHR 0x8B, CHR 0xE5, CHR 0xAE, CHR
        0x9E, CHR 0xE3, CHR 0x80, CHR 0x82],
      rt_deps = [1],
      rt_risk = ''low'',
      rt_stage = ''finalize'',
      rt_minutes = 10\<rparr>]"

definition rule_decompose :: "string \<Rightarrow> pyval dict list option" where
  "rule_decompose goal =
    (if contains_any coding_keywords goal then Some (map (rule_step goal) coding_templates)
     else if contains_any deployment_keywords goal then Some (map (rule_step goal) deployment_templates)
     else if contains_any analysis_keywords goal then Some (map (rule_step goal) analysis_templates)
     else None)"

end
