(* ===== verification/Llm_Decomposer.thy ===== *)
theory Llm_Decomposer
  imports Plan_Templates Sample_Retriever
begin

text \<open>
  Asking a model for the steps of a plan (\<open>core/llm_decomposer.py\<close>): the prompt, the call, the
  reading of the answer and its checks. The model, streaming or not, and \<open>json.loads\<close> are
  functions; a model may answer differently each time, so it gets the number of the call. The
  state keeps a log of what was asked and of what the callbacks were given.
\<close>

section \<open>State\<close>

record llm_request =
  rq_system :: string
  rq_user :: string

text \<open>A backend with \<open>generate_stream\<close> and a plain method, with a plain method alone, or with neither.\<close>

datatype llm_backend =
    Streaming "nat \<Rightarrow> llm_request \<Rightarrow> string list \<times> exn option" "nat \<Rightarrow> llm_request \<Rightarrow> exn + string"
  | Blocking "nat \<Rightarrow> llm_request \<Rightarrow> exn + string"
  | Unusable

datatype decomposer_event = Asked llm_request | Delta string | AttemptComplete | RetryNotice

record decomposer =
  dc_skill :: "string option"
  dc_stages :: "string list"
  dc_source :: "string option"
  dc_samples :: "string list"
  dc_candidate :: "string option"
  dc_library :: sample_world
  dc_calls :: nat
  dc_log :: "decomposer_event list"

record decomposer_env = retriever_env +
  de_llm :: "llm_backend option"
  de_json :: "string \<Rightarrow> pyval option"
  de_skill :: "(string \<Rightarrow> exn + string option \<times> string list) option"
  de_learning :: "(exn + bool) option"
  de_retriever :: bool
  de_lifecycle :: bool
  de_low :: pyfloat
  de_high :: pyfloat
  de_methods :: "string list"
  de_algorithms :: "string list dict"
  de_triggers :: "string list dict"
  de_punct :: "string \<Rightarrow> bool"

definition log_events :: "decomposer_event list \<Rightarrow> decomposer \<Rightarrow> decomposer" where
  "log_events es d = d\<lparr>dc_log := dc_log d @ es\<rparr>"

section \<open>The call\<close>

definition call_llm_backend :: "llm_backend \<Rightarrow> bool \<Rightarrow> llm_request \<Rightarrow> decomposer \<Rightarrow> (exn + string) \<times> decomposer" where
  "call_llm_backend backend stream rq d =
    (let n = dc_calls d; asked = log_events [Asked rq] (d\<lparr>dc_calls := Suc n\<rparr>);
         whole = (\<lambda>f. case f n rq of
             Inl e \<Rightarrow> (Inl e, asked)
           | Inr t \<Rightarrow> (Inr t, if stream \<and> t \<noteq> [] then log_events [Delta t] asked else asked))
     in case backend of
       Streaming s f \<Rightarrow> if stream then
           (let (chunks, stop) = s n rq; chunks = filter (\<lambda>t. t \<noteq> []) chunks; heard = log_events (map Delta chunks) asked
            in case stop of Some e \<Rightarrow> (Inl e, heard) | None \<Rightarrow> (Inr (concat chunks), heard))
         else whole f
     | Blocking f \<Rightarrow> whole f
     | Unusable \<Rightarrow> (Inl (Exn TypeError ''llm_backend must provide chat() or generate()''), d))"

section \<open>The prompt\<close>

definition DECOMPOSE_SYSTEM_PROMPT :: string where
  "DECOMPOSE_SYSTEM_PROMPT =
     ([CHR 0xE4, CHR 0xBD, CHR 0xA0, CHR 0xE6, CHR 0x98, CHR 0xAF, CHR 0xE4, CHR 0xB8, CHR 0x80, CHR 0xE4, CHR 0xB8,
     CHR 0xAA, CHR 0xE4, CHR 0xBB, CHR 0xBB, CHR 0xE5, CHR 0x8A, CHR 0xA1, CHR 0xE6, CHR 0x8B, CHR 0x86, CHR 0xE8,
     CHR 0xA7, CHR 0xA3, CHR 0xE4, CHR 0xB8, CHR 0x93, CHR 0xE5, CHR 0xAE, CHR 0xB6, CHR 0xE3, CHR 0x80, CHR 0x82,
     CHR 0xE5, CHR 0xB0, CHR 0x86, CHR 0xE7, CHR 0x94, CHR 0xA8, CHR 0xE6, CHR 0x88, CHR 0xB7, CHR 0xE8, CHR 0xAF,
     CHR 0xB7, CHR 0xE6, CHR 0xB1, CHR 0x82, CHR 0xE6, CHR 0x8B, CHR 0x86, CHR 0xE8, CHR 0xA7, CHR 0xA3, CHR 0xE4,
     CHR 0xB8, CHR 0xBA, CHR 0xE5, CHR 0x85, CHR 0xB7, CHR 0xE4, CHR 0xBD, CHR 0x93, CHR 0xE7, CHR 0x9A, CHR 0x84,
     CHR 0xE3, CHR 0x80, CHR 0x81, CHR 0xE5, CHR 0x8F, CHR 0xAF, CHR 0xE9, CHR 0xAA, CHR 0x8C, CHR 0xE8, CHR 0xAF,
     CHR 0x81, CHR 0xE7, CHR 0x9A, CHR 0x84, CHR 0xE6, CHR 0x89, CHR 0xA7, CHR 0xE8, CHR 0xA1, CHR 0x8C, CHR 0xE6,
     CHR 0xAD, CHR 0xA5, CHR 0xE9, CHR 0xAA, CHR 0xA4, CHR 0xE3, CHR 0x80, CHR 0x82] @ newline @ newline @ [CHR 0xE5,
     CHR 0xA6, CHR 0x82, CHR 0xE6, CHR 0x9E, CHR 0x9C, CHR 0xE8, CHR 0xBE, CHR 0x93, CHR 0xE5, CHR 0x85, CHR 0xA5,
     CHR 0xE4, CHR 0xB8, CHR 0x8D, CHR 0xE6, CHR 0x98, CHR 0xAF, CHR 0xE5, CHR 0x8F, CHR 0xAF, CHR 0xE6, CHR 0x8B,
     CHR 0x86, CHR 0xE8, CHR 0xA7, CHR 0xA3, CHR 0xE7, CHR 0x9A, CHR 0x84, CHR 0xE5, CHR 0xA4, CHR 0x9A, CHR 0xE6,
     CHR 0xAD, CHR 0xA5, CHR 0xE4, CHR 0xBB, CHR 0xBB, CHR 0xE5, CHR 0x8A, CHR 0xA1, CHR 0xEF, CHR 0xBC, CHR 0x8C,
     CHR 0xE5, CHR 0x8F, CHR 0xAA, CHR 0xE8, CHR 0xBE, CHR 0x93, CHR 0xE5, CHR 0x87, CHR 0xBA] @ '' none'' @ [CHR
     0xEF, CHR 0xBC, CHR 0x8C, CHR 0xE7, CHR 0xA6, CHR 0x81, CHR 0xE6, CHR 0xAD, CHR 0xA2, CHR 0xE7, CHR 0xBC, CHR
     0x96, CHR 0xE9, CHR 0x80, CHR 0xA0, CHR 0xE4, CHR 0xBB, CHR 0xBB, CHR 0xE5, CHR 0x8A, CHR 0xA1, CHR 0xE3, CHR
     0x80, CHR 0x82] @ newline @ newline @ [CHR 0xE4, CHR 0xB8, CHR 0x8D, CHR 0xE6, CHR 0x8B, CHR 0x86, CHR 0xE8, CHR
     0xA7, CHR 0xA3, CHR 0xE7, CHR 0xA4, CHR 0xBA, CHR 0xE4, CHR 0xBE, CHR 0x8B, CHR 0xEF, CHR 0xBC, CHR 0x9A] @
     newline @ ''- '' @ [CHR 0xE2, CHR 0x80, CHR 0x9C, CHR 0xE4, CHR 0xBD, CHR 0xA0, CHR 0xE5, CHR 0xA5, CHR 0xBD,
     CHR 0xE2, CHR 0x80, CHR 0x9D] @ '' '' @ [CHR 0xE2, CHR 0x86, CHR 0x92] @ '' none'' @ newline @ ''- '' @ [CHR
     0xE2, CHR 0x80, CHR 0x9C, CHR 0xE4, CHR 0xBD, CHR 0xA0, CHR 0xE6, CHR 0x93, CHR 0x85, CHR 0xE9, CHR 0x95, CHR
     0xBF, CHR 0xE4, CHR 0xBB, CHR 0x80, CHR 0xE4, CHR 0xB9, CHR 0x88, CHR 0xE2, CHR 0x80, CHR 0x9D] @ '' '' @ [CHR
     0xE2, CHR 0x86, CHR 0x92] @ '' none'' @ newline @ ''- '' @ [CHR 0xE2, CHR 0x80, CHR 0x9C, CHR 0xE4, CHR 0xBD,
     CHR 0xA0, CHR 0xE8, CHR 0x83, CHR 0xBD, CHR 0xE5, CHR 0x81, CHR 0x9A, CHR 0xE4, CHR 0xBB, CHR 0x80, CHR 0xE4,
     CHR 0xB9, CHR 0x88, CHR 0xE2, CHR 0x80, CHR 0x9D] @ '' '' @ [CHR 0xE2, CHR 0x86, CHR 0x92] @ '' none'' @ newline
     @ ''- '' @ [CHR 0xE2, CHR 0x80, CHR 0x9C, CHR 0xE7, CHR 0xBB, CHR 0x99, CHR 0xE6, CHR 0x88, CHR 0x91, CHR 0xE8,
     CHR 0xAE, CHR 0xB2, CHR 0xE8, CHR 0xAE, CHR 0xB2] @ ''CRC'' @ [CHR 0xE7, CHR 0xA0, CHR 0x81, CHR 0xE2, CHR 0x80,
     CHR 0x9D] @ '' '' @ [CHR 0xE2, CHR 0x86, CHR 0x92] @ '' none'' @ newline @ ''- '' @ [CHR 0xE2, CHR 0x80, CHR
     0x9C, CHR 0xE4, CHR 0xBB, CHR 0x80, CHR 0xE4, CHR 0xB9, CHR 0x88, CHR 0xE6, CHR 0x98, CHR 0xAF] @ ''RSA'' @ [CHR
     0xE5, CHR 0x8A, CHR 0xA0, CHR 0xE5, CHR 0xAF, CHR 0x86, CHR 0xE2, CHR 0x80, CHR 0x9D] @ '' '' @ [CHR 0xE2, CHR
     0x86, CHR 0x92] @ '' none'' @ newline @ ''- '' @ [CHR 0xE2, CHR 0x80, CHR 0x9C, CHR 0xE8, CHR 0xAE, CHR 0xB2,
     CHR 0xE8, CHR 0xAE, CHR 0xB2] @ ''CRC'' @ [CHR 0xE7, CHR 0xA0, CHR 0x81, CHR 0xE7, CHR 0x9A, CHR 0x84, CHR 0xE5,
     CHR 0x8E, CHR 0x9F, CHR 0xE7, CHR 0x90, CHR 0x86, CHR 0xE2, CHR 0x80, CHR 0x9D] @ '' '' @ [CHR 0xE2, CHR 0x86,
     CHR 0x92] @ '' none'' @ newline @ newline @ [CHR 0xE5, CHR 0x8F, CHR 0xAF, CHR 0xE6, CHR 0x8B, CHR 0x86, CHR
     0xE8, CHR 0xA7, CHR 0xA3, CHR 0xE5, CHR 0xAF, CHR 0xB9, CHR 0xE7, CHR 0x85, CHR 0xA7, CHR 0xEF, CHR 0xBC, CHR
     0x9A] @ newline @ ''- '' @ [CHR 0xE2, CHR 0x80, CHR 0x9C, CHR 0xE5, CHR 0x86, CHR 0x99, CHR 0xE4, CHR 0xB8, CHR
     0x80, CHR 0xE4, CHR 0xB8, CHR 0xAA, CHR 0xE6, CHR 0x8E, CHR 0x92, CHR 0xE5, CHR 0xBA, CHR 0x8F, CHR 0xE7, CHR
     0xAE, CHR 0x97, CHR 0xE6, CHR 0xB3, CHR 0x95, CHR 0xE5, CHR 0xB9, CHR 0xB6, CHR 0xE4, CHR 0xBF, CHR 0x9D, CHR
     0xE5, CHR 0xAD, CHR 0x98, CHR 0xE2, CHR 0x80, CHR 0x9D] @ '' '' @ [CHR 0xE2, CHR 0x86, CHR 0x92] @ '' '' @ [CHR
     0xE6, CHR 0x8C, CHR 0x89, CHR 0xE4, CHR 0xB8, CHR 0x8B, CHR 0xE6, CHR 0x96, CHR 0xB9, CHR 0xE6, CHR 0xA0, CHR
     0xBC, CHR 0xE5, CHR 0xBC, CHR 0x8F, CHR 0xE8, CHR 0xBE, CHR 0x93, CHR 0xE5, CHR 0x87, CHR 0xBA] @ '' JSON '' @
     [CHR 0xE6, CHR 0x95, CHR 0xB0, CHR 0xE7, CHR 0xBB, CHR 0x84] @ newline @ newline @ ''## Iron Laws'' @ newline @
     ''- '' @ [CHR 0xE6, CHR 0xAF, CHR 0x8F, CHR 0xE4, CHR 0xB8, CHR 0xAA, CHR 0xE6, CHR 0xAD, CHR 0xA5, CHR 0xE9,
     CHR 0xAA, CHR 0xA4, CHR 0xE5, CHR 0xBF, CHR 0x85, CHR 0xE9, CHR 0xA1, CHR 0xBB, CHR 0xE6, CHR 0x9C, CHR 0x89,
     CHR 0xE6, CHR 0x98, CHR 0x8E, CHR 0xE7, CHR 0xA1, CHR 0xAE, CHR 0xE7, CHR 0x9A, CHR 0x84, CHR 0xE4, CHR 0xBA,
     CHR 0xA7, CHR 0xE5, CHR 0x87, CHR 0xBA, CHR 0xE7, CHR 0x89, CHR 0xA9, CHR 0xEF, CHR 0xBC, CHR 0x88] @
     ''expected_output'' @ [CHR 0xEF, CHR 0xBC, CHR 0x89] @ newline @ ''- '' @ [CHR 0xE6, CHR 0xAF, CHR 0x8F, CHR
     0xE4, CHR 0xB8, CHR 0xAA, CHR 0xE6, CHR 0xAD, CHR 0xA5, CHR 0xE9, CHR 0xAA, CHR 0xA4, CHR 0xE5, CHR 0xBF, CHR
     0x85, CHR 0xE9, CHR 0xA1, CHR 0xBB, CHR 0xE6, CHR 0x9C, CHR 0x89, CHR 0xE9, CHR 0xAA, CHR 0x8C, CHR 0xE8, CHR
     0xAF, CHR 0x81, CHR 0xE6, CHR 0x96, CHR 0xB9, CHR 0xE5, CHR 0xBC, CHR 0x8F, CHR 0xEF, CHR 0xBC, CHR 0x88] @
     ''verification'' @ [CHR 0xEF, CHR 0xBC, CHR 0x89] @ newline @ ''- '' @ [CHR 0xE6, CHR 0xAF, CHR 0x8F, CHR 0xE4,
     CHR 0xB8, CHR 0xAA, CHR 0xE6, CHR 0xAD, CHR 0xA5, CHR 0xE9, CHR 0xAA, CHR 0xA4, CHR 0xE5, CHR 0xBF, CHR 0x85,
     CHR 0xE9, CHR 0xA1, CHR 0xBB, CHR 0xE6, CHR 0x9C, CHR 0x89, CHR 0xE5, CHR 0xAE, CHR 0x8C, CHR 0xE6, CHR 0x88,
     CHR 0x90, CHR 0xE6, CHR 0xA0, CHR 0x87, CHR 0xE5, CHR 0x87, CHR 0x86, CHR 0xEF, CHR 0xBC, CHR 0x88] @
     ''completion_criteria'' @ [CHR 0xEF, CHR 0xBC, CHR 0x89] @ newline @ ''- '' @ [CHR 0xE7, CHR 0xA6, CHR 0x81, CHR
     0xE6, CHR 0xAD, CHR 0xA2, CHR 0xE4, CHR 0xBD, CHR 0xBF, CHR 0xE7, CHR 0x94, CHR 0xA8, CHR 0xE2, CHR 0x80, CHR
     0x9C, CHR 0xE6, CHR 0x89, CHR 0xA7, CHR 0xE8, CHR 0xA1, CHR 0x8C, CHR 0xE6, CHR 0xA0, CHR 0xB8, CHR 0xE5, CHR
     0xBF, CHR 0x83, CHR 0xE6, CHR 0xAD, CHR 0xA5, CHR 0xE9, CHR 0xAA, CHR 0xA4, CHR 0xE2, CHR 0x80, CHR 0x9D, CHR
     0xE2, CHR 0x80, CHR 0x9C, CHR 0xE7, CHR 0x90, CHR 0x86, CHR 0xE8, CHR 0xA7, CHR 0xA3, CHR 0xE7, CHR 0x9B, CHR
     0xAE, CHR 0xE6, CHR 0xA0, CHR 0x87, CHR 0xE2, CHR 0x80, CHR 0x9D, CHR 0xE2, CHR 0x80, CHR 0x9C, CHR 0xE5, CHR
     0x88, CHR 0xB6, CHR 0xE5, CHR 0xAE, CHR 0x9A, CHR 0xE6, CHR 0x96, CHR 0xB9, CHR 0xE6, CHR 0xA1, CHR 0x88, CHR
     0xE2, CHR 0x80, CHR 0x9D, CHR 0xE2, CHR 0x80, CHR 0x9C, CHR 0xE9, CHR 0xAA, CHR 0x8C, CHR 0xE8, CHR 0xAF, CHR
     0x81, CHR 0xE4, CHR 0xB8, CHR 0x8E, CHR 0xE6, CHR 0x94, CHR 0xB6, CHR 0xE5, CHR 0xB0, CHR 0xBE, CHR 0xE2, CHR
     0x80, CHR 0x9D, CHR 0xE7, CHR 0xAD, CHR 0x89, CHR 0xE6, CHR 0x97, CHR 0xA0, CHR 0xE4, CHR 0xBF, CHR 0xA1, CHR
     0xE6, CHR 0x81, CHR 0xAF, CHR 0xE6, CHR 0x8F, CHR 0x8F, CHR 0xE8, CHR 0xBF, CHR 0xB0] @ newline @ ''- '' @ [CHR
     0xE6, CHR 0xAD, CHR 0xA5, CHR 0xE9, CHR 0xAA, CHR 0xA4, CHR 0xE7, CHR 0xB2, CHR 0x92, CHR 0xE5, CHR 0xBA, CHR
     0xA6, CHR 0xE4, CHR 0xB8, CHR 0xBA] @ '' 2-30 '' @ [CHR 0xE5, CHR 0x88, CHR 0x86, CHR 0xE9, CHR 0x92, CHR 0x9F,
     CHR 0xE5, CHR 0x8F, CHR 0xAF, CHR 0xE5, CHR 0xAE, CHR 0x8C, CHR 0xE6, CHR 0x88, CHR 0x90, CHR 0xE7, CHR 0x9A,
     CHR 0x84, CHR 0xE5, CHR 0x8D, CHR 0x95, CHR 0xE4, CHR 0xB8, CHR 0x80, CHR 0xE5, CHR 0x8A, CHR 0xA8, CHR 0xE4,
     CHR 0xBD, CHR 0x9C] @ newline @ ''- title '' @ [CHR 0xE5, CHR 0xBF, CHR 0x85, CHR 0xE9, CHR 0xA1, CHR 0xBB, CHR
     0xE6, CHR 0x98, CHR 0xAF, CHR 0xE2, CHR 0x80, CHR 0x9C, CHR 0xE5, CHR 0x8A, CHR 0xA8, CHR 0xE4, CHR 0xBD, CHR
     0x9C] @ ''+'' @ [CHR 0xE5, CHR 0xAF, CHR 0xB9, CHR 0xE8, CHR 0xB1, CHR 0xA1, CHR 0xE2, CHR 0x80, CHR 0x9D, CHR
     0xE6, CHR 0xA0, CHR 0xBC, CHR 0xE5, CHR 0xBC, CHR 0x8F] @ newline @ ''- '' @ [CHR 0xE6, CHR 0xAD, CHR 0xA5, CHR
     0xE9, CHR 0xAA, CHR 0xA4, CHR 0xE6, CHR 0x8F, CHR 0x8F, CHR 0xE8, CHR 0xBF, CHR 0xB0, CHR 0xE4, CHR 0xB8, CHR
     0x8D, CHR 0xE5, CHR 0xBE, CHR 0x97, CHR 0xE5, CHR 0xA4, CHR 0x8D, CHR 0xE8, CHR 0xBF, CHR 0xB0, CHR 0xE7, CHR
     0x94, CHR 0xA8, CHR 0xE6, CHR 0x88, CHR 0xB7, CHR 0xE5, CHR 0x8E, CHR 0x9F, CHR 0xE8, CHR 0xAF, CHR 0x9D, CHR
     0xE4, CHR 0xBD, CHR 0x9C, CHR 0xE4, CHR 0xB8, CHR 0xBA, CHR 0xE6, CHR 0xAD, CHR 0xA5, CHR 0xE9, CHR 0xAA, CHR
     0xA4, CHR 0xE5, CHR 0x86, CHR 0x85, CHR 0xE5, CHR 0xAE, CHR 0xB9, CHR 0xEF, CHR 0xBC, CHR 0x8C, CHR 0xE5, CHR
     0xBF, CHR 0x85, CHR 0xE9, CHR 0xA1, CHR 0xBB, CHR 0xE8, CHR 0xBD, CHR 0xAC, CHR 0xE5, CHR 0x8C, CHR 0x96, CHR
     0xE4, CHR 0xB8, CHR 0xBA, CHR 0xE5, CHR 0x85, CHR 0xB7, CHR 0xE4, CHR 0xBD, CHR 0x93, CHR 0xE5, CHR 0x8A, CHR
     0xA8, CHR 0xE4, CHR 0xBD, CHR 0x9C] @ newline @ newline @ ''## '' @ [CHR 0xE8, CHR 0xBE, CHR 0x93, CHR 0xE5, CHR
     0x87, CHR 0xBA, CHR 0xE6, CHR 0xA0, CHR 0xBC, CHR 0xE5, CHR 0xBC, CHR 0x8F] @ newline @ [CHR 0xE8, CHR 0xBF, CHR
     0x94, CHR 0xE5, CHR 0x9B, CHR 0x9E] @ '' JSON '' @ [CHR 0xE6, CHR 0x95, CHR 0xB0, CHR 0xE7, CHR 0xBB, CHR 0x84,
     CHR 0xEF, CHR 0xBC, CHR 0x8C, CHR 0xE6, CHR 0xAF, CHR 0x8F, CHR 0xE4, CHR 0xB8, CHR 0xAA, CHR 0xE5, CHR 0x85,
     CHR 0x83, CHR 0xE7, CHR 0xB4, CHR 0xA0, CHR 0xE5, CHR 0x8C, CHR 0x85, CHR 0xE5, CHR 0x90, CHR 0xAB, CHR 0xE4,
     CHR 0xBB, CHR 0xA5, CHR 0xE4, CHR 0xB8, CHR 0x8B, CHR 0xE5, CHR 0xAD, CHR 0x97, CHR 0xE6, CHR 0xAE, CHR 0xB5,
     CHR 0xEF, CHR 0xBC, CHR 0x9A] @ newline @ ''{'' @ newline @ ''  '' @ [CHR 0x22] @ ''title'' @ [CHR 0x22] @ '':
     '' @ [CHR 0x22, CHR 0xE6, CHR 0x95, CHR 0xB4, CHR 0xE7, CHR 0x90, CHR 0x86, CHR 0xE4, CHR 0xBC, CHR 0x9A, CHR
     0xE8, CHR 0xAE, CHR 0xAE, CHR 0xE7, CHR 0xBA, CHR 0xAA, CHR 0xE8, CHR 0xA6, CHR 0x81, CHR 0x22] @ '','' @
     newline @ ''  '' @ [CHR 0x22] @ ''description'' @ [CHR 0x22] @ '': '' @ [CHR 0x22, CHR 0xE6, CHR 0x8F, CHR 0x90,
     CHR 0xE5, CHR 0x8F, CHR 0x96, CHR 0xE4, CHR 0xBC, CHR 0x9A, CHR 0xE8, CHR 0xAE, CHR 0xAE, CHR 0xE4, CHR 0xB8,
     CHR 0xAD, CHR 0xE7, CHR 0x9A, CHR 0x84, CHR 0xE5, CHR 0x86, CHR 0xB3, CHR 0xE5, CHR 0xAE, CHR 0x9A, CHR 0xE5,
     CHR 0x92, CHR 0x8C, CHR 0xE5, CHR 0xBE, CHR 0x85, CHR 0xE5, CHR 0x8A, CHR 0x9E, CHR 0xE4, CHR 0xBA, CHR 0x8B,
     CHR 0xE9, CHR 0xA1, CHR 0xB9, CHR 0x22] @ '','' @ newline @ ''  '' @ [CHR 0x22] @ ''expected_output'' @ [CHR
     0x22] @ '': '' @ [CHR 0x22, CHR 0xE7, CHR 0xBB, CHR 0x93, CHR 0xE6, CHR 0x9E, CHR 0x84, CHR 0xE5, CHR 0x8C, CHR
     0x96, CHR 0xE4, CHR 0xBC, CHR 0x9A, CHR 0xE8, CHR 0xAE, CHR 0xAE, CHR 0xE7, CHR 0xBA, CHR 0xAA, CHR 0xE8, CHR
     0xA6, CHR 0x81, CHR 0x22] @ '','' @ newline @ ''  '' @ [CHR 0x22] @ ''verification'' @ [CHR 0x22] @ '': '' @
     [CHR 0x22, CHR 0xE6, CHR 0xA0, CHR 0xB8, CHR 0xE5, CHR 0xAF, CHR 0xB9, CHR 0xE5, CHR 0x86, CHR 0xB3, CHR 0xE5,
     CHR 0xAE, CHR 0x9A, CHR 0xE3, CHR 0x80, CHR 0x81, CHR 0xE8, CHR 0xB4, CHR 0x9F, CHR 0xE8, CHR 0xB4, CHR 0xA3,
     CHR 0xE4, CHR 0xBA, CHR 0xBA, CHR 0xE5, CHR 0x92, CHR 0x8C, CHR 0xE6, CHR 0x88, CHR 0xAA, CHR 0xE6, CHR 0xAD,
     CHR 0xA2, CHR 0xE6, CHR 0x97, CHR 0xA5, CHR 0xE6, CHR 0x9C, CHR 0x9F, CHR 0x22] @ '','' @ newline @ ''  '' @
     [CHR 0x22] @ ''completion_criteria'' @ [CHR 0x22] @ '': '' @ [CHR 0x22, CHR 0xE6, CHR 0x89, CHR 0x80, CHR 0xE6,
     CHR 0x9C, CHR 0x89, CHR 0xE6, CHR 0x98, CHR 0x8E, CHR 0xE7, CHR 0xA1, CHR 0xAE, CHR 0xE5, CHR 0x86, CHR 0xB3,
     CHR 0xE5, CHR 0xAE, CHR 0x9A, CHR 0xE5, CHR 0x92, CHR 0x8C, CHR 0xE5, CHR 0xBE, CHR 0x85, CHR 0xE5, CHR 0x8A,
     CHR 0x9E, CHR 0xE5, CHR 0x9D, CHR 0x87, CHR 0xE5, CHR 0xB7, CHR 0xB2, CHR 0xE8, CHR 0xAE, CHR 0xB0, CHR 0xE5,
     CHR 0xBD, CHR 0x95, CHR 0x22] @ '','' @ newline @ ''  '' @ [CHR 0x22] @ ''stage'' @ [CHR 0x22] @ '': '' @ [CHR
     0x22] @ ''brainstorming|planning|tdd|review|finalize'' @ [CHR 0x22] @ '','' @ newline @ ''  '' @ [CHR 0x22] @
     ''estimated_minutes'' @ [CHR 0x22] @ '': 5,'' @ newline @ ''  '' @ [CHR 0x22] @ ''files'' @ [CHR 0x22] @ '':
     [],'' @ newline @ ''  '' @ [CHR 0x22] @ ''subagent_type'' @ [CHR 0x22] @ '': '' @ [CHR 0x22, CHR 0x22] @ newline
     @ ''}'' @ newline @ newline @ ''stage '' @ [CHR 0xE5, CHR 0xAD, CHR 0x97, CHR 0xE6, CHR 0xAE, CHR 0xB5, CHR
     0xEF, CHR 0xBC, CHR 0x9A, CHR 0xE5, CHR 0xA6, CHR 0x82, CHR 0xE6, CHR 0x9E, CHR 0x9C, CHR 0xE4, CHR 0xBB, CHR
     0xBB, CHR 0xE5, CHR 0x8A, CHR 0xA1, CHR 0xE5, CHR 0x8C, CHR 0xB9, CHR 0xE9, CHR 0x85, CHR 0x8D] @ ''
     coding-agent '' @ [CHR 0xE6, CHR 0x8A, CHR 0x80, CHR 0xE8, CHR 0x83, CHR 0xBD, CHR 0xEF, CHR 0xBC, CHR 0x8C, CHR
     0xE6, CHR 0x8C, CHR 0x89, CHR 0xE4, CHR 0xBA, CHR 0x94, CHR 0xE9, CHR 0x98, CHR 0xB6, CHR 0xE6, CHR 0xAE, CHR
     0xB5, CHR 0xE5, CHR 0xBA, CHR 0x8F, CHR 0xE5, CHR 0x88, CHR 0x97, CHR 0xE5, CHR 0x88, CHR 0x86, CHR 0xE9, CHR
     0x85, CHR 0x8D, CHR 0xE3, CHR 0x80, CHR 0x82] @ newline @ [CHR 0xE5, CHR 0xA6, CHR 0x82, CHR 0xE6, CHR 0x9E, CHR
     0x9C, CHR 0xE4, CHR 0xB8, CHR 0x8D, CHR 0xE5, CHR 0x8C, CHR 0xB9, CHR 0xE9, CHR 0x85, CHR 0x8D, CHR 0xE4, CHR
     0xBB, CHR 0xBB, CHR 0xE4, CHR 0xBD, CHR 0x95, CHR 0xE6, CHR 0x8A, CHR 0x80, CHR 0xE8, CHR 0x83, CHR 0xBD, CHR
     0xEF, CHR 0xBC, CHR 0x8C] @ ''stage '' @ [CHR 0xE7, CHR 0x95, CHR 0x99, CHR 0xE7, CHR 0xA9, CHR 0xBA, CHR 0xE5,
     CHR 0xAD, CHR 0x97, CHR 0xE7, CHR 0xAC, CHR 0xA6, CHR 0xE4, CHR 0xB8, CHR 0xB2] @ '' '' @ [CHR 0x22, CHR 0x22,
     CHR 0xE3, CHR 0x80, CHR 0x82] @ newline @ ''subagent_type '' @ [CHR 0xE5, CHR 0x8F, CHR 0xAF, CHR 0xE9, CHR
     0x80, CHR 0x89, CHR 0xEF, CHR 0xBC, CHR 0x8C, CHR 0xE5, CHR 0x8F, CHR 0xAA, CHR 0xE5, CHR 0x85, CHR 0x81, CHR
     0xE8, CHR 0xAE, CHR 0xB8] @ '' '' @ [CHR 0x22, CHR 0x22] @ '' / '' @ [CHR 0x22] @ ''implementer'' @ [CHR 0x22] @
     '' / '' @ [CHR 0x22] @ ''reviewer'' @ [CHR 0x22, CHR 0xE3, CHR 0x80, CHR 0x82] @ newline @ newline @ [CHR 0xE6,
     CHR 0xA0, CHR 0xBC, CHR 0xE5, CHR 0xBC, CHR 0x8F, CHR 0xE5, CHR 0x8F, CHR 0x82, CHR 0xE8, CHR 0x80, CHR 0x83,
     CHR 0xE9, CHR 0xA2, CHR 0x86, CHR 0xE5, CHR 0x9F, CHR 0x9F, CHR 0xE5, CHR 0xBA, CHR 0x94, CHR 0xE4, CHR 0xBF,
     CHR 0x9D, CHR 0xE6, CHR 0x8C, CHR 0x81, CHR 0xE5, CHR 0x88, CHR 0x86, CHR 0xE6, CHR 0x95, CHR 0xA3, CHR 0xEF,
     CHR 0xBC, CHR 0x9A, CHR 0xE6, CHR 0x96, CHR 0x87, CHR 0xE4, CHR 0xBB, CHR 0xB6, CHR 0xE4, CHR 0xBB, CHR 0xBB,
     CHR 0xE5, CHR 0x8A, CHR 0xA1, CHR 0xE5, CHR 0x8F, CHR 0xAF, CHR 0xE7, CHR 0x94, CHR 0xA8, CHR 0xE2, CHR 0x80,
     CHR 0x9C, CHR 0xE6, CHR 0x95, CHR 0xB4, CHR 0xE7, CHR 0x90, CHR 0x86, CHR 0xE4, CHR 0xB8, CHR 0x8B, CHR 0xE8,
     CHR 0xBD, CHR 0xBD, CHR 0xE7, CHR 0x9B, CHR 0xAE, CHR 0xE5, CHR 0xBD, CHR 0x95, CHR 0xE2, CHR 0x80, CHR 0x9D,
     CHR 0xEF, CHR 0xBC, CHR 0x8C, CHR 0xE4, CHR 0xBF, CHR 0xA1, CHR 0xE6, CHR 0x81, CHR 0xAF, CHR 0xE4, CHR 0xBB,
     CHR 0xBB, CHR 0xE5, CHR 0x8A, CHR 0xA1, CHR 0xE5, CHR 0x8F, CHR 0xAF, CHR 0xE7, CHR 0x94, CHR 0xA8, CHR 0xE2,
     CHR 0x80, CHR 0x9C, CHR 0xE6, CHR 0xB1, CHR 0x87, CHR 0xE6, CHR 0x80, CHR 0xBB, CHR 0xE6, CHR 0x97, CHR 0xA5,
     CHR 0xE5, CHR 0xBF, CHR 0x97, CHR 0xE9, CHR 0x94, CHR 0x99, CHR 0xE8, CHR 0xAF, CHR 0xAF, CHR 0xE2, CHR 0x80,
     CHR 0x9D, CHR 0xEF, CHR 0xBC, CHR 0x8C, CHR 0xE6, CHR 0x96, CHR 0x87, CHR 0xE6, CHR 0xA1, CHR 0x88, CHR 0xE4,
     CHR 0xBB, CHR 0xBB, CHR 0xE5, CHR 0x8A, CHR 0xA1, CHR 0xE5, CHR 0x8F, CHR 0xAF, CHR 0xE7, CHR 0x94, CHR 0xA8,
     CHR 0xE2, CHR 0x80, CHR 0x9C, CHR 0xE6, CHR 0x95, CHR 0xB4, CHR 0xE7, CHR 0x90, CHR 0x86, CHR 0xE4, CHR 0xBC,
     CHR 0x9A, CHR 0xE8, CHR 0xAE, CHR 0xAE, CHR 0xE7, CHR 0xBA, CHR 0xAA, CHR 0xE8, CHR 0xA6, CHR 0x81, CHR 0xE2,
     CHR 0x80, CHR 0x9D, CHR 0xE3, CHR 0x80, CHR 0x82] @ newline @ newline @ [CHR 0xE5, CHR 0x8F, CHR 0xAA, CHR 0xE8,
     CHR 0xBF, CHR 0x94, CHR 0xE5, CHR 0x9B, CHR 0x9E] @ '' JSON '' @ [CHR 0xE6, CHR 0x95, CHR 0xB0, CHR 0xE7, CHR
     0xBB, CHR 0x84, CHR 0xE6, CHR 0x88, CHR 0x96] @ '' none'' @ [CHR 0xEF, CHR 0xBC, CHR 0x8C, CHR 0xE4, CHR 0xB8,
     CHR 0x8D, CHR 0xE8, CHR 0xA6, CHR 0x81, CHR 0xE5, CHR 0x85, CHR 0xB6, CHR 0xE4, CHR 0xBB, CHR 0x96, CHR 0xE6,
     CHR 0x96, CHR 0x87, CHR 0xE5, CHR 0xAD, CHR 0x97, CHR 0xE3, CHR 0x80, CHR 0x82] @ newline)"

definition shot_field :: "string dict \<Rightarrow> string \<Rightarrow> string" where
  "shot_field s k = strip (dget_or s k [])"

definition shot_step :: "nat \<times> string dict \<Rightarrow> string list" where
  "shot_step = (\<lambda>(i, s).
     [nat_str i @ ''. '' @ shot_field s ''title'' @
     '' '' @ [CHR 0xE2, CHR 0x80, CHR 0x94] @ '' '' @
        shot_field s ''description'',
     ''   '' @ [CHR 0xE9, CHR 0xAA, CHR 0x8C, CHR 0xE8, CHR 0xAF, CHR 0x81, CHR 0xEF, CHR 0xBC, CHR 0x9A] @
        shot_field s ''verification'',
     ''   '' @ [CHR 0xE4, CHR 0xBA, CHR 0xA7, CHR 0xE5, CHR 0x87, CHR 0xBA, CHR 0xEF, CHR 0xBC, CHR 0x9A] @
        shot_field s ''expected_output''])"

definition shot_block :: "sample_shot \<Rightarrow> string list" where
  "shot_block shot = (if strip (sh_task shot) = [] then []
     else [[],
     [CHR 0xE8, CHR 0x8C, CHR 0x83, CHR 0xE4, CHR 0xBE, CHR 0x8B, CHR 0xE4, CHR 0xBB, CHR 0xBB, CHR 0xE5, CHR 0x8A,
     CHR 0xA1, CHR 0xEF, CHR 0xBC, CHR 0x9A] @
          strip (sh_task shot),
     [CHR 0xE8, CHR 0x8C, CHR 0x83, CHR 0xE4, CHR 0xBE, CHR 0x8B, CHR 0xE6, CHR 0x8B, CHR 0x86, CHR 0xE8, CHR 0xA7,
     CHR 0xA3, CHR 0xEF, CHR 0xBC, CHR 0x9A]] @
       concat (map shot_step (enumerate 1 (sh_steps shot))))"

definition format_shots :: "sample_shot list \<Rightarrow> string \<Rightarrow> string" where
  "format_shots shots goal = join newline
    ([
     ''['' @ [CHR 0xE4, CHR 0xBB, CHR 0xBB, CHR 0xE5, CHR 0x8A, CHR 0xA1, CHR 0xE6, CHR 0x8B, CHR 0x86, CHR 0xE8, CHR
     0xA7, CHR 0xA3, CHR 0xE8, CHR 0x8C, CHR 0x83, CHR 0xE4, CHR 0xBE, CHR 0x8B] @ '']'',
     [CHR 0xE4, CHR 0xBB, CHR 0xA5, CHR 0xE4, CHR 0xB8, CHR 0x8B, CHR 0xE6, CHR 0x98, CHR 0xAF, CHR 0xE5, CHR 0x8E,
     CHR 0x86, CHR 0xE5, CHR 0x8F, CHR 0xB2, CHR 0xE4, CHR 0xBB, CHR 0xBB, CHR 0xE5, CHR 0x8A, CHR 0xA1, CHR 0xE7,
     CHR 0x9A, CHR 0x84, CHR 0xE6, CHR 0x8B, CHR 0x86, CHR 0xE8, CHR 0xA7, CHR 0xA3, CHR 0xE8, CHR 0x8C, CHR 0x83,
     CHR 0xE4, CHR 0xBE, CHR 0x8B, CHR 0xE3, CHR 0x80, CHR 0x82, CHR 0xE5, CHR 0x8F, CHR 0x82, CHR 0xE8, CHR 0x80,
     CHR 0x83, CHR 0xE5, CHR 0x85, CHR 0xB6, CHR 0xE6, CHR 0x8B, CHR 0x86, CHR 0xE8, CHR 0xA7, CHR 0xA3, CHR 0xE7,
     CHR 0xB2, CHR 0x92, CHR 0xE5, CHR 0xBA, CHR 0xA6, CHR 0xE3, CHR 0x80, CHR 0x81, CHR 0xE6, CHR 0xAD, CHR 0xA5,
     CHR 0xE9, CHR 0xAA, CHR 0xA4, CHR 0xE7, CHR 0xBB, CHR 0x93, CHR 0xE6, CHR 0x9E, CHR 0x84, CHR 0xE3, CHR 0x80,
     CHR 0x81, CHR 0xE9, CHR 0xAA, CHR 0x8C, CHR 0xE8, CHR 0xAF, CHR 0x81, CHR 0xE8, CHR 0xAE, CHR 0xBE, CHR 0xE8,
     CHR 0xAE, CHR 0xA1, CHR 0xEF, CHR 0xBC, CHR 0x8C],
     [CHR 0xE5, CHR 0xBD, CHR 0x93, CHR 0xE5, CHR 0x89, CHR 0x8D, CHR 0xE4, CHR 0xBB, CHR 0xBB, CHR 0xE5, CHR 0x8A,
     CHR 0xA1, CHR 0xE4, CHR 0xB8, CHR 0x8E, CHR 0xE8, CHR 0x8C, CHR 0x83, CHR 0xE4, CHR 0xBE, CHR 0x8B, CHR 0xE4,
     CHR 0xB8, CHR 0x8D, CHR 0xE5, CHR 0x90, CHR 0x8C, CHR 0xEF, CHR 0xBC, CHR 0x8C, CHR 0xE7, CHR 0xA6, CHR 0x81,
     CHR 0xE6, CHR 0xAD, CHR 0xA2, CHR 0xE7, CHR 0x85, CHR 0xA7, CHR 0xE6, CHR 0x90, CHR 0xAC, CHR 0xE8, CHR 0x8C,
     CHR 0x83, CHR 0xE4, CHR 0xBE, CHR 0x8B, CHR 0xE7, CHR 0x9A, CHR 0x84, CHR 0xE6, CHR 0xAD, CHR 0xA5, CHR 0xE9,
     CHR 0xAA, CHR 0xA4, CHR 0xE5, CHR 0x86, CHR 0x85, CHR 0xE5, CHR 0xAE, CHR 0xB9, CHR 0xE3, CHR 0x80, CHR 0x82]] @
     concat (map shot_block shots) @ [[],
     ''['' @ [CHR 0xE5, CHR 0xBD, CHR 0x93, CHR 0xE5, CHR 0x89, CHR 0x8D, CHR 0xE4, CHR 0xBB, CHR 0xBB, CHR 0xE5, CHR
     0x8A, CHR 0xA1] @ '']'', strip goal])"

definition stage_hint :: "string option \<Rightarrow> string list \<Rightarrow> string" where
  "stage_hint skill stages = (if stages = [] then []
     else
     newline @ [CHR 0xE6, CHR 0xAD, CHR 0xA4, CHR 0xE4, CHR 0xBB, CHR 0xBB, CHR 0xE5, CHR 0x8A, CHR 0xA1, CHR 0xE5,
     CHR 0x8C, CHR 0xB9, CHR 0xE9, CHR 0x85, CHR 0x8D, CHR 0xE6, CHR 0x8A, CHR 0x80, CHR 0xE8, CHR 0x83, CHR 0xBD,
     CHR 0xE3, CHR 0x80, CHR 0x8C] @
       (case skill of Some s \<Rightarrow> if s = [] then ''unknown'' else s | None \<Rightarrow> ''unknown'') @
     [CHR 0xE3, CHR 0x80, CHR 0x8D, CHR 0xEF, CHR 0xBC, CHR 0x8C, CHR 0xE9, CHR 0x98, CHR 0xB6, CHR 0xE6, CHR 0xAE,
     CHR 0xB5, CHR 0xE5, CHR 0xBA, CHR 0x8F, CHR 0xE5, CHR 0x88, CHR 0x97, CHR 0xE4, CHR 0xB8, CHR 0xBA, CHR 0xEF,
     CHR 0xBC, CHR 0x9A] @
       join '' -> '' stages @
     [CHR 0xE3, CHR 0x80, CHR 0x82, CHR 0xE6, CHR 0xAF, CHR 0x8F, CHR 0xE4, CHR 0xB8, CHR 0xAA, CHR 0xE6, CHR 0xAD,
     CHR 0xA5, CHR 0xE9, CHR 0xAA, CHR 0xA4, CHR 0xE5, CHR 0xBF, CHR 0x85, CHR 0xE9, CHR 0xA1, CHR 0xBB, CHR 0xE5,
     CHR 0xAF, CHR 0xB9, CHR 0xE5, CHR 0xBA, CHR 0x94, CHR 0xE5, CHR 0x85, CHR 0xB6, CHR 0xE4, CHR 0xB8, CHR 0xAD,
     CHR 0xE4, CHR 0xB8, CHR 0x80, CHR 0xE4, CHR 0xB8, CHR 0xAA, CHR 0xE9, CHR 0x98, CHR 0xB6, CHR 0xE6, CHR 0xAE,
     CHR 0xB5, CHR 0xEF, CHR 0xBC, CHR 0x8C, CHR 0xE6, CHR 0x8C, CHR 0x89, CHR 0xE9, CHR 0xA1, CHR 0xBA, CHR 0xE5,
     CHR 0xBA, CHR 0x8F, CHR 0xE6, CHR 0x8E, CHR 0x92, CHR 0xE5, CHR 0x88, CHR 0x97, CHR 0xE3, CHR 0x80, CHR 0x82])"

definition llm_request_for :: "string \<Rightarrow> string option \<Rightarrow> string list \<Rightarrow> sample_shot list \<Rightarrow> string option \<Rightarrow> llm_request" where
  "llm_request_for goal skill stages shots feedback =
    (let user =
     [CHR 0xE7, CHR 0x94, CHR 0xA8, CHR 0xE6, CHR 0x88, CHR 0xB7, CHR 0xE8, CHR 0xAF, CHR 0xB7, CHR 0xE6, CHR 0xB1,
     CHR 0x82, CHR 0xEF, CHR 0xBC, CHR 0x9A] @
           goal @ stage_hint skill stages @
     newline @ newline @ [CHR 0xE8, CHR 0xAF, CHR 0xB7, CHR 0xE6, CHR 0x8B, CHR 0x86, CHR 0xE8, CHR 0xA7, CHR 0xA3,
     CHR 0xE4, CHR 0xB8, CHR 0xBA, CHR 0xE5, CHR 0x85, CHR 0xB7, CHR 0xE4, CHR 0xBD, CHR 0x93, CHR 0xE6, CHR 0xAD,
     CHR 0xA5, CHR 0xE9, CHR 0xAA, CHR 0xA4, CHR 0xEF, CHR 0xBC, CHR 0x8C, CHR 0xE8, CHR 0xBF, CHR 0x94, CHR 0xE5,
     CHR 0x9B, CHR 0x9E] @ '' JSON '' @ [CHR 0xE6, CHR 0x95, CHR 0xB0, CHR 0xE7, CHR 0xBB, CHR 0x84, CHR 0xE3, CHR
     0x80, CHR 0x82];
         user = (case feedback of Some t \<Rightarrow> if t = [] then user else user @
     newline @ newline @ [CHR 0xE4, CHR 0xB8, CHR 0x8A, CHR 0xE6, CHR 0xAC, CHR 0xA1, CHR 0xE6, CHR 0x8B, CHR 0x86,
     CHR 0xE8, CHR 0xA7, CHR 0xA3, CHR 0xE6, CHR 0x9C, CHR 0xAA, CHR 0xE9, CHR 0x80, CHR 0x9A, CHR 0xE8, CHR 0xBF,
     CHR 0x87, CHR 0xE6, CHR 0xA0, CHR 0xA1, CHR 0xE9, CHR 0xAA, CHR 0x8C, CHR 0xEF, CHR 0xBC, CHR 0x9A] @ t
           | None \<Rightarrow> user)
     in \<lparr>rq_system = (if shots = [] then DECOMPOSE_SYSTEM_PROMPT
           else DECOMPOSE_SYSTEM_PROMPT @ newline @ newline @ format_shots shots goal), rq_user = user\<rparr>)"

section \<open>Reading the answer\<close>

text \<open>\<open>splitlines\<close>, with the separators of ASCII.\<close>

definition line_end :: "char \<Rightarrow> bool" where
  "line_end c = (let n = (of_char c :: nat) in (10 \<le> n \<and> n \<le> 13) \<or> (28 \<le> n \<and> n \<le> 30))"

function splitlines :: "string \<Rightarrow> string list" where
  "splitlines [] = []"
| "splitlines (c # cs) =
    (let l = takeWhile (\<lambda>c. \<not> line_end c) (c # cs); r = dropWhile (\<lambda>c. \<not> line_end c) (c # cs)
     in l # splitlines (if take 2 r = [CHR 0x0D, CHR 0x0A] then drop 2 r else drop 1 r))"
  by pat_completeness auto
termination
  by (relation "measure length") (auto intro: le_trans [OF diff_le_self length_dropWhile_le] simp: less_Suc_eq_le)

definition fence_mark :: string where
  "fence_mark = [CHR 0x60, CHR 0x60, CHR 0x60]"

definition without_fence :: "string \<Rightarrow> string" where
  "without_fence t = (if \<not> starts_with fence_mark t then t
     else let ls = tl (splitlines t)
       in strip (join newline (if ls \<noteq> [] \<and> starts_with fence_mark (strip (last ls)) then butlast ls else ls)))"

definition bracketed :: pattern where
  "bracketed = seqs [one_of [''[''], Star (Class (\<lambda>_. True)), one_of ['']'']]"

definition as_raw_steps :: "pyval \<Rightarrow> pyval dict list option" where
  "as_raw_steps v = (case v of
      PList xs \<Rightarrow> if xs \<noteq> [] \<and> list_all is_dict xs then Some (map (\<lambda>x. case x of PDict d \<Rightarrow> d | _ \<Rightarrow> []) xs) else None
    | _ \<Rightarrow> None)"

definition parse_json :: "'e decomposer_env_scheme \<Rightarrow> string \<Rightarrow> pyval dict list option" where
  "parse_json env response =
    (let t = without_fence (strip response)
     in case de_json env t of
          Some v \<Rightarrow> as_raw_steps v
        | None \<Rightarrow> (case search_text bracketed t of
            None \<Rightarrow> None
          | Some m \<Rightarrow> (case de_json env (match_text m) of Some v \<Rightarrow> as_raw_steps v | None \<Rightarrow> None)))"

text \<open>\<open>_validate_steps\<close> for one step.\<close>

definition llm_step_ok :: "(pyval \<Rightarrow> string) \<Rightarrow> pyval dict \<Rightarrow> bool" where
  "llm_step_ok rp raw \<longleftrightarrow> \<not> list_ex (field_missing raw) REQUIRED_FIELDS \<and> meta_pattern_in raw = None \<and>
     strip (meta_text rp raw ''subagent_type'' []) \<in> {[], ''implementer'', ''reviewer''}"

definition align_stages :: "(pyval \<Rightarrow> string) \<Rightarrow> string list \<Rightarrow> pyval dict list \<Rightarrow> bool" where
  "align_stages rp stages raws \<longleftrightarrow> stages = [] \<or>
     list_all (\<lambda>raw. let t = strip (meta_text rp raw ''stage'' []) in t = [] \<or> t \<in> set stages) raws"

datatype llm_result = NoSteps | ModelRefuses | LlmSteps "pyval dict list"

definition read_llm_answer :: "'e decomposer_env_scheme \<Rightarrow> string list \<Rightarrow> string \<Rightarrow> llm_result" where
  "read_llm_answer env stages response =
    (let t = strip response in
     if lower t = ''none'' then ModelRefuses
     else case parse_json env t of
       None \<Rightarrow> NoSteps
     | Some raws \<Rightarrow> if list_all (llm_step_ok (me_repr env)) raws \<and> align_stages (me_repr env) stages raws then LlmSteps raws else NoSteps)"

definition caught_llm :: "exn \<Rightarrow> bool" where
  "caught_llm e \<longleftrightarrow> is_runtime_kind (exn_kind e) \<or> is_value_kind (exn_kind e) \<or> exn_kind e = TypeError"

definition decompose_with_llm :: "'e decomposer_env_scheme \<Rightarrow> llm_backend \<Rightarrow> bool \<Rightarrow> string \<Rightarrow> sample_shot list \<Rightarrow> string option
    \<Rightarrow> decomposer \<Rightarrow> (exn + llm_result) \<times> decomposer" where
  "decompose_with_llm env backend stream goal shots feedback d =
    (let stages = filter (\<lambda>s. strip s \<noteq> []) (dc_stages d);
         (r, d) = call_llm_backend backend stream (llm_request_for goal (dc_skill d) stages shots feedback) d;
         d = (if stream then log_events [AttemptComplete] d else d)
     in case r of
          Inl e \<Rightarrow> if caught_llm e then (Inr NoSteps, d) else (Inl e, d)
        | Inr t \<Rightarrow> (Inr (read_llm_answer env stages t), d))"

section \<open>What an answer guarantees\<close>

lemma as_raw_steps_nonempty: "as_raw_steps v = Some raws \<Longrightarrow> raws \<noteq> []"
  by (auto simp: as_raw_steps_def split: pyval.splits if_splits)

lemma read_llm_answer_ok:
  assumes "read_llm_answer env stages t = LlmSteps raws"
  shows "raws \<noteq> []" "list_all (llm_step_ok (me_repr env)) raws" "align_stages (me_repr env) stages raws"
proof -
  from assms have p: "parse_json env (strip t) = Some raws" and "list_all (llm_step_ok (me_repr env)) raws" "align_stages (me_repr env) stages raws"
    by (auto simp: read_llm_answer_def Let_def split: if_splits option.splits)
  then show "list_all (llm_step_ok (me_repr env)) raws" "align_stages (me_repr env) stages raws" by simp_all
  from p obtain v where "as_raw_steps v = Some raws" by (auto simp: parse_json_def Let_def split: option.splits)
  then show "raws \<noteq> []" by (rule as_raw_steps_nonempty)
qed

lemma llm_step_valid: "llm_step_ok rp raw \<Longrightarrow> validate_raw_step raw i = Inr ()"
  by (auto simp: llm_step_ok_def validate_raw_step_def list_ex_iff find_None_iff split: option.split)

text \<open>One call, whatever the backend does.\<close>

lemma call_llm_backend_calls: "dc_calls (snd (call_llm_backend b stream rq d)) \<le> Suc (dc_calls d)"
  by (cases b) (auto simp: call_llm_backend_def Let_def log_events_def split_beta split: sum.splits option.splits)

lemma call_llm_backend_frame:
  "dc_skill (snd (call_llm_backend b stream rq d)) = dc_skill d" "dc_stages (snd (call_llm_backend b stream rq d)) = dc_stages d"
  "dc_library (snd (call_llm_backend b stream rq d)) = dc_library d" "dc_samples (snd (call_llm_backend b stream rq d)) = dc_samples d"
  "dc_source (snd (call_llm_backend b stream rq d)) = dc_source d" "dc_candidate (snd (call_llm_backend b stream rq d)) = dc_candidate d"
  by (cases b; auto simp: call_llm_backend_def Let_def log_events_def split_beta split: sum.splits option.splits)+

lemma decompose_with_llm_calls: "dc_calls (snd (decompose_with_llm env b stream goal shots fb d)) \<le> Suc (dc_calls d)"
  using call_llm_backend_calls
  by (simp add: decompose_with_llm_def Let_def log_events_def split_beta split: sum.split)

lemma decompose_with_llm_frame:
  "dc_skill (snd (decompose_with_llm env b stream goal shots fb d)) = dc_skill d"
  "dc_stages (snd (decompose_with_llm env b stream goal shots fb d)) = dc_stages d"
  "dc_library (snd (decompose_with_llm env b stream goal shots fb d)) = dc_library d"
  "dc_samples (snd (decompose_with_llm env b stream goal shots fb d)) = dc_samples d"
  "dc_source (snd (decompose_with_llm env b stream goal shots fb d)) = dc_source d"
  "dc_candidate (snd (decompose_with_llm env b stream goal shots fb d)) = dc_candidate d"
  by (simp_all add: decompose_with_llm_def Let_def log_events_def split_beta call_llm_backend_frame split: sum.split)

lemma decompose_with_llm_steps:
  assumes "fst (decompose_with_llm env b stream goal shots fb d) = Inr (LlmSteps raws)"
  shows "raws \<noteq> []" "list_all (llm_step_ok (me_repr env)) raws"
proof -
  from assms obtain stages t where "read_llm_answer env stages t = LlmSteps raws"
    by (auto simp: decompose_with_llm_def Let_def split_beta split: sum.splits if_splits)
  then show "raws \<noteq> []" "list_all (llm_step_ok (me_repr env)) raws" by (rule read_llm_answer_ok)+
qed

end
