(* ===== verification/Goal_Gates.thy ===== *)
theory Goal_Gates
  imports Llm_Decomposer Calculator
begin

text \<open>
  How a goal is looked at before and after its decomposition (\<open>core/plan_decomposer.py\<close>): goals that
  are no tasks, the methods a goal insists on, goals a built-in tool can compute, and the
  comparison of a plan with its goal. The patterns are those of the source. Punctuation outside
  ASCII is a table of Unicode and stays the field \<open>de_punct\<close>.
\<close>

section \<open>Goals that are no tasks\<close>

text \<open>The ASCII characters of a category that begins with P.\<close>

definition ascii_punct :: "char list" where
  "ascii_punct = [CHR 0x21, CHR 0x22, CHR 0x23, CHR 0x25, CHR 0x26, CHR 0x27, CHR 0x28, CHR 0x29, CHR 0x2A, CHR 0x2C,
     CHR 0x2D, CHR 0x2E, CHR 0x2F, CHR 0x3A, CHR 0x3B, CHR 0x3F, CHR 0x40, CHR 0x5B, CHR 0x5C, CHR 0x5D, CHR 0x5F,
     CHR 0x7B, CHR 0x7D]"

definition punctuation :: "'e decomposer_env_scheme \<Rightarrow> string \<Rightarrow> bool" where
  "punctuation env c = (case c of [b] \<Rightarrow> b \<in> set ascii_punct | _ \<Rightarrow> de_punct env c)"

definition normalize_non_task_input :: "'e decomposer_env_scheme \<Rightarrow> string \<Rightarrow> string" where
  "normalize_non_task_input env s =
    (let cs = characters (lower (strip s))
     in strip (concat (rev (dropWhile (punctuation env) (rev (dropWhile (punctuation env) cs))))))"

definition NON_TASK_INPUTS :: "string list" where
  "NON_TASK_INPUTS =
    [[CHR 0xE4, CHR 0xBD, CHR 0xA0, CHR 0xE5, CHR 0xA5, CHR 0xBD],
     [CHR 0xE6, CHR 0x82, CHR 0xA8, CHR 0xE5, CHR 0xA5, CHR 0xBD],
     ''hi'',
     ''hello'',
     ''hey'',
     [CHR 0xE5, CHR 0x97, CHR 0xA8],
     [CHR 0xE6, CHR 0x97, CHR 0xA9, CHR 0xE4, CHR 0xB8, CHR 0x8A, CHR 0xE5, CHR 0xA5, CHR 0xBD],
     [CHR 0xE4, CHR 0xB8, CHR 0xAD, CHR 0xE5, CHR 0x8D, CHR 0x88, CHR 0xE5, CHR 0xA5, CHR 0xBD],
     [CHR 0xE6, CHR 0x99, CHR 0x9A, CHR 0xE4, CHR 0xB8, CHR 0x8A, CHR 0xE5, CHR 0xA5, CHR 0xBD],
     [CHR 0xE6, CHR 0x99, CHR 0x9A, CHR 0xE5, CHR 0xAE, CHR 0x89],
     [CHR 0xE5, CHR 0x86, CHR 0x8D, CHR 0xE8, CHR 0xA7, CHR 0x81],
     [CHR 0xE6, CHR 0x8B, CHR 0x9C, CHR 0xE6, CHR 0x8B, CHR 0x9C],
     [CHR 0xE5, CHR 0x97, CHR 0xAF],
     [CHR 0xE5, CHR 0x93, CHR 0xA6],
     [CHR 0xE5, CHR 0xA5, CHR 0xBD],
     [CHR 0xE5, CHR 0xA5, CHR 0xBD, CHR 0xE7, CHR 0x9A, CHR 0x84],
     ''ok'',
     ''okay'',
     [CHR 0xE6, CHR 0x98, CHR 0xAF, CHR 0xE7, CHR 0x9A, CHR 0x84],
     [CHR 0xE5, CHR 0xAF, CHR 0xB9],
     [CHR 0xE6, CHR 0xB2, CHR 0xA1, CHR 0xE9, CHR 0x94, CHR 0x99],
     [CHR 0xE8, CHR 0xB0, CHR 0xA2, CHR 0xE8, CHR 0xB0, CHR 0xA2],
     [CHR 0xE4, CHR 0xB8, CHR 0x8D, CHR 0xE5, CHR 0xAE, CHR 0xA2, CHR 0xE6, CHR 0xB0, CHR 0x94],
     [CHR 0xE4, CHR 0xBD, CHR 0xA0, CHR 0xE6, CHR 0x93, CHR 0x85, CHR 0xE9, CHR 0x95, CHR 0xBF, CHR 0xE4, CHR 0xBB, CHR 0x80, CHR 0xE4, CHR
       0xB9, CHR 0x88],
     [CHR 0xE4, CHR 0xBD, CHR 0xA0, CHR 0xE8, CHR 0x83, CHR 0xBD, CHR 0xE5, CHR 0x81, CHR 0x9A, CHR 0xE4, CHR 0xBB, CHR 0x80, CHR 0xE4, CHR
       0xB9, CHR 0x88],
     [CHR 0xE4, CHR 0xBD, CHR 0xA0, CHR 0xE4, CHR 0xBC, CHR 0x9A, CHR 0xE4, CHR 0xBB, CHR 0x80, CHR 0xE4, CHR 0xB9, CHR 0x88],
     [CHR 0xE4, CHR 0xBD, CHR 0xA0, CHR 0xE4, CHR 0xBC, CHR 0x9A, CHR 0xE5, CHR 0x81, CHR 0x9A, CHR 0xE4, CHR 0xBB, CHR 0x80, CHR 0xE4, CHR
       0xB9, CHR 0x88],
     [CHR 0xE4, CHR 0xBD, CHR 0xA0, CHR 0xE8, CHR 0x83, CHR 0xBD, CHR 0xE5, CHR 0xB9, CHR 0xB2, CHR 0xE5, CHR 0x98, CHR 0x9B],
     [CHR 0xE4, CHR 0xBB, CHR 0x8B, CHR 0xE7, CHR 0xBB, CHR 0x8D, CHR 0xE4, CHR 0xB8, CHR 0x80, CHR 0xE4, CHR 0xB8, CHR 0x8B, CHR 0xE4, CHR
       0xBD, CHR 0xA0, CHR 0xE8, CHR 0x87, CHR 0xAA, CHR 0xE5, CHR 0xB7, CHR 0xB1],
     [CHR 0xE4, CHR 0xBB, CHR 0x8B, CHR 0xE7, CHR 0xBB, CHR 0x8D, CHR 0xE4, CHR 0xBD, CHR 0xA0, CHR 0xE8, CHR 0x87, CHR 0xAA, CHR 0xE5, CHR
       0xB7, CHR 0xB1],
     [CHR 0xE4, CHR 0xBD, CHR 0xA0, CHR 0xE5, CHR 0x8F, CHR 0xAB, CHR 0xE4, CHR 0xBB, CHR 0x80, CHR 0xE4, CHR 0xB9, CHR 0x88],
     [CHR 0xE4, CHR 0xBD, CHR 0xA0, CHR 0xE5, CHR 0x8F, CHR 0xAB, CHR 0xE4, CHR 0xBB, CHR 0x80, CHR 0xE4, CHR 0xB9, CHR 0x88, CHR 0xE5, CHR
       0x90, CHR 0x8D, CHR 0xE5, CHR 0xAD, CHR 0x97],
     [CHR 0xE4, CHR 0xBD, CHR 0xA0, CHR 0xE6, CHR 0x98, CHR 0xAF, CHR 0xE8, CHR 0xB0, CHR 0x81]]"

text \<open>Explain, introduce, what is; what is the principle of.\<close>

definition EXPLANATION_INTENT :: pattern where
  "EXPLANATION_INTENT = Alt
    (seqs [maybe (seqs [literals
     [[CHR 0xE8, CHR 0xAF, CHR 0xB7],
     [CHR 0xE8, CHR 0xAF, CHR 0xB7, CHR 0xE7, CHR 0xBB, CHR 0x99, CHR 0xE6, CHR 0x88, CHR 0x91],
     [CHR 0xE7, CHR 0xBB, CHR 0x99, CHR 0xE6, CHR 0x88, CHR 0x91],
     [CHR 0xE5, CHR 0xB8, CHR 0xAE, CHR 0xE6, CHR 0x88, CHR 0x91],
     [CHR 0xE6, CHR 0x9B, CHR 0xBF, CHR 0xE6, CHR 0x88, CHR 0x91],
     [CHR 0xE4, CHR 0xB8, CHR 0xBA, CHR 0xE6, CHR 0x88, CHR 0x91],
     [CHR 0xE9, CHR 0xBA, CHR 0xBB, CHR 0xE7, CHR 0x83, CHR 0xA6]], spaces]),
     alts [literal ([CHR 0xE8, CHR 0xAE, CHR 0xB2, CHR 0xE8, CHR 0xAE, CHR 0xB2]),
       seqs [literal ([CHR 0xE8, CHR 0xA7, CHR 0xA3, CHR 0xE9, CHR 0x87, CHR 0x8A]), maybe (literal ([CHR 0xE4, CHR 0xB8, CHR 0x80, CHR
         0xE4, CHR 0xB8, CHR 0x8B]))],
       literal ([CHR 0xE8, CHR 0xAF, CHR 0xB4, CHR 0xE8, CHR 0xAF, CHR 0xB4]),
       literal ([CHR 0xE8, CHR 0xB0, CHR 0x88, CHR 0xE8, CHR 0xB0, CHR 0x88]),
       seqs [literal ([CHR 0xE4, CHR 0xBB, CHR 0x8B, CHR 0xE7, CHR 0xBB, CHR 0x8D]), maybe (literal ([CHR 0xE4, CHR 0xB8, CHR 0x80, CHR
         0xE4, CHR 0xB8, CHR 0x8B]))],
       seqs [literal ([CHR 0xE7, CHR 0xA7, CHR 0x91, CHR 0xE6, CHR 0x99, CHR 0xAE]), maybe (literal ([CHR 0xE4, CHR 0xB8, CHR 0x80, CHR
         0xE4, CHR 0xB8, CHR 0x8B]))],
       literal ([CHR 0xE4, CHR 0xBB, CHR 0x80, CHR 0xE4, CHR 0xB9, CHR 0x88, CHR 0xE6, CHR 0x98, CHR 0xAF]),
       literal ([CHR 0xE4, CHR 0xBB, CHR 0x80, CHR 0xE4, CHR 0xB9, CHR 0x88, CHR 0xE5, CHR 0x8F, CHR 0xAB])],
     some any_char])
    (seqs [literals
     [[CHR 0xE8, CHR 0x83, CHR 0xBD],
     [CHR 0xE5, CHR 0x8F, CHR 0xAF, CHR 0xE4, CHR 0xBB, CHR 0xA5],
     [CHR 0xE8, CHR 0x83, CHR 0xBD, CHR 0xE4, CHR 0xB8, CHR 0x8D, CHR 0xE8, CHR 0x83, CHR 0xBD],
     [CHR 0xE5, CHR 0x8F, CHR 0xAF, CHR 0xE4, CHR 0xB8, CHR 0x8D, CHR 0xE5, CHR 0x8F, CHR 0xAF, CHR 0xE4, CHR 0xBB, CHR 0xA5]],
     maybe (literal ([CHR 0xE8, CHR 0xAF, CHR 0xA6, CHR 0xE7, CHR 0xBB, CHR 0x86])),
     maybe (literal ([CHR 0xE5, CHR 0x9C, CHR 0xB0])),
     maybe (literal ([CHR 0xE7, CHR 0xBB, CHR 0x99, CHR 0xE6, CHR 0x88, CHR 0x91])),
     literals
     [[CHR 0xE8, CHR 0xAE, CHR 0xB2, CHR 0xE8, CHR 0xAE, CHR 0xB2],
     [CHR 0xE8, CHR 0xA7, CHR 0xA3, CHR 0xE9, CHR 0x87, CHR 0x8A],
     [CHR 0xE8, CHR 0xAF, CHR 0xB4, CHR 0xE8, CHR 0xAF, CHR 0xB4],
     [CHR 0xE4, CHR 0xBB, CHR 0x8B, CHR 0xE7, CHR 0xBB, CHR 0x8D]],
     maybe (literal ([CHR 0xE4, CHR 0xB8, CHR 0x80, CHR 0xE4, CHR 0xB8, CHR 0x8B])),
     maybe (literal ([CHR 0xE5, CHR 0x90, CHR 0x97])),
     maybe (one_of [[CHR 0xEF, CHR 0xBC, CHR 0x8C], '','', [CHR 0xEF, CHR 0xBC, CHR 0x9A], '':'']), Star any_char])"

definition EXPLANATION_NOUN :: pattern where
  "EXPLANATION_NOUN = seqs [some any_char, maybe (literal ([CHR 0xE7, CHR 0x9A, CHR 0x84])),
     literal ([CHR 0xE5, CHR 0x8E, CHR 0x9F, CHR 0xE7, CHR 0x90, CHR 0x86]),
     maybe (literals
     [[CHR 0xE6, CHR 0x98, CHR 0xAF, CHR 0xE4, CHR 0xBB, CHR 0x80, CHR 0xE4, CHR 0xB9, CHR 0x88],
     [CHR 0xE6, CHR 0x98, CHR 0xAF, CHR 0xE5, CHR 0x95, CHR 0xA5]])]"

definition is_explanation_request :: "'e decomposer_env_scheme \<Rightarrow> string \<Rightarrow> bool" where
  "is_explanation_request env s =
    (let n = normalize_non_task_input env s in fullmatch EXPLANATION_INTENT n \<or> fullmatch EXPLANATION_NOUN n)"

section \<open>Methods\<close>

text \<open>\<open>_normalize_constraint_text\<close> and \<open>_normalize_echo_text\<close>, which are the same.\<close>

definition bare_text :: "'e decomposer_env_scheme \<Rightarrow> string \<Rightarrow> string" where
  "bare_text env s = concat (filter (\<lambda>c. \<not> space_char c \<and> \<not> punctuation env c) (characters (lower (strip s))))"

definition method_prefixes :: "string list" where
  "method_prefixes =
    [[CHR 0xE6, CHR 0x8C, CHR 0x89, CHR 0xE7, CHR 0x85, CHR 0xA7],
     [CHR 0xE6, CHR 0x8C, CHR 0x89],
     [CHR 0xE4, CHR 0xBD, CHR 0xBF, CHR 0xE7, CHR 0x94, CHR 0xA8],
     [CHR 0xE7, CHR 0x94, CHR 0xA8],
     [CHR 0xE9, CHR 0x80, CHR 0x9A, CHR 0xE8, CHR 0xBF, CHR 0x87],
     [CHR 0xE9, CHR 0x87, CHR 0x87, CHR 0xE7, CHR 0x94, CHR 0xA8]]"

definition method_suffixes :: "string list" where
  "method_suffixes =
    [[CHR 0xE7, CHR 0xAE, CHR 0x97, CHR 0xE6, CHR 0xB3, CHR 0x95],
     [CHR 0xE5, CHR 0x8D, CHR 0x8F, CHR 0xE8, CHR 0xAE, CHR 0xAE],
     [CHR 0xE6, CHR 0xA0, CHR 0xBC, CHR 0xE5, CHR 0xBC, CHR 0x8F],
     [CHR 0xE7, CHR 0xBC, CHR 0x96, CHR 0xE7, CHR 0xA0, CHR 0x81]]"

definition method_char :: "string \<Rightarrow> bool" where
  "method_char c \<longleftrightarrow> is_cjk c \<or> (case c of [b] \<Rightarrow> is_alnum (lower_char b) \<or> b \<in> set ''_+#.-'' | _ \<Rightarrow> False)"

definition METHOD_CONSTRAINT :: pattern where
  "METHOD_CONSTRAINT = seqs [literals method_prefixes, spaces,
     Named ''1'' (Seq (Class method_char) (up_to 39 (Class method_char))), spaces, Named ''2'' (literals method_suffixes)]"

definition word_char :: "string \<Rightarrow> bool" where
  "word_char c = (case c of [b] \<Rightarrow> is_alnum (lower_char b) \<or> b = CHR ''_'' | _ \<Rightarrow> False)"

definition method_names :: "'e decomposer_env_scheme \<Rightarrow> string list" where
  "method_names env = filter (\<lambda>t. t \<noteq> []) (map (bare_text env) (de_methods env))"

definition method_entity_pattern :: "'e decomposer_env_scheme \<Rightarrow> pattern option" where
  "method_entity_pattern env =
    (if method_names env = [] then None
     else Some (seqs [literals method_prefixes, spaces,
       Named ''1'' (alts (map literal_nocase (rev (sort_key (\<lambda>t. length (characters t)) (method_names env))))), NotBefore word_char]))"

definition add_constraint :: "string \<Rightarrow> string list \<Rightarrow> string list" where
  "add_constraint t ts = (if t = [] \<or> list_ex (\<lambda>i. i = t \<or> starts_with t i) ts then ts else ts @ [t])"

definition extract_method_constraints :: "'e decomposer_env_scheme \<Rightarrow> string \<Rightarrow> string list" where
  "extract_method_constraints env s =
    (let found = (\<lambda>m. bare_text env (dget_or (tm_groups m) ''1'' [] @ dget_or (tm_groups m) ''2'' []));
         ts = fold (\<lambda>m. add_constraint (found m)) (find_all METHOD_CONSTRAINT (characters s)) []
     in case method_entity_pattern env of
          None \<Rightarrow> ts
        | Some p \<Rightarrow> fold (\<lambda>m. add_constraint (found m)) (find_all p (characters s)) ts)"

text \<open>The values of a raw step that are text or numbers.\<close>

definition scalar_text :: "(pyval \<Rightarrow> string) \<Rightarrow> pyval \<Rightarrow> string option" where
  "scalar_text rp v = (case v of PStr s \<Rightarrow> Some s | PInt _ \<Rightarrow> Some (py_str rp v) | PBool _ \<Rightarrow> Some (py_str rp v)
     | PFloat _ \<Rightarrow> Some (py_str rp v) | _ \<Rightarrow> None)"

definition raw_steps_text :: "'e decomposer_env_scheme \<Rightarrow> pyval dict list \<Rightarrow> string" where
  "raw_steps_text env raws = bare_text env (join newline (List.map_filter (\<lambda>(k, v). scalar_text (me_repr env) v) (concat raws)))"

definition missing_method_constraints :: "'e decomposer_env_scheme \<Rightarrow> string \<Rightarrow> pyval dict list \<Rightarrow> string list" where
  "missing_method_constraints env goal raws =
    filter (\<lambda>t. \<not> contains t (raw_steps_text env raws)) (extract_method_constraints env goal)"

definition normalize_keyword_map :: "'e decomposer_env_scheme \<Rightarrow> string list dict \<Rightarrow> string list dict" where
  "normalize_keyword_map env m = dict_of (map (\<lambda>(k, ts). (k, filter (\<lambda>t. t \<noteq> []) (map (bare_text env) ts))) m)"

definition ends_with :: "string \<Rightarrow> string \<Rightarrow> bool" where
  "ends_with p s = starts_with (rev p) (rev s)"

definition strip_method_suffix :: "string \<Rightarrow> string option" where
  "strip_method_suffix t = map_option (\<lambda>p. take (length t - length p) t) (find (\<lambda>p. ends_with p t) method_suffixes)"

definition has_unavailable_algorithm :: "string list \<Rightarrow> string list dict \<Rightarrow> bool" where
  "has_unavailable_algorithm constraints algorithms =
    (algorithms \<noteq> [] \<and> list_ex (\<lambda>b. \<not> list_ex (\<lambda>n. starts_with n b) (concat (map snd algorithms)))
       (List.map_filter strip_method_suffix constraints))"

definition tool_requested :: "'e decomposer_env_scheme \<Rightarrow> string \<Rightarrow> string \<Rightarrow> string list \<Rightarrow> string list dict \<Rightarrow> string list dict \<Rightarrow> string list \<Rightarrow> bool" where
  "tool_requested env tool goal constraints algorithms triggers fallback =
    (list_ex (\<lambda>t. list_ex (\<lambda>n. starts_with n t) (dget_or algorithms tool [] @ map (bare_text env) fallback)) constraints \<or>
     list_ex (\<lambda>k. contains k (bare_text env goal)) (dget_or triggers tool []))"

section \<open>Plans of the built-in tools\<close>

definition tool_step :: "string \<Rightarrow> string \<Rightarrow> string \<Rightarrow> string \<Rightarrow> string \<Rightarrow> string \<Rightarrow> string \<Rightarrow> pyval dict \<Rightarrow> pyval dict" where
  "tool_step sid skill title desc expected verif criteria args =
    [(''step_id'', PStr sid), (''skill_id'', PStr skill), (''title'', PStr title), (''description'', PStr desc),
     (''expected_output'', PStr expected), (''verification'', PStr verif), (''completion_criteria'', PStr criteria),
     (''tool_args'', PDict args), (''estimated_minutes'', PInt 1)]"

definition transcribe_step :: "string \<Rightarrow> string \<Rightarrow> string \<Rightarrow> string \<Rightarrow> string \<Rightarrow> string \<Rightarrow> string \<Rightarrow> pyval dict" where
  "transcribe_step sid tool_sid title desc expected verif criteria =
    [(''step_id'', PStr sid), (''skill_id'', PStr ''chat''), (''title'', PStr title), (''description'', PStr desc),
     (''expected_output'', PStr expected), (''verification'', PStr verif), (''completion_criteria'', PStr criteria),
     (''depends_on'', PList [PStr tool_sid]), (''estimated_minutes'', PInt 1)]"

definition FOLLOWUP :: pattern where
  "FOLLOWUP = seqs [literals
     [[CHR 0xE5, CHR 0x86, CHR 0x8D],
     [CHR 0xE7, CHR 0x84, CHR 0xB6, CHR 0xE5, CHR 0x90, CHR 0x8E],
     [CHR 0xE6, CHR 0x8E, CHR 0xA5, CHR 0xE7, CHR 0x9D, CHR 0x80]], spaces,
     literals [zh_times_by, zh_times, zh_plus, zh_minus, zh_divided_by, [CHR 0xE9, CHR 0x99, CHR 0xA4], ''+'', ''-'', ''*'', ''/'',
       division_sign, times_sign, ''^'', ''**''], spaces, Alt (some digit) zh_numeral]"

definition has_followup :: "string \<Rightarrow> bool" where
  "has_followup s \<longleftrightarrow> search_text FOLLOWUP s \<noteq> None"

definition COMPOSITE_NOTICE :: string where
  "COMPOSITE_NOTICE =
     [CHR 0xE5, CHR 0xB7, CHR 0xB2, CHR 0xE6, CHR 0x89, CHR 0xA7, CHR 0xE8, CHR 0xA1, CHR 0x8C, CHR 0xE5, CHR 0x8F,
     CHR 0xAF, CHR 0xE8, CHR 0xA7, CHR 0xA3, CHR 0xE6, CHR 0x9E, CHR 0x90, CHR 0xE7, CHR 0x9A, CHR 0x84, CHR 0xE9,
     CHR 0xA6, CHR 0x96, CHR 0xE6, CHR 0xAE, CHR 0xB5, CHR 0xE7, CHR 0xAE, CHR 0x97, CHR 0xE6, CHR 0xB3, CHR 0x95,
     CHR 0xE8, CHR 0xAF, CHR 0xB7, CHR 0xE6, CHR 0xB1, CHR 0x82, CHR 0xEF, CHR 0xBC, CHR 0x9B, CHR 0xE6, CHR 0xA3,
     CHR 0x80, CHR 0xE6, CHR 0xB5, CHR 0x8B, CHR 0xE5, CHR 0x88, CHR 0xB0, CHR 0xE5, CHR 0x90, CHR 0x8E, CHR 0xE7,
     CHR 0xBB, CHR 0xAD, CHR 0xE5, CHR 0xA4, CHR 0x8D, CHR 0xE5, CHR 0x90, CHR 0x88, CHR 0xE8, CHR 0xAE, CHR 0xA1,
     CHR 0xE7, CHR 0xAE, CHR 0x97, CHR 0xE7, CHR 0x89, CHR 0x87, CHR 0xE6, CHR 0xAE, CHR 0xB5, CHR 0xEF, CHR 0xBC,
     CHR 0x8C, CHR 0xE8, CHR 0xAF, CHR 0xB7, CHR 0xE5, CHR 0x88, CHR 0x86, CHR 0xE6, CHR 0xAD, CHR 0xA5, CHR 0xE6,
     CHR 0x8F, CHR 0x90, CHR 0xE4, CHR 0xBA, CHR 0xA4, CHR 0xE4, CHR 0xBB, CHR 0xA5, CHR 0xE9, CHR 0x81, CHR 0xBF,
     CHR 0xE5, CHR 0x85, CHR 0x8D, CHR 0xE9, CHR 0x9D, CHR 0x99, CHR 0xE9, CHR 0xBB, CHR 0x98, CHR 0xE4, CHR 0xB8,
     CHR 0xA2, CHR 0xE5, CHR 0xA4, CHR 0xB1, CHR 0xE3, CHR 0x80, CHR 0x82]"

definition times_text :: "int \<Rightarrow> int \<Rightarrow> string" where
  "times_text a b = int_str a @ '' '' @ times_sign @ '' '' @ int_str b"

definition booth_steps :: "int \<Rightarrow> int \<Rightarrow> bool \<Rightarrow> pyval dict list" where
  "booth_steps a b followup =
    [tool_step ''booth_tool'' ''algorithm_booth''
       ([CHR 0xE6, CHR 0x89, CHR 0xA7, CHR 0xE8, CHR 0xA1, CHR 0x8C] @ '' Booth '' @ [CHR 0xE7, CHR 0xAE, CHR 0x97, CHR 0xE6, CHR 0xB3, CHR
         0x95, CHR 0xEF, CHR 0xBC, CHR 0x9A] @ times_text a b)
       ([CHR 0xE8, CHR 0xB0, CHR 0x83, CHR 0xE7, CHR 0x94, CHR 0xA8, CHR 0xE6, CHR 0x9C, CHR 0xAC, CHR 0xE5, CHR 0x9C, CHR 0xB0, CHR 0xE7,
         CHR 0xA1, CHR 0xAE, CHR 0xE5, CHR 0xAE, CHR 0x9A, CHR 0xE6, CHR 0x80, CHR 0xA7] @ '' Booth '' @ [CHR 0xE5, CHR 0xB7, CHR 0xA5, CHR
         0xE5, CHR 0x85, CHR 0xB7, CHR 0xEF, CHR 0xBC, CHR 0x8C, CHR 0xE7, CHR 0x94, CHR 0x9F, CHR 0xE6, CHR 0x88, CHR 0x90, CHR 0xE4, CHR
         0xB9, CHR 0x98, CHR 0xE6, CHR 0x95, CHR 0xB0, CHR 0xE9, CHR 0x87, CHR 0x8D, CHR 0xE7, CHR 0xBC, CHR 0x96, CHR 0xE7, CHR 0xA0, CHR
         0x81, CHR 0xE3, CHR 0x80, CHR 0x81, CHR 0xE9, CHR 0x83, CHR 0xA8, CHR 0xE5, CHR 0x88, CHR 0x86, CHR 0xE7, CHR 0xA7, CHR 0xAF, CHR
         0xE5, CHR 0x92, CHR 0x8C, CHR 0xE7, CHR 0xA7, CHR 0xBB, CHR 0xE4, CHR 0xBD, CHR 0x8D, CHR 0xE7, CHR 0xB4, CHR 0xAF, CHR 0xE5, CHR
         0x8A, CHR 0xA0, CHR 0xE4, CHR 0xB8, CHR 0xAD, CHR 0xE9, CHR 0x97, CHR 0xB4, CHR 0xE6, CHR 0x80, CHR 0x81, CHR 0xE3, CHR 0x80, CHR
         0x82])
       (''Booth '' @ [CHR 0xE7, CHR 0xAE, CHR 0x97, CHR 0xE6, CHR 0xB3, CHR 0x95, CHR 0xE4, CHR 0xB8, CHR 0xAD, CHR 0xE9, CHR 0x97, CHR
         0xB4, CHR 0xE6, CHR 0x80, CHR 0x81, CHR 0xE4, CHR 0xB8, CHR 0x8E, CHR 0xE6, CHR 0x9C, CHR 0x80, CHR 0xE7, CHR 0xBB, CHR 0x88, CHR
         0xE4, CHR 0xB9, CHR 0x98, CHR 0xE7, CHR 0xA7, CHR 0xAF, CHR 0xE3, CHR 0x80, CHR 0x82])
       ([CHR 0xE5, CHR 0xB7, CHR 0xA5, CHR 0xE5, CHR 0x85, CHR 0xB7, CHR 0xE7, CHR 0xBB, CHR 0x93, CHR 0xE6, CHR 0x9E, CHR 0x9C, CHR 0xE5,
         CHR 0xBA, CHR 0x94, CHR 0xE4, CHR 0xB8, CHR 0xBA] @ '' '' @ times_text a b @ '' = '' @ int_str (a * b) @ [CHR 0xE3, CHR 0x80, CHR
         0x82])
       ([CHR 0xE6, CHR 0x89, CHR 0x80, CHR 0xE6, CHR 0x9C, CHR 0x89] @ '' Booth '' @ [CHR 0xE8, CHR 0xBD, CHR 0xAE, CHR 0xE6, CHR 0xAC, CHR
         0xA1, CHR 0xE5, CHR 0x8F, CHR 0xAF, CHR 0xE8, CHR 0xBF, CHR 0xBD, CHR 0xE6, CHR 0xBA, CHR 0xAF, CHR 0xEF, CHR 0xBC, CHR 0x8C, CHR
         0xE6, CHR 0x9C, CHR 0x80, CHR 0xE7, CHR 0xBB, CHR 0x88, CHR 0xE7, CHR 0xBB, CHR 0x93, CHR 0xE6, CHR 0x9E, CHR 0x9C, CHR 0xE4, CHR
         0xB8, CHR 0x8E, CHR 0xE6, CHR 0x9C, CHR 0xBA, CHR 0xE6, CHR 0xA2, CHR 0xB0, CHR 0xE8, CHR 0xAE, CHR 0xA1, CHR 0xE7, CHR 0xAE, CHR
         0x97, CHR 0xE4, CHR 0xB8, CHR 0x80, CHR 0xE8, CHR 0x87, CHR 0xB4, CHR 0xE3, CHR 0x80, CHR 0x82])
       [(''multiplicand'', PInt a), (''multiplier'', PInt b)],
     transcribe_step ''booth_transcribe'' ''booth_tool''
       (if followup then [CHR 0xE8, CHR 0xBD, CHR 0xAC, CHR 0xE8, CHR 0xBF, CHR 0xB0] @ '' Booth '' @ [CHR 0xE7, CHR 0xBB, CHR 0x93, CHR
         0xE6, CHR 0x9E, CHR 0x9C, CHR 0xE5, CHR 0xB9, CHR 0xB6, CHR 0xE6, CHR 0x8F, CHR 0x90, CHR 0xE7, CHR 0xA4, CHR 0xBA, CHR 0xE5, CHR
         0xA4, CHR 0x8D, CHR 0xE5, CHR 0x90, CHR 0x88, CHR 0xE6, CHR 0x8C, CHR 0x87, CHR 0xE4, CHR 0xBB, CHR 0xA4, CHR 0xE8, CHR 0xBE, CHR
         0xB9, CHR 0xE7, CHR 0x95, CHR 0x8C]
        else [CHR 0xE8, CHR 0xBD, CHR 0xAC, CHR 0xE8, CHR 0xBF, CHR 0xB0] @ '' Booth '' @ [CHR 0xE7, CHR 0xAE, CHR 0x97, CHR 0xE6, CHR
          0xB3, CHR 0x95, CHR 0xE6, CHR 0x89, CHR 0xA7, CHR 0xE8, CHR 0xA1, CHR 0x8C, CHR 0xE7, CHR 0xBB, CHR 0x93, CHR 0xE6, CHR 0x9E, CHR
          0x9C])
       ([CHR 0xE6, CHR 0xA0, CHR 0xB9, CHR 0xE6, CHR 0x8D, CHR 0xAE] @ '' Booth '' @ [CHR 0xE5, CHR 0xB7, CHR 0xA5, CHR 0xE5, CHR 0x85, CHR
         0xB7, CHR 0xE8, CHR 0xBF, CHR 0x94, CHR 0xE5, CHR 0x9B, CHR 0x9E, CHR 0xE7, CHR 0x9A, CHR 0x84, CHR 0xE4, CHR 0xB8, CHR 0xAD, CHR
         0xE9, CHR 0x97, CHR 0xB4, CHR 0xE6, CHR 0x80, CHR 0x81, CHR 0xE8, CHR 0xBD, CHR 0xAC, CHR 0xE8, CHR 0xBF, CHR 0xB0, CHR 0xE7, CHR
         0xAE, CHR 0x97, CHR 0xE6, CHR 0xB3, CHR 0x95, CHR 0xE8, CHR 0xBF, CHR 0x87, CHR 0xE7, CHR 0xA8, CHR 0x8B, CHR 0xE4, CHR 0xB8, CHR
         0x8E, CHR 0xE6, CHR 0x9C, CHR 0x80, CHR 0xE7, CHR 0xBB, CHR 0x88, CHR 0xE7, CHR 0xBB, CHR 0x93, CHR 0xE6, CHR 0x9E, CHR 0x9C, CHR
         0xEF, CHR 0xBC, CHR 0x8C, CHR 0xE4, CHR 0xB8, CHR 0x8D, CHR 0xE9, CHR 0x87, CHR 0x8D, CHR 0xE6, CHR 0x96, CHR 0xB0, CHR 0xE6, CHR
         0x8E, CHR 0xA8, CHR 0xE7, CHR 0x90, CHR 0x86, CHR 0xE6, CHR 0x88, CHR 0x96, CHR 0xE4, CHR 0xBF, CHR 0xAE, CHR 0xE6, CHR 0x94, CHR
         0xB9, CHR 0xE6, CHR 0x95, CHR 0xB0, CHR 0xE5, CHR 0x80, CHR 0xBC, CHR 0xE3, CHR 0x80, CHR 0x82] @
          (if followup then COMPOSITE_NOTICE else []))
       ([CHR 0xE5, CHR 0x8C, CHR 0x85, CHR 0xE5, CHR 0x90, CHR 0xAB, CHR 0xE9, CHR 0x87, CHR 0x8D, CHR 0xE7, CHR 0xBC, CHR 0x96, CHR 0xE7,
         CHR 0xA0, CHR 0x81, CHR 0xE3, CHR 0x80, CHR 0x81, CHR 0xE4, CHR 0xB8, CHR 0xAD, CHR 0xE9, CHR 0x97, CHR 0xB4, CHR 0xE6, CHR 0x80,
         CHR 0x81, CHR 0xE5, CHR 0x92, CHR 0x8C, CHR 0xE6, CHR 0x9C, CHR 0x80, CHR 0xE7, CHR 0xBB, CHR 0x88, CHR 0xE7, CHR 0xBB, CHR 0x93,
         CHR 0xE6, CHR 0x9E, CHR 0x9C, CHR 0xE7, CHR 0x9A, CHR 0x84, CHR 0xE8, CHR 0x87, CHR 0xAA, CHR 0xE7, CHR 0x84, CHR 0xB6, CHR 0xE8,
         CHR 0xAF, CHR 0xAD, CHR 0xE8, CHR 0xA8, CHR 0x80, CHR 0xE8, CHR 0xAF, CHR 0xB4, CHR 0xE6, CHR 0x98, CHR 0x8E, CHR 0xE3, CHR 0x80,
         CHR 0x82] @
          (if followup then '' '' @ [CHR 0xE5, CHR 0x90, CHR 0x8C, CHR 0xE6, CHR 0x97, CHR 0xB6, CHR 0xE6, CHR 0x98, CHR 0x8E, CHR 0xE7,
            CHR 0xA4, CHR 0xBA, CHR 0xE5, CHR 0x90, CHR 0x8E, CHR 0xE7, CHR 0xBB, CHR 0xAD, CHR 0xE5, CHR 0xA4, CHR 0x8D, CHR 0xE5, CHR 0x90,
            CHR 0x88, CHR 0xE8, CHR 0xAE, CHR 0xA1, CHR 0xE7, CHR 0xAE, CHR 0x97, CHR 0xE7, CHR 0x89, CHR 0x87, CHR 0xE6, CHR 0xAE, CHR 0xB5,
            CHR 0xE9, CHR 0x9C, CHR 0x80, CHR 0xE8, CHR 0xA6, CHR 0x81, CHR 0xE5, CHR 0x88, CHR 0x86, CHR 0xE6, CHR 0xAD, CHR 0xA5, CHR 0xE6,
            CHR 0x8F, CHR 0x90, CHR 0xE4, CHR 0xBA, CHR 0xA4, CHR 0xE3, CHR 0x80, CHR 0x82] else []))
       ([CHR 0xE8, CHR 0xBD, CHR 0xAC, CHR 0xE8, CHR 0xBF, CHR 0xB0, CHR 0xE4, CHR 0xB8, CHR 0xAD, CHR 0xE7, CHR 0x9A, CHR 0x84, CHR 0xE6,
         CHR 0x9C, CHR 0x80, CHR 0xE7, CHR 0xBB, CHR 0x88, CHR 0xE6, CHR 0x95, CHR 0xB0, CHR 0xE5, CHR 0x80, CHR 0xBC, CHR 0xE4, CHR 0xB8,
         CHR 0x8E, CHR 0xE5, CHR 0xB7, CHR 0xA5, CHR 0xE5, CHR 0x85, CHR 0xB7, CHR 0xE7, CHR 0xBB, CHR 0x93, CHR 0xE6, CHR 0x9E, CHR 0x9C,
         CHR 0xE5, CHR 0x8F, CHR 0x8A, CHR 0xE7, CHR 0xAE, CHR 0x97, CHR 0xE6, CHR 0x9C, CHR 0xAF, CHR 0xE5, CHR 0xAE, CHR 0xA1, CHR 0xE8,
         CHR 0xAE, CHR 0xA1, CHR 0xE4, CHR 0xB8, CHR 0x80, CHR 0xE8, CHR 0x87, CHR 0xB4, CHR 0xE3, CHR 0x80, CHR 0x82] @
          (if followup then '' '' @ [CHR 0xE4, CHR 0xB8, CHR 0x8D, CHR 0xE5, CHR 0xBE, CHR 0x97, CHR 0xE6, CHR 0x8A, CHR 0x8A, CHR 0xE5,
            CHR 0x90, CHR 0x8E, CHR 0xE7, CHR 0xBB, CHR 0xAD, CHR 0xE5, CHR 0xA4, CHR 0x8D, CHR 0xE5, CHR 0x90, CHR 0x88, CHR 0xE7, CHR 0x89,
            CHR 0x87, CHR 0xE6, CHR 0xAE, CHR 0xB5, CHR 0xE4, CHR 0xBC, CHR 0xAA, CHR 0xE8, CHR 0xA3, CHR 0x85, CHR 0xE6, CHR 0x88, CHR 0x90,
            CHR 0xE5, CHR 0xB7, CHR 0xB2, CHR 0xE5, CHR 0xAE, CHR 0x8C, CHR 0xE6, CHR 0x88, CHR 0x90, CHR 0xE3, CHR 0x80, CHR 0x82] else []))
       ([CHR 0xE5, CHR 0x90, CHR 0x8C, CHR 0xE6, CHR 0x97, CHR 0xB6, CHR 0xE4, CHR 0xBA, CHR 0xA4, CHR 0xE4, CHR 0xBB, CHR 0x98] @ '' Booth
         '' @ [CHR 0xE6, CHR 0x96, CHR 0xB9, CHR 0xE6, CHR 0xB3, CHR 0x95, CHR 0xE8, CHR 0xBF, CHR 0x87, CHR 0xE7, CHR 0xA8, CHR 0x8B, CHR
         0xE5, CHR 0x92, CHR 0x8C, CHR 0xE6, CHR 0x9C, CHR 0x80, CHR 0xE7, CHR 0xBB, CHR 0x88, CHR 0xE8, CHR 0xAE, CHR 0xA1, CHR 0xE7, CHR
         0xAE, CHR 0x97, CHR 0xE7, CHR 0xBB, CHR 0x93, CHR 0xE6, CHR 0x9E, CHR 0x9C, CHR 0xE3, CHR 0x80, CHR 0x82])]"

text \<open>Multiplication only; an operand that is no integer ends the attempt.\<close>

definition booth_plan :: "string \<Rightarrow> pyval dict list option" where
  "booth_plan goal = (case parse_calculation_request goal of
       None \<Rightarrow> None
     | Some e \<Rightarrow> if cr_operator e \<notin> {zh_times, zh_times_by, times_sign, ''*''} then None
         else (case (parse_integer (cr_left e), parse_integer (cr_right e)) of
             (Inr a, Inr b) \<Rightarrow> Some (booth_steps a b (has_followup goal))
           | _ \<Rightarrow> None))"

definition quote_chars :: "string list" where
  "quote_chars = [[CHR 0x22], [CHR 0xE2, CHR 0x80, CHR 0x9C], [CHR 0xE2, CHR 0x80, CHR 0x9D], [CHR 0x27]]"

definition QUOTED :: pattern where
  "QUOTED = seqs [one_of quote_chars, Named ''1'' (some (Class (\<lambda>c. c \<notin> set quote_chars))), one_of quote_chars]"

definition crc32_plan :: "'e decomposer_env_scheme \<Rightarrow> string \<Rightarrow> pyval dict list option" where
  "crc32_plan env goal = map_option (\<lambda>m. let t = dget_or (tm_groups m) ''1'' [] in
     [tool_step ''crc32_tool'' ''algorithm_crc32''
       ([CHR 0xE6, CHR 0x89, CHR 0xA7, CHR 0xE8, CHR 0xA1, CHR 0x8C] @ '' CRC-32 '' @ [CHR 0xE6, CHR 0xA0, CHR 0xA1, CHR 0xE9, CHR 0xAA,
         CHR 0x8C, CHR 0xEF, CHR 0xBC, CHR 0x9A] @ me_repr env (PStr t))
       ([CHR 0xE8, CHR 0xB0, CHR 0x83, CHR 0xE7, CHR 0x94, CHR 0xA8, CHR 0xE6, CHR 0x9C, CHR 0xAC, CHR 0xE5, CHR 0x9C, CHR 0xB0] @ ''
         CRC-32 '' @ [CHR 0xE5, CHR 0xB7, CHR 0xA5, CHR 0xE5, CHR 0x85, CHR 0xB7, CHR 0xEF, CHR 0xBC, CHR 0x8C, CHR 0xE6, CHR 0x8C, CHR 0x89]
         @ '' UTF-8 '' @ [CHR 0xE5, CHR 0xAD, CHR 0x97, CHR 0xE8, CHR 0x8A, CHR 0x82, CHR 0xE6, CHR 0x89, CHR 0xA7, CHR 0xE8, CHR 0xA1, CHR
         0x8C, CHR 0xE7, CHR 0x9C, CHR 0x9F, CHR 0xE5, CHR 0xAE, CHR 0x9E, CHR 0xE6, CHR 0x8C, CHR 0x89, CHR 0xE4, CHR 0xBD, CHR 0x8D, CHR
         0xE8, CHR 0xBF, CHR 0xAD, CHR 0xE4, CHR 0xBB, CHR 0xA3, CHR 0xE5, CHR 0xB9, CHR 0xB6, CHR 0xE4, CHR 0xBA, CHR 0xA4, CHR 0xE5, CHR
         0x8F, CHR 0x89, CHR 0xE9, CHR 0xAA, CHR 0x8C, CHR 0xE8, CHR 0xAF, CHR 0x81] @ '' zlib.crc32'' @ [CHR 0xE3, CHR 0x80, CHR 0x82])
       (''CRC-32 '' @ [CHR 0xE6, CHR 0xA0, CHR 0xA1, CHR 0xE9, CHR 0xAA, CHR 0x8C, CHR 0xE5, CHR 0x80, CHR 0xBC, CHR 0xE3, CHR 0x80, CHR
         0x81, CHR 0xE8, CHR 0xBE, CHR 0x93, CHR 0xE5, CHR 0x85, CHR 0xA5, CHR 0xE5, CHR 0xAD, CHR 0x97, CHR 0xE8, CHR 0x8A, CHR 0x82, CHR
         0xE5, CHR 0x92, CHR 0x8C, CHR 0xE6, CHR 0x8C, CHR 0x89, CHR 0xE4, CHR 0xBD, CHR 0x8D, CHR 0xE8, CHR 0xBF, CHR 0xAD, CHR 0xE4, CHR
         0xBB, CHR 0xA3, CHR 0xE6, CHR 0x91, CHR 0x98, CHR 0xE8, CHR 0xA6, CHR 0x81, CHR 0xE3, CHR 0x80, CHR 0x82])
       ([CHR 0xE5, CHR 0xB7, CHR 0xA5, CHR 0xE5, CHR 0x85, CHR 0xB7, CHR 0xE8, CHR 0x87, CHR 0xAA, CHR 0xE5, CHR 0xAE, CHR 0x9E, CHR 0xE7,
         CHR 0x8E, CHR 0xB0, CHR 0xE7, CHR 0xBB, CHR 0x93, CHR 0xE6, CHR 0x9E, CHR 0x9C, CHR 0xE5, CHR 0xBF, CHR 0x85, CHR 0xE9, CHR 0xA1,
         CHR 0xBB, CHR 0xE4, CHR 0xB8, CHR 0x8E] @ '' zlib.crc32 '' @ [CHR 0xE4, CHR 0xBA, CHR 0xA4, CHR 0xE5, CHR 0x8F, CHR 0x89, CHR 0xE9,
         CHR 0xAA, CHR 0x8C, CHR 0xE8, CHR 0xAF, CHR 0x81, CHR 0xE4, CHR 0xB8, CHR 0x80, CHR 0xE8, CHR 0x87, CHR 0xB4, CHR 0xE3, CHR 0x80,
         CHR 0x82])
       ([CHR 0xE4, CHR 0xBA, CHR 0xA4, CHR 0xE4, CHR 0xBB, CHR 0x98] @ '' CRC-32 '' @ [CHR 0xE6, CHR 0xA0, CHR 0xA1, CHR 0xE9, CHR 0xAA,
         CHR 0x8C, CHR 0xE5, CHR 0x80, CHR 0xBC, CHR 0xE4, CHR 0xB8, CHR 0x8E, CHR 0xE5, CHR 0x8F, CHR 0xAF, CHR 0xE8, CHR 0xBF, CHR 0xBD,
         CHR 0xE6, CHR 0xBA, CHR 0xAF, CHR 0xE4, CHR 0xB8, CHR 0xAD, CHR 0xE9, CHR 0x97, CHR 0xB4, CHR 0xE6, CHR 0x80, CHR 0x81, CHR 0xE3,
         CHR 0x80, CHR 0x82])
       [(''text'', PStr t)],
     transcribe_step ''crc32_transcribe'' ''crc32_tool''
       ([CHR 0xE8, CHR 0xBD, CHR 0xAC, CHR 0xE8, CHR 0xBF, CHR 0xB0] @ '' CRC-32 '' @ [CHR 0xE6, CHR 0xA0, CHR 0xA1, CHR 0xE9, CHR 0xAA,
         CHR 0x8C, CHR 0xE7, CHR 0xBB, CHR 0x93, CHR 0xE6, CHR 0x9E, CHR 0x9C])
       ([CHR 0xE6, CHR 0xA0, CHR 0xB9, CHR 0xE6, CHR 0x8D, CHR 0xAE] @ '' CRC-32 '' @ [CHR 0xE5, CHR 0xB7, CHR 0xA5, CHR 0xE5, CHR 0x85,
         CHR 0xB7, CHR 0xE8, CHR 0xBF, CHR 0x94, CHR 0xE5, CHR 0x9B, CHR 0x9E, CHR 0xE7, CHR 0x9A, CHR 0x84, CHR 0xE5, CHR 0xAD, CHR 0x97,
         CHR 0xE8, CHR 0x8A, CHR 0x82, CHR 0xE8, CHR 0xBD, CHR 0xA8, CHR 0xE8, CHR 0xBF, CHR 0xB9, CHR 0xE5, CHR 0x92, CHR 0x8C, CHR 0xE6,
         CHR 0xA0, CHR 0xA1, CHR 0xE9, CHR 0xAA, CHR 0x8C, CHR 0xE5, CHR 0x80, CHR 0xBC, CHR 0xE8, CHR 0xBD, CHR 0xAC, CHR 0xE8, CHR 0xBF,
         CHR 0xB0, CHR 0xE7, CHR 0xBB, CHR 0x93, CHR 0xE6, CHR 0x9E, CHR 0x9C, CHR 0xEF, CHR 0xBC, CHR 0x8C, CHR 0xE4, CHR 0xB8, CHR 0x8D,
         CHR 0xE7, CHR 0xBC, CHR 0x96, CHR 0xE9, CHR 0x80, CHR 0xA0, CHR 0xE4, CHR 0xB8, CHR 0xAD, CHR 0xE9, CHR 0x97, CHR 0xB4, CHR 0xE6,
         CHR 0x80, CHR 0x81, CHR 0xE3, CHR 0x80, CHR 0x82])
       ([CHR 0xE5, CHR 0x8C, CHR 0x85, CHR 0xE5, CHR 0x90, CHR 0xAB] @ '' UTF-8 '' @ [CHR 0xE5, CHR 0xAD, CHR 0x97, CHR 0xE8, CHR 0x8A, CHR
         0x82, CHR 0xE3, CHR 0x80, CHR 0x81, CHR 0xE8, CHR 0xBF, CHR 0xAD, CHR 0xE4, CHR 0xBB, CHR 0xA3, CHR 0xE6, CHR 0x91, CHR 0x98, CHR
         0xE8, CHR 0xA6, CHR 0x81, CHR 0xE5, CHR 0x92, CHR 0x8C, CHR 0xE6, CHR 0x9C, CHR 0x80, CHR 0xE7, CHR 0xBB, CHR 0x88, CHR 0xE6, CHR
         0xA0, CHR 0xA1, CHR 0xE9, CHR 0xAA, CHR 0x8C, CHR 0xE5, CHR 0x80, CHR 0xBC, CHR 0xE7, CHR 0x9A, CHR 0x84, CHR 0xE8, CHR 0x87, CHR
         0xAA, CHR 0xE7, CHR 0x84, CHR 0xB6, CHR 0xE8, CHR 0xAF, CHR 0xAD, CHR 0xE8, CHR 0xA8, CHR 0x80, CHR 0xE8, CHR 0xAF, CHR 0xB4, CHR
         0xE6, CHR 0x98, CHR 0x8E, CHR 0xE3, CHR 0x80, CHR 0x82])
       ([CHR 0xE8, CHR 0xBD, CHR 0xAC, CHR 0xE8, CHR 0xBF, CHR 0xB0, CHR 0xE4, CHR 0xB8, CHR 0xAD, CHR 0xE7, CHR 0x9A, CHR 0x84, CHR 0xE6,
         CHR 0xA0, CHR 0xA1, CHR 0xE9, CHR 0xAA, CHR 0x8C, CHR 0xE5, CHR 0x80, CHR 0xBC, CHR 0xE4, CHR 0xB8, CHR 0x8E, CHR 0xE5, CHR 0xB7,
         CHR 0xA5, CHR 0xE5, CHR 0x85, CHR 0xB7, CHR 0xE7, CHR 0xBB, CHR 0x93, CHR 0xE6, CHR 0x9E, CHR 0x9C, CHR 0xE4, CHR 0xB8, CHR 0x80,
         CHR 0xE8, CHR 0x87, CHR 0xB4, CHR 0xE3, CHR 0x80, CHR 0x82])
       ([CHR 0xE5, CHR 0x90, CHR 0x8C, CHR 0xE6, CHR 0x97, CHR 0xB6, CHR 0xE4, CHR 0xBA, CHR 0xA4, CHR 0xE4, CHR 0xBB, CHR 0x98] @ ''
         CRC-32 '' @ [CHR 0xE6, CHR 0x96, CHR 0xB9, CHR 0xE6, CHR 0xB3, CHR 0x95, CHR 0xE8, CHR 0xBF, CHR 0x87, CHR 0xE7, CHR 0xA8, CHR 0x8B,
         CHR 0xE5, CHR 0x92, CHR 0x8C, CHR 0xE6, CHR 0x9C, CHR 0x80, CHR 0xE7, CHR 0xBB, CHR 0x88, CHR 0xE6, CHR 0xA0, CHR 0xA1, CHR 0xE9,
         CHR 0xAA, CHR 0x8C, CHR 0xE5, CHR 0x80, CHR 0xBC, CHR 0xE3, CHR 0x80, CHR 0x82])]) (search_text QUOTED goal)"

definition INTEGER_TOKEN :: pattern where
  "INTEGER_TOKEN = seqs [maybe (one_of sign_chars), Alt (some digit) zh_numeral]"

definition extract_integer_operands :: "string \<Rightarrow> int list" where
  "extract_integer_operands s = List.map_filter (\<lambda>m. case parse_integer (match_text m) of Inr i \<Rightarrow> Some i | Inl _ \<Rightarrow> None)
     (find_all INTEGER_TOKEN (characters s))"

definition gcd_steps :: "int \<Rightarrow> int \<Rightarrow> pyval dict list" where
  "gcd_steps a b =
    (let call = ''gcd('' @ int_str a @ '', '' @ int_str b @ '')'' in
     [tool_step ''gcd_tool'' ''algorithm_gcd''
       ([CHR 0xE6, CHR 0x89, CHR 0xA7, CHR 0xE8, CHR 0xA1, CHR 0x8C, CHR 0xE6, CHR 0xAC, CHR 0xA7, CHR 0xE5, CHR 0x87, CHR 0xA0, CHR 0xE9,
         CHR 0x87, CHR 0x8C, CHR 0xE5, CHR 0xBE, CHR 0x97, CHR 0xE7, CHR 0xAE, CHR 0x97, CHR 0xE6, CHR 0xB3, CHR 0x95, CHR 0xEF, CHR 0xBC,
         CHR 0x9A] @ call)
       ([CHR 0xE8, CHR 0xB0, CHR 0x83, CHR 0xE7, CHR 0x94, CHR 0xA8, CHR 0xE6, CHR 0x9C, CHR 0xAC, CHR 0xE5, CHR 0x9C, CHR 0xB0, CHR 0xE6,
         CHR 0xAC, CHR 0xA7, CHR 0xE5, CHR 0x87, CHR 0xA0, CHR 0xE9, CHR 0x87, CHR 0x8C, CHR 0xE5, CHR 0xBE, CHR 0x97, CHR 0xE7, CHR 0xAE,
         CHR 0x97, CHR 0xE6, CHR 0xB3, CHR 0x95, CHR 0xE5, CHR 0xB7, CHR 0xA5, CHR 0xE5, CHR 0x85, CHR 0xB7, CHR 0xEF, CHR 0xBC, CHR 0x8C,
         CHR 0xE7, CHR 0x94, CHR 0x9F, CHR 0xE6, CHR 0x88, CHR 0x90, CHR 0xE8, CHR 0xBE, CHR 0x97, CHR 0xE8, CHR 0xBD, CHR 0xAC, CHR 0xE7,
         CHR 0x9B, CHR 0xB8, CHR 0xE9, CHR 0x99, CHR 0xA4, CHR 0xE4, CHR 0xBD, CHR 0x99, CHR 0xE6, CHR 0x95, CHR 0xB0, CHR 0xE5, CHR 0xBA,
         CHR 0x8F, CHR 0xE5, CHR 0x88, CHR 0x97, CHR 0xE3, CHR 0x80, CHR 0x82])
       ([CHR 0xE4, CHR 0xBD, CHR 0x99, CHR 0xE6, CHR 0x95, CHR 0xB0, CHR 0xE5, CHR 0xBA, CHR 0x8F, CHR 0xE5, CHR 0x88, CHR 0x97, CHR 0xE4,
         CHR 0xB8, CHR 0x8E, CHR 0xE6, CHR 0x9C, CHR 0x80, CHR 0xE5, CHR 0xA4, CHR 0xA7, CHR 0xE5, CHR 0x85, CHR 0xAC, CHR 0xE7, CHR 0xBA,
         CHR 0xA6, CHR 0xE6, CHR 0x95, CHR 0xB0, CHR 0xE3, CHR 0x80, CHR 0x82])
       ([CHR 0xE5, CHR 0xB7, CHR 0xA5, CHR 0xE5, CHR 0x85, CHR 0xB7, CHR 0xE7, CHR 0xBB, CHR 0x93, CHR 0xE6, CHR 0x9E, CHR 0x9C, CHR 0xE5,
         CHR 0xBA, CHR 0x94, CHR 0xE7, CHR 0xAD, CHR 0x89, CHR 0xE4, CHR 0xBA, CHR 0x8E] @ '' '' @ call @ [CHR 0xE3, CHR 0x80, CHR 0x82])
       ([CHR 0xE6, CHR 0x89, CHR 0x80, CHR 0xE6, CHR 0x9C, CHR 0x89, CHR 0xE8, CHR 0xBE, CHR 0x97, CHR 0xE8, CHR 0xBD, CHR 0xAC, CHR 0xE7,
         CHR 0x9B, CHR 0xB8, CHR 0xE9, CHR 0x99, CHR 0xA4, CHR 0xE6, CHR 0xAD, CHR 0xA5, CHR 0xE9, CHR 0xAA, CHR 0xA4, CHR 0xE5, CHR 0x8F,
         CHR 0xAF, CHR 0xE8, CHR 0xBF, CHR 0xBD, CHR 0xE6, CHR 0xBA, CHR 0xAF, CHR 0xEF, CHR 0xBC, CHR 0x8C, CHR 0xE6, CHR 0x9C, CHR 0x80,
         CHR 0xE7, CHR 0xBB, CHR 0x88] @ '' gcd '' @ [CHR 0xE4, CHR 0xB8, CHR 0x8E, CHR 0xE6, CHR 0x9C, CHR 0xBA, CHR 0xE6, CHR 0xA2, CHR
         0xB0, CHR 0xE8, CHR 0xAE, CHR 0xA1, CHR 0xE7, CHR 0xAE, CHR 0x97, CHR 0xE4, CHR 0xB8, CHR 0x80, CHR 0xE8, CHR 0x87, CHR 0xB4, CHR
         0xE3, CHR 0x80, CHR 0x82])
       [(''left'', PInt a), (''right'', PInt b)],
     transcribe_step ''gcd_transcribe'' ''gcd_tool''
       ([CHR 0xE8, CHR 0xBD, CHR 0xAC, CHR 0xE8, CHR 0xBF, CHR 0xB0, CHR 0xE6, CHR 0xAC, CHR 0xA7, CHR 0xE5, CHR 0x87, CHR 0xA0, CHR 0xE9,
         CHR 0x87, CHR 0x8C, CHR 0xE5, CHR 0xBE, CHR 0x97, CHR 0xE7, CHR 0xAE, CHR 0x97, CHR 0xE6, CHR 0xB3, CHR 0x95, CHR 0xE7, CHR 0xBB,
         CHR 0x93, CHR 0xE6, CHR 0x9E, CHR 0x9C])
       ([CHR 0xE6, CHR 0xA0, CHR 0xB9, CHR 0xE6, CHR 0x8D, CHR 0xAE, CHR 0xE6, CHR 0xAC, CHR 0xA7, CHR 0xE5, CHR 0x87, CHR 0xA0, CHR 0xE9,
         CHR 0x87, CHR 0x8C, CHR 0xE5, CHR 0xBE, CHR 0x97, CHR 0xE5, CHR 0xB7, CHR 0xA5, CHR 0xE5, CHR 0x85, CHR 0xB7, CHR 0xE8, CHR 0xBF,
         CHR 0x94, CHR 0xE5, CHR 0x9B, CHR 0x9E, CHR 0xE7, CHR 0x9A, CHR 0x84, CHR 0xE4, CHR 0xBD, CHR 0x99, CHR 0xE6, CHR 0x95, CHR 0xB0,
         CHR 0xE5, CHR 0xBA, CHR 0x8F, CHR 0xE5, CHR 0x88, CHR 0x97, CHR 0xE8, CHR 0xBD, CHR 0xAC, CHR 0xE8, CHR 0xBF, CHR 0xB0, CHR 0xE8,
         CHR 0xBF, CHR 0x87, CHR 0xE7, CHR 0xA8, CHR 0x8B, CHR 0xE4, CHR 0xB8, CHR 0x8E, CHR 0xE7, CHR 0xBB, CHR 0x93, CHR 0xE6, CHR 0x9E,
         CHR 0x9C, CHR 0xEF, CHR 0xBC, CHR 0x8C, CHR 0xE4, CHR 0xB8, CHR 0x8D, CHR 0xE9, CHR 0x87, CHR 0x8D, CHR 0xE6, CHR 0x96, CHR 0xB0,
         CHR 0xE6, CHR 0x8E, CHR 0xA8, CHR 0xE7, CHR 0x90, CHR 0x86, CHR 0xE6, CHR 0x95, CHR 0xB0, CHR 0xE5, CHR 0x80, CHR 0xBC, CHR 0xE3,
         CHR 0x80, CHR 0x82])
       ([CHR 0xE5, CHR 0x8C, CHR 0x85, CHR 0xE5, CHR 0x90, CHR 0xAB, CHR 0xE4, CHR 0xBD, CHR 0x99, CHR 0xE6, CHR 0x95, CHR 0xB0, CHR 0xE5,
         CHR 0xBA, CHR 0x8F, CHR 0xE5, CHR 0x88, CHR 0x97, CHR 0xE5, CHR 0x92, CHR 0x8C, CHR 0xE6, CHR 0x9C, CHR 0x80, CHR 0xE5, CHR 0xA4,
         CHR 0xA7, CHR 0xE5, CHR 0x85, CHR 0xAC, CHR 0xE7, CHR 0xBA, CHR 0xA6, CHR 0xE6, CHR 0x95, CHR 0xB0, CHR 0xE7, CHR 0x9A, CHR 0x84,
         CHR 0xE8, CHR 0x87, CHR 0xAA, CHR 0xE7, CHR 0x84, CHR 0xB6, CHR 0xE8, CHR 0xAF, CHR 0xAD, CHR 0xE8, CHR 0xA8, CHR 0x80, CHR 0xE8,
         CHR 0xAF, CHR 0xB4, CHR 0xE6, CHR 0x98, CHR 0x8E, CHR 0xE3, CHR 0x80, CHR 0x82])
       ([CHR 0xE8, CHR 0xBD, CHR 0xAC, CHR 0xE8, CHR 0xBF, CHR 0xB0, CHR 0xE4, CHR 0xB8, CHR 0xAD, CHR 0xE7, CHR 0x9A, CHR 0x84, CHR 0xE6,
         CHR 0x9C, CHR 0x80, CHR 0xE5, CHR 0xA4, CHR 0xA7, CHR 0xE5, CHR 0x85, CHR 0xAC, CHR 0xE7, CHR 0xBA, CHR 0xA6, CHR 0xE6, CHR 0x95,
         CHR 0xB0, CHR 0xE4, CHR 0xB8, CHR 0x8E, CHR 0xE5, CHR 0xB7, CHR 0xA5, CHR 0xE5, CHR 0x85, CHR 0xB7, CHR 0xE7, CHR 0xBB, CHR 0x93,
         CHR 0xE6, CHR 0x9E, CHR 0x9C, CHR 0xE4, CHR 0xB8, CHR 0x80, CHR 0xE8, CHR 0x87, CHR 0xB4, CHR 0xE3, CHR 0x80, CHR 0x82])
       ([CHR 0xE5, CHR 0x90, CHR 0x8C, CHR 0xE6, CHR 0x97, CHR 0xB6, CHR 0xE4, CHR 0xBA, CHR 0xA4, CHR 0xE4, CHR 0xBB, CHR 0x98, CHR 0xE6,
         CHR 0xAC, CHR 0xA7, CHR 0xE5, CHR 0x87, CHR 0xA0, CHR 0xE9, CHR 0x87, CHR 0x8C, CHR 0xE5, CHR 0xBE, CHR 0x97, CHR 0xE6, CHR 0x96,
         CHR 0xB9, CHR 0xE6, CHR 0xB3, CHR 0x95, CHR 0xE8, CHR 0xBF, CHR 0x87, CHR 0xE7, CHR 0xA8, CHR 0x8B, CHR 0xE5, CHR 0x92, CHR 0x8C,
         CHR 0xE6, CHR 0x9C, CHR 0x80, CHR 0xE7, CHR 0xBB, CHR 0x88, CHR 0xE7, CHR 0xBB, CHR 0x93, CHR 0xE6, CHR 0x9E, CHR 0x9C, CHR 0xE3,
         CHR 0x80, CHR 0x82])])"

definition gcd_plan :: "string \<Rightarrow> pyval dict list option" where
  "gcd_plan goal = (case extract_integer_operands goal of a # b # _ \<Rightarrow> Some (gcd_steps a b) | _ \<Rightarrow> None)"

definition left_brackets :: "string list" where
  "left_brackets = [''['', [CHR 0xE3, CHR 0x80, CHR 0x90]]"

definition right_brackets :: "string list" where
  "right_brackets = ['']'', [CHR 0xE3, CHR 0x80, CHR 0x91]]"

definition BRACKETED_LIST :: pattern where
  "BRACKETED_LIST = seqs [one_of left_brackets, spaces, Named ''1'' (Star (Class (\<lambda>c. c \<notin> set right_brackets))), spaces, one_of right_brackets]"

definition LIST_SEPARATOR :: pattern where
  "LIST_SEPARATOR = some (Class (\<lambda>c. space_char c \<or> c \<in> {'','', [CHR 0xEF, CHR 0xBC, CHR 0x8C], [CHR 0xE3, CHR 0x80, CHR 0x81]}))"

definition extract_integer_list :: "string \<Rightarrow> int list option" where
  "extract_integer_list s = (case search_text BRACKETED_LIST s of
       None \<Rightarrow> None
     | Some m \<Rightarrow> (case traverse parse_integer (filter (\<lambda>t. t \<noteq> []) (split_text LIST_SEPARATOR (strip (dget_or (tm_groups m) ''1'' [])))) of
           Inr is \<Rightarrow> Some is
         | Inl _ \<Rightarrow> None))"

definition quicksort_plan :: "'e decomposer_env_scheme \<Rightarrow> string \<Rightarrow> pyval dict list option" where
  "quicksort_plan env goal = map_option (\<lambda>is. let vs = PList (map PInt is) in
     [tool_step ''quicksort_tool'' ''algorithm_quicksort''
       ([CHR 0xE6, CHR 0x89, CHR 0xA7, CHR 0xE8, CHR 0xA1, CHR 0x8C, CHR 0xE5, CHR 0xBF, CHR 0xAB, CHR 0xE9, CHR 0x80, CHR 0x9F, CHR 0xE6,
         CHR 0x8E, CHR 0x92, CHR 0xE5, CHR 0xBA, CHR 0x8F, CHR 0xEF, CHR 0xBC, CHR 0x9A] @ me_repr env vs)
       ([CHR 0xE8, CHR 0xB0, CHR 0x83, CHR 0xE7, CHR 0x94, CHR 0xA8, CHR 0xE6, CHR 0x9C, CHR 0xAC, CHR 0xE5, CHR 0x9C, CHR 0xB0, CHR 0xE5,
         CHR 0xBF, CHR 0xAB, CHR 0xE9, CHR 0x80, CHR 0x9F, CHR 0xE6, CHR 0x8E, CHR 0x92, CHR 0xE5, CHR 0xBA, CHR 0x8F, CHR 0xE5, CHR 0xB7,
         CHR 0xA5, CHR 0xE5, CHR 0x85, CHR 0xB7, CHR 0xEF, CHR 0xBC, CHR 0x8C, CHR 0xE7, CHR 0x94, CHR 0x9F, CHR 0xE6, CHR 0x88, CHR 0x90,
         CHR 0xE6, CHR 0xAF, CHR 0x8F, CHR 0xE8, CHR 0xBD, CHR 0xAE, CHR 0xE5, CHR 0x88, CHR 0x86, CHR 0xE5, CHR 0x8C, CHR 0xBA, CHR 0xE5,
         CHR 0xBF, CHR 0xAB, CHR 0xE7, CHR 0x85, CHR 0xA7, CHR 0xE3, CHR 0x80, CHR 0x82])
       ([CHR 0xE5, CHR 0x88, CHR 0x86, CHR 0xE5, CHR 0x8C, CHR 0xBA, CHR 0xE5, CHR 0xBF, CHR 0xAB, CHR 0xE7, CHR 0x85, CHR 0xA7, CHR 0xE5,
         CHR 0xBA, CHR 0x8F, CHR 0xE5, CHR 0x88, CHR 0x97, CHR 0xE4, CHR 0xB8, CHR 0x8E, CHR 0xE6, CHR 0x9C, CHR 0x80, CHR 0xE7, CHR 0xBB,
         CHR 0x88, CHR 0xE6, CHR 0x9C, CHR 0x89, CHR 0xE5, CHR 0xBA, CHR 0x8F, CHR 0xE5, CHR 0x88, CHR 0x97, CHR 0xE8, CHR 0xA1, CHR 0xA8,
         CHR 0xE3, CHR 0x80, CHR 0x82])
       ([CHR 0xE5, CHR 0xB7, CHR 0xA5, CHR 0xE5, CHR 0x85, CHR 0xB7, CHR 0xE7, CHR 0xBB, CHR 0x93, CHR 0xE6, CHR 0x9E, CHR 0x9C, CHR 0xE5,
         CHR 0xBF, CHR 0x85, CHR 0xE9, CHR 0xA1, CHR 0xBB, CHR 0xE7, CHR 0xAD, CHR 0x89, CHR 0xE4, CHR 0xBA, CHR 0x8E] @ '' Python sorted ''
         @ [CHR 0xE7, CHR 0x9A, CHR 0x84, CHR 0xE6, CHR 0x9C, CHR 0x89, CHR 0xE5, CHR 0xBA, CHR 0x8F, CHR 0xE5, CHR 0x88, CHR 0x97, CHR 0xE8,
         CHR 0xA1, CHR 0xA8, CHR 0xE3, CHR 0x80, CHR 0x82])
       ([CHR 0xE6, CHR 0x89, CHR 0x80, CHR 0xE6, CHR 0x9C, CHR 0x89, CHR 0xE5, CHR 0x88, CHR 0x86, CHR 0xE5, CHR 0x8C, CHR 0xBA, CHR 0xE5,
         CHR 0xBF, CHR 0xAB, CHR 0xE7, CHR 0x85, CHR 0xA7, CHR 0xE5, CHR 0x8F, CHR 0xAF, CHR 0xE8, CHR 0xBF, CHR 0xBD, CHR 0xE6, CHR 0xBA,
         CHR 0xAF, CHR 0xEF, CHR 0xBC, CHR 0x8C, CHR 0xE6, CHR 0x9C, CHR 0x80, CHR 0xE7, CHR 0xBB, CHR 0x88, CHR 0xE6, CHR 0x8E, CHR 0x92,
         CHR 0xE5, CHR 0xBA, CHR 0x8F, CHR 0xE7, CHR 0xBB, CHR 0x93, CHR 0xE6, CHR 0x9E, CHR 0x9C, CHR 0xE6, CHR 0xAD, CHR 0xA3, CHR 0xE7,
         CHR 0xA1, CHR 0xAE, CHR 0xE3, CHR 0x80, CHR 0x82])
       [(''values'', vs)],
     transcribe_step ''quicksort_transcribe'' ''quicksort_tool''
       ([CHR 0xE8, CHR 0xBD, CHR 0xAC, CHR 0xE8, CHR 0xBF, CHR 0xB0, CHR 0xE5, CHR 0xBF, CHR 0xAB, CHR 0xE9, CHR 0x80, CHR 0x9F, CHR 0xE6,
         CHR 0x8E, CHR 0x92, CHR 0xE5, CHR 0xBA, CHR 0x8F, CHR 0xE7, CHR 0xBB, CHR 0x93, CHR 0xE6, CHR 0x9E, CHR 0x9C])
       ([CHR 0xE6, CHR 0xA0, CHR 0xB9, CHR 0xE6, CHR 0x8D, CHR 0xAE, CHR 0xE5, CHR 0xBF, CHR 0xAB, CHR 0xE9, CHR 0x80, CHR 0x9F, CHR 0xE6,
         CHR 0x8E, CHR 0x92, CHR 0xE5, CHR 0xBA, CHR 0x8F, CHR 0xE5, CHR 0xB7, CHR 0xA5, CHR 0xE5, CHR 0x85, CHR 0xB7, CHR 0xE8, CHR 0xBF,
         CHR 0x94, CHR 0xE5, CHR 0x9B, CHR 0x9E, CHR 0xE7, CHR 0x9A, CHR 0x84, CHR 0xE5, CHR 0x88, CHR 0x86, CHR 0xE5, CHR 0x8C, CHR 0xBA,
         CHR 0xE5, CHR 0xBF, CHR 0xAB, CHR 0xE7, CHR 0x85, CHR 0xA7, CHR 0xE8, CHR 0xBD, CHR 0xAC, CHR 0xE8, CHR 0xBF, CHR 0xB0, CHR 0xE8,
         CHR 0xBF, CHR 0x87, CHR 0xE7, CHR 0xA8, CHR 0x8B, CHR 0xE4, CHR 0xB8, CHR 0x8E, CHR 0xE7, CHR 0xBB, CHR 0x93, CHR 0xE6, CHR 0x9E,
         CHR 0x9C, CHR 0xEF, CHR 0xBC, CHR 0x8C, CHR 0xE4, CHR 0xB8, CHR 0x8D, CHR 0xE7, CHR 0xBC, CHR 0x96, CHR 0xE9, CHR 0x80, CHR 0xA0,
         CHR 0xE6, CHR 0xAD, CHR 0xA5, CHR 0xE9, CHR 0xAA, CHR 0xA4, CHR 0xE3, CHR 0x80, CHR 0x82])
       ([CHR 0xE5, CHR 0x8C, CHR 0x85, CHR 0xE5, CHR 0x90, CHR 0xAB, CHR 0xE5, CHR 0x88, CHR 0x86, CHR 0xE5, CHR 0x8C, CHR 0xBA, CHR 0xE5,
         CHR 0xBF, CHR 0xAB, CHR 0xE7, CHR 0x85, CHR 0xA7, CHR 0xE5, CHR 0x92, CHR 0x8C, CHR 0xE6, CHR 0x9C, CHR 0x80, CHR 0xE7, CHR 0xBB,
         CHR 0x88, CHR 0xE5, CHR 0x88, CHR 0x97, CHR 0xE8, CHR 0xA1, CHR 0xA8, CHR 0xE7, CHR 0x9A, CHR 0x84, CHR 0xE8, CHR 0x87, CHR 0xAA,
         CHR 0xE7, CHR 0x84, CHR 0xB6, CHR 0xE8, CHR 0xAF, CHR 0xAD, CHR 0xE8, CHR 0xA8, CHR 0x80, CHR 0xE8, CHR 0xAF, CHR 0xB4, CHR 0xE6,
         CHR 0x98, CHR 0x8E, CHR 0xE3, CHR 0x80, CHR 0x82])
       ([CHR 0xE8, CHR 0xBD, CHR 0xAC, CHR 0xE8, CHR 0xBF, CHR 0xB0, CHR 0xE4, CHR 0xB8, CHR 0xAD, CHR 0xE7, CHR 0x9A, CHR 0x84, CHR 0xE6,
         CHR 0x8E, CHR 0x92, CHR 0xE5, CHR 0xBA, CHR 0x8F, CHR 0xE7, CHR 0xBB, CHR 0x93, CHR 0xE6, CHR 0x9E, CHR 0x9C, CHR 0xE4, CHR 0xB8,
         CHR 0x8E, CHR 0xE5, CHR 0xB7, CHR 0xA5, CHR 0xE5, CHR 0x85, CHR 0xB7, CHR 0xE7, CHR 0xBB, CHR 0x93, CHR 0xE6, CHR 0x9E, CHR 0x9C,
         CHR 0xE4, CHR 0xB8, CHR 0x80, CHR 0xE8, CHR 0x87, CHR 0xB4, CHR 0xE3, CHR 0x80, CHR 0x82])
       ([CHR 0xE5, CHR 0x90, CHR 0x8C, CHR 0xE6, CHR 0x97, CHR 0xB6, CHR 0xE4, CHR 0xBA, CHR 0xA4, CHR 0xE4, CHR 0xBB, CHR 0x98, CHR 0xE5,
         CHR 0xBF, CHR 0xAB, CHR 0xE9, CHR 0x80, CHR 0x9F, CHR 0xE6, CHR 0x8E, CHR 0x92, CHR 0xE5, CHR 0xBA, CHR 0x8F, CHR 0xE8, CHR 0xBF,
         CHR 0x87, CHR 0xE7, CHR 0xA8, CHR 0x8B, CHR 0xE5, CHR 0x92, CHR 0x8C, CHR 0xE6, CHR 0x9C, CHR 0x80, CHR 0xE7, CHR 0xBB, CHR 0x88,
         CHR 0xE6, CHR 0x9C, CHR 0x89, CHR 0xE5, CHR 0xBA, CHR 0x8F, CHR 0xE5, CHR 0x88, CHR 0x97, CHR 0xE8, CHR 0xA1, CHR 0xA8, CHR 0xE3,
         CHR 0x80, CHR 0x82])]) (extract_integer_list goal)"

definition deterministic_algorithm_plan :: "'e decomposer_env_scheme \<Rightarrow> string \<Rightarrow> pyval dict list option" where
  "deterministic_algorithm_plan env goal =
    (let constraints = extract_method_constraints env goal;
         algorithms = normalize_keyword_map env (normalize_keyword_map env (de_algorithms env));
         triggers = normalize_keyword_map env (normalize_keyword_map env (de_triggers env));
         requested = (\<lambda>tool. tool_requested env tool goal constraints algorithms triggers)
     in if requested ''algorithm_booth'' [''booth''] then booth_plan goal
        else if requested ''algorithm_crc32'' [] then crc32_plan env goal
        else if requested ''algorithm_gcd'' [] then gcd_plan goal
        else if requested ''algorithm_quicksort'' [] then quicksort_plan env goal
        else None)"

definition calculation_markers :: "string list" where
  "calculation_markers =
    [[CHR 0xE8, CHR 0xAE, CHR 0xA1, CHR 0xE7, CHR 0xAE, CHR 0x97],
     [CHR 0xE7, CHR 0xAE, CHR 0x97, CHR 0xE4, CHR 0xB8, CHR 0x80, CHR 0xE4, CHR 0xB8, CHR 0x8B],
     [CHR 0xE7, CHR 0xAE, CHR 0x97, CHR 0xE7, CHR 0xAE, CHR 0x97],
     [CHR 0xE7, CHR 0xBB, CHR 0x93, CHR 0xE6, CHR 0x9E, CHR 0x9C],
     [CHR 0xE7, CHR 0xAD, CHR 0x89, CHR 0xE4, CHR 0xBA, CHR 0x8E],
     [CHR 0xE5, CHR 0xA4, CHR 0x9A, CHR 0xE5, CHR 0xB0, CHR 0x91]]"

definition calculator_steps :: "calculation \<Rightarrow> pyval dict list" where
  "calculator_steps e =
     [tool_step ''calculator_tool'' ''calculator''
       ([CHR 0xE6, CHR 0x89, CHR 0xA7, CHR 0xE8, CHR 0xA1, CHR 0x8C, CHR 0xE7, CHR 0xAE, CHR 0x97, CHR 0xE6, CHR 0x9C, CHR 0xAF, CHR 0xEF,
         CHR 0xBC, CHR 0x9A] @ cr_left e @ '' '' @ cr_operator e @ '' '' @ cr_right e)
       ([CHR 0xE8, CHR 0xB0, CHR 0x83, CHR 0xE7, CHR 0x94, CHR 0xA8, CHR 0xE6, CHR 0x9C, CHR 0xAC, CHR 0xE5, CHR 0x9C, CHR 0xB0] @ ''
         calculator '' @ [CHR 0xE5, CHR 0xB7, CHR 0xA5, CHR 0xE5, CHR 0x85, CHR 0xB7, CHR 0xE7, CHR 0xA1, CHR 0xAE, CHR 0xE5, CHR 0xAE, CHR
         0x9A, CHR 0xE6, CHR 0x80, CHR 0xA7, CHR 0xE8, CHR 0xAE, CHR 0xA1, CHR 0xE7, CHR 0xAE, CHR 0x97, CHR 0xE7, CHR 0xBB, CHR 0x93, CHR
         0xE6, CHR 0x9E, CHR 0x9C, CHR 0xEF, CHR 0xBC, CHR 0x8C, CHR 0xE4, CHR 0xB8, CHR 0x8D, CHR 0xE8, CHR 0xAE, CHR 0xA9, CHR 0xE8, CHR
         0xAF, CHR 0xAD, CHR 0xE8, CHR 0xA8, CHR 0x80, CHR 0xE6, CHR 0xA8, CHR 0xA1, CHR 0xE5, CHR 0x9E, CHR 0x8B, CHR 0xE6, CHR 0x8E, CHR
         0xA8, CHR 0xE7, CHR 0x90, CHR 0x86, CHR 0xE6, CHR 0x95, CHR 0xB0, CHR 0xE5, CHR 0x80, CHR 0xBC, CHR 0xE3, CHR 0x80, CHR 0x82])
       ([CHR 0xE7, CHR 0xAE, CHR 0x97, CHR 0xE6, CHR 0x9C, CHR 0xAF, CHR 0xE8, CHR 0xA1, CHR 0xA8, CHR 0xE8, CHR 0xBE, CHR 0xBE, CHR 0xE5,
         CHR 0xBC, CHR 0x8F, CHR 0xE7, CHR 0x9A, CHR 0x84, CHR 0xE7, CHR 0xB2, CHR 0xBE, CHR 0xE7, CHR 0xA1, CHR 0xAE, CHR 0xE7, CHR 0xBB,
         CHR 0x93, CHR 0xE6, CHR 0x9E, CHR 0x9C, CHR 0xE3, CHR 0x80, CHR 0x82])
       ([CHR 0xE5, CHR 0xB7, CHR 0xA5, CHR 0xE5, CHR 0x85, CHR 0xB7, CHR 0xE7, CHR 0xBB, CHR 0x93, CHR 0xE6, CHR 0x9E, CHR 0x9C, CHR 0xE4,
         CHR 0xB8, CHR 0x8E, CHR 0xE6, CHR 0x9C, CHR 0x80, CHR 0xE7, CHR 0xBB, CHR 0x88, CHR 0xE5, CHR 0x9B, CHR 0x9E, CHR 0xE5, CHR 0xA4,
         CHR 0x8D, CHR 0xE4, CHR 0xB8, CHR 0xAD, CHR 0xE7, CHR 0x9A, CHR 0x84, CHR 0xE7, CHR 0xAE, CHR 0x97, CHR 0xE6, CHR 0x9C, CHR 0xAF,
         CHR 0xE6, CHR 0x96, CHR 0xAD, CHR 0xE8, CHR 0xA8, CHR 0x80, CHR 0xE4, CHR 0xB8, CHR 0x80, CHR 0xE8, CHR 0x87, CHR 0xB4, CHR 0xE3,
         CHR 0x80, CHR 0x82])
       ([CHR 0xE8, CHR 0xBF, CHR 0x94, CHR 0xE5, CHR 0x9B, CHR 0x9E, CHR 0xE8, CHR 0xA1, CHR 0xA8, CHR 0xE8, CHR 0xBE, CHR 0xBE, CHR 0xE5,
         CHR 0xBC, CHR 0x8F, CHR 0xE3, CHR 0x80, CHR 0x81, CHR 0xE4, CHR 0xB8, CHR 0xAD, CHR 0xE9, CHR 0x97, CHR 0xB4, CHR 0xE5, CHR 0xAE,
         CHR 0xA1, CHR 0xE8, CHR 0xAE, CHR 0xA1, CHR 0xE4, CHR 0xBF, CHR 0xA1, CHR 0xE6, CHR 0x81, CHR 0xAF, CHR 0xE5, CHR 0x92, CHR 0x8C,
         CHR 0xE7, CHR 0xA1, CHR 0xAE, CHR 0xE5, CHR 0xAE, CHR 0x9A, CHR 0xE6, CHR 0x80, CHR 0xA7, CHR 0xE7, CHR 0xBB, CHR 0x93, CHR 0xE6,
         CHR 0x9E, CHR 0x9C, CHR 0xE3, CHR 0x80, CHR 0x82])
       [(''left'', PStr (cr_left e)), (''operator'', PStr (cr_operator e)), (''right'', PStr (cr_right e))],
     transcribe_step ''calculator_transcribe'' ''calculator_tool''
       ([CHR 0xE8, CHR 0xBD, CHR 0xAC, CHR 0xE8, CHR 0xBF, CHR 0xB0, CHR 0xE7, CHR 0xAE, CHR 0x97, CHR 0xE6, CHR 0x9C, CHR 0xAF, CHR 0xE8,
         CHR 0xAE, CHR 0xA1, CHR 0xE7, CHR 0xAE, CHR 0x97, CHR 0xE7, CHR 0xBB, CHR 0x93, CHR 0xE6, CHR 0x9E, CHR 0x9C])
       ([CHR 0xE6, CHR 0xA0, CHR 0xB9, CHR 0xE6, CHR 0x8D, CHR 0xAE] @ '' calculator '' @ [CHR 0xE5, CHR 0xB7, CHR 0xA5, CHR 0xE5, CHR
         0x85, CHR 0xB7, CHR 0xE7, CHR 0xBB, CHR 0x93, CHR 0xE6, CHR 0x9E, CHR 0x9C, CHR 0xE7, CHR 0x94, CHR 0x9F, CHR 0xE6, CHR 0x88, CHR
         0x90, CHR 0xE8, CHR 0x87, CHR 0xAA, CHR 0xE7, CHR 0x84, CHR 0xB6, CHR 0xE8, CHR 0xAF, CHR 0xAD, CHR 0xE8, CHR 0xA8, CHR 0x80, CHR
         0xE8, CHR 0xAF, CHR 0xB4, CHR 0xE6, CHR 0x98, CHR 0x8E, CHR 0xEF, CHR 0xBC, CHR 0x8C, CHR 0xE4, CHR 0xB8, CHR 0x8D, CHR 0xE9, CHR
         0x87, CHR 0x8D, CHR 0xE6, CHR 0x96, CHR 0xB0, CHR 0xE8, CHR 0xAE, CHR 0xA1, CHR 0xE7, CHR 0xAE, CHR 0x97, CHR 0xE6, CHR 0x88, CHR
         0x96, CHR 0xE4, CHR 0xBF, CHR 0xAE, CHR 0xE6, CHR 0x94, CHR 0xB9, CHR 0xE6, CHR 0x95, CHR 0xB0, CHR 0xE5, CHR 0x80, CHR 0xBC, CHR
         0xE3, CHR 0x80, CHR 0x82])
       ([CHR 0xE5, CHR 0x8C, CHR 0x85, CHR 0xE5, CHR 0x90, CHR 0xAB, CHR 0xE5, CHR 0x8E, CHR 0x9F, CHR 0xE8, CHR 0xA1, CHR 0xA8, CHR 0xE8,
         CHR 0xBE, CHR 0xBE, CHR 0xE5, CHR 0xBC, CHR 0x8F, CHR 0xE4, CHR 0xB8, CHR 0x8E, CHR 0xE7, CHR 0xA1, CHR 0xAE, CHR 0xE5, CHR 0xAE,
         CHR 0x9A, CHR 0xE6, CHR 0x80, CHR 0xA7, CHR 0xE7, CHR 0xBB, CHR 0x93, CHR 0xE6, CHR 0x9E, CHR 0x9C, CHR 0xE7, CHR 0x9A, CHR 0x84,
         CHR 0xE7, CHR 0xAE, CHR 0x80, CHR 0xE6, CHR 0xB4, CHR 0x81, CHR 0xE8, CHR 0xAF, CHR 0xB4, CHR 0xE6, CHR 0x98, CHR 0x8E, CHR 0xE3,
         CHR 0x80, CHR 0x82])
       ([CHR 0xE8, CHR 0xBD, CHR 0xAC, CHR 0xE8, CHR 0xBF, CHR 0xB0, CHR 0xE6, CHR 0x95, CHR 0xB0, CHR 0xE5, CHR 0x80, CHR 0xBC, CHR 0xE4,
         CHR 0xB8, CHR 0x8E] @ '' calculator '' @ [CHR 0xE5, CHR 0xB7, CHR 0xA5, CHR 0xE5, CHR 0x85, CHR 0xB7, CHR 0xE7, CHR 0xBB, CHR 0x93,
         CHR 0xE6, CHR 0x9E, CHR 0x9C, CHR 0xE5, CHR 0x8F, CHR 0x8A, CHR 0xE7, CHR 0xAE, CHR 0x97, CHR 0xE6, CHR 0x9C, CHR 0xAF, CHR 0xE5,
         CHR 0xAE, CHR 0xA1, CHR 0xE8, CHR 0xAE, CHR 0xA1, CHR 0xE4, CHR 0xB8, CHR 0x80, CHR 0xE8, CHR 0x87, CHR 0xB4, CHR 0xE3, CHR 0x80,
         CHR 0x82])
       ([CHR 0xE4, CHR 0xBA, CHR 0xA4, CHR 0xE4, CHR 0xBB, CHR 0x98, CHR 0xE7, CHR 0xAE, CHR 0x97, CHR 0xE5, CHR 0xBC, CHR 0x8F, CHR 0xE5,
         CHR 0x92, CHR 0x8C, CHR 0xE6, CHR 0x9C, CHR 0x80, CHR 0xE7, CHR 0xBB, CHR 0x88, CHR 0xE7, CHR 0xBB, CHR 0x93, CHR 0xE6, CHR 0x9E,
         CHR 0x9C, CHR 0xE3, CHR 0x80, CHR 0x82])]"

definition deterministic_calculator_plan :: "string \<Rightarrow> pyval dict list option" where
  "deterministic_calculator_plan goal =
    (if contains_any calculation_markers goal then map_option calculator_steps (parse_calculation_request goal) else None)"

section \<open>Comparing a plan with its goal\<close>

definition plan_step_texts :: "plan_step list \<Rightarrow> string list" where
  "plan_step_texts sts = concat (map (\<lambda>st. [step_title st, step_description st, expected_output st, verification st,
     completion_criteria st] @ step_files st) sts)"

definition step_relevance :: "'e decomposer_env_scheme \<Rightarrow> string \<Rightarrow> plan_step list \<Rightarrow> pyfloat" where
  "step_relevance env goal sts =
    (let t = join newline (map (\<lambda>st. join '' '' (plan_step_texts [st])) sts);
         a = tokenize_for_embedding goal; b = tokenize_for_embedding t
     in if a = [] \<or> b = [] then 0
        else of_nat (length (filter (\<lambda>x. x \<in> set b) a)) / re_root env (of_nat (length a * length b)))"

definition GENERIC_SCAFFOLD_TITLES :: "string list" where
  "GENERIC_SCAFFOLD_TITLES =
    [[CHR 0xE7, CHR 0xA1, CHR 0xAE, CHR 0xE8, CHR 0xAE, CHR 0xA4, CHR 0xE4, CHR 0xBB, CHR 0xBB, CHR 0xE5, CHR 0x8A, CHR 0xA1, CHR 0xE8, CHR
      0xBE, CHR 0xB9, CHR 0xE7, CHR 0x95, CHR 0x8C],
     [CHR 0xE6, CHR 0x8B, CHR 0x86, CHR 0xE5, CHR 0x87, CHR 0xBA, CHR 0xE5, CHR 0x8F, CHR 0xAF, CHR 0xE6, CHR 0x89, CHR 0xA7, CHR 0xE8, CHR
       0xA1, CHR 0x8C, CHR 0xE5, CHR 0x8A, CHR 0xA8, CHR 0xE4, CHR 0xBD, CHR 0x9C],
     [CHR 0xE5, CHR 0xAE, CHR 0x8C, CHR 0xE6, CHR 0x88, CHR 0x90, CHR 0xE9, CHR 0xA6, CHR 0x96, CHR 0xE4, CHR 0xB8, CHR 0xAA, CHR 0xE5, CHR
       0x8F, CHR 0xAF, CHR 0xE9, CHR 0xAA, CHR 0x8C, CHR 0xE8, CHR 0xAF, CHR 0x81, CHR 0xE5, CHR 0x8A, CHR 0xA8, CHR 0xE4, CHR 0xBD, CHR
       0x9C],
     [CHR 0xE6, CHR 0xA0, CHR 0xB8, CHR 0xE5, CHR 0xAF, CHR 0xB9, CHR 0xE7, CHR 0xBB, CHR 0x93, CHR 0xE6, CHR 0x9E, CHR 0x9C]]"

definition contains_generic_scaffold :: "plan_step list \<Rightarrow> bool" where
  "contains_generic_scaffold sts \<longleftrightarrow> 2 \<le> length (filter (\<lambda>st. contains_any GENERIC_SCAFFOLD_TITLES (step_title st)) sts)"

definition raw_goal_text :: "(pyval \<Rightarrow> string) \<Rightarrow> pyval dict list \<Rightarrow> string" where
  "raw_goal_text rp raws = join newline (map (\<lambda>raw. meta_text rp raw ''goal'' []) raws)"

definition detect_echo :: "'e decomposer_env_scheme \<Rightarrow> string \<Rightarrow> string \<Rightarrow> string list \<Rightarrow> bool" where
  "detect_echo env goal goal_text texts =
    (let n = bare_text env goal in \<not> char_length n < 4 \<and> list_ex (\<lambda>t. contains n (bare_text env t)) (goal_text # texts))"

text \<open>\<open>s.replace(p, q)\<close> for a text \<open>p\<close> that is not empty.\<close>

function replace_text :: "string \<Rightarrow> string \<Rightarrow> string \<Rightarrow> string" where
  "replace_text p q [] = []"
| "replace_text p q (c # cs) = (if p \<noteq> [] \<and> starts_with p (c # cs) then q @ replace_text p q (drop (length p) (c # cs))
     else c # replace_text p q cs)"
  by pat_completeness auto
termination by (relation "measure (\<lambda>(p, q, s). length s)") (auto simp: neq_Nil_conv)

definition first_of :: "(string \<Rightarrow> bool) \<Rightarrow> string list \<Rightarrow> string" where
  "first_of p ts = (case find p ts of Some t \<Rightarrow> t | None \<Rightarrow> [])"

definition polite_prefixes :: "string list" where
  "polite_prefixes =
    [[CHR 0xE4, CHR 0xBD, CHR 0xA0, CHR 0xE8, CHR 0x83, CHR 0xBD, CHR 0xE4, CHR 0xB8, CHR 0x8D, CHR 0xE8, CHR 0x83, CHR 0xBD],
     [CHR 0xE4, CHR 0xBD, CHR 0xA0, CHR 0xE5, CHR 0x8F, CHR 0xAF, CHR 0xE4, CHR 0xBB, CHR 0xA5],
     [CHR 0xE4, CHR 0xBD, CHR 0xA0, CHR 0xE8, CHR 0x83, CHR 0xBD],
     [CHR 0xE8, CHR 0x83, CHR 0xBD, CHR 0xE4, CHR 0xB8, CHR 0x8D, CHR 0xE8, CHR 0x83, CHR 0xBD],
     [CHR 0xE5, CHR 0x8F, CHR 0xAF, CHR 0xE4, CHR 0xBB, CHR 0xA5],
     [CHR 0xE8, CHR 0xAF, CHR 0xB7, CHR 0xE5, CHR 0xB8, CHR 0xAE, CHR 0xE6, CHR 0x88, CHR 0x91],
     [CHR 0xE9, CHR 0xBA, CHR 0xBB, CHR 0xE7, CHR 0x83, CHR 0xA6, CHR 0xE5, CHR 0xB8, CHR 0xAE, CHR 0xE6, CHR 0x88, CHR 0x91],
     [CHR 0xE5, CHR 0xB8, CHR 0xAE, CHR 0xE6, CHR 0x88, CHR 0x91],
     [CHR 0xE7, CHR 0xBB, CHR 0x99, CHR 0xE6, CHR 0x88, CHR 0x91],
     [CHR 0xE8, CHR 0xAF, CHR 0xB7]]"

definition polite_suffixes :: "string list" where
  "polite_suffixes =
    [[CHR 0xE5, CHR 0x8F, CHR 0xAF, CHR 0xE4, CHR 0xBB, CHR 0xA5, CHR 0xE5, CHR 0x90, CHR 0x97],
     [CHR 0xE8, CHR 0xA1, CHR 0x8C, CHR 0xE4, CHR 0xB8, CHR 0x8D, CHR 0xE8, CHR 0xA1, CHR 0x8C],
     [CHR 0xE5, CHR 0xA5, CHR 0xBD, CHR 0xE5, CHR 0x90, CHR 0x97],
     [CHR 0xE5, CHR 0x90, CHR 0x97],
     [CHR 0xE5, CHR 0x91, CHR 0xA2],
     [CHR 0xE5, CHR 0x90, CHR 0xA7]]"

definition compute_words :: "string list" where
  "compute_words =
    [[CHR 0xE8, CHR 0xAE, CHR 0xA1, CHR 0xE7, CHR 0xAE, CHR 0x97, CHR 0xE4, CHR 0xB8, CHR 0x80, CHR 0xE4, CHR 0xB8, CHR 0x8B],
     [CHR 0xE7, CHR 0xAE, CHR 0x97, CHR 0xE4, CHR 0xB8, CHR 0x80, CHR 0xE4, CHR 0xB8, CHR 0x8B],
     [CHR 0xE7, CHR 0xAE, CHR 0x97, CHR 0xE4, CHR 0xB8, CHR 0x80, CHR 0xE7, CHR 0xAE, CHR 0x97]]"

definition compute_word :: string where
  "compute_word = [CHR 0xE8, CHR 0xAE, CHR 0xA1, CHR 0xE7, CHR 0xAE, CHR 0x97]"

definition normalize_zero_value_text :: "'e decomposer_env_scheme \<Rightarrow> string \<Rightarrow> string" where
  "normalize_zero_value_text env s =
    (let n = bare_text env s;
         n = drop (length (first_of (\<lambda>p. starts_with p n) polite_prefixes)) n;
         n = take (length n - length (first_of (\<lambda>p. ends_with p n) polite_suffixes)) n
     in fold (\<lambda>p. replace_text p compute_word) compute_words n)"

definition zero_value_plan_score :: "'e decomposer_env_scheme \<Rightarrow> string \<Rightarrow> plan_step list \<Rightarrow> pyfloat option" where
  "zero_value_plan_score env goal sts = (case sts of
     [st] \<Rightarrow>
       if skill_id st \<noteq> ''chat'' \<or> meta_text (me_repr env) (step_payload st) ''risk'' ''low'' \<noteq> ''low'' then None
       else let n = normalize_zero_value_text env (remove_matches METHOD_CONSTRAINT goal);
                t = fold (\<lambda>c. replace_text c []) (extract_method_constraints env goal) (normalize_zero_value_text env (step_title st))
            in if n = [] \<or> t = [] then None else Some (autojunk_ratio (characters n) (characters t))
   | _ \<Rightarrow> None)"

end
