(* ===== verification/Plan_Decomposer.thy ===== *)
theory Plan_Decomposer
  imports Goal_Gates Sample_Lifecycle
begin

text \<open>
  From a goal to a plan (\<open>PlanDecomposer.decide\<close> of \<open>core/plan_decomposer.py\<close>): the gates, the plans of
  the built-in tools, the model with its single retry, the templates, the checks of the result,
  and the candidate kept for learning. A subclass of \<open>ValueError\<close> that no one catches is a
  \<open>ValueError\<close>.
\<close>

section \<open>State\<close>

datatype decision = Plan "plan_step list" | NotDecomposable string "string option"

definition METHOD_CONSTRAINT_NOTICE :: string where
  "METHOD_CONSTRAINT_NOTICE =
     [CHR 0xE6, CHR 0x97, CHR 0xA0, CHR 0xE6, CHR 0xB3, CHR 0x95, CHR 0xE6, CHR 0x8C, CHR 0x89, CHR 0xE6, CHR 0x8C,
     CHR 0x87, CHR 0xE5, CHR 0xAE, CHR 0x9A, CHR 0xE6, CHR 0x96, CHR 0xB9, CHR 0xE6, CHR 0xB3, CHR 0x95, CHR 0xE5,
     CHR 0x88, CHR 0x86, CHR 0xE6, CHR 0xAD, CHR 0xA5, CHR 0xE6, CHR 0x89, CHR 0xA7, CHR 0xE8, CHR 0xA1, CHR 0x8C,
     CHR 0xEF, CHR 0xBC, CHR 0x8C, CHR 0xE5, CHR 0xB7, CHR 0xB2, CHR 0xE8, CHR 0xBD, CHR 0xAC, CHR 0xE4, CHR 0xB8,
     CHR 0xBA, CHR 0xE7, CHR 0x9B, CHR 0xB4, CHR 0xE6, CHR 0x8E, CHR 0xA5, CHR 0xE5, CHR 0x9B, CHR 0x9E, CHR 0xE7,
     CHR 0xAD, CHR 0x94, CHR 0xEF, CHR 0xBC, CHR 0x9B, CHR 0xE6, CHR 0x9C, CHR 0xAC, CHR 0xE5, CHR 0x9C, CHR 0xB0,
     CHR 0xE6, CHR 0xA8, CHR 0xA1, CHR 0xE5, CHR 0x9E, CHR 0x8B, CHR 0xE5, CHR 0x8F, CHR 0xAF, CHR 0xE8, CHR 0x83,
     CHR 0xBD, CHR 0xE6, CHR 0x97, CHR 0xA0, CHR 0xE6, CHR 0xB3, CHR 0x95, CHR 0xE4, CHR 0xB8, CHR 0xA5, CHR 0xE6,
     CHR 0xA0, CHR 0xBC, CHR 0xE5, CHR 0xA4, CHR 0x8D, CHR 0xE7, CHR 0x8E, CHR 0xB0, CHR 0xE8, CHR 0xAF, CHR 0xA5,
     CHR 0xE6, CHR 0x96, CHR 0xB9, CHR 0xE6, CHR 0xB3, CHR 0x95, CHR 0xE3, CHR 0x80, CHR 0x82]"

definition PARAMETER_MISSING_NOTICE :: string where
  "PARAMETER_MISSING_NOTICE =
     [CHR 0xE5, CHR 0xB7, CHR 0xB2, CHR 0xE8, CHR 0xAF, CHR 0x86, CHR 0xE5, CHR 0x88, CHR 0xAB, CHR 0xE5, CHR 0x88,
     CHR 0xB0, CHR 0xE6, CHR 0x8C, CHR 0x87, CHR 0xE5, CHR 0xAE, CHR 0x9A, CHR 0xE6, CHR 0x96, CHR 0xB9, CHR 0xE6,
     CHR 0xB3, CHR 0x95, CHR 0xEF, CHR 0xBC, CHR 0x8C, CHR 0xE4, CHR 0xBD, CHR 0x86, CHR 0xE7, CHR 0xBC, CHR 0xBA,
     CHR 0xE5, CHR 0xB0, CHR 0x91, CHR 0xE6, CHR 0x89, CHR 0xA7, CHR 0xE8, CHR 0xA1, CHR 0x8C, CHR 0xE6, CHR 0x89,
     CHR 0x80, CHR 0xE9, CHR 0x9C, CHR 0x80, CHR 0xE5, CHR 0x8F, CHR 0x82, CHR 0xE6, CHR 0x95, CHR 0xB0, CHR 0xEF,
     CHR 0xBC, CHR 0x9B, CHR 0xE8, CHR 0xAF, CHR 0xB7, CHR 0xE8, CHR 0xA1, CHR 0xA5, CHR 0xE5, CHR 0x85, CHR 0x85,
     CHR 0xE5, CHR 0xAE, CHR 0x8C, CHR 0xE6, CHR 0x95, CHR 0xB4, CHR 0xE8, CHR 0xBE, CHR 0x93, CHR 0xE5, CHR 0x85,
     CHR 0xA5, CHR 0xE5, CHR 0x90, CHR 0x8E, CHR 0xE6, CHR 0x88, CHR 0x91, CHR 0xE5, CHR 0x86, CHR 0x8D, CHR 0xE6,
     CHR 0x8C, CHR 0x89, CHR 0xE8, CHR 0xAF, CHR 0xA5, CHR 0xE6, CHR 0x96, CHR 0xB9, CHR 0xE6, CHR 0xB3, CHR 0x95,
     CHR 0xE5, CHR 0xA4, CHR 0x84, CHR 0xE7, CHR 0x90, CHR 0x86, CHR 0xE3, CHR 0x80, CHR 0x82]"

definition ZERO_VALUE_NOTICE :: string where
  "ZERO_VALUE_NOTICE =
     [CHR 0xE8, CHR 0xAF, CHR 0xA5, CHR 0xE8, CHR 0xAE, CHR 0xA1, CHR 0xE5, CHR 0x88, CHR 0x92, CHR 0xE6, CHR 0xB2,
     CHR 0xA1, CHR 0xE6, CHR 0x9C, CHR 0x89, CHR 0xE5, CHR 0xA2, CHR 0x9E, CHR 0xE5, CHR 0x8A, CHR 0xA0, CHR 0xE5,
     CHR 0x8F, CHR 0xAF, CHR 0xE6, CHR 0x89, CHR 0xA7, CHR 0xE8, CHR 0xA1, CHR 0x8C, CHR 0xE6, CHR 0xAD, CHR 0xA5,
     CHR 0xE9, CHR 0xAA, CHR 0xA4, CHR 0xEF, CHR 0xBC, CHR 0x8C, CHR 0xE5, CHR 0xB7, CHR 0xB2, CHR 0xE8, CHR 0xBD,
     CHR 0xAC, CHR 0xE4, CHR 0xB8, CHR 0xBA, CHR 0xE7, CHR 0x9B, CHR 0xB4, CHR 0xE6, CHR 0x8E, CHR 0xA5, CHR 0xE5,
     CHR 0x9B, CHR 0x9E, CHR 0xE7, CHR 0xAD, CHR 0x94, CHR 0xE3, CHR 0x80, CHR 0x82]"

text \<open>The next operation, unless the one before raised or refused.\<close>

definition then_with :: "(exn + 'a) \<times> decomposer \<Rightarrow> ('a \<Rightarrow> decomposer \<Rightarrow> (exn + 'b) \<times> decomposer) \<Rightarrow> (exn + 'b) \<times> decomposer" where
  "then_with r f = (case r of (Inl e, d) \<Rightarrow> (Inl e, d) | (Inr x, d) \<Rightarrow> f x d)"

lemma then_with_simps [simp]: "then_with (Inl e, d) f = (Inl e, d)" "then_with (Inr x, d) f = f x d"
  by (simp_all add: then_with_def)

section \<open>Skill and samples\<close>

definition caught_skill :: "exn \<Rightarrow> bool" where
  "caught_skill e \<longleftrightarrow> is_runtime_kind (exn_kind e) \<or> is_value_kind (exn_kind e) \<or> exn_kind e = AppError ''OSError''"

definition resolve_skill :: "'e decomposer_env_scheme \<Rightarrow> string \<Rightarrow> decomposer \<Rightarrow> (exn + unit) \<times> decomposer" where
  "resolve_skill env goal d =
    (let none = d\<lparr>dc_skill := None, dc_stages := []\<rparr> in
     case de_skill env of
       None \<Rightarrow> (Inr (), none)
     | Some f \<Rightarrow> (case f goal of
         Inl e \<Rightarrow> if caught_skill e then (Inr (), none) else (Inl e, d)
       | Inr (Some name, stages) \<Rightarrow> if name \<noteq> [] \<and> stages \<noteq> []
           then (Inr (), d\<lparr>dc_skill := Some name, dc_stages := filter (\<lambda>s. strip s \<noteq> []) stages\<rparr>) else (Inr (), none)
       | Inr (None, _) \<Rightarrow> (Inr (), none)))"

definition learning_enabled :: "'e decomposer_env_scheme \<Rightarrow> exn + bool" where
  "learning_enabled env = (case de_learning env of
     None \<Rightarrow> Inr (de_retriever env \<or> de_lifecycle env)
   | Some (Inl e) \<Rightarrow> if caught_skill e \<or> exn_kind e = TypeError then Inr False else Inl e
   | Some (Inr b) \<Rightarrow> Inr b)"

definition retrieve_shots :: "'e decomposer_env_scheme \<Rightarrow> string \<Rightarrow> decomposer \<Rightarrow> (exn + sample_shot list) \<times> decomposer" where
  "retrieve_shots env goal d =
    (case learning_enabled env of
       Inl e \<Rightarrow> (Inl e, d)
     | Inr enabled \<Rightarrow> if enabled \<and> de_retriever env
         then (let (r, w) = retrieve env (de_low env) (de_high env) goal (dc_library d);
                   shots = (case r of Inl _ \<Rightarrow> [] | Inr ss \<Rightarrow> ss)
               in (Inr shots, d\<lparr>dc_library := w, dc_samples := map sh_id shots\<rparr>))
         else (Inr [], d\<lparr>dc_samples := []\<rparr>))"

section \<open>Checks of a plan\<close>

definition MIN_STEP_RELEVANCE :: pyfloat where
  "MIN_STEP_RELEVANCE = 5 / 100"

definition zero_value :: "'e decomposer_env_scheme \<Rightarrow> string \<Rightarrow> plan_step list \<Rightarrow> bool" where
  "zero_value env goal sts = (case zero_value_plan_score env goal sts of None \<Rightarrow> False | Some q \<Rightarrow> 8 / 10 \<le> q)"

definition constraint_feedback :: "string list \<Rightarrow> string" where
  "constraint_feedback missing =
     [CHR 0xE5, CHR 0xBF, CHR 0x85, CHR 0xE9, CHR 0xA1, CHR 0xBB, CHR 0xE5, CHR 0x9C, CHR 0xA8, CHR 0xE8, CHR 0x87,
     CHR 0xB3, CHR 0xE5, CHR 0xB0, CHR 0x91, CHR 0xE4, CHR 0xB8, CHR 0x80, CHR 0xE4, CHR 0xB8, CHR 0xAA, CHR 0xE6,
     CHR 0xAD, CHR 0xA5, CHR 0xE9, CHR 0xAA, CHR 0xA4, CHR 0xE4, CHR 0xB8, CHR 0xAD, CHR 0xE6, CHR 0x98, CHR 0x8E,
     CHR 0xE7, CHR 0xA1, CHR 0xAE, CHR 0xE4, CHR 0xBF, CHR 0x9D, CHR 0xE7, CHR 0x95, CHR 0x99, CHR 0xE8, CHR 0xBF,
     CHR 0x99, CHR 0xE4, CHR 0xBA, CHR 0x9B, CHR 0xE6, CHR 0x96, CHR 0xB9, CHR 0xE6, CHR 0xB3, CHR 0x95, CHR 0xE7,
     CHR 0xBA, CHR 0xA6, CHR 0xE6, CHR 0x9D, CHR 0x9F, CHR 0xEF, CHR 0xBC, CHR 0x9A] @
     join ([CHR 0xE3, CHR 0x80, CHR 0x81]) missing @
     [CHR 0xE3, CHR 0x80, CHR 0x82, CHR 0xE4, CHR 0xB8, CHR 0x8D, CHR 0xE5, CHR 0xBE, CHR 0x97, CHR 0xE6, CHR 0x94,
     CHR 0xB9, CHR 0xE5, CHR 0x86, CHR 0x99, CHR 0xE6, CHR 0x88, CHR 0x96, CHR 0xE7, CHR 0x9C, CHR 0x81, CHR 0xE7,
     CHR 0x95, CHR 0xA5, CHR 0xE6, CHR 0x8C, CHR 0x87, CHR 0xE5, CHR 0xAE, CHR 0x9A, CHR 0xE7, CHR 0xAE, CHR 0x97,
     CHR 0xE6, CHR 0xB3, CHR 0x95, CHR 0xE3, CHR 0x80, CHR 0x81, CHR 0xE5, CHR 0x8D, CHR 0x8F, CHR 0xE8, CHR 0xAE,
     CHR 0xAE, CHR 0xE6, CHR 0x88, CHR 0x96, CHR 0xE6, CHR 0xA0, CHR 0xBC, CHR 0xE5, CHR 0xBC, CHR 0x8F, CHR 0xE3,
     CHR 0x80, CHR 0x82]"

definition FORMAT_FEEDBACK :: string where
  "FORMAT_FEEDBACK =
     [CHR 0xE8, CHR 0xBE, CHR 0x93, CHR 0xE5, CHR 0x87, CHR 0xBA, CHR 0xE5, CHR 0xBF, CHR 0x85, CHR 0xE9, CHR 0xA1,
     CHR 0xBB, CHR 0xE6, CHR 0x98, CHR 0xAF, CHR 0xE6, CHR 0xBB, CHR 0xA1, CHR 0xE8, CHR 0xB6, CHR 0xB3, CHR 0xE5,
     CHR 0xAD, CHR 0x97, CHR 0xE6, CHR 0xAE, CHR 0xB5, CHR 0xE7, CHR 0xBA, CHR 0xA6, CHR 0xE6, CHR 0x9D, CHR 0x9F,
     CHR 0xE7, CHR 0x9A, CHR 0x84] @ '' JSON '' @ [CHR 0xE6, CHR 0xAD, CHR 0xA5, CHR 0xE9, CHR 0xAA, CHR 0xA4, CHR
     0xE6, CHR 0x95, CHR 0xB0, CHR 0xE7, CHR 0xBB, CHR 0x84, CHR 0xEF, CHR 0xBC, CHR 0x8C, CHR 0xE4, CHR 0xB8, CHR
     0x8D, CHR 0xE5, CHR 0xBE, CHR 0x97, CHR 0xE5, CHR 0x8C, CHR 0x85, CHR 0xE5, CHR 0x90, CHR 0xAB, CHR 0xE9, CHR
     0xA2, CHR 0x9D, CHR 0xE5, CHR 0xA4, CHR 0x96, CHR 0xE6, CHR 0x96, CHR 0x87, CHR 0xE6, CHR 0x9C, CHR 0xAC, CHR
     0xE3, CHR 0x80, CHR 0x82]"

definition SCAFFOLD_FEEDBACK :: string where
  "SCAFFOLD_FEEDBACK =
     [CHR 0xE6, CHR 0xAD, CHR 0xA5, CHR 0xE9, CHR 0xAA, CHR 0xA4, CHR 0xE4, CHR 0xB8, CHR 0x8D, CHR 0xE5, CHR 0xBE,
     CHR 0x97, CHR 0xE4, CHR 0xBD, CHR 0xBF, CHR 0xE7, CHR 0x94, CHR 0xA8, CHR 0xE7, CHR 0xA9, CHR 0xBA, CHR 0xE6,
     CHR 0xB3, CHR 0x9B, CHR 0xE5, CHR 0x85, CHR 0x83, CHR 0xE6, CHR 0xA8, CHR 0xA1, CHR 0xE6, CHR 0x9D, CHR 0xBF,
     CHR 0xE6, CHR 0x8F, CHR 0x8F, CHR 0xE8, CHR 0xBF, CHR 0xB0, CHR 0xEF, CHR 0xBC, CHR 0x8C, CHR 0xE5, CHR 0xBF,
     CHR 0x85, CHR 0xE9, CHR 0xA1, CHR 0xBB, CHR 0xE7, CHR 0xBB, CHR 0x99, CHR 0xE5, CHR 0x87, CHR 0xBA, CHR 0xE4,
     CHR 0xBB, CHR 0xBB, CHR 0xE5, CHR 0x8A, CHR 0xA1, CHR 0xE7, CHR 0x89, CHR 0xB9, CHR 0xE5, CHR 0xAE, CHR 0x9A,
     CHR 0xE7, CHR 0x9A, CHR 0x84, CHR 0xE5, CHR 0x8A, CHR 0xA8, CHR 0xE4, CHR 0xBD, CHR 0x9C, CHR 0xE4, CHR 0xB8,
     CHR 0x8E, CHR 0xE5, CHR 0xAF, CHR 0xB9, CHR 0xE8, CHR 0xB1, CHR 0xA1, CHR 0xE3, CHR 0x80, CHR 0x82]"

definition ECHO_FEEDBACK :: string where
  "ECHO_FEEDBACK =
     [CHR 0xE6, CHR 0xAD, CHR 0xA5, CHR 0xE9, CHR 0xAA, CHR 0xA4, CHR 0xE4, CHR 0xB8, CHR 0x8D, CHR 0xE5, CHR 0xBE,
     CHR 0x97, CHR 0xE5, CHR 0xA4, CHR 0x8D, CHR 0xE8, CHR 0xBF, CHR 0xB0, CHR 0xE7, CHR 0x94, CHR 0xA8, CHR 0xE6,
     CHR 0x88, CHR 0xB7, CHR 0xE7, CHR 0x9B, CHR 0xAE, CHR 0xE6, CHR 0xA0, CHR 0x87, CHR 0xEF, CHR 0xBC, CHR 0x8C,
     CHR 0xE5, CHR 0xBF, CHR 0x85, CHR 0xE9, CHR 0xA1, CHR 0xBB, CHR 0xE8, CHR 0xBD, CHR 0xAC, CHR 0xE5, CHR 0x8C,
     CHR 0x96, CHR 0xE4, CHR 0xB8, CHR 0xBA, CHR 0xE5, CHR 0x8F, CHR 0xAF, CHR 0xE6, CHR 0x89, CHR 0xA7, CHR 0xE8,
     CHR 0xA1, CHR 0x8C, CHR 0xE5, CHR 0x8A, CHR 0xA8, CHR 0xE4, CHR 0xBD, CHR 0x9C, CHR 0xE3, CHR 0x80, CHR 0x82]"

definition RELEVANCE_FEEDBACK :: string where
  "RELEVANCE_FEEDBACK =
     [CHR 0xE6, CHR 0xAD, CHR 0xA5, CHR 0xE9, CHR 0xAA, CHR 0xA4, CHR 0xE5, CHR 0xBF, CHR 0x85, CHR 0xE9, CHR 0xA1,
     CHR 0xBB, CHR 0xE4, CHR 0xB8, CHR 0x8E, CHR 0xE7, CHR 0x94, CHR 0xA8, CHR 0xE6, CHR 0x88, CHR 0xB7, CHR 0xE7,
     CHR 0x9B, CHR 0xAE, CHR 0xE6, CHR 0xA0, CHR 0x87, CHR 0xE7, CHR 0x9B, CHR 0xB4, CHR 0xE6, CHR 0x8E, CHR 0xA5,
     CHR 0xE7, CHR 0x9B, CHR 0xB8, CHR 0xE5, CHR 0x85, CHR 0xB3, CHR 0xE3, CHR 0x80, CHR 0x82]"

definition VALUE_FEEDBACK :: string where
  "VALUE_FEEDBACK =
     [CHR 0xE8, CHR 0xAE, CHR 0xA1, CHR 0xE5, CHR 0x88, CHR 0x92, CHR 0xE5, CHR 0xBF, CHR 0x85, CHR 0xE9, CHR 0xA1,
     CHR 0xBB, CHR 0xE5, CHR 0xA2, CHR 0x9E, CHR 0xE5, CHR 0x8A, CHR 0xA0, CHR 0xE5, CHR 0x8F, CHR 0xAF, CHR 0xE6,
     CHR 0x89, CHR 0xA7, CHR 0xE8, CHR 0xA1, CHR 0x8C, CHR 0xE3, CHR 0x80, CHR 0x81, CHR 0xE5, CHR 0x8F, CHR 0xAF,
     CHR 0xE9, CHR 0xAA, CHR 0x8C, CHR 0xE8, CHR 0xAF, CHR 0x81, CHR 0xE7, CHR 0x9A, CHR 0x84, CHR 0xE4, CHR 0xBF,
     CHR 0xA1, CHR 0xE6, CHR 0x81, CHR 0xAF, CHR 0xEF, CHR 0xBC, CHR 0x8C, CHR 0xE4, CHR 0xB8, CHR 0x8D, CHR 0xE5,
     CHR 0xBE, CHR 0x97, CHR 0xE7, CHR 0x94, CHR 0x9F, CHR 0xE6, CHR 0x88, CHR 0x90, CHR 0xE9, CHR 0x9B, CHR 0xB6,
     CHR 0xE4, CHR 0xBB, CHR 0xB7, CHR 0xE5, CHR 0x80, CHR 0xBC, CHR 0xE6, CHR 0xAD, CHR 0xA5, CHR 0xE9, CHR 0xAA,
     CHR 0xA4, CHR 0xE3, CHR 0x80, CHR 0x82]"

text \<open>\<open>_streaming_llm_candidate_issue\<close>\<close>

definition candidate_issue :: "'e decomposer_env_scheme \<Rightarrow> string \<Rightarrow> pyval dict list \<Rightarrow> exn + string option" where
  "candidate_issue env goal raws =
    (let missing = missing_method_constraints env goal raws in
     if missing \<noteq> [] then Inr (Some (constraint_feedback missing))
     else and_then (plan_steps (me_repr env) goal raws) (\<lambda>sts. Inr (
       if contains_generic_scaffold sts then Some SCAFFOLD_FEEDBACK
       else if detect_echo env goal (raw_goal_text (me_repr env) raws) (plan_step_texts sts) then Some ECHO_FEEDBACK
       else if step_relevance env goal sts < MIN_STEP_RELEVANCE then Some RELEVANCE_FEEDBACK
       else if zero_value env goal sts then Some VALUE_FEEDBACK
       else None)))"

definition refuse :: "string \<Rightarrow> string option \<Rightarrow> decomposer \<Rightarrow> (exn + decision) \<times> decomposer" where
  "refuse why notice d = (Inr (NotDecomposable why notice), d)"

text \<open>The candidate for learning: whatever happens there, the plan stands.\<close>

definition candidate_of :: "string \<Rightarrow> plan_step list \<Rightarrow> string \<Rightarrow> string list \<Rightarrow> candidate_args" where
  "candidate_of goal sts source provenance = \<lparr>ca_task = goal, ca_steps = map step_to_dict sts, ca_source = source,
     ca_plan = None, ca_provenance = provenance, ca_tools = None\<rparr>"

definition keep_candidate :: "'e decomposer_env_scheme \<Rightarrow> string \<Rightarrow> string \<Rightarrow> plan_step list \<Rightarrow> decomposer \<Rightarrow> decomposer" where
  "keep_candidate env source goal sts d =
    (if de_lifecycle env \<and> source \<noteq> ''builtin_tool''
     then (case lifecycle_create_candidate env (candidate_of goal sts source (dc_samples d)) (dc_library d) of
         (Inl e, w) \<Rightarrow> d\<lparr>dc_library := w\<rparr>
       | (Inr s, w) \<Rightarrow>
           let d = d\<lparr>dc_library := w, dc_candidate := Some (sp_id s)\<rparr>
           in (case int_or (sp_usage s) ''similarity_count'' 0 of
                 Inr n \<Rightarrow> if n > 0 then d\<lparr>dc_samples := dedup (dc_samples d @ [sp_id s])\<rparr> else d
               | Inl e \<Rightarrow> d))
     else d)"

definition accept_plan :: "'e decomposer_env_scheme \<Rightarrow> string \<Rightarrow> string \<Rightarrow> pyval dict list \<Rightarrow> decomposer \<Rightarrow> (exn + decision) \<times> decomposer" where
  "accept_plan env source goal raws d =
    (case plan_steps (me_repr env) goal raws of
       Inl e \<Rightarrow> (Inl e, d)
     | Inr sts \<Rightarrow>
         if source = ''llm'' \<and> contains_generic_scaffold sts then refuse ''meta_template'' None d
         else if source = ''llm'' \<and> detect_echo env goal (raw_goal_text (me_repr env) raws) (plan_step_texts sts) then refuse ''echo'' None d
         else if step_relevance env goal sts < MIN_STEP_RELEVANCE then refuse ''low_relevance'' None d
         else if zero_value env goal sts then refuse ''zero_value_plan''
           (Some (if extract_method_constraints env goal \<noteq> [] then METHOD_CONSTRAINT_NOTICE else ZERO_VALUE_NOTICE)) d
         else (Inr (Plan sts), keep_candidate env source goal sts (d\<lparr>dc_source := Some source\<rparr>)))"

section \<open>The model and its retry\<close>

text \<open>What the model leaves: a refusal, checked steps, or nothing, and then the templates are used.\<close>

datatype llm_outcome = Refused string "string option" | Kept "pyval dict list" | UseTemplates

definition validation_failed :: "string \<Rightarrow> exn" where
  "validation_failed t = Exn ValueError t"

definition retry_streamed :: "'e decomposer_env_scheme \<Rightarrow> llm_backend \<Rightarrow> string \<Rightarrow> sample_shot list \<Rightarrow> string \<Rightarrow> decomposer
    \<Rightarrow> (exn + llm_outcome) \<times> decomposer" where
  "retry_streamed env b goal shots issue d =
    then_with (decompose_with_llm env b True goal shots (Some issue) (log_events [RetryNotice] d)) (\<lambda>r d. case r of
       ModelRefuses \<Rightarrow> (Inr (Refused ''model_none'' None), d)
     | NoSteps \<Rightarrow> (Inl (validation_failed ''streamed decomposition failed validation''), d)
     | LlmSteps raws \<Rightarrow> (case candidate_issue env goal raws of
           Inl e \<Rightarrow> (Inl e, d)
         | Inr (Some _) \<Rightarrow> (Inl (validation_failed ''streamed decomposition failed validation''), d)
         | Inr None \<Rightarrow> (Inr (Kept raws), d)))"

definition first_attempt :: "'e decomposer_env_scheme \<Rightarrow> llm_backend \<Rightarrow> bool \<Rightarrow> string \<Rightarrow> sample_shot list \<Rightarrow> decomposer
    \<Rightarrow> (exn + llm_outcome \<times> bool) \<times> decomposer" where
  "first_attempt env b stream goal shots d =
    then_with (decompose_with_llm env b stream goal shots None d) (\<lambda>r d. case r of
       ModelRefuses \<Rightarrow> (Inr (Refused ''model_none'' None, False), d)
     | NoSteps \<Rightarrow> if stream
         then then_with (retry_streamed env b goal shots FORMAT_FEEDBACK d)
           (\<lambda>out d. (Inr (out, True), d))
         else (Inr (UseTemplates, False), d)
     | LlmSteps raws \<Rightarrow> if \<not> stream then (Inr (Kept raws, False), d)
         else (case candidate_issue env goal raws of
             Inl e \<Rightarrow> (Inl e, d)
           | Inr None \<Rightarrow> (Inr (Kept raws, False), d)
           | Inr (Some issue) \<Rightarrow> then_with (retry_streamed env b goal shots issue d) (\<lambda>out d. (Inr (out, True), d))))"

text \<open>Steps that lose a method the goal insists on are asked for once more.\<close>

definition keep_methods :: "'e decomposer_env_scheme \<Rightarrow> llm_backend \<Rightarrow> bool \<Rightarrow> bool \<Rightarrow> string \<Rightarrow> sample_shot list \<Rightarrow> pyval dict list \<Rightarrow> decomposer
    \<Rightarrow> (exn + llm_outcome) \<times> decomposer" where
  "keep_methods env b stream retried goal shots raws d =
    (let missing = missing_method_constraints env goal raws in
     if missing = [] then (Inr (Kept raws), d)
     else if stream \<and> retried then (Inl (validation_failed ''streamed decomposition exhausted its single retry''), d)
     else then_with (decompose_with_llm env b False goal shots (Some (constraint_feedback missing)) d) (\<lambda>r d. case r of
         LlmSteps raws \<Rightarrow> if missing_method_constraints env goal raws = [] then (Inr (Kept raws), d)
           else (Inr (Refused ''method_constraint_lost'' (Some METHOD_CONSTRAINT_NOTICE)), d)
       | _ \<Rightarrow> (Inr (Refused ''method_constraint_lost'' (Some METHOD_CONSTRAINT_NOTICE)), d)))"

definition ask_llm :: "'e decomposer_env_scheme \<Rightarrow> bool \<Rightarrow> string \<Rightarrow> sample_shot list \<Rightarrow> decomposer \<Rightarrow> (exn + llm_outcome) \<times> decomposer" where
  "ask_llm env stream goal shots d = (case de_llm env of
     None \<Rightarrow> (Inr UseTemplates, d)
   | Some b \<Rightarrow> then_with (first_attempt env b stream goal shots d) (\<lambda>(out, retried) d. case out of
       Kept raws \<Rightarrow> keep_methods env b stream retried goal shots raws d
     | _ \<Rightarrow> (Inr out, d)))"

definition use_templates :: "'e decomposer_env_scheme \<Rightarrow> string \<Rightarrow> string list \<Rightarrow> decomposer \<Rightarrow> (exn + decision) \<times> decomposer" where
  "use_templates env goal constraints d = (case rule_decompose goal of
     None \<Rightarrow> refuse ''no_rule_match'' (if constraints = [] then None else Some PARAMETER_MISSING_NOTICE) d
   | Some raws \<Rightarrow> accept_plan env ''rule'' goal raws d)"

section \<open>The decision\<close>

definition learned_plan :: "'e decomposer_env_scheme \<Rightarrow> bool \<Rightarrow> string \<Rightarrow> string list \<Rightarrow> decomposer \<Rightarrow> (exn + decision) \<times> decomposer" where
  "learned_plan env stream goal constraints d =
    then_with (resolve_skill env goal d) (\<lambda>_ d. then_with (retrieve_shots env goal d) (\<lambda>shots d.
      then_with (ask_llm env stream goal shots d) (\<lambda>out d. case out of
          Refused why notice \<Rightarrow> refuse why notice d
        | Kept raws \<Rightarrow> accept_plan env ''llm'' goal raws d
        | UseTemplates \<Rightarrow> use_templates env goal constraints d)))"

definition decide :: "'e decomposer_env_scheme \<Rightarrow> bool \<Rightarrow> string \<Rightarrow> decomposer \<Rightarrow> (exn + decision) \<times> decomposer" where
  "decide env stream user_input d =
    (let goal = strip user_input; d = d\<lparr>dc_source := None, dc_samples := [], dc_candidate := None\<rparr> in
     if goal = [] then (Inr (Plan []), d\<lparr>dc_skill := None, dc_stages := []\<rparr>)
     else if normalize_non_task_input env goal \<in> set NON_TASK_INPUTS then refuse ''greeting'' None d
     else if is_explanation_request env goal then refuse ''explanation'' None d
     else let constraints = extract_method_constraints env goal in
       case deterministic_algorithm_plan env goal of
         Some raws \<Rightarrow> accept_plan env ''builtin_tool'' goal raws d
       | None \<Rightarrow> if has_unavailable_algorithm constraints (normalize_keyword_map env (de_algorithms env))
           then refuse ''method_constraint_lost'' (Some METHOD_CONSTRAINT_NOTICE) d
           else (case deterministic_calculator_plan goal of
               Some raws \<Rightarrow> accept_plan env ''builtin_tool'' goal raws d
             | None \<Rightarrow> learned_plan env stream goal constraints d))"

definition bind_candidate_plan :: "'e decomposer_env_scheme \<Rightarrow> string \<Rightarrow> decomposer \<Rightarrow> decomposer" where
  "bind_candidate_plan env pid d = (case dc_candidate d of
     Some c \<Rightarrow> if de_lifecycle env then d\<lparr>dc_library := snd (assign_plan_id env c pid (dc_library d))\<rparr> else d
   | None \<Rightarrow> d)"

end
