(* ===== verification/Decomposer_Safety.thy ===== *)
theory Decomposer_Safety
  imports Plan_Decomposer Plan_Operations
begin

text \<open>
  What the decomposition of a goal guarantees: the shape of an accepted plan, how often the model
  is asked, that a method the goal insists on is kept, when the templates work, and what is learned.
\<close>

section \<open>Raw steps\<close>

lemma and_then_isl: "isl (and_then x f) \<longleftrightarrow> isl x \<or> (\<exists>y. x = Inr y \<and> isl (f y))"
  by (cases x) simp_all

lemma raw_step_texts:
  assumes "validate_raw_step raw idx = Inr ()" "k \<in> set REQUIRED_FIELDS"
  shows "pget raw k = PStr (raw_text raw k)" "strip (raw_text raw k) \<noteq> []" "meta_text rp raw k alt = raw_text raw k"
proof -
  have "\<not> field_missing raw k" using assms by (auto simp: validate_raw_step_def find_None_iff split: option.splits)
  then obtain s where s: "pget raw k = PStr s" "strip s \<noteq> []" by (auto simp: field_missing_def split: pyval.splits)
  then have "s \<noteq> []" by auto
  with s show "pget raw k = PStr (raw_text raw k)" "strip (raw_text raw k) \<noteq> []" "meta_text rp raw k alt = raw_text raw k"
    by (simp_all add: raw_text_def meta_text_def py_str_def)
qed

definition says_nothing :: "plan_step \<Rightarrow> bool" where
  "says_nothing st \<longleftrightarrow> contains_any META_PATTERNS (lower (step_title st @ newline @ step_description st))"

definition step_texts_ok :: "plan_step \<Rightarrow> bool" where
  "step_texts_ok st \<longleftrightarrow> \<not> says_nothing st \<and> list_all (\<lambda>t. strip t \<noteq> [])
     [step_title st, step_description st, expected_output st, verification st, completion_criteria st]"

lemma raw_to_plan_step_ok:
  assumes "raw_to_plan_step rp raw goal idx = Inr st"
  shows "step_texts_ok st"
proof -
  from assms have v: "validate_raw_step raw idx = Inr ()" by (auto simp: raw_to_plan_step_def and_then_Inr_iff)
  have keys: "''title'' \<in> set REQUIRED_FIELDS" "''description'' \<in> set REQUIRED_FIELDS" "''expected_output'' \<in> set REQUIRED_FIELDS"
    "''verification'' \<in> set REQUIRED_FIELDS" "''completion_criteria'' \<in> set REQUIRED_FIELDS" by (simp_all add: REQUIRED_FIELDS_def)
  note texts = keys [THEN raw_step_texts(3) [OF v]]
  from assms v have fields: "step_title st = raw_text raw ''title''" "step_description st = raw_text raw ''description''"
    "expected_output st = raw_text raw ''expected_output''" "verification st = raw_text raw ''verification''"
    "completion_criteria st = raw_text raw ''completion_criteria''"
    by (auto simp: raw_to_plan_step_def and_then_Inr_iff Let_def texts)
  have "meta_pattern_in raw = None" using v by (auto simp: validate_raw_step_def split: option.splits)
  then have "\<not> says_nothing st"
    by (auto simp: says_nothing_def fields meta_pattern_in_def find_None_iff contains_any_def list_ex_iff)
  then show ?thesis using keys [THEN raw_step_texts(2) [OF v]] by (simp add: step_texts_ok_def fields)
qed

lemma plan_steps_ok:
  assumes "plan_steps rp goal raws = Inr sts"
  shows "length sts = length raws \<and> (\<forall>st \<in> set sts. step_texts_ok st)"
proof
  show "length sts = length raws" using length_traverse [OF assms [unfolded plan_steps_def]] by simp
  show "\<forall>st \<in> set sts. step_texts_ok st"
  proof
    fix st
    assume "st \<in> set sts"
    then obtain x where "(case x of (idx, raw) \<Rightarrow> raw_to_plan_step rp raw goal idx) = Inr st"
      using traverse_from [OF assms [unfolded plan_steps_def]] by blast
    then show "step_texts_ok st" by (cases x) (auto intro: raw_to_plan_step_ok)
  qed
qed

section \<open>Accepted plans\<close>

definition plan_checked :: "'e decomposer_env_scheme \<Rightarrow> string \<Rightarrow> plan_step list \<Rightarrow> bool" where
  "plan_checked env goal sts \<longleftrightarrow> sts \<noteq> [] \<and> (\<forall>st \<in> set sts. step_texts_ok st) \<and>
     MIN_STEP_RELEVANCE \<le> step_relevance env goal sts \<and> \<not> zero_value env goal sts"

lemma accept_plan_cases:
  assumes "fst (accept_plan env source goal raws d) = Inr (Plan sts)" "raws \<noteq> []"
  shows "plan_checked env goal sts" "plan_steps (me_repr env) goal raws = Inr sts"
    "dc_source (snd (accept_plan env source goal raws d)) = Some source"
    "source = ''llm'' \<Longrightarrow> \<not> contains_generic_scaffold sts \<and> \<not> detect_echo env goal (raw_goal_text (me_repr env) raws) (plan_step_texts sts)"
proof -
  from assms(1) show p: "plan_steps (me_repr env) goal raws = Inr sts"
    by (auto simp: accept_plan_def refuse_def split: sum.splits if_splits)
  from assms(1) p show "source = ''llm'' \<Longrightarrow> \<not> contains_generic_scaffold sts \<and> \<not> detect_echo env goal (raw_goal_text (me_repr env) raws) (plan_step_texts sts)"
    by (auto simp: accept_plan_def refuse_def split: if_splits)
  from assms(1) p have "\<not> step_relevance env goal sts < MIN_STEP_RELEVANCE" "\<not> zero_value env goal sts"
    by (auto simp: accept_plan_def refuse_def split: if_splits)
  moreover have "sts \<noteq> []" using plan_steps_ok [OF p] assms(2) by auto
  ultimately show "plan_checked env goal sts" using plan_steps_ok [OF p] by (simp add: plan_checked_def)
  from assms(1) p show "dc_source (snd (accept_plan env source goal raws d)) = Some source"
    by (auto simp: accept_plan_def refuse_def keep_candidate_def Let_def split: if_splits prod.splits sum.splits)
qed

lemma accept_plan_frame:
  "dc_calls (snd (accept_plan env source goal raws d)) = dc_calls d" "dc_log (snd (accept_plan env source goal raws d)) = dc_log d"
  "dc_skill (snd (accept_plan env source goal raws d)) = dc_skill d" "dc_stages (snd (accept_plan env source goal raws d)) = dc_stages d"
  by (auto simp: accept_plan_def refuse_def keep_candidate_def Let_def split: if_splits prod.splits sum.splits)



section \<open>The model\<close>

text \<open>Every operation around the model leaves the candidate alone and calls at most so often.\<close>

lemma then_with_Inr: "then_with r f = (Inr y, e) \<longleftrightarrow> (\<exists>x d. r = (Inr x, d) \<and> f x d = (Inr y, e))"
  by (auto simp: then_with_def split: prod.split sum.split)

lemma then_with_calls:
  "dc_calls (snd r) \<le> m \<Longrightarrow> (\<And>x d. r = (Inr x, d) \<Longrightarrow> dc_calls (snd (f x d)) \<le> n) \<Longrightarrow> m \<le> n \<Longrightarrow> dc_calls (snd (then_with r f)) \<le> n"
  by (auto simp: then_with_def split: prod.split sum.split)


lemma retry_streamed_calls: "dc_calls (snd (retry_streamed env b goal shots issue d)) \<le> Suc (dc_calls d)"
  unfolding retry_streamed_def
  by (rule then_with_calls [OF decompose_with_llm_calls])
    (use decompose_with_llm_calls [of env b True goal shots "Some issue" "log_events [RetryNotice] d"] in
      \<open>auto simp: log_events_def split: llm_result.split sum.split option.split\<close>)

lemma first_attempt_calls:
  "dc_calls (snd (first_attempt env b stream goal shots d)) \<le> dc_calls d + 2"
  "first_attempt env b stream goal shots d = (Inr (out, False), e) \<Longrightarrow> dc_calls e \<le> Suc (dc_calls d)"
  "first_attempt env b stream goal shots d = (Inr (out, True), e) \<Longrightarrow> stream"
proof -
  obtain r d' where r: "decompose_with_llm env b stream goal shots None d = (r, d')" by fastforce
  have d': "dc_calls d' \<le> Suc (dc_calls d)" using decompose_with_llm_calls [of env b stream goal shots None d] by (simp add: r)
  have retry: "dc_calls (snd (then_with (retry_streamed env b goal shots i d') (\<lambda>out d. (Inr (out, True), d)))) \<le> dc_calls d + 2" for i
    using retry_streamed_calls [of env b goal shots i d'] d' by (auto simp: then_with_def split: prod.split sum.split)
  show "dc_calls (snd (first_attempt env b stream goal shots d)) \<le> dc_calls d + 2"
    using d' retry by (cases r) (auto simp: first_attempt_def r split: llm_result.split sum.split option.split)
  show "dc_calls e \<le> Suc (dc_calls d)" if "first_attempt env b stream goal shots d = (Inr (out, False), e)"
    using that d' by (cases r) (auto simp: first_attempt_def r then_with_Inr split: llm_result.splits sum.splits option.splits if_splits)
  show stream if "first_attempt env b stream goal shots d = (Inr (out, True), e)"
    using that by (cases r) (auto simp: first_attempt_def r split: llm_result.splits if_splits)
qed

lemma keep_methods_calls:
  "dc_calls (snd (keep_methods env b stream retried goal shots raws d)) \<le> (if stream \<and> retried then dc_calls d else Suc (dc_calls d))"
proof (cases "missing_method_constraints env goal raws = [] \<or> stream \<and> retried")
  case False
  let ?fb = "Some (constraint_feedback (missing_method_constraints env goal raws))"
  from False show ?thesis
    using decompose_with_llm_calls [of env b False goal shots ?fb d]
    by (auto simp: keep_methods_def Let_def then_with_def split: prod.splits sum.splits llm_result.splits)
qed (auto simp: keep_methods_def Let_def)

lemma ask_llm_calls: "dc_calls (snd (ask_llm env stream goal shots d)) \<le> dc_calls d + 2"
proof (cases "de_llm env")
  case (Some b)
  obtain r d' where r: "first_attempt env b stream goal shots d = (r, d')" by fastforce
  show ?thesis
  proof (cases r)
    case (Inr p)
    obtain out retried where p: "p = (out, retried)" by fastforce
    have le: "dc_calls (snd (keep_methods env b stream retried goal shots raws d')) \<le> dc_calls d + 2" for raws
      using keep_methods_calls [of env b stream retried goal shots raws d'] first_attempt_calls [of env b stream goal shots d]
      by (cases retried) (auto simp: r Inr p)
    show ?thesis using le first_attempt_calls(1) [of env b stream goal shots d]
      by (auto simp: ask_llm_def Some r Inr p split: llm_outcome.split)
  qed (use first_attempt_calls(1) [of env b stream goal shots d] in \<open>auto simp: ask_llm_def Some r\<close>)
qed (simp add: ask_llm_def)

text \<open>The steps the model's answer leaves are there, and keep the methods.\<close>

lemma ask_llm_kept:
  assumes "ask_llm env stream goal shots d = (Inr (Kept raws), e)"
  shows "raws \<noteq> [] \<and> missing_method_constraints env goal raws = []"
proof -
  from assms obtain b r retried d' where f: "first_attempt env b stream goal shots d = (Inr (r, retried), d')"
    and c: "(case r of Kept raws \<Rightarrow> keep_methods env b stream retried goal shots raws d' | _ \<Rightarrow> (Inr r, d')) = (Inr (Kept raws), e)"
    by (auto simp: ask_llm_def then_with_Inr split: option.splits)
  from c obtain out where r: "r = Kept out" and k: "keep_methods env b stream retried goal shots out d' = (Inr (Kept raws), e)"
    by (cases r) auto
  note b = f [unfolded r]
  have step: "decompose_with_llm env b s goal shots fb x = (Inr (LlmSteps rs), y) \<Longrightarrow> rs \<noteq> []" for s fb x rs y
    using decompose_with_llm_steps(1) [of env b s goal shots fb x rs] by simp
  have retry: "rs \<noteq> []" if "retry_streamed env b goal shots i x = (Inr (Kept rs), y)" for i x rs y
  proof -
    from that obtain r d' where r: "decompose_with_llm env b True goal shots (Some i) (log_events [RetryNotice] x) = (Inr r, d')"
      unfolding retry_streamed_def then_with_Inr by blast
    with that step show ?thesis by (cases r) (auto simp: retry_streamed_def split: sum.splits option.splits)
  qed
  have first: "out \<noteq> []"
  proof -
    from b obtain r d' where r: "decompose_with_llm env b stream goal shots None d = (Inr r, d')"
      unfolding first_attempt_def then_with_Inr by blast
    with b show ?thesis
      by (cases r) (auto dest: step retry simp: first_attempt_def then_with_Inr split: sum.splits option.splits if_splits)
  qed
  show ?thesis
  proof (cases "missing_method_constraints env goal out = []")
    case True
    with k first show ?thesis by (simp add: keep_methods_def)
  next
    case False
    let ?fb = "Some (constraint_feedback (missing_method_constraints env goal out))"
    from False k have "\<not> (stream \<and> retried)" by (auto simp: keep_methods_def Let_def)
    with False k obtain r d'' where r: "decompose_with_llm env b False goal shots ?fb d' = (Inr r, d'')"
      unfolding keep_methods_def Let_def by (auto simp only: if_not_P then_with_Inr if_False)
    with False k \<open>\<not> (stream \<and> retried)\<close> show ?thesis
      by (cases r) (auto dest: step simp: keep_methods_def Let_def split: if_splits)
  qed
qed


section \<open>Decisions\<close>

lemma builtin_plan_nonempty: "deterministic_algorithm_plan env goal = Some raws \<Longrightarrow> raws \<noteq> []"
  "deterministic_calculator_plan goal = Some raws \<Longrightarrow> raws \<noteq> []"
  by (auto simp: deterministic_algorithm_plan_def booth_plan_def booth_steps_def crc32_plan_def gcd_plan_def gcd_steps_def
      quicksort_plan_def deterministic_calculator_plan_def calculator_steps_def Let_def split: if_splits option.splits sum.splits list.splits)

lemma rule_decompose_cases:
  assumes "rule_decompose goal = Some raws"
  obtains ts where "ts \<in> {coding_templates, deployment_templates, analysis_templates}" "raws = map (rule_step goal) ts"
  using assms by (auto simp: rule_decompose_def split: if_splits)

lemma rule_decompose_nonempty: "rule_decompose goal = Some raws \<Longrightarrow> raws \<noteq> []"
  by (erule rule_decompose_cases) (auto simp: coding_templates_def deployment_templates_def analysis_templates_def)

lemma resolve_skill_frame:
  "dc_calls (snd (resolve_skill env goal d)) = dc_calls d" "dc_candidate (snd (resolve_skill env goal d)) = dc_candidate d"
  by (auto simp: resolve_skill_def Let_def split: option.splits sum.splits prod.splits)

lemma retrieve_shots_frame:
  "dc_calls (snd (retrieve_shots env goal d)) = dc_calls d" "dc_candidate (snd (retrieve_shots env goal d)) = dc_candidate d"
  by (auto simp: retrieve_shots_def Let_def split: sum.splits prod.splits)

text \<open>Where an accepted plan came from.\<close>

lemma accepted_from:
  assumes "decide env stream u d = (Inr (Plan sts), e)" "strip u \<noteq> []"
  shows "\<exists>source raws d'. raws \<noteq> [] \<and> accept_plan env source (strip u) raws d' = (Inr (Plan sts), e) \<and>
    (source = ''llm'' \<longrightarrow> missing_method_constraints env (strip u) raws = [])"
proof -
  define goal where "goal = strip u"
  define d0 where "d0 = d\<lparr>dc_source := None, dc_samples := [], dc_candidate := None\<rparr>"
  have "goal \<noteq> []" using assms(2) by (simp add: goal_def)
  consider (builtin) raws where "raws \<noteq> []" "accept_plan env ''builtin_tool'' goal raws d0 = (Inr (Plan sts), e)"
    | (learned) "learned_plan env stream goal (extract_method_constraints env goal) d0 = (Inr (Plan sts), e)"
    using assms(1) \<open>goal \<noteq> []\<close>
    by (auto dest: builtin_plan_nonempty simp: decide_def Let_def goal_def [symmetric] d0_def [symmetric] refuse_def split: if_splits option.splits)
  then have "\<exists>source raws d'. raws \<noteq> [] \<and> accept_plan env source goal raws d' = (Inr (Plan sts), e) \<and>
    (source = ''llm'' \<longrightarrow> missing_method_constraints env goal raws = [])"
  proof cases
    case builtin
    then show ?thesis by (intro exI [of _ "''builtin_tool''"]) auto
  next
    case learned
    then obtain shots d1 out d2 where a: "ask_llm env stream goal shots d1 = (Inr out, d2)"
      and c: "(case out of Refused why notice \<Rightarrow> refuse why notice d2 | Kept raws \<Rightarrow> accept_plan env ''llm'' goal raws d2
        | UseTemplates \<Rightarrow> use_templates env goal (extract_method_constraints env goal) d2) = (Inr (Plan sts), e)"
      unfolding learned_plan_def then_with_Inr by blast
    show ?thesis
    proof (cases out)
      case (Kept raws)
      with a c show ?thesis using ask_llm_kept [of env stream goal shots d1 raws d2] by (intro exI [of _ "''llm''"]) auto
    next
      case UseTemplates
      with c obtain raws where "rule_decompose goal = Some raws" "accept_plan env ''rule'' goal raws d2 = (Inr (Plan sts), e)"
        by (auto simp: use_templates_def refuse_def split: option.splits if_splits)
      then show ?thesis using rule_decompose_nonempty by (intro exI [of _ "''rule''"]) auto
    qed (use c in \<open>simp add: refuse_def\<close>)
  qed
  then show ?thesis by (simp add: goal_def)
qed

text \<open>C18. Every plan the decomposer accepts, from a tool, from the model or from a template, has steps;
  each step has all five texts and none of the descriptions that say nothing; the plan is related
  to the goal and is more than the goal again.\<close>

theorem accepted_plan_sound:
  assumes "decide env stream u d = (Inr (Plan sts), e)" "strip u \<noteq> []"
  shows "plan_checked env (strip u) sts"
proof -
  from accepted_from [OF assms] obtain source raws d' where
    "raws \<noteq> []" "accept_plan env source (strip u) raws d' = (Inr (Plan sts), e)" by blast
  then show ?thesis using accept_plan_cases(1) [of env source "strip u" raws d' sts] by simp
qed

text \<open>C19. A plan of the model keeps every method the goal insists on: the names are in the texts of the
  model's steps, whatever was retried on the way.\<close>

theorem model_plan_keeps_methods:
  assumes "decide env stream u d = (Inr (Plan sts), e)" "strip u \<noteq> []" "dc_source e = Some ''llm''"
  shows "\<exists>raws. plan_steps (me_repr env) (strip u) raws = Inr sts \<and>
    (\<forall>t \<in> set (extract_method_constraints env (strip u)). contains t (raw_steps_text env raws)) \<and>
    \<not> contains_generic_scaffold sts \<and> \<not> detect_echo env (strip u) (raw_goal_text (me_repr env) raws) (plan_step_texts sts)"
proof -
  from accepted_from [OF assms(1,2)] obtain source raws d' where
    a: "raws \<noteq> []" "accept_plan env source (strip u) raws d' = (Inr (Plan sts), e)"
      "source = ''llm'' \<longrightarrow> missing_method_constraints env (strip u) raws = []" by blast
  have f: "fst (accept_plan env source (strip u) raws d') = Inr (Plan sts)" by (simp add: a(2))
  have "source = ''llm''" using accept_plan_cases(3) [OF f a(1)] a(2) assms(3) by simp
  with accept_plan_cases(2,4) [OF f a(1)] a(3) show ?thesis
    by (auto simp: missing_method_constraints_def filter_empty_conv)
qed

text \<open>C20. One goal costs at most two calls of the model, streamed or not, whatever the model answers.\<close>

theorem model_asked_at_most_twice:
  "dc_calls (snd (decide env stream u d)) \<le> dc_calls d + 2"
proof -
  have accept: "dc_calls (snd (accept_plan env source goal raws x)) = dc_calls x" for source goal raws x
    by (rule accept_plan_frame)
  have learned: "dc_calls (snd (learned_plan env stream goal cs x)) \<le> dc_calls x + 2" for goal cs x
    unfolding learned_plan_def
  proof (rule then_with_calls [of _ "dc_calls x"])
    fix y x1
    assume "resolve_skill env goal x = (Inr y, x1)"
    then have x1: "dc_calls x1 = dc_calls x" using resolve_skill_frame(1) [of env goal x] by simp
    show "dc_calls (snd (then_with (retrieve_shots env goal x1) (\<lambda>shots d. then_with (ask_llm env stream goal shots d)
      (\<lambda>out d. case out of Refused why notice \<Rightarrow> refuse why notice d | Kept raws \<Rightarrow> accept_plan env ''llm'' goal raws d
        | UseTemplates \<Rightarrow> use_templates env goal cs d)))) \<le> dc_calls x + 2"
    proof (rule then_with_calls [of _ "dc_calls x"])
      fix shots x2
      assume "retrieve_shots env goal x1 = (Inr shots, x2)"
      then have x2: "dc_calls x2 = dc_calls x" using retrieve_shots_frame(1) [of env goal x1] x1 by simp
      show "dc_calls (snd (then_with (ask_llm env stream goal shots x2)
        (\<lambda>out d. case out of Refused why notice \<Rightarrow> refuse why notice d | Kept raws \<Rightarrow> accept_plan env ''llm'' goal raws d
          | UseTemplates \<Rightarrow> use_templates env goal cs d))) \<le> dc_calls x + 2"
        by (rule then_with_calls [OF ask_llm_calls])
          (use ask_llm_calls [of env stream goal shots x2] x2 in
            \<open>auto simp: refuse_def use_templates_def accept split: llm_outcome.split option.split\<close>)
    qed (simp_all add: retrieve_shots_frame x1)
  qed (simp_all add: resolve_skill_frame)
  show ?thesis
    using learned [of "strip u" _ "d\<lparr>dc_source := None, dc_samples := [], dc_candidate := None\<rparr>"]
    by (auto simp: decide_def Let_def refuse_def accept split: option.split)
qed


section \<open>Templates\<close>

lemma contains_iff: "contains p s \<longleftrightarrow> (\<exists>u v. s = u @ p @ v)"
proof (induction p s rule: contains.induct)
  case (2 p x xs)
  have "take (length p) (x # xs) = p \<longleftrightarrow> (\<exists>v. x # xs = p @ v)"
    by (metis append_eq_conv_conj append_take_drop_id)
  moreover have "(\<exists>u v. x # xs = u @ p @ v) \<longleftrightarrow> (\<exists>v. x # xs = p @ v) \<or> (\<exists>u v. xs = u @ p @ v)"
    by (metis append_Cons append_Nil append_eq_Cons_conv)
  ultimately show ?case using 2 by simp
qed simp

lemma contains_append: "contains p s \<Longrightarrow> contains p (t @ s)" "contains p s \<Longrightarrow> contains p (s @ t)"
  by (auto simp: contains_iff) (metis append.assoc)+

lemma contains_at: "x \<notin> set p \<Longrightarrow> p \<noteq> [] \<Longrightarrow> contains p (a @ x # b) \<longleftrightarrow> contains p a \<or> contains p b"
proof
  assume x: "x \<notin> set p" "p \<noteq> []"
  { assume "contains p (a @ x # b)"
    then obtain u v where uv: "a @ x # b = u @ p @ v" by (auto simp: contains_iff)
    then consider us where "a = u @ us" "us @ x # b = p @ v" | us where "u = a @ us" "x # b = us @ p @ v"
      by (auto simp: append_eq_append_conv2)
    then show "contains p a \<or> contains p b"
    proof cases
      case 1
      then consider vs where "us = p @ vs" "vs @ x # b = v" | vs where "us @ vs = p" "x # b = vs @ v"
        by (auto simp: append_eq_append_conv2)
      then show ?thesis
      proof cases
        case 2
        with x 1 show ?thesis
          by (cases vs) (auto simp: contains_iff, metis append_Nil2)
      qed (auto simp: 1 contains_iff)
    next
      case 2
      then show ?thesis using x by (cases us) (auto simp: contains_iff Cons_eq_append_conv)
    qed }
  assume "contains p a \<or> contains p b"
  then show "contains p (a @ x # b)" using contains_append [of p a "x # b"] contains_append [of p b "a @ [x]"] by auto
qed

lemma contains_skip: "p \<noteq> [] \<Longrightarrow> x \<noteq> hd p \<Longrightarrow> contains p (x # xs) \<longleftrightarrow> contains p xs"
  by (cases p) auto

text \<open>A search that looks at the first byte only, to evaluate.\<close>

fun contains_byte :: "char \<Rightarrow> string \<Rightarrow> string \<Rightarrow> bool" where
  "contains_byte c cs [] = False"
| "contains_byte c cs (x # xs) = ((if x = c then take (length cs) xs = cs else False) \<or> contains_byte c cs xs)"

lemma contains_byte: "contains (c # cs) xs = contains_byte c cs xs"
  by (induction xs) auto

lemma contains_code [code]: "contains p s = (case p of [] \<Rightarrow> True | c # cs \<Rightarrow> contains_byte c cs s)"
proof (cases p)
  case Nil
  then show ?thesis by (cases s) simp_all
qed (simp add: contains_byte)

definition open_quote :: string where
  "open_quote = [CHR 0xE3, CHR 0x80, CHR 0x8C]"

definition meta_free :: "string \<Rightarrow> bool" where
  "meta_free s \<longleftrightarrow> list_all (\<lambda>p. \<not> contains p (lower s)) META_PATTERNS"

definition template_ok :: "rule_template \<Rightarrow> bool" where
  "template_ok t \<longleftrightarrow> list_all (\<lambda>s. strip s \<noteq> []) [rt_title t, rt_expected t, rt_verification t, rt_criteria t] \<and>
     drop (length (rt_before t) - 3) (rt_before t) = open_quote \<and> meta_free (rt_title t @ newline @ take (length (rt_before t) - 3) (rt_before t)) \<and>
     rt_after t \<noteq> [] \<and> hd (rt_after t) = CHR 0xE3 \<and> meta_free (tl (rt_after t)) \<and> rt_stage t \<noteq> [] \<and> rt_risk t \<noteq> []"

text \<open>The dependencies name earlier steps.\<close>

definition deps_earlier :: "nat \<times> rule_template \<Rightarrow> bool" where
  "deps_earlier = (\<lambda>(i, t). list_all (\<lambda>k. 0 \<le> k \<and> k < int i) (rt_deps t))"

lemma templates_ok: "list_all template_ok coding_templates" "list_all template_ok deployment_templates" "list_all template_ok analysis_templates"
  by code_simp+

lemma templates_deps:
  "list_all deps_earlier (enumerate 0 coding_templates)" "list_all deps_earlier (enumerate 0 deployment_templates)"
  "list_all deps_earlier (enumerate 0 analysis_templates)"
  by code_simp+

lemma templates_some: "coding_templates \<noteq> []" "deployment_templates \<noteq> []" "analysis_templates \<noteq> []"
  by (simp_all add: coding_templates_def deployment_templates_def analysis_templates_def)

lemma meta_patterns_shape: "list_all (\<lambda>p. p \<noteq> [] \<and> CHR 0xE3 \<notin> set p \<and> hd p \<noteq> CHR 0x80 \<and> hd p \<noteq> CHR 0x8C) META_PATTERNS"
  by code_simp

lemma strip_Nil_iff: "strip s = [] \<longleftrightarrow> list_all is_space s"
proof (cases "dropWhile is_space s")
  case Nil
  then have "list_all is_space s" by (simp only: dropWhile_eq_Nil_conv list_all_iff)
  moreover have "strip s = []" by (simp only: strip_def Nil rev.simps dropWhile.simps)
  ultimately show ?thesis by simp
next
  case (Cons x xs)
  then have x: "\<not> is_space x" using hd_dropWhile [of is_space s] by simp
  moreover have "x \<in> set s" using set_dropWhileD [of x is_space s] Cons by simp
  ultimately have "\<not> list_all is_space s" by (auto simp: list_all_iff)
  moreover have "strip s \<noteq> []" using x unfolding strip_def Cons rev_is_Nil_conv dropWhile_eq_Nil_conv by simp
  ultimately show ?thesis by simp
qed

lemma lower_append: "lower (s @ t) = lower s @ lower t"
  by (simp add: lower_def)

lemma template_parts:
  assumes "template_ok t"
  obtains b a where "rt_before t = b @ open_quote" "rt_after t = CHR 0xE3 # a" "meta_free (rt_title t @ newline @ b)" "meta_free a"
proof -
  have "rt_before t = take (length (rt_before t) - 3) (rt_before t) @ open_quote"
    using assms append_take_drop_id [of "length (rt_before t) - 3" "rt_before t"] by (simp add: template_ok_def)
  moreover have "rt_after t = CHR 0xE3 # tl (rt_after t)" using assms by (cases "rt_after t") (simp_all add: template_ok_def)
  ultimately show ?thesis using assms that by (simp add: template_ok_def)
qed

text \<open>A template says nothing exactly if the goal in its description does.\<close>

lemma template_meta:
  assumes "template_ok t" "p \<in> set META_PATTERNS"
  shows "contains p (lower (rt_title t @ newline @ rt_before t @ goal @ rt_after t)) \<longleftrightarrow> contains p (lower goal)"
proof -
  from assms(1) obtain b a where t: "rt_before t = b @ open_quote" "rt_after t = CHR 0xE3 # a"
    "meta_free (rt_title t @ newline @ b)" "meta_free a" by (rule template_parts)
  have p: "p \<noteq> []" "CHR 0xE3 \<notin> set p" "CHR 0x80 \<noteq> hd p" "CHR 0x8C \<noteq> hd p"
    using meta_patterns_shape assms(2) by (auto simp: list_all_iff)
  have q: "lower open_quote = [CHR 0xE3, CHR 0x80, CHR 0x8C]" "lower (CHR 0xE3 # a) = CHR 0xE3 # lower a"
    by (simp_all add: open_quote_def lower_def lower_char_def)
  have "\<not> contains p (lower (rt_title t @ newline @ b))" "\<not> contains p (lower a)"
    using t(3,4) assms(2) by (simp_all add: meta_free_def list_all_iff)
  moreover have "lower (rt_title t @ newline @ rt_before t @ goal @ rt_after t) =
      lower (rt_title t @ newline @ b) @ CHR 0xE3 # CHR 0x80 # CHR 0x8C # lower goal @ CHR 0xE3 # lower a"
    using q by (simp add: t(1,2) lower_append)
  ultimately show ?thesis
    by (simp add: contains_at p contains_skip del: contains.simps)
qed

lemma meta_pattern_find: "meta_pattern_in (rule_step goal t) = None \<longleftrightarrow> meta_free goal" if "template_ok t"
  using template_meta [OF that] by (auto simp: meta_pattern_in_def find_None_iff meta_free_def list_all_iff raw_text_def rule_step_def
      pget_def dget_or_def)

lemma template_fields: "template_ok t \<Longrightarrow> find (field_missing (rule_step goal t)) REQUIRED_FIELDS = None"
proof -
  assume t: "template_ok t"
  have "\<not> list_all is_space (rt_before t @ goal @ rt_after t)"
    using t by (cases "rt_after t") (auto simp: template_ok_def is_space_def)
  then have "strip (rt_before t @ goal @ rt_after t) \<noteq> []" unfolding strip_Nil_iff .
  with t show ?thesis
    by (auto simp: find_None_iff REQUIRED_FIELDS_def field_missing_def rule_step_def pget_def dget_or_def template_ok_def)
qed

definition step_name :: "nat \<Rightarrow> string" where
  "step_name i = ''step_'' @ nat_str i"

lemma template_step:
  assumes "template_ok t" "meta_free goal" "deps_earlier (i, t)"
  shows "\<exists>st. raw_to_plan_step rp (rule_step goal t) goal i = Inr st \<and> step_id st = step_name i \<and>
    depends_on st = map (\<lambda>k. step_name (nat k)) (rt_deps t)"
proof -
  have "validate_raw_step (rule_step goal t) i = Inr ()"
    using template_fields [OF assms(1)] meta_pattern_find [OF assms(1), of goal] assms(2) by (simp add: validate_raw_step_def)
  moreover have "pget (rule_step goal t) ''step_id'' = PNone" "dget_or (rule_step goal t) ''files'' (PList []) = PList []"
    "dget_or (rule_step goal t) ''depends_on'' v = v" "dget_or (rule_step goal t) ''deps'' (PList []) = PList (map PInt (rt_deps t))" for v
    by (simp_all add: rule_step_def pget_def dget_or_def)
  moreover have "List.map_filter (dependency_name rp) (map PInt ks) = map (\<lambda>k. ''step_'' @ int_str k) ks" for ks
    by (induction ks) (simp_all add: dependency_name_def py_str_def)
  moreover have "map (\<lambda>k. ''step_'' @ int_str k) (rt_deps t) = map (\<lambda>k. step_name (nat k)) (rt_deps t)"
    using assms(3) by (auto simp: deps_earlier_def list_all_iff step_name_def int_str_def)
  ultimately have "normalize_raw_dependencies rp (rule_step goal t) = Inr (map (\<lambda>k. step_name (nat k)) (rt_deps t))"
    by (cases "rt_deps t = []") (simp_all only: normalize_raw_dependencies_def Let_def truthy.simps pyval.case py_conversions and_then_simps
      list.map map_is_Nil_conv not_False_eq_True if_True if_False simp_thms map_filter_simps)
  with \<open>validate_raw_step (rule_step goal t) i = Inr ()\<close> \<open>pget (rule_step goal t) ''step_id'' = PNone\<close>
    \<open>dget_or (rule_step goal t) ''files'' (PList []) = PList []\<close> show ?thesis
    by (simp add: raw_to_plan_step_def Let_def raw_files_def meta_text_def step_name_def)
qed

lemma nat_str_inj: "nat_str i = nat_str j \<longleftrightarrow> i = j"
  by (metis parse_nat_str option.inject)

lemma step_name_inj [simp]: "step_name i = step_name j \<longleftrightarrow> i = j"
  by (simp add: step_name_def nat_str_inj)

lemma chain_valid:
  assumes "\<And>i. i < length sts \<Longrightarrow> step_id (sts ! i) = step_name i"
    and "\<And>i d. i < length sts \<Longrightarrow> d \<in> set (depends_on (sts ! i)) \<Longrightarrow> \<exists>j < i. d = step_name j"
  shows "validate_dag (step_map_of sts) = Inr ()"
proof -
  have ids: "map step_id sts = map step_name [0..<length sts]" using assms(1) by (intro nth_equalityI) simp_all
  have "distinct (map step_id sts)" unfolding ids by (simp add: distinct_map inj_on_def)
  then have m: "step_map_of sts = map (\<lambda>st. (step_id st, st)) sts" unfolding step_map_of_def by (intro dict_of_distinct) (simp add: comp_def)
  have keys: "set (dkeys (step_map_of sts)) = step_name ` {0..<length sts}"
    unfolding m using arg_cong [OF ids, of set] by (simp add: comp_def)
  have edge: "\<exists>i j. k = step_name i \<and> d = step_name j \<and> j < i \<and> i < length sts" if "(k, d) \<in> dep_edges (step_map_of sts)" for k d
  proof -
    from that obtain st where "(k, st) \<in> set (step_map_of sts)" and d: "d \<in> set (depends_on st)" by (auto simp: dep_edges_def dest: map_of_SomeD)
    then obtain i where "i < length sts" "st = sts ! i" "k = step_id st" unfolding m by (auto simp: in_set_conv_nth)
    with assms d show ?thesis by blast
  qed
  have "deps_present (step_map_of sts)"
    unfolding deps_present_def keys using edge by fastforce
  moreover have "acyclic (dep_edges (step_map_of sts))"
  proof (rule acyclic_subset)
    show "dep_edges (step_map_of sts) \<subseteq> inv_image {(i, j). j < i} (\<lambda>k. THE i. k = step_name i)"
      using edge by (fastforce simp: inv_image_def)
    have "wf ((inv_image {(i, j). j < i} (\<lambda>k. THE i. k = step_name i))\<inverse>)"
      using wf_inv_image [OF wf_less, of "\<lambda>k. THE i. k = step_name i"] by (simp add: converse_def inv_image_def)
    then show "acyclic (inv_image {(i, j). j < i} (\<lambda>k. THE i :: nat. k = step_name i))"
      using wf_acyclic acyclic_converse by blast
  qed
  ultimately show ?thesis by (simp add: validate_dag_iff)
qed

lemma traverse_nth: "traverse f xs = Inr ys \<Longrightarrow> i < length xs \<Longrightarrow> f (xs ! i) = Inr (ys ! i)"
  by (induction xs arbitrary: ys i) (auto simp: and_then_Inr_iff less_Suc_eq_0_disj)

lemma traverse_exists: "(\<And>x. x \<in> set xs \<Longrightarrow> \<exists>y. f x = Inr y) \<Longrightarrow> \<exists>ys. traverse f xs = Inr ys"
  by (induction xs) (auto simp: and_then_Inr_iff)

lemma template_list_valid:
  assumes "list_all template_ok ts" "list_all deps_earlier (enumerate 0 ts)" "meta_free goal"
  shows "\<exists>sts. plan_steps rp goal (map (rule_step goal) ts) = Inr sts \<and> validate_dag (step_map_of sts) = Inr ()"
proof -
  have step: "\<exists>st. raw_to_plan_step rp (rule_step goal (ts ! i)) goal i = Inr st \<and> step_id st = step_name i \<and>
    depends_on st = map (\<lambda>k. step_name (nat k)) (rt_deps (ts ! i))" and earlier: "deps_earlier (i, ts ! i)" if "i < length ts" for i
  proof -
    from that have "(i, ts ! i) \<in> set (enumerate 0 ts)" by (simp add: in_set_enumerate_eq)
    with assms(2) show "deps_earlier (i, ts ! i)" by (auto simp: list_all_iff)
    with that assms show "\<exists>st. raw_to_plan_step rp (rule_step goal (ts ! i)) goal i = Inr st \<and> step_id st = step_name i \<and>
      depends_on st = map (\<lambda>k. step_name (nat k)) (rt_deps (ts ! i))"
      by (intro template_step) (auto simp: list_all_length)
  qed
  let ?f = "\<lambda>(idx, raw). raw_to_plan_step rp raw goal idx" and ?xs = "enumerate 0 (map (rule_step goal) ts)"
  have "\<exists>sts. traverse ?f ?xs = Inr sts"
  proof (rule traverse_exists)
    fix x
    assume "x \<in> set ?xs"
    then obtain i where i: "i < length ts" "x = (i, rule_step goal (ts ! i))" by (auto simp: in_set_enumerate_eq)
    from step [OF i(1)] i(2) show "\<exists>y. ?f x = Inr y" by auto
  qed
  then obtain sts where sts: "traverse ?f ?xs = Inr sts" by blast
  have len: "length sts = length ts" using length_traverse [OF sts] by simp
  have nth: "raw_to_plan_step rp (rule_step goal (ts ! i)) goal i = Inr (sts ! i)" if "i < length ts" for i
    using traverse_nth [OF sts, of i] that by (simp add: nth_enumerate_eq)
  have "validate_dag (step_map_of sts) = Inr ()"
  proof (rule chain_valid)
    fix i
    assume "i < length sts"
    with step [of i] nth [of i] len show "step_id (sts ! i) = step_name i" by auto
  next
    fix i d
    assume i: "i < length sts" and d: "d \<in> set (depends_on (sts ! i))"
    with step [of i] nth [of i] len obtain k where k: "k \<in> set (rt_deps (ts ! i))" "d = step_name (nat k)" by auto
    with earlier [of i] i len have "nat k < i" by (auto simp: deps_earlier_def list_all_iff)
    with k(2) show "\<exists>j < i. d = step_name j" by blast
  qed
  with sts show ?thesis by (auto simp: plan_steps_def)
qed

lemma template_list_refused:
  assumes "list_all template_ok ts" "ts \<noteq> []" "\<not> meta_free goal"
  shows "isl (plan_steps rp goal (map (rule_step goal) ts))"
proof -
  obtain t us where ts: "ts = t # us" "template_ok t" using assms(1,2) by (cases ts) auto
  then obtain p where "meta_pattern_in (rule_step goal t) = Some p" using meta_pattern_find [OF ts(2), of goal] assms(3) by auto
  then have "isl (raw_to_plan_step rp (rule_step goal t) goal 0)"
    using template_fields [OF ts(2), of goal] by (simp add: raw_to_plan_step_def validate_raw_step_def)
  then show ?thesis by (simp add: plan_steps_def ts(1) and_then_isl)
qed

text \<open>C21. For a goal that matches a template, the template makes a plan whose dependencies are there and have no
  cycle, unless the goal itself contains one of the phrases that are forbidden in descriptions:
  it is quoted in every description, and then the conversion raises.\<close>

theorem template_plans_valid:
  assumes "rule_decompose goal = Some raws"
  shows "if meta_free goal then \<exists>sts. plan_steps rp goal raws = Inr sts \<and> validate_dag (step_map_of sts) = Inr ()
    else isl (plan_steps rp goal raws)"
proof -
  from rule_decompose_cases [OF assms] obtain ts where ts: "raws = map (rule_step goal) ts"
    "ts \<in> {coding_templates, deployment_templates, analysis_templates}" by auto
  then have ok: "list_all template_ok ts" "list_all deps_earlier (enumerate 0 ts)" "ts \<noteq> []"
    using templates_ok templates_deps templates_some by auto
  show ?thesis
  proof (cases "meta_free goal")
    case True
    then show ?thesis using template_list_valid [OF ok(1,2)] by (simp add: ts(1))
  next
    case False
    then show ?thesis using template_list_refused [OF ok(1,3)] by (simp add: ts(1))
  qed
qed

section \<open>A model that sorts notes\<close>

definition notes_step :: "pyval dict" where
  "notes_step = [(''title'', PStr ''Read notes''), (''description'', PStr ''Order notes by date, then merge''),
     (''expected_output'', PStr ''list''), (''verification'', PStr ''dates rise''), (''completion_criteria'', PStr ''all in order'')]"

definition notes_env :: decomposer_env where
  "notes_env = \<lparr>me_clock = of_nat, me_iso = (\<lambda>_. []), me_repr = (\<lambda>_. []), se_hash = (\<lambda>t _. t),
     re_fts = (\<lambda>_ _. None), re_root = (\<lambda>x. x), re_exp = (\<lambda>_. 1), re_token_digest = (\<lambda>_. 3), re_goal_digest = (\<lambda>t. t),
     de_llm = Some (Blocking (\<lambda>_ _. Inr ''[]'')), de_json = (\<lambda>_. Some (PList [PDict notes_step])), de_skill = None, de_learning = None,
     de_retriever = False, de_lifecycle = False, de_low = 0, de_high = 1, de_methods = [''merge''], de_algorithms = [], de_triggers = [],
     de_punct = (\<lambda>_. False)\<rparr>"

definition notes_decomposer :: decomposer where
  "notes_decomposer = \<lparr>dc_skill = None, dc_stages = [], dc_source = None, dc_samples = [], dc_candidate = None,
     dc_library = \<lparr>db_chunks = [], db_next = 1, db_ticks = 0, sw_events = []\<rparr>, dc_calls = 0, dc_log = []\<rparr>"

text \<open>The word for using, the method, and the notes.\<close>

definition notes_goal :: string where
  "notes_goal = [CHR 0xE7, CHR 0x94, CHR 0xA8] @ '' merge: notes''"

definition notes_plan :: "plan_step list" where
  "notes_plan = projr (plan_steps (me_repr notes_env) notes_goal [notes_step])"

lemma notes_gates:
  "normalize_non_task_input notes_env notes_goal \<notin> set NON_TASK_INPUTS" "\<not> is_explanation_request notes_env notes_goal"
  "extract_method_constraints notes_env notes_goal = [''merge'']" "deterministic_algorithm_plan notes_env notes_goal = None"
  "deterministic_calculator_plan notes_goal = None" "strip notes_goal = notes_goal"
  by code_simp+

lemma notes_some: "strip notes_goal \<noteq> []" "notes_goal \<noteq> []"
  by code_simp+

lemma notes_plan: "plan_steps (me_repr notes_env) notes_goal [notes_step] = Inr notes_plan"
proof -
  have "\<not> isl (plan_steps (me_repr notes_env) notes_goal [notes_step])" by code_simp
  then show ?thesis unfolding notes_plan_def by simp
qed

lemma notes_checks:
  "\<not> contains_generic_scaffold notes_plan"
  "\<not> detect_echo notes_env notes_goal (raw_goal_text (me_repr notes_env) [notes_step]) (plan_step_texts notes_plan)"
  "\<not> step_relevance notes_env notes_goal notes_plan < MIN_STEP_RELEVANCE"
  "\<not> zero_value notes_env notes_goal notes_plan"
  by code_simp+

lemma notes_answer: "read_llm_answer notes_env [] ''[]'' = LlmSteps [notes_step]"
  by code_simp

lemma notes_methods: "missing_method_constraints notes_env notes_goal [notes_step] = []"
  "\<not> has_unavailable_algorithm [''merge''] (normalize_keyword_map notes_env [])"
  by code_simp+

lemma notes_asked: "fst (decide notes_env False notes_goal notes_decomposer) = Inr (Plan notes_plan)"
  "dc_source (snd (decide notes_env False notes_goal notes_decomposer)) = Some ''llm''"
proof -
  have env: "de_skill notes_env = None" "de_learning notes_env = None" "\<not> de_retriever notes_env" "\<not> de_lifecycle notes_env"
    "de_llm notes_env = Some (Blocking (\<lambda>_ _. Inr ''[]''))" "de_algorithms notes_env = []"
    by (simp_all add: notes_env_def)
  note defs = decide_def Let_def learned_plan_def resolve_skill_def retrieve_shots_def learning_enabled_def ask_llm_def first_attempt_def
    decompose_with_llm_def call_llm_backend_def keep_methods_def accept_plan_def log_events_def
  show "fst (decide notes_env False notes_goal notes_decomposer) = Inr (Plan notes_plan)"
    "dc_source (snd (decide notes_env False notes_goal notes_decomposer)) = Some ''llm''"
    by (simp_all add: defs env notes_gates notes_answer notes_plan notes_checks notes_methods notes_some keep_candidate_def notes_decomposer_def)
qed

theorem accepted_plan_sound_witness: "plan_checked notes_env notes_goal notes_plan"
  using accepted_plan_sound [of notes_env False "notes_goal" notes_decomposer notes_plan] notes_asked(1) notes_gates(6)
  by (metis notes_some(1) prod.collapse)

theorem model_plan_keeps_methods_witness:
  "\<exists>raws. plan_steps (me_repr notes_env) notes_goal raws = Inr notes_plan \<and> contains ''merge'' (raw_steps_text notes_env raws)"
proof -
  from model_plan_keeps_methods [of notes_env False "notes_goal" notes_decomposer notes_plan, OF _ notes_some(1) notes_asked(2)]
  show ?thesis by (simp add: notes_asked(1) [symmetric] notes_gates) blast
qed


definition code_goal :: string where
  "code_goal = [CHR 0xE5, CHR 0x86, CHR 0x99] @ '' code''"

theorem template_plans_valid_witness:
  "\<exists>sts. plan_steps (me_repr notes_env) code_goal (map (rule_step code_goal) coding_templates) = Inr sts \<and> validate_dag (step_map_of sts) = Inr ()"
proof -
  have "rule_decompose code_goal = Some (map (rule_step code_goal) coding_templates)"
  proof -
    have "contains_any coding_keywords code_goal" by code_simp
    then show ?thesis by (simp add: rule_decompose_def)
  qed
  moreover have "meta_free code_goal" by code_simp
  ultimately show ?thesis using template_plans_valid [of code_goal _ "me_repr notes_env"] by fastforce
qed

section \<open>What slips through\<close>

text \<open>A plan of a tool leaves the skill of the goal before.\<close>

lemma builtin_plan_keeps_skill:
  assumes "deterministic_algorithm_plan env (strip u) \<noteq> None" "strip u \<noteq> []"
  shows "dc_skill (snd (decide env stream u d)) = dc_skill d" "dc_stages (snd (decide env stream u d)) = dc_stages d"
  using assms by (auto simp: decide_def Let_def refuse_def accept_plan_frame)

text \<open>The checks of the answer do not look at the files; a number there raises in the conversion.\<close>

lemma number_of_files_escapes:
  "llm_step_ok (me_repr notes_env) (notes_step @ [(''files'', PInt 3)])"
  "\<exists>e. fst (accept_plan env ''llm'' goal [notes_step @ [(''files'', PInt 3)]] d) = Inl e \<and> exn_kind e = TypeError"
proof -
  show "llm_step_ok (me_repr notes_env) (notes_step @ [(''files'', PInt 3)])" by code_simp
  have "validate_raw_step (notes_step @ [(''files'', PInt 3)]) 0 = Inr ()" by code_simp
  then show "\<exists>e. fst (accept_plan env ''llm'' goal [notes_step @ [(''files'', PInt 3)]] d) = Inl e \<and> exn_kind e = TypeError"
    by (simp add: accept_plan_def plan_steps_def raw_to_plan_step_def raw_files_def notes_step_def dget_or_def py_iter_def)
qed

end
