(* ===== verification/Json_Store.thy ===== *)
theory Json_Store
  imports Py_Values
begin

text \<open>
  The store of JSON files (\<open>storage/json_state_store.py\<close>): loads with recovery from backups, saves
  with a rotation of backups and an atomic replacement.

  A disk is the dictionary of its files, by their path below the data directory. Every access to a
  file may raise \<open>OSError\<close>: \<open>je_fault\<close> says which, by the number of the access. \<open>je_loads\<close> is the decoding
  of the bytes followed by \<open>json.loads\<close>, \<open>None\<close> for its errors, which are value errors. The clock and
  the random names are those of the number of the access.
\<close>

section \<open>Disks\<close>

record json_env =
  je_loads :: "string \<Rightarrow> pyval option"
  je_dumps :: "pyval \<Rightarrow> exn + string"
  je_fault :: "nat \<Rightarrow> bool"
  je_uuid :: "nat \<Rightarrow> string"
  je_time_ns :: "nat \<Rightarrow> nat"
  je_max_backups :: int

record disk =
  dk_files :: "string dict"
  dk_ops :: nat

definition os_error :: exn where
  "os_error = Exn (AppError ''OSError'') []"

definition file_op :: "json_env \<Rightarrow> (string dict \<Rightarrow> exn + string dict) \<Rightarrow> disk \<Rightarrow> (exn + unit) \<times> disk" where
  "file_op env f d =
    (let d' = d\<lparr>dk_ops := Suc (dk_ops d)\<rparr>
     in if je_fault env (dk_ops d) then (Inl os_error, d')
        else (case f (dk_files d) of Inl e \<Rightarrow> (Inl e, d') | Inr fs \<Rightarrow> (Inr (), d'\<lparr>dk_files := fs\<rparr>)))"

definition read_file :: "json_env \<Rightarrow> string \<Rightarrow> disk \<Rightarrow> (exn + string) \<times> disk" where
  "read_file env path d =
    (let d' = d\<lparr>dk_ops := Suc (dk_ops d)\<rparr>
     in if je_fault env (dk_ops d) then (Inl os_error, d')
        else (case dget (dk_files d) path of None \<Rightarrow> (Inl os_error, d') | Some t \<Rightarrow> (Inr t, d')))"

definition write_file :: "json_env \<Rightarrow> string \<Rightarrow> string \<Rightarrow> disk \<Rightarrow> (exn + unit) \<times> disk" where
  "write_file env path t = file_op env (\<lambda>fs. Inr (dset fs path t))"

definition unlink :: "json_env \<Rightarrow> string \<Rightarrow> disk \<Rightarrow> (exn + unit) \<times> disk" where
  "unlink env path = file_op env (\<lambda>fs. Inr (dpop fs path))"

text \<open>\<open>os.replace\<close>\<close>

definition replace_file :: "json_env \<Rightarrow> string \<Rightarrow> string \<Rightarrow> disk \<Rightarrow> (exn + unit) \<times> disk" where
  "replace_file env source target = file_op env (\<lambda>fs. case dget fs source of
     None \<Rightarrow> Inl os_error
   | Some t \<Rightarrow> Inr (dset (dpop fs source) target t))"

section \<open>Reading and writing\<close>

text \<open>\<open>isinstance(value, type(default))\<close>: a truth value is an \<open>int\<close>.\<close>

definition same_type :: "pyval \<Rightarrow> pyval \<Rightarrow> bool" where
  "same_type default_value v = (case default_value of
     PNone \<Rightarrow> v = PNone
   | PBool _ \<Rightarrow> (case v of PBool _ \<Rightarrow> True | _ \<Rightarrow> False)
   | PInt _ \<Rightarrow> (case v of PBool _ \<Rightarrow> True | PInt _ \<Rightarrow> True | _ \<Rightarrow> False)
   | PFloat _ \<Rightarrow> (case v of PFloat _ \<Rightarrow> True | _ \<Rightarrow> False)
   | PStr _ \<Rightarrow> (case v of PStr _ \<Rightarrow> True | _ \<Rightarrow> False)
   | PList _ \<Rightarrow> (case v of PList _ \<Rightarrow> True | _ \<Rightarrow> False)
   | PDict _ \<Rightarrow> is_dict v)"

definition read_valid_json :: "json_env \<Rightarrow> string \<Rightarrow> pyval \<Rightarrow> disk \<Rightarrow> (exn + pyval) \<times> disk" where
  "read_valid_json env path default_value d =
    try_then (read_file env path d) (\<lambda>t d. case je_loads env t of
       None \<Rightarrow> (Inl (Exn ValueError ''JSON''), d)
     | Some v \<Rightarrow> if default_value \<noteq> PNone \<and> \<not> same_type default_value v then (Inl (Exn ValueError path), d) else (Inr v, d))"

text \<open>The temporary file is in the directory of its target; whatever raises after its creation, it is unlinked.\<close>

definition temporary_name :: "json_env \<Rightarrow> string \<Rightarrow> disk \<Rightarrow> string" where
  "temporary_name env path d = path @ ''.'' @ je_uuid env (dk_ops d) @ ''.tmp''"

definition fill_and_replace :: "json_env \<Rightarrow> string \<Rightarrow> string \<Rightarrow> pyval \<Rightarrow> disk \<Rightarrow> (exn + unit) \<times> disk" where
  "fill_and_replace env tmp path v d = (case je_dumps env v of
     Inl e \<Rightarrow> (Inl e, d)
   | Inr t \<Rightarrow> try_then (write_file env tmp t d) (\<lambda>_ d. replace_file env tmp path d))"

definition atomic_write :: "json_env \<Rightarrow> string \<Rightarrow> pyval \<Rightarrow> disk \<Rightarrow> (exn + unit) \<times> disk" where
  "atomic_write env path v d =
    (let tmp = temporary_name env path d
     in try_then (write_file env tmp [] d) (\<lambda>_ d. case fill_and_replace env tmp path v d of
          (Inr _, d) \<Rightarrow> (Inr (), d)
        | (Inl e, d) \<Rightarrow> try_then (unlink env tmp d) (\<lambda>_ d. (Inl e, d))))"

section \<open>Backups\<close>

definition backup_prefix :: "string \<Rightarrow> string" where
  "backup_prefix path = ''backups/'' @ path @ ''.bak.''"

definition backup_paths :: "string \<Rightarrow> disk \<Rightarrow> string list" where
  "backup_paths path d = sort (filter (starts_with (backup_prefix path)) (dkeys (dk_files d)))"

definition backup_order_of :: "string \<Rightarrow> string \<Rightarrow> nat option" where
  "backup_order_of path b = (let raw = takeWhile (\<lambda>c. c \<noteq> CHR ''-'') (drop (length (backup_prefix path)) b)
     in if isdigit raw then parse_nat raw else None)"

definition next_backup_order :: "json_env \<Rightarrow> string \<Rightarrow> string list \<Rightarrow> disk \<Rightarrow> nat" where
  "next_backup_order env path backups d =
    max (je_time_ns env (dk_ops d)) (fold max (List.map_filter (backup_order_of path) backups) 0 + 1)"

fun drop_oldest :: "json_env \<Rightarrow> nat \<Rightarrow> string list \<Rightarrow> disk \<Rightarrow> (exn + unit) \<times> disk" where
  "drop_oldest env keep [] d = (Inr (), d)"
| "drop_oldest env keep (b # bs) d =
    (if keep \<le> length (b # bs) then try_then (unlink env b d) (\<lambda>_ d. drop_oldest env keep bs d) else (Inr (), d))"

definition max_backups :: "json_env \<Rightarrow> nat" where
  "max_backups env = nat (max 1 (je_max_backups env))"

definition backup_name :: "json_env \<Rightarrow> string \<Rightarrow> nat \<Rightarrow> disk \<Rightarrow> string" where
  "backup_name env path k d = backup_prefix path @ nat_str k @ ''-'' @ je_uuid env (dk_ops d)"

definition rotate_backup :: "json_env \<Rightarrow> string \<Rightarrow> pyval \<Rightarrow> disk \<Rightarrow> (exn + unit) \<times> disk" where
  "rotate_backup env path v d =
    (let backups = backup_paths path d; k = next_backup_order env path backups d
     in try_then (drop_oldest env (max_backups env) backups d) (\<lambda>_ d. atomic_write env (backup_name env path k d) v d))"

section \<open>The store\<close>

definition caught_json :: "exn \<Rightarrow> bool" where
  "caught_json e \<longleftrightarrow> is_value_kind (exn_kind e) \<or> exn_kind e = AppError ''OSError''"

definition save_json :: "json_env \<Rightarrow> string \<Rightarrow> pyval \<Rightarrow> disk \<Rightarrow> (exn + unit) \<times> disk" where
  "save_json env path v d =
    (if path \<in> set (dkeys (dk_files d))
     then (case read_valid_json env path v d of
         (Inl e, d) \<Rightarrow> if caught_json e then atomic_write env path v d else (Inl e, d)
       | (Inr current, d) \<Rightarrow> try_then (rotate_backup env path current d) (\<lambda>_ d. atomic_write env path v d))
     else atomic_write env path v d)"

record json_load =
  jl_value :: pyval
  jl_repaired :: bool
  jl_corrupt :: bool
  jl_backup :: "string option"

fun load_from_backups :: "json_env \<Rightarrow> string \<Rightarrow> pyval \<Rightarrow> string list \<Rightarrow> disk \<Rightarrow> (exn + json_load) \<times> disk" where
  "load_from_backups env path default_value [] d =
    (Inr \<lparr>jl_value = default_value, jl_repaired = False, jl_corrupt = True, jl_backup = None\<rparr>, d)"
| "load_from_backups env path default_value (b # bs) d = (case read_valid_json env b default_value d of
     (Inl e, d) \<Rightarrow> if caught_json e then load_from_backups env path default_value bs d else (Inl e, d)
   | (Inr v, d) \<Rightarrow> try_then (atomic_write env path v d) (\<lambda>_ d.
       (Inr \<lparr>jl_value = v, jl_repaired = True, jl_corrupt = True, jl_backup = Some b\<rparr>, d)))"

definition load_json_result :: "json_env \<Rightarrow> string \<Rightarrow> pyval \<Rightarrow> disk \<Rightarrow> (exn + json_load) \<times> disk" where
  "load_json_result env path default_value d =
    (if path \<notin> set (dkeys (dk_files d))
     then (Inr \<lparr>jl_value = default_value, jl_repaired = False, jl_corrupt = False, jl_backup = None\<rparr>, d)
     else (case read_valid_json env path default_value d of
         (Inl e, d) \<Rightarrow> if caught_json e then load_from_backups env path default_value (rev (backup_paths path d)) d else (Inl e, d)
       | (Inr v, d) \<Rightarrow> (Inr \<lparr>jl_value = v, jl_repaired = False, jl_corrupt = False, jl_backup = None\<rparr>, d)))"

definition load_json :: "json_env \<Rightarrow> string \<Rightarrow> pyval \<Rightarrow> disk \<Rightarrow> (exn + pyval) \<times> disk" where
  "load_json env path default_value d =
    try_then (load_json_result env path default_value d) (\<lambda>r d. (Inr (jl_value r), d))"

fun check_integrity :: "json_env \<Rightarrow> string list \<Rightarrow> disk \<Rightarrow> (exn + string list) \<times> disk" where
  "check_integrity env [] d = (Inr [], d)"
| "check_integrity env (p # ps) d =
    try_then (load_json_result env p (PDict []) d) (\<lambda>r d.
      try_then (check_integrity env ps d) (\<lambda>names d. (Inr (if jl_repaired r then p # names else names), d)))"

definition state_files :: "string list" where
  "state_files = [''settings.json'', ''cloud_models.json'', ''improve_plan.json'', ''auth.json'', ''extension_state.json'']"

definition check_state_integrity :: "json_env \<Rightarrow> disk \<Rightarrow> (exn + string list) \<times> disk" where
  "check_state_integrity env = check_integrity env state_files"

end
