(* ===== verification/Settings_Store.thy ===== *)
theory Settings_Store
  imports Json_Store
begin

text \<open>
  The settings of the desktop (\<open>storage/settings_store.py\<close>), version 2: a dictionary of modules, kept in
  \<open>settings.json\<close> by the store of JSON files, together with the flat names of version 1. A flat
  patch goes through the migration from version 1.
\<close>

section \<open>Names and defaults\<close>

definition SETTINGS_MODULES :: "string list" where
  "SETTINGS_MODULES = [''appearance'', ''window'', ''model'', ''privacy'', ''behavior'', ''session'', ''memory'']"

definition default_accent :: pyval where
  "default_accent = PDict [(''color'', PStr ''#3b82f6''), (''hover'', PStr ''#2563eb''), (''soft'', PStr ''#dbeafe''),
     (''name'', PStr [CHR 0xE9, CHR 0xBB, CHR 0x98, CHR 0xE8, CHR 0xAE, CHR 0xA4, CHR 0xE8, CHR 0x93, CHR 0x9D])]"

definition default_bounds :: "pyval dict" where
  "default_bounds = [(''x'', PInt 100), (''y'', PInt 100), (''width'', PInt 1080), (''height'', PInt 720), (''maximized'', PBool False)]"

definition default_onboarding :: pyval where
  "default_onboarding = PDict [(''completed'', PBool False), (''step'', PInt 0), (''skipped_model'', PBool False)]"

definition DEFAULT_SETTINGS :: "pyval dict" where
  "DEFAULT_SETTINGS = [
     (''schema_version'', PInt 2),
     (''appearance'', PDict [(''theme'', PStr ''light''), (''accent'', default_accent), (''corner_radius'', PInt 12), (''sidebar_width'', PInt 56)]),
     (''window'', PDict [(''bounds'', PDict default_bounds)]),
     (''model'', PDict [(''active_persona_id'', PNone), (''auto_router_enabled'', PBool False), (''local_model_id'', PNone), (''cloud_model_id'', PNone)]),
     (''privacy'', PDict [(''privacy_mode'', PStr ''LOCAL_ONLY'')]),
     (''behavior'', PDict [(''improve_plan_enabled'', PBool False), (''decomp_learning_enabled'', PBool True),
        (''idle_think_enabled'', PBool True), (''desktop_notification_enabled'', PBool True), (''close_to_tray'', PBool True),
        (''memory_enabled'', PBool True), (''idle_threshold_seconds'', PInt 300), (''focus_mode_enabled'', PBool False)]),
     (''session'', PDict [(''active_session_id'', PNone), (''last_view'', PStr ''chat'')]),
     (''memory'', PDict [(''extraction_interval'', PInt 10), (''recall_top_k'', PInt 5), (''decay_half_life_days'', PInt 30)]),
     (''onboarding'', default_onboarding)]"

text \<open>The keys of \<open>LEGACY_DEFAULT_SETTINGS\<close>.\<close>

definition LEGACY_DISK_KEYS :: "string list" where
  "LEGACY_DISK_KEYS = [''theme'', ''last_view'', ''privacy_mode'', ''window_bounds'', ''shell_custom'', ''custom_appearance'',
     ''improve_plan_enabled'', ''decomp_learning_enabled'', ''auto_router_enabled'', ''active_model_id'', ''active_persona_id'',
     ''close_to_tray'', ''memory_enabled'', ''idle_think_enabled'', ''idle_threshold_seconds'', ''focus_mode_enabled'']"

definition settings_path :: string where
  "settings_path = ''settings.json''"

definition v1_backup_path :: string where
  "v1_backup_path = ''settings.v1.bak.json''"

section \<open>Merging\<close>

fun deep_merge :: "pyval dict \<Rightarrow> pyval dict \<Rightarrow> pyval dict" where
  "deep_merge base [] = base"
| "deep_merge base ((k, v) # ps) =
    deep_merge (dset base k (case v of
        PDict p \<Rightarrow> (case dget base k of Some (PDict b) \<Rightarrow> PDict (deep_merge b p) | _ \<Rightarrow> v)
      | _ \<Rightarrow> v)) ps"

definition is_number :: "pyval \<Rightarrow> bool" where
  "is_number v = (case v of PBool _ \<Rightarrow> True | PInt _ \<Rightarrow> True | PFloat _ \<Rightarrow> True | _ \<Rightarrow> False)"

definition type_refused :: "pyval \<Rightarrow> pyval \<Rightarrow> bool" where
  "type_refused expected v = (case expected of
     PBool _ \<Rightarrow> (case v of PBool _ \<Rightarrow> False | _ \<Rightarrow> True)
   | PInt _ \<Rightarrow> \<not> is_number v
   | PFloat _ \<Rightarrow> \<not> is_number v
   | PStr _ \<Rightarrow> (case v of PStr _ \<Rightarrow> False | _ \<Rightarrow> True)
   | _ \<Rightarrow> False)"

definition invalid_type :: "string \<Rightarrow> exn" where
  "invalid_type k = Exn TypeError (''invalid type for settings field: '' @ k)"

fun known_patch :: "pyval dict \<Rightarrow> pyval dict \<Rightarrow> exn + pyval dict" where
  "known_patch current [] = Inr []"
| "known_patch current ((k, v) # ps) = (case dget current k of
     None \<Rightarrow> known_patch current ps
   | Some e \<Rightarrow> and_then (case v of
         PDict p \<Rightarrow> (case e of
             PDict c \<Rightarrow> and_then (known_patch c p) (\<lambda>r. Inr (PDict r))
           | _ \<Rightarrow> if type_refused e v then Inl (invalid_type k) else Inr v)
       | _ \<Rightarrow> if type_refused e v then Inl (invalid_type k) else Inr v)
       (\<lambda>w. and_then (known_patch current ps) (\<lambda>r. Inr ((k, w) # r))))"

section \<open>From version 1\<close>

definition pdict_or_empty :: "pyval \<Rightarrow> pyval dict" where
  "pdict_or_empty v = (case v of PDict d \<Rightarrow> d | _ \<Rightarrow> [])"

definition or_default :: "pyval \<Rightarrow> pyval \<Rightarrow> pyval" where
  "or_default v w = (if truthy v then v else w)"

definition upper_char :: "char \<Rightarrow> char" where
  "upper_char c = (let n = (of_char c :: nat) in if 97 \<le> n \<and> n \<le> 122 then char_of (n - 32) else c)"

definition v1_patch :: "(pyval \<Rightarrow> string) \<Rightarrow> pyval dict \<Rightarrow> pyval dict" where
  "v1_patch rp raw =
    (let custom = pdict_or_empty (pget raw ''shell_custom'');
         bounds = (case pget raw ''window_bounds'' of PDict d \<Rightarrow> PDict d | _ \<Rightarrow> PDict default_bounds)
     in [(''appearance'', PDict [(''theme'', dget_or raw ''theme'' (PStr ''light'')),
            (''accent'', or_default (pget custom ''accent'') default_accent), (''corner_radius'', or_default (pget custom ''radius'') (PInt 12)),
            (''sidebar_width'', dget_or custom ''sidebar_width'' (dget_or custom ''sidebarWidth'' (PInt 56)))]),
         (''window'', PDict [(''bounds'', bounds)]),
         (''model'', PDict [(''active_persona_id'', pget raw ''active_persona_id''),
            (''auto_router_enabled'', dget_or raw ''auto_router_enabled'' (PBool False)), (''local_model_id'', pget raw ''active_model_id'')]),
         (''privacy'', PDict [(''privacy_mode'', PStr (map upper_char (py_str rp (dget_or raw ''privacy_mode'' (PStr ''LOCAL_ONLY'')))))]),
         (''behavior'', PDict [(''improve_plan_enabled'', dget_or raw ''improve_plan_enabled'' (PBool False)),
            (''decomp_learning_enabled'', dget_or raw ''decomp_learning_enabled'' (PBool True)),
            (''idle_think_enabled'', dget_or raw ''idle_think_enabled'' (PBool True)),
            (''desktop_notification_enabled'', dget_or raw ''desktop_notification_enabled'' (PBool True)),
            (''close_to_tray'', dget_or raw ''close_to_tray'' (PBool True)), (''memory_enabled'', dget_or raw ''memory_enabled'' (PBool True)),
            (''idle_threshold_seconds'', dget_or raw ''idle_threshold_seconds'' (PInt 300)),
            (''focus_mode_enabled'', dget_or raw ''focus_mode_enabled'' (PBool False))]),
         (''session'', PDict [(''active_session_id'', pget raw ''active_session_id''), (''last_view'', dget_or raw ''last_view'' (PStr ''chat''))]),
         (''onboarding'', dget_or raw ''onboarding'' default_onboarding),
         (''memory'', dget_or raw ''memory'' (PDict []))])"

definition migrate_v1_to_v2 :: "(pyval \<Rightarrow> string) \<Rightarrow> pyval dict \<Rightarrow> pyval dict" where
  "migrate_v1_to_v2 rp raw = deep_merge DEFAULT_SETTINGS (v1_patch rp raw)"

section \<open>To the flat names\<close>

definition setting :: "pyval dict \<Rightarrow> string \<Rightarrow> string \<Rightarrow> exn + pyval" where
  "setting s m k = (case dget s m of
     None \<Rightarrow> Inl (Exn KeyError m)
   | Some (PDict d) \<Rightarrow> (case dget d k of None \<Rightarrow> Inl (Exn KeyError k) | Some v \<Rightarrow> Inr v)
   | Some _ \<Rightarrow> Inl (Exn TypeError m))"

definition get_setting :: "pyval dict \<Rightarrow> string \<Rightarrow> string \<Rightarrow> exn + pyval" where
  "get_setting s m k = (case dget s m of
     None \<Rightarrow> Inl (Exn KeyError m)
   | Some (PDict d) \<Rightarrow> Inr (pget d k)
   | Some _ \<Rightarrow> Inl (Exn (AppError ''AttributeError'') m))"

text \<open>Equality with the default bounds, where numbers and truth values are compared by value.\<close>

definition number_value :: "pyval \<Rightarrow> pyfloat option" where
  "number_value v = (case v of PBool b \<Rightarrow> Some (if b then 1 else 0) | PInt i \<Rightarrow> Some (of_int i) | PFloat q \<Rightarrow> Some q | _ \<Rightarrow> None)"

definition is_default_bounds :: "pyval \<Rightarrow> bool" where
  "is_default_bounds v = (case v of
     PDict d \<Rightarrow> set (dkeys d) = set (dkeys default_bounds) \<and> list_all (\<lambda>(k, w). number_value (pget d k) = number_value w) default_bounds
   | _ \<Rightarrow> False)"

definition dict_update :: "pyval dict \<Rightarrow> pyval dict \<Rightarrow> pyval dict" where
  "dict_update d items = fold (\<lambda>(k, v) d. dset d k v) items d"

text \<open>The flat names and where their values are; the expressions raise in this order.\<close>

definition alias_values :: "(pyval \<Rightarrow> string) \<Rightarrow> pyval dict \<Rightarrow> exn + pyval dict" where
  "alias_values rp s =
    traverse (\<lambda>(k, f). and_then f (\<lambda>v. Inr (k, v)))
     [(''theme'', setting s ''appearance'' ''theme''),
      (''last_view'', setting s ''session'' ''last_view''),
      (''privacy_mode'', and_then (setting s ''privacy'' ''privacy_mode'') (\<lambda>v. Inr (PStr (lower (py_str rp v))))),
      (''improve_plan_enabled'', setting s ''behavior'' ''improve_plan_enabled''),
      (''decomp_learning_enabled'', setting s ''behavior'' ''decomp_learning_enabled''),
      (''auto_router_enabled'', setting s ''model'' ''auto_router_enabled''),
      (''active_persona_id'', setting s ''model'' ''active_persona_id''),
      (''active_model_id'', get_setting s ''model'' ''local_model_id''),
      (''active_session_id'', setting s ''session'' ''active_session_id''),
      (''window_bounds'', and_then (setting s ''window'' ''bounds'') (\<lambda>v. Inr (if is_default_bounds v then PNone else v))),
      (''shell_custom'', Inr (PDict [(''accent'', PNone), (''radius'', PNone), (''sidebarWidth'', PNone), (''font'', PNone)])),
      (''custom_appearance'', Inr (PDict [])),
      (''close_to_tray'', setting s ''behavior'' ''close_to_tray''),
      (''memory_enabled'', setting s ''behavior'' ''memory_enabled''),
      (''idle_think_enabled'', setting s ''behavior'' ''idle_think_enabled''),
      (''idle_threshold_seconds'', setting s ''behavior'' ''idle_threshold_seconds''),
      (''focus_mode_enabled'', setting s ''behavior'' ''focus_mode_enabled'')]"

definition legacy_aliases :: "(pyval \<Rightarrow> string) \<Rightarrow> pyval dict \<Rightarrow> exn + pyval dict" where
  "legacy_aliases rp s = and_then (alias_values rp s) (\<lambda>items. Inr (dict_update s items))"

section \<open>Operations\<close>

record settings_env =
  se_json :: json_env
  se_repr :: "pyval \<Rightarrow> string"
  se_time :: "nat \<Rightarrow> pyfloat"

definition save_disk :: "settings_env \<Rightarrow> string \<Rightarrow> pyval dict \<Rightarrow> disk \<Rightarrow> (exn + unit) \<times> disk" where
  "save_disk env path s = save_json (se_json env) path (PDict s)"

definition save_payload :: "settings_env \<Rightarrow> pyval dict \<Rightarrow> disk \<Rightarrow> (exn + pyval dict) \<times> disk" where
  "save_payload env s d = (case legacy_aliases (se_repr env) s of
     Inl e \<Rightarrow> (Inl e, d)
   | Inr r \<Rightarrow> try_then (save_disk env settings_path r d) (\<lambda>_ d. (Inr r, d)))"

definition is_version_2 :: "pyval dict \<Rightarrow> bool" where
  "is_version_2 s = (case pget s ''schema_version'' of PInt i \<Rightarrow> i = 2 | PFloat q \<Rightarrow> q = 2 | _ \<Rightarrow> False)"

definition keep_version_1 :: "settings_env \<Rightarrow> pyval dict \<Rightarrow> disk \<Rightarrow> (exn + unit) \<times> disk" where
  "keep_version_1 env raw d =
    (if raw \<noteq> [] \<and> v1_backup_path \<notin> set (dkeys (dk_files d)) then save_disk env v1_backup_path raw d else (Inr (), d))"

definition canonical_settings :: "settings_env \<Rightarrow> bool \<Rightarrow> disk \<Rightarrow> (exn + pyval dict) \<times> disk" where
  "canonical_settings env persist_missing d =
    try_then (load_json (se_json env) settings_path (PDict []) d) (\<lambda>v d.
      let raw = pdict_or_empty v in
      if \<not> is_version_2 raw then
        if raw = [] \<and> settings_path \<notin> set (dkeys (dk_files d)) \<and> \<not> persist_missing then (Inr DEFAULT_SETTINGS, d)
        else try_then (keep_version_1 env raw d) (\<lambda>_ d.
          let migrated = migrate_v1_to_v2 (se_repr env) raw
          in try_then (save_payload env migrated d) (\<lambda>_ d. (Inr migrated, d)))
      else (Inr (fold (\<lambda>k s. dpop s k) LEGACY_DISK_KEYS (deep_merge DEFAULT_SETTINGS raw)), d))"

definition get_all :: "settings_env \<Rightarrow> disk \<Rightarrow> (exn + pyval dict) \<times> disk" where
  "get_all env = canonical_settings env True"

definition get_module :: "settings_env \<Rightarrow> string \<Rightarrow> disk \<Rightarrow> (exn + pyval dict option) \<times> disk" where
  "get_module env m d = try_then (canonical_settings env True d) (\<lambda>s d.
     (Inr (case dget s m of Some (PDict v) \<Rightarrow> Some v | _ \<Rightarrow> None), d))"

text \<open>What a patch makes of a module; a module that is no dictionary is left by a patch that names nothing in it.\<close>

definition patched_module :: "pyval \<Rightarrow> pyval dict \<Rightarrow> exn + pyval" where
  "patched_module m patch = (case m of
     PDict c \<Rightarrow> and_then (known_patch c patch) (\<lambda>p. Inr (PDict (deep_merge c p)))
   | PStr t \<Rightarrow> if list_ex (\<lambda>k. contains k t) (dkeys patch) then Inl (Exn TypeError []) else Inr m
   | PList xs \<Rightarrow> if list_ex (\<lambda>k. PStr k \<in> set xs) (dkeys patch) then Inl (Exn TypeError []) else Inr m
   | _ \<Rightarrow> if patch = [] then Inr m else Inl (Exn TypeError []))"

definition patch_module :: "settings_env \<Rightarrow> string \<Rightarrow> pyval \<Rightarrow> disk \<Rightarrow> (exn + pyval) \<times> disk" where
  "patch_module env m patch d =
    (if m \<notin> set SETTINGS_MODULES then (Inl (Exn KeyError m), d)
     else (case patch of
       PDict p \<Rightarrow> try_then (canonical_settings env True d) (\<lambda>s d. case dget s m of
           None \<Rightarrow> (Inl (Exn KeyError m), d)
         | Some c \<Rightarrow> (case patched_module c p of
             Inl e \<Rightarrow> (Inl e, d)
           | Inr v \<Rightarrow> try_then (save_payload env (dset (dset s m v) ''updated_at'' (PFloat (se_time env (dk_ops d)))) d) (\<lambda>_ d. (Inr v, d))))
     | _ \<Rightarrow> (Inl (Exn TypeError ''settings patch must be an object''), d)))"

definition load_settings :: "settings_env \<Rightarrow> disk \<Rightarrow> (exn + pyval dict) \<times> disk" where
  "load_settings env d = try_then (canonical_settings env False d) (\<lambda>s d. (legacy_aliases (se_repr env) s, d))"

definition save_settings :: "settings_env \<Rightarrow> pyval dict \<Rightarrow> disk \<Rightarrow> (exn + pyval dict) \<times> disk" where
  "save_settings env s d =
    (let payload = deep_merge DEFAULT_SETTINGS (if is_version_2 s then s else migrate_v1_to_v2 (se_repr env) s)
     in save_payload env (dset payload ''updated_at'' (PFloat (se_time env (dk_ops d)))) d)"

definition update_settings :: "settings_env \<Rightarrow> pyval dict \<Rightarrow> disk \<Rightarrow> (exn + pyval dict) \<times> disk" where
  "update_settings env patch d =
    try_then (canonical_settings env True d) (\<lambda>s d.
      if list_ex (\<lambda>k. k \<in> set SETTINGS_MODULES) (dkeys patch) then save_settings env (deep_merge s patch) d
      else (case legacy_aliases (se_repr env) s of
          Inl e \<Rightarrow> (Inl e, d)
        | Inr current \<Rightarrow> save_settings env (migrate_v1_to_v2 (se_repr env) (dict_update current patch)) d))"

end
