(* ===== verification/Json_Safety.thy ===== *)
theory Json_Safety
  imports Json_Store
begin

text \<open>
  What the store of JSON files guarantees: a save is all or nothing, whatever access fails or the process
  stops at; what was saved is loaded; a damaged file is replaced by the version before.
  A process that stops at an access is one where this access and all later ones fail.
\<close>

section \<open>Single accesses\<close>

lemma file_op_cases:
  "file_op env f d = (r, d') \<Longrightarrow> (\<exists>e. r = Inl e \<and> dk_files d' = dk_files d) \<or> (r = Inr () \<and> f (dk_files d) = Inr (dk_files d'))"
  by (auto simp: file_op_def Let_def split: if_splits sum.splits)

lemma file_op_quiet: "\<not> je_fault env (dk_ops d) \<Longrightarrow> f (dk_files d) = Inr fs \<Longrightarrow>
  file_op env f d = (Inr (), d\<lparr>dk_ops := Suc (dk_ops d), dk_files := fs\<rparr>)"
  by (simp add: file_op_def)

lemma read_file_frame [simp]: "dk_files (snd (read_file env p d)) = dk_files d"
  by (auto simp: read_file_def Let_def split: option.split)

lemma read_valid_frame [simp]: "dk_files (snd (read_valid_json env p v d)) = dk_files d"
proof -
  have "dk_files (snd (read_file env p d)) = dk_files d" by simp
  then show ?thesis
    by (cases "read_file env p d"; cases "fst (read_file env p d)") (auto simp: read_valid_json_def split: option.split)
qed

lemma read_valid_files: "read_valid_json env p v d = (r, d') \<Longrightarrow> dk_files d' = dk_files d"
  using read_valid_frame [of env p v d] by simp

lemma read_valid_loads: "read_valid_json env p v d = (Inr c, d') \<Longrightarrow> \<exists>u. je_loads env u = Some c"
  by (auto simp: read_valid_json_def try_then_Inr split: option.splits if_splits)

section \<open>Atomic writes\<close>

lemma temporary_longer: "length p < length (temporary_name env p d)"
  by (simp add: temporary_name_def)

lemma temporary_neq [simp]: "temporary_name env p d \<noteq> p" "p \<noteq> temporary_name env p d"
  using temporary_longer [of p env d] by auto

lemma backup_longer: "starts_with (backup_prefix p) b \<Longrightarrow> length p < length b"
  by (auto simp: starts_with_def backup_prefix_def dest: arg_cong [of _ _ length])

text \<open>A write is all or nothing, and touches nothing but its target and its temporary file.\<close>

definition all_or_nothing :: "json_env \<Rightarrow> string \<Rightarrow> pyval \<Rightarrow> string \<Rightarrow> string dict \<Rightarrow> exn + unit \<Rightarrow> string dict \<Rightarrow> bool" where
  "all_or_nothing env p v tmp fs r fs' \<longleftrightarrow> (\<forall>q. q \<noteq> tmp \<longrightarrow> q \<noteq> p \<longrightarrow> dget fs' q = dget fs q) \<and>
    (case r of Inl e \<Rightarrow> dget fs' p = dget fs p
     | Inr _ \<Rightarrow> (\<exists>t. je_dumps env v = Inr t \<and> dget fs' p = Some t) \<and> dget fs' tmp = None)"

lemma fill_and_replace_outcome:
  assumes "fill_and_replace env tmp p v d = (r, d')" "tmp \<noteq> p"
  shows "all_or_nothing env p v tmp (dk_files d) r (dk_files d')"
proof (cases "je_dumps env v")
  case (Inl e)
  with assms show ?thesis by (auto simp: fill_and_replace_def all_or_nothing_def)
next
  case (Inr t)
  obtain r1 d1 where w: "write_file env tmp t d = (r1, d1)" by fastforce
  from file_op_cases [OF w [unfolded write_file_def]] show ?thesis
  proof (elim disjE exE conjE)
    fix e
    assume "r1 = Inl e" "dk_files d1 = dk_files d"
    with assms Inr w show ?thesis by (auto simp: fill_and_replace_def all_or_nothing_def)
  next
    assume r1: "r1 = Inr ()" and f1: "Inr (dset (dk_files d) tmp t) = (Inr (dk_files d1) :: exn + string dict)"
    with assms Inr w have rep: "replace_file env tmp p d1 = (r, d')" by (simp add: fill_and_replace_def)
    from f1 have f1': "dk_files d1 = dset (dk_files d) tmp t" by simp
    from file_op_cases [OF rep [unfolded replace_file_def]] show ?thesis
    proof (elim disjE exE conjE)
      assume "r = Inr ()" and f2: "(case dget (dk_files d1) tmp of None \<Rightarrow> Inl os_error
        | Some t \<Rightarrow> Inr (dset (dpop (dk_files d1) tmp) p t)) = Inr (dk_files d')"
      moreover from f2 f1' have "dk_files d' = dset (dpop (dk_files d1) tmp) p t" by simp
      ultimately show ?thesis using f1' assms(2) Inr by (simp add: all_or_nothing_def)
    qed (use f1' assms(2) in \<open>auto simp: all_or_nothing_def\<close>)
  qed
qed

lemma atomic_write_outcome:
  assumes "atomic_write env p v d = (r, d')"
  shows "all_or_nothing env p v (temporary_name env p d) (dk_files d) r (dk_files d')"
proof -
  let ?tmp = "temporary_name env p d"
  obtain r1 d1 where w: "write_file env ?tmp [] d = (r1, d1)" by fastforce
  from file_op_cases [OF w [unfolded write_file_def]] show ?thesis
  proof (elim disjE exE conjE)
    fix e
    assume "r1 = Inl e" "dk_files d1 = dk_files d"
    with assms w show ?thesis by (auto simp: atomic_write_def Let_def all_or_nothing_def)
  next
    assume r1: "r1 = Inr ()" and "Inr (dset (dk_files d) ?tmp []) = (Inr (dk_files d1) :: exn + string dict)"
    then have f1: "dk_files d1 = dset (dk_files d) ?tmp []" by simp
    obtain r2 d2 where f: "fill_and_replace env ?tmp p v d1 = (r2, d2)" by fastforce
    note out = fill_and_replace_outcome [OF f temporary_neq(1)]
    show ?thesis
    proof (cases r2)
      case (Inr u)
      with assms w r1 f have "r = Inr ()" "d' = d2" by (simp_all add: atomic_write_def Let_def)
      with out Inr f1 show ?thesis by (auto simp: all_or_nothing_def)
    next
      case (Inl e)
      obtain r3 d3 where u: "unlink env ?tmp d2 = (r3, d3)" by fastforce
      with assms w r1 f Inl have d': "d' = d3" and r: "\<exists>e. r = Inl e"
        by (cases r3; auto simp: atomic_write_def Let_def)+
      have "dk_files d3 = dk_files d2 \<or> dk_files d3 = dpop (dk_files d2) ?tmp"
        using file_op_cases [OF u [unfolded unlink_def]] by auto
      with d' r out Inl f1 show ?thesis by (auto simp: all_or_nothing_def)
    qed
  qed
qed

section \<open>Saves\<close>

lemma drop_oldest_keeps:
  "drop_oldest env n bs d = (r, d') \<Longrightarrow> q \<notin> set bs \<Longrightarrow> dget (dk_files d') q = dget (dk_files d) q"
proof (induction env n bs d arbitrary: r d' rule: drop_oldest.induct)
  case (2 env n b bs d)
  obtain r1 d1 where u: "unlink env b d = (r1, d1)" by fastforce
  have "dk_files d1 = dk_files d \<or> dk_files d1 = dpop (dk_files d) b" using file_op_cases [OF u [unfolded unlink_def]] by auto
  with 2 u show ?case by (cases r1) (auto split: if_splits)
qed simp

lemma backup_paths_longer: "b \<in> set (backup_paths p d) \<Longrightarrow> length p < length b"
  by (auto simp: backup_paths_def dest: backup_longer)

lemma backup_name_longer: "length p < length (backup_name env p k d)"
  by (simp add: backup_name_def backup_prefix_def)

lemma rotate_keeps_file:
  assumes "rotate_backup env p v d = (r, d')"
  shows "dget (dk_files d') p = dget (dk_files d) p"
proof -
  obtain r1 d1 where drop: "drop_oldest env (max_backups env) (backup_paths p d) d = (r1, d1)" by fastforce
  have p: "dget (dk_files d1) p = dget (dk_files d) p"
    using drop_oldest_keeps [OF drop, of p] backup_paths_longer [of p p d] by blast
  show ?thesis
  proof (cases r1)
    case (Inl e)
    with assms drop p show ?thesis by (auto simp: rotate_backup_def Let_def)
  next
    case (Inr u)
    let ?b = "backup_name env p (next_backup_order env p (backup_paths p d) d) d1"
    from assms drop Inr have w: "atomic_write env ?b v d1 = (r, d')" by (simp add: rotate_backup_def Let_def)
    have "p \<noteq> temporary_name env ?b d1" "p \<noteq> ?b"
      using temporary_longer [of ?b env d1] backup_name_longer [of p env "next_backup_order env p (backup_paths p d) d" d1] by auto
    with atomic_write_outcome [OF w] p show ?thesis by (simp add: all_or_nothing_def)
  qed
qed

lemma save_outcome:
  "case save_json env p v d of
     (Inl e, d') \<Rightarrow> dget (dk_files d') p = dget (dk_files d) p
   | (Inr u, d') \<Rightarrow> \<exists>t. je_dumps env v = Inr t \<and> dget (dk_files d') p = Some t"
proof -
  have written: "case atomic_write env p v x of (Inl e, d') \<Rightarrow> dget (dk_files d') p = dget (dk_files x) p
     | (Inr u, d') \<Rightarrow> \<exists>t. je_dumps env v = Inr t \<and> dget (dk_files d') p = Some t" for x
    using atomic_write_outcome [of env p v x] by (auto simp: all_or_nothing_def split: prod.split sum.split)
  show ?thesis
  proof (cases "p \<in> set (dkeys (dk_files d))")
    case True
    obtain r d1 where read: "read_valid_json env p v d = (r, d1)" by fastforce
    then have f1: "dk_files d1 = dk_files d" by (rule read_valid_files)
    show ?thesis
    proof (cases r)
      case (Inl e)
      with True read f1 written [of d1] show ?thesis by (auto simp: save_json_def split: sum.split)
    next
      case (Inr current)
      obtain r2 d2 where rot: "rotate_backup env p current d1 = (r2, d2)" by fastforce
      from rotate_keeps_file [OF rot] f1 have f2: "dget (dk_files d2) p = dget (dk_files d) p" by simp
      with True read Inr rot written [of d2] show ?thesis by (cases r2) (auto simp: save_json_def split: sum.split)
    qed
  qed (use written [of d] in \<open>simp add: save_json_def\<close>)
qed

text \<open>C33. A save is all or nothing: whichever accesses to files fail, the file holds what it held before if the
  save raised, and the new value, in full, if it returned.\<close>

theorem save_is_atomic:
  "case save_json env p v d of
     (Inl e, d') \<Rightarrow> dget (dk_files d') p = dget (dk_files d) p
   | (Inr u, d') \<Rightarrow> \<exists>t. je_dumps env v = Inr t \<and> dget (dk_files d') p = Some t"
  by (rule save_outcome)

text \<open>What a save that returned has written is what a later load finds.\<close>

theorem saved_value_reads_back:
  assumes "fst (save_json env p v d) = Inr ()"
    and "\<And>v t. je_dumps env v = Inr t \<Longrightarrow> je_loads env t = Some v"
    and "w = PNone \<or> same_type w v" "\<not> je_fault env (dk_ops (snd (save_json env p v d)))"
  shows "fst (load_json env p w (snd (save_json env p v d))) = Inr v"
proof -
  obtain d' where s: "save_json env p v d = (Inr (), d')" using assms(1) by (cases "save_json env p v d") auto
  then obtain t where t: "je_dumps env v = Inr t" "dget (dk_files d') p = Some t" using save_outcome [where env = env and p = p and v = v and d = d] by auto
  then have "p \<in> set (dkeys (dk_files d'))" using dget_Some_iff [of "dk_files d'" p] by blast
  with t assms(2) [OF t(1)] assms(3,4) s show ?thesis
    by (auto simp: load_json_def load_json_result_def read_valid_json_def read_file_def)
qed

section \<open>The order of backups\<close>








section \<open>Recovery\<close>

definition no_faults :: "json_env \<Rightarrow> bool" where
  "no_faults env \<longleftrightarrow> (\<forall>n. \<not> je_fault env n)"

lemma atomic_write_quiet: "no_faults env \<Longrightarrow> je_dumps env v = Inr t \<Longrightarrow> fst (atomic_write env p v d) = Inr ()"
  by (simp add: no_faults_def atomic_write_def Let_def fill_and_replace_def write_file_def replace_file_def file_op_def)

lemma atomic_write_done:
  assumes "atomic_write env p v d = (Inr (), d')" "je_dumps env v = Inr t"
  shows "dget (dk_files d') p = Some t"
    "q \<noteq> p \<Longrightarrow> dget (dk_files d') q \<noteq> None \<Longrightarrow> dget (dk_files d') q = dget (dk_files d) q"
    "q \<noteq> p \<Longrightarrow> q \<noteq> temporary_name env p d \<Longrightarrow> dget (dk_files d') q = dget (dk_files d) q"
  using atomic_write_outcome [OF assms(1)] assms(2)
  by (cases "q = temporary_name env p d"; auto simp: all_or_nothing_def)+

lemma drop_oldest_quiet: "no_faults env \<Longrightarrow> fst (drop_oldest env n bs d) = Inr ()"
  by (induction env n bs d rule: drop_oldest.induct) (auto simp: no_faults_def unlink_def file_op_def)

lemma drop_oldest_files:
  "no_faults env \<Longrightarrow> 0 < n \<Longrightarrow> dget (dk_files (snd (drop_oldest env n bs d))) q =
    (if q \<in> set (take (Suc (length bs) - n) bs) then None else dget (dk_files d) q)"
proof (induction env n bs d rule: drop_oldest.induct)
  case (2 env n b bs d)
  then show ?case by (auto simp: no_faults_def unlink_def file_op_def Suc_diff_le)
qed simp

text \<open>Names of files without a directory, so that a temporary file is no backup.\<close>

definition names_ok :: "json_env \<Rightarrow> string \<Rightarrow> bool" where
  "names_ok env p \<longleftrightarrow> CHR ''/'' \<notin> set p \<and> (\<forall>n. CHR ''/'' \<notin> set (je_uuid env n))"

lemma temporary_no_backup: "names_ok env p \<Longrightarrow> \<not> starts_with (backup_prefix p) (temporary_name env p d)"
proof
  assume ok: "names_ok env p" and "starts_with (backup_prefix p) (temporary_name env p d)"
  then have "take (length (backup_prefix p)) (temporary_name env p d) = backup_prefix p" by (simp add: starts_with_def)
  then have "set (backup_prefix p) \<subseteq> set (temporary_name env p d)" using set_take_subset by metis
  moreover have "CHR ''/'' \<in> set (backup_prefix p)" by (simp add: backup_prefix_def)
  ultimately show False using ok by (auto simp: temporary_name_def names_ok_def)
qed

lemma backup_paths_set: "set (backup_paths p d) = {b. dget (dk_files d) b \<noteq> None \<and> starts_with (backup_prefix p) b}"
  by (auto simp: backup_paths_def dget_None_iff image_iff)

text \<open>What a save that finds a current value leaves: the new backup, and of the old ones the last.\<close>

lemma rotation_leaves:
  assumes "no_faults env" "names_ok env p" "je_dumps env c = Inr s" "je_dumps env v = Inr t"
    and "p \<in> set (dkeys (dk_files d))" "read_valid_json env p v d = (Inr c, d1)"
  defines "d' \<equiv> snd (save_json env p v d)"
  shows "\<exists>n. dget (dk_files d') n = Some s \<and> (\<exists>x. n = backup_name env p (next_backup_order env p (backup_paths p d) d1) x) \<and>
    set (backup_paths p d') \<subseteq> insert n (set (drop (Suc (length (backup_paths p d)) - max_backups env) (backup_paths p d))) \<and>
    n \<in> set (backup_paths p d')"
proof -
  let ?bs = "backup_paths p d" and ?k = "next_backup_order env p (backup_paths p d) d1" and ?m = "max_backups env"
  have m: "0 < ?m" by (simp add: max_backups_def)
  have f1: "dk_files d1 = dk_files d" by (rule read_valid_files [OF assms(6)])
  then have bs: "backup_paths p d1 = ?bs" by (simp add: backup_paths_def)
  obtain d2 where d2: "drop_oldest env ?m ?bs d1 = (Inr (), d2)"
    using drop_oldest_quiet [OF assms(1), of ?m ?bs d1] by (cases "drop_oldest env ?m ?bs d1") auto
  let ?n = "backup_name env p ?k d2"
  obtain d3 where d3: "atomic_write env ?n c d2 = (Inr (), d3)"
    using atomic_write_quiet [OF assms(1,3), of ?n d2] by (cases "atomic_write env ?n c d2") auto
  have "rotate_backup env p c d1 = (Inr (), d3)" using d2 d3 by (simp add: rotate_backup_def bs Let_def)
  with assms(5,6) have "d' = snd (atomic_write env p v d3)" by (simp add: d'_def save_json_def)
  then have d': "atomic_write env p v d3 = (Inr (), d')"
    using atomic_write_quiet [OF assms(1,4), of p d3] by (cases "atomic_write env p v d3") auto
  have n: "starts_with (backup_prefix p) ?n" by (simp add: backup_name_def starts_with_def)
  have neq: "?n \<noteq> p" "?n \<noteq> temporary_name env p d3" using backup_longer [OF n] n temporary_no_backup [OF assms(2)] by auto
  note 3 = atomic_write_done [OF d3 assms(3)] and 4 = atomic_write_done [OF d' assms(4)]
  have new: "dget (dk_files d') ?n = Some s" using 4(3) [OF neq] 3(1) by simp
  have "b \<in> set (drop (Suc (length ?bs) - ?m) ?bs)" if "b \<in> set (backup_paths p d')" "b \<noteq> ?n" for b
  proof -
    from that have b: "dget (dk_files d') b \<noteq> None" "starts_with (backup_prefix p) b" by (simp_all add: backup_paths_set)
    moreover have "b \<noteq> p" using backup_longer [OF b(2)] by auto
    ultimately have "dget (dk_files d2) b \<noteq> None" using 3(2) [OF that(2)] 4(2) [of b] by simp
    then have "b \<notin> set (take (Suc (length ?bs) - ?m) ?bs)" "dget (dk_files d1) b \<noteq> None"
      using drop_oldest_files [OF assms(1) m, of ?bs d1 b] by (simp_all add: d2 split: if_splits)
    moreover have "b \<in> set ?bs" using b(2) \<open>dget (dk_files d1) b \<noteq> None\<close> f1 by (simp add: backup_paths_set)
    ultimately show ?thesis by (metis Un_iff append_take_drop_id set_append)
  qed
  moreover have "?n \<in> set (backup_paths p d')" using new n by (simp add: backup_paths_set)
  ultimately show ?thesis using new by blast
qed

lemma save_quiet:
  assumes "no_faults env" "je_dumps env v = Inr t" "\<And>v u. je_loads env u = Some v \<Longrightarrow> \<exists>t. je_dumps env v = Inr t"
  shows "fst (save_json env p v d) = Inr ()"
proof -
  have caught: "caught_json e" if "read_valid_json env p v d = (Inl e, d1)" for e d1
    using that
    by (cases "je_fault env (dk_ops d)"; cases "dget (dk_files d) p")
      (auto simp: read_valid_json_def read_file_def caught_json_def is_value_kind_def os_error_def split: option.splits if_splits)
  have rot: "fst (rotate_backup env p c d1) = Inr ()" if "je_dumps env c = Inr s" for c d1 s
    using atomic_write_quiet [OF assms(1) that] drop_oldest_quiet [OF assms(1)]
    by (auto simp: rotate_backup_def Let_def try_then_def split: prod.split sum.split dest!: arg_cong [of _ _ fst])
  have written: "fst (atomic_write env p v x) = Inr ()" for x by (rule atomic_write_quiet [OF assms(1,2)])
  show ?thesis
  proof (cases "p \<in> set (dkeys (dk_files d))")
    case True
    obtain r d1 where read: "read_valid_json env p v d = (r, d1)" by fastforce
    show ?thesis
    proof (cases r)
      case (Inl e)
      with True read caught written show ?thesis by (simp add: save_json_def)
    next
      case (Inr c)
      then obtain s where "je_dumps env c = Inr s" using read_valid_loads read assms(3) by blast
      then obtain d2 where "rotate_backup env p c d1 = (Inr (), d2)" using rot by (metis prod.collapse)
      with True read Inr written show ?thesis by (simp add: save_json_def)
    qed
  qed (simp add: save_json_def written)
qed

text \<open>A save keeps at most the configured number of backups of the file.\<close>

theorem backups_bounded:
  assumes "no_faults env" "names_ok env p" "je_dumps env v = Inr t" "\<And>v u. je_loads env u = Some v \<Longrightarrow> \<exists>t. je_dumps env v = Inr t"
  shows "card (set (backup_paths p (snd (save_json env p v d)))) \<le> max (max_backups env) (card (set (backup_paths p d)))"
proof -
  have written: "card (set (backup_paths p (snd (atomic_write env p v x)))) \<le> card (set (backup_paths p x))" for x
  proof (rule card_mono)
    obtain d' where w: "atomic_write env p v x = (Inr (), d')"
      using atomic_write_quiet [OF assms(1,3), of p x] by (cases "atomic_write env p v x") auto
    show "set (backup_paths p (snd (atomic_write env p v x))) \<subseteq> set (backup_paths p x)"
    proof
      fix b
      assume "b \<in> set (backup_paths p (snd (atomic_write env p v x)))"
      then have b: "dget (dk_files d') b \<noteq> None" "starts_with (backup_prefix p) b" by (simp_all add: w backup_paths_set)
      then have "b \<noteq> p" using backup_longer by blast
      with atomic_write_done(2) [OF w assms(3) this b(1)] b show "b \<in> set (backup_paths p x)" by (simp add: backup_paths_set)
    qed
  qed simp
  show ?thesis
  proof (cases "p \<in> set (dkeys (dk_files d))")
    case True
    obtain r d1 where read: "read_valid_json env p v d = (r, d1)" by fastforce
    then have f1: "backup_paths p d1 = backup_paths p d" using read_valid_files by (simp add: backup_paths_def)
    show ?thesis
    proof (cases r)
      case (Inl e)
      with True read written [of d1] f1 show ?thesis by (auto simp: save_json_def)
    next
      case (Inr c)
      obtain s where "je_dumps env c = Inr s" using assms(4) read_valid_loads [OF read [unfolded Inr]] by blast
      from rotation_leaves [OF assms(1,2) this assms(3) True read [unfolded Inr]] obtain n where
        "set (backup_paths p (snd (save_json env p v d))) \<subseteq>
          insert n (set (drop (Suc (length (backup_paths p d)) - max_backups env) (backup_paths p d)))" by blast
      then have "card (set (backup_paths p (snd (save_json env p v d)))) \<le>
          card (insert n (set (drop (Suc (length (backup_paths p d)) - max_backups env) (backup_paths p d))))"
        by (intro card_mono) simp_all
      also have "\<dots> \<le> Suc (card (set (drop (Suc (length (backup_paths p d)) - max_backups env) (backup_paths p d))))"
        by (rule card_insert_le_m1) simp_all
      also have "card (set (drop (Suc (length (backup_paths p d)) - max_backups env) (backup_paths p d))) \<le>
          length (drop (Suc (length (backup_paths p d)) - max_backups env) (backup_paths p d))" by (rule card_length)
      finally show ?thesis by (auto simp: max_backups_def)
    qed
  qed (use written [of d] in \<open>simp add: save_json_def\<close>)
qed



text \<open>A read of a good file that fails once is taken for damage: an older version replaces the good one.\<close>

lemma unreadable_file_rolled_back:
  assumes "je_fault env (dk_ops d)" "\<And>n. n \<noteq> dk_ops d \<Longrightarrow> \<not> je_fault env n" "dget (dk_files d) p = Some r"
    and "rev (backup_paths p d) = b # bs" "dget (dk_files d) b = Some s" "je_loads env s = Some c" "same_type v c" "je_dumps env c = Inr t"
  shows "fst (load_json env p v d) = Inr c" "dget (dk_files (snd (load_json env p v d))) p = Some t"
proof -
  let ?d1 = "d\<lparr>dk_ops := Suc (dk_ops d)\<rparr>" and ?d2 = "d\<lparr>dk_ops := Suc (Suc (dk_ops d))\<rparr>"
  have p: "p \<in> set (dkeys (dk_files d))" using assms(3) dget_Some_iff [of "dk_files d" p] by blast
  have "read_valid_json env p v d = (Inl os_error, ?d1)" using assms(1) by (simp add: read_valid_json_def read_file_def)
  moreover have "rev (backup_paths p ?d1) = b # bs" using assms(4) by (simp add: backup_paths_def)
  moreover have "read_valid_json env b v ?d1 = (Inr c, ?d2)"
    using assms(2,5-7) by (simp add: read_valid_json_def read_file_def)
  moreover obtain d' where w: "atomic_write env p c ?d2 = (Inr (), d')"
  proof -
    have "fst (atomic_write env p c ?d2) = Inr ()"
      using assms(2,8) by (simp add: atomic_write_def Let_def fill_and_replace_def write_file_def replace_file_def file_op_def)
    then show thesis using that by (metis prod.collapse)
  qed
  ultimately have "load_json env p v d = (Inr c, d')"
    using p by (simp add: load_json_def load_json_result_def caught_json_def os_error_def)
  with atomic_write_done(1) [OF w assms(8)] show "fst (load_json env p v d) = Inr c"
    "dget (dk_files (snd (load_json env p v d))) p = Some t" by simp_all
qed

section \<open>A disk\<close>

text \<open>Truth values are written as t and f.\<close>

definition bool_dumps :: "pyval \<Rightarrow> exn + string" where
  "bool_dumps v = (case v of PBool b \<Rightarrow> Inr (if b then ''t'' else ''f'') | _ \<Rightarrow> Inl (Exn TypeError []))"

definition bool_loads :: "string \<Rightarrow> pyval option" where
  "bool_loads t = (if t = ''t'' then Some (PBool True) else if t = ''f'' then Some (PBool False) else None)"

definition bool_env :: json_env where
  "bool_env = \<lparr>je_loads = bool_loads, je_dumps = bool_dumps, je_fault = (\<lambda>_. False), je_uuid = (\<lambda>_. ''u''),
     je_time_ns = (\<lambda>_. 1000000000000000000), je_max_backups = 3\<rparr>"

lemma bool_env: "no_faults bool_env" "names_ok bool_env ''a.json''" "je_dumps bool_env v = Inr t \<Longrightarrow> je_loads bool_env t = Some v"
  by (auto simp: bool_env_def no_faults_def names_ok_def bool_dumps_def bool_loads_def split: pyval.splits if_splits)

definition first_disk :: disk where
  "first_disk = \<lparr>dk_files = [(''a.json'', ''t'')], dk_ops = 0\<rparr>"

theorem saved_value_reads_back_witness:
  "fst (load_json bool_env ''a.json'' (PBool True) (snd (save_json bool_env ''a.json'' (PBool False) first_disk))) = Inr (PBool False)"
proof (rule saved_value_reads_back [OF _ bool_env(3)])
  show "fst (save_json bool_env ''a.json'' (PBool False) first_disk) = Inr ()"
    by (rule save_quiet [OF bool_env(1)]) (auto simp: bool_env_def bool_dumps_def bool_loads_def split: if_splits)
qed (simp_all add: same_type_def bool_env_def)

theorem backups_bounded_witness:
  "card (set (backup_paths ''a.json'' (snd (save_json bool_env ''a.json'' (PBool False) first_disk)))) \<le> 3"
proof -
  have "card (set (backup_paths ''a.json'' (snd (save_json bool_env ''a.json'' (PBool False) first_disk)))) \<le>
    max (max_backups bool_env) (card (set (backup_paths ''a.json'' first_disk)))"
    by (rule backups_bounded [OF bool_env(1,2)]) (auto simp: bool_env_def bool_dumps_def bool_loads_def split: if_splits)
  then show ?thesis by (simp add: max_backups_def bool_env_def backup_paths_def first_disk_def starts_with_def backup_prefix_def)
qed


end
