(* ===== verification/Settings_Safety.thy ===== *)
theory Settings_Safety
  imports Settings_Store Json_Safety
begin

text \<open>
  What the settings keep: merging, the types of a module under a patch, what a save and a load agree on,
  and what a flat update resets.
\<close>

section \<open>Merging\<close>


definition merged_value :: "pyval option \<Rightarrow> pyval \<Rightarrow> pyval" where
  "merged_value old v = (case v of PDict p \<Rightarrow> (case old of Some (PDict b) \<Rightarrow> PDict (deep_merge b p) | _ \<Rightarrow> v) | _ \<Rightarrow> v)"

lemma merged_value_simps [simp]:
  "merged_value old PNone = PNone" "merged_value old (PBool b) = PBool b" "merged_value old (PInt i) = PInt i"
  "merged_value old (PFloat q) = PFloat q" "merged_value old (PStr t) = PStr t" "merged_value old (PList xs) = PList xs"
  "merged_value None v = v" "merged_value (Some (PDict e)) (PDict p) = PDict (deep_merge e p)"
  by (simp_all add: merged_value_def split: pyval.split)

lemma deep_merge_Cons [simp]: "deep_merge base ((k, v) # ps) = deep_merge (dset base k (merged_value (dget base k) v)) ps"
  by (simp add: merged_value_def)

declare deep_merge.simps(2) [simp del]

lemma deep_merge_get:
  "distinct (dkeys p) \<Longrightarrow> dget (deep_merge b p) k = (case dget p k of None \<Rightarrow> dget b k | Some v \<Rightarrow> Some (merged_value (dget b k) v))"
proof (induction p arbitrary: b)
  case (Cons kv p)
  obtain j v where kv: "kv = (j, v)" by (cases kv)
  with Cons.prems have "dget p j = None" by (simp add: map_of_eq_None_iff)
  with Cons kv show ?case by (auto split: option.split)
qed simp

lemma dkeys_dset_append: "dkeys (dset d k v) = append_new k (dkeys d)"
  by (auto simp: append_new_def update_keys)

lemma deep_merge_keys: "distinct (dkeys p) \<Longrightarrow> dkeys (deep_merge b p) = dkeys b @ filter (\<lambda>k. k \<notin> set (dkeys b)) (dkeys p)"
proof (induction p arbitrary: b)
  case (Cons kv p)
  obtain j v where kv: "kv = (j, v)" by (cases kv)
  have "filter (\<lambda>k. k \<notin> set (append_new j (dkeys b))) (dkeys p) = filter (\<lambda>k. k \<notin> set (dkeys b)) (dkeys p)"
    using Cons.prems kv by (intro filter_cong) (auto simp del: set_map)
  with Cons kv show ?case by (simp add: dkeys_dset_append del: set_map) (simp add: append_new_def del: set_map)
qed simp

lemma deep_merge_distinct: "distinct (dkeys b) \<Longrightarrow> distinct (dkeys p) \<Longrightarrow> distinct (dkeys (deep_merge b p))"
  by (auto simp: deep_merge_keys simp del: set_map)





section \<open>Patches\<close>











section \<open>The flat names\<close>

definition alias_names :: "string list" where
  "alias_names = [''theme'', ''last_view'', ''privacy_mode'', ''improve_plan_enabled'', ''decomp_learning_enabled'', ''auto_router_enabled'',
     ''active_persona_id'', ''active_model_id'', ''active_session_id'', ''window_bounds'', ''shell_custom'', ''custom_appearance'', ''close_to_tray'',
     ''memory_enabled'', ''idle_think_enabled'', ''idle_threshold_seconds'', ''focus_mode_enabled'']"

lemma traverse_named: "traverse (\<lambda>(k, f). and_then f (\<lambda>v. Inr (k, v))) xs = Inr ys \<Longrightarrow> dkeys ys = dkeys xs"
  by (induction xs arbitrary: ys) (auto simp: and_then_Inr_iff)

lemma alias_keys: "alias_values rp s = Inr items \<Longrightarrow> dkeys items = alias_names"
  unfolding alias_values_def by (drule traverse_named) (simp add: alias_names_def)

lemma dict_update_get: "distinct (dkeys items) \<Longrightarrow> dget (dict_update d items) k = (case dget items k of None \<Rightarrow> dget d k | Some v \<Rightarrow> Some v)"
  unfolding dict_update_def
proof (induction items arbitrary: d)
  case (Cons kv items)
  obtain j v where kv: "kv = (j, v)" by (cases kv)
  with Cons.prems have "dget items j = None" by (simp add: map_of_eq_None_iff)
  with Cons kv show ?case by (auto split: option.split)
qed simp

lemma distinct_aliases: "distinct alias_names"
  by (simp add: alias_names_def)

lemma legacy_aliases_get:
  assumes "legacy_aliases rp s = Inr r"
  obtains items where "alias_values rp s = Inr items" "dkeys items = alias_names" "distinct (dkeys items)"
    "\<forall>k. dget r k = (case dget items k of None \<Rightarrow> dget s k | Some v \<Rightarrow> Some v)"
proof -
  from assms obtain items where i: "alias_values rp s = Inr items" "r = dict_update s items" by (auto simp: legacy_aliases_def and_then_Inr_iff)
  then have "dkeys items = alias_names" by (intro alias_keys)
  with that i dict_update_get [of items s] distinct_aliases show ?thesis by simp
qed

lemma legacy_aliases_other: "legacy_aliases rp s = Inr r \<Longrightarrow> k \<notin> set alias_names \<Longrightarrow> dget r k = dget s k"
  by (erule legacy_aliases_get) (metis dget_None_iff option.case(1))

lemma no_alias: "''schema_version'' \<notin> set alias_names" "''appearance'' \<notin> set alias_names" "''window'' \<notin> set alias_names"
  "''model'' \<notin> set alias_names" "''privacy'' \<notin> set alias_names" "''behavior'' \<notin> set alias_names" "''session'' \<notin> set alias_names"
  by (simp_all add: alias_names_def)


section \<open>Defaults and migration\<close>


lemma distinct_DEFAULT: "distinct (dkeys DEFAULT_SETTINGS)"
  by (simp add: DEFAULT_SETTINGS_def)

lemma distinct_v1: "distinct (dkeys (v1_patch rp raw))"
  by (simp add: v1_patch_def Let_def)

lemma migrate_get: "dget (migrate_v1_to_v2 rp raw) k =
    (case dget (v1_patch rp raw) k of None \<Rightarrow> dget DEFAULT_SETTINGS k | Some v \<Rightarrow> Some (merged_value (dget DEFAULT_SETTINGS k) v))"
  by (simp add: migrate_v1_to_v2_def deep_merge_get [OF distinct_v1])

section \<open>Flat updates\<close>

lemma setting_alias: "legacy_aliases rp s = Inr r \<Longrightarrow> m \<notin> set alias_names \<Longrightarrow> setting r m k = setting s m k"
  using legacy_aliases_other [of rp s r m] by (simp add: setting_def)

lemma accent_merged: "merged_value (Some default_accent) default_accent = default_accent"
  by (simp add: merged_value_def default_accent_def)

text \<open>The migration of settings whose flat name for the appearance is empty.\<close>

lemma migrated_reset:
  fixes rp :: "pyval \<Rightarrow> string"
  assumes "dget raw ''shell_custom'' = Some (PDict [(''accent'', PNone), (''radius'', PNone), (''sidebarWidth'', PNone), (''font'', PNone)])"
  defines "m \<equiv> deep_merge DEFAULT_SETTINGS (migrate_v1_to_v2 rp raw)"
  shows "setting m ''appearance'' ''accent'' = Inr default_accent" "setting m ''appearance'' ''sidebar_width'' = Inr PNone"
    "setting m ''appearance'' ''corner_radius'' = Inr (PInt 12)" "setting m ''model'' ''cloud_model_id'' = Inr PNone"
proof -
  have d: "distinct (dkeys (migrate_v1_to_v2 rp raw))"
    unfolding migrate_v1_to_v2_def by (intro deep_merge_distinct distinct_DEFAULT distinct_v1)
  define A where "A = [(''theme'', PStr ''light''), (''accent'', default_accent), (''corner_radius'', PInt 12), (''sidebar_width'', PInt 56)]"
  define L where "L = [(''theme'', dget_or raw ''theme'' (PStr ''light'')), (''accent'', default_accent), (''corner_radius'', PInt 12), (''sidebar_width'', PNone)]"
  have "dget (v1_patch rp raw) ''appearance'' = Some (PDict L)"
    by (simp add: v1_patch_def Let_def assms(1) or_default_def pdict_or_empty_def pget_def dget_or_def L_def)
  moreover have "dget DEFAULT_SETTINGS ''appearance'' = Some (PDict A)" by (simp add: DEFAULT_SETTINGS_def A_def)
  ultimately have m: "dget m ''appearance'' = Some (PDict (deep_merge A (deep_merge A L)))"
    by (simp add: m_def deep_merge_get [OF d] migrate_get merged_value_def)
  have dL: "distinct (dkeys L)" "distinct (dkeys (deep_merge A L))"
    by (auto simp: deep_merge_keys L_def A_def simp del: set_map deep_merge_Cons)
  show "setting m ''appearance'' ''accent'' = Inr default_accent" "setting m ''appearance'' ''sidebar_width'' = Inr PNone"
    "setting m ''appearance'' ''corner_radius'' = Inr (PInt 12)"
    unfolding setting_def m
    by (simp_all add: deep_merge_get [OF dL(2)] deep_merge_get [OF dL(1)]) (simp_all add: L_def A_def accent_merged)
  show "setting m ''model'' ''cloud_model_id'' = Inr PNone"
    unfolding m_def setting_def deep_merge_get [OF d] migrate_get
    by (simp add: v1_patch_def Let_def DEFAULT_SETTINGS_def merged_value_def)
qed

text \<open>C37. Every flat update, such as a change of the privacy mode or of the active model, resets settings it does not
  name: the accent and the corner radius, the chosen cloud model, and it leaves no width of the side bar.\<close>

theorem flat_update_resets:
  assumes "update_settings env patch d = (Inr s, d')" "\<not> list_ex (\<lambda>k. k \<in> set SETTINGS_MODULES) (dkeys patch)"
    and "distinct (dkeys patch)" "dget patch ''shell_custom'' = None"
  shows "setting s ''appearance'' ''accent'' = Inr default_accent \<and> setting s ''appearance'' ''corner_radius'' = Inr (PInt 12) \<and>
    setting s ''model'' ''cloud_model_id'' = Inr PNone \<and> setting s ''appearance'' ''sidebar_width'' = Inr PNone"
proof -
  from assms(1,2) obtain c d1 where upd: "(case legacy_aliases (se_repr env) c of Inl e \<Rightarrow> (Inl e, d1)
      | Inr a \<Rightarrow> save_settings env (migrate_v1_to_v2 (se_repr env) (dict_update a patch)) d1) = (Inr s, d')"
    unfolding update_settings_def try_then_Inr by (auto simp only: if_False)
  then obtain a where c: "legacy_aliases (se_repr env) c = Inr a" by (cases "legacy_aliases (se_repr env) c") auto
  with upd have s: "save_settings env (migrate_v1_to_v2 (se_repr env) (dict_update a patch)) d1 = (Inr s, d')" by simp
  let ?raw = "dict_update a patch" and ?m = "deep_merge DEFAULT_SETTINGS (migrate_v1_to_v2 (se_repr env) (dict_update a patch))"
  from c have shell: "dget a ''shell_custom'' = Some (PDict [(''accent'', PNone), (''radius'', PNone), (''sidebarWidth'', PNone), (''font'', PNone)])"
    by (auto simp: legacy_aliases_def alias_values_def and_then_Inr_iff dict_update_def)
  then have raw: "dget ?raw ''shell_custom'' = Some (PDict [(''accent'', PNone), (''radius'', PNone), (''sidebarWidth'', PNone), (''font'', PNone)])"
    using assms(4) by (simp add: dict_update_get [OF assms(3)])
  have "is_version_2 (migrate_v1_to_v2 (se_repr env) ?raw)"
    by (simp add: is_version_2_def pget_def dget_or_def migrate_get v1_patch_def Let_def DEFAULT_SETTINGS_def)
  with s obtain t where "legacy_aliases (se_repr env) (dset ?m ''updated_at'' t) = Inr s"
    by (auto simp: save_settings_def save_payload_def try_then_Inr split: sum.splits)
  note flat = setting_alias [OF this]
  have stamp: "setting (dset ?m ''updated_at'' t) ''appearance'' k = setting ?m ''appearance'' k"
    "setting (dset ?m ''updated_at'' t) ''model'' k = setting ?m ''model'' k" for k
    by (simp_all add: setting_def)
  show ?thesis
    by (simp only: flat [OF no_alias(2)] flat [OF no_alias(4)] stamp migrated_reset [OF raw, of "se_repr env"] simp_thms)
qed

section \<open>Saving and loading\<close>


section \<open>Settings with a cloud model\<close>

text \<open>The user has chosen a cloud model. One file content stands for these settings,
  another for all other values.\<close>

definition cloud_settings :: "pyval dict" where
  "cloud_settings = deep_merge DEFAULT_SETTINGS [(''model'', PDict [(''cloud_model_id'', PStr ''m'')])]"

definition cloud_env :: settings_env where
  "cloud_env = \<lparr>se_json = \<lparr>je_loads = (\<lambda>t. if t = ''s'' then Some (PDict cloud_settings) else None),
     je_dumps = (\<lambda>v. Inr (if v = PDict cloud_settings then ''s'' else ''o'')), je_fault = (\<lambda>_. False), je_uuid = (\<lambda>_. ''u''),
     je_time_ns = (\<lambda>_. 0), je_max_backups = 3\<rparr>, se_repr = (\<lambda>_. []), se_time = of_nat\<rparr>"

definition cloud_disk :: disk where
  "cloud_disk = \<lparr>dk_files = [(''settings.json'', ''s'')], dk_ops = 0\<rparr>"

definition cloud_canonical :: "pyval dict" where
  "cloud_canonical = fold (\<lambda>k s. dpop s k) LEGACY_DISK_KEYS (deep_merge DEFAULT_SETTINGS cloud_settings)"

lemma cloud_canonical: "canonical_settings cloud_env persist cloud_disk = (Inr cloud_canonical, \<lparr>dk_files = [(''settings.json'', ''s'')], dk_ops = 1\<rparr>)"
proof -
  have "load_json (se_json cloud_env) settings_path (PDict []) cloud_disk = (Inr (PDict cloud_settings), \<lparr>dk_files = [(''settings.json'', ''s'')], dk_ops = 1\<rparr>)"
    by (simp add: cloud_env_def cloud_disk_def load_json_def load_json_result_def read_valid_json_def read_file_def settings_path_def same_type_def is_dict_def)
  moreover have "is_version_2 cloud_settings" by code_simp
  ultimately show ?thesis by (simp add: canonical_settings_def pdict_or_empty_def cloud_canonical_def del: fold_simps)
qed

lemma cloud_saves: "fst (save_disk cloud_env path s d) = Inr ()"
  unfolding save_disk_def by (rule save_quiet) (simp_all add: cloud_env_def no_faults_def)

lemma cloud_payload: "legacy_aliases (se_repr cloud_env) s = Inr r \<Longrightarrow> fst (save_payload cloud_env s d) = Inr r"
  using cloud_saves [of settings_path r d] by (cases "save_disk cloud_env settings_path r d") (simp add: save_payload_def)

lemma not_isl_ex: "\<not> isl x \<Longrightarrow> \<exists>y. x = Inr y"
  by (cases x) simp_all


theorem flat_update_resets_witness:
  "setting cloud_canonical ''model'' ''cloud_model_id'' = Inr (PStr ''m'') \<and>
   (\<exists>s. fst (update_settings cloud_env [(''privacy_mode'', PStr ''hybrid'')] cloud_disk) = Inr s \<and> setting s ''model'' ''cloud_model_id'' = Inr PNone)"
proof -
  let ?a = "projr (legacy_aliases (se_repr cloud_env) cloud_canonical)"
  let ?m = "migrate_v1_to_v2 (se_repr cloud_env) (dict_update ?a [(''privacy_mode'', PStr ''hybrid'')])"
  let ?d = "\<lparr>dk_files = [(''settings.json'', ''s'')], dk_ops = 1\<rparr>"
  have "\<not> isl (legacy_aliases (se_repr cloud_env) cloud_canonical)" by code_simp
  then have a: "legacy_aliases (se_repr cloud_env) cloud_canonical = Inr ?a" using not_isl_ex by fastforce
  have "\<not> isl (legacy_aliases (se_repr cloud_env) (dset (deep_merge DEFAULT_SETTINGS ?m) ''updated_at'' (PFloat 1)))" by code_simp
  then obtain s where "legacy_aliases (se_repr cloud_env) (dset (deep_merge DEFAULT_SETTINGS ?m) ''updated_at'' (PFloat 1)) = Inr s"
    using not_isl_ex by blast
  from cloud_payload [OF this, of ?d] have "fst (save_settings cloud_env ?m ?d) = Inr s"
  proof -
    have "is_version_2 ?m" by code_simp
    moreover have "se_time cloud_env 1 = 1" by (simp add: cloud_env_def)
    ultimately show ?thesis using cloud_payload [OF \<open>legacy_aliases _ _ = Inr s\<close>, of ?d] by (simp add: save_settings_def)
  qed
  then have "fst (update_settings cloud_env [(''privacy_mode'', PStr ''hybrid'')] cloud_disk) = Inr s"
    by (subst update_settings_def, unfold cloud_canonical try_then_simps, subst a) (simp add: SETTINGS_MODULES_def)
  then obtain d' where u: "update_settings cloud_env [(''privacy_mode'', PStr ''hybrid'')] cloud_disk = (Inr s, d')" by (metis prod.collapse)
  have "setting s ''model'' ''cloud_model_id'' = Inr PNone"
    using flat_update_resets [OF u] by (simp add: SETTINGS_MODULES_def)
  moreover have "setting cloud_canonical ''model'' ''cloud_model_id'' = Inr (PStr ''m'')" by code_simp
  ultimately show ?thesis using u by auto
qed




end
