(* ===== verification/Spec2Isabelle.thy ===== *)
theory Spec2Isabelle
  imports Dag_Run Plan_Snapshot Skill_Stages Skill_Breaker Plugin_Fiber State_Manager Plan_Runs
    Job_Dispatch Event_Stream Algo_Tools Subagent_Scheduler Tool_Safety Sample_Safety Goal_Safety
    Memory_Bundle Plan_Repo Calculator_Laws Decomposer_Safety Settings_Safety
begin

text \<open>
  A verification library of the core of the offline companion, a desktop assistant written in
  Python under \<open>src/offline_companion\<close>. A goal becomes a plan, a graph of steps; the plan
  orchestrator runs the steps whose dependencies are satisfied, asks for consent, checks the
  evidence a step brings, repairs failures and keeps everything in snapshots. Around it are the
  state manager, the job scheduler on top of the message router, the event streams that record
  what happened, the plugins, the sub-agents and the tools.

  Conventions. A Python dictionary is the list of its items in insertion order, a dynamic value
  is a \<open>pyval\<close>, text is the list of its UTF-8 bytes, a float is a rational, an exception is a
  value of \<open>exn\<close> in the left half of a sum (\<open>Py_Prelude\<close>, \<open>Py_Values\<close>). An SQL table is the list
  of its rows. Code outside the sources (models, handlers, executors, gateways, \<open>json.loads\<close>,
  \<open>uuid4\<close>, the clock) is an argument; one that may answer differently in each call gets the
  number of the call. What leaves a component is written to a log in its state, so that a
  property can speak about the order of calls.

  Plans.
  \<^item> \<open>Plan_Context\<close>: steps, statuses and \<open>TaskContext\<close> of \<open>core/plan_orchestrator.py\<close>; \<open>Plan_Frame\<close>
    what each method leaves alone.
  \<^item> \<open>Dag_Validate\<close>, \<open>Dag_Propagate\<close>, \<open>Dag_Engine\<close>: \<open>core/plan_dag_engine.py\<close>, its depth-first search,
    the propagation of failures and the loop \<open>run_until_blocked\<close>. \<open>Dag_Run\<close> states the contract of a
    step executor as the locale \<open>step_executor\<close> and shows that the loop returns, that a step runs only
    when it may, how often it is attempted and what the status at the end means. The loop takes
    fuel; the number of steps that are not final is enough, and the theorem of termination says so.
  \<^item> \<open>Plan_Snapshot\<close>: \<open>core/plan_snapshot.py\<close>, with the round trip of a well-typed context.
  \<^item> \<open>Skill_Stages\<close>: the tracker of stages, the hard gate and the tool that advances them, against
    the locale \<open>stage_tracker\<close>; \<open>Skill_Breaker\<close>: the circuit breaker of \<open>SkillInvoker\<close> and its two users.
  \<^item> \<open>Plan_World\<close>, \<open>Plan_Gateway\<close>, \<open>Plan_Routing\<close>, \<open>Plan_Orchestrator\<close>, \<open>Plan_Operations\<close>: the world of a
    plan and the operations of \<open>core/plan_gateway.py\<close>, \<open>core/fallback_controller.py\<close>,
    \<open>shell/routed_plan_invoker.py\<close>, \<open>core/plan_subagent_dispatch.py\<close> and \<open>PlanOrchestrator\<close>.
    \<open>Plan_Guarantees\<close> interprets \<open>step_executor\<close> on the executors of the orchestrator and shows what
    follows: runs return, consent and gate are respected, the store always has the plan in memory.
    \<open>Plan_Runs\<close> evaluates runs in which the gate or a retry fails; \<open>Plan_Samples\<close> has small plans.

  From goals to plans.
  \<^item> \<open>Text_Patterns\<close>: a backtracking matcher with the rules of Python's \<open>re\<close> for the patterns the sources
    use, sound and complete for the language of a pattern.
  \<^item> \<open>Calculator\<close>: \<open>core/calculator.py\<close>, numerals, expressions and decimal arithmetic; \<open>Calculator_Laws\<close> shows
    that numerals read back, and that a result is exact, rounded to 64 digits, or an exception.
  \<^item> \<open>Plan_Templates\<close>: the templates of \<open>core/plan_decomposer.py\<close> and the conversion of raw steps;
    \<open>Goal_Gates\<close>: its gates, its built-in plans and its comparison of a plan with the goal; \<open>Llm_Decomposer\<close>:
    \<open>core/llm_decomposer.py\<close>; \<open>Plan_Decomposer\<close>: \<open>PlanDecomposer.decide\<close> with its retries. \<open>Decomposer_Safety\<close>
    shows what an accepted plan has, how often the model is asked, what is learned, and when the
    templates make a valid graph.

  Services.
  \<^item> \<open>State_Manager\<close>: \<open>core/state_manager.py\<close>; the audit log replays to the table, restarts keep
    records, and the locale \<open>versioned_store\<close> is the contract of conditional writes.
  \<^item> \<open>Cron_Expression\<close>, \<open>Job_Scheduler\<close>: \<open>shell/job_scheduler.py\<close>; the search for the next minute finds
    the first, and a task is in the hands of at most one worker. \<open>Message_Router\<close>:
    \<open>shell/message_router.py\<close> and \<open>shared/messages.py\<close>; \<open>Job_Dispatch\<close> composes the two.
  \<^item> \<open>Event_Stream\<close>: \<open>core/event_stream\<close>; what recovery restores after a crash, and what it loses.
  \<^item> \<open>Plugin_Config\<close>, \<open>Plugin_Topo\<close>, \<open>Plugin_Fiber\<close>: \<open>core/lifecycle\<close>; parsing, load order, resources.
  \<^item> \<open>Auto_Router\<close>: the routing decision of \<open>shell/auto_router.py\<close>.
  \<^item> \<open>Subagent_Prompt\<close>, \<open>Subagent_Scheduler\<close>: \<open>core/subagent_scheduler.py\<close>; what a sub-agent can reach,
    when its review approves, how long its prompt is.
  \<^item> \<open>Consent_Gateway\<close>, \<open>Tool_Registry\<close>, \<open>Tool_Invoker\<close>: \<open>shell/outbound_manager/a3_gateway.py\<close> and
    \<open>shell/tool_registry\<close>; \<open>Tool_Safety\<close> shows which tools run and which decisions are recorded.
  \<^item> \<open>Algo_Booth\<close>, \<open>Algo_Tools\<close>: \<open>core/algorithm_tools.py\<close>; each algorithm against its specification.

  What is remembered.
  \<^item> \<open>Memory_Chunks\<close>: the table of memories and its operations, \<open>core/memory_lifecycle/fts_ops.py\<close>; the
    goals and the samples below are rows of it.
  \<^item> \<open>Memory_Bundle\<close>: export and import of \<open>core/memory_lifecycle/manager.py\<close>; what arrives and what does not.
  \<^item> \<open>Sample_Text\<close>, \<open>Sample_Library\<close>, \<open>Sample_Lifecycle\<close>, \<open>Sample_Retriever\<close>:
    \<open>core/decomposition_sample_library.py\<close>, its measure of similarity, repository, state machine,
    retrieval and maintenance. \<open>Sample_Safety\<close> shows that no automatic step overrides a decision of the
    user, that a candidate is stored once, that retrieval keeps its budget.
  \<^item> \<open>Goal_Manager\<close>: \<open>core/goal_manager\<close> and the attention guard; \<open>Goal_Safety\<close> shows which reminders are shown.
  \<^item> \<open>Plan_Repo\<close>: \<open>storage/plan_repo.py\<close>, the plans of the desktop. The main connection is opened with
    \<open>isolation_level=None\<close>: each statement commits by itself, and an exception undoes nothing.

  \<^item> \<open>Json_Store\<close>: \<open>storage/json_state_store.py\<close> on a disk whose accesses may fail; \<open>Json_Safety\<close> shows that a save
    is all or nothing and that a damaged file is replaced by the version before. \<open>Settings_Store\<close>:
    \<open>storage/settings_store.py\<close> on top of it; \<open>Settings_Safety\<close>: what patches, saves and flat updates keep and lose.

  Loops end by a measure (budgets of calls and attempts, unvisited nodes, queue lengths) or by the
  structure of their argument; the only fuel is that of \<open>run_until_blocked\<close>.

  Not modelled: persona, emotion and their prompts, the recall and the extraction of memories, knowledge
  retrieval, embeddings by a model and the full-text index, the calls of models and of HTTP, the desktop
  host with its windows and handlers, process start-up and seccomp. They are input and output, or
  have no contract beyond the text they produce; the manifest lists each with its reason. Threads
  are steps: an operation is atomic where the code holds its lock.
\<close>

end
